(* ===== verification/Bmc_Prelude.thy ===== *)
theory Bmc_Prelude
  imports Main "HOL-Library.Word"
begin

text \<open>
  What every component of the development shares: the machine types, byte buffers as the code
  uses them (reads from the zero-filled request buffer, writes through a moving \<open>data\<close> pointer
  into the response buffer), the little-endian encodings, the request and response records of
  include/ipmi/ipmi.hpp, the completion codes, and the result type for C functions that return
  an error code or run into undefined behaviour.
\<close>

unbundle bit_operations_syntax

type_synonym u8 = "8 word"
type_synonym u16 = "16 word"
type_synonym u32 = "32 word"

named_theorems bmc_simps \<open>unfolding rules of the handlers\<close>
named_theorems buf_simps \<open>lengths and contents of byte buffers\<close>

section \<open>Results of C functions\<close>

text \<open>
  \<open>Ret x\<close>: the function returned on its success path, with the values of its out-parameters.
  \<open>Fail rc\<close>: it returned the error code \<open>rc\<close>. \<open>Ub\<close>: the source performs an access outside an
  object (or another operation C++ leaves undefined), so nothing is known of what follows.
\<close>

datatype 'a cres = Ret 'a | Fail int | Ub

definition is_ret :: "'a cres \<Rightarrow> bool" where
  "is_ret r \<longleftrightarrow> (case r of Ret _ \<Rightarrow> True | _ \<Rightarrow> False)"

lemma is_ret_simps [simp]: "is_ret (Ret x)" "\<not> is_ret (Fail e)" "\<not> is_ret Ub"
  by (simp_all add: is_ret_def)

section \<open>Byte buffers\<close>

text \<open>
  A request's data as the handlers read it: \<open>req_buf\<close> is zero initialised before the message is
  copied in (KETI-Edge/msg_session.cpp), so a byte past the message reads as 0.
\<close>

definition byte_at :: "u8 list \<Rightarrow> nat \<Rightarrow> u8" where
  "byte_at d i = (if i < length d then d ! i else 0)"

definition bytes_at :: "u8 list \<Rightarrow> nat \<Rightarrow> nat \<Rightarrow> u8 list" where
  "bytes_at d i n = map (\<lambda>k. byte_at d (i + k)) [0..<n]"

text \<open>
  Writing \<open>bs\<close> at offset \<open>k\<close> of a buffer. A write past the end of the buffer makes the list
  longer, so \<open>length\<close> being unchanged is exactly the absence of an overflow.
\<close>

definition write_at :: "nat \<Rightarrow> u8 list \<Rightarrow> u8 list \<Rightarrow> u8 list" where
  "write_at k bs buf = take k buf @ bs @ drop (k + length bs) buf"

lemma byte_at_nth [buf_simps]: "i < length d \<Longrightarrow> byte_at d i = d ! i"
  by (simp add: byte_at_def)

lemma byte_at_beyond [buf_simps]: "length d \<le> i \<Longrightarrow> byte_at d i = 0"
  by (simp add: byte_at_def)

lemma byte_at_Cons_0 [simp]: "byte_at (x # xs) 0 = x"
  by (simp add: byte_at_def)

lemma byte_at_Cons_Suc [simp]: "byte_at (x # xs) (Suc i) = byte_at xs i"
  by (simp add: byte_at_def)

lemma byte_at_Cons_numeral [simp]:
  "byte_at (x # xs) (numeral n) = byte_at xs (pred_numeral n)"
  by (simp add: byte_at_def numeral_eq_Suc)

lemma byte_at_Cons_1 [simp]: "byte_at (x # xs) 1 = byte_at xs 0"
  by (simp add: byte_at_def)

lemma byte_at_Nil [simp]: "byte_at [] i = 0"
  by (simp add: byte_at_def)

lemma length_bytes_at [simp]: "length (bytes_at d i n) = n"
  by (simp add: bytes_at_def)

lemma nth_bytes_at [simp]: "k < n \<Longrightarrow> bytes_at d i n ! k = byte_at d (i + k)"
  by (simp add: bytes_at_def)

lemma bytes_at_expand:
  "bytes_at d i 0 = []" "bytes_at d i (Suc n) = byte_at d i # bytes_at d (Suc i) n"
  "bytes_at d i (numeral m) = byte_at d i # bytes_at d (Suc i) (pred_numeral m)"
proof -
  show zero: "bytes_at d i 0 = []" by (simp add: bytes_at_def)
  show suc: "bytes_at d i (Suc n) = byte_at d i # bytes_at d (Suc i) n" for n
    by (simp add: bytes_at_def upt_conv_Cons map_Suc_upt [symmetric] del: upt_Suc)
  show "bytes_at d i (numeral m) = byte_at d i # bytes_at d (Suc i) (pred_numeral m)"
    by (simp add: numeral_eq_Suc suc)
qed

lemma bytes_at_0_all [buf_simps]: "bytes_at d 0 (length d) = d"
  by (rule nth_equalityI) (simp_all add: byte_at_def)

lemma length_write_at [buf_simps]:
  "k + length bs \<le> length buf \<Longrightarrow> length (write_at k bs buf) = length buf"
  by (simp add: write_at_def)

lemma length_write_at_max:
  "k \<le> length buf \<Longrightarrow> length (write_at k bs buf) = max (length buf) (k + length bs)"
  by (simp add: write_at_def max_def)

lemma write_at_in_bounds_iff:
  "k \<le> length buf \<Longrightarrow> length (write_at k bs buf) = length buf \<longleftrightarrow> k + length bs \<le> length buf"
  by (auto simp: write_at_def)

lemma nth_write_at_hit [buf_simps]:
  "k \<le> length buf \<Longrightarrow> k \<le> i \<Longrightarrow> i < k + length bs \<Longrightarrow> write_at k bs buf ! i = bs ! (i - k)"
  by (simp add: write_at_def nth_append) linarith

lemma nth_write_at_miss [buf_simps]:
  "k + length bs \<le> length buf \<Longrightarrow> i < k \<or> k + length bs \<le> i \<Longrightarrow> i < length buf
    \<Longrightarrow> write_at k bs buf ! i = buf ! i"
  by (auto simp: write_at_def nth_append)

lemma take_write_at_0 [simp]: "take (length bs) (write_at 0 bs buf) = bs"
  by (simp add: write_at_def)

lemma take_write_at_hit [buf_simps]:
  "k \<le> length buf \<Longrightarrow> take (length bs) (drop k (write_at k bs buf)) = bs"
  by (simp add: write_at_def)

lemma write_at_empty [simp]: "write_at k [] buf = buf"
  by (simp add: write_at_def)

section \<open>Little-endian encodings\<close>

definition lo8 :: "int \<Rightarrow> u8" where
  "lo8 n = word_of_int n"

text \<open>The two bytes \<open>n & 0xFF\<close> and \<open>(n >> 8) & 0xFF\<close> the handlers emit for an \<open>int\<close>.\<close>

definition le16 :: "int \<Rightarrow> u8 list" where
  "le16 n = [lo8 n, lo8 (n div 256)]"

text \<open>The four bytes an \<open>int\<close> or a 32-bit time stamp occupies in memory (little-endian ARM).\<close>

definition le32 :: "u32 \<Rightarrow> u8 list" where
  "le32 w = [ucast w, ucast (drop_bit 8 w), ucast (drop_bit 16 w), ucast (drop_bit 24 w)]"

definition of_le32 :: "u8 list \<Rightarrow> u32" where
  "of_le32 bs = ucast (byte_at bs 0) OR push_bit 8 (ucast (byte_at bs 1))
     OR push_bit 16 (ucast (byte_at bs 2)) OR push_bit 24 (ucast (byte_at bs 3))"

definition int_le32 :: "int \<Rightarrow> u8 list" where
  "int_le32 n = le32 (word_of_int n)"

definition of_int_le32 :: "u8 list \<Rightarrow> int" where
  "of_int_le32 bs = sint (of_le32 bs)"

lemma length_le16 [simp]: "length (le16 n) = 2"
  by (simp add: le16_def)

lemma length_le32 [simp]: "length (le32 w) = 4"
  by (simp add: le32_def)

lemma length_int_le32 [simp]: "length (int_le32 n) = 4"
  by (simp add: int_le32_def)

lemma of_le32_le32 [simp]: "of_le32 (le32 w) = w"
proof (rule bit_word_eqI)
  fix n assume "n < LENGTH(32)"
  then have n: "n < 32" by simp
  then consider "n < 8" | "8 \<le> n" "n < 16" | "16 \<le> n" "n < 24" | "24 \<le> n" by linarith
  then show "bit (of_le32 (le32 w)) n = bit w n"
    using n by cases (auto simp: of_le32_def le32_def bit_or_iff bit_ucast_iff bit_drop_bit_eq
      bit_push_bit_iff)
qed

lemma of_int_le32_int_le32 [simp]:
  "- (2 ^ 31) \<le> n \<Longrightarrow> n < 2 ^ 31 \<Longrightarrow> of_int_le32 (int_le32 n) = n"
  by (simp add: of_int_le32_def int_le32_def signed_of_int signed_take_bit_int_eq_self)

lemma uint_lo8: "uint (lo8 n) = n mod 256"
  by (simp add: lo8_def uint_word_of_int)

lemma le16_decode:
  "0 \<le> n \<Longrightarrow> n < 65536 \<Longrightarrow> uint (le16 n ! 0) + 256 * uint (le16 n ! 1) = n"
  by (simp add: le16_def uint_lo8)

lemma le16_inj: "le16 m = le16 n \<Longrightarrow> 0 \<le> m \<Longrightarrow> m < 65536 \<Longrightarrow> 0 \<le> n \<Longrightarrow> n < 65536 \<Longrightarrow> m = n"
  using le16_decode [of m] le16_decode [of n] by simp

lemma byte_pair_or: "push_bit 8 (uint (a :: u8)) OR uint (b :: u8) = 256 * uint a + uint b"
proof -
  have "push_bit 8 (uint a) OR uint b = push_bit 8 (uint a) + uint b"
  proof (rule disjunctive_add [symmetric])
    fix n show "\<not> bit (push_bit 8 (uint a)) n \<or> \<not> bit (uint b) n"
      using bit_uint_iff [of b n] by (auto simp: bit_push_bit_iff)
  qed
  then show ?thesis by (simp add: push_bit_eq_mult)
qed

lemma byte_pair_le16:
  assumes "0 \<le> n" and "n < 65536"
  shows "push_bit 8 (uint (lo8 (n div 256))) OR uint (lo8 n) = n"
  using le16_decode [OF assms] by (simp add: byte_pair_or le16_def)

lemma int_le32_small:
  "0 \<le> n \<Longrightarrow> n < 256 \<Longrightarrow> int_le32 n = [lo8 n, 0, 0, 0]"
proof -
  assume n: "0 \<le> n" "n < 256"
  have hi: "drop_bit k (word_of_int n :: u32) = 0" if "8 \<le> k" for k
  proof -
    have "uint (drop_bit k (word_of_int n :: u32)) = drop_bit k (take_bit 32 n)"
      by (simp add: unsigned_drop_bit_eq uint_word_of_int take_bit_eq_mod)
    also have "\<dots> = n div 2 ^ k"
      using n by (simp add: drop_bit_eq_div take_bit_int_eq_self)
    also have "\<dots> = 0"
    proof -
      have "(2::int) ^ 8 \<le> 2 ^ k" using that by (rule power_increasing) simp
      then show ?thesis using n by simp
    qed
    finally show ?thesis by (simp add: unsigned_eq_0_iff)
  qed
  have "ucast (word_of_int n :: u32) = lo8 n"
    by (rule bit_word_eqI) (simp add: lo8_def bit_ucast_iff bit_word_of_int_iff)
  then show ?thesis by (simp add: int_le32_def le32_def hi)
qed

lemma uint_less_int_iff: "uint x < int n \<longleftrightarrow> unat x < n"
  by (metis of_nat_less_iff of_nat_unat)

lemma uint_le_255: "uint (x :: u8) \<le> 255"
  using uint_lt2p [of x] by simp

lemma byte_low_only: "drop_bit 8 (uint (a :: u8)) OR uint (b :: u8) = uint b"
  using uint_le_255 [of a] by (simp add: drop_bit_eq_div)

lemma unat_le_255: "unat (x :: u8) \<le> 255"
proof -
  have "unat x < 2 ^ LENGTH(8)" by (rule unsigned_less)
  then show ?thesis by simp
qed

section \<open>Requests and responses\<close>

text \<open>\<open>ipmi_req_t\<close> and \<open>ipmi_res_t\<close> of include/ipmi/ipmi.hpp; \<open>r_len\<close> is the \<open>*res_len\<close> the
  handlers set next to the response. \<open>r_data\<close> is the data area of \<open>res_buf\<close>: 128 bytes less the
  three header bytes.\<close>

record ipmi_req =
  q_netfn :: u8
  q_cmd :: u8
  q_data :: "u8 list"

record ipmi_res =
  r_netfn :: u8
  r_cmd :: u8
  r_cc :: u8
  r_data :: "u8 list"
  r_len :: u8

abbreviation req_byte :: "ipmi_req \<Rightarrow> nat \<Rightarrow> u8" where
  "req_byte q i \<equiv> byte_at (q_data q) i"

abbreviation req_bytes :: "ipmi_req \<Rightarrow> nat \<Rightarrow> nat \<Rightarrow> u8 list" where
  "req_bytes q i n \<equiv> bytes_at (q_data q) i n"

definition res_data_size :: nat where
  "res_data_size = 125"

definition blank_res :: ipmi_res where
  "blank_res = \<lparr>r_netfn = 0, r_cmd = 0, r_cc = 0, r_data = replicate 125 0, r_len = 0\<rparr>"

definition set_cc :: "u8 \<Rightarrow> ipmi_res \<Rightarrow> ipmi_res" where
  "set_cc c r = r\<lparr>r_cc := c\<rparr>"

definition set_len :: "u8 \<Rightarrow> ipmi_res \<Rightarrow> ipmi_res" where
  "set_len n r = r\<lparr>r_len := n\<rparr>"

text \<open>\<open>*data++ = b\<close> repeated from \<open>&res->data[0]\<close>.\<close>

definition put :: "u8 list \<Rightarrow> ipmi_res \<Rightarrow> ipmi_res" where
  "put bs r = r\<lparr>r_data := write_at 0 bs (r_data r)\<rparr>"

text \<open>The same followed by \<open>*res_len = data - &res->data[0]\<close>.\<close>

definition emit :: "u8 list \<Rightarrow> ipmi_res \<Rightarrow> ipmi_res" where
  "emit bs r = set_len (word_of_nat (length bs)) (put bs r)"

text \<open>\<open>res->cc = c\<close> and then the data.\<close>

definition reply :: "u8 \<Rightarrow> u8 list \<Rightarrow> ipmi_res \<Rightarrow> ipmi_res" where
  "reply c bs r = emit bs (set_cc c r)"

lemma res_sel [simp]:
  "r_cc (set_cc c r) = c" "r_data (set_cc c r) = r_data r" "r_len (set_cc c r) = r_len r"
  "r_netfn (set_cc c r) = r_netfn r" "r_cmd (set_cc c r) = r_cmd r"
  "r_len (set_len n r) = n" "r_cc (set_len n r) = r_cc r" "r_data (set_len n r) = r_data r"
  "r_netfn (set_len n r) = r_netfn r" "r_cmd (set_len n r) = r_cmd r"
  "r_data (put bs r) = write_at 0 bs (r_data r)" "r_cc (put bs r) = r_cc r"
  "r_len (put bs r) = r_len r" "r_netfn (put bs r) = r_netfn r" "r_cmd (put bs r) = r_cmd r"
  "r_data (emit bs r) = write_at 0 bs (r_data r)" "r_cc (emit bs r) = r_cc r"
  "r_len (emit bs r) = word_of_nat (length bs)"
  "r_netfn (emit bs r) = r_netfn r" "r_cmd (emit bs r) = r_cmd r"
  "r_data (reply c bs r) = write_at 0 bs (r_data r)" "r_cc (reply c bs r) = c"
  "r_len (reply c bs r) = word_of_nat (length bs)"
  "r_netfn (reply c bs r) = r_netfn r" "r_cmd (reply c bs r) = r_cmd r"
  by (simp_all add: set_cc_def set_len_def put_def emit_def reply_def)

text \<open>What the message layer sends: the first \<open>r_len\<close> bytes of the data area.\<close>

definition res_payload :: "ipmi_res \<Rightarrow> u8 list" where
  "res_payload r = take (unat (r_len r)) (r_data r)"

lemma res_payload_emit [simp]:
  "length bs < 256 \<Longrightarrow> res_payload (emit bs r) = bs"
  by (simp add: res_payload_def unat_of_nat)

lemma res_payload_reply [simp]:
  "length bs < 256 \<Longrightarrow> res_payload (reply c bs r) = bs"
  by (simp add: reply_def)

definition res_fits :: "ipmi_res \<Rightarrow> bool" where
  "res_fits r \<longleftrightarrow> length (r_data r) = 125"

lemma res_fits_set_cc [simp]: "res_fits (set_cc c r) = res_fits r"
  by (simp add: res_fits_def)

lemma res_fits_set_len [simp]: "res_fits (set_len n r) = res_fits r"
  by (simp add: res_fits_def)

lemma res_fits_put [simp]: "res_fits r \<Longrightarrow> length bs \<le> 125 \<Longrightarrow> res_fits (put bs r)"
  by (simp add: res_fits_def length_write_at)

lemma res_fits_emit [simp]: "res_fits r \<Longrightarrow> length bs \<le> 125 \<Longrightarrow> res_fits (emit bs r)"
  by (simp add: emit_def)

lemma res_fits_reply [simp]: "res_fits r \<Longrightarrow> length bs \<le> 125 \<Longrightarrow> res_fits (reply c bs r)"
  by (simp add: reply_def)

lemma res_fits_blank [simp]: "res_fits blank_res"
  by (simp add: res_fits_def blank_res_def)

section \<open>Completion codes\<close>

abbreviation (input) CC_SUCCESS :: u8 where "CC_SUCCESS \<equiv> 0x00"
abbreviation (input) CC_INVALID_PARAM :: u8 where "CC_INVALID_PARAM \<equiv> 0x80"
abbreviation (input) CC_SEL_ERASE_PROG :: u8 where "CC_SEL_ERASE_PROG \<equiv> 0x81"
abbreviation (input) CC_POWER_OOL :: u8 where "CC_POWER_OOL \<equiv> 0x84"
abbreviation (input) CC_POWER_CORRECTION :: u8 where "CC_POWER_CORRECTION \<equiv> 0x85"
abbreviation (input) CC_POWER_SAMPLE_TIME :: u8 where "CC_POWER_SAMPLE_TIME \<equiv> 0x89"
abbreviation (input) CC_UNKNOWN :: u8 where "CC_UNKNOWN \<equiv> 0xC0"
abbreviation (input) CC_INVALID_CMD :: u8 where "CC_INVALID_CMD \<equiv> 0xC1"
abbreviation (input) CC_OUT_OF_SPACE :: u8 where "CC_OUT_OF_SPACE \<equiv> 0xC4"
abbreviation (input) CC_PARAM_OUT_OF_RANGE :: u8 where "CC_PARAM_OUT_OF_RANGE \<equiv> 0xC9"
abbreviation (input) CC_DISABLED :: u8 where "CC_DISABLED \<equiv> 0xD6"
abbreviation (input) CC_UNSPECIFIED_ERROR :: u8 where "CC_UNSPECIFIED_ERROR \<equiv> 0xFF"

end
