(* ===== verification/Contracts.thy ===== *)
theory Contracts
  imports Bmc_Prelude
begin

text \<open>
  The interfaces between components, as locales. \<open>reservation\<close>: the reservation counter that
  guards multi-step access to a repository; the SEL (libs/sel/sel.cpp) and the SDR repository
  (libs/sdr/sdr.cpp) each keep one. \<open>bounded_log\<close>: what the event generators and the storage
  commands rely on when they add to, delete from and clear the event log. \<open>buffered_handler\<close>:
  what the message layer relies on when it hands its fixed response buffer to a handler.
\<close>

section \<open>Reservations\<close>

locale reservation =
  fixes reserve :: "'s \<Rightarrow> int \<times> 's"
    and current :: "'s \<Rightarrow> int"
  assumes reserve_value:
      "fst (reserve s) = (if current s = 0xFFFE then 1 else current s + 1)"
    and reserve_current: "current (snd (reserve s)) = fst (reserve s)"
begin

definition valid_rsv :: "'s \<Rightarrow> bool" where
  "valid_rsv s \<longleftrightarrow> 1 \<le> current s \<and> current s \<le> 0xFFFE"

lemma reserve_range: "valid_rsv s \<Longrightarrow> 1 \<le> fst (reserve s) \<and> fst (reserve s) \<le> 0xFFFE"
  by (simp add: valid_rsv_def reserve_value)

lemma reserve_valid: "valid_rsv s \<Longrightarrow> valid_rsv (snd (reserve s))"
  using reserve_range by (simp add: valid_rsv_def reserve_current)

lemma reserve_fresh: "fst (reserve s) \<noteq> current s"
  by (simp add: reserve_value)

text \<open>A client's reservation after \<open>n\<close> further reservations by others.\<close>

primrec reserve_n :: "nat \<Rightarrow> 's \<Rightarrow> 's" where
  "reserve_n 0 s = s"
| "reserve_n (Suc n) s = snd (reserve (reserve_n n s))"

lemma reserve_n_current:
  "valid_rsv s \<Longrightarrow> current (reserve_n n s) = (current s - 1 + int n) mod 0xFFFE + 1"
proof (induction n)
  case 0
  then show ?case by (simp add: valid_rsv_def)
next
  case (Suc n)
  let ?c = "(current s - 1 + int n) mod 0xFFFE"
  have IH: "current (reserve_n n s) = ?c + 1" by (rule Suc.IH [OF Suc.prems])
  have c: "0 \<le> ?c" "?c < 0xFFFE" by simp_all
  have "current (reserve_n (Suc n) s) = (if ?c + 1 = 0xFFFE then 1 else ?c + 1 + 1)"
    by (simp add: reserve_current reserve_value IH)
  also have "\<dots> = (?c + 1) mod 0xFFFE + 1"
    using c by (auto simp: mod_pos_pos_trivial)
  also have "(?c + 1) mod 0xFFFE = (current s - 1 + int (Suc n)) mod 0xFFFE"
    by (simp add: mod_simps algebra_simps)
  finally show ?case by simp
qed

text \<open>A stale reservation does not become current again before the counter has gone through all
  of its 65534 values.\<close>

lemma stale_reservation:
  assumes "valid_rsv s" and "0 < n" and "n < 0xFFFE"
  shows "current (reserve_n n s) \<noteq> current s"
proof
  assume eq: "current (reserve_n n s) = current s"
  let ?a = "current s - 1"
  have a: "0 \<le> ?a" "?a < 0xFFFE" using assms(1) by (auto simp: valid_rsv_def)
  from eq have "(?a + int n) mod 0xFFFE = ?a mod 0xFFFE"
    using reserve_n_current [OF assms(1), of n] a by (simp add: mod_pos_pos_trivial)
  then have "0xFFFE dvd int n"
    by (simp add: mod_eq_dvd_iff)
  with assms(2,3) show False by (auto dest: zdvd_imp_le)
qed

lemma reserve_n_valid: "valid_rsv s \<Longrightarrow> valid_rsv (reserve_n n s)"
  by (induction n) (simp_all add: reserve_valid)

end

section \<open>A bounded log\<close>

text \<open>Deleting at an index past the last entry drops the last entry.\<close>

definition log_delete :: "nat \<Rightarrow> 'e list \<Rightarrow> 'e list" where
  "log_delete i xs = (if i < length xs then take i xs @ drop (Suc i) xs else butlast xs)"

datatype 'e log_cmd = Add 'e | Delete nat

definition log_step :: "nat \<Rightarrow> nat \<Rightarrow> 'e \<Rightarrow> 'e log_cmd \<Rightarrow> 'e list \<Rightarrow> 'e list" where
  "log_step cap warn marker c xs =
     (case c of
        Add e \<Rightarrow> (if length xs = cap then xs
                 else if length xs = warn then xs @ [e, marker] else xs @ [e])
      | Delete i \<Rightarrow> (if xs = [] then xs else log_delete i xs))"

definition log_run :: "nat \<Rightarrow> nat \<Rightarrow> 'e \<Rightarrow> 'e log_cmd list \<Rightarrow> 'e list \<Rightarrow> 'e list" where
  "log_run cap warn marker cs xs = fold (log_step cap warn marker) cs xs"

lemma length_log_delete: "xs \<noteq> [] \<Longrightarrow> length (log_delete i xs) = length xs - 1"
  by (auto simp: log_delete_def)

lemma log_step_bound:
  "length xs \<le> cap \<Longrightarrow> warn + 2 \<le> cap \<Longrightarrow> length (log_step cap warn m c xs) \<le> cap"
  by (auto simp: log_step_def length_log_delete split: log_cmd.splits)

lemma log_run_bound:
  "length xs \<le> cap \<Longrightarrow> warn + 2 \<le> cap \<Longrightarrow> length (log_run cap warn m cs xs) \<le> cap"
  unfolding log_run_def by (induction cs arbitrary: xs) (simp_all add: log_step_bound)

text \<open>The provider's contract: an invariant, the entries it stands for, and what adding and
  deleting do to them. Deleting from an empty log is outside the contract.\<close>

locale bounded_log =
  fixes inv :: "'s \<Rightarrow> bool"
    and entries :: "'s \<Rightarrow> 'e list"
    and add :: "'s \<Rightarrow> 'm \<Rightarrow> 's"
    and del :: "'s \<Rightarrow> nat \<Rightarrow> 's"
    and payload :: "'m \<Rightarrow> 'e"
    and okm :: "'m \<Rightarrow> bool"
    and cap :: nat and warn :: nat and marker :: 'e
  assumes warn_cap: "warn + 2 \<le> cap"
    and inv_bound: "inv s \<Longrightarrow> length (entries s) \<le> cap"
    and inv_add: "inv s \<Longrightarrow> okm m \<Longrightarrow> inv (add s m)"
    and entries_add: "inv s \<Longrightarrow> okm m \<Longrightarrow>
       entries (add s m) = log_step cap warn marker (Add (payload m)) (entries s)"
    and inv_del: "inv s \<Longrightarrow> entries s \<noteq> [] \<Longrightarrow> inv (del s i)"
    and entries_del: "inv s \<Longrightarrow> entries s \<noteq> [] \<Longrightarrow> entries (del s i) = log_delete i (entries s)"
begin

fun exec :: "'m log_cmd \<Rightarrow> 's \<Rightarrow> 's" where
  "exec (Add m) s = add s m"
| "exec (Delete i) s = (if entries s = [] then s else del s i)"

lemma exec_inv: "inv s \<Longrightarrow> pred_log_cmd okm c \<Longrightarrow> inv (exec c s)"
  by (cases c) (auto intro: inv_add inv_del)

lemma exec_entries:
  "inv s \<Longrightarrow> pred_log_cmd okm c \<Longrightarrow>
   entries (exec c s) = log_step cap warn marker (map_log_cmd payload c) (entries s)"
  by (cases c) (auto simp: entries_add entries_del log_step_def)

lemma run_refines:
  assumes "inv s" and "list_all (pred_log_cmd okm) cs"
  shows "inv (fold exec cs s) \<and>
    entries (fold exec cs s) = log_run cap warn marker (map (map_log_cmd payload) cs) (entries s)"
  using assms
proof (induction cs arbitrary: s)
  case Nil
  then show ?case by (simp add: log_run_def)
next
  case (Cons c cs)
  then have "inv (exec c s)" and "entries (exec c s)
      = log_step cap warn marker (map_log_cmd payload c) (entries s)"
    by (simp_all add: exec_inv exec_entries)
  with Cons.IH [of "exec c s"] Cons.prems show ?case by (simp add: log_run_def)
qed

lemma run_bound: "inv s \<Longrightarrow> list_all (pred_log_cmd okm) cs \<Longrightarrow> length (entries (fold exec cs s)) \<le> cap"
  using run_refines inv_bound by blast

end

section \<open>Handlers and the response buffer\<close>

text \<open>A command handler takes the component's state, the request and the response under
  construction; \<open>None\<close> is undefined behaviour in the handler's code.\<close>

type_synonym 's handler = "'s \<Rightarrow> ipmi_req \<Rightarrow> ipmi_res \<Rightarrow> ('s \<times> ipmi_res) option"

locale buffered_handler =
  fixes handle :: "'s \<Rightarrow> ipmi_req \<Rightarrow> ipmi_res \<Rightarrow> ('s \<times> ipmi_res) option"
    and inv :: "'s \<Rightarrow> bool"
    and okq :: "ipmi_req \<Rightarrow> bool"
  assumes handle_fits:
      "inv s \<Longrightarrow> okq q \<Longrightarrow> res_fits r \<Longrightarrow> handle s q r = Some (s', r') \<Longrightarrow> res_fits r'"
    and handle_inv:
      "inv s \<Longrightarrow> okq q \<Longrightarrow> handle s q r = Some (s', r') \<Longrightarrow> inv s'"
begin

text \<open>A sequence of requests, each with a fresh response buffer; it stops at undefined behaviour.\<close>

fun serve :: "'s \<Rightarrow> ipmi_req list \<Rightarrow> ('s \<times> ipmi_res list) option" where
  "serve s [] = Some (s, [])"
| "serve s (q # qs) =
     (case handle s q blank_res of None \<Rightarrow> None
      | Some (s', r) \<Rightarrow> (case serve s' qs of None \<Rightarrow> None | Some (s'', rs) \<Rightarrow> Some (s'', r # rs)))"

lemma serve_safe:
  assumes "inv s" and "list_all okq qs" and "serve s qs = Some (s', rs)"
  shows "inv s' \<and> list_all res_fits rs \<and> length rs = length qs"
  using assms
proof (induction qs arbitrary: s s' rs)
  case Nil
  then show ?case by simp
next
  case (Cons q qs)
  then obtain s1 r rs' where h: "handle s q blank_res = Some (s1, r)"
    and r: "serve s1 qs = Some (s', rs')" "rs = r # rs'"
    by (auto split: option.splits prod.splits)
  have "inv s1" "res_fits r"
    using Cons.prems h handle_inv handle_fits [OF _ _ res_fits_blank] by auto
  with Cons.IH [OF _ _ r(1)] Cons.prems r(2) show ?case by simp
qed

end

text \<open>The same contract for one request, so that the contract of a dispatcher is put together from
  those of the commands it selects.\<close>

definition safe_for :: "('s \<Rightarrow> bool) \<Rightarrow> 's handler \<Rightarrow> ipmi_req \<Rightarrow> bool" where
  "safe_for ok h q \<longleftrightarrow> (\<forall>s r s' r'. ok s \<longrightarrow> h s q r = Some (s', r') \<longrightarrow>
     ok s' \<and> (res_fits r \<longrightarrow> res_fits r'))"

lemma safe_forI [intro?]:
  "(\<And>s r s' r'. ok s \<Longrightarrow> h s q r = Some (s', r') \<Longrightarrow> ok s')
   \<Longrightarrow> (\<And>s r s' r'. ok s \<Longrightarrow> h s q r = Some (s', r') \<Longrightarrow> res_fits r \<Longrightarrow> res_fits r') \<Longrightarrow> safe_for ok h q"
  by (simp add: safe_for_def)

lemma safe_forD:
  "safe_for ok h q \<Longrightarrow> ok s \<Longrightarrow> h s q r = Some (s', r') \<Longrightarrow> ok s' \<and> (res_fits r \<longrightarrow> res_fits r')"
  by (simp add: safe_for_def)

lemma safe_for_frame:
  "(\<And>s r. \<exists>r'. h s q r = Some (s, r') \<and> (ok s \<longrightarrow> res_fits r \<longrightarrow> res_fits r')) \<Longrightarrow> safe_for ok h q"
  by (simp add: safe_for_def) (metis option.inject prod.inject)

end
