(* ===== verification/Sel_Log.thy ===== *)
theory Sel_Log
  imports Contracts
begin

text \<open>
  The system event log, libs/sel/sel.cpp: the header and the 256-slot array in memory, their copy
  in the file \<open>IPMI_SEL_PATH\<close>, the operations on them (count, get, add, delete, erase, reserve,
  initialise), the event generators of the chassis and the storage commands of the IPMI
  interface. Lemmas about it are in \<open>Sel_Facts\<close>.

  What the code takes from outside is part of the state record: the file (absent or its bytes),
  whether writing to it succeeds, the clock (one value per reading, so two readings of one
  operation may differ), \<open>settimeofday\<close>, the bytes of memory behind \<open>g_sel_data\<close> (which one
  routine reads) and the content of uninitialised stack variables.
\<close>

section \<open>State\<close>

abbreviation (input) SEL_RECORDS_MAX :: int where "SEL_RECORDS_MAX \<equiv> 255"
abbreviation (input) SEL_INDEX_MIN :: int where "SEL_INDEX_MIN \<equiv> 0"
abbreviation (input) SEL_INDEX_MAX :: int where "SEL_INDEX_MAX \<equiv> 255"
abbreviation (input) SEL_RSVID_MIN :: int where "SEL_RSVID_MIN \<equiv> 1"
abbreviation (input) SEL_RSVID_MAX :: int where "SEL_RSVID_MAX \<equiv> 0xFFFE"
abbreviation (input) SEL_RECID_LAST :: int where "SEL_RECID_LAST \<equiv> 0xFFFF"
abbreviation (input) SEL_DATA_OFFSET :: nat where "SEL_DATA_OFFSET \<equiv> 0x100"

text \<open>\<open>sel_hdr_t\<close>.\<close>

record sel_hdr =
  h_magic :: int
  h_version :: int
  h_begin :: int
  h_end :: int
  h_ts_add :: "u8 list"
  h_ts_erase :: "u8 list"

record sel =
  s_hdr :: sel_hdr
  s_data :: "u8 list list"
  s_rsv :: int
  s_file :: "u8 list option"
  s_writable :: bool
  s_clock :: "nat \<Rightarrow> u32"
  s_ticks :: nat
  s_settime :: "u32 \<Rightarrow> (nat \<Rightarrow> u32) option"
  s_behind :: "u8 list"
  s_junk :: "nat \<Rightarrow> u8"

abbreviation sel_begin :: "sel \<Rightarrow> int" where "sel_begin s \<equiv> h_begin (s_hdr s)"
abbreviation sel_end :: "sel \<Rightarrow> int" where "sel_end s \<equiv> h_end (s_hdr s)"

definition set_end :: "int \<Rightarrow> sel \<Rightarrow> sel" where
  "set_end e s = s\<lparr>s_hdr := (s_hdr s)\<lparr>h_end := e\<rparr>\<rparr>"

definition set_slot :: "nat \<Rightarrow> u8 list \<Rightarrow> sel \<Rightarrow> sel" where
  "set_slot i m s = s\<lparr>s_data := (s_data s)[i := m]\<rparr>"

text \<open>\<open>time_stamp_fill\<close> (libs/ipmi/ipmi.cpp): the low four bytes of the time, low byte first.\<close>

definition time_stamp_fill :: "sel \<Rightarrow> u8 list \<times> sel" where
  "time_stamp_fill s = (le32 (s_clock s (s_ticks s)), s\<lparr>s_ticks := Suc (s_ticks s)\<rparr>)"

text \<open>\<open>time_stamp_set\<close>: \<open>settimeofday\<close> either fails or replaces the clock.\<close>

definition time_stamp_set :: "u8 list \<Rightarrow> sel \<Rightarrow> int \<times> sel" where
  "time_stamp_set ts s =
     (case s_settime s (of_le32 ts) of
        None \<Rightarrow> (-1, s)
      | Some c \<Rightarrow> (0, s\<lparr>s_clock := c, s_ticks := 0\<rparr>))"

section \<open>The file\<close>

definition hdr_bytes :: "sel_hdr \<Rightarrow> u8 list" where
  "hdr_bytes h = int_le32 (h_magic h) @ int_le32 (h_version h) @ int_le32 (h_begin h)
     @ int_le32 (h_end h) @ h_ts_add h @ h_ts_erase h"

definition hdr_of_bytes :: "u8 list \<Rightarrow> sel_hdr" where
  "hdr_of_bytes b = \<lparr>h_magic = of_int_le32 (take 4 b), h_version = of_int_le32 (take 4 (drop 4 b)),
     h_begin = of_int_le32 (take 4 (drop 8 b)), h_end = of_int_le32 (take 4 (drop 12 b)),
     h_ts_add = take 4 (drop 16 b), h_ts_erase = take 4 (drop 20 b)\<rparr>"

text \<open>Writing at an offset of a file: a gap before the offset reads as zeros.\<close>

definition file_put :: "nat \<Rightarrow> u8 list \<Rightarrow> u8 list \<Rightarrow> u8 list" where
  "file_put off bs f = write_at off bs (f @ replicate (off - length f) 0)"

definition file_get_sel_hdr :: "sel \<Rightarrow> int \<times> sel" where
  "file_get_sel_hdr s =
     (case s_file s of
        None \<Rightarrow> (-1, s)
      | Some f \<Rightarrow>
          let s' = s\<lparr>s_hdr := hdr_of_bytes (write_at 0 (take 24 f) (hdr_bytes (s_hdr s)))\<rparr>
          in if length f < 24 then (-1, s') else (0, s'))"

text \<open>A file with fewer than the 4096 data bytes leaves part of the local buffer uninitialised.\<close>

definition file_get_sel_data :: "sel \<Rightarrow> unit cres \<times> sel" where
  "file_get_sel_data s =
     (case s_file s of
        None \<Rightarrow> (Fail (-1), s)
      | Some f \<Rightarrow>
          let buf = take 4096 (drop SEL_DATA_OFFSET f)
          in if buf = [] then (Fail (-1), s)
             else if length buf < 4096 then (Ub, s)
             else (Ret (), s\<lparr>s_data := map (\<lambda>i. take 16 (drop (i * 16) buf)) [0..<256]\<rparr>))"

definition file_store_sel_hdr :: "sel \<Rightarrow> int \<times> sel" where
  "file_store_sel_hdr s =
     (case s_file s of
        None \<Rightarrow> (-1, s)
      | Some f \<Rightarrow>
          if s_writable s then (0, s\<lparr>s_file := Some (file_put 0 (hdr_bytes (s_hdr s)) f)\<rparr>)
          else (-1, s))"

definition plat_sel_add_entry_record_id :: "int \<Rightarrow> u8 list \<Rightarrow> u8 list" where
  "plat_sel_add_entry_record_id recId m = write_at 0 (int_le32 recId) m"

definition file_store_sel_data :: "int \<Rightarrow> u8 list \<Rightarrow> sel \<Rightarrow> int \<times> sel" where
  "file_store_sel_data recId m s =
     (case s_file s of
        None \<Rightarrow> (-1, s)
      | Some f \<Rightarrow>
          if s_writable s
          then (0, s\<lparr>s_file := Some (file_put (SEL_DATA_OFFSET + nat recId * 16) m f)\<rparr>)
          else (-1, s))"

section \<open>Counting and reservations\<close>

text \<open>\<open>plat_sel_num_entries\<close> and \<open>plat_sel_last_rsv_id\<close> are in libs/ipmi/ipmi.cpp.\<close>

definition plat_sel_num_entries :: "sel \<Rightarrow> int" where
  "plat_sel_num_entries s =
     (if sel_begin s \<le> sel_end s then sel_end s - sel_begin s
      else sel_end s + (SEL_INDEX_MAX - sel_begin s + 1))"

definition plat_sel_last_rsv_id :: "sel \<Rightarrow> u8 list" where
  "plat_sel_last_rsv_id s =
     (if plat_sel_num_entries s = 0 then [0xFF, 0xFF] else le16 (sel_end s))"

definition plat_sel_free_space :: "sel \<Rightarrow> int" where
  "plat_sel_free_space s = SEL_RECORDS_MAX * 16 - plat_sel_num_entries s * 16"

definition plat_sel_rsv_id :: "sel \<Rightarrow> int \<times> sel" where
  "plat_sel_rsv_id s =
     (let old = s_rsv s;
          v = (if old = SEL_RSVID_MAX then SEL_RSVID_MIN else old + 1)
      in (v, s\<lparr>s_rsv := v\<rparr>))"

section \<open>Reading an entry\<close>

definition sel_lookup_index :: "sel \<Rightarrow> int \<Rightarrow> int" where
  "sel_lookup_index s rid =
     (if rid = 0 then sel_begin s
      else if rid = SEL_RECID_LAST then (if sel_end s \<noteq> 0 then sel_end s else SEL_INDEX_MAX)
      else rid)"

definition sel_next_id :: "sel \<Rightarrow> int \<Rightarrow> int" where
  "sel_next_id s rid =
     (let n = (if rid + 1 > SEL_INDEX_MAX then SEL_INDEX_MIN else rid + 1)
      in if n = sel_end s then SEL_RECID_LAST else n)"

definition plat_sel_get_entry :: "sel \<Rightarrow> int \<Rightarrow> (u8 list \<times> int) cres" where
  "plat_sel_get_entry s rid =
     (let index = sel_lookup_index s rid in
      if plat_sel_num_entries s = 0 then Fail (-1)
      else if index < SEL_INDEX_MIN \<or> index > SEL_INDEX_MAX then Fail (-1)
      else if sel_begin s < sel_end s \<and> (index < sel_begin s \<or> index \<ge> sel_end s) then Fail (-1)
      else if sel_begin s > sel_end s \<and> index \<ge> sel_end s \<and> index < sel_begin s then Fail (-1)
      else if rid < 0 \<or> rid \<ge> 256 then Ub
      else Ret (s_data s ! nat rid, sel_next_id s rid))"

section \<open>Adding an entry\<close>

text \<open>\<open>plat_sel_add_entry\<close> up to the call of \<open>add_to_sel_full\<close>: the new record id and whether
  the log has reached the warning level.\<close>

definition plat_sel_add_core :: "sel \<Rightarrow> u8 list \<Rightarrow> (int \<times> bool) cres \<times> sel" where
  "plat_sel_add_core s m =
     (if plat_sel_num_entries s = SEL_RECORDS_MAX then (Fail (-1), s)
      else
        let full_msg = (plat_sel_num_entries s = SEL_RECORDS_MAX - 2);
            (ts, s1) = time_stamp_fill s;
            rec_id = sel_end s1;
            m1 = plat_sel_add_entry_record_id rec_id (write_at 3 ts m)
        in if rec_id < 0 \<or> rec_id \<ge> 256 then (Ub, s1)
           else
             let s2 = set_end (rec_id + 1) (set_slot (nat rec_id) m1 s1);
                 (ts2, s3) = time_stamp_fill s2;
                 s4 = s3\<lparr>s_hdr := (s_hdr s3)\<lparr>h_ts_add := ts2\<rparr>\<rparr>;
                 (rc1, s5) = file_store_sel_hdr s4
             in if rc1 \<noteq> 0 then (Fail (-1), s5)
                else
                  let (rc2, s6) = file_store_sel_data rec_id m1 s5
                  in if rc2 \<noteq> 0 then (Fail (-1), s6) else (Ret (rec_id, full_msg), s6))"

text \<open>The entry \<open>add_to_sel_full\<close> builds.\<close>

definition sel_full_entry :: "u8 list \<Rightarrow> u8 list" where
  "sel_full_entry ts = [0, 0, 2] @ ts @ [0x20, 0, 4, 0x10, 0x72, 0x6F, 0x14, 0, 0]"

lemma file_store_sel_hdr_frame [simp]:
  "s_hdr (snd (file_store_sel_hdr s)) = s_hdr s" "s_data (snd (file_store_sel_hdr s)) = s_data s"
  "s_rsv (snd (file_store_sel_hdr s)) = s_rsv s"
  "s_writable (snd (file_store_sel_hdr s)) = s_writable s"
  by (simp_all add: file_store_sel_hdr_def split: option.split)

lemma file_store_sel_data_frame [simp]:
  "s_hdr (snd (file_store_sel_data i m s)) = s_hdr s"
  "s_data (snd (file_store_sel_data i m s)) = s_data s"
  "s_rsv (snd (file_store_sel_data i m s)) = s_rsv s"
  "s_writable (snd (file_store_sel_data i m s)) = s_writable s"
  by (simp_all add: file_store_sel_data_def split: option.split)

lemma time_stamp_fill_frame [simp]:
  "s_hdr (snd (time_stamp_fill s)) = s_hdr s" "s_data (snd (time_stamp_fill s)) = s_data s"
  "s_rsv (snd (time_stamp_fill s)) = s_rsv s" "s_file (snd (time_stamp_fill s)) = s_file s"
  "s_writable (snd (time_stamp_fill s)) = s_writable s"
  "length (fst (time_stamp_fill s)) = 4"
  by (simp_all add: time_stamp_fill_def)

lemma set_end_frame [simp]:
  "sel_end (set_end e s) = e" "sel_begin (set_end e s) = sel_begin s"
  "s_data (set_end e s) = s_data s" "s_rsv (set_end e s) = s_rsv s"
  "s_file (set_end e s) = s_file s" "s_writable (set_end e s) = s_writable s"
  by (simp_all add: set_end_def)

lemma set_slot_frame [simp]:
  "s_hdr (set_slot i m s) = s_hdr s" "s_data (set_slot i m s) = (s_data s)[i := m]"
  "s_rsv (set_slot i m s) = s_rsv s" "s_file (set_slot i m s) = s_file s"
  "s_writable (set_slot i m s) = s_writable s"
  by (simp_all add: set_slot_def)

lemma plat_sel_add_core_Ret:
  assumes "plat_sel_add_core s m = (Ret (rid, full), s')"
  shows "sel_begin s' = sel_begin s \<and> sel_end s' = sel_end s + 1 \<and> rid = sel_end s
    \<and> full = (plat_sel_num_entries s = 253) \<and> plat_sel_num_entries s \<noteq> 255
    \<and> 0 \<le> sel_end s \<and> sel_end s < 256"
  using assms
  by (auto simp: plat_sel_add_core_def Let_def split_beta split: if_splits)

lemma add_core_warning:
  assumes "plat_sel_add_core s m = (Ret (rec_id, True), s1)" and "time_stamp_fill s1 = (ts, s2)"
  shows "plat_sel_num_entries s = 253 \<and> plat_sel_num_entries s2 \<noteq> 253"
proof -
  have "s_hdr s2 = s_hdr s1"
    using assms(2) time_stamp_fill_frame(1) [of s1] by simp
  moreover have "plat_sel_num_entries s = 253" "sel_end s1 = sel_end s + 1" "sel_begin s1 = sel_begin s"
    using plat_sel_add_core_Ret [OF assms(1)] by simp_all
  ultimately show ?thesis
    by (auto simp: plat_sel_num_entries_def split: if_splits)
qed

text \<open>\<open>plat_sel_add_entry\<close> and \<open>add_to_sel_full\<close> call each other; the second call finds one
  entry more, so the recursion stops.\<close>

function plat_sel_add_entry :: "sel \<Rightarrow> u8 list \<Rightarrow> int cres \<times> sel" where
  "plat_sel_add_entry s m =
     (case plat_sel_add_core s m of
        (Ret (rec_id, full_msg), s1) \<Rightarrow>
          if full_msg then
            let (ts, s2) = time_stamp_fill s1
            in case plat_sel_add_entry s2 (sel_full_entry ts) of
                 (Ub, s3) \<Rightarrow> (Ub, s3)
               | (_, s3) \<Rightarrow> (Ret rec_id, s3)
          else (Ret rec_id, s1)
      | (Fail e, s1) \<Rightarrow> (Fail e, s1)
      | (Ub, s1) \<Rightarrow> (Ub, s1))"
  by pat_completeness auto
termination
  by (relation "measure (\<lambda>(s, m). if plat_sel_num_entries s = 253 then 1 else 0)")
    (auto dest: add_core_warning [OF sym sym])

declare plat_sel_add_entry.simps [simp del]

section \<open>Deleting and erasing\<close>

text \<open>The write loop of \<open>file_store_all_sel_data\<close>: entry \<open>i\<close> is renumbered and then
  \<open>sizeof(g_sel_data)\<close> bytes (4096, the whole array's size) are written from its address, so the
  read runs past the array for every \<open>i > 0\<close>. The loop is given the index \<open>i\<close>, the number of
  entries to go and the file position.\<close>

fun store_all_loop :: "nat \<Rightarrow> nat \<Rightarrow> nat \<Rightarrow> sel \<Rightarrow> int \<times> sel" where
  "store_all_loop 0 i pos s = (0, s)"
| "store_all_loop (Suc n) i pos s =
     (let s1 = set_slot i (plat_sel_add_entry_record_id (int i) (s_data s ! i)) s in
      case s_file s1 of
        None \<Rightarrow> (-1, s1)
      | Some f \<Rightarrow>
          if \<not> s_writable s1 then (-1, s1)
          else
            let bytes = take 4096 (drop (i * 16) (concat (s_data s1)) @ s_behind s1)
            in store_all_loop n (Suc i) (pos + 4096) (s1\<lparr>s_file := Some (file_put pos bytes f)\<rparr>))"

definition file_store_all_sel_data :: "sel \<Rightarrow> int \<times> sel" where
  "file_store_all_sel_data s =
     (case s_file s of
        None \<Rightarrow> (-1, s)
      | Some f \<Rightarrow> store_all_loop (nat (sel_end s + 1)) 0 SEL_DATA_OFFSET s)"

text \<open>\<open>for (e = id; e < end - 1; e++) memcpy(&g_sel_data[e], &g_sel_data[e + 1], 16)\<close>.\<close>

function shift_down :: "int \<Rightarrow> int \<Rightarrow> u8 list list \<Rightarrow> u8 list list" where
  "shift_down e lim d =
     (if e < lim then shift_down (e + 1) lim (d[nat e := d ! nat (e + 1)]) else d)"
  by pat_completeness auto
termination
  by (relation "measure (\<lambda>(e, lim, d). nat (lim - e))") auto

declare shift_down.simps [simp del]

definition delete_sel_entry :: "int \<Rightarrow> sel \<Rightarrow> int \<times> sel" where
  "delete_sel_entry rid s =
     (let s1 =
        (if rid = sel_begin s then
           set_end (sel_end s - 1) (s\<lparr>s_data := shift_down rid (sel_end s - 1) (s_data s)\<rparr>)
         else if rid = sel_end s - 1 then set_end (sel_end s - 1) s
         else set_end (sel_end s - 1) (s\<lparr>s_data := shift_down rid (sel_end s - 1) (s_data s)\<rparr>));
          (rc, s2) = file_store_sel_hdr s1
      in if rc \<noteq> 0 then (-1, s2)
         else let (_, s3) = file_store_all_sel_data s2 in (0, s3))"

text \<open>The entry \<open>plat_sel_erase\<close> logs: its time stamp is set high byte first, and its last two
  bytes are never assigned.\<close>

definition sel_cleared_entry :: "u8 list \<Rightarrow> (nat \<Rightarrow> u8) \<Rightarrow> u8 list" where
  "sel_cleared_entry ts junk =
     [0, 0, 2] @ rev ts @ [0x20, 0, 4, 0x10, 0x72, 0x6F, 0x12, junk 14, junk 15]"

definition plat_sel_erase :: "int \<Rightarrow> sel \<Rightarrow> unit cres \<times> sel" where
  "plat_sel_erase rsv_id s =
     (if rsv_id \<noteq> s_rsv s then (Fail (-1), s)
      else
        let s1 = s\<lparr>s_hdr := (s_hdr s)\<lparr>h_begin := SEL_INDEX_MIN, h_end := SEL_INDEX_MIN\<rparr>\<rparr>;
            (ts, s2) = time_stamp_fill s1;
            s3 = s2\<lparr>s_hdr := (s_hdr s2)\<lparr>h_ts_erase := ts\<rparr>\<rparr>;
            (rc, s4) = file_store_sel_hdr s3
        in if rc \<noteq> 0 then (Fail (-1), s4)
           else
             let (ts2, s5) = time_stamp_fill s4
             in case plat_sel_add_entry s5 (sel_cleared_entry ts2 (s_junk s5)) of
                  (Ub, s6) \<Rightarrow> (Ub, s6)
                | (_, s6) \<Rightarrow> (Ret (), s6))"

abbreviation (input) SEL_ERASE_DONE :: u8 where "SEL_ERASE_DONE \<equiv> 1"

definition plat_sel_erase_status :: "int \<Rightarrow> sel \<Rightarrow> u8 cres" where
  "plat_sel_erase_status rsv_id s = (if rsv_id \<noteq> s_rsv s then Fail (-1) else Ret SEL_ERASE_DONE)"

section \<open>Initialisation\<close>

text \<open>Writing the 255 blank records of a new file.\<close>

fun init_records :: "nat \<Rightarrow> int \<Rightarrow> sel \<Rightarrow> int \<times> sel" where
  "init_records 0 i s = (0, s)"
| "init_records (Suc n) i s =
     (let (rc, s1) = file_store_sel_data i (replicate 16 0) s
      in if rc \<noteq> 0 then (-1, s1) else init_records n (i + 1) s1)"

definition SEL_HDR_MAGIC :: int where
  "SEL_HDR_MAGIC = 0xFBFBFBFB - 2 ^ 32"

definition plat_sel_init :: "sel \<Rightarrow> unit cres \<times> sel" where
  "plat_sel_init s =
     (case s_file s of
        Some _ \<Rightarrow>
          let (rc, s1) = file_get_sel_hdr s
          in if rc \<noteq> 0 then (Fail (-1), s1) else file_get_sel_data s1
      | None \<Rightarrow>
          if \<not> s_writable s then (Fail (-1), s)
          else
            let s1 = s\<lparr>s_file := Some [],
                       s_hdr := \<lparr>h_magic = SEL_HDR_MAGIC, h_version = 1, h_begin = SEL_INDEX_MIN,
                         h_end = SEL_INDEX_MIN, h_ts_add = replicate 4 0,
                         h_ts_erase = replicate 4 0\<rparr>\<rparr>;
                (rc, s2) = file_store_sel_hdr s1
            in if rc \<noteq> 0 then (Fail (-1), s2)
               else let (rc2, s3) = init_records 255 1 s2
                    in if rc2 \<noteq> 0 then (Fail (-1), s3) else (Ret (), s3))"

section \<open>Event generators\<close>

abbreviation (input) PEB_SENSOR_ADC_P12V_PSU1 :: u8 where "PEB_SENSOR_ADC_P12V_PSU1 \<equiv> 0x20"

text \<open>The entry the generators build from the current time: sensor type, event type and two event
  bytes.\<close>

definition sel_event :: "u8 list \<Rightarrow> u8 \<Rightarrow> u8 \<Rightarrow> u8 \<Rightarrow> u8 \<Rightarrow> u8 list" where
  "sel_event ts stype etype d1 d2 =
     [0, 0, 2] @ rev ts @ [0x20, 0, 4, stype, PEB_SENSOR_ADC_P12V_PSU1, etype, d1, d2, 0]"

definition sel_log_event :: "u8 \<Rightarrow> u8 \<Rightarrow> u8 \<Rightarrow> u8 \<Rightarrow> sel \<Rightarrow> int cres \<times> sel" where
  "sel_log_event stype etype d1 d2 s =
     (let (ts, s1) = time_stamp_fill s in plat_sel_add_entry s1 (sel_event ts stype etype d1 d2))"

definition plat_sel_test_add_entry :: "u8 \<Rightarrow> u8 \<Rightarrow> sel \<Rightarrow> int cres \<times> sel" where
  "plat_sel_test_add_entry fst_b second = sel_log_event fst_b 0x6F second 0x04"

definition plat_sel_power_reset_add_entry :: "sel \<Rightarrow> int cres \<times> sel" where
  "plat_sel_power_reset_add_entry = sel_log_event 0x23 0x6F 0xC1 0x04"

definition plat_sel_power_limit_add_entry :: "sel \<Rightarrow> int cres \<times> sel" where
  "plat_sel_power_limit_add_entry = sel_log_event 0x09 0x05 0x01 0x01"

definition plat_sel_os_off_add_entry :: "sel \<Rightarrow> int cres \<times> sel" where
  "plat_sel_os_off_add_entry = sel_log_event 0x11 0x6F 0xC2 0x04"

definition plat_sel_power_off_add_entry :: "sel \<Rightarrow> int cres \<times> sel" where
  "plat_sel_power_off_add_entry = sel_log_event 0x09 0x6F 0xC0 0x04"

definition plat_sel_power_add_entry :: "sel \<Rightarrow> int cres \<times> sel" where
  "plat_sel_power_add_entry = sel_log_event 0x08 0x6F 0xC3 0x04"

end
