(* ===== verification/Sel_Commands.thy ===== *)
theory Sel_Commands
  imports Sel_Log
begin

text \<open>
  The storage commands on the system event log (the second half of libs/sel/sel.cpp): each takes
  the log, the request and the response under construction. \<open>None\<close> is undefined behaviour.
  A branch that leaves \<open>*res_len\<close> alone in the source leaves \<open>r_len\<close> alone here.
\<close>

definition storage_get_sel_info :: "sel handler" where
  "storage_get_sel_info s q r =
     Some (s, reply CC_SUCCESS
       ([0x51] @ le16 (plat_sel_num_entries s) @ le16 (plat_sel_free_space s)
        @ h_ts_add (s_hdr s) @ h_ts_erase (s_hdr s) @ [0x02]) r)"

definition storage_rsv_sel :: "sel handler" where
  "storage_rsv_sel s q r =
     (let (rsv_id, s1) = plat_sel_rsv_id s
      in if rsv_id < 0 then Some (s1, set_cc CC_SEL_ERASE_PROG r)
         else Some (s1, reply CC_SUCCESS (le16 rsv_id) r))"

text \<open>\<open>(req->data[3] >> 8) | req->data[2]\<close>, as the source has it.\<close>

definition sel_request_record :: "ipmi_req \<Rightarrow> int" where
  "sel_request_record q = drop_bit 8 (uint (req_byte q 3)) OR uint (req_byte q 2)"

definition storage_get_sel :: "sel handler" where
  "storage_get_sel s q r =
     (case plat_sel_get_entry s (sel_request_record q) of
        Fail _ \<Rightarrow> Some (s, set_cc CC_UNSPECIFIED_ERROR r)
      | Ub \<Rightarrow> None
      | Ret (entry, next_rec_id) \<Rightarrow> Some (s, reply CC_SUCCESS (le16 next_rec_id @ entry) r))"

text \<open>The error code of a failed add: \<open>-2\<close> would mean a full log.\<close>

definition sel_add_error :: "int \<Rightarrow> u8" where
  "sel_add_error ret = (if ret = -2 then CC_OUT_OF_SPACE else CC_UNSPECIFIED_ERROR)"

definition sel_add_reply ::
    "int cres \<times> sel \<Rightarrow> (int \<Rightarrow> u8 list) \<Rightarrow> ipmi_res \<Rightarrow> (sel \<times> ipmi_res) option" where
  "sel_add_reply res enc r =
     (case res of
        (Fail e, s) \<Rightarrow> Some (s, set_cc (sel_add_error e) r)
      | (Ub, s) \<Rightarrow> None
      | (Ret record_id, s) \<Rightarrow> Some (s, reply CC_SUCCESS (enc record_id) r))"

text \<open>\<open>storage_add_event\<close>: byte 2 of the entry is not assigned.\<close>

definition event_request_entry :: "u8 \<Rightarrow> ipmi_req \<Rightarrow> u8 list" where
  "event_request_entry junk q =
     [0, 0, junk, 0x02, 0, 0, 0, 0, 0x41, req_byte q 0, req_byte q 1, req_byte q 2,
      req_byte q 3 AND 0x7F, req_byte q 4, req_byte q 5, req_byte q 6]"

definition storage_add_event :: "sel handler" where
  "storage_add_event s q r =
     sel_add_reply (plat_sel_add_entry s (event_request_entry (s_junk s 2) q)) le16 r"

definition storage_add_sel :: "sel handler" where
  "storage_add_sel s q r = sel_add_reply (plat_sel_add_entry s (req_bytes q 0 16)) le16 r"

definition storage_del_sel_entry :: "sel handler" where
  "storage_del_sel_entry s q r =
     (let (_, s1) = delete_sel_entry (uint (req_byte q 2)) s in Some (s1, reply CC_SUCCESS [] r))"

text \<open>\<open>storage_clr_sel\<close>: the local \<open>status\<close> is assigned only by the status request.\<close>

definition storage_clr_sel :: "sel handler" where
  "storage_clr_sel s q r =
     (if req_byte q 2 \<noteq> 0x43 \<or> req_byte q 3 \<noteq> 0x4C \<or> req_byte q 4 \<noteq> 0x52
      then Some (s, set_cc CC_INVALID_PARAM r)
      else
        let rsv_id = push_bit 8 (uint (req_byte q 1)) OR uint (req_byte q 0)
        in if req_byte q 5 = 0xAA then
             (case plat_sel_erase rsv_id s of
                (Ub, s1) \<Rightarrow> None
              | (Fail e, s1) \<Rightarrow> Some (s1, set_cc CC_UNSPECIFIED_ERROR r)
              | (Ret _, s1) \<Rightarrow> Some (s1, reply CC_SUCCESS [s_junk s 0] r))
           else if req_byte q 5 = 0x00 then
             (case plat_sel_erase_status rsv_id s of
                Ret status \<Rightarrow> Some (s, reply CC_SUCCESS [status] r)
              | _ \<Rightarrow> Some (s, set_cc CC_UNSPECIFIED_ERROR r))
           else Some (s, set_cc CC_INVALID_PARAM r))"

text \<open>\<open>plat_sel_time_get\<close> cannot fail, so its error branch is not reachable.\<close>

definition storage_get_time :: "sel handler" where
  "storage_get_time s q r =
     (let (ts, s1) = time_stamp_fill s in Some (s1, set_len 4 (put ts (set_cc CC_SUCCESS r))))"

definition storage_set_time :: "sel handler" where
  "storage_set_time s q r =
     (let (ret, s1) = time_stamp_set (req_bytes q 0 4) s
      in if ret \<noteq> 0 then Some (s1, set_cc CC_UNSPECIFIED_ERROR r)
         else Some (s1, set_len 0 (set_cc CC_SUCCESS r)))"

text \<open>\<open>sensor_event_get_num\<close>: the request's seven bytes go to the end of an otherwise
  uninitialised entry; the reply is the low byte of the record id.\<close>

definition sensor_event_get_num :: "sel handler" where
  "sensor_event_get_num s q r =
     sel_add_reply
       (plat_sel_add_entry s (map (s_junk s) [0..<9] @ req_bytes q 0 7))
       (\<lambda>n. [lo8 n]) r"

end
