(* ===== verification/Sel_Facts.thy ===== *)
theory Sel_Facts
  imports Sel_Commands
begin

text \<open>
  The invariant of the event log, the functional behaviour of adding and deleting on its entries,
  and the interpretations of the reservation, log and handler contracts on it. The abstract entry
  of a 16-byte record is its last nine bytes (generator, sensor, event); bytes 0 to 6 are the
  record id, record type and time stamp, which the code overwrites.
\<close>

definition sel_inv :: "sel \<Rightarrow> bool" where
  "sel_inv s \<longleftrightarrow> length (s_data s) = 256 \<and> (\<forall>i < 256. length (s_data s ! i) = 16)
     \<and> sel_begin s = 0 \<and> 0 \<le> sel_end s \<and> sel_end s \<le> 255
     \<and> 1 \<le> s_rsv s \<and> s_rsv s \<le> 0xFFFE
     \<and> length (h_ts_add (s_hdr s)) = 4 \<and> length (h_ts_erase (s_hdr s)) = 4"

definition sel_stored :: "sel \<Rightarrow> bool" where
  "sel_stored s \<longleftrightarrow> s_file s \<noteq> None \<and> s_writable s"

definition sel_entries :: "sel \<Rightarrow> u8 list list" where
  "sel_entries s = map (drop 7) (take (nat (sel_end s)) (s_data s))"

definition sel_payload :: "u8 list \<Rightarrow> u8 list" where
  "sel_payload m = drop 7 m"

lemma length_sel_entries: "sel_inv s \<Longrightarrow> length (sel_entries s) = nat (sel_end s)"
  by (auto simp: sel_inv_def sel_entries_def min_def)

lemma num_entries_inv: "sel_inv s \<Longrightarrow> plat_sel_num_entries s = sel_end s"
  by (simp add: sel_inv_def plat_sel_num_entries_def)

lemma num_entries_entries: "sel_inv s \<Longrightarrow> plat_sel_num_entries s = int (length (sel_entries s))"
  by (simp add: num_entries_inv length_sel_entries sel_inv_def)

lemma sel_inv_slot: "sel_inv s \<Longrightarrow> i < 256 \<Longrightarrow> length (s_data s ! i) = 16"
  by (simp add: sel_inv_def)

section \<open>The stored form of an entry\<close>

definition sel_stamp :: "int \<Rightarrow> u8 list \<Rightarrow> u8 list \<Rightarrow> u8 list" where
  "sel_stamp rec_id ts m = plat_sel_add_entry_record_id rec_id (write_at 3 ts m)"

lemma sel_stamp_bytes:
  assumes "length m = 16" and "length ts = 4"
  shows "sel_stamp rec_id ts m = int_le32 rec_id @ drop 1 ts @ drop 7 m"
  using assms by (simp add: sel_stamp_def plat_sel_add_entry_record_id_def write_at_def)

lemma length_sel_stamp [simp]: "length m = 16 \<Longrightarrow> length ts = 4 \<Longrightarrow> length (sel_stamp i ts m) = 16"
  by (simp add: sel_stamp_bytes)

lemma sel_stamp_payload: "length m = 16 \<Longrightarrow> length ts = 4 \<Longrightarrow> drop 7 (sel_stamp i ts m) = drop 7 m"
  by (simp add: sel_stamp_bytes)

section \<open>Adding\<close>

lemma file_store_sel_hdr_stored [simp]:
  "sel_stored s \<Longrightarrow> fst (file_store_sel_hdr s) = 0"
  "sel_stored (snd (file_store_sel_hdr s)) = sel_stored s"
  by (auto simp: file_store_sel_hdr_def sel_stored_def split: option.splits)

lemma file_store_sel_data_stored [simp]:
  "sel_stored s \<Longrightarrow> fst (file_store_sel_data i m s) = 0"
  "sel_stored (snd (file_store_sel_data i m s)) = sel_stored s"
  by (auto simp: file_store_sel_data_def sel_stored_def split: option.splits)

lemma time_stamp_fill_stored [simp]: "sel_stored (snd (time_stamp_fill s)) = sel_stored s"
  by (simp add: sel_stored_def)

lemma sel_inv_cong:
  "s_hdr t = s_hdr s \<Longrightarrow> s_data t = s_data s \<Longrightarrow> s_rsv t = s_rsv s \<Longrightarrow> sel_inv t = sel_inv s"
  by (simp add: sel_inv_def)

lemma sel_entries_cong:
  "s_hdr t = s_hdr s \<Longrightarrow> s_data t = s_data s \<Longrightarrow> sel_entries t = sel_entries s"
  by (simp add: sel_entries_def)

text \<open>What \<open>plat_sel_add_core\<close> does to a log that is not full, whatever the storage does: the
  entry is in memory even when the function reports an error.\<close>

lemma sel_add_core_memory:
  assumes inv: "sel_inv s" and m: "length m = 16" and room: "plat_sel_num_entries s \<noteq> 255"
    and s': "snd (plat_sel_add_core s m) = s'"
  shows "sel_end s' = sel_end s + 1 \<and> sel_begin s' = 0 \<and> s_rsv s' = s_rsv s
    \<and> s_data s' = (s_data s)[nat (sel_end s) := sel_stamp (sel_end s) (le32 (s_clock s (s_ticks s))) m]
    \<and> length (h_ts_add (s_hdr s')) = 4 \<and> h_ts_erase (s_hdr s') = h_ts_erase (s_hdr s)
    \<and> s_writable s' = s_writable s"
proof -
  have "0 \<le> sel_end s" "sel_end s < 256" "sel_begin s = 0"
    using inv by (auto simp: sel_inv_def)
  then show ?thesis
    using room s'
    by (auto simp: plat_sel_add_core_def Let_def split_beta sel_stamp_def time_stamp_fill_def
        set_end_def set_slot_def split: if_splits)
qed

lemma sel_add_core_inv:
  assumes "sel_inv s" and "length m = 16" and "plat_sel_num_entries s \<noteq> 255"
  shows "sel_inv (snd (plat_sel_add_core s m))"
  using sel_add_core_memory [OF assms refl] assms
  by (auto simp: sel_inv_def num_entries_inv [OF assms(1)] nth_list_update)

lemma sel_add_core_entries:
  assumes "sel_inv s" and "length m = 16" and "plat_sel_num_entries s \<noteq> 255"
  shows "sel_entries (snd (plat_sel_add_core s m)) = sel_entries s @ [drop 7 m]"
proof -
  let ?n = "nat (sel_end s)"
  have n: "?n < length (s_data s)" "0 \<le> sel_end s"
    using assms by (auto simp: sel_inv_def num_entries_inv [OF assms(1)])
  then have "nat (sel_end s + 1) = Suc ?n" by simp
  then show ?thesis
    using sel_add_core_memory [OF assms refl] assms(2) n
    by (simp add: sel_entries_def take_Suc_conv_app_nth sel_stamp_payload)
qed

lemma sel_add_core_result:
  assumes "sel_inv s" and "plat_sel_num_entries s \<noteq> 255" and "sel_stored s"
  shows "fst (plat_sel_add_core s m) = Ret (sel_end s, plat_sel_num_entries s = 253)
    \<and> sel_stored (snd (plat_sel_add_core s m))"
proof -
  have "0 \<le> sel_end s" "sel_end s < 256" using assms(1) by (auto simp: sel_inv_def)
  moreover have "sel_stored ((set_end e (set_slot i x t))\<lparr>s_hdr := h\<rparr>) = sel_stored t" for e i x t h
    by (simp add: sel_stored_def)
  moreover have "sel_stored (t\<lparr>s_hdr := h\<rparr>) = sel_stored t" for t h by (simp add: sel_stored_def)
  moreover have "sel_stored (set_end e (set_slot i x t)) = sel_stored t" for e i x t
    by (simp add: sel_stored_def)
  ultimately show ?thesis
    using assms by (simp add: plat_sel_add_core_def Let_def split_beta)
qed

lemma sel_add_core_full:
  "plat_sel_num_entries s = 255 \<Longrightarrow> plat_sel_add_core s m = (Fail (-1), s)"
  by (simp add: plat_sel_add_core_def)

lemma sel_add_core_not_Ub: "sel_inv s \<Longrightarrow> fst (plat_sel_add_core s m) \<noteq> Ub"
  by (auto simp: plat_sel_add_core_def Let_def split_beta sel_inv_def)

lemma length_sel_full_entry [simp]: "length ts = 4 \<Longrightarrow> length (sel_full_entry ts) = 16"
  by (simp add: sel_full_entry_def)

definition sel_full_marker :: "u8 list" where
  "sel_full_marker = [0x20, 0, 4, 0x10, 0x72, 0x6F, 0x14, 0, 0]"

lemma sel_full_entry_payload: "length ts = 4 \<Longrightarrow> drop 7 (sel_full_entry ts) = sel_full_marker"
  by (simp add: sel_full_entry_def sel_full_marker_def)

text \<open>Unfolding one call: below the warning level it is the core alone.\<close>

lemma sel_add_plain:
  assumes "plat_sel_num_entries s \<noteq> 253"
  shows "plat_sel_add_entry s m =
    (case plat_sel_add_core s m of
       (Ret (rec_id, _), s1) \<Rightarrow> (Ret rec_id, s1) | (Fail e, s1) \<Rightarrow> (Fail e, s1) | (Ub, s1) \<Rightarrow> (Ub, s1))"
  using assms plat_sel_add_core_Ret
  by (subst plat_sel_add_entry.simps) (fastforce split: prod.split cres.split)

lemma sel_add_snd_plain:
  "plat_sel_num_entries s \<noteq> 253 \<Longrightarrow> snd (plat_sel_add_entry s m) = snd (plat_sel_add_core s m)"
  by (simp add: sel_add_plain split: prod.split cres.split)

lemma sel_add_snd_warning:
  assumes "fst (plat_sel_add_core s m) = Ret (rec_id, True)"
  shows "snd (plat_sel_add_entry s m) =
    (let (ts, s2) = time_stamp_fill (snd (plat_sel_add_core s m))
     in snd (plat_sel_add_entry s2 (sel_full_entry ts)))"
  using assms
  by (subst plat_sel_add_entry.simps) (auto simp: Let_def split: prod.split cres.split)

lemma sel_add_snd_failed:
  assumes "fst (plat_sel_add_core s m) = Fail e"
  shows "plat_sel_add_entry s m = (Fail e, snd (plat_sel_add_core s m))"
  using assms by (subst plat_sel_add_entry.simps) (auto split: prod.split)

lemma sel_add_spec:
  assumes inv: "sel_inv s" and m: "length m = 16" and st: "sel_stored s"
  shows "sel_inv (snd (plat_sel_add_entry s m)) \<and> sel_stored (snd (plat_sel_add_entry s m))
    \<and> sel_entries (snd (plat_sel_add_entry s m))
       = log_step 255 253 sel_full_marker (Add (drop 7 m)) (sel_entries s)"
proof -
  consider (full) "plat_sel_num_entries s = 255" | (warn) "plat_sel_num_entries s = 253"
    | (plain) "plat_sel_num_entries s \<noteq> 255" "plat_sel_num_entries s \<noteq> 253" by blast
  then show ?thesis
  proof cases
    case full
    then show ?thesis
      using inv st num_entries_entries [OF inv]
      by (simp add: sel_add_snd_plain sel_add_core_full log_step_def)
  next
    case plain
    then show ?thesis
      using num_entries_entries [OF inv] sel_add_core_inv [OF inv m] sel_add_core_entries [OF inv m]
        sel_add_core_result [OF inv _ st, of m]
      by (auto simp: sel_add_snd_plain log_step_def)
  next
    case warn
    let ?s1 = "snd (plat_sel_add_core s m)"
    obtain ts s2 where fill: "time_stamp_fill ?s1 = (ts, s2)" by (cases "time_stamp_fill ?s1")
    have ne: "plat_sel_num_entries s \<noteq> 255" using warn by simp
    have s1: "sel_inv ?s1" "sel_entries ?s1 = sel_entries s @ [drop 7 m]" "sel_stored ?s1"
      using sel_add_core_inv [OF inv m ne] sel_add_core_entries [OF inv m ne]
        sel_add_core_result [OF inv ne st] by simp_all
    have ts: "length ts = 4" and s2: "sel_inv s2" "sel_entries s2 = sel_entries s @ [drop 7 m]"
      "sel_stored s2"
      using fill s1 time_stamp_fill_frame [of ?s1] time_stamp_fill_stored [of ?s1]
        sel_inv_cong [of s2 ?s1] sel_entries_cong [of s2 ?s1] by simp_all
    have n2: "plat_sel_num_entries s2 = 254"
      using num_entries_entries [OF s2(1)] s2(2) num_entries_entries [OF inv] warn by simp
    have "snd (plat_sel_add_entry s m) = snd (plat_sel_add_core s2 (sel_full_entry ts))"
      using sel_add_snd_warning [of s m "sel_end s"] sel_add_core_result [OF inv ne st] warn fill n2
      by (simp add: sel_add_snd_plain)
    then show ?thesis
      using sel_add_core_inv [OF s2(1)] sel_add_core_entries [OF s2(1)]
        sel_add_core_result [OF s2(1) _ s2(3)] n2 ts num_entries_entries [OF inv] warn s2(2)
      by (simp add: log_step_def sel_full_entry_payload)
  qed
qed

lemma sel_add_result:
  assumes inv: "sel_inv s" and st: "sel_stored s" and m: "length m = 16"
  shows "fst (plat_sel_add_entry s m) = (if plat_sel_num_entries s = 255 then Fail (-1) else Ret (sel_end s))"
proof (cases "plat_sel_num_entries s = 253")
  case False
  then show ?thesis
    using sel_add_core_result [OF inv _ st, of m] sel_add_core_full [of s m]
    by (cases "plat_sel_num_entries s = 255") (auto simp: sel_add_plain split: prod.split cres.split)
next
  case True
  then have ne: "plat_sel_num_entries s \<noteq> 255" by simp
  obtain s1 where core: "plat_sel_add_core s m = (Ret (sel_end s, True), s1)"
    using sel_add_core_result [OF inv ne st, of m] True by (metis eq_fst_iff)
  obtain ts s2 where fill: "time_stamp_fill s1 = (ts, s2)" by (cases "time_stamp_fill s1")
  have "sel_inv s2"
    using sel_add_core_inv [OF inv m ne] core fill time_stamp_fill_frame [of s1]
      sel_inv_cong [of s2 s1] by simp
  moreover have "plat_sel_num_entries s2 \<noteq> 253"
    using add_core_warning [OF core fill] by simp
  ultimately have "fst (plat_sel_add_entry s2 (sel_full_entry ts)) \<noteq> Ub"
    using sel_add_core_not_Ub [of s2 "sel_full_entry ts"]
    by (auto simp: sel_add_plain split: prod.splits cres.splits)
  then show ?thesis
    using core fill ne
    by (subst plat_sel_add_entry.simps) (auto split: prod.split cres.split)
qed

section \<open>Deleting\<close>

lemma length_shift_down [simp]: "length (shift_down e lim d) = length d"
  by (induction e lim d rule: shift_down.induct) (subst shift_down.simps, simp)

lemma nth_shift_down:
  assumes "0 \<le> e" and "lim < int (length d)" and "k < length d"
  shows "shift_down e lim d ! k = (if e \<le> int k \<and> int k < lim then d ! Suc k else d ! k)"
  using assms
proof (induction e lim d rule: shift_down.induct)
  case (1 e lim d)
  show ?case
  proof (cases "e < lim")
    case False
    then show ?thesis by (subst shift_down.simps) auto
  next
    case True
    let ?d = "d[nat e := d ! nat (e + 1)]"
    have e1: "nat (e + 1) = Suc (nat e)" using 1(2) by simp
    have "shift_down e lim d ! k = shift_down (e + 1) lim ?d ! k"
      using True by (subst shift_down.simps) simp
    also have "\<dots> = (if e + 1 \<le> int k \<and> int k < lim then ?d ! Suc k else ?d ! k)"
      using 1 True by simp
    also have "\<dots> = (if e \<le> int k \<and> int k < lim then d ! Suc k else d ! k)"
      using 1(2-4) True e1 by (auto simp: nth_list_update)
    finally show ?thesis .
  qed
qed

lemma store_all_loop_memory:
  assumes "\<forall>i < length (s_data s). length (s_data s ! i) = 16" and "store_all_loop n i pos s = (rc, s')"
  shows "s_hdr s' = s_hdr s \<and> s_rsv s' = s_rsv s \<and> s_writable s' = s_writable s
    \<and> (s_file s' = None) = (s_file s = None)
    \<and> length (s_data s') = length (s_data s)
    \<and> (\<forall>k < length (s_data s). length (s_data s' ! k) = 16 \<and> drop 7 (s_data s' ! k) = drop 7 (s_data s ! k))"
  using assms
proof (induction n i pos s rule: store_all_loop.induct)
  case (1 i pos s)
  then show ?case by auto
next
  case (2 n i pos s)
  let ?m = "plat_sel_add_entry_record_id (int i) (s_data s ! i)"
  let ?s1 = "set_slot i ?m s"
  have m: "length ?m = 16 \<and> drop 7 ?m = drop 7 (s_data s ! i)" if "i < length (s_data s)"
    using 2(2) that by (auto simp: plat_sel_add_entry_record_id_def write_at_def)
  have d1: "\<forall>k < length (s_data s). length (s_data ?s1 ! k) = 16
      \<and> drop 7 (s_data ?s1 ! k) = drop 7 (s_data s ! k)"
  proof (intro allI impI)
    fix k assume "k < length (s_data s)"
    then show "length (s_data ?s1 ! k) = 16 \<and> drop 7 (s_data ?s1 ! k) = drop 7 (s_data s ! k)"
      using 2(2) m by (cases "k = i") simp_all
  qed
  show ?case
  proof (cases "s_file s")
    case None
    then show ?thesis using 2(3) d1 by auto
  next
    case (Some f)
    show ?thesis
    proof (cases "s_writable s")
      case False
      then show ?thesis using 2(3) d1 Some by auto
    next
      case True
      let ?bytes = "take 4096 (drop (i * 16) (concat (s_data ?s1)) @ s_behind ?s1)"
      let ?t = "?s1\<lparr>s_file := Some (file_put pos ?bytes f)\<rparr>"
      have run: "store_all_loop n (Suc i) (pos + 4096) ?t = (rc, s')"
        using 2(3) Some True by (simp add: Let_def)
      have pre: "\<forall>i < length (s_data ?t). length (s_data ?t ! i) = 16" using d1 by simp
      have "s_file ?s1 = Some f" "\<not> \<not> s_writable ?s1" using Some True by simp_all
      from 2(1) [OF refl this refl pre run] show ?thesis
        using d1 Some by simp
    qed
  qed
qed


lemma file_store_all_memory:
  assumes "\<forall>i < length (s_data s). length (s_data s ! i) = 16"
  shows "s_hdr (snd (file_store_all_sel_data s)) = s_hdr s
    \<and> s_rsv (snd (file_store_all_sel_data s)) = s_rsv s
    \<and> s_writable (snd (file_store_all_sel_data s)) = s_writable s
    \<and> (s_file (snd (file_store_all_sel_data s)) = None) = (s_file s = None)
    \<and> length (s_data (snd (file_store_all_sel_data s))) = length (s_data s)
    \<and> (\<forall>k < length (s_data s). length (s_data (snd (file_store_all_sel_data s)) ! k) = 16
         \<and> drop 7 (s_data (snd (file_store_all_sel_data s)) ! k) = drop 7 (s_data s ! k))"
  using assms store_all_loop_memory [OF assms surjective_pairing, of "nat (sel_end s + 1)" 0 SEL_DATA_OFFSET]
  by (simp add: file_store_all_sel_data_def split: option.split)

text \<open>Every branch of the deletion is the same shift.\<close>

definition delete_memory :: "int \<Rightarrow> sel \<Rightarrow> sel" where
  "delete_memory rid s =
     set_end (sel_end s - 1) (s\<lparr>s_data := shift_down rid (sel_end s - 1) (s_data s)\<rparr>)"

lemma delete_sel_entry_eq:
  "delete_sel_entry rid s =
     (let (rc, s2) = file_store_sel_hdr (delete_memory rid s)
      in if rc \<noteq> 0 then (-1, s2) else (0, snd (file_store_all_sel_data s2)))"
proof -
  have "shift_down (sel_end s - 1) (sel_end s - 1) (s_data s) = s_data s"
    by (subst shift_down.simps) simp
  then show ?thesis
    by (auto simp: delete_sel_entry_def delete_memory_def Let_def split_beta)
qed

lemma delete_memory_frame [simp]:
  "sel_end (delete_memory rid s) = sel_end s - 1" "sel_begin (delete_memory rid s) = sel_begin s"
  "s_rsv (delete_memory rid s) = s_rsv s" "s_file (delete_memory rid s) = s_file s"
  "s_writable (delete_memory rid s) = s_writable s"
  "h_ts_add (s_hdr (delete_memory rid s)) = h_ts_add (s_hdr s)"
  "h_ts_erase (s_hdr (delete_memory rid s)) = h_ts_erase (s_hdr s)"
  "s_data (delete_memory rid s) = shift_down rid (sel_end s - 1) (s_data s)"
  by (simp_all add: delete_memory_def set_end_def)

lemma sel_stored_delete_memory [simp]: "sel_stored (delete_memory rid s) = sel_stored s"
  by (simp add: sel_stored_def)

lemma length_nth_shift_down:
  assumes "\<forall>i < length d. length (d ! i) = n" and "0 \<le> e" and "lim < int (length d)" and "k < length d"
  shows "length (shift_down e lim d ! k) = n"
  using assms by (auto simp: nth_shift_down)

lemma delete_result:
  assumes inv: "sel_inv s" and e: "0 \<le> rid" and st: "sel_stored s"
    and s': "snd (delete_sel_entry rid s) = s'"
  shows "s_hdr s' = s_hdr (delete_memory rid s) \<and> s_rsv s' = s_rsv s \<and> sel_stored s'
    \<and> length (s_data s') = 256
    \<and> (\<forall>k < 256. length (s_data s' ! k) = 16
         \<and> drop 7 (s_data s' ! k) = drop 7 (shift_down rid (sel_end s - 1) (s_data s) ! k))"
proof -
  let ?s1 = "delete_memory rid s"
  let ?s2 = "snd (file_store_sel_hdr ?s1)"
  have s2: "s_hdr ?s2 = s_hdr ?s1" "s_data ?s2 = s_data ?s1" "s_rsv ?s2 = s_rsv s" "sel_stored ?s2"
    using st by simp_all
  have len: "\<forall>i < length (s_data ?s2). length (s_data ?s2 ! i) = 16"
    using inv e s2 length_nth_shift_down [of "s_data s" 16 rid "sel_end s - 1"]
    by (auto simp: sel_inv_def)
  have "s' = snd (file_store_all_sel_data ?s2)"
    using s' st by (simp add: delete_sel_entry_eq split_beta)
  then show ?thesis
    using file_store_all_memory [OF len] s2 inv by (auto simp: sel_stored_def sel_inv_def)
qed

lemma delete_inv:
  assumes "sel_inv s" and "sel_entries s \<noteq> []" and "sel_stored s"
  shows "sel_inv (snd (delete_sel_entry (int i) s)) \<and> sel_stored (snd (delete_sel_entry (int i) s))"
proof -
  have "sel_end s \<noteq> 0" using assms(2) by (auto simp: sel_entries_def)
  then show ?thesis
    using delete_result [OF assms(1) _ assms(3) refl, of "int i"] assms(1)
    by (auto simp: sel_inv_def)
qed

lemma nth_log_delete:
  "xs \<noteq> [] \<Longrightarrow> k < length xs - 1 \<Longrightarrow> log_delete i xs ! k = (if i \<le> k then xs ! Suc k else xs ! k)"
  by (auto simp: log_delete_def nth_append nth_butlast min_def)

lemma delete_entries:
  assumes inv: "sel_inv s" and ne: "sel_entries s \<noteq> []" and st: "sel_stored s"
  shows "sel_entries (snd (delete_sel_entry (int i) s)) = log_delete i (sel_entries s)"
proof (rule nth_equalityI)
  let ?s' = "snd (delete_sel_entry (int i) s)"
  have res: "sel_end ?s' = sel_end s - 1" "length (s_data ?s') = 256"
    "\<And>k. k < 256 \<Longrightarrow> drop 7 (s_data ?s' ! k) = drop 7 (shift_down (int i) (sel_end s - 1) (s_data s) ! k)"
    using delete_result [OF inv _ st refl, of "int i"] by simp_all
  have e: "0 < sel_end s" "sel_end s \<le> 255" "length (s_data s) = 256"
    using inv ne by (auto simp: sel_inv_def sel_entries_def)
  show len: "length (sel_entries ?s') = length (log_delete i (sel_entries s))"
    using delete_inv [OF inv ne st] inv ne res
    by (simp add: length_sel_entries length_log_delete)
  fix k assume "k < length (sel_entries ?s')"
  then have k: "int k < sel_end s - 1" using res e by (simp add: sel_entries_def)
  have "sel_entries ?s' ! k = drop 7 (shift_down (int i) (sel_end s - 1) (s_data s) ! k)"
    using k res e by (simp add: sel_entries_def)
  also have "\<dots> = (if i \<le> k then sel_entries s ! Suc k else sel_entries s ! k)"
    using k e by (simp add: nth_shift_down sel_entries_def)
  also have "\<dots> = log_delete i (sel_entries s) ! k"
    using nth_log_delete [OF ne, of k i] k length_sel_entries [OF inv] by simp
  finally show "sel_entries ?s' ! k = log_delete i (sel_entries s) ! k" .
qed

section \<open>The contracts on the event log\<close>

interpretation sel_rsv: reservation plat_sel_rsv_id s_rsv
  by unfold_locales (simp_all add: plat_sel_rsv_id_def Let_def)

definition sel_add_state :: "sel \<Rightarrow> u8 list \<Rightarrow> sel" where
  "sel_add_state s m = snd (plat_sel_add_entry s m)"

definition sel_del_state :: "sel \<Rightarrow> nat \<Rightarrow> sel" where
  "sel_del_state s i = snd (delete_sel_entry (int i) s)"

lemma sel_entries_bound: "sel_inv s \<Longrightarrow> length (sel_entries s) \<le> 255"
  using length_sel_entries [of s] by (auto simp: sel_inv_def)

interpretation sel_log: bounded_log "\<lambda>s. sel_inv s \<and> sel_stored s" sel_entries sel_add_state sel_del_state
  sel_payload "\<lambda>m. length m = 16" 255 253 sel_full_marker
  by unfold_locales
    (auto simp: sel_add_state_def sel_del_state_def sel_payload_def sel_add_spec delete_inv
      delete_entries sel_entries_bound)

end
