(* ===== verification/Sdr_Repo.thy ===== *)
theory Sdr_Repo
  imports Contracts
begin

text \<open>
  The sensor data repository, libs/sdr/sdr.cpp, with class \<open>Ipmisdr\<close> of include/ipmi/ipmi.hpp and
  the start-up loop of \<open>plat_ipmi_init\<close> (libs/apps/apps.cpp) that fills it. The map \<open>sdr_rec\<close> from a
  record number to a map of records is an association list of association lists in key order.

  What the code takes from outside is in the state: the readings of the hardware sensors, the
  12 V reading that gates them, \<open>g_Tmax\<close>, and the byte the code reads through \<open>sdr_rec.end()\<close>
  (\<open>end()--\<close> yields the old iterator, so the code dereferences the end of the map; the library it
  is built with keeps the number of elements there).
\<close>

section \<open>State\<close>

record sensor =
  se_owner :: u8   se_lun :: u8   se_num :: u8   se_ent_id :: u8   se_ent_inst :: u8
  se_init :: u8   se_caps :: u8   se_type :: u8   se_evt_type :: u8
  se_masks :: "u8 list"   se_units :: "u8 list"   se_linear :: u8
  se_m_val :: u8   se_m_tolerance :: u8   se_b_val :: u8   se_b_accuracy :: u8
  se_accuracy_dir :: u8   se_rb_exp :: u8   se_analog :: u8   se_nominal :: u8
  se_normal :: "u8 list"   se_range :: "u8 list"
  se_unr :: u8   se_uc :: u8   se_unc :: u8   se_lnr :: u8   se_lc :: u8   se_lnc :: u8
  se_hyst :: "u8 list"   se_oem :: u8   se_str_type_len :: u8   se_str :: "u8 list"

text \<open>The bytes of \<open>sensor_thresh_t\<close> in memory: the masks are six bytes, the units three, the two
  ranges and the hysteresis two each, the name twenty.\<close>

definition sensor_bytes :: "sensor \<Rightarrow> u8 list" where
  "sensor_bytes s = [se_owner s, se_lun s, se_num s, se_ent_id s, se_ent_inst s, se_init s,
      se_caps s, se_type s, se_evt_type s] @ se_masks s @ se_units s @ [se_linear s, se_m_val s,
      se_m_tolerance s, se_b_val s, se_b_accuracy s, se_accuracy_dir s, se_rb_exp s, se_analog s,
      se_nominal s] @ se_normal s @ se_range s @ [se_unr s, se_uc s, se_unc s, se_lnr s, se_lc s,
      se_lnc s] @ se_hyst s @ [se_oem s, se_str_type_len s] @ se_str s"

definition sensor_ok :: "sensor \<Rightarrow> bool" where
  "sensor_ok s \<longleftrightarrow> length (se_masks s) = 6 \<and> length (se_units s) = 3 \<and> length (se_normal s) = 2
     \<and> length (se_range s) = 2 \<and> length (se_hyst s) = 2 \<and> length (se_str s) = 20"

lemma length_sensor_bytes: "sensor_ok s \<Longrightarrow> length (sensor_bytes s) = 61"
  by (simp add: sensor_ok_def sensor_bytes_def)

record ipmisdr =
  i_num :: u8
  i_rec_id :: "u8 list"
  i_ver :: u8
  i_type :: u8
  i_len :: u8
  i_rec :: sensor

type_synonym sdr_map = "(nat \<times> ipmisdr) list"

record sdr =
  sd_recs :: "(nat \<times> sdr_map) list"
  sd_rsv :: int
  sd_add_ts :: u32
  sd_erase_ts :: u32
  sd_end_first :: int
  sd_p12v :: int
  sd_reading :: "u8 \<Rightarrow> u8 \<Rightarrow> int option"
  sd_tmax :: int

definition new_ipmisdr :: "nat \<Rightarrow> u8 \<Rightarrow> sensor \<Rightarrow> ipmisdr" where
  "new_ipmisdr rid snum s = \<lparr>i_num = snum, i_rec_id = le16 (int rid), i_ver = 0x01,
     i_type = 0x01, i_len = 0x40 + (se_str_type_len s AND 0x1F) - 20, i_rec = s\<rparr>"

text \<open>The loops of \<open>plat_ipmi_init\<close>: \<open>inner\<close> keeps growing, so record number \<open>k\<close> maps to copies of
  the records 0 to \<open>k\<close>.\<close>

fun sdr_build :: "nat \<Rightarrow> sdr_map \<Rightarrow> sensor list \<Rightarrow> (nat \<times> sdr_map) list" where
  "sdr_build k inner [] = []"
| "sdr_build k inner (s # ss) =
     (let inner' = inner @ [(k, new_ipmisdr k (se_num s) s)]
      in (k, inner') # sdr_build (Suc k) inner' ss)"

section \<open>A record\<close>

definition sdr_get_rec_to_vector :: "ipmisdr \<Rightarrow> u8 list" where
  "sdr_get_rec_to_vector i = i_rec_id i @ [i_ver i, i_type i, i_len i] @ sensor_bytes (i_rec i)"

definition sdr_thresh_write :: "u8 \<Rightarrow> ipmi_req \<Rightarrow> ipmisdr \<Rightarrow> int \<times> ipmisdr" where
  "sdr_thresh_write param q i =
     (let s = i_rec i in
      if param = 0x20 then (0, i\<lparr>i_rec := s\<lparr>se_unr := req_byte q 7\<rparr>\<rparr>)
      else if param = 0x10 then (0, i\<lparr>i_rec := s\<lparr>se_uc := req_byte q 6\<rparr>\<rparr>)
      else if param = 0x08 then (0, i\<lparr>i_rec := s\<lparr>se_unc := req_byte q 5\<rparr>\<rparr>)
      else if param = 0x04 then (0, i\<lparr>i_rec := s\<lparr>se_lnr := req_byte q 4\<rparr>\<rparr>)
      else if param = 0x02 then (0, i\<lparr>i_rec := s\<lparr>se_lc := req_byte q 3\<rparr>\<rparr>)
      else if param = 0x01 then (0, i\<lparr>i_rec := s\<lparr>se_lnc := req_byte q 2\<rparr>\<rparr>)
      else (-1, i))"

abbreviation (input) THRESH_NOT_AVAILABLE :: u8 where "THRESH_NOT_AVAILABLE \<equiv> 0xDF"

definition thresh_bit :: "u8 \<Rightarrow> u8 \<Rightarrow> u8" where
  "thresh_bit v m = (if v \<noteq> THRESH_NOT_AVAILABLE then m else 0)"

definition sdr_get_thresh_flag :: "ipmisdr \<Rightarrow> u8" where
  "sdr_get_thresh_flag i =
     (let s = i_rec i in thresh_bit (se_unr s) 0x20 OR thresh_bit (se_uc s) 0x10
        OR thresh_bit (se_unc s) 0x08 OR thresh_bit (se_lnr s) 0x04 OR thresh_bit (se_lc s) 0x02
        OR thresh_bit (se_lnc s) 0x01)"

definition sdr_get_thresh_param :: "nat \<Rightarrow> ipmisdr \<Rightarrow> u8" where
  "sdr_get_thresh_param p i =
     (let s = i_rec i in if p = 3 then se_unr s else if p = 1 then se_uc s else if p = 2 then se_unc s
        else if p = 6 then se_lnr s else if p = 4 then se_lc s else if p = 5 then se_lnc s else 0)"

section \<open>The repository\<close>

definition plat_sdr_num_entries :: "sdr \<Rightarrow> nat" where
  "plat_sdr_num_entries s = length (sd_recs s)"

definition plat_sdr_free_space :: "sdr \<Rightarrow> int" where
  "plat_sdr_free_space s = 128 * 64 - int (plat_sdr_num_entries s) * 64"

definition plat_sdr_rsv_id :: "sdr \<Rightarrow> int \<times> sdr" where
  "plat_sdr_rsv_id s =
     (let v = (if sd_rsv s = 0xFFFE then 1 else sd_rsv s + 1) in (v, s\<lparr>sd_rsv := v\<rparr>))"

text \<open>\<open>sdr_rec[k].find(j)->second\<close>; a missing key dereferences the end of a map.\<close>

definition sdr_find :: "sdr \<Rightarrow> nat \<Rightarrow> nat \<Rightarrow> ipmisdr option" where
  "sdr_find s k j = (case map_of (sd_recs s) k of None \<Rightarrow> None | Some m \<Rightarrow> map_of m j)"

definition sdr_begin_first :: "sdr \<Rightarrow> int" where
  "sdr_begin_first s = (case sd_recs s of [] \<Rightarrow> sd_end_first s | (k, m) # rs \<Rightarrow> int k)"

abbreviation (input) SDR_RECID_LAST :: int where "SDR_RECID_LAST \<equiv> 0xFFFF"

definition plat_sdr_get_entry :: "sdr \<Rightarrow> int \<Rightarrow> int \<Rightarrow> (u8 list \<times> int) cres" where
  "plat_sdr_get_entry s rsv_id rid =
     (if rsv_id \<noteq> sd_rsv s then Fail (-1)
      else
        let index = (if rid = 0 then sdr_begin_first s
                     else if rid = SDR_RECID_LAST then sd_end_first s else rid - 1)
        in if plat_sdr_num_entries s = 0 then Fail (-1)
           else if index < 0 \<or> index > 127 then Fail (-1)
           else if index < sdr_begin_first s \<or> index \<ge> sd_end_first s then Fail (-1)
           else
             let nxt = (if rid = 0 then 2 else rid + 1);
                 next_rec_id = (if nxt > sd_end_first s then SDR_RECID_LAST else nxt)
             in case map_of (sd_recs s) (nat index) of
                  None \<Rightarrow> Ret ([], next_rec_id)
                | Some m \<Rightarrow>
                    (case map_of m (nat index) of
                       None \<Rightarrow> Ub
                     | Some i \<Rightarrow> Ret (sdr_get_rec_to_vector i, next_rec_id)))"

text \<open>\<open>plat_find_sdr_index\<close>: the first record with the sensor number, or 0. The loop looks up
  \<open>sdr_rec[i].find(i)\<close> for each \<open>i\<close> below the size.\<close>

fun find_sdr_from :: "sdr \<Rightarrow> u8 \<Rightarrow> nat \<Rightarrow> nat \<Rightarrow> nat option" where
  "find_sdr_from s num i 0 = Some 0"
| "find_sdr_from s num i (Suc n) =
     (case sdr_find s i i of
        None \<Rightarrow> None
      | Some r \<Rightarrow> if i_num r = num then Some i else find_sdr_from s num (Suc i) n)"

definition plat_find_sdr_index :: "sdr \<Rightarrow> u8 \<Rightarrow> nat option" where
  "plat_find_sdr_index s num = find_sdr_from s num 0 (plat_sdr_num_entries s)"

text \<open>The record the sensor commands act on.\<close>

definition sdr_of_sensor :: "sdr \<Rightarrow> u8 \<Rightarrow> ipmisdr option" where
  "sdr_of_sensor s num =
     (case plat_find_sdr_index s num of None \<Rightarrow> None | Some i \<Rightarrow> sdr_find s i i)"

section \<open>Readings\<close>

abbreviation (input) PSDR_ANALOG_DISABLE :: u8 where "PSDR_ANALOG_DISABLE \<equiv> 3"

text \<open>\<open>update_sensor_reading\<close>: \<open>rVal\<close> keeps the last value when a reading fails. The redfish copy of
  the sensor it also refreshes is not part of this model.\<close>

definition update_record :: "sdr \<Rightarrow> int \<Rightarrow> sensor \<Rightarrow> int \<times> sensor" where
  "update_record s rVal se =
     (let v = (case sd_reading s (se_oem se) (se_num se) of None \<Rightarrow> rVal | Some x \<Rightarrow> x);
          nominal = lo8 v;
          off = (if se_num se = 0x01 \<or> se_num se = 0x02
                 then uint nominal = sd_tmax s \<or> nominal = 0 else nominal = 0)
      in (v, se\<lparr>se_nominal := nominal, se_analog := (if off then PSDR_ANALOG_DISABLE else 0)\<rparr>))"

fun update_inner :: "sdr \<Rightarrow> int \<Rightarrow> nat \<Rightarrow> sdr_map \<Rightarrow> (int \<times> sdr_map) option" where
  "update_inner s rVal k [] = None"
| "update_inner s rVal k ((j, i) # m) =
     (if j = k then (let (v, se) = update_record s rVal (i_rec i) in Some (v, (j, i\<lparr>i_rec := se\<rparr>) # m))
      else map_option (\<lambda>(v, m'). (v, (j, i) # m')) (update_inner s rVal k m))"

fun update_all :: "sdr \<Rightarrow> int \<Rightarrow> (nat \<times> sdr_map) list \<Rightarrow> (nat \<times> sdr_map) list option" where
  "update_all s rVal [] = Some []"
| "update_all s rVal ((k, m) # rs) =
     (case update_inner s rVal k m of
        None \<Rightarrow> None
      | Some (v, m') \<Rightarrow> map_option (\<lambda>rs'. (k, m') # rs') (update_all s v rs))"

definition update_sensor_reading :: "int \<Rightarrow> sdr \<Rightarrow> sdr option" where
  "update_sensor_reading junk s = map_option (\<lambda>rs. s\<lparr>sd_recs := rs\<rparr>) (update_all s junk (sd_recs s))"

section \<open>Commands\<close>

definition storage_clear_sdr_repository :: "sdr handler" where
  "storage_clear_sdr_repository s q r = Some (s\<lparr>sd_recs := []\<rparr>, reply CC_SUCCESS [0x01] r)"

definition sensor_get_reading :: "sdr handler" where
  "sensor_get_reading s q r =
     (if sd_p12v s \<ge> 150 then
        map_option (\<lambda>i. (s, reply CC_SUCCESS [se_nominal (i_rec i),
            if se_analog (i_rec i) \<noteq> PSDR_ANALOG_DISABLE then 0xC0 else 0] r))
          (sdr_of_sensor s (req_byte q 0))
      else Some (s, reply CC_SUCCESS [0, 0] r))"

definition sensor_get_threshod :: "sdr handler" where
  "sensor_get_threshod s q r =
     map_option (\<lambda>i. (s, reply CC_SUCCESS [sdr_get_thresh_flag i, sdr_get_thresh_param 5 i,
         sdr_get_thresh_param 4 i, sdr_get_thresh_param 6 i, sdr_get_thresh_param 2 i,
         sdr_get_thresh_param 1 i, sdr_get_thresh_param 3 i] r))
       (sdr_of_sensor s (req_byte q 0))"

text \<open>\<open>sensor_set_threshold\<close>: each element's first inner record is compared and written.\<close>

fun set_threshold_scan :: "ipmi_req \<Rightarrow> (nat \<times> sdr_map) list \<Rightarrow> (bool \<times> (nat \<times> sdr_map) list) option" where
  "set_threshold_scan q [] = Some (False, [])"
| "set_threshold_scan q ((k, []) # rs) = None"
| "set_threshold_scan q ((k, (j, i) # m) # rs) =
     (if req_byte q 0 = i_num i
      then Some (True, (k, (j, snd (sdr_thresh_write (req_byte q 1) q i)) # m) # rs)
      else map_option (\<lambda>(f, rs'). (f, (k, (j, i) # m) # rs')) (set_threshold_scan q rs))"

definition sensor_set_threshold :: "sdr handler" where
  "sensor_set_threshold s q r =
     map_option (\<lambda>(found, rs).
         let cc = (if found then CC_SUCCESS else r_cc r)
         in (s\<lparr>sd_recs := rs\<rparr>, set_cc (if cc \<noteq> CC_SUCCESS then CC_UNSPECIFIED_ERROR else cc) r))
       (set_threshold_scan q (sd_recs s))"

text \<open>\<open>storage_get_sdr\<close>: \<open>(x >> 8) | y\<close> of two bytes is the second byte. The whole rest of the record
  is copied, then the length is set to the number of bytes asked for.\<close>

definition storage_get_sdr :: "sdr handler" where
  "storage_get_sdr s q r =
     (let rsv_id = drop_bit 8 (uint (req_byte q 1)) OR uint (req_byte q 0);
          read_rec_id = drop_bit 8 (uint (req_byte q 3)) OR uint (req_byte q 2)
      in case plat_sdr_get_entry s rsv_id read_rec_id of
           Fail _ \<Rightarrow> Some (s, set_cc CC_UNSPECIFIED_ERROR r)
         | Ub \<Rightarrow> None
         | Ret (entry, nxt) \<Rightarrow>
             if unat (req_byte q 4) > length entry then None
             else Some (s, set_len (2 + req_byte q 5)
                    (put (le16 nxt @ drop (unat (req_byte q 4)) entry) (set_cc CC_SUCCESS r))))"

definition storage_rsv_sdr :: "sdr handler" where
  "storage_rsv_sdr s q r =
     (let (rsv_id, s1) = plat_sdr_rsv_id s
      in if rsv_id < 0 then Some (s1, set_cc CC_UNSPECIFIED_ERROR r)
         else Some (s1, reply CC_SUCCESS (le16 rsv_id) r))"

definition storage_get_sdr_info :: "sdr handler" where
  "storage_get_sdr_info s q r =
     Some (s, reply CC_SUCCESS ([0x51] @ le16 (int (plat_sdr_num_entries s))
        @ le16 (plat_sdr_free_space s) @ le32 (sd_add_ts s) @ le32 (sd_erase_ts s) @ [0x02]) r)"

end
