(* ===== verification/Sdr_Properties.thy ===== *)
theory Sdr_Properties
  imports Sdr_Repo
begin

text \<open>
  The properties of the sensor data repository: the repository built at start-up is well formed and
  stays so, reading it record by record, reservations, and what setting a threshold changes.
\<close>

section \<open>Well-formed repositories\<close>

definition inner_ok :: "nat \<Rightarrow> nat \<times> sdr_map \<Rightarrow> bool" where
  "inner_ok k e \<longleftrightarrow> fst e = k \<and> map fst (snd e) = [0..<Suc k]
     \<and> (\<forall>p \<in> set (snd e). sensor_ok (i_rec (snd p)) \<and> length (i_rec_id (snd p)) = 2)"

definition sdr_inv :: "sdr \<Rightarrow> bool" where
  "sdr_inv s \<longleftrightarrow> length (sd_recs s) \<le> 128 \<and> (\<forall>k < length (sd_recs s). inner_ok k (sd_recs s ! k))
     \<and> sd_end_first s = int (length (sd_recs s)) \<and> 1 \<le> sd_rsv s \<and> sd_rsv s \<le> 0xFFFE"

lemma sdr_build_length: "length (sdr_build k inner ss) = length ss"
  by (induction ss arbitrary: k inner) (simp_all add: Let_def)

lemma sdr_build_ok:
  assumes "map fst inner = [0..<k]" and "\<forall>p \<in> set inner. sensor_ok (i_rec (snd p)) \<and> length (i_rec_id (snd p)) = 2"
    and "\<forall>s \<in> set ss. sensor_ok s" and "j < length ss"
  shows "inner_ok (k + j) (sdr_build k inner ss ! j)"
  using assms
proof (induction ss arbitrary: k inner j)
  case Nil
  then show ?case by simp
next
  case (Cons s ss)
  let ?inner = "inner @ [(k, new_ipmisdr k (se_num s) s)]"
  have i: "map fst ?inner = [0..<Suc k]" using Cons.prems(1) by simp
  have o: "\<forall>p \<in> set ?inner. sensor_ok (i_rec (snd p)) \<and> length (i_rec_id (snd p)) = 2"
    using Cons.prems by (auto simp: new_ipmisdr_def)
  show ?case
  proof (cases j)
    case 0
    then show ?thesis using i o by (simp add: inner_ok_def Let_def)
  next
    case (Suc j')
    have "inner_ok (Suc k + j') (sdr_build (Suc k) ?inner ss ! j')"
      by (rule Cons.IH [OF i o]) (use Cons.prems Suc in auto)
    then show ?thesis using Suc by (simp add: Let_def)
  qed
qed

definition boot_sdr :: "sensor list \<Rightarrow> sdr" where
  "boot_sdr ss = \<lparr>sd_recs = sdr_build 0 [] ss, sd_rsv = 1, sd_add_ts = 0, sd_erase_ts = 0,
     sd_end_first = int (length ss), sd_p12v = 200, sd_reading = (\<lambda>a b. None), sd_tmax = 90\<rparr>"

lemma boot_sdr_inv:
  "length ss \<le> 128 \<Longrightarrow> \<forall>s \<in> set ss. sensor_ok s \<Longrightarrow> sdr_inv (boot_sdr ss)"
  using sdr_build_ok [of "[]" 0 ss] by (simp add: sdr_inv_def boot_sdr_def sdr_build_length)

lemma map_of_index:
  assumes "\<forall>k < length xs. fst (xs ! k) = k" and "i < length xs"
  shows "map_of xs i = Some (snd (xs ! i))"
proof -
  have "map fst xs = [0..<length xs]" using assms(1) by (auto intro: nth_equalityI)
  then have "distinct (map fst xs)" by simp
  moreover have "(i, snd (xs ! i)) \<in> set xs"
    using assms nth_mem [of i xs] by (metis prod.collapse)
  ultimately show ?thesis by simp
qed

definition sdr_record :: "sdr \<Rightarrow> nat \<Rightarrow> ipmisdr" where
  "sdr_record s i = snd (snd (sd_recs s ! i) ! i)"

lemma sdr_lookup:
  assumes "sdr_inv s" and "i < length (sd_recs s)"
  shows "map_of (sd_recs s) i = Some (snd (sd_recs s ! i))"
    and "map_of (snd (sd_recs s ! i)) i = Some (sdr_record s i)"
    and "sensor_ok (i_rec (sdr_record s i)) \<and> length (i_rec_id (sdr_record s i)) = 2"
proof -
  have inner: "inner_ok i (sd_recs s ! i)" using assms by (simp add: sdr_inv_def)
  show "map_of (sd_recs s) i = Some (snd (sd_recs s ! i))"
    using assms by (intro map_of_index) (auto simp: sdr_inv_def inner_ok_def)
  let ?m = "snd (sd_recs s ! i)"
  have fst: "map fst ?m = [0..<Suc i]" using inner by (simp add: inner_ok_def del: upt_Suc)
  then have len: "length ?m = Suc i" by (metis length_map length_upt diff_zero)
  have "\<forall>k < length ?m. fst (?m ! k) = k"
    using fst len by (metis nth_map nth_upt add_0)
  then show "map_of ?m i = Some (sdr_record s i)"
    using map_of_index [of ?m i] len by (simp add: sdr_record_def)
  have "?m ! i \<in> set ?m" using len by simp
  then show "sensor_ok (i_rec (sdr_record s i)) \<and> length (i_rec_id (sdr_record s i)) = 2"
    using inner by (auto simp: inner_ok_def sdr_record_def)
qed

lemma sdr_find_record: "sdr_inv s \<Longrightarrow> i < length (sd_recs s) \<Longrightarrow> sdr_find s i i = Some (sdr_record s i)"
  using sdr_lookup [of s i] by (simp add: sdr_find_def)

lemma begin_first: "sdr_inv s \<Longrightarrow> sd_recs s \<noteq> [] \<Longrightarrow> sdr_begin_first s = 0"
  by (cases "sd_recs s") (auto simp: sdr_inv_def inner_ok_def sdr_begin_first_def split: prod.split
      dest: spec [of _ 0])

lemma sdr_get_in_range:
  assumes inv: "sdr_inv s" and i: "i < length (sd_recs s)" and rid: "rid = int i + 1 \<or> (i = 0 \<and> rid = 0)"
  shows "plat_sdr_get_entry s (sd_rsv s) rid = Ret (sdr_get_rec_to_vector (sdr_record s i),
     if i + 2 > length (sd_recs s) then 0xFFFF else int i + 2)"
proof -
  have "sd_recs s \<noteq> []" using i by auto
  moreover have "length (sd_recs s) \<le> 128" "sd_end_first s = int (length (sd_recs s))"
    using inv by (auto simp: sdr_inv_def)
  moreover have idx: "(if rid = 0 then sdr_begin_first s
      else if rid = 0xFFFF then sd_end_first s else rid - 1) = int i"
    using rid begin_first [OF inv] i calculation by auto
  moreover have "(if rid = 0 then 2 else rid + 1) = int i + 2" using rid by auto
  ultimately show ?thesis
    using sdr_lookup [OF inv i] begin_first [OF inv] i
    by (simp only: plat_sdr_get_entry_def plat_sdr_num_entries_def Let_def) simp
qed

section \<open>Reading the repository\<close>

text \<open>A client that reads record 0 and then follows the next record ids.\<close>

fun sdr_walk :: "nat \<Rightarrow> sdr \<Rightarrow> int \<Rightarrow> u8 list list option" where
  "sdr_walk 0 s rid = None"
| "sdr_walk (Suc fuel) s rid =
     (case plat_sdr_get_entry s (sd_rsv s) rid of
        Ret (v, nxt) \<Rightarrow> if nxt = 0xFFFF then Some [v] else map_option ((#) v) (sdr_walk fuel s nxt)
      | _ \<Rightarrow> None)"

lemma sdr_walk_from:
  assumes "sdr_inv s" and "i < length (sd_recs s)" and "rid = int i + 1 \<or> (i = 0 \<and> rid = 0)"
    and "length (sd_recs s) - i \<le> fuel"
  shows "sdr_walk fuel s rid
    = Some (map (\<lambda>k. sdr_get_rec_to_vector (sdr_record s k)) [i..<length (sd_recs s)])"
  using assms
proof (induction fuel arbitrary: i rid)
  case 0
  then show ?case by simp
next
  case (Suc fuel)
  note get = sdr_get_in_range [OF Suc.prems(1-3)]
  have upt: "[i..<length (sd_recs s)] = i # [Suc i..<length (sd_recs s)]"
    using Suc.prems(2) by (simp add: upt_conv_Cons)
  show ?case
  proof (cases "Suc i < length (sd_recs s)")
    case False
    then show ?thesis using get upt Suc.prems(2) by simp
  next
    case True
    have "sdr_walk fuel s (int i + 2)
        = Some (map (\<lambda>k. sdr_get_rec_to_vector (sdr_record s k)) [Suc i..<length (sd_recs s)])"
      using Suc.prems True by (intro Suc.IH) auto
    moreover have "int i + 2 \<noteq> 0xFFFF" using Suc.prems(1,2) by (auto simp: sdr_inv_def)
    ultimately show ?thesis using get upt True by simp
  qed
qed

text \<open>A client holding the current reservation that starts at record 0 and follows the next record ids
  reads every record of a non-empty repository once, in order, in at most 128 reads; each record is
  66 bytes.\<close>

theorem sdr_walk_complete:
  assumes "sdr_inv s" and "sd_recs s \<noteq> []"
  shows "\<exists>vs. sdr_walk 128 s 0 = Some vs \<and> length vs = plat_sdr_num_entries s
    \<and> (\<forall>k < length vs. vs ! k = sdr_get_rec_to_vector (sdr_record s k) \<and> length (vs ! k) = 66)"
proof -
  have "length (sd_recs s) \<le> 128" using assms(1) by (simp add: sdr_inv_def)
  then show ?thesis
    using sdr_walk_from [OF assms(1), of 0 0 128] assms(2) sdr_lookup(3) [OF assms(1)]
    by (simp add: plat_sdr_num_entries_def sdr_get_rec_to_vector_def length_sensor_bytes)
qed

definition sample_sensor :: "u8 \<Rightarrow> sensor" where
  "sample_sensor n = \<lparr>se_owner = 0x20, se_lun = 0, se_num = n, se_ent_id = 0, se_ent_inst = 0,
     se_init = 0, se_caps = 0, se_type = 1, se_evt_type = 1, se_masks = replicate 6 0,
     se_units = replicate 3 0, se_linear = 0, se_m_val = 1, se_m_tolerance = 0, se_b_val = 0,
     se_b_accuracy = 0, se_accuracy_dir = 0, se_rb_exp = 0, se_analog = 0, se_nominal = 40,
     se_normal = [0, 0], se_range = [0, 0], se_unr = 100, se_uc = 90, se_unc = 80, se_lnr = 1,
     se_lc = 5, se_lnc = 10, se_hyst = [0, 0], se_oem = 1, se_str_type_len = 0xC4,
     se_str = replicate 20 0\<rparr>"

lemma sample_sensor_ok: "sensor_ok (sample_sensor n)"
  by (simp add: sensor_ok_def sample_sensor_def)

lemma sdr_walk_complete_witness:
  "\<exists>vs. sdr_walk 128 (boot_sdr [sample_sensor 1, sample_sensor 2]) 0 = Some vs \<and> length vs = 2"
proof -
  have "sdr_inv (boot_sdr [sample_sensor 1, sample_sensor 2])"
    by (rule boot_sdr_inv) (simp_all add: sample_sensor_ok)
  from sdr_walk_complete [OF this] show ?thesis
    by (auto simp: boot_sdr_def Let_def plat_sdr_num_entries_def)
qed

section \<open>Reservations\<close>

interpretation sdr_rsv: reservation plat_sdr_rsv_id sd_rsv
  by unfold_locales (simp_all add: plat_sdr_rsv_id_def Let_def)

text \<open>"Get SDR" compares only the low byte of the reservation id it is given with the current id, so
  once more than 255 reservations have been made (until the counter wraps) every request is
  refused, whatever reservation and record it names; the high byte of the record id is dropped
  the same way.\<close>

theorem get_sdr_reservation_low_byte:
  assumes "255 < sd_rsv s"
  shows "storage_get_sdr s q r = Some (s, set_cc CC_UNSPECIFIED_ERROR r)"
  using assms uint_le_255 [of "req_byte q 0"]
  by (simp add: storage_get_sdr_def byte_low_only plat_sdr_get_entry_def)

lemma get_sdr_reservation_low_byte_witness:
  "storage_get_sdr ((boot_sdr [])\<lparr>sd_rsv := 256\<rparr>)
     \<lparr>q_netfn = 0x0A, q_cmd = 0x23, q_data = [0, 1, 0, 0, 0, 0xFF]\<rparr> blank_res
   = Some ((boot_sdr [])\<lparr>sd_rsv := 256\<rparr>, set_cc 0xFF blank_res)"
  using get_sdr_reservation_low_byte [of "(boot_sdr [])\<lparr>sd_rsv := 256\<rparr>"] by simp

text \<open>A reservation that was replaced by 1 to 65533 later ones no longer reads anything.\<close>

theorem get_sdr_stale_reservation:
  assumes "sdr_inv s" and "plat_sdr_rsv_id s = (rsv, s1)" and "0 < n" and "n < 0xFFFE"
    and "s2 = ((\<lambda>t. snd (plat_sdr_rsv_id t)) ^^ n) s1" and "uint (req_byte q 0) = rsv"
  shows "storage_get_sdr s2 q r = Some (s2, set_cc CC_UNSPECIFIED_ERROR r)"
proof -
  have iter: "((\<lambda>t. snd (plat_sdr_rsv_id t)) ^^ n) t = sdr_rsv.reserve_n n t" for n t
    by (induction n) simp_all
  have v: "sdr_rsv.valid_rsv s" using assms(1) by (simp add: sdr_rsv.valid_rsv_def sdr_inv_def)
  have s1: "sdr_rsv.valid_rsv s1" "sd_rsv s1 = rsv"
    using sdr_rsv.reserve_valid [OF v] sdr_rsv.reserve_current [of s] assms(2) by simp_all
  have "sd_rsv s2 \<noteq> uint (req_byte q 0)"
    using sdr_rsv.stale_reservation [OF s1(1) assms(3,4)] s1(2) assms(5,6) iter by simp
  then show ?thesis by (simp add: storage_get_sdr_def byte_low_only plat_sdr_get_entry_def)
qed

lemma get_sdr_stale_reservation_witness:
  "storage_get_sdr (snd (plat_sdr_rsv_id (snd (plat_sdr_rsv_id (boot_sdr [])))))
     \<lparr>q_netfn = 0x0A, q_cmd = 0x23, q_data = [2, 0, 0, 0, 0, 0xFF]\<rparr> blank_res
   = Some (snd (plat_sdr_rsv_id (snd (plat_sdr_rsv_id (boot_sdr [])))), set_cc 0xFF blank_res)"
proof -
  have inv: "sdr_inv (boot_sdr [])" by (rule boot_sdr_inv) simp_all
  have rsv: "plat_sdr_rsv_id (boot_sdr []) = (2, snd (plat_sdr_rsv_id (boot_sdr [])))"
    by (simp add: plat_sdr_rsv_id_def boot_sdr_def)
  have n: "snd (plat_sdr_rsv_id (snd (plat_sdr_rsv_id (boot_sdr []))))
      = ((\<lambda>t. snd (plat_sdr_rsv_id t)) ^^ 1) (snd (plat_sdr_rsv_id (boot_sdr [])))"
    by (simp only: One_nat_def funpow.simps o_apply id_apply)
  have b: "(0::nat) < 1" "(1::nat) < 0xFFFE" by simp_all
  show ?thesis by (rule get_sdr_stale_reservation [OF inv rsv b n]) simp
qed

section \<open>Setting a threshold\<close>

lemma set_threshold_scan_build:
  assumes "inner \<noteq> []" and "i_num (snd (hd inner)) \<noteq> req_byte q 0"
  shows "set_threshold_scan q (sdr_build k inner ss) = Some (False, sdr_build k inner ss)"
  using assms
proof (induction ss arbitrary: k inner)
  case Nil
  then show ?case by simp
next
  case (Cons s ss)
  obtain j i m where inner: "inner = (j, i) # m" using Cons.prems(1) by (cases inner) auto
  show ?case
    using Cons.IH [of "inner @ [(k, new_ipmisdr k (se_num s) s)]" "Suc k"] Cons.prems inner
    by (simp add: Let_def)
qed

text \<open>"Set sensor threshold" on the repository built at start-up changes nothing unless the sensor is
  the very first one: each record's map begins with record 0, and only that one is compared and
  written. For any other sensor the command leaves every threshold as it was and, called with the
  completion code the dispatcher sets, still reports success.\<close>

theorem set_threshold_only_first:
  assumes "req_byte q 0 \<noteq> se_num a" and "sd_recs s = sdr_build 0 [] (a # ss)" and "r_cc r = CC_SUCCESS"
  shows "sensor_set_threshold s q r = Some (s, r)"
proof -
  let ?inner = "[(0, new_ipmisdr 0 (se_num a) a)]"
  have n: "i_num (new_ipmisdr 0 (se_num a) a) = se_num a" by (simp add: new_ipmisdr_def)
  have "set_threshold_scan q (sdr_build (Suc 0) ?inner ss) = Some (False, sdr_build (Suc 0) ?inner ss)"
    using assms(1) n by (intro set_threshold_scan_build) auto
  then have "set_threshold_scan q (sd_recs s) = Some (False, sd_recs s)"
    using assms(1,2) n by (simp add: Let_def)
  then show ?thesis using assms(3) by (simp add: sensor_set_threshold_def set_cc_def)
qed

lemma set_threshold_only_first_witness:
  "sensor_set_threshold (boot_sdr [sample_sensor 1, sample_sensor 2])
     \<lparr>q_netfn = 4, q_cmd = 0x26, q_data = [2, 0x10, 0, 0, 0, 0, 70, 0]\<rparr> (set_cc 0 blank_res)
   = Some (boot_sdr [sample_sensor 1, sample_sensor 2], set_cc 0 blank_res)"
proof (rule set_threshold_only_first)
  show "sd_recs (boot_sdr [sample_sensor 1, sample_sensor 2])
      = sdr_build 0 [] (sample_sensor 1 # [sample_sensor 2])" by (simp add: boot_sdr_def)
qed (simp_all add: sample_sensor_def)

text \<open>For the first sensor, the threshold selected by the mask is the one "get sensor thresholds"
  returns afterwards.\<close>

theorem set_threshold_first_roundtrip:
  assumes "sd_recs s = sdr_build 0 [] (a # ss)" and "req_byte q 0 = se_num a" and "req_byte q 1 = 0x10"
    and "req_byte q' 0 = se_num a"
  shows "\<exists>s' r1 r2. sensor_set_threshold s q r = Some (s', r1) \<and> r_cc r1 = CC_SUCCESS
    \<and> sensor_get_threshod s' q' r = Some (s', r2)
    \<and> res_payload r2 ! 5 = req_byte q 6 \<and> res_payload r2 ! 1 = se_lnc a"
proof -
  let ?i = "new_ipmisdr 0 (se_num a) a"
  let ?i' = "?i\<lparr>i_rec := a\<lparr>se_uc := req_byte q 6\<rparr>\<rparr>"
  let ?rest = "sdr_build (Suc 0) [(0, ?i)] ss"
  let ?s' = "s\<lparr>sd_recs := (0, [(0, ?i')]) # ?rest\<rparr>"
  have n: "i_num ?i = se_num a" "i_rec ?i = a" by (simp_all add: new_ipmisdr_def)
  have set: "sensor_set_threshold s q r = Some (?s', set_cc CC_SUCCESS r)"
    using assms(1-3) n by (simp add: sensor_set_threshold_def Let_def sdr_thresh_write_def)
  have find: "sdr_of_sensor ?s' (req_byte q' 0) = Some ?i'"
    using assms(4) n
    by (simp add: sdr_of_sensor_def plat_find_sdr_index_def plat_sdr_num_entries_def sdr_find_def)
  show ?thesis
    using set find n by (simp add: sensor_get_threshod_def sdr_get_thresh_param_def)
qed

lemma set_threshold_first_roundtrip_witness:
  "\<exists>s' r1. sensor_set_threshold (boot_sdr [sample_sensor 1])
     \<lparr>q_netfn = 4, q_cmd = 0x26, q_data = [1, 0x10, 0, 0, 0, 0, 70, 0]\<rparr> blank_res = Some (s', r1)
     \<and> r_cc r1 = 0"
  using set_threshold_first_roundtrip [of "boot_sdr [sample_sensor 1]" "sample_sensor 1" "[]"
      "\<lparr>q_netfn = 4, q_cmd = 0x26, q_data = [1, 0x10, 0, 0, 0, 0, 70, 0]\<rparr>"
      "\<lparr>q_netfn = 4, q_cmd = 0x27, q_data = [1]\<rparr>" blank_res]
  by (auto simp: boot_sdr_def sample_sensor_def)

end
