(* ===== verification/User_Db.thy ===== *)
theory User_Db
  imports Contracts
begin

text \<open>
  The user table: class \<open>Ipmiuser\<close> and the ten-element array \<open>ipmiUser\<close> of libs/user/user.cpp, the
  user commands of the application netfn and the look-ups used by authentication in
  libs/apps/apps.cpp. Names and passwords are byte strings. An access outside the array is
  undefined behaviour (\<open>None\<close>). The redfish accounts that \<open>plat_user_save\<close> refreshes are a partial
  map from the account index; the log strings that are formatted and dropped are left out.
\<close>

section \<open>State\<close>

record user =
  u_name :: "u8 list"
  u_password :: "u8 list"
  u_enable :: u8
  u_callin :: u8
  u_link_auth :: u8
  u_ipmi :: u8
  u_priv :: u8
  u_limit :: u8

record account =
  a_user_name :: "u8 list"
  a_password :: "u8 list"
  a_callin :: int
  a_ipmi :: int
  a_link_auth :: int
  a_priv :: int

record user_db =
  ud_users :: "user list"
  ud_accounts :: "nat \<Rightarrow> account option"

definition empty_user :: user where
  "empty_user = \<lparr>u_name = [], u_password = [], u_enable = 0, u_callin = 0, u_link_auth = 0,
     u_ipmi = 0, u_priv = 0, u_limit = 0\<rparr>"

text \<open>"root" and "admin".\<close>

definition root_name :: "u8 list" where "root_name = [0x72, 0x6F, 0x6F, 0x74]"
definition admin_name :: "u8 list" where "admin_name = [0x61, 0x64, 0x6D, 0x69, 0x6E]"

section \<open>Methods of a user\<close>

definition flag_of :: "u8 \<Rightarrow> u8 \<Rightarrow> u8" where
  "flag_of b m = (if b AND m \<noteq> 0 then 1 else 0)"

definition setUserAccess :: "ipmi_req \<Rightarrow> user \<Rightarrow> user" where
  "setUserAccess q u =
     (if req_byte q 0 AND 0x80 \<noteq> 0
      then u\<lparr>u_ipmi := flag_of (req_byte q 0) 0x10, u_link_auth := flag_of (req_byte q 0) 0x20,
             u_callin := flag_of (req_byte q 0) 0x40, u_priv := req_byte q 2 AND 0x0F\<rparr>
      else u\<lparr>u_priv := req_byte q 2 AND 0x0F\<rparr>)"

definition setUserPasswd :: "u8 list \<Rightarrow> user \<Rightarrow> user" where
  "setUserPasswd p u = u\<lparr>u_password := p\<rparr>"

definition setUserEnable :: "u8 \<Rightarrow> user \<Rightarrow> user" where
  "setUserEnable e u = u\<lparr>u_enable := e\<rparr>"

definition setUserName :: "u8 list \<Rightarrow> user \<Rightarrow> user" where
  "setUserName n u = u\<lparr>u_name := n\<rparr>"

definition access_byte :: "user \<Rightarrow> u8" where
  "access_byte u = push_bit 6 (u_callin u) OR push_bit 5 (u_link_auth u) OR push_bit 4 (u_ipmi u)
     OR (u_priv u AND 0x0F)"

definition getUserAccess :: "u8 \<Rightarrow> u8 \<Rightarrow> user \<Rightarrow> ipmi_res \<Rightarrow> ipmi_res" where
  "getUserAccess flag v u r =
     (if flag = 1 then emit [10, u_enable u, v, access_byte u] r
      else if flag = 2
      then emit [10, push_bit 6 (u_enable u) OR (v AND 0x3F), 2 AND 0x3F, access_byte u] r
      else set_len 0 r)"

definition plat_user_init :: "nat \<Rightarrow> user \<Rightarrow> bool \<times> user" where
  "plat_user_init index u =
     (if index = 0 then (True, u\<lparr>u_name := root_name, u_password := [], u_enable := 1, u_ipmi := 1,
        u_priv := 4, u_link_auth := 1, u_callin := 1\<rparr>)
      else if index = 1 then (True, u\<lparr>u_name := admin_name, u_password := admin_name, u_enable := 1,
        u_ipmi := 1, u_priv := 4, u_link_auth := 1, u_callin := 1\<rparr>)
      else (False, u))"

definition plat_user_init_named :: "nat \<Rightarrow> u8 list \<Rightarrow> u8 list \<Rightarrow> user \<Rightarrow> bool \<times> user" where
  "plat_user_init_named index n p u =
     (if 2 \<le> index \<and> index \<le> 9
      then (True, u\<lparr>u_name := n, u_password := p, u_enable := 1, u_ipmi := 0, u_priv := 0,
        u_link_auth := 0, u_callin := 0\<rparr>)
      else (False, u))"

definition deleteUser :: "nat \<Rightarrow> user \<Rightarrow> user" where
  "deleteUser index u =
     (if 2 \<le> index \<and> index \<le> 9
      then u\<lparr>u_name := [], u_password := [], u_enable := 0, u_ipmi := 0, u_priv := 0,
        u_link_auth := 0, u_callin := 0\<rparr>
      else u)"

section \<open>The table\<close>

definition get_user_cnt :: "user list \<Rightarrow> nat" where
  "get_user_cnt us = Suc (length (takeWhile (\<lambda>u. u_name u \<noteq> []) (drop 1 us)))"

definition account_of :: "user \<Rightarrow> account \<Rightarrow> account" where
  "account_of u a = a\<lparr>a_user_name := u_name u, a_password := u_password u,
     a_callin := uint (u_callin u), a_ipmi := uint (u_ipmi u), a_link_auth := uint (u_link_auth u),
     a_priv := uint (u_priv u)\<rparr>"

definition plat_user_save :: "user_db \<Rightarrow> user_db" where
  "plat_user_save db = db\<lparr>ud_accounts := (\<lambda>i.
     if i < get_user_cnt (ud_users db) then map_option (account_of (ud_users db ! i)) (ud_accounts db i)
     else ud_accounts db i)\<rparr>"

text \<open>\<open>ipmiUser[i].method(...)\<close> for a method that ends with \<open>plat_user_save\<close>.\<close>

definition user_update :: "int \<Rightarrow> (user \<Rightarrow> user) \<Rightarrow> user_db \<Rightarrow> user_db option" where
  "user_update i f db =
     (if 0 \<le> i \<and> i < 10
      then Some (plat_user_save (db\<lparr>ud_users := (ud_users db)[nat i := f (ud_users db ! nat i)]\<rparr>))
      else None)"

definition app_set_user_name_params :: "int \<Rightarrow> u8 list \<Rightarrow> user_db \<Rightarrow> user_db option" where
  "app_set_user_name_params index n db =
     map_option plat_user_save (user_update index (setUserName n) db)"

definition app_set_user_enable :: "int \<Rightarrow> u8 \<Rightarrow> user_db \<Rightarrow> user_db option" where
  "app_set_user_enable index e db = map_option plat_user_save (user_update index (setUserEnable e) db)"

text \<open>A C string: the bytes before the first zero of an array; \<open>None\<close> when there is none.\<close>

definition c_string :: "u8 list \<Rightarrow> u8 list option" where
  "c_string bs = (if 0 \<in> set bs then Some (takeWhile (\<lambda>b. b \<noteq> 0) bs) else None)"

definition app_set_user_passwd_params ::
    "user_db \<Rightarrow> ipmi_req \<Rightarrow> ipmi_res \<Rightarrow> (user_db \<times> ipmi_res) option" where
  "app_set_user_passwd_params db q r =
     (let index = uint (req_byte q 0 AND 0x1F) - 1; operation = req_byte q 1 AND 0x03 in
      if operation = 0 \<or> operation = 1 then
        map_option (\<lambda>d. (plat_user_save d, set_cc CC_SUCCESS r))
          (user_update index (setUserEnable (req_byte q 1)) db)
      else
        case c_string (req_bytes q 2 20) of
          None \<Rightarrow> None
        | Some p \<Rightarrow>
            if operation = 2 then
              map_option (\<lambda>d. (plat_user_save d, set_cc CC_SUCCESS r))
                (user_update index (setUserPasswd p) db)
            else if 0 \<le> index \<and> index < 10 then
              Some (plat_user_save db,
                if p = u_password (ud_users db ! nat index) then set_cc CC_SUCCESS r else r)
            else None)"

definition app_set_user_access_params :: "user_db \<Rightarrow> ipmi_req \<Rightarrow> user_db option" where
  "app_set_user_access_params db q = user_update (uint (req_byte q 1) - 1) (setUserAccess q) db"

text \<open>\<open>for (i = index; i < user_cnt; i++) ipmiUser[i] = ipmiUser[i + 1]\<close>.\<close>

fun shift_users :: "nat \<Rightarrow> nat \<Rightarrow> user list \<Rightarrow> user list option" where
  "shift_users i 0 us = Some us"
| "shift_users i (Suc n) us =
     (if Suc i < length us then shift_users (Suc i) n (us[i := us ! Suc i]) else None)"

definition app_del_user :: "int \<Rightarrow> user_db \<Rightarrow> user_db option" where
  "app_del_user index db =
     (let us = ud_users db; user_cnt = get_user_cnt us in
      if index < 0 \<or> index \<ge> 10 then None
      else if index < 2 then Some (plat_user_save db)
      else if index < int user_cnt - 1 then
        (case shift_users (nat index) (user_cnt - nat index) us of
           None \<Rightarrow> None
         | Some us' \<Rightarrow> Some (plat_user_save (db\<lparr>ud_users :=
             us'[user_cnt - 1 := deleteUser (user_cnt - 1) (us' ! (user_cnt - 1))]\<rparr>)))
      else Some (plat_user_save (db\<lparr>ud_users :=
             us[nat index := deleteUser (nat index) (us ! nat index)]\<rparr>)))"

definition user_loading :: "user_db \<Rightarrow> int \<times> user_db" where
  "user_loading db =
     (let us = ud_users db; us1 = us[0 := snd (plat_user_init 0 (us ! 0))];
          us2 = us1[1 := snd (plat_user_init 1 (us1 ! 1))]
      in (4, db\<lparr>ud_users := us2\<rparr>))"

section \<open>Look-ups of the authentication code\<close>

fun find_user :: "u8 list \<Rightarrow> nat \<Rightarrow> user list \<Rightarrow> int" where
  "find_user n i [] = 0"
| "find_user n i (u # us) =
     (if u_name u = n then (if u_enable u = 1 then int i else 0) else find_user n (Suc i) us)"

definition app_getUserindex :: "u8 list \<Rightarrow> user_db \<Rightarrow> int" where
  "app_getUserindex n db = find_user n 0 (ud_users db)"

text \<open>When the name at the index is another one, control reaches the end of the function.\<close>

definition app_getUserPriv :: "u8 list \<Rightarrow> nat \<Rightarrow> user_db \<Rightarrow> int cres" where
  "app_getUserPriv n index db =
     (if index < 10
      then (if u_name (ud_users db ! index) = n then Ret (uint (u_priv (ud_users db ! index))) else Ub)
      else Ret 0)"

definition app_getUserpassword :: "nat \<Rightarrow> user_db \<Rightarrow> u8 list option" where
  "app_getUserpassword index db =
     (if index < 10 then Some (u_password (ud_users db ! index)) else None)"

fun authenticate_scan :: "user \<Rightarrow> u8 list \<Rightarrow> u8 list \<Rightarrow> user list \<Rightarrow> int" where
  "authenticate_scan u0 n p [] = 0"
| "authenticate_scan u0 n p (u # us) =
     (if u_name u = n \<and> u_password u = p then uint (u_priv u0) else authenticate_scan u0 n p us)"

definition authenticate_ipmi :: "u8 list \<Rightarrow> u8 list \<Rightarrow> user_db \<Rightarrow> int" where
  "authenticate_ipmi n p db = authenticate_scan (ud_users db ! 0) n p (ud_users db)"

section \<open>Commands\<close>

definition app_set_useraccess :: "user_db handler" where
  "app_set_useraccess db q r =
     map_option (\<lambda>d. (d, set_len 0 (set_cc CC_SUCCESS r)))
       (user_update (uint (req_byte q 1 AND 0x3F) - 1) (setUserAccess q) db)"

text \<open>\<open>app_set_user_passwd\<close>: \<open>user_id\<close> is a byte, so user 0 becomes index 255. Only the password test
  sets a completion code.\<close>

definition app_set_user_passwd :: "user_db handler" where
  "app_set_user_passwd db q r =
     (let size_pwd = drop_bit 7 (req_byte q 0 AND 0x80);
          user_id = uint ((req_byte q 0 AND 0x1F) - 1);
          operation = req_byte q 1 AND 0x03;
          temp_pass = (if size_pwd = 0 then req_bytes q 2 14 else req_bytes q 2 20)
      in if operation = 0 \<or> operation = 1 then
           map_option (\<lambda>d. (d, r)) (user_update user_id (setUserAccess q) db)
         else if operation = 2 then
           map_option (\<lambda>d. (d, r)) (user_update user_id (setUserPasswd temp_pass) db)
         else if user_id < 10 then
           Some (db, if u_password (ud_users db ! nat user_id) \<noteq> temp_pass then set_cc 0x81 r
                     else set_cc CC_SUCCESS r)
         else None)"

definition app_set_username :: "user_db handler" where
  "app_set_username db q r =
     (let username = req_bytes q 1 15 in
      if \<exists>u \<in> set (ud_users db). u_name u = username then Some (db, set_len 0 r)
      else map_option (\<lambda>d. (d, set_len 0 (set_cc CC_SUCCESS r)))
             (user_update (uint (req_byte q 0) - 1) (setUserName username) db))"

definition app_get_username :: "user_db handler" where
  "app_get_username db q r =
     (let i = uint (req_byte q 0) - 1 in
      if 0 \<le> i \<and> i < 10
      then Some (db, set_len 16 (put (u_name (ud_users db ! nat i)) (set_cc CC_SUCCESS r)))
      else None)"

definition count_users :: "(user \<Rightarrow> bool) \<Rightarrow> user list \<Rightarrow> u8" where
  "count_users P us = word_of_nat (length (filter P us))"

text \<open>The counter \<open>entry\<close> is not initialised: \<open>junk\<close> is what it starts from.\<close>

definition app_get_useraccess :: "u8 \<Rightarrow> user_db handler" where
  "app_get_useraccess junk db q r =
     (let i = uint (req_byte q 1) - 1 in
      if \<not> (0 \<le> i \<and> i < 10) then None
      else if req_byte q 1 = 1
      then Some (db, getUserAccess 2 (count_users (\<lambda>u. u_enable u = 1) (ud_users db))
             (ud_users db ! nat i) (set_cc CC_SUCCESS r))
      else Some (db, getUserAccess 1 (junk + count_users (\<lambda>u. u_name u \<noteq> []) (ud_users db))
             (ud_users db ! nat i) (set_cc CC_SUCCESS r)))"

section \<open>Invariant and frames\<close>

definition user_inv :: "user_db \<Rightarrow> bool" where
  "user_inv db \<longleftrightarrow> length (ud_users db) = 10"

lemma plat_user_save_users [simp]: "ud_users (plat_user_save db) = ud_users db"
  by (simp add: plat_user_save_def)

lemma user_update_users:
  "user_update i f db = Some db' \<Longrightarrow>
     ud_users db' = (ud_users db)[nat i := f (ud_users db ! nat i)] \<and> 0 \<le> i \<and> i < 10"
  by (auto simp: user_update_def split: if_splits)

lemma user_update_inv: "user_inv db \<Longrightarrow> user_update i f db = Some db' \<Longrightarrow> user_inv db'"
  by (auto simp: user_inv_def dest: user_update_users)

lemma get_user_cnt_le: "user_inv db \<Longrightarrow> get_user_cnt (ud_users db) \<le> 10"
  using length_takeWhile_le [of "\<lambda>u. u_name u \<noteq> []" "drop 1 (ud_users db)"]
  by (simp add: get_user_cnt_def user_inv_def)

text \<open>After a save, every redfish account that exists for a counted user mirrors that user.\<close>

definition accounts_mirror :: "user_db \<Rightarrow> bool" where
  "accounts_mirror db \<longleftrightarrow> (\<forall>i < get_user_cnt (ud_users db). \<forall>a. ud_accounts db i = Some a \<longrightarrow>
     a_user_name a = u_name (ud_users db ! i) \<and> a_password a = u_password (ud_users db ! i)
     \<and> a_priv a = uint (u_priv (ud_users db ! i)))"

lemma plat_user_save_mirror: "accounts_mirror (plat_user_save db)"
  by (auto simp: accounts_mirror_def plat_user_save_def account_of_def)

lemma user_update_mirror: "user_update i f db = Some db' \<Longrightarrow> accounts_mirror db'"
  by (auto simp: user_update_def plat_user_save_mirror split: if_splits)

end
