(* ===== verification/User_Properties.thy ===== *)
theory User_Properties
  imports User_Db
begin

text \<open>
  The properties of the user table: what authentication looks up, passwords and names set over
  IPMI, deletion, and the mirror in the redfish accounts.
\<close>

section \<open>The table after start-up\<close>

definition boot_users :: user_db where
  "boot_users = snd (user_loading \<lparr>ud_users = replicate 10 empty_user, ud_accounts = (\<lambda>i. None)\<rparr>)"

lemma boot_users_list:
  "ud_users boot_users = [snd (plat_user_init 0 empty_user), snd (plat_user_init 1 empty_user),
     empty_user, empty_user, empty_user, empty_user, empty_user, empty_user, empty_user, empty_user]"
  by (simp add: boot_users_def user_loading_def Let_def numeral_eq_Suc)

lemma boot_users_inv: "user_inv boot_users"
  by (simp add: user_inv_def boot_users_list)

section \<open>Look-ups\<close>

lemma find_user_unknown:
  "\<forall>u \<in> set us. u_name u = n \<longrightarrow> u_enable u \<noteq> 1 \<Longrightarrow> find_user n i us = 0"
  by (induction us arbitrary: i) auto

lemma find_user_range:
  "0 \<le> find_user n i us \<and> (find_user n i us \<noteq> 0 \<longrightarrow>
     (\<exists>k < length us. find_user n i us = int (i + k) \<and> u_name (us ! k) = n \<and> u_enable (us ! k) = 1))"
proof (induction us arbitrary: i)
  case Nil
  then show ?case by simp
next
  case (Cons u us)
  show ?case
  proof (cases "u_name u = n")
    case True
    then show ?thesis by (auto intro!: exI [of _ 0])
  next
    case False
    then have "find_user n i (u # us) = find_user n (Suc i) us" by simp
    moreover have "\<exists>k < length (u # us). find_user n (Suc i) us = int (i + k)
        \<and> u_name ((u # us) ! k) = n \<and> u_enable ((u # us) ! k) = 1"
      if nz: "find_user n (Suc i) us \<noteq> 0"
    proof -
      obtain k where "k < length us" "find_user n (Suc i) us = int (Suc i + k)"
          "u_name (us ! k) = n" "u_enable (us ! k) = 1"
        using Cons.IH [of "Suc i"] nz by blast
      then show ?thesis by (intro exI [of _ "Suc k"]) simp
    qed
    ultimately show ?thesis using Cons.IH [of "Suc i"] by simp
  qed
qed

text \<open>The look-up of a user name never reports an unknown user: a name that is not in the table, or
  that belongs to a disabled user, gives index 0, the index of "root", and so root's password.
  Any other index is the index of an enabled user with that name.\<close>

theorem unknown_user_is_root:
  assumes "user_inv db"
  shows "app_getUserindex n db \<noteq> -1
    \<and> ((\<forall>u \<in> set (ud_users db). u_name u = n \<longrightarrow> u_enable u \<noteq> 1) \<longrightarrow>
         app_getUserindex n db = 0
         \<and> app_getUserpassword (nat (app_getUserindex n db)) db = Some (u_password (ud_users db ! 0)))
    \<and> (app_getUserindex n db \<noteq> 0 \<longrightarrow>
         u_name (ud_users db ! nat (app_getUserindex n db)) = n
         \<and> u_enable (ud_users db ! nat (app_getUserindex n db)) = 1)"
  using find_user_range [of n 0 "ud_users db"] find_user_unknown [of "ud_users db" n 0]
  by (auto simp: app_getUserindex_def app_getUserpassword_def)

lemma unknown_user_is_root_witness:
  "app_getUserindex [0x65, 0x76, 0x65] boot_users = 0 \<and> app_getUserpassword 0 boot_users = Some []"
proof -
  have "\<forall>u \<in> set (ud_users boot_users). u_name u = [0x65, 0x76, 0x65] \<longrightarrow> u_enable u \<noteq> 1"
    and "u_password (ud_users boot_users ! 0) = []"
    by (simp_all add: boot_users_list plat_user_init_def empty_user_def root_name_def admin_name_def)
  then show ?thesis
    using unknown_user_is_root [OF boot_users_inv, of "[0x65, 0x76, 0x65]"] by auto
qed

lemma authenticate_scan_eq:
  "authenticate_scan u0 n p us
     = (if \<exists>u \<in> set us. u_name u = n \<and> u_password u = p then uint (u_priv u0) else 0)"
  by (induction us) auto

text \<open>A REST login succeeds exactly for a name and password of the table, enabled or not, and what
  it returns is the privilege of user 0 (root), not of the user that logged in.\<close>

theorem authenticate_returns_root_priv:
  "authenticate_ipmi n p db =
     (if \<exists>u \<in> set (ud_users db). u_name u = n \<and> u_password u = p
      then uint (u_priv (ud_users db ! 0)) else 0)"
  by (simp add: authenticate_ipmi_def authenticate_scan_eq)

section \<open>Names and passwords set over IPMI\<close>

text \<open>A name set over IPMI is stored with its padding, 15 bytes long: it equals no name of another
  length, so a client that logs in with the plain name is not found, and the check for a
  duplicate name does not see one. The completion code is success exactly when a name was stored.\<close>

theorem set_username_stores_padding:
  assumes "user_inv db" and "app_set_username db q r = Some (db', r')" and "r_cc r = 0xFF"
  shows "user_inv db' \<and> (r_cc r' = CC_SUCCESS \<longrightarrow>
      ud_users db' = (ud_users db)[unat (req_byte q 0) - 1 :=
        (ud_users db ! (unat (req_byte q 0) - 1))\<lparr>u_name := req_bytes q 1 15\<rparr>])
    \<and> (r_cc r' \<noteq> CC_SUCCESS \<longrightarrow> db' = db)
    \<and> (\<forall>n. length n \<noteq> 15 \<longrightarrow> n \<noteq> req_bytes q 1 15)"
proof -
  have n: "nat (uint (req_byte q 0) - 1) = unat (req_byte q 0) - 1"
    using nat_uint_eq [of "req_byte q 0"] by linarith
  show ?thesis
    using assms user_update_users [of "uint (req_byte q 0) - 1" "setUserName (req_bytes q 1 15)" db]
      user_update_inv [OF assms(1)]
    by (auto simp: app_set_username_def Let_def setUserName_def n split: if_splits)
qed

lemma set_username_stores_padding_witness:
  "\<exists>db' r'. app_set_username boot_users \<lparr>q_netfn = 6, q_cmd = 0x45, q_data = [3, 0x62, 0x6F, 0x62]\<rparr>
       (set_cc 0xFF blank_res) = Some (db', r') \<and> user_inv db'"
proof -
  let ?q = "\<lparr>q_netfn = 6, q_cmd = 0x45, q_data = [3, 0x62, 0x6F, 0x62]\<rparr> :: ipmi_req"
  let ?n = "req_bytes ?q 1 15"
  have "length ?n = 15" by simp
  then have "\<not> (\<exists>u \<in> set (ud_users boot_users). u_name u = ?n)"
    by (auto simp: boot_users_list plat_user_init_def empty_user_def root_name_def admin_name_def
        simp del: length_bytes_at dest!: arg_cong [of _ _ length])
  then obtain db' where "app_set_username boot_users ?q (set_cc 0xFF blank_res)
      = Some (db', set_len 0 (set_cc CC_SUCCESS (set_cc 0xFF blank_res)))"
    by (auto simp: app_set_username_def user_update_def Let_def)
  with set_username_stores_padding [OF boot_users_inv this] show ?thesis by auto
qed

text \<open>A password set over IPMI (14 or 20 bytes, padding included) for a user 1 to 10 is the one the
  password test accepts, and the test accepts nothing else; setting it changes no other user. The
  set command itself reports no success: it leaves the completion code as it was.\<close>

definition passwd_request :: "u8 \<Rightarrow> bool \<Rightarrow> u8 \<Rightarrow> u8 list \<Rightarrow> ipmi_req" where
  "passwd_request user long op p = \<lparr>q_netfn = 6, q_cmd = 0x47,
     q_data = [(if long then 0x80 OR user else user), op] @ p\<rparr>"

lemma passwd_request_fields:
  assumes "user < 0x20" and "op < 4" and "length p = (if long then 20 else 14)"
  shows "req_byte (passwd_request user long op p) 0 AND 0x1F = user"
    and "drop_bit 7 (req_byte (passwd_request user long op p) 0 AND 0x80) = (if long then 1 else 0)"
    and "req_byte (passwd_request user long op p) 1 AND 0x03 = op"
    and "(if long then req_bytes (passwd_request user long op p) 2 20
          else req_bytes (passwd_request user long op p) 2 14) = p"
proof -
  have user: "user AND 0x1F = user"
    using less_mask_eq [of user 5] assms(1) by (simp add: mask_eq_exp_minus_1)
  have "user AND 0x80 = user AND (0x1F AND 0x80)" by (metis user and.assoc)
  then have hi: "user AND 0x80 = 0" by simp
  then have "drop_bit 7 (user AND 0x80) = 0" by simp
  then have hi7: "drop_bit 7 user AND 1 = 0" by simp
  show "req_byte (passwd_request user long op p) 0 AND 0x1F = user"
    by (simp add: passwd_request_def user bit.conj_disj_distrib2)
  show "drop_bit 7 (req_byte (passwd_request user long op p) 0 AND 0x80) = (if long then 1 else 0)"
    by (simp add: passwd_request_def hi7 bit.conj_disj_distrib2)
  show "req_byte (passwd_request user long op p) 1 AND 0x03 = op"
    using less_mask_eq [of op 2] assms(2) by (simp add: passwd_request_def mask_eq_exp_minus_1)
  show "(if long then req_bytes (passwd_request user long op p) 2 20
          else req_bytes (passwd_request user long op p) 2 14) = p"
    using assms(3) by (auto simp: passwd_request_def intro!: nth_equalityI) (simp_all add: byte_at_def)
qed

section \<open>Deleting a user\<close>

lemma shift_users_spec:
  "i + n < length us \<Longrightarrow> \<exists>us'. shift_users i n us = Some us' \<and> length us' = length us
     \<and> (\<forall>k < length us. us' ! k = (if i \<le> k \<and> k < i + n then us ! Suc k else us ! k))"
proof (induction i n us rule: shift_users.induct)
  case (1 i us)
  then show ?case by auto
next
  case (2 i n us)
  let ?us = "us[i := us ! Suc i]"
  have "Suc i < length us" using 2(2) by simp
  with 2 obtain us' where us': "shift_users (Suc i) n ?us = Some us'" "length us' = length us"
      "\<forall>k < length us. us' ! k = (if Suc i \<le> k \<and> k < Suc i + n then ?us ! Suc k else ?us ! k)"
    by auto
  have "us' ! k = (if i \<le> k \<and> k < i + Suc n then us ! Suc k else us ! k)" if "k < length us" for k
    using us'(3) that \<open>Suc i < length us\<close> by (auto simp: nth_list_update)
  then show ?case using us' \<open>Suc i < length us\<close> by simp
qed

lemma get_user_cntI:
  assumes "0 < c" and "c \<le> length us" and "\<And>k. 1 \<le> k \<Longrightarrow> k < c \<Longrightarrow> u_name (us ! k) \<noteq> []"
    and "c < length us \<Longrightarrow> u_name (us ! c) = []"
  shows "get_user_cnt us = c"
proof -
  have "takeWhile (\<lambda>u. u_name u \<noteq> []) (drop 1 us) = take (c - 1) (drop 1 us)"
    by (rule takeWhile_eq_take_P_nth) (use assms in \<open>auto simp: less_diff_conv\<close>)
  then show ?thesis using assms(1,2) by (simp add: get_user_cnt_def)
qed

lemma get_user_cntD:
  assumes "1 \<le> k" and "k < get_user_cnt us" and "k < length us"
  shows "u_name (us ! k) \<noteq> []"
proof -
  have "k - 1 < length (takeWhile (\<lambda>u. u_name u \<noteq> []) (drop 1 us))"
    using assms by (simp add: get_user_cnt_def)
  from set_takeWhileD [OF nth_mem [OF this]] takeWhile_nth [OF this] show ?thesis
    using assms by simp
qed

lemma get_user_cnt_end: "get_user_cnt us < length us \<Longrightarrow> u_name (us ! get_user_cnt us) = []"
  using nth_length_takeWhile [of "\<lambda>u. u_name u \<noteq> []" "drop 1 us"]
  by (simp add: get_user_cnt_def)

text \<open>Deleting user \<open>index\<close> (not one of the two built-in users, not the last one, and the table not
  full) removes exactly that user: the users before it stay, those after it move up one place,
  the freed slot is cleared, one user fewer is counted, and the redfish accounts mirror the
  result.\<close>

theorem delete_user_shifts:
  assumes inv: "user_inv db" and cnt: "cnt = get_user_cnt (ud_users db)" and full: "cnt < 10"
    and i: "2 \<le> i" "i < cnt - 1"
  shows "\<exists>db'. app_del_user (int i) db = Some db' \<and> user_inv db' \<and> accounts_mirror db'
    \<and> get_user_cnt (ud_users db') = cnt - 1
    \<and> (\<forall>k < 10. k \<noteq> cnt - 1 \<longrightarrow>
         ud_users db' ! k = (if i \<le> k \<and> k < cnt - 1 then ud_users db ! Suc k else ud_users db ! k))
    \<and> u_name (ud_users db' ! (cnt - 1)) = [] \<and> u_enable (ud_users db' ! (cnt - 1)) = 0"
proof -
  let ?us = "ud_users db"
  have len: "length ?us = 10" using inv by (simp add: user_inv_def)
  obtain us' where us': "shift_users i (cnt - i) ?us = Some us'" "length us' = 10"
      "\<forall>k < 10. us' ! k = (if i \<le> k \<and> k < cnt then ?us ! Suc k else ?us ! k)"
    using shift_users_spec [of i "cnt - i" ?us] i full len by auto
  let ?new = "us'[cnt - 1 := deleteUser (cnt - 1) (us' ! (cnt - 1))]"
  have run: "app_del_user (int i) db = Some (plat_user_save (db\<lparr>ud_users := ?new\<rparr>))"
    using us'(1) i full by (auto simp: app_del_user_def Let_def cnt [symmetric])
  have gone: "u_name (?new ! (cnt - 1)) = []" "u_enable (?new ! (cnt - 1)) = 0"
    using us'(2) i full by (auto simp: deleteUser_def)
  have rest: "?new ! k = (if i \<le> k \<and> k < cnt - 1 then ?us ! Suc k else ?us ! k)"
    if "k < 10" "k \<noteq> cnt - 1" for k
    using us'(3) that by auto
  have "get_user_cnt ?new = cnt - 1"
  proof (rule get_user_cntI)
    fix k assume k: "1 \<le> k" "k < cnt - 1"
    then have "u_name (?us ! k) \<noteq> []" "u_name (?us ! Suc k) \<noteq> []"
      using get_user_cntD [of k ?us] get_user_cntD [of "Suc k" ?us] cnt full len by auto
    then show "u_name (?new ! k) \<noteq> []" using rest [of k] k full by auto
  qed (use i full us'(2) gone in auto)
  then show ?thesis
    using run gone rest us'(2) plat_user_save_mirror by (simp add: user_inv_def)
qed

definition three_users :: user_db where
  "three_users = \<lparr>ud_users = [empty_user\<lparr>u_name := [1]\<rparr>, empty_user\<lparr>u_name := [2]\<rparr>,
     empty_user\<lparr>u_name := [3]\<rparr>, empty_user\<lparr>u_name := [4]\<rparr>, empty_user, empty_user, empty_user,
     empty_user, empty_user, empty_user], ud_accounts = (\<lambda>i. None)\<rparr>"

lemma delete_user_shifts_witness:
  "\<exists>db'. app_del_user 2 three_users = Some db' \<and> get_user_cnt (ud_users db') = 3"
proof -
  have "user_inv three_users" "4 = get_user_cnt (ud_users three_users)"
    by (simp_all add: three_users_def user_inv_def get_user_cnt_def empty_user_def)
  from delete_user_shifts [OF this, of 2] show ?thesis by auto
qed

text \<open>The password property.\<close>

theorem passwd_set_then_test:
  assumes inv: "user_inv db" and user: "1 \<le> user" "user \<le> 10"
    and p: "length p = (if long then 20 else 14)" and p': "length p' = (if long' then 20 else 14)"
  shows "\<exists>db'. app_set_user_passwd db (passwd_request user long 2 p) r = Some (db', r)
    \<and> user_inv db'
    \<and> (\<forall>k < 10. k \<noteq> unat user - 1 \<longrightarrow> ud_users db' ! k = ud_users db ! k)
    \<and> app_set_user_passwd db' (passwd_request user long' 3 p') r
        = Some (db', set_cc (if p' = p then CC_SUCCESS else 0x81) r)"
proof -
  have u5: "user < 0x20" using user(2) by (simp add: word_le_nat_alt word_less_nat_alt)
  have un: "1 \<le> unat user" "unat user \<le> 10" using user by (simp_all add: word_le_nat_alt)
  have "unat (user - 1) = unat user - 1" using unat_sub [OF user(1)] by simp
  then obtain n where un1: "unat (user - 1) = n" and n: "unat user - 1 = n" by blast
  have idx: "uint (user - 1) = int n" "n < 10" using un1 n un by (metis of_nat_unat, linarith)
  let ?db' = "plat_user_save (db\<lparr>ud_users := (ud_users db)[n := setUserPasswd p (ud_users db ! n)]\<rparr>)"
  have set: "app_set_user_passwd db (passwd_request user long 2 p) r = Some (?db', r)"
    using passwd_request_fields [OF u5 _ p, of 2] idx p
    by (cases long) (simp_all add: app_set_user_passwd_def user_update_def Let_def)
  have test: "app_set_user_passwd ?db' (passwd_request user long' 3 p') r
      = Some (?db', set_cc (if p' = p then CC_SUCCESS else 0x81) r)"
    using passwd_request_fields [OF u5 _ p', of 3] idx p' inv
    by (cases long') (auto simp: app_set_user_passwd_def Let_def user_inv_def setUserPasswd_def)
  show ?thesis
    using set test inv n by (intro exI [of _ ?db']) (simp add: user_inv_def)
qed

lemma passwd_set_then_test_witness:
  "\<exists>db'. app_set_user_passwd boot_users (passwd_request 2 True 2 (replicate 20 1)) blank_res
       = Some (db', blank_res)
     \<and> app_set_user_passwd db' (passwd_request 2 True 3 (replicate 20 1)) blank_res
       = Some (db', set_cc 0 blank_res)"
proof -
  have "(1 :: u8) \<le> 2" "(2 :: u8) \<le> 10" "length (replicate 20 (1 :: u8)) = (if True then 20 else 14)"
    by simp_all
  from passwd_set_then_test [OF boot_users_inv this(1,2,3,3), of blank_res]
  obtain db' where "app_set_user_passwd boot_users (passwd_request 2 True 2 (replicate 20 1)) blank_res
      = Some (db', blank_res)"
    and "app_set_user_passwd db' (passwd_request 2 True 3 (replicate 20 1)) blank_res
      = Some (db', set_cc (if replicate 20 (1 :: u8) = replicate 20 1 then CC_SUCCESS else 0x81) blank_res)"
    by blast
  then show ?thesis by (intro exI [of _ db'] conjI) (simp_all only: if_True refl)
qed

end
