(* ===== verification/Channel_Cfg.thy ===== *)
theory Channel_Cfg
  imports Contracts
begin

text \<open>
  The channel table: class \<open>Ipmichannel\<close> (libs/channel/channel.cpp, include/ipmi/channel.hpp) and
  the nine-element array \<open>ipmiChannel\<close> with the channel commands of libs/apps/apps.cpp. The array
  is static, so members a constructor does not set are zero; a channel number above 8 indexes
  past the array (\<open>None\<close>).
\<close>

record channel =
  c_medium :: u8
  c_protocol :: u8
  c_session_info :: u8
  c_access_mode :: u8
  c_alerting :: u8
  c_per_msg :: u8
  c_number :: u8
  c_priv_limit :: u8
  c_user_lvl :: u8

type_synonym channels = "channel list"

definition plain_channel :: "u8 \<Rightarrow> channel" where
  "plain_channel n = \<lparr>c_medium = 0, c_protocol = 0, c_session_info = 0, c_access_mode = 0,
     c_alerting = 0, c_per_msg = 0, c_number = n, c_priv_limit = 0, c_user_lvl = 0\<rparr>"

definition make_channel :: "u8 \<Rightarrow> u8 \<Rightarrow> u8 \<Rightarrow> u8 \<Rightarrow> channel" where
  "make_channel m p n i = (plain_channel n)\<lparr>c_medium := m, c_protocol := p, c_session_info := i\<rparr>"

definition boot_channels :: channels where
  "boot_channels = [make_channel 0x01 0x01 0 0x00, make_channel 0x04 0x01 1 0x80,
     make_channel 0x0C 0x05 2 0x00, plain_channel 3, plain_channel 4, plain_channel 5,
     make_channel 0x04 0x01 6 0x80, make_channel 0x04 0x01 7 0x80, make_channel 0x04 0x01 6 0x80]"

section \<open>Methods\<close>

definition getChannelInfo :: "u8 \<Rightarrow> channel \<Rightarrow> ipmi_res \<Rightarrow> ipmi_res" where
  "getChannelInfo n c r = reply CC_SUCCESS
     [n, c_medium c, c_protocol c, c_session_info c, 0xF2, 0x1B, 0, 0, 0] r"

definition getChannelAccess :: "channel \<Rightarrow> ipmi_res \<Rightarrow> ipmi_res" where
  "getChannelAccess c r = reply CC_SUCCESS
     [push_bit 5 (c_alerting c) OR push_bit 4 (c_per_msg c) OR push_bit 3 (c_user_lvl c)
        OR c_access_mode c, c_priv_limit c] r"

definition setChannelAccess :: "ipmi_req \<Rightarrow> channel \<Rightarrow> channel" where
  "setChannelAccess q c = c\<lparr>c_alerting := drop_bit 6 (req_byte q 1 AND 0x20),
     c_per_msg := drop_bit 6 (req_byte q 1 AND 0x10), c_user_lvl := req_byte q 1 AND 0x08,
     c_access_mode := req_byte q 2 AND 0x07, c_priv_limit := drop_bit 0x0F (req_byte q 2)\<rparr>"

text \<open>The value the out-parameter is set to; other types leave it alone.\<close>

definition getChannelParams :: "int \<Rightarrow> channel \<Rightarrow> u8 \<Rightarrow> u8" where
  "getChannelParams ty c old = (if ty = 0 then c_medium c else if ty = 1 then c_protocol c
     else if ty = 2 then c_session_info c else old)"

definition setChannelParams :: "u8 \<Rightarrow> u8 \<Rightarrow> channel \<Rightarrow> bool \<times> channel" where
  "setChannelParams flag d c =
     (if flag = 1 then (True, c\<lparr>c_medium := d\<rparr>)
      else if flag = 2 then (True, c\<lparr>c_access_mode := d\<rparr>)
      else if flag = 3 then (True, c\<lparr>c_alerting := d\<rparr>)
      else if flag = 4 then (True, c\<lparr>c_alerting := d\<rparr>)
      else if flag = 5 then (True, c\<lparr>c_priv_limit := d\<rparr>)
      else if flag = 6 then (True, c\<lparr>c_user_lvl := d\<rparr>)
      else (False, c))"

section \<open>Commands\<close>

definition channel_of :: "ipmi_req \<Rightarrow> nat" where
  "channel_of q = unat (req_byte q 0 AND 0x0F)"

definition app_set_channel_access :: "channels handler" where
  "app_set_channel_access cs q r =
     (if channel_of q < 9
      then Some (cs[channel_of q := setChannelAccess q (cs ! channel_of q)], set_len 0 (set_cc CC_SUCCESS r))
      else None)"

definition app_get_channel_access :: "channels handler" where
  "app_get_channel_access cs q r =
     (if channel_of q < 9 then Some (cs, getChannelAccess (cs ! channel_of q) r) else None)"

definition app_get_channel_info :: "channels handler" where
  "app_get_channel_info cs q r =
     (if channel_of q \<le> 8
      then Some (cs, set_cc CC_SUCCESS
             (getChannelInfo (req_byte q 0 AND 0x0F) (cs ! channel_of q) r))
      else Some (cs, set_cc CC_UNKNOWN r))"

definition channel_inv :: "channels \<Rightarrow> bool" where
  "channel_inv cs \<longleftrightarrow> length cs = 9"

lemma boot_channels_inv: "channel_inv boot_channels"
  by (simp add: channel_inv_def boot_channels_def)

section \<open>Properties\<close>

text \<open>Setting the access of a channel and reading it back returns neither the alerting nor the
  per-message-authentication setting nor the privilege limit of the request: the first two are
  masked and then shifted out, and the limit is shifted right by 15, so all three read as 0
  whatever was asked for. The user-level setting comes back as bit 6.\<close>

theorem channel_access_lost:
  assumes "channel_inv cs" and "channel_of q < 9" and "channel_of q' = channel_of q"
  shows "\<exists>cs' r1 r2. app_set_channel_access cs q r = Some (cs', r1)
    \<and> app_get_channel_access cs' q' r = Some (cs', r2) \<and> r_cc r1 = CC_SUCCESS
    \<and> res_payload r2 = [push_bit 3 (req_byte q 1 AND 0x08) OR (req_byte q 2 AND 0x07), 0]
    \<and> (\<forall>k < 9. k \<noteq> channel_of q \<longrightarrow> cs' ! k = cs ! k)"
proof -
  have z: "drop_bit 6 (req_byte q 1 AND 0x20) = 0" "drop_bit 6 (req_byte q 1 AND 0x10) = 0"
    by (rule bit_word_eqI; simp add: bit_drop_bit_eq bit_and_iff bit_numeral_word_iff)+
  have l: "drop_bit 15 (req_byte q 2) = 0"
    by (rule bit_word_eqI) (simp add: bit_drop_bit_eq)
  show ?thesis
    using assms by (auto simp: app_set_channel_access_def app_get_channel_access_def channel_inv_def
        setChannelAccess_def getChannelAccess_def z l)
qed

lemma channel_access_lost_witness:
  "\<exists>cs' r1 r2. app_set_channel_access boot_channels
        \<lparr>q_netfn = 6, q_cmd = 0x40, q_data = [1, 0x70, 0x84]\<rparr> blank_res = Some (cs', r1)
     \<and> app_get_channel_access cs' \<lparr>q_netfn = 6, q_cmd = 0x41, q_data = [1]\<rparr> blank_res = Some (cs', r2)
     \<and> res_payload r2 = [4, 0]"
proof -
  let ?q = "\<lparr>q_netfn = 6, q_cmd = 0x40, q_data = [1, 0x70, 0x84]\<rparr> :: ipmi_req"
  let ?q' = "\<lparr>q_netfn = 6, q_cmd = 0x41, q_data = [1]\<rparr> :: ipmi_req"
  have c: "channel_of ?q < 9" "channel_of ?q' = channel_of ?q" by (simp_all add: channel_of_def)
  from channel_access_lost [OF boot_channels_inv c, of blank_res]
  show ?thesis by auto
qed

text \<open>"Get channel info" answers for every channel number, never past the array; the access commands
  are undefined exactly for the channel numbers 9 to 15.\<close>

theorem channel_commands_defined:
  assumes "channel_inv cs"
  shows "app_get_channel_info cs q r \<noteq> None
    \<and> (app_get_channel_access cs q r = None \<longleftrightarrow> 8 < channel_of q)
    \<and> (app_set_channel_access cs q r = None \<longleftrightarrow> 8 < channel_of q)
    \<and> channel_of q < 16"
proof -
  have "req_byte q 0 AND 0x0F \<le> 0x0F" by (rule word_and_le1)
  then have "channel_of q \<le> 15" by (simp add: channel_of_def word_le_nat_alt)
  then show ?thesis
    by (auto simp: app_get_channel_info_def app_get_channel_access_def app_set_channel_access_def)
qed

lemma channel_commands_defined_witness:
  "app_get_channel_access boot_channels \<lparr>q_netfn = 6, q_cmd = 0x41, q_data = [0x0E]\<rparr> blank_res = None"
  using channel_commands_defined [OF boot_channels_inv,
      of "\<lparr>q_netfn = 6, q_cmd = 0x41, q_data = [0x0E]\<rparr>" blank_res]
  by (simp add: channel_of_def)

end
