(* ===== verification/Session_Mgr.thy ===== *)
theory Session_Mgr
  imports Contracts
begin

text \<open>
  The session table: class \<open>Ipmisession\<close> (include/ipmi/session.hpp, libs/session/session.cpp), the
  array of five sessions \<open>ipmiSession\<close>, and the session commands of the application netfn
  (libs/apps/apps.cpp). The array is static, so the members the constructor leaves alone are zero.
\<close>

section \<open>State\<close>

text \<open>\<open>lan_data\<close> and \<open>rmcpData\<close> are flattened into the record; the bit fields \<open>user_id\<close> (6 bits) and
  \<open>session_slot_count\<close> keep their width on assignment.\<close>

record session =
  sn_handle :: u8
  sn_sol :: u8
  sn_slot_count :: u8
  sn_active_count :: u8
  sn_user_id :: u8
  sn_aux :: u8
  sn_channel :: u8
  sn_ip :: "u8 list"
  sn_mac :: "u8 list"
  sn_port :: u16
  sn_bmc_id :: "u8 list"
  sn_mgnt_id :: "u8 list"
  sn_clnt_id :: "u8 list"
  sn_username :: "u8 list"
  sn_rm :: "u8 list"
  sn_rc :: "u8 list"
  sn_kuid :: "u8 list"
  sn_k1 :: "u8 list"
  sn_aeskey :: "u8 list"
  sn_rolem :: u8
  sn_user_priv :: u8
  sn_name_length :: u8

definition new_session :: session where
  "new_session = \<lparr>sn_handle = 0, sn_sol = 0, sn_slot_count = 5, sn_active_count = 0,
     sn_user_id = 0, sn_aux = 0, sn_channel = 0, sn_ip = [], sn_mac = [], sn_port = 0,
     sn_bmc_id = [], sn_mgnt_id = [], sn_clnt_id = [], sn_username = [], sn_rm = [], sn_rc = [],
     sn_kuid = [], sn_k1 = [], sn_aeskey = [], sn_rolem = 0, sn_user_priv = 0, sn_name_length = 0\<rparr>"

type_synonym sessions = "session list"

definition boot_sessions :: sessions where
  "boot_sessions = replicate 5 new_session"

section \<open>Methods\<close>

definition setActiveSessionCount :: "u8 \<Rightarrow> session \<Rightarrow> session" where
  "setActiveSessionCount n s = s\<lparr>sn_active_count := n AND 0x3F\<rparr>"

definition getSessionChanData :: "session \<Rightarrow> u8" where
  "getSessionChanData s = push_bit 4 (sn_aux s) OR sn_channel s"

definition setSessionUserId :: "u8 \<Rightarrow> session \<Rightarrow> session" where
  "setSessionUserId i s = s\<lparr>sn_user_id := i AND 0x3F\<rparr>"

definition setSessionPriv :: "u8 \<Rightarrow> session \<Rightarrow> int \<times> session" where
  "setSessionPriv priv s =
     (if priv \<le> 4 then
        (if sn_user_priv s < priv
         then (0, s\<lparr>sn_rolem := (sn_rolem s AND 0x10) OR (priv AND 0x07)\<rparr>)
         else (-1, s))
      else (-2, s))"

definition getSessionPriv :: "session \<Rightarrow> u8" where
  "getSessionPriv s = sn_rolem s AND 0x07"

definition setSessionAesKey :: "u8 list \<Rightarrow> u8 list \<Rightarrow> session \<Rightarrow> session" where
  "setSessionAesKey k1 aes s = s\<lparr>sn_k1 := take 32 k1, sn_aeskey := take 16 aes\<rparr>"

definition closeSession :: "session \<Rightarrow> session" where
  "closeSession s = s\<lparr>sn_handle := 0\<rparr>"

definition setSessionActive :: "u8 \<Rightarrow> session \<Rightarrow> session" where
  "setSessionActive i s = s\<lparr>sn_handle := 32 + i\<rparr>"

text \<open>\<open>getSessionId\<close> compares the address bytes, lowest first, and the management id.\<close>

definition getSessionId :: "u32 \<Rightarrow> u8 list \<Rightarrow> session \<Rightarrow> bool" where
  "getSessionId ip mgnt s \<longleftrightarrow> sn_ip s = le32 ip \<and> sn_mgnt_id s = mgnt"

definition setRmcpLanData :: "u8 list \<Rightarrow> u8 list \<Rightarrow> u16 \<Rightarrow> session \<Rightarrow> session" where
  "setRmcpLanData ip mac port s = s\<lparr>sn_ip := ip, sn_mac := mac, sn_port := port\<rparr>"

definition setRmcpData :: "u8 list \<Rightarrow> u8 list \<Rightarrow> u8 list \<Rightarrow> u8 list \<Rightarrow> u8 \<Rightarrow> u8 \<Rightarrow> u8 list \<Rightarrow> u8
    \<Rightarrow> u8 list \<Rightarrow> session \<Rightarrow> session" where
  "setRmcpData mgnt clnt rc rm rolem priv name len passwd s =
     s\<lparr>sn_bmc_id := mgnt, sn_mgnt_id := mgnt, sn_clnt_id := clnt, sn_rm := rm, sn_rc := rc,
       sn_rolem := rolem, sn_username := name, sn_name_length := len, sn_kuid := passwd,
       sn_user_priv := priv, sn_aux := 1\<rparr>"

text \<open>The byte strings the RAKP authentication codes are computed over; \<open>uuid\<close> is \<open>uuid_hex\<close>.\<close>

definition buildHmacRAKP4 :: "u8 list \<Rightarrow> session \<Rightarrow> u8 list" where
  "buildHmacRAKP4 uuid s = sn_rm s @ sn_mgnt_id s @ uuid"

definition buildHmacRAKP3 :: "session \<Rightarrow> u8 list" where
  "buildHmacRAKP3 s = sn_rc s @ sn_clnt_id s @ [sn_rolem s, sn_name_length s] @ sn_username s"

definition buildHmacSikData :: "session \<Rightarrow> u8 list" where
  "buildHmacSikData s = sn_rm s @ sn_rc s @ [sn_rolem s, sn_name_length s] @ sn_username s"

definition buildHmacData :: "u8 list \<Rightarrow> session \<Rightarrow> u8 list" where
  "buildHmacData uuid s = sn_clnt_id s @ sn_mgnt_id s @ sn_rm s @ sn_rc s @ uuid
     @ [sn_rolem s, sn_name_length s] @ sn_username s"

section \<open>Searching the table\<close>

text \<open>The loops of the code that stop at the first session with a property.\<close>

fun find_first :: "(session \<Rightarrow> bool) \<Rightarrow> sessions \<Rightarrow> nat option" where
  "find_first P [] = None"
| "find_first P (s # ss) = (if P s then Some 0 else map_option Suc (find_first P ss))"

definition find_session :: "u32 \<Rightarrow> u8 list \<Rightarrow> sessions \<Rightarrow> nat option" where
  "find_session ip mgnt = find_first (getSessionId ip mgnt)"

text \<open>The loops that run from index 4 down to 0: the last session with the property.\<close>

fun find_last :: "(session \<Rightarrow> bool) \<Rightarrow> sessions \<Rightarrow> nat option" where
  "find_last P [] = None"
| "find_last P (s # ss) =
     (case find_last P ss of Some i \<Rightarrow> Some (Suc i) | None \<Rightarrow> if P s then Some 0 else None)"

section \<open>Commands\<close>

definition active_count :: "sessions \<Rightarrow> u8" where
  "active_count ss = word_of_nat (length (filter (\<lambda>s. sn_handle s \<noteq> 0) ss))"

definition session_info_index :: "ipmi_req \<Rightarrow> sessions \<Rightarrow> nat option" where
  "session_info_index q ss =
     (if req_byte q 0 = 0 then find_first (\<lambda>s. sn_handle s \<noteq> 0) ss
      else if req_byte q 0 = 0xFE then find_first (\<lambda>s. req_byte q 1 = sn_handle s) ss
      else if req_byte q 0 = 0xFF then find_first (\<lambda>s. req_byte q 1 = sn_user_id s) ss
      else None)"

definition session_info :: "session \<Rightarrow> u8 list" where
  "session_info s = [sn_handle s, sn_slot_count s, sn_active_count s, sn_user_id s,
     getSessionPriv s, getSessionChanData s] @ sn_ip s @ sn_mac s
     @ [ucast (sn_port s), ucast (drop_bit 8 (sn_port s))]"

definition app_get_session_info :: "sessions handler" where
  "app_get_session_info ss q r =
     (case session_info_index q ss of
        None \<Rightarrow> Some (ss, set_len 0 (set_cc CC_UNSPECIFIED_ERROR r))
      | Some i \<Rightarrow>
          let ss' = map (setActiveSessionCount (active_count ss)) ss
          in Some (ss', reply CC_SUCCESS (session_info (ss' ! i)) r))"

text \<open>\<open>app_close_session\<close>: an unknown id leaves \<open>index\<close> at 0, and session 0 is closed.\<close>

definition app_close_session :: "sessions handler" where
  "app_close_session ss q r =
     (let found = find_last (\<lambda>s. sn_mgnt_id s = req_bytes q 0 4) ss;
          index = (case found of Some i \<Rightarrow> i | None \<Rightarrow> 0);
          cc = (case found of Some _ \<Rightarrow> CC_SUCCESS | None \<Rightarrow> CC_UNSPECIFIED_ERROR)
      in Some (ss[index := closeSession (ss ! index)], set_len 16 (set_cc cc r)))"

definition app_set_session_priv :: "sessions handler" where
  "app_set_session_priv ss q r =
     (case find_last (\<lambda>s. 32 \<le> sn_handle s) ss of
        None \<Rightarrow> Some (ss, set_len 0 r)
      | Some i \<Rightarrow>
          let (ret, s') = setSessionPriv (req_byte q 0) (ss ! i)
          in if ret = 0 then Some (ss[i := s'], reply CC_SUCCESS [req_byte q 0] r)
             else if ret = -1 then Some (ss[i := s'], set_len 0 (set_cc 0x80 r))
             else Some (ss[i := s'], set_len 0 (set_cc 0x81 r)))"

section \<open>Facts\<close>

lemma find_first_Some:
  "find_first P ss = Some i \<Longrightarrow> i < length ss \<and> P (ss ! i) \<and> (\<forall>j < i. \<not> P (ss ! j))"
proof (induction ss arbitrary: i)
  case Nil
  then show ?case by simp
next
  case (Cons s ss)
  then show ?case
    by (cases i) (auto split: if_splits simp: less_Suc_eq_0_disj)
qed

lemma find_first_None: "find_first P ss = None \<longleftrightarrow> (\<forall>s \<in> set ss. \<not> P s)"
  by (induction ss) auto

lemma find_last_Some:
  "find_last P ss = Some i \<Longrightarrow> i < length ss \<and> P (ss ! i) \<and> (\<forall>j. i < j \<and> j < length ss \<longrightarrow> \<not> P (ss ! j))"
proof (induction ss arbitrary: i)
  case Nil
  then show ?case by simp
next
  case (Cons s ss)
  show ?case
  proof (cases "find_last P ss")
    case None
    have "\<forall>s \<in> set ss. \<not> P s" using None
      by (induction ss) (auto split: option.splits if_splits)
    then show ?thesis using Cons.prems None by (auto simp: nth_Cons' split: if_splits)
  next
    case (Some k)
    then show ?thesis using Cons.IH [OF Some] Cons.prems by (auto simp: nth_Cons' less_Suc_eq_0_disj)
  qed
qed

lemma find_last_None: "find_last P ss = None \<longleftrightarrow> (\<forall>s \<in> set ss. \<not> P s)"
  by (induction ss) (auto split: option.splits)

text \<open>Five sessions; a session is closed or has the handle of its place; the console address and MAC
  have at most their size, so the session information fits the response.\<close>

definition slot_ok :: "nat \<Rightarrow> session \<Rightarrow> bool" where
  "slot_ok i s \<longleftrightarrow> (sn_handle s = 0 \<or> sn_handle s = 32 + word_of_nat i)
     \<and> length (sn_ip s) \<le> 4 \<and> length (sn_mac s) \<le> 6"

definition session_inv :: "sessions \<Rightarrow> bool" where
  "session_inv ss \<longleftrightarrow> length ss = 5 \<and> (\<forall>i < 5. slot_ok i (ss ! i))"

lemma boot_sessions_inv: "session_inv boot_sessions"
  by (simp add: boot_sessions_def session_inv_def new_session_def slot_ok_def)

lemma session_inv_update: "session_inv ss \<Longrightarrow> slot_ok i s \<Longrightarrow> session_inv (ss[i := s])"
  by (cases "i < length ss") (auto simp: session_inv_def nth_list_update)

lemma session_inv_slot: "session_inv ss \<Longrightarrow> i < 5 \<Longrightarrow> slot_ok i (ss ! i)"
  by (simp add: session_inv_def)

lemma slot_ok_methods:
  "slot_ok i (closeSession s) = (length (sn_ip s) \<le> 4 \<and> length (sn_mac s) \<le> 6)"
  "slot_ok i (setActiveSessionCount n s) = slot_ok i s"
  "slot_ok i (snd (setSessionPriv p s)) = slot_ok i s"
  "slot_ok i (setSessionActive (word_of_nat i) s) = (length (sn_ip s) \<le> 4 \<and> length (sn_mac s) \<le> 6)"
  "slot_ok i (setSessionUserId u s) = slot_ok i s"
  "slot_ok i (setSessionAesKey k a s) = slot_ok i s"
  by (simp_all add: slot_ok_def closeSession_def setActiveSessionCount_def setSessionPriv_def
      setSessionActive_def setSessionUserId_def setSessionAesKey_def)

lemma slot_ok_close: "slot_ok j s \<Longrightarrow> slot_ok i (closeSession s)"
  by (simp add: slot_ok_methods) (simp add: slot_ok_def)

lemma app_close_session_inv:
  assumes "session_inv ss" and "app_close_session ss q r = Some (ss', r')"
  shows "session_inv ss'"
proof -
  let ?f = "find_last (\<lambda>s. sn_mgnt_id s = req_bytes q 0 4) ss"
  obtain i where "ss' = ss[i := closeSession (ss ! i)]" "i < 5"
    using assms find_last_Some [of "\<lambda>s. sn_mgnt_id s = req_bytes q 0 4" ss]
    by (cases ?f) (auto simp: app_close_session_def Let_def session_inv_def)
  then show ?thesis
    using session_inv_update [OF assms(1) slot_ok_close] session_inv_slot [OF assms(1)] by blast
qed

lemma app_set_session_priv_inv:
  assumes "session_inv ss" and "app_set_session_priv ss q r = Some (ss', r')"
  shows "session_inv ss'"
proof (cases "find_last (\<lambda>s. 32 \<le> sn_handle s) ss")
  case None
  then show ?thesis using assms by (simp add: app_set_session_priv_def)
next
  case (Some i)
  then have "ss' = ss[i := snd (setSessionPriv (req_byte q 0) (ss ! i))]" "i < 5"
    using assms find_last_Some [OF Some]
    by (auto simp: app_set_session_priv_def session_inv_def split_beta Let_def split: if_splits)
  then show ?thesis
    using assms(1) session_inv_slot [OF assms(1), of i]
    by (simp add: session_inv_update slot_ok_methods)
qed

lemma app_get_session_info_inv:
  "session_inv ss \<Longrightarrow> app_get_session_info ss q r = Some (ss', r') \<Longrightarrow> session_inv ss'"
  by (auto simp: app_get_session_info_def session_inv_def slot_ok_methods Let_def
      split: option.splits)

lemma app_get_session_info_fits:
  assumes "session_inv ss" and "res_fits r" and "app_get_session_info ss q r = Some (ss', r')"
  shows "res_fits r'"
proof (cases "session_info_index q ss")
  case None
  then show ?thesis using assms by (simp add: app_get_session_info_def) force
next
  case (Some i)
  then have "i < 5"
    using assms(1) find_first_Some [of _ ss i]
    by (auto simp: session_info_index_def session_inv_def split: if_splits)
  then show ?thesis
    using assms Some session_inv_slot [OF assms(1), of i]
    by (auto simp: app_get_session_info_def Let_def session_info_def session_inv_def slot_ok_def
        setActiveSessionCount_def intro!: res_fits_reply)
qed

section \<open>Properties\<close>

text \<open>C8. "Set session privilege level" acts on the active session with the highest index, whoever sends
  it, and its comparison is the wrong way round: a level above the privilege of the user that
  opened the session (up to 4, administrator) is granted, a level the user is entitled to is
  refused with 0x80, and a level above 4 with 0x81.\<close>

theorem session_priv_escalates:
  assumes "find_last (\<lambda>s. 32 \<le> sn_handle s) ss = Some i"
  shows "\<exists>ss' r'. app_set_session_priv ss q r = Some (ss', r') \<and>
    (if 4 < req_byte q 0 then ss' = ss \<and> r_cc r' = 0x81
     else if sn_user_priv (ss ! i) < req_byte q 0
     then getSessionPriv (ss' ! i) = req_byte q 0 \<and> r_cc r' = CC_SUCCESS
     else ss' = ss \<and> r_cc r' = 0x80)"
proof -
  let ?p = "req_byte q 0"
  have i: "i < length ss" using find_last_Some [OF assms] by simp
  have p: "(rolem AND 0x10 OR ?p AND 7) AND 7 = ?p" if "?p \<le> 4" for rolem
  proof -
    have "?p < 2 ^ 3" using that by (simp add: word_le_nat_alt word_less_nat_alt)
    then have "?p AND 7 = ?p" using less_mask_eq [of ?p 3] by (simp add: mask_eq_exp_minus_1)
    then show ?thesis by (simp add: bit.conj_disj_distrib2 and.assoc)
  qed
  show ?thesis
    using assms i
    by (auto simp: app_set_session_priv_def setSessionPriv_def getSessionPriv_def p not_le)
qed

definition user_session :: session where
  "user_session = new_session\<lparr>sn_handle := 32, sn_user_priv := 2, sn_rolem := 2,
     sn_mgnt_id := [1, 2, 3, 4]\<rparr>"

lemma session_priv_escalates_witness:
  "\<exists>ss' r'. app_set_session_priv [user_session] \<lparr>q_netfn = 6, q_cmd = 0x3B, q_data = [4]\<rparr> blank_res
     = Some (ss', r') \<and> getSessionPriv (ss' ! 0) = 4 \<and> r_cc r' = 0"
proof -
  have f: "find_last (\<lambda>s. 32 \<le> sn_handle s) [user_session] = Some 0"
    by (simp add: user_session_def)
  have u: "sn_user_priv user_session = 2" by (simp add: user_session_def)
  from session_priv_escalates [OF f, of "\<lparr>q_netfn = 6, q_cmd = 0x3B, q_data = [4]\<rparr>" blank_res]
  show ?thesis by (simp add: u)
qed

text \<open>"Close session" with an id that no session has answers with an error and yet closes session 0;
  with a known id it closes the last session that has it and leaves all the others.\<close>

theorem close_session_unknown_closes_first:
  assumes "session_inv ss"
  shows "\<exists>ss' r'. app_close_session ss q r = Some (ss', r') \<and> session_inv ss' \<and>
    (if \<exists>s \<in> set ss. sn_mgnt_id s = req_bytes q 0 4
     then r_cc r' = CC_SUCCESS
       \<and> (\<exists>i < 5. sn_mgnt_id (ss ! i) = req_bytes q 0 4 \<and> ss' = ss[i := closeSession (ss ! i)])
     else r_cc r' = CC_UNSPECIFIED_ERROR \<and> ss' = ss[0 := closeSession (ss ! 0)])"
proof -
  let ?P = "\<lambda>s. sn_mgnt_id s = req_bytes q 0 4"
  obtain ss' r' where run: "app_close_session ss q r = Some (ss', r')"
    by (simp add: app_close_session_def Let_def)
  then show ?thesis
    using app_close_session_inv [OF assms run] find_last_Some [of ?P ss] find_last_None [of ?P ss] assms
    by (cases "find_last ?P ss") (auto simp: app_close_session_def session_inv_def Let_def)
qed

lemma close_session_unknown_closes_first_witness:
  "\<exists>ss' r'. app_close_session (user_session # replicate 4 new_session)
       \<lparr>q_netfn = 6, q_cmd = 0x3C, q_data = [9, 9, 9, 9]\<rparr> blank_res = Some (ss', r')
     \<and> r_cc r' = 0xFF \<and> sn_handle (ss' ! 0) = 0"
proof -
  let ?ss = "user_session # replicate 4 new_session"
  let ?q = "\<lparr>q_netfn = 6, q_cmd = 0x3C, q_data = [9, 9, 9, 9]\<rparr> :: ipmi_req"
  have i: "session_inv ?ss"
    by (auto simp: session_inv_def slot_ok_def user_session_def new_session_def nth_Cons')
  have n: "\<not> (\<exists>s \<in> set ?ss. sn_mgnt_id s = req_bytes ?q 0 4)"
    by (simp add: user_session_def new_session_def bytes_at_expand)
  from close_session_unknown_closes_first [OF i, of ?q blank_res] n
  show ?thesis by (auto simp: closeSession_def)
qed

end
