(* ===== verification/Chassis_Ctl.thy ===== *)
theory Chassis_Ctl
  imports Contracts
begin

text \<open>
  Chassis control: class \<open>Ipmichassis\<close> of libs/chassis/chassis.cpp. The reading of the 12 V sensor
  and the system uptime come from the hardware and the kernel: they are fields of the state that
  no command changes. The commands sent to the SMLTR bus by power control are recorded in order.
\<close>

record chassis =
  ch_restart_cause :: u8
  ch_soft_off :: u8
  ch_id_interval :: u8
  ch_restart_policy :: u8
  ch_set_in_prog :: u8
  ch_svc_select :: u8
  ch_svc_scan :: u8
  ch_flag_clr :: u8
  ch_info_ack :: "u8 list"
  ch_boot_flags :: "u8 list"
  ch_init_info :: "u8 list"
  ch_redfish_power :: int
  ch_smltr :: "(u8 \<times> u8) list"
  ch_p12v :: int
  ch_uptime :: int

definition boot_chassis :: "int \<Rightarrow> int \<Rightarrow> chassis" where
  "boot_chassis p12v uptime = \<lparr>ch_restart_cause = 0, ch_soft_off = 0, ch_id_interval = 0,
     ch_restart_policy = 0, ch_set_in_prog = 0, ch_svc_select = 0, ch_svc_scan = 0, ch_flag_clr = 0,
     ch_info_ack = [], ch_boot_flags = [], ch_init_info = [], ch_redfish_power = 0, ch_smltr = [],
     ch_p12v = p12v, ch_uptime = uptime\<rparr>"

abbreviation (input) SMLTR_POWER_OFF :: u8 where "SMLTR_POWER_OFF \<equiv> 0xB0"
abbreviation (input) SMLTR_POWER_ON :: u8 where "SMLTR_POWER_ON \<equiv> 0xB1"

section \<open>Commands\<close>

definition get_power_status :: "chassis \<Rightarrow> u8 \<times> chassis" where
  "get_power_status c =
     (if ch_p12v c \<ge> 150 then (1, c\<lparr>ch_redfish_power := 1\<rparr>) else (0, c\<lparr>ch_redfish_power := 0\<rparr>))"

definition chassis_restart_cause :: "chassis handler" where
  "chassis_restart_cause c q r = Some (c, reply CC_SUCCESS [ch_restart_cause c, 1] r)"

text \<open>The policy byte is widened to \<open>int\<close> before it is masked.\<close>

definition status_policy :: "u8 \<Rightarrow> u8" where
  "status_policy p =
     (if uint p AND 0x100 \<noteq> 0 then 2 else if uint p AND 0x10 \<noteq> 0 then 1 else 0)"

definition chassis_get_status :: "chassis handler" where
  "chassis_get_status c q r =
     (let (pwr, c') = get_power_status c
      in Some (c', reply CC_SUCCESS
           [(0x1 AND pwr) OR push_bit 5 (status_policy (ch_restart_policy c)), 0, 0x40, 0] r))"

definition chassis_control :: "chassis handler" where
  "chassis_control c q r =
     (let p = req_byte q 0; ok = set_cc CC_SUCCESS r in
      if p = 0 then Some (c\<lparr>ch_smltr := ch_smltr c @ [(SMLTR_POWER_OFF, 0)]\<rparr>, ok)
      else if p = 1 then
        Some (c\<lparr>ch_restart_cause := 3, ch_smltr := ch_smltr c @ [(SMLTR_POWER_ON, 0)]\<rparr>, ok)
      else if p = 2 then Some (c\<lparr>ch_restart_cause := 1\<rparr>, ok)
      else if p = 3 then Some (c\<lparr>ch_restart_cause := 2\<rparr>, ok)
      else if p = 6 then Some (c\<lparr>ch_restart_cause := 0x0A\<rparr>, ok)
      else Some (c, set_cc CC_PARAM_OUT_OF_RANGE r))"

definition chassis_set_policy :: "chassis handler" where
  "chassis_set_policy c q r =
     (let p = req_byte q 0 in
      if p = 0 then Some (c\<lparr>ch_restart_policy := 1\<rparr>, reply CC_SUCCESS [1] r)
      else if p = 1 then
        Some (c\<lparr>ch_restart_policy := 2, ch_restart_cause := 2\<rparr>, reply CC_SUCCESS [2] r)
      else if p = 2 then
        Some (c\<lparr>ch_restart_policy := 4, ch_restart_cause := 6\<rparr>, reply CC_SUCCESS [4] r)
      else if p = 3 then Some (c, reply CC_SUCCESS [ch_restart_policy c] r)
      else Some (c, set_cc CC_PARAM_OUT_OF_RANGE r))"

definition chassis_identify :: "chassis handler" where
  "chassis_identify c q r =
     (let interval = req_byte q 0 in
      if req_byte q 1 AND 1 = 1 then Some (c, set_cc CC_SUCCESS r)
      else Some (c\<lparr>ch_id_interval := (if interval = 3 \<or> interval = 15 then 15 else interval)\<rparr>,
             set_cc CC_SUCCESS r))"

definition chassis_get_poh :: "chassis handler" where
  "chassis_get_poh c q r =
     (let count = ch_uptime c div 60
      in Some (c, reply CC_SUCCESS ([1] @ le32 (word_of_int count)) r))"

text \<open>\<open>chassis_get_boot_options\<close>: the pointer \<open>data\<close> moves by the parameter's size whatever the size
  of the stored vector, so the response holds old bytes where the vector is short. Reading
  parameter 6 copies from the start of \<open>boot_init_info\<close> to the end of \<open>boot_flags\<close>, two different
  vectors: undefined unless both are empty.\<close>

definition boot_option_reply :: "u8 list \<Rightarrow> nat \<Rightarrow> ipmi_req \<Rightarrow> ipmi_res \<Rightarrow> ipmi_res" where
  "boot_option_reply bs n q r =
     set_len (word_of_nat (2 + n)) (put ([1, req_byte q 0] @ bs) (set_cc CC_SUCCESS r))"

definition chassis_get_boot_options :: "chassis handler" where
  "chassis_get_boot_options c q r =
     (let p = req_byte q 0 in
      if p = 0 then Some (c, boot_option_reply [ch_set_in_prog c] 1 q r)
      else if p = 1 then Some (c, boot_option_reply [ch_svc_select c] 1 q r)
      else if p = 2 then Some (c, boot_option_reply [ch_svc_scan c] 1 q r)
      else if p = 3 then Some (c, boot_option_reply [ch_flag_clr c] 1 q r)
      else if p = 4 then Some (c, boot_option_reply (ch_info_ack c) 2 q r)
      else if p = 5 then Some (c, boot_option_reply (ch_boot_flags c) 5 q r)
      else if p = 6 then
        (if ch_init_info c = [] \<and> ch_boot_flags c = [] then Some (c, boot_option_reply [] 9 q r)
         else None)
      else Some (c, set_cc CC_PARAM_OUT_OF_RANGE (put [1, p] r)))"

definition chassis_set_boot_options :: "chassis handler" where
  "chassis_set_boot_options c q r =
     (let p = req_byte q 0; ok = set_len 0 (set_cc CC_SUCCESS r) in
      if p = 0 then Some (c\<lparr>ch_set_in_prog := req_byte q 1\<rparr>, ok)
      else if p = 1 then Some (c\<lparr>ch_svc_select := req_byte q 1\<rparr>, ok)
      else if p = 2 then Some (c\<lparr>ch_svc_scan := req_byte q 1\<rparr>, ok)
      else if p = 3 then Some (c\<lparr>ch_flag_clr := req_byte q 1\<rparr>, ok)
      else if p = 4 then Some (c\<lparr>ch_info_ack := req_bytes q 1 2\<rparr>, ok)
      else if p = 5 then Some (c\<lparr>ch_boot_flags := req_bytes q 1 5\<rparr>, ok)
      else if p = 6 then Some (c\<lparr>ch_init_info := req_bytes q 1 9\<rparr>, ok)
      else Some (c, set_cc CC_PARAM_OUT_OF_RANGE r))"

text \<open>\<open>ipmi_handle_chassis\<close> (libs/apps/apps.cpp).\<close>

definition ipmi_handle_chassis :: "chassis handler" where
  "ipmi_handle_chassis c q r =
     (if q_cmd q = 0x0F then chassis_get_poh c q r
      else if q_cmd q = 0x01 then chassis_get_status c q r
      else if q_cmd q = 0x02 then chassis_control c q r
      else if q_cmd q = 0x04 then chassis_identify c q r
      else if q_cmd q = 0x06 then chassis_set_policy c q r
      else if q_cmd q = 0x07 then chassis_restart_cause c q r
      else if q_cmd q = 0x08 then chassis_set_boot_options c q r
      else if q_cmd q = 0x09 then chassis_get_boot_options c q r
      else if q_cmd q = 99 then Some (c, r)
      else Some (c, set_cc 0xFE r))"

lemmas chassis_defs = ipmi_handle_chassis_def chassis_get_poh_def chassis_get_status_def
  chassis_control_def chassis_identify_def chassis_set_policy_def chassis_restart_cause_def
  chassis_set_boot_options_def chassis_get_boot_options_def get_power_status_def

section \<open>Invariant\<close>

text \<open>The restart policy is unset or one of the three bits, and the boot parameters have their size.\<close>

definition chassis_inv :: "chassis \<Rightarrow> bool" where
  "chassis_inv c \<longleftrightarrow> ch_restart_policy c \<in> {0, 1, 2, 4} \<and> length (ch_info_ack c) \<le> 2
     \<and> length (ch_boot_flags c) \<le> 5 \<and> length (ch_init_info c) \<le> 9"

lemma boot_chassis_inv: "chassis_inv (boot_chassis p u)"
  by (simp add: chassis_inv_def boot_chassis_def)

lemma chassis_handler_inv:
  "chassis_inv c \<Longrightarrow> ipmi_handle_chassis c q r = Some (c', r') \<Longrightarrow> chassis_inv c'"
  by (auto simp: chassis_defs chassis_inv_def Let_def split: if_splits)

lemma boot_option_reply_fits:
  "res_fits r \<Longrightarrow> length bs \<le> 9 \<Longrightarrow> res_fits (boot_option_reply bs n q r)"
  by (simp add: boot_option_reply_def)

lemma chassis_handler_fits:
  "chassis_inv c \<Longrightarrow> res_fits r \<Longrightarrow> ipmi_handle_chassis c q r = Some (c', r') \<Longrightarrow> res_fits r'"
  by (auto simp: chassis_defs chassis_inv_def Let_def boot_option_reply_fits split: if_splits)

interpretation chassis_commands: buffered_handler ipmi_handle_chassis chassis_inv "\<lambda>q. True"
  by unfold_locales (auto intro: chassis_handler_fits chassis_handler_inv)

section \<open>Properties\<close>

text \<open>Any sequence of chassis commands that the code defines keeps the invariant and every response
  inside its buffer.\<close>

fun chassis_run :: "chassis \<Rightarrow> ipmi_req list \<Rightarrow> (chassis \<times> ipmi_res list) option" where
  "chassis_run c [] = Some (c, [])"
| "chassis_run c (q # qs) =
     (case ipmi_handle_chassis c q blank_res of None \<Rightarrow> None
      | Some (c', r) \<Rightarrow> (case chassis_run c' qs of None \<Rightarrow> None | Some (c'', rs) \<Rightarrow> Some (c'', r # rs)))"

lemma chassis_run_serve: "chassis_run c qs = chassis_commands.serve c qs"
  by (induction qs arbitrary: c) (auto split: option.splits)

lemma status_policy_zero: "p \<in> {0, 1, 2, 4} \<Longrightarrow> status_policy p = 0"
  by (auto simp: status_policy_def)

text \<open>After any run of chassis commands from start-up, "get chassis status" reports restore policy 0
  ("stays off"), whatever policy was set: its status byte is only the power bit, which is set
  exactly when the 12 V reading is at least 150.\<close>

theorem status_never_reports_policy:
  assumes "chassis_run (boot_chassis p12v up) qs = Some (c, rs)"
  shows "\<exists>c' r'. chassis_get_status c q r = Some (c', r')
    \<and> res_payload r' = [if ch_p12v c \<ge> 150 then 1 else 0, 0, 0x40, 0]
    \<and> ch_redfish_power c' = (if ch_p12v c \<ge> 150 then 1 else 0)"
proof -
  have "chassis_inv c"
    using chassis_commands.serve_safe [of "boot_chassis p12v up" qs c rs] assms
    by (simp add: chassis_run_serve boot_chassis_inv list_all_iff)
  then have "status_policy (ch_restart_policy c) = 0"
    by (simp add: chassis_inv_def status_policy_zero)
  then show ?thesis by (simp add: chassis_get_status_def get_power_status_def)
qed

lemma status_never_reports_policy_witness:
  "\<exists>c rs c' r'. chassis_run (boot_chassis 200 0) [\<lparr>q_netfn = 0, q_cmd = 6, q_data = [2]\<rparr>] = Some (c, rs)
     \<and> ch_restart_policy c = 4 \<and> chassis_get_status c \<lparr>q_netfn = 0, q_cmd = 1, q_data = []\<rparr> blank_res
         = Some (c', r') \<and> res_payload r' = [1, 0, 0x40, 0]"
proof -
  let ?c = "(boot_chassis 200 0)\<lparr>ch_restart_policy := 4, ch_restart_cause := 6\<rparr>"
  have run: "chassis_run (boot_chassis 200 0) [\<lparr>q_netfn = 0, q_cmd = 6, q_data = [2]\<rparr>]
      = Some (?c, [reply CC_SUCCESS [4] blank_res])"
    by (simp add: ipmi_handle_chassis_def chassis_set_policy_def)
  from status_never_reports_policy [OF run, of "\<lparr>q_netfn = 0, q_cmd = 1, q_data = []\<rparr>" blank_res] run
  show ?thesis by (auto simp: boot_chassis_def)
qed

text \<open>A boot parameter that was set is read back unchanged, for the parameters 0 to 5. Reading
  parameter 6 after it was set is undefined: the copy runs from one vector into another.\<close>

definition boot_param_size :: "u8 \<Rightarrow> nat" where
  "boot_param_size p = (if p = 4 then 2 else if p = 5 then 5 else if p = 6 then 9 else 1)"

theorem boot_options_roundtrip:
  assumes "req_byte q 0 \<le> 6" and "req_byte q' 0 = req_byte q 0"
  shows "\<exists>c' r1. chassis_set_boot_options c q r = Some (c', r1) \<and> r_cc r1 = CC_SUCCESS
    \<and> (if req_byte q 0 = 6 then chassis_get_boot_options c' q' r = None
       else \<exists>r2. chassis_get_boot_options c' q' r = Some (c', r2)
         \<and> res_payload r2 = [1, req_byte q 0] @ req_bytes q 1 (boot_param_size (req_byte q 0)))"
proof -
  have pay: "res_payload (boot_option_reply bs n q' r) = [1, req_byte q 0] @ bs"
    if "length bs = n" "n < 100" for bs n
  proof -
    have "unat (word_of_nat (2 + n) :: u8) = 2 + n" using that(2) by (simp only: unat_of_nat) simp
    then show ?thesis
      using that assms(2) take_write_at_0 [of "[1, req_byte q 0] @ bs" "r_data r"]
      by (simp add: boot_option_reply_def res_payload_def del: of_nat_add)
  qed
  have one: "req_bytes q 1 (Suc 0) = [req_byte q 1]" by (simp add: bytes_at_expand)
  have "uint (req_byte q 0) \<le> 6" using assms(1) by (simp add: word_le_def)
  have "unat (req_byte q 0) \<le> 6" using assms(1) by (simp add: word_le_nat_alt)
  then have "unat (req_byte q 0) \<in> {0, 1, 2, 3, 4, 5, 6}" by auto
  then have "req_byte q 0 \<in> {0, 1, 2, 3, 4, 5, 6}"
    by (auto simp: word_unat_eq_iff)
  then show ?thesis
    using assms(2) one
    by (elim insertE)
      (simp_all add: chassis_set_boot_options_def chassis_get_boot_options_def boot_param_size_def
        pay bytes_at_expand)
qed

lemma boot_options_roundtrip_witness:
  "\<exists>c' r1 r2. chassis_set_boot_options (boot_chassis 0 0)
       \<lparr>q_netfn = 0, q_cmd = 8, q_data = [4, 7, 9]\<rparr> blank_res = Some (c', r1)
     \<and> chassis_get_boot_options c' \<lparr>q_netfn = 0, q_cmd = 9, q_data = [4]\<rparr> blank_res = Some (c', r2)
     \<and> res_payload r2 = [1, 4, 7, 9]"
  using boot_options_roundtrip [of "\<lparr>q_netfn = 0, q_cmd = 8, q_data = [4, 7, 9]\<rparr>"
      "\<lparr>q_netfn = 0, q_cmd = 9, q_data = [4]\<rparr>" "boot_chassis 0 0" blank_res]
  by (auto simp: boot_param_size_def bytes_at_expand)

end
