(* ===== verification/Dcmi_Cfg.thy ===== *)
theory Dcmi_Cfg
  imports Contracts
begin

text \<open>
  DCMI: class \<open>Dcmiconfiguration\<close> of libs/dcmi/dcmi.cpp and its dispatcher \<open>ipmi_handle_dcmi\<close>. The
  current time and the never-assigned \<open>info.uptime\<close> that the power reading uses are fields of the
  state that no command changes.
\<close>

record dcmi =
  dc_capa :: "u8 list"
  dc_mandatory :: "u8 list"
  dc_optional :: "u8 list"
  dc_mgnt_access :: "u8 list"
  dc_mngctrl :: "u8 list"
  dc_power_lmt :: "u8 list"
  dc_power_state :: u8
  dc_now :: u32
  dc_uptime_junk :: u32

text \<open>The constructor: \<open>mngctrl\<close> is what \<open>uuid_str\<close> holds when it runs.\<close>

definition new_dcmi :: "u8 list \<Rightarrow> u32 \<Rightarrow> u32 \<Rightarrow> dcmi" where
  "new_dcmi uuid_str now junk = \<lparr>dc_capa = [], dc_mandatory = [], dc_optional = [],
     dc_mgnt_access = [], dc_mngctrl = uuid_str, dc_power_lmt = [], dc_power_state = 0x40,
     dc_now = now, dc_uptime_junk = junk\<rparr>"

definition plat_dcmi_capa_init :: "dcmi \<Rightarrow> dcmi" where
  "plat_dcmi_capa_init d = d\<lparr>
     dc_capa := dc_capa d @ [0xDC, 0x1, 0x5, 0x2, 0x0, 0x1, 0x1],
     dc_mandatory := dc_mandatory d @ [0xDC, 0x1, 0x5, 0x2, 0x0, 0xA4, 0x0, 0x0, 0x1],
     dc_optional := dc_optional d @ [0xDC, 0x1, 0x5, 0x2, 0x20, 0xFF],
     dc_mgnt_access := dc_mgnt_access d @ [0xDC, 0x1, 0x5, 0x2, 0x1, 0xFF, 0x2]\<rparr>"

definition plat_dcmi_power_lmt_init :: "dcmi \<Rightarrow> dcmi" where
  "plat_dcmi_power_lmt_init d = d\<lparr>dc_power_lmt := dc_power_lmt d @ (0xDC # replicate 11 0)\<rparr>"

definition plat_dcmi_init :: "dcmi \<Rightarrow> dcmi" where
  "plat_dcmi_init d = plat_dcmi_power_lmt_init (plat_dcmi_capa_init d)"

section \<open>Commands\<close>

definition dcmi_selected :: "u8 \<Rightarrow> dcmi \<Rightarrow> u8 list option" where
  "dcmi_selected sel d =
     (if sel = 1 then Some (dc_capa d) else if sel = 2 then Some (dc_mandatory d)
      else if sel = 3 then Some (dc_optional d) else if sel = 4 then Some (dc_mgnt_access d)
      else None)"

text \<open>The first byte is the first one of the mandatory capabilities, which must exist.\<close>

definition dcmi_discover :: "dcmi handler" where
  "dcmi_discover d q r =
     (let grp = req_byte q 0 in
      if grp \<noteq> 0xDC \<and> grp \<noteq> 0 then Some (d, set_cc CC_INVALID_CMD r)
      else case dcmi_selected (req_byte q 1) d of
          None \<Rightarrow> Some (d, reply CC_SUCCESS [] r)
        | Some v \<Rightarrow>
            if grp = 0 then Some (d, reply CC_SUCCESS (0 # drop 1 v) r)
            else if dc_mandatory d = [] then None
            else Some (d, reply CC_SUCCESS (hd (dc_mandatory d) # drop 1 v) r))"

text \<open>\<open>dcmi_set_power_limit\<close>: the values are read into unsigned types of exactly the width they are
  compared with.\<close>

definition dcmi_set_power_limit :: "dcmi handler" where
  "dcmi_set_power_limit d q r =
     (let limit_val = uint (req_byte q 6) OR push_bit 8 (uint (req_byte q 7));
          correction_val = uint (of_le32 (req_bytes q 8 4));
          sample_time = push_bit 8 (uint (req_byte q 15)) OR uint (req_byte q 14)
      in if limit_val > 0xFFFF then Some (d, set_cc CC_POWER_OOL r)
         else if correction_val > 0xFFFFFFFF then Some (d, set_cc CC_POWER_CORRECTION r)
         else if sample_time > 0xFFFF then Some (d, set_cc CC_POWER_SAMPLE_TIME r)
         else Some (d\<lparr>dc_power_lmt := req_bytes q 0 15\<rparr>,
                set_len 1 (put [0xDC] (set_cc CC_SUCCESS r))))"

text \<open>\<open>dcmi_get_power_reading\<close>: \<open>*data += 4\<close> adds to the first time-stamp byte instead of moving the
  pointer, so the uptime is written over the time stamp.\<close>

definition dcmi_get_power_reading :: "dcmi handler" where
  "dcmi_get_power_reading d q r =
     (if dc_capa d = [] then None
      else
        let watt = (155 :: int); max_power = watt + watt; count = dc_uptime_junk d; ts = le32 (dc_now d);
            r1 = put ([hd (dc_capa d)] @ le16 max_power @ le16 watt @ le16 watt @ le16 watt
                   @ (hd ts + 4) # drop 1 ts) r
        in Some (d, set_len 14 (set_cc CC_SUCCESS
             (r1\<lparr>r_data := write_at 9 [if drop_bit 24 count \<noteq> 0 then 1 else 0,
                 ucast (drop_bit 16 count), ucast (drop_bit 8 count), ucast count,
                 dc_power_state d] (r_data r1)\<rparr>))))"

definition dcmi_power_get_limit :: "dcmi handler" where
  "dcmi_power_get_limit d q r =
     (if drop_bit 6 (dc_power_state d) = 1 then Some (d, reply CC_SUCCESS (dc_power_lmt d) r)
      else Some (d, set_len 0 (set_cc CC_INVALID_PARAM r)))"

text \<open>\<open>dcmi_get_mngctrl\<close> (no command reaches it): the identifier is copied over the two bytes just
  written.\<close>

definition dcmi_get_mngctrl :: "dcmi handler" where
  "dcmi_get_mngctrl d q r =
     (let r1 = put [0xDC] (set_cc CC_SUCCESS r) in
      if req_byte q 0 = 0 \<and> req_byte q 2 = 1
      then Some (d, set_len (r_len r + 2)
             (r1\<lparr>r_data := write_at 1 [word_of_nat (length (dc_mngctrl d))] (r_data r1)\<rparr>))
      else
        let r2 = r1\<lparr>r_data := write_at 1 [req_byte q 2] (r_data r1)\<rparr>;
            from = unat (req_byte q 1); n = unat (req_byte q 2)
        in if from + n > length (dc_mngctrl d) then None
           else Some (d, set_len (2 + req_byte q 2) (put (take n (drop from (dc_mngctrl d))) r2)))"

definition dcmi_get_disvry :: "dcmi handler" where
  "dcmi_get_disvry d q r = Some (d, reply CC_SUCCESS [0xDC] r)"

definition dcmi_power_activate :: "dcmi handler" where
  "dcmi_power_activate d q r =
     Some (d\<lparr>dc_power_state := push_bit 6 (req_byte q 1)\<rparr>, reply CC_SUCCESS [0xDC] r)"

definition ipmi_handle_dcmi :: "dcmi handler" where
  "ipmi_handle_dcmi d q r =
     (if q_cmd q = 0x00 \<or> q_cmd q = 0x01 then dcmi_discover d q r
      else if q_cmd q = 0x02 then dcmi_get_power_reading d q r
      else if q_cmd q = 0x03 then dcmi_power_get_limit d q r
      else if q_cmd q = 0x04 then dcmi_set_power_limit d q r
      else if q_cmd q = 0x05 then dcmi_power_activate d q r
      else if q_cmd q = 0x06 then Some (d, r)
      else if q_cmd q = 0x07 then dcmi_get_disvry d q r
      else if q_cmd q = 0x08 \<or> q_cmd q = 0x10 then Some (d, r)
      else Some (d, set_cc CC_INVALID_CMD r))"

lemmas dcmi_defs = ipmi_handle_dcmi_def dcmi_discover_def dcmi_get_power_reading_def
  dcmi_power_get_limit_def dcmi_set_power_limit_def dcmi_power_activate_def dcmi_get_disvry_def

section \<open>Invariant\<close>

definition dcmi_inv :: "dcmi \<Rightarrow> bool" where
  "dcmi_inv d \<longleftrightarrow> dc_capa d = [0xDC, 0x1, 0x5, 0x2, 0x0, 0x1, 0x1]
     \<and> dc_mandatory d = [0xDC, 0x1, 0x5, 0x2, 0x0, 0xA4, 0x0, 0x0, 0x1]
     \<and> dc_optional d = [0xDC, 0x1, 0x5, 0x2, 0x20, 0xFF]
     \<and> dc_mgnt_access d = [0xDC, 0x1, 0x5, 0x2, 0x1, 0xFF, 0x2]
     \<and> length (dc_power_lmt d) \<le> 15"

lemma boot_dcmi_inv: "dcmi_inv (plat_dcmi_init (new_dcmi u n j))"
  by (simp add: dcmi_inv_def plat_dcmi_init_def plat_dcmi_capa_init_def plat_dcmi_power_lmt_init_def
      new_dcmi_def)

lemma dcmi_handler_inv:
  "dcmi_inv d \<Longrightarrow> ipmi_handle_dcmi d q r = Some (d', r') \<Longrightarrow> dcmi_inv d'"
  by (auto simp: dcmi_defs dcmi_inv_def Let_def split: if_splits option.splits)

lemma dcmi_selected_length:
  assumes "dcmi_inv d" and "dcmi_selected s d = Some v"
  shows "length v \<le> 9"
proof -
  have "length (dc_capa d) = 7" "length (dc_mandatory d) = 9" "length (dc_optional d) = 6"
      "length (dc_mgnt_access d) = 7"
    using assms(1) by (simp_all add: dcmi_inv_def)
  then show ?thesis using assms(2) by (auto simp: dcmi_selected_def split: if_splits)
qed

lemma dcmi_power_reading_fits:
  assumes "dcmi_inv d" and "res_fits r" and "dcmi_get_power_reading d q r = Some (d', r')"
  shows "res_fits r'"
  using assms
  by (auto simp: dcmi_get_power_reading_def dcmi_inv_def res_fits_def Let_def length_write_at)

lemma dcmi_handler_fits:
  assumes "dcmi_inv d" and "res_fits r" and "ipmi_handle_dcmi d q r = Some (d', r')"
  shows "res_fits r'"
proof (cases "q_cmd q = 0x02")
  case True
  then show ?thesis using dcmi_power_reading_fits assms by (simp add: ipmi_handle_dcmi_def)
next
  case False
  have "length (dc_power_lmt d) \<le> 125" using assms(1) by (simp add: dcmi_inv_def)
  with False show ?thesis
    using assms dcmi_selected_length [OF assms(1)]
    by (fastforce simp: ipmi_handle_dcmi_def dcmi_discover_def dcmi_power_get_limit_def
        dcmi_set_power_limit_def dcmi_power_activate_def dcmi_get_disvry_def Let_def
        split: if_splits option.splits)
qed

interpretation dcmi_commands: buffered_handler ipmi_handle_dcmi dcmi_inv "\<lambda>q. True"
  by unfold_locales (auto intro: dcmi_handler_fits dcmi_handler_inv)

section \<open>Properties\<close>

lemma bytes_or_le_FFFF: "push_bit 8 (uint (a :: u8)) OR uint (b :: u8) \<le> 0xFFFF"
  using uint_le_255 [of a] uint_le_255 [of b] by (simp add: byte_pair_or)

text \<open>"Set power limit" accepts every request: none of its three range checks can fail. While power
  reading is activated (request byte 1 of "activate" ends in binary 01; it is so from
  start-up on) "get power limit" returns the first 15 bytes of the last "set power limit"; while
  it is not, it is refused as an invalid parameter.\<close>

theorem power_limit_roundtrip:
  shows "\<exists>d' r1. dcmi_set_power_limit d q r = Some (d', r1) \<and> r_cc r1 = CC_SUCCESS
    \<and> dc_power_state d' = dc_power_state d
    \<and> (\<exists>d'' r2 r3. dcmi_power_activate d' qa r = Some (d'', r2)
        \<and> dcmi_power_get_limit d'' qg r = Some (d'', r3)
        \<and> (if req_byte qa 1 AND 3 = 1
           then r_cc r3 = CC_SUCCESS \<and> res_payload r3 = req_bytes q 0 15
           else r_cc r3 = CC_INVALID_PARAM \<and> res_payload r3 = []))
    \<and> dc_power_state (new_dcmi u n j) = 0x40"
proof -
  have c: "uint (of_le32 (req_bytes q 8 4)) \<le> 0xFFFFFFFF"
    using uint_lt2p [of "of_le32 (req_bytes q 8 4)"] by simp
  have set: "dcmi_set_power_limit d q r = Some (d\<lparr>dc_power_lmt := req_bytes q 0 15\<rparr>,
      set_len 1 (put [0xDC] (set_cc CC_SUCCESS r)))"
    using bytes_or_le_FFFF [of "req_byte q 7" "req_byte q 6"]
      bytes_or_le_FFFF [of "req_byte q 15" "req_byte q 14"] c
    by (simp add: dcmi_set_power_limit_def Let_def or.commute not_less)
  have act: "drop_bit 6 (push_bit 6 a) = a AND 3" for a :: u8
  proof (rule bit_word_eqI)
    fix n assume "n < LENGTH(8)"
    have "a AND 3 = take_bit 2 a" by (simp add: take_bit_eq_mask mask_eq_exp_minus_1)
    then show "bit (drop_bit 6 (push_bit 6 a)) n = bit (a AND 3) n"
      by (auto simp: bit_drop_bit_eq bit_push_bit_iff bit_take_bit_iff)
  qed
  show ?thesis
    using take_write_at_0 [of "req_bytes q 0 15"]
    by (simp add: set dcmi_power_activate_def dcmi_power_get_limit_def act new_dcmi_def res_payload_def)
qed

text \<open>"Get power reading" ignores the group extension and the sensors: it always succeeds, with 310 W
  as the maximum and 155 W as the current value, and the time stamp it copies is not in the
  response: it is overwritten by the uptime bytes before it is sent.\<close>

theorem power_reading_constant:
  assumes "dcmi_inv d" and "res_fits r"
  shows "\<exists>r'. dcmi_get_power_reading d q r = Some (d, r') \<and> r_cc r' = CC_SUCCESS
    \<and> res_payload r' = [0xDC] @ le16 310 @ le16 155 @ le16 155 @ le16 155
        @ [if drop_bit 24 (dc_uptime_junk d) \<noteq> 0 then 1 else 0,
           ucast (drop_bit 16 (dc_uptime_junk d)), ucast (drop_bit 8 (dc_uptime_junk d)),
           ucast (dc_uptime_junk d), dc_power_state d]"
proof -
  have c: "dc_capa d = [0xDC, 0x1, 0x5, 0x2, 0x0, 0x1, 0x1]" using assms(1) by (simp add: dcmi_inv_def)
  show ?thesis
    using assms(2) c
    by (simp add: dcmi_get_power_reading_def res_fits_def res_payload_def Let_def write_at_def
        le16_def le32_def)
qed

lemma power_reading_constant_witness:
  "\<exists>r'. dcmi_get_power_reading (plat_dcmi_init (new_dcmi [] 5 0)) \<lparr>q_netfn = 0x2C, q_cmd = 2, q_data = []\<rparr>
     blank_res = Some (plat_dcmi_init (new_dcmi [] 5 0), r') \<and> r_cc r' = 0"
  using power_reading_constant [OF boot_dcmi_inv res_fits_blank,
      of "[]" 5 0 "\<lparr>q_netfn = 0x2C, q_cmd = 2, q_data = []\<rparr>"] by blast

end
