(* ===== verification/App_Cmds.thy ===== *)
theory App_Cmds
  imports User_Db Channel_Cfg Session_Mgr
begin

text \<open>
  Class \<open>Ipmiapplication\<close> of libs/apps/apps.cpp without the user, channel and session commands: device
  id and GUID, self test and resets, global enables, the authentication capabilities of a LAN
  channel, the system information parameters, the watchdog timer, and the Serial-over-LAN
  commands of libs/sol/sol.cpp that the same dispatchers call.
\<close>

section \<open>State\<close>

text \<open>\<open>channel_auth_cap_t\<close>: the bit fields the code changes are booleans; the rest keeps what the
  constructor set.\<close>

record auth_rsp =
  ar_channel :: u8
  ar_anon :: bool
  ar_null :: bool
  ar_non_null :: bool

record sysinfo =
  si_set_in_prog :: u8
  si_sysfw_ver :: "u8 list"
  si_sys_name :: "u8 list"
  si_pri_os :: "u8 list"
  si_present_os :: "u8 list"
  si_present_os_ver :: "u8 list"
  si_bmc_url :: "u8 list"
  si_os_hv_url :: "u8 list"

record watchdog =
  wd_timer_use :: u8
  wd_timer_actions :: u8
  wd_pre_timeout :: u8
  wd_timer_use_exp :: u8
  wd_initial_lsb :: u8
  wd_initial_msb :: u8
  wd_present_lsb :: u8
  wd_present_msb :: u8
  wd_pretimeout_int :: u8
  wd_logging :: bool

record app =
  ap_authrsp :: "auth_rsp list"
  ap_sysinfo :: sysinfo
  ap_wdt :: watchdog
  ap_enables :: u8
  ap_uuid :: "u8 list"

text \<open>The constructor; the watchdog action and pre-timeout come from its configuration file.\<close>

definition new_app :: "u8 \<Rightarrow> u8 \<Rightarrow> u8 list \<Rightarrow> app" where
  "new_app action pretimeout uuid = \<lparr>
     ap_authrsp = map (\<lambda>c. \<lparr>ar_channel = c, ar_anon = False, ar_null = False, ar_non_null = False\<rparr>)
       [1, 6, 7, 8],
     ap_sysinfo = \<lparr>si_set_in_prog = 0, si_sysfw_ver = [], si_sys_name = [], si_pri_os = [],
       si_present_os = [], si_present_os_ver = [], si_bmc_url = [], si_os_hv_url = []\<rparr>,
     ap_wdt = \<lparr>wd_timer_use = 0, wd_timer_actions = action, wd_pre_timeout = pretimeout,
       wd_timer_use_exp = 0, wd_initial_lsb = 0, wd_initial_msb = 0, wd_present_lsb = 0,
       wd_present_msb = 0, wd_pretimeout_int = 0, wd_logging = True\<rparr>,
     ap_enables = 0, ap_uuid = uuid\<rparr>"

definition app_inv :: "app \<Rightarrow> bool" where
  "app_inv a \<longleftrightarrow> length (ap_authrsp a) = 4 \<and> length (ap_uuid a) = 16"

section \<open>Commands without state\<close>

definition mc_device :: "u8 list" where
  "mc_device = [0x20, 0x01, 0x01, 0x12, 0x02, 0xBF, 0x83, 0x23, 0x00, 0x51, 0x16, 0, 0, 0, 0]"

definition app_get_device_id :: "app handler" where
  "app_get_device_id a q r = Some (a, reply CC_SUCCESS mc_device r)"

definition app_bmc_selftest :: "app handler" where
  "app_bmc_selftest a q r = Some (a, reply CC_SUCCESS [0x55, 0x00] r)"

definition app_clear_message_flag :: "app handler" where
  "app_clear_message_flag a q r = Some (a, set_len 0 (set_cc CC_SUCCESS r))"

definition app_cold_reset :: "app handler" where
  "app_cold_reset a q r = Some (a, set_len 0 (set_cc CC_SUCCESS r))"

definition app_warm_reset :: "app handler" where
  "app_warm_reset a q r = Some (a, set_len 0 (set_cc CC_SUCCESS r))"

definition app_get_device_guid :: "app handler" where
  "app_get_device_guid a q r = Some (a, reply CC_SUCCESS
     (map ((!) (ap_uuid a)) [3, 2, 1, 0, 5, 4, 7, 6, 8, 9, 10, 11, 12, 13, 14, 15]) r)"

section \<open>Global enables\<close>

definition app_set_global_enables :: "app handler" where
  "app_set_global_enables a q r =
     Some (a\<lparr>ap_enables := req_byte q 0\<rparr>, set_len 0 (set_cc CC_SUCCESS r))"

definition app_get_global_enables :: "app handler" where
  "app_get_global_enables a q r = Some (a, reply CC_SUCCESS [ap_enables a] r)"

section \<open>Authentication capabilities\<close>

definition lan_index :: "u8 \<Rightarrow> nat" where
  "lan_index chan = (if chan = 1 then 0 else if chan = 6 then 1 else if chan = 7 then 2
     else if chan = 8 then 3 else 0)"

definition bit_of :: "bool \<Rightarrow> u8" where
  "bit_of b = (if b then 1 else 0)"

text \<open>The eight bytes of the structure: the bit fields fill each byte from its low end.\<close>

definition auth_rsp_bytes :: "auth_rsp \<Rightarrow> u8 list" where
  "auth_rsp_bytes x = [ar_channel x, 0x80,
     bit_of (ar_anon x) OR push_bit 1 (bit_of (ar_null x)) OR push_bit 2 (bit_of (ar_non_null x))
       OR 0x08, 0x03, 0, 0, 0, 0]"

definition null_password :: "user list \<Rightarrow> bool" where
  "null_password us \<longleftrightarrow> u_enable (us ! 0) = 1 \<and> u_name (us ! 0) = [] \<and> u_password (us ! 0) = []"

definition null_name_login :: "user list \<Rightarrow> bool" where
  "null_name_login us \<longleftrightarrow> u_enable (us ! 0) = 1 \<and> u_name (us ! 0) = [] \<and> u_password (us ! 0) \<noteq> []"

definition named_user :: "user list \<Rightarrow> bool" where
  "named_user us \<longleftrightarrow> (\<exists>u \<in> set us. u_enable u = 1 \<and> u_name u \<noteq> [])"

definition app_get_channel_auth_cap :: "user list \<Rightarrow> app handler" where
  "app_get_channel_auth_cap us a q r =
     (let i = lan_index (req_byte q 0 AND 0x0F);
          x = (ap_authrsp a ! i)\<lparr>ar_null := null_password us, ar_non_null := named_user us,
                ar_anon := null_name_login us\<rparr>
      in Some (a\<lparr>ap_authrsp := (ap_authrsp a)[i := x]\<rparr>, reply CC_SUCCESS (auth_rsp_bytes x) r))"

section \<open>System information (methods no command reaches)\<close>

definition sysinfo_param :: "u8 \<Rightarrow> sysinfo \<Rightarrow> u8 list" where
  "sysinfo_param p s = (if p = 1 then si_sysfw_ver s else if p = 2 then si_sys_name s
     else if p = 3 then si_pri_os s else if p = 4 then si_present_os s else si_present_os_ver s)"

text \<open>\<open>app_get_sysinfo_param\<close> sets neither the completion code nor the length.\<close>

definition app_get_sysinfo_param :: "app handler" where
  "app_get_sysinfo_param a q r =
     (let param = req_byte q 1; s = ap_sysinfo a in
      if req_byte q 0 AND 0x80 \<noteq> 0 then Some (a, put [1] r)
      else if param = 0 then Some (a, put [1, si_set_in_prog s] r)
      else if param \<le> 5 then
        Some (a, put ([1, 0, word_of_nat (length (sysinfo_param param s))] @ sysinfo_param param s) r)
      else Some (a, put [1, 0] r))"

text \<open>The string may run past the end of the request buffer (126 bytes of data).\<close>

definition app_set_sysinfo_param :: "app handler" where
  "app_set_sysinfo_param a q r =
     (let param = req_byte q 0; n = unat (req_byte q 3); v = req_bytes q 4 n; s = ap_sysinfo a;
          ok = set_cc CC_SUCCESS r
      in if param = 0 then Some (a\<lparr>ap_sysinfo := s\<lparr>si_set_in_prog := req_byte q 1\<rparr>\<rparr>, ok)
         else if param > 7 then Some (a, set_cc CC_INVALID_PARAM r)
         else if 4 + n > 126 then None
         else Some (a\<lparr>ap_sysinfo :=
           (if param = 1 then s\<lparr>si_sysfw_ver := v\<rparr> else if param = 2 then s\<lparr>si_sys_name := v\<rparr>
            else if param = 3 then s\<lparr>si_pri_os := v\<rparr> else if param = 4 then s\<lparr>si_present_os := v\<rparr>
            else if param = 5 then s\<lparr>si_present_os_ver := v\<rparr> else if param = 6 then s\<lparr>si_bmc_url := v\<rparr>
            else s\<lparr>si_os_hv_url := v\<rparr>)\<rparr>, ok))"

section \<open>Watchdog\<close>

text \<open>One turn of the loop over the six request bytes; in byte 1 the \<open>break\<close> comes before the action
  bits are looked at.\<close>

definition wdt_step :: "nat \<Rightarrow> u8 \<Rightarrow> watchdog \<times> bool \<Rightarrow> watchdog \<times> bool" where
  "wdt_step i b = (\<lambda>(w, changed).
     if b = 0 then (w, changed)
     else if i = 0 then (if bit b 7 then (w\<lparr>wd_logging := False\<rparr>, True) else (w, changed))
     else if i = 1 then
       (let w1 = (if bit b 4 then w\<lparr>wd_pretimeout_int := 1\<rparr> else w)
        in (if bit b 5 then w1\<lparr>wd_pretimeout_int := 2\<rparr> else w1, changed))
     else if i = 2 then (w\<lparr>wd_pre_timeout := b\<rparr>, True)
     else if i = 4 then (w\<lparr>wd_initial_lsb := b\<rparr>, True)
     else if i = 5 then (w\<lparr>wd_initial_msb := b\<rparr>, True)
     else (w, changed))"

definition app_set_watchdog_timer_params :: "app handler" where
  "app_set_watchdog_timer_params a q r =
     (let (w, changed) = fold (\<lambda>i. wdt_step i (req_byte q i)) [0..<6] (ap_wdt a, False)
      in Some (a\<lparr>ap_wdt := w\<rparr>,
           set_len 0 (set_cc (if changed then CC_SUCCESS else CC_UNSPECIFIED_ERROR) r)))"

text \<open>\<open>res_len = data - &res->data[0]\<close> assigns the pointer, not what it points to.\<close>

definition app_get_watchdog_timer_params :: "app handler" where
  "app_get_watchdog_timer_params a q r =
     (let w = ap_wdt a in Some (a, put [wd_timer_use w, wd_timer_actions w, wd_pre_timeout w,
        wd_timer_use_exp w, wd_initial_lsb w, wd_initial_msb w, wd_present_lsb w, wd_present_msb w, 0]
        (set_cc CC_SUCCESS r)))"

section \<open>Serial over LAN\<close>

record sol =
  so_in_progress :: u8
  so_enabled :: u8
  so_auth :: u8
  so_accumulate :: u8
  so_threshold :: u8
  so_retry_count :: u8
  so_retry_interval :: u8
  so_nv_rate :: u8
  so_rate :: u8
  so_channel :: u8
  so_port :: "u16 \<times> u16"
  so_active :: bool
  so_flag :: u8

definition new_sol :: sol where
  "new_sol = \<lparr>so_in_progress = 0, so_enabled = 1, so_auth = 4, so_accumulate = 0, so_threshold = 0,
     so_retry_count = 0, so_retry_interval = 0, so_nv_rate = 0, so_rate = 0, so_channel = 1,
     so_port = (0x6F, 0x02), so_active = False, so_flag = 0\<rparr>"

definition setSolActivator :: "u8 \<Rightarrow> session \<Rightarrow> session" where
  "setSolActivator v s = s\<lparr>sn_sol := v\<rparr>"

definition app_active_payload :: "(sol \<times> sessions) handler" where
  "app_active_payload = (\<lambda>(c, ss) q r.
     if so_active c then Some ((c, ss), set_cc 0x80 r)
     else if so_enabled c = 1 then
       Some ((c\<lparr>so_active := True, so_flag := 1\<rparr>,
              map (\<lambda>s. if sn_handle s \<noteq> 0 then setSolActivator 1 s else s) ss),
             reply CC_SUCCESS [0, 0, 0, 0, 0x2E, 0, 0xFF, 0, ucast (fst (so_port c)),
               ucast (snd (so_port c)), 0xFF, 0xFF] r)
     else Some ((c, ss), set_cc 0x81 r))"

text \<open>A session whose handle is 1 would be zeroed; the count of every session goes down by one.\<close>

definition sol_deactivate_session :: "session \<Rightarrow> session" where
  "sol_deactivate_session s =
     (let s1 = (if sn_handle s = 1 then new_session\<lparr>sn_slot_count := 0\<rparr> else s)
      in setActiveSessionCount (sn_active_count s1 - 1) s1)"

definition app_deactive_payload :: "(sol \<times> sessions) handler" where
  "app_deactive_payload = (\<lambda>(c, ss) q r.
     if so_active c
     then Some ((c\<lparr>so_active := False\<rparr>, map sol_deactivate_session ss), set_cc 0x00 r)
     else Some ((c, ss), set_cc 0x80 r))"

definition transport_get_sol_config_params :: "sol handler" where
  "transport_get_sol_config_params c q r =
     (let p = req_byte q 1 in
      Some (c, reply CC_SUCCESS (0x01 #
        (if p = 0 then [so_in_progress c] else if p = 1 then [so_enabled c]
         else if p = 2 then [so_auth c] else if p = 3 then [so_accumulate c, so_threshold c]
         else if p = 4 then [so_retry_count c, so_retry_interval c] else if p = 5 then [so_nv_rate c]
         else if p = 6 then [so_rate c] else if p = 7 then [so_channel c]
         else if p = 8 then [ucast (fst (so_port c)), ucast (snd (so_port c))] else [])) r))"

definition transport_set_sol_config_params :: "sol handler" where
  "transport_set_sol_config_params c q r =
     (let p = req_byte q 1; v = req_byte q 2; w = req_byte q 3 in
      Some (if p = 0 then c\<lparr>so_in_progress := v\<rparr> else if p = 1 then c\<lparr>so_enabled := v\<rparr>
         else if p = 2 then c\<lparr>so_auth := v\<rparr>
         else if p = 3 then c\<lparr>so_accumulate := v, so_threshold := w\<rparr>
         else if p = 4 then c\<lparr>so_retry_count := v, so_retry_interval := w\<rparr>
         else if p = 5 then c\<lparr>so_nv_rate := v\<rparr> else if p = 6 then c\<lparr>so_rate := v\<rparr> else c,
         set_cc CC_SUCCESS r))"

lemma sol_sessions_inv:
  "session_inv ss \<Longrightarrow> app_active_payload (c, ss) q r = Some ((c', ss'), r') \<Longrightarrow> session_inv ss'"
  "session_inv ss \<Longrightarrow> app_deactive_payload (c, ss) q r = Some ((c', ss'), r') \<Longrightarrow> session_inv ss'"
  by (auto simp: app_active_payload_def app_deactive_payload_def session_inv_def setSolActivator_def
      sol_deactivate_session_def slot_ok_methods Let_def split: if_splits)
    (auto simp: slot_ok_def new_session_def)

section \<open>Properties\<close>

text \<open>"Set watchdog timer" never changes the timer action, whatever request byte 1 asks for, and it
  reports success exactly when the log bit of byte 0, the pre-timeout or a countdown byte is set;
  a value 0 cannot be set. "Get watchdog timer" leaves the response length at 0, so the timer
  values it writes are not sent.\<close>

theorem watchdog_action_fixed:
  "\<exists>a' r1 r2. app_set_watchdog_timer_params a q r = Some (a', r1)
    \<and> wd_timer_actions (ap_wdt a') = wd_timer_actions (ap_wdt a)
    \<and> (r_cc r1 = CC_SUCCESS \<longleftrightarrow>
         bit (req_byte q 0) 7 \<or> req_byte q 2 \<noteq> 0 \<or> req_byte q 4 \<noteq> 0 \<or> req_byte q 5 \<noteq> 0)
    \<and> wd_pre_timeout (ap_wdt a')
        = (if req_byte q 2 = 0 then wd_pre_timeout (ap_wdt a) else req_byte q 2)
    \<and> app_get_watchdog_timer_params a' q' (set_len 0 r) = Some (a', r2) \<and> res_payload r2 = []"
proof -
  have u: "[0..<6] = [0, 1, 2, 3, 4, 5 :: nat]" by (simp add: upt_rec)
  show ?thesis
    by (simp add: app_set_watchdog_timer_params_def app_get_watchdog_timer_params_def wdt_step_def
        u res_payload_def Let_def)
qed

lemma watchdog_action_fixed_witness:
  "\<exists>a' r1. app_set_watchdog_timer_params (new_app 3 5 [])
       \<lparr>q_netfn = 6, q_cmd = 0x24, q_data = [0x44, 0x01, 9, 0, 0x64, 0]\<rparr> blank_res = Some (a', r1)
     \<and> wd_timer_actions (ap_wdt a') = 3 \<and> wd_pre_timeout (ap_wdt a') = 9 \<and> r_cc r1 = CC_SUCCESS"
proof -
  let ?q = "\<lparr>q_netfn = 6, q_cmd = 0x24, q_data = [0x44, 0x01, 9, 0, 0x64, 0]\<rparr>"
  have w: "wd_timer_actions (ap_wdt (new_app 3 5 [])) = 3" by (simp add: new_app_def)
  from watchdog_action_fixed [of "new_app 3 5 []" ?q blank_res ?q] show ?thesis
    unfolding w by auto
qed

text \<open>The capabilities answer mixes up two flags: a null user name with a null password sets the bit
  for null user names with passwords, and a null name with a password sets the bit for anonymous
  login. A channel other than 1, 6, 7 and 8 gets channel 1's answer.\<close>

theorem auth_cap_null_flags_swapped:
  assumes "app_inv a" and "u_enable (us ! 0) = 1" and "u_name (us ! 0) = []"
  shows "\<exists>a' r'. app_get_channel_auth_cap us a q r = Some (a', r') \<and> app_inv a'
    \<and> length (res_payload r') = 8
    \<and> ar_anon (ap_authrsp a' ! lan_index (req_byte q 0 AND 0x0F)) = (u_password (us ! 0) \<noteq> [])
    \<and> ar_null (ap_authrsp a' ! lan_index (req_byte q 0 AND 0x0F)) = (u_password (us ! 0) = [])
    \<and> res_payload r' = auth_rsp_bytes (ap_authrsp a' ! lan_index (req_byte q 0 AND 0x0F))"
proof -
  have "lan_index c < 4" for c by (simp add: lan_index_def)
  then show ?thesis
    using assms by (simp add: app_get_channel_auth_cap_def Let_def app_inv_def null_password_def
        null_name_login_def auth_rsp_bytes_def)
qed

lemma auth_cap_null_flags_swapped_witness:
  "\<exists>a' r'. app_get_channel_auth_cap [empty_user\<lparr>u_enable := 1\<rparr>] (new_app 0 0 (replicate 16 0))
      \<lparr>q_netfn = 6, q_cmd = 0x38, q_data = [1, 4]\<rparr> blank_res = Some (a', r')
    \<and> ar_anon (ap_authrsp a' ! 0) = False"
proof -
  let ?a = "new_app 0 0 (replicate 16 0)"
  let ?us = "[empty_user\<lparr>u_enable := 1\<rparr>]"
  have i: "app_inv ?a" by (simp add: app_inv_def new_app_def)
  have u: "u_enable (?us ! 0) = 1" "u_name (?us ! 0) = []" "u_password (?us ! 0) = []"
    by (simp_all add: empty_user_def)
  have l: "lan_index (byte_at [1, 4] 0 AND 0x0F) = 0" by (simp add: lan_index_def)
  from auth_cap_null_flags_swapped [OF i u(1,2), of "\<lparr>q_netfn = 6, q_cmd = 0x38, q_data = [1, 4]\<rparr>" blank_res]
  show ?thesis using u(3) l by auto
qed

end
