(* ===== verification/Lan_Config.thy ===== *)
theory Lan_Config
  imports Contracts
begin

text \<open>
  The LAN channels: class \<open>Ipminetwork\<close> of libs/network/network.cpp, its two configuration commands
  and the thread that applies a changed configuration to the interface. The addresses the
  operating system has at start-up and when the thread runs are arguments; what the thread does to
  the interface (the \<open>system\<close> calls and \<open>set_ip\<close>) is a list of commands. The redfish record of the
  interface is kept with its addresses as bytes, before they are printed.
\<close>

section \<open>State\<close>

record ether =
  e_ipv4 :: "(u8 list \<times> u8 list \<times> u8 list) list"

record lan =
  l_changed :: "u8 \<Rightarrow> u8"
  l_lock :: bool
  l_chan :: u8
  l_index :: nat
  l_set_in_prog :: u8
  l_auth_support :: u8
  l_auth_enables :: "u8 list"
  l_ip_hdr :: "u8 list"
  l_pri_port :: "u8 list"
  l_sec_port :: "u8 list"
  l_arp :: u8
  l_garp :: u8
  l_gw :: "u8 list"
  l_gw_mac :: "u8 list"
  l_back_gw :: "u8 list"
  l_back_gw_mac :: "u8 list"
  l_community :: "u8 list"
  l_no_of_dest :: u8
  l_dest_type :: "u8 list list"
  l_dest_addr :: "u8 list list"
  l_vlan_enable :: u8
  l_vlan_id :: u8
  l_vlan_priority :: u8
  l_ip :: "u8 list"
  l_ip_src :: u8
  l_mac :: "u8 list"
  l_mask :: "u8 list"
  l_ether :: "ether option"

text \<open>Address, mask, gateway and MAC of an interface, as \<open>get_ip_info\<close> returns them.\<close>

record ip_info =
  n_ip :: "u8 list"
  n_mask :: "u8 list"
  n_gw :: "u8 list"
  n_mac :: "u8 list"

definition info_ok :: "ip_info \<Rightarrow> bool" where
  "info_ok n \<longleftrightarrow> length (n_ip n) = 4 \<and> length (n_mask n) = 4 \<and> length (n_gw n) = 4 \<and> length (n_mac n) = 6"

definition chan_index :: "u8 \<Rightarrow> nat" where
  "chan_index chan = (if chan = 1 then 0 else if chan = 6 then 1 else if chan = 7 then 2
     else if chan = 8 then 3 else 0)"

text \<open>The constructor. The objects are static: members it leaves alone are zero or empty.\<close>

definition new_lan :: "u8 \<Rightarrow> ip_info \<Rightarrow> ether option \<Rightarrow> lan" where
  "new_lan chan n e = \<lparr>l_changed = (\<lambda>_. 0), l_lock = False, l_chan = chan, l_index = chan_index chan,
     l_set_in_prog = 0, l_auth_support = 0x1D, l_auth_enables = replicate 4 0x1D,
     l_ip_hdr = [0x40, 0x40, 0x10], l_pri_port = [0x97, 2], l_sec_port = [0x98, 2], l_arp = 2,
     l_garp = 0, l_gw = n_gw n, l_gw_mac = [], l_back_gw = [], l_back_gw_mac = [],
     l_community = [0x4B, 0x45, 0x54, 0x49], l_no_of_dest = 5,
     l_dest_type = [[0], [1], [2], [3], [4]], l_dest_addr = [[0, 10, 0, 0, 124], [], [], [], []],
     l_vlan_enable = 0, l_vlan_id = 0, l_vlan_priority = 0, l_ip = n_ip n, l_ip_src = 0,
     l_mac = n_mac n, l_mask = n_mask n, l_ether = e\<rparr>"

text \<open>The redfish record is refreshed only when it has more than one IPv4 entry.\<close>

definition plat_network_save :: "lan \<Rightarrow> lan" where
  "plat_network_save l = l\<lparr>l_lock := True, l_ether := map_option (\<lambda>e. e\<lparr>e_ipv4 :=
     (case e_ipv4 e of
        (a, g, m) # x # xs \<Rightarrow>
          (if length (l_ip l) > 2 then l_ip l else a, if length (l_gw l) > 2 then l_gw l else g,
           if length (l_mask l) > 2 then l_mask l else m) # x # xs
      | xs \<Rightarrow> xs)\<rparr>) (l_ether l)\<rparr>"

section \<open>Reading the configuration\<close>

text \<open>What a parameter copies to the response and how far it moves the pointer: the two differ when
  the stored vector does not have the parameter's size. The destination tables have five entries.\<close>

definition lan_value :: "u8 \<Rightarrow> u8 \<Rightarrow> lan \<Rightarrow> (u8 list \<times> nat) cres" where
  "lan_value p select l =
     (if p = 0 then Ret ([l_set_in_prog l], 1)
      else if p = 1 then Ret ([l_auth_support l], 1)
      else if p = 2 then Ret (l_auth_enables l, 5)
      else if p = 3 then Ret (l_ip l, 4)
      else if p = 4 then Ret ([l_ip_src l], 1)
      else if p = 5 then Ret (l_mac l, 6)
      else if p = 6 then Ret (l_mask l, 4)
      else if p = 7 then Ret (l_ip_hdr l, 3)
      else if p = 8 then Ret (l_pri_port l, 2)
      else if p = 9 then Ret (l_sec_port l, 2)
      else if p = 10 then Ret ([l_arp l], 1)
      else if p = 11 then Ret ([l_garp l], 1)
      else if p = 12 then Ret (l_gw l, 4)
      else if p = 13 then Ret (l_gw_mac l, 6)
      else if p = 14 then Ret (l_back_gw l, 4)
      else if p = 15 then Ret (l_back_gw_mac l, 6)
      else if p = 16 then Ret (l_community l, length (l_community l) + 1)
      else if p = 17 then Ret ([l_no_of_dest l], 1)
      else if p = 18 then (if select < 5 then Ret (l_dest_type l ! unat select, 4) else Ub)
      else if p = 19 then (if select < 5 then Ret (l_dest_addr l ! unat select, 18) else Ub)
      else if p = 20 then Ret ([l_vlan_id l, l_vlan_enable l], 2)
      else if p = 21 then Ret ([l_vlan_priority l], 1)
      else if p = 22 then Ret ([4], 1)
      else if p = 23 then Ret ([0xFF, 1, 3, 5, 7], 5)
      else if p = 24 then Ret (0xFF # replicate 8 0x44, 9)
      else Fail 0)"

definition get_lan_config :: "lan handler" where
  "get_lan_config l q r =
     (case lan_value (req_byte q 1) (req_byte q 2) l of
        Ub \<Rightarrow> None
      | Fail _ \<Rightarrow> Some (l, set_len 1 (set_cc CC_UNKNOWN (put [1] r)))
      | Ret (bs, n) \<Rightarrow>
          Some (l, set_len (word_of_nat (Suc n)) (put (1 # bs) (set_cc CC_SUCCESS r))))"

section \<open>Changing the configuration\<close>

definition all_bytes :: "u8 \<Rightarrow> ipmi_req \<Rightarrow> bool" where
  "all_bytes b q \<longleftrightarrow> req_byte q 2 = b \<and> req_byte q 3 = b \<and> req_byte q 4 = b \<and> req_byte q 5 = b"

definition mark_changed :: "u8 \<Rightarrow> lan \<Rightarrow> lan" where
  "mark_changed p l = l\<lparr>l_changed := (l_changed l)(p := 1), l_lock := True\<rparr>"

definition set_in_progress :: "u8 \<Rightarrow> lan \<Rightarrow> u8 \<times> lan" where
  "set_in_progress d l =
     (let k = d AND 0x0F in
      if k = 0 then (CC_SUCCESS, l\<lparr>l_set_in_prog := d\<rparr>)
      else if k = 1 then
        (if l_set_in_prog l \<noteq> 0 then (0x81, l) else (CC_SUCCESS, l\<lparr>l_set_in_prog := d\<rparr>))
      else if k = 2 then (0x81, l)
      else if k = 3 then (CC_INVALID_PARAM, l)
      else (CC_SUCCESS, l))"

text \<open>The switch over the parameter: completion code and new state, before the save.\<close>

definition lan_update :: "ipmi_req \<Rightarrow> lan \<Rightarrow> (u8 \<times> lan) option" where
  "lan_update q l =
     (let p = req_byte q 1; d = req_byte q 2 in
      if p = 0 then Some (set_in_progress d l)
      else if p = 1 then Some (CC_SUCCESS, l\<lparr>l_auth_support := d AND 0x3F\<rparr>)
      else if p = 2 then Some (CC_SUCCESS, l\<lparr>l_auth_enables := req_bytes q 2 5\<rparr>)
      else if p = 3 then
        (if all_bytes 0 q \<or> all_bytes 0xFF q then Some (CC_PARAM_OUT_OF_RANGE, l)
         else Some (CC_SUCCESS, (mark_changed p l)\<lparr>l_ip := req_bytes q 2 4\<rparr>))
      else if p = 4 then Some (CC_SUCCESS, (mark_changed p l)\<lparr>l_ip_src := d AND 0x0F\<rparr>)
      else if p = 5 then Some (CC_SUCCESS, (mark_changed p l)\<lparr>l_mac := req_bytes q 2 6\<rparr>)
      else if p = 6 then
        (if all_bytes 0xFF q then Some (CC_INVALID_PARAM, l)
         else Some (CC_SUCCESS, (mark_changed p l)\<lparr>l_mask := req_bytes q 2 4\<rparr>))
      else if p = 7 then Some (CC_SUCCESS, l\<lparr>l_ip_hdr := req_bytes q 2 3\<rparr>)
      else if p = 10 then Some (CC_SUCCESS, l\<lparr>l_arp := d\<rparr>)
      else if p = 11 then Some (CC_SUCCESS, l\<lparr>l_garp := d\<rparr>)
      else if p = 12 then
        (if all_bytes 0 q \<or> all_bytes 0xFF q then Some (CC_INVALID_PARAM, l)
         else Some (CC_SUCCESS, (mark_changed p l)\<lparr>l_gw := req_bytes q 2 4\<rparr>))
      else if p = 13 \<or> p = 14 \<or> p = 15 then Some (CC_INVALID_PARAM, l)
      else if p = 16 then Some (CC_SUCCESS, l\<lparr>l_community := req_bytes q 2 18\<rparr>)
      else if p = 17 then Some (CC_SUCCESS, l\<lparr>l_no_of_dest := d\<rparr>)
      else if p = 18 then
        (if d < 5 then Some (CC_SUCCESS, l\<lparr>l_dest_type := (l_dest_type l)[unat d := req_bytes q 2 4]\<rparr>)
         else None)
      else if p = 19 then
        (if d < 5 then Some (CC_SUCCESS, l\<lparr>l_dest_addr := (l_dest_addr l)[unat d := req_bytes q 4 4]\<rparr>)
         else None)
      else Some (CC_INVALID_PARAM, l))"

definition set_lan_config :: "lan handler" where
  "set_lan_config l q r =
     map_option (\<lambda>(cc, l'). (plat_network_save l', set_cc cc r)) (lan_update q l)"

section \<open>Applying a change\<close>

datatype lan_cmd =
    Eth_Down nat
  | Eth_Up nat
  | Set_Ip nat "u8 list" "u8 list" "u8 list"
  | Set_Mac nat "u8 list"
  | Add_Default_Gw "u8 list" nat
  | Dhcp_Request nat

definition others_down :: "nat \<Rightarrow> lan_cmd list" where
  "others_down k = map Eth_Down (filter (\<lambda>i. i \<noteq> k) [0..<4])"

definition mac_commands :: "lan \<Rightarrow> lan_cmd list" where
  "mac_commands l =
     (if l_changed l 5 = 1
      then [Eth_Down (l_index l), Set_Mac (l_index l) (l_mac l), Eth_Up (l_index l),
            Add_Default_Gw (l_gw l) (l_index l)]
      else [])"

text \<open>One turn of \<open>lanMonitorHandler\<close>; the thread sleeps until \<open>lockFlag\<close> is set.\<close>

definition lan_monitor :: "ip_info \<Rightarrow> lan \<Rightarrow> lan_cmd list \<times> lan" where
  "lan_monitor n l =
     (if \<not> l_lock l then ([], l)
      else
        let k = l_index l;
            cmds =
              (if l_changed l 4 = 1 \<and> l_ip_src l = 1 then
                 others_down k
                 @ [Set_Ip k (if l_changed l 3 = 1 then l_ip l else n_ip n)
                      (if l_changed l 6 = 1 then l_mask l else n_mask n)
                      (if l_changed l 12 = 1 then l_gw l else n_gw n)]
                 @ mac_commands l
               else if l_changed l 4 = 1 \<and> l_ip_src l = 2 then
                 others_down k @ mac_commands l @ [Dhcp_Request k]
               else [])
        in (cmds, l\<lparr>l_changed := (l_changed l)(4 := 0, 3 := 0, 6 := 0, 12 := 0, 5 := 0),
                 l_lock := False\<rparr>))"

definition plat_lan_changed :: "ip_info \<Rightarrow> lan \<Rightarrow> lan" where
  "plat_lan_changed n l =
     (if n_ip n ! 0 = 0
      then l\<lparr>l_ip := replicate (length (l_ip l)) 0, l_mask := replicate (length (l_mask l)) 0,
             l_gw := replicate (length (l_gw l)) 0\<rparr>
      else l\<lparr>l_ip := write_at 0 (n_ip n) (l_ip l), l_mask := write_at 0 (n_mask n) (l_mask l),
             l_gw := write_at 0 (n_gw n) (l_gw l), l_mac := write_at 0 (n_mac n) (l_mac l)\<rparr>)"

section \<open>Invariant\<close>

definition lan_inv :: "lan \<Rightarrow> bool" where
  "lan_inv l \<longleftrightarrow> length (l_ip l) = 4 \<and> length (l_mask l) = 4 \<and> length (l_gw l) = 4
     \<and> length (l_mac l) = 6 \<and> length (l_ip_hdr l) = 3 \<and> length (l_pri_port l) = 2
     \<and> length (l_sec_port l) = 2 \<and> length (l_auth_enables l) \<le> 5 \<and> length (l_gw_mac l) \<le> 6
     \<and> length (l_back_gw l) \<le> 4 \<and> length (l_back_gw_mac l) \<le> 6 \<and> length (l_community l) \<le> 18
     \<and> length (l_dest_type l) = 5 \<and> list_all (\<lambda>b. length b \<le> 5) (l_dest_type l)
     \<and> length (l_dest_addr l) = 5 \<and> list_all (\<lambda>b. length b \<le> 5) (l_dest_addr l)"

lemma new_lan_inv: "info_ok n \<Longrightarrow> lan_inv (new_lan c n e)"
  by (simp add: lan_inv_def new_lan_def info_ok_def)

lemma lan_inv_save [simp]: "lan_inv (plat_network_save l) = lan_inv l"
  by (simp add: lan_inv_def plat_network_save_def)

lemma lan_inv_mark [simp]: "lan_inv (mark_changed p l) = lan_inv l"
  by (simp add: lan_inv_def mark_changed_def)

lemma lan_inv_progress: "lan_inv l \<Longrightarrow> lan_inv (snd (set_in_progress d l))"
  by (simp add: lan_inv_def set_in_progress_def Let_def)

lemma list_all_update: "list_all P xs \<Longrightarrow> P x \<Longrightarrow> list_all P (xs[i := x])"
  by (auto simp: list_all_iff dest: set_update_subset_insert [THEN subsetD])

lemma lan_update_inv: "lan_inv l \<Longrightarrow> lan_update q l = Some (cc, l') \<Longrightarrow> lan_inv l'"
  using lan_inv_progress [of l "req_byte q 2"]
  by (auto simp: lan_update_def Let_def mark_changed_def split: if_splits)
    (auto simp: lan_inv_def list_all_update)

lemma set_lan_config_inv: "lan_inv l \<Longrightarrow> set_lan_config l q r = Some (l', r') \<Longrightarrow> lan_inv l'"
  by (auto simp: set_lan_config_def intro: lan_update_inv)

lemma lan_value_small: "lan_inv l \<Longrightarrow> lan_value p sel l = Ret (bs, n) \<Longrightarrow> length bs \<le> 18 \<and> n \<le> 19"
  by (auto simp: lan_value_def lan_inv_def list_all_length word_less_nat_alt split: if_splits)

lemma get_lan_config_fits:
  assumes "lan_inv l" and "res_fits r" and "get_lan_config l q r = Some (l', r')"
  shows "res_fits r'"
proof (cases "lan_value (req_byte q 1) (req_byte q 2) l")
  case (Ret x)
  then show ?thesis
    using assms lan_value_small [OF assms(1)]
    by (cases x) (force simp: get_lan_config_def)
qed (use assms in \<open>auto simp: get_lan_config_def\<close>)

lemma set_lan_config_fits: "res_fits r \<Longrightarrow> set_lan_config l q r = Some (l', r') \<Longrightarrow> res_fits r'"
  by (auto simp: set_lan_config_def)

lemmas lan_set_defs = set_lan_config_def lan_update_def mark_changed_def plat_network_save_def

section \<open>Properties\<close>

text \<open>How many bytes of the request the parameters that are stored as they come hold.\<close>

definition lan_param_size :: "u8 \<Rightarrow> nat" where
  "lan_param_size p = (if p = 2 then 5 else if p = 5 then 6 else if p = 7 then 3 else 4)"

text \<open>The authentication enables, the IP and MAC address, the net mask, the IP header parameters and the
  default gateway are read back as they were written, after the parameter revision byte, whenever
  the write reported success; a write that reports an error leaves the value alone.\<close>

theorem lan_config_roundtrip:
  assumes "lan_inv l" and "req_byte q 1 \<in> {2, 3, 5, 6, 7, 12}" and "req_byte q' 1 = req_byte q 1"
  shows "\<exists>l' r1 r2. set_lan_config l q r = Some (l', r1) \<and> lan_inv l'
    \<and> get_lan_config l' q' blank_res = Some (l', r2) \<and> r_cc r2 = CC_SUCCESS
    \<and> (if r_cc r1 = CC_SUCCESS
       then res_payload r2 = 1 # req_bytes q 2 (lan_param_size (req_byte q 1))
       else lan_value (req_byte q 1) 0 l' = lan_value (req_byte q 1) 0 l)"
proof -
  have inv: "lan_inv l'" if "set_lan_config l q r = Some (l', r1)" for l' r1
    using set_lan_config_inv assms(1) that by blast
  have pay: "res_payload (set_len k (put (1 # bs) (set_cc c blank_res))) = 1 # bs"
    if "unat k = Suc (length bs)" for k bs c
    using that take_write_at_0 [of "1 # bs" "r_data blank_res"] by (simp add: res_payload_def)
  have "\<exists>l' r1 r2. set_lan_config l q r = Some (l', r1)
    \<and> get_lan_config l' q' blank_res = Some (l', r2) \<and> r_cc r2 = CC_SUCCESS
    \<and> (if r_cc r1 = CC_SUCCESS
       then res_payload r2 = 1 # req_bytes q 2 (lan_param_size (req_byte q 1))
       else lan_value (req_byte q 1) 0 l' = lan_value (req_byte q 1) 0 l)"
    using assms(2,3)
    by (elim insertE emptyE)
      (simp_all add: lan_set_defs get_lan_config_def lan_value_def lan_param_size_def pay Let_def)
  then show ?thesis using inv by blast
qed

text \<open>A host that only writes a new IP address gets success, and reads the new address back, but the
  interface keeps the old one: the monitor thread issues no command unless the address source was
  written too, and it forgets that the address changed, so writing the source later configures the
  interface with the address the operating system had.\<close>

theorem lan_ip_alone_not_applied:
  assumes "lan_inv l" and "l_changed l 4 = 0" and "req_byte q 1 = 3"
    and "\<not> all_bytes 0 q" and "\<not> all_bytes 0xFF q"
    and "req_byte q' 1 = 4" and "req_byte q' 2 = 1"
  shows "\<exists>l1 r1 l2 l3 r3. set_lan_config l q r = Some (l1, r1) \<and> r_cc r1 = CC_SUCCESS
    \<and> l_ip l1 = req_bytes q 2 4 \<and> lan_monitor n l1 = ([], l2) \<and> l_ip l2 = req_bytes q 2 4
    \<and> set_lan_config l2 q' r = Some (l3, r3)
    \<and> fst (lan_monitor n l3) = others_down (l_index l) @ [Set_Ip (l_index l) (n_ip n) (n_mask n) (n_gw n)]"
  using assms(2-7) by (simp add: lan_set_defs lan_monitor_def mac_commands_def Let_def)

text \<open>When address, mask and gateway are written before the source is set to static, with no turn of the
  monitor in between, the monitor brings the other interfaces down and configures this one with
  exactly the values written, then sleeps until the next write.\<close>

theorem lan_static_applied:
  assumes "l_changed l 5 = 0" and "req_byte q1 1 = 3" and "req_byte q2 1 = 6" and "req_byte q3 1 = 12"
    and "req_byte q4 1 = 4" and "req_byte q4 2 AND 0x0F = 1"
    and "\<not> all_bytes 0 q1" and "\<not> all_bytes 0xFF q1" and "\<not> all_bytes 0xFF q2"
    and "\<not> all_bytes 0 q3" and "\<not> all_bytes 0xFF q3"
  shows "\<exists>l1 l2 l3 l4 l5. (\<exists>r1. set_lan_config l q1 r = Some (l1, r1))
    \<and> (\<exists>r2. set_lan_config l1 q2 r = Some (l2, r2)) \<and> (\<exists>r3. set_lan_config l2 q3 r = Some (l3, r3))
    \<and> (\<exists>r4. set_lan_config l3 q4 r = Some (l4, r4))
    \<and> lan_monitor n l4 = (others_down (l_index l)
         @ [Set_Ip (l_index l) (req_bytes q1 2 4) (req_bytes q2 2 4) (req_bytes q3 2 4)], l5)
    \<and> lan_monitor n' l5 = ([], l5)"
  using assms by (simp add: lan_set_defs lan_monitor_def mac_commands_def Let_def)

text \<open>Witnesses.\<close>

definition sample_info :: ip_info where
  "sample_info = \<lparr>n_ip = [10, 0, 0, 5], n_mask = [255, 0, 0, 0], n_gw = [10, 0, 0, 1],
     n_mac = [2, 0, 0, 0, 0, 1]\<rparr>"

definition lan_write :: "u8 list \<Rightarrow> ipmi_req" where
  "lan_write d = \<lparr>q_netfn = 0x0C, q_cmd = 1, q_data = d\<rparr>"

lemma lan_write_data [simp]: "q_data (lan_write d) = d"
  by (simp add: lan_write_def)

lemma lan_config_roundtrip_witness:
  "\<exists>l' r1 r2. set_lan_config (new_lan 1 sample_info None) (lan_write [1, 3, 10, 0, 0, 9]) blank_res
       = Some (l', r1) \<and> get_lan_config l' (lan_write [1, 3]) blank_res = Some (l', r2)
     \<and> res_payload r2 = [1, 10, 0, 0, 9]"
proof -
  have i: "lan_inv (new_lan 1 sample_info None)"
    by (rule new_lan_inv) (simp add: info_ok_def sample_info_def)
  have cc: "r_cc (snd (the (set_lan_config (new_lan 1 sample_info None)
      (lan_write [1, 3, 10, 0, 0, 9]) blank_res))) = CC_SUCCESS"
    by (simp add: lan_set_defs all_bytes_def)
  from lan_config_roundtrip [OF i, of "lan_write [1, 3, 10, 0, 0, 9]" "lan_write [1, 3]" blank_res] cc
  show ?thesis by (auto simp: lan_param_size_def bytes_at_expand)
qed

lemma lan_ip_alone_not_applied_witness:
  "\<exists>l1 r1. set_lan_config (new_lan 1 sample_info None) (lan_write [1, 3, 10, 0, 0, 9]) blank_res
       = Some (l1, r1) \<and> r_cc r1 = CC_SUCCESS \<and> l_ip l1 = [10, 0, 0, 9]
     \<and> fst (lan_monitor sample_info l1) = []"
proof -
  have i: "lan_inv (new_lan 1 sample_info None)"
    by (rule new_lan_inv) (simp add: info_ok_def sample_info_def)
  have c: "l_changed (new_lan 1 sample_info None) 4 = 0" by (simp add: new_lan_def)
  from lan_ip_alone_not_applied [OF i c, of "lan_write [1, 3, 10, 0, 0, 9]" "lan_write [1, 4, 1]"
      blank_res sample_info]
  show ?thesis by (auto simp: all_bytes_def bytes_at_expand)
qed

lemma lan_static_applied_witness:
  "\<exists>l4. fst (lan_monitor sample_info l4) = [Eth_Down 1, Eth_Down 2, Eth_Down 3,
       Set_Ip 0 [10, 0, 0, 9] [255, 255, 0, 0] [10, 0, 0, 2]]"
proof -
  have c: "l_changed (new_lan 1 sample_info None) 5 = 0" by (simp add: new_lan_def)
  have d: "others_down (l_index (new_lan 1 sample_info None)) = [Eth_Down 1, Eth_Down 2, Eth_Down 3]"
    by (simp add: others_down_def new_lan_def chan_index_def upt_rec)
  from lan_static_applied [OF c, of "lan_write [1, 3, 10, 0, 0, 9]" "lan_write [1, 6, 255, 255, 0, 0]"
      "lan_write [1, 12, 10, 0, 0, 2]" "lan_write [1, 4, 1]" blank_res sample_info sample_info]
  obtain l4 l5 where "lan_monitor sample_info l4 = ([Eth_Down 1, Eth_Down 2, Eth_Down 3,
       Set_Ip 0 [10, 0, 0, 9] [255, 255, 0, 0] [10, 0, 0, 2]], l5)"
    by (auto simp: all_bytes_def bytes_at_expand d) (simp add: new_lan_def chan_index_def)
  then show ?thesis by (metis fst_conv)
qed

end
