(* ===== verification/Pef_Filters.thy ===== *)
theory Pef_Filters
  imports Contracts
begin

text \<open>
  Platform event filters: libs/sel/efte.cpp (the table \<open>g_eft_data\<close> of 127 filters in memory, its
  file \<open>EVENT_FILTER_TABLE_FILE\<close>, the control bytes, the look-up that gives an alert its policy
  and its text) and libs/sel/pef_policy.cpp (the table of eight alert policies and its file).
  The commands of the IPMI interface are in \<open>Pef_Commands\<close>.

  A filter is the 21 bytes of \<open>pef_table_entry_t\<close> in the order of the structure: the code copies
  filters byte by byte through a \<open>void\<close> pointer and writes the structure to the file as it is in
  memory. The layout of the file: byte 0 the number of filters, byte 0x10 the PEF control, byte
  0x11 the action control, filter \<open>i\<close> at \<open>0x20 + (i - 1) * 21\<close>. Opening a file for writing
  succeeds when its \<open>writable\<close> flag holds; a buffered write to an open file does not fail.
\<close>

section \<open>State\<close>

record pef_policy =
  pp_data1 :: u8
  pp_policy :: u8
  pp_chan_dest :: u8
  pp_alert_key :: u8

record pef =
  ef_data :: "u8 list list"
  ef_file :: "u8 list option"
  ef_writable :: bool
  pt_table :: "pef_policy list"
  pt_file :: "u8 list option"
  pt_writable :: bool

abbreviation (input) EVENT_FILTER_TABLE_ELEMS_MAX :: nat where "EVENT_FILTER_TABLE_ELEMS_MAX \<equiv> 127"
abbreviation (input) EFT_PEF_CTRL_OFFSET :: nat where "EFT_PEF_CTRL_OFFSET \<equiv> 0x10"
abbreviation (input) EFT_PEF_ACT_GLB_CTRL_OFFSET :: nat where "EFT_PEF_ACT_GLB_CTRL_OFFSET \<equiv> 0x11"
abbreviation (input) TBLSIZE :: nat where "TBLSIZE \<equiv> 8"

definition set_eft :: "nat \<Rightarrow> u8 list \<Rightarrow> pef \<Rightarrow> pef" where
  "set_eft i e s = s\<lparr>ef_data := (ef_data s)[i := e]\<rparr>"

text \<open>Members of \<open>pef_table_entry_t\<close> by their place in the structure.\<close>

abbreviation (input) eft_config :: "u8 list \<Rightarrow> u8" where "eft_config e \<equiv> e ! 1"
abbreviation (input) eft_action :: "u8 list \<Rightarrow> u8" where "eft_action e \<equiv> e ! 2"
abbreviation (input) eft_policy_number :: "u8 list \<Rightarrow> u8" where "eft_policy_number e \<equiv> e ! 3"
abbreviation (input) eft_severity :: "u8 list \<Rightarrow> u8" where "eft_severity e \<equiv> e ! 4"
abbreviation (input) eft_sensor_type :: "u8 list \<Rightarrow> u8" where "eft_sensor_type e \<equiv> e ! 7"
abbreviation (input) eft_sensor_number :: "u8 list \<Rightarrow> u8" where "eft_sensor_number e \<equiv> e ! 8"

section \<open>The file of filters\<close>

text \<open>Writing at an offset of an open file; a gap before the offset reads as zeros.\<close>

definition eft_put :: "nat \<Rightarrow> u8 list \<Rightarrow> u8 list \<Rightarrow> u8 list" where
  "eft_put off bs f = write_at off bs (f @ replicate (off - length f) 0)"

text \<open>\<open>fopen "r+"\<close>, \<open>fseek\<close>, \<open>fwrite\<close>, \<open>fclose\<close>.\<close>

definition eft_store :: "nat \<Rightarrow> u8 list \<Rightarrow> pef \<Rightarrow> int \<times> pef" where
  "eft_store off bs s =
     (case ef_file s of
        None \<Rightarrow> (-1, s)
      | Some f \<Rightarrow> if ef_writable s then (0, s\<lparr>ef_file := Some (eft_put off bs f)\<rparr>) else (-1, s))"

text \<open>\<open>fopen "r"\<close>, \<open>fseek\<close> and one \<open>fread\<close> of \<open>n\<close> bytes: the code and the bytes that were read,
  fewer than \<open>n\<close> at the end of the file.\<close>

definition eft_fetch :: "nat \<Rightarrow> nat \<Rightarrow> pef \<Rightarrow> int \<times> u8 list" where
  "eft_fetch off n s =
     (case ef_file s of
        None \<Rightarrow> (-1, [])
      | Some f \<Rightarrow> let bs = take n (drop off f) in (if length bs < n then -1 else 0, bs))"

definition get_pef_supported_number :: "u8 cres" where
  "get_pef_supported_number = Ret 0x7F"

definition get_eft_entry_num_from_file :: "pef \<Rightarrow> u8 cres" where
  "get_eft_entry_num_from_file s =
     (case eft_fetch 0 1 s of (rc, bs) \<Rightarrow> if rc < 0 then Fail (-1) else Ret (byte_at bs 0))"

definition set_eft_entry_num_to_file :: "u8 \<Rightarrow> pef \<Rightarrow> int \<times> pef" where
  "set_eft_entry_num_to_file num = eft_store 0 [num]"

text \<open>An absent file is created with no filters.\<close>

definition etf_init :: "pef \<Rightarrow> int \<times> pef" where
  "etf_init s =
     (if ef_file s = None
      then if ef_writable s then set_eft_entry_num_to_file 0 (s\<lparr>ef_file := Some []\<rparr>) else (-1, s)
      else (0, s))"

definition after_init :: "'a \<Rightarrow> (pef \<Rightarrow> 'a \<times> pef) \<Rightarrow> pef \<Rightarrow> 'a \<times> pef" where
  "after_init err f s = (case etf_init s of (rc, s1) \<Rightarrow> if rc < 0 then (err, s1) else f s1)"

definition get_eft_entry_num :: "pef \<Rightarrow> u8 cres \<times> pef" where
  "get_eft_entry_num = after_init (Fail (-1)) (\<lambda>s. (get_eft_entry_num_from_file s, s))"

definition set_eft_entry_num :: "u8 \<Rightarrow> pef \<Rightarrow> int \<times> pef" where
  "set_eft_entry_num num = after_init (-1) (set_eft_entry_num_to_file num)"

section \<open>The control bytes\<close>

definition ctrl_from_file :: "nat \<Rightarrow> pef \<Rightarrow> u8 cres" where
  "ctrl_from_file off s =
     (case eft_fetch off 1 s of (rc, bs) \<Rightarrow> if rc < 0 then Fail (-1) else Ret (byte_at bs 0))"

definition get_pef_ctrl_from_file :: "pef \<Rightarrow> u8 cres" where
  "get_pef_ctrl_from_file = ctrl_from_file EFT_PEF_CTRL_OFFSET"

definition get_pef_ctrl :: "pef \<Rightarrow> u8 cres \<times> pef" where
  "get_pef_ctrl = after_init (Fail (-1)) (\<lambda>s. (get_pef_ctrl_from_file s, s))"

definition set_pef_ctrl_to_file :: "u8 \<Rightarrow> pef \<Rightarrow> int \<times> pef" where
  "set_pef_ctrl_to_file x = eft_store EFT_PEF_CTRL_OFFSET [x]"

definition set_pef_ctrl :: "u8 \<Rightarrow> pef \<Rightarrow> int \<times> pef" where
  "set_pef_ctrl x = after_init (-1) (set_pef_ctrl_to_file x)"

definition get_pef_act_glb_ctrl_from_file :: "pef \<Rightarrow> u8 cres" where
  "get_pef_act_glb_ctrl_from_file = ctrl_from_file EFT_PEF_ACT_GLB_CTRL_OFFSET"

definition get_pef_act_glb_ctrl :: "pef \<Rightarrow> u8 cres \<times> pef" where
  "get_pef_act_glb_ctrl = after_init (Fail (-1)) (\<lambda>s. (get_pef_act_glb_ctrl_from_file s, s))"

definition set_pef_act_glb_ctrl_to_file :: "u8 \<Rightarrow> pef \<Rightarrow> int \<times> pef" where
  "set_pef_act_glb_ctrl_to_file x = eft_store EFT_PEF_ACT_GLB_CTRL_OFFSET [x]"

definition set_pef_act_glb_ctrl :: "u8 \<Rightarrow> pef \<Rightarrow> int \<times> pef" where
  "set_pef_act_glb_ctrl x = after_init (-1) (set_pef_act_glb_ctrl_to_file x)"

section \<open>Reading and writing filters\<close>

text \<open>The offset is computed in \<open>int\<close>, so filter 0 lies before filter 1, at byte 11.\<close>

definition eft_offset :: "u8 \<Rightarrow> nat" where
  "eft_offset recid = nat (0x20 + (uint recid - 1) * 21)"

definition get_eft_entry_from_file :: "u8 \<Rightarrow> pef \<Rightarrow> int \<times> u8 list" where
  "get_eft_entry_from_file recid s = eft_fetch (eft_offset recid) 21 s"

text \<open>The code and the bytes written to the caller's buffer.\<close>

definition get_eft_entry :: "u8 \<Rightarrow> pef \<Rightarrow> (int \<times> u8 list) \<times> pef" where
  "get_eft_entry recid = after_init (-1, []) (\<lambda>s.
     (case get_eft_entry_num_from_file s of
        Ret num \<Rightarrow> if num < recid then (-1, []) else get_eft_entry_from_file recid s
      | _ \<Rightarrow> (-1, []), s))"

text \<open>
  Where the 20 bytes of a filter come from: a buffer of the caller, or \<open>g_eft_data[recid]\<close> itself
  from one of its members on, which the copy then reads while it writes.
\<close>

datatype eft_source = Buffer "u8 list" | Own nat

definition eft_byte :: "eft_source \<Rightarrow> nat \<Rightarrow> u8 list \<Rightarrow> u8" where
  "eft_byte src k g = (case src of Buffer b \<Rightarrow> byte_at b k | Own o' \<Rightarrow> g ! (o' + k))"

definition eft_copy :: "eft_source \<Rightarrow> u8 list \<Rightarrow> u8 list" where
  "eft_copy src g = fold (\<lambda>k g. g[Suc k := eft_byte src k g]) [0..<20] g"

definition set_eft_entry_to_file :: "u8 \<Rightarrow> u8 list \<Rightarrow> pef \<Rightarrow> int \<times> pef" where
  "set_eft_entry_to_file num e s =
     (case set_eft_entry_num_to_file num s of
        (rc, s1) \<Rightarrow> if rc < 0 then (-1, s1) else eft_store (eft_offset (byte_at e 0)) e s1)"

definition set_eft_entry :: "u8 \<Rightarrow> eft_source \<Rightarrow> pef \<Rightarrow> int \<times> pef" where
  "set_eft_entry recid src = after_init (-1) (\<lambda>s.
     case get_eft_entry_num_from_file s of
       Ret num \<Rightarrow>
         if 126 < recid then (-1, s)
         else let g = eft_copy src ((ef_data s ! unat recid)[0 := recid])
              in set_eft_entry_to_file (max num recid) g (set_eft (unat recid) g s)
     | _ \<Rightarrow> (-1, s))"

text \<open>The two callers that change one byte of a filter write it before the number is checked.\<close>

definition set_config :: "u8 \<Rightarrow> u8 \<Rightarrow> pef \<Rightarrow> pef" where
  "set_config recid c s = set_eft (unat recid) ((ef_data s ! unat recid)[1 := c]) s"

definition set_pef_enable :: "u8 \<Rightarrow> u8 \<Rightarrow> pef \<Rightarrow> (int \<times> pef) option" where
  "set_pef_enable recid enable s =
     (if EVENT_FILTER_TABLE_ELEMS_MAX \<le> unat recid then None
      else Some (set_eft_entry recid (Own 1) (set_config recid (if enable = 0 then 0x7F else 0x80) s)))"

definition set_pef_cfg :: "u8 \<Rightarrow> u8 \<Rightarrow> pef \<Rightarrow> (int \<times> pef) option" where
  "set_pef_cfg recid entry s =
     (if EVENT_FILTER_TABLE_ELEMS_MAX \<le> unat recid then None
      else Some (set_eft_entry recid (Own 0) (set_config recid entry s)))"

end
