(* ===== verification/Pef_Policy.thy ===== *)
theory Pef_Policy
  imports Pef_Filters
begin

text \<open>
  The start-up of the filter table, the policy table (libs/sel/pef_policy.cpp), the look-up of a
  filter by sensor and the texts of the alerts (libs/sel/efte.cpp).
\<close>

section \<open>Names of sensors and severities\<close>

definition severity_name :: "(string \<times> u8) list" where
  "severity_name = [(''Unspecified'', 0x00), (''Monitor'', 0x01), (''Information'', 0x02),
     (''Normal'', 0x04), (''Warning'', 0x08), (''Critical'', 0x10), (''Non recoverable'', 0x20)]"

definition voltage_sensor_name :: "(string \<times> u8) list" where
  "voltage_sensor_name =
     [(''PEB_ADC_P12V_PSU1'', 0x20), (''PEB_ADC_P12V_PSU2'', 0x21), (''PEB_ADC_P3V3'', 0x22),
      (''PEB_ADC_P5V'', 0x23), (''PEB_ADC_PVNN_PCH'', 0x24), (''PEB_ADC_P1V05'', 0x25),
      (''PEB_ADC_P1V8'', 0x26), (''PEB_ADC_BAT'', 0x27), (''PEB_ADC_PVCCIN'', 0x28),
      (''PEB_ADC_PVNN_PCH_CPU0'', 0x29), (''PEB_ADC_P1V8_NACDELAY'', 0x2A),
      (''PEB_ADC_P1V2_VDDQ'', 0x2B), (''PEB_ADC_PVNN_NAC'', 0x2C), (''PEB_P1V05_NAC'', 0x2D),
      (''PEB_ADC_PVPP'', 0x2E), (''PEB_ADC_PVTT'', 0x2F)]"

definition temperature_sensor_name :: "(string \<times> u8) list" where
  "temperature_sensor_name =
     [(''REAR_RIGHT_TEMP'', 0x30), (''CPU_AMBIENT_TEMP'', 0x31), (''FRONT_RIGHT_TEMP'', 0x32),
      (''PCIE_AMBIENT_TEMP'', 0x33), (''FRONT_LEFT_TEMP'', 0x34), (''CPU0_TEMP'', 0x01),
      (''CPU1_TEMP'', 0x02), (''CPU0_CH0_DIMM0_T'', 0x03), (''CPU0_CH0_DIMM1_T'', 0x04),
      (''CPU0_CH0_DIMM2_T'', 0x05), (''CPU0_CH1_DIMM0_T'', 0x06), (''CPU0_CH1_DIMM1_T'', 0x07),
      (''CPU0_CH1_DIMM2_T'', 0x08), (''CPU0_CH2_DIMM0_T'', 0x09), (''CPU0_CH2_DIMM1_T'', 0x0A),
      (''CPU0_CH2_DIMM2_T'', 0x0B), (''CPU0_CH3_DIMM0_T'', 0x0C), (''CPU0_CH3_DIMM1_T'', 0x0D),
      (''CPU0_CH3_DIMM2_T'', 0x0E), (''CPU1_CH0_DIMM0_T'', 0x0F), (''CPU1_CH0_DIMM1_T'', 0x10),
      (''CPU1_CH0_DIMM2_T'', 0x11), (''CPU1_CH1_DIMM0_T'', 0x12), (''CPU1_CH1_DIMM1_T'', 0x13),
      (''CPU1_CH1_DIMM2_T'', 0x14), (''CPU1_CH2_DIMM0_T'', 0x15), (''CPU1_CH2_DIMM1_T'', 0x16),
      (''CPU1_CH2_DIMM2_T'', 0x17), (''CPU1_CH3_DIMM0_T'', 0x18), (''CPU1_CH3_DIMM1_T'', 0x19),
      (''CPU1_CH3_DIMM2_T'', 0x1A)]"

definition current_sensor_name :: "(string \<times> u8) list" where
  "current_sensor_name = []"

definition fan_sensor_name :: "(string \<times> u8) list" where
  "fan_sensor_name = [(''SYSTEM_FAN1'', 0xA0), (''SYSTEM_FAN2'', 0xA1), (''SYSTEM_FAN3'', 0xA2),
     (''SYSTEM_FAN4'', 0xA3), (''SYSTEM_FAN5'', 0xA4)]"

text \<open>The arrays have 128 places; the places after the last name are zero.\<close>

definition mask_at :: "(string \<times> u8) list \<Rightarrow> nat \<Rightarrow> u8" where
  "mask_at tbl j = (if j < length tbl then snd (tbl ! j) else 0)"

fun find_msg_str :: "(string \<times> u8) list \<Rightarrow> u8 \<Rightarrow> nat option" where
  "find_msg_str [] num = None"
| "find_msg_str ((desc, m) # tbl) num =
     (if m = num then Some 0 else map_option Suc (find_msg_str tbl num))"

definition find_sensor_name :: "u8 \<Rightarrow> u8 \<Rightarrow> string option" where
  "find_sensor_name sType sNum =
     (let name = (\<lambda>tbl. map_option (\<lambda>i. fst (tbl ! i)) (find_msg_str tbl sNum)) in
      if sType = 0x01 then name temperature_sensor_name
      else if sType = 0x02 then name voltage_sensor_name
      else if sType = 0x03 then name current_sensor_name
      else if sType = 0x04 then name fan_sensor_name
      else None)"

text \<open>The text of an alert, when the function reports success.\<close>

definition get_pef_alert_msg :: "u8 \<Rightarrow> u8 \<Rightarrow> u8 \<Rightarrow> string option" where
  "get_pef_alert_msg sType sNum severity =
     (case find_sensor_name sType sNum of
        None \<Rightarrow> None
      | Some name \<Rightarrow>
          (case find_msg_str severity_name severity of
             None \<Rightarrow> None
           | Some i \<Rightarrow> Some (name @ '' : '' @ fst (severity_name ! i))))"

section \<open>Looking a filter up\<close>

text \<open>The loop of \<open>check_pef_table_sensor\<close> from filter \<open>i\<close> on; there is no filter 127.\<close>

function eft_scan :: "u8 list list \<Rightarrow> u8 \<Rightarrow> u8 \<Rightarrow> u8 \<Rightarrow> nat \<Rightarrow> nat \<Rightarrow> u8 cres" where
  "eft_scan g sType sNum severity i num =
     (if num < i then Ret 0xFF
      else if EVENT_FILTER_TABLE_ELEMS_MAX \<le> i then Ub
      else if eft_sensor_type (g ! i) = sType \<and> eft_sensor_number (g ! i) = sNum
              \<and> eft_severity (g ! i) = severity
      then Ret (eft_policy_number (g ! i))
      else eft_scan g sType sNum severity (Suc i) num)"
  by pat_completeness auto
termination by (relation "measure (\<lambda>(g, t, n, v, i, num). Suc num - i)") auto

declare eft_scan.simps [simp del]

definition check_pef_table_sensor :: "u8 \<Rightarrow> u8 \<Rightarrow> u8 \<Rightarrow> pef \<Rightarrow> u8 cres" where
  "check_pef_table_sensor sType sNum severity s =
     (case get_eft_entry_num_from_file s of
        Ret num \<Rightarrow> eft_scan (ef_data s) sType sNum severity 1 (unat num)
      | _ \<Rightarrow> Ret 0xFF)"

section \<open>Start-up of the filters\<close>

text \<open>
  The four filters every start writes. Their initialisers list 20 bytes from the configuration on,
  one member too early; since \<open>set_eft_entry\<close> also takes the first byte as the configuration, the
  filters come out as intended.
\<close>

definition pef_init_table :: "u8 list list" where
  "pef_init_table =
     [[0x80, 0x02, 0x00, 0x01, 0x02, 0x00, 0x08, 0x24, 0xFF] @ replicate 11 0,
      [0x7F, 0x04, 0x00, 0x02, 0x02, 0x00, 0x09, 0xA0, 0x6F] @ replicate 11 0,
      [0x7F, 0x01, 0x00, 0x08, 0x02, 0x00, 0x0C, 0x01, 0x6F] @ replicate 11 0,
      [0x7F, 0x0C, 0x00, 0x04, 0x02, 0x00, 0x04, 0xA1, 0x01] @ replicate 11 0]"

text \<open>
  The filters written when there is no file, one per sensor. Only the members named here are
  assigned, the others (\<open>junk\<close>) are what the stack holds; here the copy does start at \<open>data1\<close>.
\<close>

definition default_entry :: "(nat \<Rightarrow> u8) \<Rightarrow> u8 \<Rightarrow> u8 \<Rightarrow> u8 list" where
  "default_entry junk sType sNum =
     [junk 0, 0x80, 0x00, 0x01, 0x10, junk 1, junk 2, sType, sNum, 0xFF] @ map junk [3..<14]"

definition default_sensors :: "(u8 \<times> u8) list" where
  "default_sensors = map (\<lambda>j. (0x02, mask_at voltage_sensor_name j)) [0..<15]
     @ map (\<lambda>j. (0x01, mask_at temperature_sensor_name j)) [0..<38]
     @ map (\<lambda>j. (0x03, mask_at current_sensor_name j)) [0..<2]
     @ map (\<lambda>j. (0x04, mask_at fan_sensor_name j)) [0..<17]"

definition set_eft_entries :: "nat \<Rightarrow> u8 list list \<Rightarrow> pef \<Rightarrow> pef" where
  "set_eft_entries i es s =
     fold (\<lambda>(k, e) s. snd (set_eft_entry (of_nat k) (Buffer e) s)) (enumerate i es) s"

definition install_defaults :: "(nat \<Rightarrow> nat \<Rightarrow> u8) \<Rightarrow> pef \<Rightarrow> pef" where
  "install_defaults junk s =
     set_eft_entries 1
       (map (\<lambda>(j, t, n). default_entry (junk j) t n) (enumerate 0 default_sensors))
       (snd (set_pef_act_glb_ctrl 0x0F (snd (set_pef_ctrl 0x09 s))))"

text \<open>The loop that reads the filters back: \<open>g_eft_data\<close> has no place 127.\<close>

definition load_eft :: "nat \<Rightarrow> pef \<Rightarrow> pef option" where
  "load_eft i s =
     (if EVENT_FILTER_TABLE_ELEMS_MAX \<le> i then None
      else case get_eft_entry (of_nat i) s of
        ((rc, bs), s1) \<Rightarrow> Some (set_eft i (write_at 0 bs (ef_data s1 ! i)) s1))"

fun load_efts :: "nat list \<Rightarrow> pef \<Rightarrow> pef option" where
  "load_efts [] s = Some s"
| "load_efts (i # is) s = (case load_eft i s of None \<Rightarrow> None | Some s1 \<Rightarrow> load_efts is s1)"

definition set_eft_init :: "(nat \<Rightarrow> nat \<Rightarrow> u8) \<Rightarrow> pef \<Rightarrow> unit cres \<times> pef" where
  "set_eft_init junk s =
     (let s1 = set_eft_entries 1 pef_init_table s in
      if ef_file s1 = None then (Ret (), install_defaults junk s1)
      else (case get_eft_entry_num_from_file s1 of
              Ret num \<Rightarrow> (case load_efts [1..<Suc (unat num)] s1 of
                            None \<Rightarrow> (Ub, s1) | Some s2 \<Rightarrow> (Ret (), s2))
            | _ \<Rightarrow> (Fail (-1), s1)))"

section \<open>Alert policies\<close>

definition policy_bytes :: "pef_policy \<Rightarrow> u8 list" where
  "policy_bytes p = [pp_data1 p, pp_policy p, pp_chan_dest p, pp_alert_key p]"

definition policy_of_bytes :: "u8 list \<Rightarrow> pef_policy" where
  "policy_of_bytes b = \<lparr>pp_data1 = byte_at b 0, pp_policy = byte_at b 1,
     pp_chan_dest = byte_at b 2, pp_alert_key = byte_at b 3\<rparr>"

text \<open>Without a file that can be opened, \<open>fwrite\<close> is called with a null stream.\<close>

definition save_policy_table :: "pef \<Rightarrow> pef option" where
  "save_policy_table s =
     (if pt_writable s then Some (s\<lparr>pt_file := Some (concat (map policy_bytes (pt_table s)))\<rparr>)
      else None)"

definition set_policy_entry :: "nat \<Rightarrow> (pef_policy \<Rightarrow> pef_policy) \<Rightarrow> pef \<Rightarrow> pef option" where
  "set_policy_entry i f s =
     (if TBLSIZE \<le> i then None
      else save_policy_table (s\<lparr>pt_table := (pt_table s)[i := f (pt_table s ! i)]\<rparr>))"

text \<open>\<open>i - 1\<close> in \<open>int\<close>: entry 0 is in front of the table.\<close>

definition set_policy_ipmi :: "u8 \<Rightarrow> u8 \<Rightarrow> pef \<Rightarrow> pef option" where
  "set_policy_ipmi i policy s =
     (if i = 0 then None else set_policy_entry (unat i - 1) (\<lambda>p. p\<lparr>pp_policy := policy\<rparr>) s)"

text \<open>Apart from the refusal, the function ends without a \<open>return\<close>; no caller uses the value.\<close>

definition set_policy :: "u8 \<Rightarrow> u8 \<Rightarrow> u8 \<Rightarrow> u8 \<Rightarrow> pef \<Rightarrow> (int option \<times> pef) option" where
  "set_policy index policy_set rule alert_num s =
     (if index = 0 then None
      else if TBLSIZE < unat index then Some (Some (-1), s)
      else map_option (\<lambda>s. (None, s)) (set_policy_entry (unat index - 1)
        (\<lambda>p. \<lparr>pp_data1 = index, pp_policy = 0x10 * policy_set, pp_chan_dest = 0x10 + alert_num,
              pp_alert_key = 0\<rparr>) s))"

definition delete_policy_entry :: "u8 \<Rightarrow> pef \<Rightarrow> pef option" where
  "delete_policy_entry i s = set_policy_entry (unat (i - 1))
     (\<lambda>p. p\<lparr>pp_policy := 0, pp_chan_dest := 0, pp_alert_key := 0\<rparr>) s"

definition parse_policy_set :: "u8 \<Rightarrow> u8" where
  "parse_policy_set policy = (if policy = 0 then 0 else policy div 0x10)"

definition get_entry_by_policy_set :: "u8 \<Rightarrow> pef \<Rightarrow> pef_policy list" where
  "get_entry_by_policy_set policy_set s =
     filter (\<lambda>p. parse_policy_set (pp_policy p) \<noteq> 0 \<and> policy_set \<noteq> 0
                \<and> parse_policy_set (pp_policy p) = policy_set) (pt_table s)"

text \<open>The four read accessors subtract in a byte, so entry 0 is read at 255.\<close>

definition policy_member :: "(pef_policy \<Rightarrow> u8) \<Rightarrow> u8 \<Rightarrow> pef \<Rightarrow> u8 option" where
  "policy_member f i s =
     (if TBLSIZE \<le> unat (i - 1) then None else Some (f (pt_table s ! unat (i - 1))))"

definition get_data1 :: "u8 \<Rightarrow> pef \<Rightarrow> u8 option" where
  "get_data1 = policy_member pp_data1"

definition get_policy :: "u8 \<Rightarrow> pef \<Rightarrow> u8 option" where
  "get_policy = policy_member pp_policy"

definition get_chan_dest :: "u8 \<Rightarrow> pef \<Rightarrow> u8 option" where
  "get_chan_dest = policy_member pp_chan_dest"

definition get_alert_string_key :: "u8 \<Rightarrow> pef \<Rightarrow> u8 option" where
  "get_alert_string_key = policy_member pp_alert_key"

definition get_policy_table_size :: u8 where
  "get_policy_table_size = 8"

text \<open>A file that cannot be opened is a null stream for \<open>fread\<close>. The policy byte is cleared.\<close>

definition init_policy_table :: "pef \<Rightarrow> pef option" where
  "init_policy_table s =
     (if \<not> pt_writable s then None
      else let f = (case pt_file s of None \<Rightarrow> [] | Some f \<Rightarrow> f);
               entry = (\<lambda>i. policy_of_bytes (drop (4 * i) (take 32 f)))
           in Some (s\<lparr>pt_file := Some f,
                pt_table := map (\<lambda>i. (entry i)\<lparr>pp_policy := 0, pp_data1 := of_nat (i + 1)\<rparr>)
                  [0..<TBLSIZE]\<rparr>))"

end
