(* ===== verification/Pef_Commands.thy ===== *)
theory Pef_Commands
  imports Pef_Policy Sel_Log
begin

text \<open>
  The PEF commands of libs/sel/efte.cpp and the listing \<open>rest_get_pef_config\<close> of the filters for
  the web interface, which formats into a buffer of 32 characters.
\<close>

section \<open>Commands\<close>

text \<open>The response data from byte 1 on, for the parameters that store through \<open>data\<close> after the
  version byte, and the length reported for them.\<close>

definition pef_reply :: "u8 list \<Rightarrow> u8 \<Rightarrow> ipmi_res \<Rightarrow> ipmi_res" where
  "pef_reply bs n r = set_len n (set_cc CC_SUCCESS (put bs r))"

definition pef_get_config_param :: "pef handler" where
  "pef_get_config_param s q r0 =
     (let id = req_byte q 0; set = req_byte q 1; r = set_cc CC_INVALID_PARAM r0;
          ctrl = (\<lambda>get. case get s of
            (Ret x, s1) \<Rightarrow> Some (s1, pef_reply [0x11, x] 3 r)
          | (Fail _, s1) \<Rightarrow> Some (s1, set_cc CC_UNSPECIFIED_ERROR (put [0x11] r))
          | (Ub, s1) \<Rightarrow> None) in
      if id = 1 then ctrl get_pef_ctrl
      else if id = 2 then ctrl get_pef_act_glb_ctrl
      else if id = 5 then
        (case get_pef_supported_number of
           Ret x \<Rightarrow> Some (s, pef_reply [0x11, x] 2 r)
         | _ \<Rightarrow> Some (s, set_cc CC_UNSPECIFIED_ERROR (put [0x11] r)))
      else if id = 6 then
        (case get_eft_entry set s of
           ((rc, bs), s1) \<Rightarrow>
             Some (s1, if rc < 0 then set_cc CC_UNSPECIFIED_ERROR (put (0x11 # bs) r)
                       else pef_reply (0x11 # bs) 22 r))
      else if id = 8 then Some (s, pef_reply [0x11, get_policy_table_size] 2 r)
      else if id = 9 then
        (case (get_data1 set s, get_policy set s, get_chan_dest set s, get_alert_string_key set s) of
           (Some a, Some b, Some c, Some d) \<Rightarrow> Some (s, pef_reply [0x11, a, b, c, d] 5 r)
         | _ \<Rightarrow> None)
      else if id = 10 then
        Some (s, pef_reply [0x1, 0x2, 0x3, 0x4, 0x5, 0x6, 0x7, 0x8, 0x9, 0xA, 0xB, 0xC, 0xD, 0xE, 0xF] 15 r)
      else Some (s, r))"

text \<open>The completion code of a set request, given the result of the function it calls.\<close>

definition pef_set_result :: "int \<times> pef \<Rightarrow> ipmi_res \<Rightarrow> (pef \<times> ipmi_res) option" where
  "pef_set_result x r = (case x of (rc, s) \<Rightarrow>
     Some (s, set_cc (if rc < 0 then CC_UNSPECIFIED_ERROR else CC_SUCCESS) r))"

definition pef_set_config_param :: "pef handler" where
  "pef_set_config_param s q r =
     (let param = req_byte q 0; id = req_byte q 1 in
      if param = 1 then pef_set_result (set_pef_ctrl (req_byte q 1) s) r
      else if param = 2 then pef_set_result (set_pef_act_glb_ctrl (req_byte q 1) s) r
      else if param = 6 then pef_set_result (set_eft_entry id (Buffer (bytes_at (q_data q) 2 20)) s) r
      else if param = 7 then
        (case set_pef_enable id (req_byte q 2) s of None \<Rightarrow> None | Some x \<Rightarrow> pef_set_result x r)
      else if param = 9 then
        map_option (\<lambda>s. (s, set_cc CC_SUCCESS r)) (set_policy_ipmi id (req_byte q 2) s)
      else if param = 8 \<or> param = 10 then Some (s, set_cc CC_SUCCESS r)
      else Some (s, set_cc CC_INVALID_PARAM r))"

definition pef_capabilities_info :: "pef handler" where
  "pef_capabilities_info s q r =
     (case get_eft_entry_num s of
        (Ret n, s1) \<Rightarrow> Some (s1, reply CC_SUCCESS [0x51, 0x0F, n] r)
      | (Fail _, s1) \<Rightarrow> Some (s1, set_cc CC_UNSPECIFIED_ERROR r)
      | (Ub, s1) \<Rightarrow> None)"

definition pef_get_status :: "sel handler" where
  "pef_get_status s q r =
     Some (s, reply CC_SUCCESS (take 4 (h_ts_add (s_hdr s)) @ plat_sel_last_rsv_id s
                @ [0xFF, 0xFF, 0xFF, 0xFF]) r)"

section \<open>The listing for the web interface\<close>

definition hex_char :: "nat \<Rightarrow> char" where
  "hex_char n = (if n < 10 then char_of (48 + n) else char_of (87 + n))"

text \<open>\<open>%x\<close> and \<open>%d\<close> of a byte.\<close>

definition show_hex :: "u8 \<Rightarrow> string" where
  "show_hex b = (let n = unat b in
     if n < 16 then [hex_char n] else [hex_char (n div 16), hex_char (n mod 16)])"

definition show_dec :: "nat \<Rightarrow> string" where
  "show_dec n =
     (if n < 10 then [hex_char n]
      else if n < 100 then [hex_char (n div 10), hex_char (n mod 10)]
      else [hex_char (n div 100), hex_char (n div 10 mod 10), hex_char (n mod 10)])"

text \<open>\<open>nl\<close> and \<open>dq\<close>: the line feed and the double quote. \<open>quoted s\<close> is \<open>s\<close> between double quotes.\<close>

abbreviation (input) nl :: string where "nl \<equiv> [CHR 0x0A]"
abbreviation (input) dq :: string where "dq \<equiv> [CHR 0x22]"
definition quoted :: "string \<Rightarrow> string" where "quoted s = dq @ s @ dq"

definition severity_text :: "u8 \<Rightarrow> string" where
  "severity_text v =
     (if v = 0x20 then ''non recoverable'' else if v = 0x10 then ''critical''
      else if v = 0x08 then ''warning'' else if v = 0x04 then ''ok''
      else if v = 0x02 then ''information'' else if v = 0x01 then ''monitor'' else ''unkown'')"

definition configured_text :: "u8 \<Rightarrow> string" where
  "configured_text c = (let m = c AND 0x60 in
     if m = 0x40 then ''pre-configured'' else if m = 0x00 then ''configurable'' else ''reserved'')"

text \<open>The strings formatted for one filter, in order; each goes through \<open>buf\<close>.\<close>

definition pef_entry_lines :: "nat \<Rightarrow> nat \<Rightarrow> u8 list \<Rightarrow> string list" where
  "pef_entry_lines entrynum i e =
     [''       {'' @ nl,
      ''          '' @ quoted ''INDEX'' @ '': '' @ quoted (show_dec i) @ '','' @ nl,
      ''          '' @ quoted ''ENABLED'' @ '': '',
      (if eft_config e AND 0x80 \<noteq> 0 then quoted ''enabled'' else quoted ''disabled'') @ '','' @ nl,
      ''          '' @ quoted ''CONFIGURED'' @ '': '',
      quoted (configured_text (eft_config e))]
     @ (if eft_config e AND 0x80 \<noteq> 0
        then ['','' @ nl,
          ''          '' @ quoted ''SEVERITY'' @ '': '',
          quoted (severity_text (eft_severity e)) @ '','' @ nl,
          ''         '' @ quoted ''SENSOR_TYPE'' @ '': '' @ quoted (show_hex (eft_sensor_type e)) @ '','' @ nl,
          ''         '' @ quoted ''SENSOR_NUMBER'' @ '': '' @ quoted (show_hex (eft_sensor_number e)) @ '','' @ nl,
          ''         '' @ quoted ''ACTION'' @ '': '' @ quoted (show_hex (eft_action e)) @ '','' @ nl,
          ''         '' @ quoted ''POLICY_NUM'' @ '': '' @ quoted (show_hex (eft_policy_number e)) @ nl]
        else [nl])
     @ [if i = entrynum then ''       }'' @ nl else ''       },'' @ nl]"

text \<open>\<open>sprintf(buf, ..)\<close> into 32 characters, with the terminating zero, then \<open>strcat(res, buf)\<close>.\<close>

fun sprintf_all :: "string list \<Rightarrow> string option" where
  "sprintf_all [] = Some []"
| "sprintf_all (l # ls) =
     (if 32 \<le> length l then None else map_option (\<lambda>t. l @ t) (sprintf_all ls))"

text \<open>The local variable \<open>eft\<close> keeps what the previous reading left in it, and starts
  uninitialised (\<open>e\<close>).\<close>

fun pef_list :: "nat \<Rightarrow> nat list \<Rightarrow> u8 list \<Rightarrow> pef \<Rightarrow> string list \<times> pef" where
  "pef_list entrynum [] e s = ([], s)"
| "pef_list entrynum (i # is) e s =
     (case get_eft_entry (of_nat i) s of ((rc, bs), s1) \<Rightarrow>
        let e1 = write_at 0 bs e in
        case pef_list entrynum is e1 s1 of
          (ls, s2) \<Rightarrow> (pef_entry_lines entrynum i e1 @ ls, s2))"

definition rest_get_pef_config :: "u8 list \<Rightarrow> pef \<Rightarrow> string option \<times> pef" where
  "rest_get_pef_config junk s =
     (case get_eft_entry_num s of (num, s1) \<Rightarrow>
        let entrynum = (case num of Ret n \<Rightarrow> unat n | _ \<Rightarrow> 0) in
        case pef_list entrynum [1..<Suc entrynum] junk s1 of
          (ls, s2) \<Rightarrow>
            (sprintf_all ([''{'' @ nl @ ''{'' @ nl @ ''{'' @ nl, ''   '' @ quoted ''PEF'' @ '': ['' @ nl]
               @ ls @ [''   ]'' @ nl, ''}'' @ nl]), s2))"

end
