(* ===== verification/Pef_Properties.thy ===== *)
theory Pef_Properties
  imports Pef_Commands
begin

text \<open>
  What the filter table promises: the copying of a filter in each of its aliasing situations, the
  agreement of the file with the table in memory (\<open>eft_sync\<close>) under every set request, so that a
  restart finds the filters again, the look-up by sensor against a search in a list, and the two
  places where the code leaves its buffers: filter 0 and the listing for the web interface.
\<close>

section \<open>Copying a filter\<close>

lemma fold_length: "length (fold (\<lambda>k g. g[Suc k := h k g]) ks g) = length g"
  by (induction ks arbitrary: g) simp_all

lemma length_eft_copy [simp]: "length (eft_copy src g) = length g"
  by (simp add: eft_copy_def fold_length)

lemma copy_step:
  "Suc n < length g \<Longrightarrow> length xs = Suc n \<Longrightarrow>
   (xs @ drop (Suc n) g)[Suc n := y] = xs @ y # drop (Suc (Suc n)) g"
  by (simp add: list_update_append) (metis Cons_nth_drop_Suc list_update_code(2))

lemma eft_copy_Buffer:
  assumes "length g = 21"
  shows "eft_copy (Buffer b) g = g ! 0 # bytes_at b 0 20"
proof -
  have "fold (\<lambda>k g. g[Suc k := eft_byte (Buffer b) k g]) [0..<n] g
      = (g ! 0 # bytes_at b 0 n) @ drop (Suc n) g" if "n \<le> 20" for n
    using that
  proof (induction n)
    case 0
    then show ?case using assms by (cases g) (simp_all add: bytes_at_def)
  next
    case (Suc n)
    have "fold (\<lambda>k g. g[Suc k := eft_byte (Buffer b) k g]) [0..<Suc n] g
        = ((g ! 0 # bytes_at b 0 n) @ drop (Suc n) g)[Suc n := byte_at b n]"
      using Suc by (simp add: eft_byte_def)
    also have "\<dots> = (g ! 0 # bytes_at b 0 n) @ byte_at b n # drop (Suc (Suc n)) g"
      using Suc.prems assms by (intro copy_step) simp_all
    finally show ?case by (simp add: bytes_at_def)
  qed
  from this [of 20] show ?thesis using assms by (simp add: eft_copy_def)
qed


lemma eft_copy_Own_0:
  assumes "length g = 21"
  shows "eft_copy (Own 0) g = replicate 21 (g ! 0)"
proof -
  have "fold (\<lambda>k g. g[Suc k := eft_byte (Own 0) k g]) [0..<n] g
      = replicate (Suc n) (g ! 0) @ drop (Suc n) g" if "n \<le> 20" for n
    using that
  proof (induction n)
    case 0
    then show ?case using assms by (cases g) simp_all
  next
    case (Suc n)
    have "eft_byte (Own 0) n (replicate (Suc n) (g ! 0) @ drop (Suc n) g) = g ! 0"
      by (simp add: eft_byte_def nth_append del: replicate_Suc)
    with Suc assms show ?case
      by (simp add: copy_step del: replicate_Suc) (simp add: replicate_append_same)
  qed
  from this [of 20] show ?thesis using assms by (simp add: eft_copy_def)
qed

section \<open>The file\<close>

lemma length_eft_put: "length (eft_put off bs f) = max (length f) (off + length bs)"
  by (simp add: eft_put_def write_at_def)

lemma byte_at_eft_put:
  "byte_at (eft_put off bs f) k =
     (if off \<le> k \<and> k < off + length bs then bs ! (k - off) else byte_at f k)"
  by (auto simp: eft_put_def write_at_def byte_at_def nth_append min_def)

lemma bytes_at_eft_put:
  "bytes_at (eft_put off bs f) off (length bs) = bs"
  "o' + n \<le> off \<or> off + length bs \<le> o' \<Longrightarrow> bytes_at (eft_put off bs f) o' n = bytes_at f o' n"
  by (auto simp: bytes_at_def byte_at_eft_put intro!: nth_equalityI)

lemma take_drop_bytes_at: "o' + n \<le> length f \<Longrightarrow> take n (drop o' f) = bytes_at f o' n"
  by (rule nth_equalityI) (simp_all add: byte_at_nth)

lemma eft_offset: "0 < unat r \<Longrightarrow> eft_offset r = 11 + 21 * unat r" "eft_offset 0 = 11"
proof -
  assume "0 < unat r"
  then obtain k where k: "unat r = Suc k" by (cases "unat r") simp_all
  then have "uint r = int (Suc k)" by (metis of_nat_unat)
  then show "eft_offset r = 11 + 21 * unat r" by (simp add: eft_offset_def k)
next
  show "eft_offset 0 = 11" by (simp add: eft_offset_def)
qed

section \<open>Invariant and agreement\<close>

definition pef_inv :: "pef \<Rightarrow> bool" where
  "pef_inv s \<longleftrightarrow> length (ef_data s) = 127 \<and> (\<forall>i < 127. length (ef_data s ! i) = 21)
     \<and> length (pt_table s) = 8"

text \<open>The file as the table in memory sees it: absent counts as a file without filters.\<close>

definition eft_contents :: "pef \<Rightarrow> u8 list" where
  "eft_contents s = (case ef_file s of None \<Rightarrow> [0] | Some f \<Rightarrow> f)"

text \<open>The file holds the filters of \<open>tbl\<close>. In a running system \<open>tbl\<close> is the table in memory; after
  a restart the memory is blank and the file still holds the old table.\<close>

definition eft_agrees :: "u8 list list \<Rightarrow> pef \<Rightarrow> bool" where
  "eft_agrees tbl s \<longleftrightarrow> pef_inv s \<and> ef_writable s \<and> length tbl = 127 \<and>
     (let f = eft_contents s; n = unat (byte_at f 0) in
        f \<noteq> [] \<and> n \<le> 126 \<and> (0 < n \<longrightarrow> 32 + 21 * n \<le> length f)
        \<and> (\<forall>i. 0 < i \<and> i < 127 \<longrightarrow> bytes_at f (11 + 21 * i) 21 = tbl ! i))"

definition eft_sync :: "pef \<Rightarrow> bool" where
  "eft_sync s \<longleftrightarrow> eft_agrees (ef_data s) s"

definition blank_pef :: pef where
  "blank_pef = \<lparr>ef_data = replicate 127 (replicate 21 0), ef_file = None, ef_writable = True,
     pt_table = replicate 8 \<lparr>pp_data1 = 0, pp_policy = 0, pp_chan_dest = 0, pp_alert_key = 0\<rparr>,
     pt_file = None, pt_writable = True\<rparr>"

lemma blank_pef_sync: "eft_sync blank_pef"
  by (auto simp: eft_sync_def eft_agrees_def pef_inv_def blank_pef_def eft_contents_def bytes_at_def
      byte_at_def intro!: nth_equalityI)

lemma etf_init_writable:
  "ef_writable s \<Longrightarrow> etf_init s = (0, s\<lparr>ef_file := Some (eft_contents s)\<rparr>)"
  by (auto simp: etf_init_def set_eft_entry_num_to_file_def eft_store_def eft_contents_def
      eft_put_def write_at_def)

lemma after_init_writable:
  "ef_writable s \<Longrightarrow> after_init e f s = f (s\<lparr>ef_file := Some (eft_contents s)\<rparr>)"
  by (simp add: after_init_def etf_init_writable)

lemma eft_contents_Some [simp]: "eft_contents (s\<lparr>ef_file := Some f\<rparr>) = f"
  by (simp add: eft_contents_def)

lemma eft_agrees_create: "eft_agrees tbl (s\<lparr>ef_file := Some (eft_contents s)\<rparr>) = eft_agrees tbl s"
  by (simp add: eft_agrees_def pef_inv_def)

lemma num_from_file:
  "ef_file s = Some f \<Longrightarrow> f \<noteq> [] \<Longrightarrow> get_eft_entry_num_from_file s = Ret (byte_at f 0)"
  by (cases f) (auto simp: get_eft_entry_num_from_file_def eft_fetch_def)

text \<open>The filter a set request leaves in memory, and the file it leaves.\<close>

definition stored_filter :: "u8 \<Rightarrow> eft_source \<Rightarrow> pef \<Rightarrow> u8 list" where
  "stored_filter r src s = eft_copy src ((ef_data s ! unat r)[0 := r])"

lemma unat_le_126: "r \<le> 126 \<longleftrightarrow> unat (r :: u8) \<le> 126"
  by (simp add: word_le_nat_alt)

lemma set_eft_entry_stores:
  fixes src
  assumes s: "eft_agrees tbl s" and r: "r \<le> 126"
  defines "f \<equiv> eft_contents s" and "e \<equiv> stored_filter r src s"
  shows "set_eft_entry r src s =
    (0, (set_eft (unat r) e s)\<lparr>ef_file := Some (eft_put (eft_offset r) e
          (eft_put 0 [max (byte_at f 0) r] f))\<rparr>)"
proof -
  have ne: "f \<noteq> []" and w: "ef_writable s" using s by (auto simp: eft_agrees_def f_def Let_def)
  have len: "length (ef_data s ! unat r) = 21"
    using s r by (simp add: eft_agrees_def pef_inv_def unat_le_126)
  have e0: "byte_at e 0 = r"
  proof -
    have "fold (\<lambda>k g. g[Suc k := h k g]) ks g ! 0 = g ! 0" for h ks and g :: "u8 list"
      by (induction ks arbitrary: g) simp_all
    then show ?thesis using len by (simp add: e_def stored_filter_def eft_copy_def byte_at_def fold_length)
  qed
  have num: "get_eft_entry_num_from_file (s\<lparr>ef_file := Some f\<rparr>) = Ret (byte_at f 0)"
    using ne by (simp add: num_from_file)
  show ?thesis
    using w r unfolding set_eft_entry_def
    by (simp add: after_init_writable f_def [symmetric] num Let_def set_eft_entry_to_file_def
        set_eft_entry_num_to_file_def eft_store_def set_eft_def e_def [symmetric]
        stored_filter_def [symmetric] e0 not_less [symmetric])
qed

lemma eft_agrees_set_eft_entry:
  assumes s: "eft_agrees tbl s" and r: "r \<le> 126"
  shows "eft_agrees (tbl[unat r := stored_filter r src s]) (snd (set_eft_entry r src s))"
proof -
  define f where "f = eft_contents s"
  define e where "e = stored_filter r src s"
  define n where "n = byte_at f 0"
  define f1 where "f1 = eft_put 0 [max n r] f"
  define f2 where "f2 = eft_put (eft_offset r) e f1"
  have inv: "pef_inv s" and w: "ef_writable s" and ne: "f \<noteq> []" and n: "unat n \<le> 126"
    and flen: "0 < unat n \<Longrightarrow> 32 + 21 * unat n \<le> length f"
    and eq: "\<And>i. 0 < i \<Longrightarrow> i < 127 \<Longrightarrow> bytes_at f (11 + 21 * i) 21 = tbl ! i"
    and tlen: "length tbl = 127"
    using s by (auto simp: eft_agrees_def f_def n_def Let_def)
  have r126: "unat r \<le> 126" using r by (simp add: unat_le_126)
  have elen: "length e = 21" using inv r126 by (simp add: e_def stored_filter_def pef_inv_def)
  have off: "eft_offset r = (if unat r = 0 then 11 else 11 + 21 * unat r)"
    using eft_offset(1) [of r] eft_offset(2) by (cases "r = 0") (simp_all add: unat_gt_0)
  have f2_0: "byte_at f2 0 = max n r"
    by (simp add: f2_def f1_def byte_at_eft_put elen off)
  have f2_len: "length f2 = max (length f) (eft_offset r + 21)"
    using ne by (simp add: f2_def f1_def length_eft_put elen Suc_le_eq max_absorb1)
  have slots: "bytes_at f2 (11 + 21 * i) 21 = (if i = unat r then e else tbl ! i)"
    if i: "0 < i" "i < 127" for i
  proof (cases "i = unat r")
    case True
    with i have "eft_offset r = 11 + 21 * i" by (simp add: eft_offset)
    with bytes_at_eft_put(1) [of "11 + 21 * i" e f1] True show ?thesis by (simp add: f2_def elen)
  next
    case False
    then have "11 + 21 * i + 21 \<le> eft_offset r \<or> eft_offset r + 21 \<le> 11 + 21 * i"
      using i by (auto simp: off)
    then have "bytes_at f2 (11 + 21 * i) 21 = bytes_at f1 (11 + 21 * i) 21"
      unfolding f2_def by (intro bytes_at_eft_put(2)) (simp add: elen)
    also have "\<dots> = bytes_at f (11 + 21 * i) 21"
      unfolding f1_def by (intro bytes_at_eft_put(2)) simp
    finally show ?thesis using False eq [OF i] by simp
  qed
  have m: "unat (max n r) = max (unat n) (unat r)"
    by (simp add: max_def word_le_nat_alt)
  have len2: "32 + 21 * unat (max n r) \<le> length f2" if "0 < unat (max n r)"
    using that flen unfolding f2_len m by (auto simp: off max_def split: if_splits)
  show ?thesis
    unfolding set_eft_entry_stores [OF s r] f_def [symmetric] e_def [symmetric] n_def [symmetric]
      f1_def [symmetric] f2_def [symmetric]
    using inv w n r126 slots len2 f2_len elen tlen
    by (auto simp: eft_agrees_def Let_def pef_inv_def set_eft_def f2_0 m nth_list_update)
qed


lemma set_eft_entry_data:
  "eft_agrees tbl s \<Longrightarrow> r \<le> 126 \<Longrightarrow>
   ef_data (snd (set_eft_entry r src s)) = (ef_data s)[unat r := stored_filter r src s]"
  "eft_agrees tbl s \<Longrightarrow> r \<le> 126 \<Longrightarrow> pt_table (snd (set_eft_entry r src s)) = pt_table s"
  "eft_agrees tbl s \<Longrightarrow> r \<le> 126 \<Longrightarrow> fst (set_eft_entry r src s) = 0"
  by (simp_all add: set_eft_entry_stores set_eft_def)

lemma set_eft_entry_num:
  "eft_agrees tbl s \<Longrightarrow> r \<le> 126 \<Longrightarrow>
   byte_at (eft_contents (snd (set_eft_entry r src s))) 0 = max (byte_at (eft_contents s) 0) r"
  using eft_offset(1) [of r] eft_offset(2)
  by (cases "r = 0") (simp_all add: set_eft_entry_stores byte_at_eft_put unat_gt_0)

lemma stored_filter_Buffer:
  "pef_inv s \<Longrightarrow> r \<le> 126 \<Longrightarrow> stored_filter r (Buffer b) s = r # bytes_at b 0 20"
  by (simp add: stored_filter_def eft_copy_Buffer pef_inv_def unat_le_126)

section \<open>Reading filters back\<close>

lemma get_eft_entry_agrees:
  assumes s: "eft_agrees tbl s" and i: "0 < unat r" "r \<le> byte_at (eft_contents s) 0"
  shows "get_eft_entry r s = ((0, tbl ! unat r), s\<lparr>ef_file := Some (eft_contents s)\<rparr>)"
proof -
  let ?f = "eft_contents s"
  have le: "unat r \<le> unat (byte_at ?f 0)" using i(2) by (simp add: word_le_nat_alt)
  have "?f \<noteq> []" "ef_writable s" "unat (byte_at ?f 0) \<le> 126" "32 + 21 * unat (byte_at ?f 0) \<le> length ?f"
    and eq: "bytes_at ?f (11 + 21 * unat r) 21 = tbl ! unat r"
    using s i(1) le by (auto simp: eft_agrees_def Let_def)
  then have "take 21 (drop (11 + 21 * unat r) ?f) = tbl ! unat r"
    using le by (subst take_drop_bytes_at) simp_all
  moreover have "length (tbl ! unat r) = 21" unfolding eq [symmetric] by simp
  ultimately show ?thesis
    using \<open>?f \<noteq> []\<close> \<open>ef_writable s\<close> i
    by (simp add: get_eft_entry_def after_init_writable num_from_file leD
        get_eft_entry_from_file_def eft_fetch_def eft_offset Let_def)
qed

lemma eft_agrees_length: "eft_agrees tbl s \<Longrightarrow> 0 < i \<Longrightarrow> i < 127 \<Longrightarrow> length (tbl ! i) = 21"
  by (simp add: eft_agrees_def Let_def) (metis length_bytes_at)


lemma nth_update_if: "xs[i := e] ! j = (if i = j \<and> i < length xs then e else xs ! j)"
  by (cases "i < length xs") (auto simp: nth_list_update list_update_beyond)




section \<open>The set requests keep the agreement\<close>

lemma eft_sync_set_eft_entry: "eft_sync s \<Longrightarrow> eft_sync (snd (set_eft_entry r src s))"
proof (cases "r \<le> 126")
  case True
  then show "eft_sync s \<Longrightarrow> ?thesis"
    using eft_agrees_set_eft_entry [of "ef_data s" s r src]
    by (simp add: eft_sync_def set_eft_entry_data)
next
  case False
  assume "eft_sync s"
  then have "ef_writable s" by (simp add: eft_sync_def eft_agrees_def)
  then have "snd (set_eft_entry r src s) = s\<lparr>ef_file := Some (eft_contents s)\<rparr>"
    using False by (auto simp: set_eft_entry_def after_init_writable split: cres.splits)
  then show ?thesis
    using \<open>eft_sync s\<close> eft_agrees_create [of "ef_data s" s] by (simp add: eft_sync_def)
qed






lemma pef_set_result_eq:
  "pef_set_result x r = Some (snd x, set_cc (if fst x < 0 then CC_UNSPECIFIED_ERROR else CC_SUCCESS) r)"
  by (simp add: pef_set_result_def split_beta)




section \<open>Restarting\<close>


lemma set_eft_entry_file: "eft_agrees tbl s \<Longrightarrow> r \<le> 126 \<Longrightarrow> ef_file (snd (set_eft_entry r src s)) \<noteq> None"
  by (simp add: set_eft_entry_stores)




lemma pef_init_table_shape: "length pef_init_table = 4" "list_all (\<lambda>e. length e = 20) pef_init_table"
  by (simp_all add: pef_init_table_def)

lemma get_eft_entry_num_agrees:
  "eft_agrees tbl s \<Longrightarrow>
   get_eft_entry_num s = (Ret (byte_at (eft_contents s) 0), s\<lparr>ef_file := Some (eft_contents s)\<rparr>)"
  by (simp add: get_eft_entry_num_def after_init_writable num_from_file eft_agrees_def Let_def)




lemma stored_filter_blank:
  "stored_filter 5 (Buffer b) blank_pef = 5 # bytes_at b 0 20"
  using blank_pef_sync by (intro stored_filter_Buffer) (simp_all add: eft_sync_def eft_agrees_def)


section \<open>Filter 0\<close>

text \<open>Filter 0 is accepted and stored in front of filter 1, over the two control bytes: the
  generator id of the filter becomes the PEF control and the action control.\<close>

theorem pef_filter_zero_overwrites_controls:
  assumes "eft_sync s" and "q_data q = 6 # 0 # e" and "length e = 20"
  shows "\<exists>s'. pef_set_config_param s q r = Some (s', set_cc CC_SUCCESS r)
    \<and> fst (get_pef_ctrl s') = Ret (e ! 4) \<and> fst (get_pef_act_glb_ctrl s') = Ret (e ! 5)"
proof -
  let ?s' = "snd (set_eft_entry 0 (Buffer e) s)"
  have a: "eft_agrees (ef_data s) s" using assms(1) by (simp add: eft_sync_def)
  have e: "bytes_at (6 # 0 # e) 2 20 = e"
    using assms(3) by (intro nth_equalityI) (auto simp: byte_at_def nth_Cons')
  have st: "stored_filter 0 (Buffer e) s = 0 # e"
    using stored_filter_Buffer [of s 0 e] a assms(3) bytes_at_0_all [of e] by (simp add: eft_agrees_def)
  obtain f where f: "ef_file ?s' = Some (eft_put 11 (0 # e) f)" "ef_writable ?s'"
    using set_eft_entry_stores [OF a, of 0 "Buffer e"] st a
    by (simp add: eft_offset(2) set_eft_def eft_agrees_def)
  have len: "32 \<le> length (eft_put 11 (0 # e) f)" using assms(3) by (simp add: length_eft_put)
  have "fst (get_pef_ctrl ?s') = Ret (e ! 4)" "fst (get_pef_act_glb_ctrl ?s') = Ret (e ! 5)"
    using f len assms(3)
    by (simp_all add: get_pef_ctrl_def get_pef_act_glb_ctrl_def after_init_def etf_init_def
        get_pef_ctrl_from_file_def get_pef_act_glb_ctrl_from_file_def ctrl_from_file_def eft_fetch_def
        take_drop_bytes_at bytes_at_expand byte_at_eft_put)
  moreover have "pef_set_config_param s q r = Some (?s', set_cc CC_SUCCESS r)"
    using assms(2) set_eft_entry_data(3) [OF a, of 0 "Buffer e"]
    by (simp add: pef_set_config_param_def pef_set_result_eq e)
  ultimately show ?thesis by blast
qed

theorem pef_filter_zero_overwrites_controls_witness:
  "\<exists>s'. pef_set_config_param blank_pef
      \<lparr>q_netfn = 0x04, q_cmd = 0x12, q_data = 6 # 0 # [0x80, 1, 0, 16, 0x20, 0x33] @ replicate 14 0\<rparr> blank_res
        = Some (s', set_cc 0 blank_res)
     \<and> fst (get_pef_ctrl s') = Ret 0x20"
  using pef_filter_zero_overwrites_controls [OF blank_pef_sync,
      of "\<lparr>q_netfn = 0x04, q_cmd = 0x12, q_data = 6 # 0 # [0x80, 1, 0, 16, 0x20, 0x33] @ replicate 14 0\<rparr>"
         "[0x80, 1, 0, 16, 0x20, 0x33] @ replicate 14 0" blank_res]
  by auto

text \<open>Changing a configuration through \<open>set_pef_cfg\<close> passes the filter itself from its first
  member on, so that every byte of it becomes the record number.\<close>

theorem set_pef_cfg_smears:
  assumes "eft_sync s" and "r \<le> 126"
  shows "\<exists>rc s'. set_pef_cfg r c s = Some (rc, s') \<and> ef_data s' ! unat r = replicate 21 r"
proof -
  have i: "unat r < 127" using assms(2) by (simp add: word_le_nat_alt)
  let ?t = "set_config r c s"
  have t: "eft_agrees (ef_data s) ?t"
    using assms(1) i by (auto simp: eft_sync_def eft_agrees_def pef_inv_def set_config_def set_eft_def
        nth_update_if eft_contents_def)
  have "stored_filter r (Own 0) ?t = replicate 21 r"
    using t i by (simp add: stored_filter_def eft_copy_Own_0 eft_agrees_def pef_inv_def)
  then have "ef_data (snd (set_eft_entry r (Own 0) ?t)) ! unat r = replicate 21 r"
    using set_eft_entry_data(1) [OF t assms(2), of "Own 0"] t i
    by (simp add: eft_agrees_def pef_inv_def nth_update_if)
  then show ?thesis using i by (cases "set_eft_entry r (Own 0) ?t") (auto simp: set_pef_cfg_def)
qed

theorem set_pef_cfg_smears_witness:
  "\<exists>rc s'. set_pef_cfg 7 0x80 blank_pef = Some (rc, s') \<and> ef_data s' ! 7 = replicate 21 7"
  using set_pef_cfg_smears [OF blank_pef_sync, of 7 "0x80"] by simp

section \<open>Looking up a filter\<close>

lemma eft_scan_find:
  "Suc num \<le> 127 \<Longrightarrow> length g = 127 \<Longrightarrow> i \<le> Suc num \<Longrightarrow>
   eft_scan g t n v i num =
     Ret (case find (\<lambda>e. eft_sensor_type e = t \<and> eft_sensor_number e = n \<and> eft_severity e = v)
            (take (Suc num - i) (drop i g)) of
       None \<Rightarrow> 0xFF | Some e \<Rightarrow> eft_policy_number e)"
proof (induction g t n v i num rule: eft_scan.induct)
  case (1 g t n v i num)
  show ?case
  proof (cases "num < i")
    case True
    then show ?thesis by (simp add: eft_scan.simps)
  next
    case False
    then have "take (Suc num - i) (drop i g) = g ! i # take (Suc num - Suc i) (drop (Suc i) g)"
      using 1(2,3) by (simp add: Cons_nth_drop_Suc [symmetric] Suc_diff_le)
    with 1 False show ?thesis by (subst eft_scan.simps) auto
  qed
qed

text \<open>C30. The look-up gives the policy number of the first of the active filters with that sensor and
  severity, and 0xFF when there is none.\<close>

theorem check_pef_finds_first:
  assumes "eft_sync s" and "get_eft_entry_num_from_file s = Ret num"
  shows "check_pef_table_sensor t n v s =
    Ret (case find (\<lambda>e. eft_sensor_type e = t \<and> eft_sensor_number e = n \<and> eft_severity e = v)
           (take (unat num) (drop 1 (ef_data s))) of
      None \<Rightarrow> 0xFF | Some e \<Rightarrow> eft_policy_number e)"
proof -
  have "unat num \<le> 126" "length (ef_data s) = 127"
    using assms by (auto simp: eft_sync_def eft_agrees_def pef_inv_def Let_def eft_contents_def
        get_eft_entry_num_from_file_def eft_fetch_def split: option.splits prod.splits if_splits)
      (auto simp: byte_at_def neq_Nil_conv)
  then show ?thesis
    using eft_scan_find [of "unat num" "ef_data s" 1 t n v] assms(2)
    by (simp add: check_pef_table_sensor_def)
qed

theorem check_pef_finds_first_witness:
  "check_pef_table_sensor 7 7 16 (snd (set_eft_entry 5 (Buffer ([0x80, 1, 9, 16] @ replicate 16 7)) blank_pef))
     = Ret 9"
proof -
  let ?b = "[0x80, 1, 9, 16] @ replicate 16 7 :: u8 list"
  let ?s = "snd (set_eft_entry 5 (Buffer ?b) blank_pef)"
  have a: "eft_agrees (ef_data blank_pef) blank_pef"
    using blank_pef_sync by (simp add: eft_sync_def)
  have sync: "eft_sync ?s" by (rule eft_sync_set_eft_entry [OF blank_pef_sync])
  have c: "byte_at (eft_contents ?s) 0 = 5"
    using set_eft_entry_num [OF a, of 5] by (simp add: eft_contents_def blank_pef_def)
  have fl: "ef_file ?s \<noteq> None" by (rule set_eft_entry_file [OF a]) simp
  have n: "get_eft_entry_num_from_file ?s = Ret 5"
    using fl sync c by (auto simp: eft_contents_def eft_sync_def eft_agrees_def Let_def num_from_file)
  have d: "ef_data ?s = (replicate 127 (replicate 21 0))[5 := 5 # ?b]"
    using set_eft_entry_data(1) [OF a, of 5] bytes_at_0_all [of ?b]
    by (simp add: stored_filter_blank) (simp add: blank_pef_def)
  have five: "take 5 (drop 1 (ef_data ?s))
      = [replicate 21 0, replicate 21 0, replicate 21 0, replicate 21 0, 5 # ?b]"
    unfolding d by (rule nth_equalityI) (auto simp: less_Suc_eq numeral_eq_Suc nth_update_if)
  have "find (\<lambda>e. eft_sensor_type e = 7 \<and> eft_sensor_number e = 7 \<and> eft_severity e = 16)
      (take 5 (drop 1 (ef_data ?s))) = Some (5 # ?b)"
    unfolding five by simp
  then show ?thesis
    unfolding check_pef_finds_first [OF sync n, of 7 7 16] by simp
qed

section \<open>The listing\<close>

lemma sprintf_all_None: "sprintf_all ls = None \<longleftrightarrow> (\<exists>l \<in> set ls. 32 \<le> length l)"
  by (induction ls) auto

lemma length_quoted [simp]: "length (quoted s) = length s + 2"
  by (simp add: quoted_def)

lemma length_show_dec: "length (show_dec n) \<le> 3"
  by (simp add: show_dec_def)

lemma length_show_hex: "length (show_hex b) = (if b < 0x10 then 1 else 2)"
  by (simp add: show_hex_def Let_def word_less_nat_alt)

lemma length_severity_text: "length (severity_text v) \<le> 15"
  by (simp add: severity_text_def)

lemma length_configured_text: "length (configured_text c) \<le> 14"
  by (simp add: configured_text_def Let_def)

lemma pef_entry_lines_long:
  "(\<exists>l \<in> set (pef_entry_lines m i e). 32 \<le> length l)
     \<longleftrightarrow> eft_config e AND 0x80 \<noteq> 0 \<and> 0x10 \<le> eft_sensor_number e"
proof -
  have d: "\<not> k \<le> length (show_dec n)" if "4 \<le> k" for k n
    using length_show_dec [of n] that by linarith
  have v: "\<not> k \<le> length (severity_text x)" if "16 \<le> k" for k x
    using length_severity_text [of x] that by linarith
  have c: "\<not> k \<le> length (configured_text x)" if "15 \<le> k" for k x
    using length_configured_text [of x] that by linarith
  show ?thesis
    by (cases "eft_config e AND 0x80 = 0"; cases "eft_sensor_number e < 0x10")
      (auto simp: pef_entry_lines_def length_show_hex d v c)
qed

lemma pef_list_agrees:
  assumes "eft_agrees tbl s" and "\<forall>i \<in> set is. 0 < i \<and> i \<le> unat (byte_at (eft_contents s) 0)"
    and "length e = 21"
  shows "fst (pef_list m is e s) = concat (map (\<lambda>i. pef_entry_lines m i (tbl ! i)) is)"
  using assms
proof (induction "is" arbitrary: e s)
  case Nil
  then show ?case by simp
next
  case (Cons i "is")
  have i: "0 < i" "i \<le> unat (byte_at (eft_contents s) 0)" "i < 127"
    using Cons.prems(1,2) by (auto simp: eft_agrees_def Let_def)
  then have r: "unat (of_nat i :: u8) = i" by (simp add: unat_of_nat)
  let ?s1 = "s\<lparr>ef_file := Some (eft_contents s)\<rparr>"
  have g: "get_eft_entry (of_nat i) s = ((0, tbl ! i), ?s1)"
    using get_eft_entry_agrees [OF Cons.prems(1), of "of_nat i"] i r by (simp add: word_le_nat_alt)
  have len: "length (tbl ! i) = 21" by (rule eft_agrees_length [OF Cons.prems(1) i(1,3)])
  then have w: "write_at 0 (tbl ! i) e = tbl ! i" using Cons.prems(3) by (simp add: write_at_def)
  have "fst (pef_list m is (tbl ! i) ?s1) = concat (map (\<lambda>i. pef_entry_lines m i (tbl ! i)) is)"
    using Cons.prems len by (intro Cons.IH) (simp_all add: eft_agrees_create)
  then show ?case by (simp add: g w Let_def split_beta)
qed

text \<open>C29. The listing overruns its formatting buffer exactly when an enabled filter names a sensor with
  a two-digit hexadecimal number.\<close>

theorem pef_listing_overflows_iff:
  assumes "eft_sync s" and "length junk = 21" and "get_eft_entry_num s = (Ret n, s1)"
  shows "fst (rest_get_pef_config junk s) = None \<longleftrightarrow>
    (\<exists>i. 0 < i \<and> i \<le> unat n \<and> eft_config (ef_data s ! i) AND 0x80 \<noteq> 0
        \<and> 0x10 \<le> eft_sensor_number (ef_data s ! i))"
proof -
  have a: "eft_agrees (ef_data s) s" using assms(1) by (simp add: eft_sync_def)
  with assms(3) have n: "n = byte_at (eft_contents s) 0" "s1 = s\<lparr>ef_file := Some (eft_contents s)\<rparr>"
    by (simp_all add: get_eft_entry_num_agrees)
  define ls where "ls = fst (pef_list (unat n) [1..<Suc (unat n)] junk s1)"
  have "ls = concat (map (\<lambda>i. pef_entry_lines (unat n) i (ef_data s ! i)) [1..<Suc (unat n)])"
    unfolding ls_def n using a assms(2) by (intro pef_list_agrees) (auto simp: eft_agrees_create)
  then have "(\<exists>l \<in> set ls. 32 \<le> length l) \<longleftrightarrow> (\<exists>i \<in> {1..<Suc (unat n)}.
      \<exists>l \<in> set (pef_entry_lines (unat n) i (ef_data s ! i)). 32 \<le> length l)"
    by auto
  also have "\<dots> \<longleftrightarrow> (\<exists>i. 0 < i \<and> i \<le> unat n \<and> eft_config (ef_data s ! i) AND 0x80 \<noteq> 0
        \<and> 0x10 \<le> eft_sensor_number (ef_data s ! i))"
    unfolding pef_entry_lines_long by (auto simp: less_Suc_eq_le Suc_le_eq)
  finally show ?thesis
    by (simp add: rest_get_pef_config_def assms(3) split_beta Let_def ls_def sprintf_all_None
        del: upt_Suc sprintf_all.simps)
qed

theorem pef_listing_overflows_iff_witness:
  "fst (rest_get_pef_config (replicate 21 0)
      (snd (set_eft_entry 1 (Buffer (pef_init_table ! 0)) blank_pef))) = None"
proof -
  let ?s = "snd (set_eft_entry 1 (Buffer (pef_init_table ! 0)) blank_pef)"
  have a: "eft_agrees (ef_data blank_pef) blank_pef"
    using blank_pef_sync by (simp add: eft_sync_def)
  have sync: "eft_sync ?s" by (rule eft_sync_set_eft_entry [OF blank_pef_sync])
  have c: "byte_at (eft_contents ?s) 0 = 1"
    using set_eft_entry_num [OF a, of 1] by (simp add: eft_contents_def blank_pef_def)
  have n: "get_eft_entry_num ?s = (Ret 1, ?s\<lparr>ef_file := Some (eft_contents ?s)\<rparr>)"
    using get_eft_entry_num_agrees sync c by (simp add: eft_sync_def)
  have "ef_data ?s ! 1 = 1 # pef_init_table ! 0"
    using set_eft_entry_data(1) [OF a, of 1 "Buffer (pef_init_table ! 0)"]
      stored_filter_Buffer [of blank_pef 1 "pef_init_table ! 0"] a
      bytes_at_0_all [of "pef_init_table ! 0"] pef_init_table_shape
    by (simp add: eft_agrees_def pef_inv_def nth_update_if) (simp add: pef_init_table_def)
  then have "eft_config (ef_data ?s ! 1) AND 0x80 \<noteq> 0 \<and> 0x10 \<le> eft_sensor_number (ef_data ?s ! 1)"
    by (simp add: pef_init_table_def)
  then show ?thesis
    using pef_listing_overflows_iff [OF sync _ n, of "replicate 21 0"] by auto
qed


section \<open>The contract of the commands\<close>

lemma pef_inv_eft_store: "pef_inv (snd (eft_store off bs s)) = pef_inv s"
  by (auto simp: eft_store_def pef_inv_def split: option.splits)

lemma pef_inv_after_init:
  "(\<And>t. pef_inv t \<Longrightarrow> pef_inv (snd (f t))) \<Longrightarrow> pef_inv s \<Longrightarrow> pef_inv (snd (after_init e f s))"
  by (auto simp: after_init_def etf_init_def set_eft_entry_num_to_file_def eft_store_def pef_inv_def)

lemma pef_inv_set_eft: "pef_inv s \<Longrightarrow> length g = 21 \<Longrightarrow> pef_inv (set_eft i g s)"
  by (auto simp: pef_inv_def set_eft_def nth_update_if)

lemma pef_inv_set_eft_entry: "pef_inv s \<Longrightarrow> pef_inv (snd (set_eft_entry r src s))"
  unfolding set_eft_entry_def
proof (rule pef_inv_after_init)
  fix t assume t: "pef_inv t"
  have "length (ef_data t ! unat r) = 21" if "r \<le> 126"
    using t that by (simp add: pef_inv_def word_le_nat_alt)
  then show "pef_inv (snd (case get_eft_entry_num_from_file t of
       Ret num \<Rightarrow>
         if 126 < r then (-1, t)
         else let g = eft_copy src ((ef_data t ! unat r)[0 := r])
              in set_eft_entry_to_file (max num r) g (set_eft (unat r) g t)
     | _ \<Rightarrow> (-1, t)))"
    using t by (auto simp: Let_def set_eft_entry_to_file_def set_eft_entry_num_to_file_def split_beta
        pef_inv_eft_store pef_inv_set_eft split: cres.splits)
qed

lemma pef_inv_set_pef_enable: "pef_inv s \<Longrightarrow> set_pef_enable r e s = Some x \<Longrightarrow> pef_inv (snd x)"
  by (auto simp: set_pef_enable_def set_config_def pef_inv_def [of s] intro!: pef_inv_set_eft_entry
      pef_inv_set_eft [unfolded pef_inv_def [of s]] split: if_splits)

lemma pef_inv_set_policy: "pef_inv s \<Longrightarrow> set_policy_ipmi i p s = Some t \<Longrightarrow> pef_inv t"
  by (auto simp: set_policy_ipmi_def set_policy_entry_def save_policy_table_def pef_inv_def
      split: if_splits)

lemma get_eft_entry_frame:
  "pef_inv s \<Longrightarrow> pef_inv (snd (get_eft_entry i s))" "length (snd (fst (get_eft_entry i s))) \<le> 21"
proof -
  show "pef_inv s \<Longrightarrow> pef_inv (snd (get_eft_entry i s))"
    unfolding get_eft_entry_def by (rule pef_inv_after_init) auto
  show "length (snd (fst (get_eft_entry i s))) \<le> 21"
    by (auto simp: get_eft_entry_def after_init_def get_eft_entry_from_file_def eft_fetch_def
        split: prod.splits cres.splits option.splits)
qed

lemma pef_commands_safe:
  "safe_for pef_inv pef_get_config_param q" "safe_for pef_inv pef_set_config_param q"
  "safe_for pef_inv pef_capabilities_info q"
proof -
  have getters: "pef_inv (snd (get_pef_ctrl s))" "pef_inv (snd (get_pef_act_glb_ctrl s))"
    "pef_inv (snd (get_eft_entry_num s))" if "pef_inv s" for s
    using that unfolding get_pef_ctrl_def get_pef_act_glb_ctrl_def get_eft_entry_num_def
    by (auto intro!: pef_inv_after_init)
  show "safe_for pef_inv pef_capabilities_info q"
    using getters(3) by (fastforce simp: safe_for_def pef_capabilities_info_def
        split: cres.splits prod.splits dest: arg_cong [where f = snd])
  show "safe_for pef_inv pef_set_config_param q"
    by (rule safe_forI)
      (auto simp: pef_set_config_param_def pef_set_result_eq set_pef_ctrl_def set_pef_ctrl_to_file_def
        set_pef_act_glb_ctrl_def set_pef_act_glb_ctrl_to_file_def Let_def pef_inv_eft_store
        dest: pef_inv_set_policy pef_inv_set_pef_enable intro!: pef_inv_set_eft_entry pef_inv_after_init
        split: if_splits option.splits)
  have ctrl: "get_pef_ctrl s = (x, s1) \<Longrightarrow> pef_inv s \<Longrightarrow> pef_inv s1"
    "get_pef_act_glb_ctrl s = (x, s1) \<Longrightarrow> pef_inv s \<Longrightarrow> pef_inv s1"
    "get_eft_entry i s = ((rc, b), s1) \<Longrightarrow> pef_inv s \<Longrightarrow> pef_inv s1"
    "get_eft_entry i s = ((rc, b), s1) \<Longrightarrow> length b \<le> 21" for x s s1 i rc b
    using getters(1,2) [of s] get_eft_entry_frame(1) [of s i] get_eft_entry_frame(2) [of i s] by auto
  show "safe_for pef_inv pef_get_config_param q"
    by (rule safe_forI)
      (auto simp: pef_get_config_param_def pef_reply_def Let_def dest: ctrl
        split: if_splits cres.splits prod.splits option.splits)
qed

end
