(* ===== verification/Checksum.thy ===== *)
theory Checksum
  imports Bmc_Prelude "HOL-Library.Signed_Division" "HOL-Library.Multiset"
begin

text \<open>
  The two's-complement checksums of the program: \<open>_checksum\<close> and \<open>ipmi_checksum\<close> of
  KETI-Edge/msg_session.cpp, computed in a signed 8-bit register with C's \<open>%\<close>, and
  \<open>keti_ipmi_checksum\<close> of libs/fru/fru.cpp, whose loop counter is one byte wide. The locale
  \<open>checksum_scheme\<close> is what the message framing and the FRU header rely on; both routines
  interpret it.
\<close>

section \<open>The IPMI message checksum\<close>

text \<open>\<open>checksum = (checksum + buf[i]) % 256\<close> with \<open>checksum\<close> an \<open>int8_t\<close>: the operands are
  promoted to \<open>int\<close>, \<open>%\<close> truncates towards zero, and the result is narrowed to 8 bits.\<close>

definition checksum_step :: "u8 \<Rightarrow> u8 \<Rightarrow> u8" where
  "checksum_step c b = word_of_int ((sint c + uint b) smod 256)"

fun checksum_loop :: "u8 \<Rightarrow> u8 list \<Rightarrow> u8" where
  "checksum_loop c [] = c"
| "checksum_loop c (b # bs) = checksum_loop (checksum_step c b) bs"

text \<open>\<open>_checksum(buf, buflen, checksum_initial)\<close>; the null or empty buffer returns the
  initial value.\<close>

definition checksum_acc :: "u8 list \<Rightarrow> u8 \<Rightarrow> u8" where
  "checksum_acc buf initial = (if buf = [] then initial else checksum_loop initial buf)"

definition ipmi_checksum :: "u8 list \<Rightarrow> u8" where
  "ipmi_checksum buf = - checksum_acc buf 0"

lemma smod_256_cong: "(x smod 256) mod 256 = x mod (256::int)"
proof -
  have "x mod 256 = (x sdiv 256 * 256 + x smod 256) mod 256"
    by (simp only: sdiv_mult_smod_eq)
  then show ?thesis by (simp only: mod_mult_self3)
qed

lemma checksum_step_add [simp]: "checksum_step c b = c + b"
proof -
  have "word_of_int ((sint c + uint b) smod 256) = (word_of_int (sint c + uint b) :: u8)"
    unfolding word_of_int_eq_iff by (simp add: take_bit_eq_mod smod_256_cong)
  also have "\<dots> = c + b" by simp
  finally show ?thesis unfolding checksum_step_def .
qed

lemma checksum_loop_sum: "checksum_loop c bs = c + sum_list bs"
  by (induction bs arbitrary: c) (simp_all add: add.assoc)

lemma checksum_acc_sum: "checksum_acc bs c = c + sum_list bs"
  by (simp add: checksum_acc_def checksum_loop_sum)

lemma ipmi_checksum_sum [bmc_simps]: "ipmi_checksum bs = - sum_list bs"
  by (simp add: ipmi_checksum_def checksum_acc_sum)

section \<open>The FRU checksum\<close>

text \<open>\<open>for (x = 0; x < s; x++) c += d[x]\<close> with \<open>uint8_t x\<close> and \<open>int s\<close>. The counter wraps at
  256, so the loop does not end when \<open>s > 255\<close>: the result \<open>None\<close>.\<close>

partial_function (option) keti_checksum_loop :: "u8 list \<Rightarrow> int \<Rightarrow> u8 \<Rightarrow> u8 \<Rightarrow> u8 option" where
  "keti_checksum_loop d s x c =
     (if uint x < s then keti_checksum_loop d s (x + 1) (c + byte_at d (unat x)) else Some c)"

definition keti_ipmi_checksum :: "u8 list \<Rightarrow> int \<Rightarrow> u8 option" where
  "keti_ipmi_checksum d s = map_option uminus (keti_checksum_loop d s 0 0)"

lemma keti_checksum_loop_bound:
  assumes "keti_checksum_loop d s x c = Some r"
  shows "s \<le> 255"
proof (rule keti_checksum_loop.raw_induct
    [where P = "\<lambda>d s x c r. s \<le> 255" and xa = "(((d, s), x), c)" and y = r, simplified])
  fix f :: "u8 list \<Rightarrow> int \<Rightarrow> u8 \<Rightarrow> u8 \<Rightarrow> u8 option" and d s x c r
  assume IH: "\<And>d s x c r. f d s x c = Some r \<Longrightarrow> s \<le> 255"
    and eq: "(if uint x < s then f d s (x + 1) (c + byte_at d (unat x)) else Some c) = Some r"
  have "uint x \<le> 255" using uint_lt2p [of x] by simp
  with IH eq show "s \<le> 255" by (cases "uint x < s") auto
next
  show "keti_checksum_loop d s x c = Some r" by (rule assms)
qed

lemma keti_checksum_loop_sum:
  assumes "n \<le> 255" and "unat x \<le> n" and "n \<le> length d"
  shows "keti_checksum_loop d (int n) x c = Some (c + sum_list (drop (unat x) (take n d)))"
  using assms(2)
proof (induction "n - unat x" arbitrary: x c)
  case 0
  then have "\<not> uint x < int n" by (simp add: uint_less_int_iff)
  with 0 show ?case by (simp add: keti_checksum_loop.simps)
next
  case (Suc k)
  then have lt: "unat x < n" by simp
  with assms(1) have nx: "unat (x + 1) = Suc (unat x)"
    by (simp add: unat_word_ariths)
  have "uint x < int n" using lt by (simp add: uint_less_int_iff)
  then have "keti_checksum_loop d (int n) x c
      = keti_checksum_loop d (int n) (x + 1) (c + byte_at d (unat x))"
    by (subst keti_checksum_loop.simps) simp
  also have "\<dots> = Some (c + byte_at d (unat x) + sum_list (drop (Suc (unat x)) (take n d)))"
    using Suc(1) [of "x + 1"] Suc(2) lt by (simp add: nx)
  also have "drop (unat x) (take n d) = d ! unat x # drop (Suc (unat x)) (take n d)"
    using lt assms(3) by (simp add: Cons_nth_drop_Suc [symmetric])
  ultimately show ?case using lt assms(3) by (simp add: byte_at_nth add.assoc)
qed

lemma keti_ipmi_checksum_sum:
  "n \<le> 255 \<Longrightarrow> n \<le> length d \<Longrightarrow> keti_ipmi_checksum d (int n) = Some (- sum_list (take n d))"
  by (simp add: keti_ipmi_checksum_def keti_checksum_loop_sum)

section \<open>The contract of a checksum\<close>

text \<open>What a sender and a receiver rely on: appending the checksum makes the bytes add up to
  zero. \<open>ok\<close> is the domain on which the routine delivers that.\<close>

locale checksum_scheme =
  fixes chk :: "u8 list \<Rightarrow> u8"
    and ok :: "u8 list \<Rightarrow> bool"
  assumes zero_sum: "ok bs \<Longrightarrow> sum_list (bs @ [chk bs]) = 0"
begin

lemma chk_unique: "ok bs \<Longrightarrow> sum_list (bs @ [c]) = 0 \<longleftrightarrow> c = chk bs"
  using zero_sum [of bs] by (auto simp: add_eq_0_iff)

lemma single_byte_detected:
  assumes "ok (xs @ [b] @ ys)" and "b \<noteq> b'"
  shows "sum_list ((xs @ [b'] @ ys) @ [chk (xs @ [b] @ ys)]) \<noteq> 0"
proof
  assume bad: "sum_list ((xs @ [b'] @ ys) @ [chk (xs @ [b] @ ys)]) = 0"
  have "sum_list ((xs @ [b] @ ys) @ [chk (xs @ [b] @ ys)]) = 0"
    by (rule zero_sum [OF assms(1)])
  with bad have "sum_list xs + b' + sum_list ys = sum_list xs + b + sum_list ys"
    by (simp add: add.assoc [symmetric] add_eq_0_iff2)
  with assms(2) show False by simp
qed

lemma order_insensitive:
  assumes "ok bs" and "ok cs" and "mset bs = mset cs"
  shows "chk bs = chk cs"
proof -
  have "sum_list bs = sum_list cs"
    using assms(3) by (metis sum_mset_sum_list)
  moreover have "sum_list bs + chk bs = 0" "sum_list cs + chk cs = 0"
    using zero_sum assms(1,2) by simp_all
  ultimately show ?thesis by (simp add: add_eq_0_iff)
qed

end

interpretation ipmi_ck: checksum_scheme ipmi_checksum "\<lambda>_. True"
  by unfold_locales (simp add: ipmi_checksum_sum)

definition keti_checksum_all :: "u8 list \<Rightarrow> u8" where
  "keti_checksum_all d = (case keti_ipmi_checksum d (int (length d)) of None \<Rightarrow> 0 | Some c \<Rightarrow> c)"

interpretation keti_ck: checksum_scheme keti_checksum_all "\<lambda>d. length d \<le> 255"
  by unfold_locales (simp add: keti_checksum_all_def keti_ipmi_checksum_sum)

section \<open>Properties\<close>

text \<open>The IPMI message checksum makes a message add up to zero, is the only byte that does,
  and exposes the corruption of any single byte, although it is computed in a signed register
  with a truncating remainder.\<close>

theorem ipmi_checksum_detects_corruption:
  "sum_list (bs @ [ipmi_checksum bs]) = 0
   \<and> (sum_list (bs @ [c]) = 0 \<longleftrightarrow> c = ipmi_checksum bs)
   \<and> (bs = xs @ [b] @ ys \<and> b \<noteq> b' \<longrightarrow> sum_list ((xs @ [b'] @ ys) @ [ipmi_checksum bs]) \<noteq> 0)"
  using ipmi_ck.zero_sum ipmi_ck.chk_unique ipmi_ck.single_byte_detected by blast

theorem ipmi_checksum_detects_corruption_witness:
  "sum_list (([0x20, 0x19] @ [0xC8]) @ [ipmi_checksum ([0x20, 0x18] @ [0xC8])]) \<noteq> 0"
proof -
  have "[0x20, 0x18] @ [0xC8] = [0x20] @ [0x18] @ [0xC8 :: u8] \<and> (0x18 :: u8) \<noteq> 0x19"
    by simp
  then show ?thesis
    using ipmi_checksum_detects_corruption
      [of "[0x20, 0x18] @ [0xC8]" 0 "[0x20]" "0x18" "[0xC8]" "0x19"]
    by simp
qed

text \<open>C31. The FRU checksum terminates exactly for lengths up to 255 (its loop counter is one byte
  wide); within that range it agrees with the IPMI message checksum of the same bytes.\<close>

theorem keti_ipmi_checksum_terminates_iff:
  assumes "length d = n"
  shows "keti_ipmi_checksum d (int n) = (if n \<le> 255 then Some (ipmi_checksum d) else None)"
proof (cases "n \<le> 255")
  case True
  then show ?thesis using assms keti_ipmi_checksum_sum [of n d] by (simp add: ipmi_checksum_sum)
next
  case False
  then have "keti_checksum_loop d (int n) 0 0 = None"
    using keti_checksum_loop_bound [of d "int n" 0 0] by (cases "keti_checksum_loop d (int n) 0 0") auto
  with False show ?thesis by (simp add: keti_ipmi_checksum_def)
qed

theorem keti_ipmi_checksum_terminates_iff_witness:
  "keti_ipmi_checksum [1, 0, 3, 4, 2, 0, 0] (int 7) = Some (ipmi_checksum [1, 0, 3, 4, 2, 0, 0])"
  using keti_ipmi_checksum_terminates_iff [of "[1, 0, 3, 4, 2, 0, 0]" 7] by simp

end
