(* ===== verification/Fru_Store.thy ===== *)
theory Fru_Store
  imports Contracts Checksum "HOL-Library.Monad_Syntax"
begin

text \<open>
  Field replaceable units, libs/fru/fru.cpp: the one device of \<open>fru_rec\<close> with its header, its
  chassis, board and product information, the three area buffers built from them at start-up, the
  commands that read them (\<open>storage_get_fru_info\<close>, \<open>storage_get_fru\<close>) and the setters of the web
  interface. The look-up of device 0 in \<open>fru_rec\<close>, made by every operation, is the state itself: it
  stands for a controller on which \<open>plat_fru_device_init\<close> has run.

  A text member is declared \<open>char *name[32]\<close>, 128 bytes with pointers of four bytes, and used as a
  character array. \<open>mfg_date\<close> is declared \<open>char *mfg_date[4]\<close>; some code uses it as four numbers,
  some as four bytes, so it is kept as its 16 bytes of memory.
\<close>

section \<open>State\<close>

record fru_header =
  fh_id :: u8
  fh_version :: u8
  fh_internal :: u8
  fh_chassis :: u8
  fh_board :: u8
  fh_product :: u8
  fh_multi :: u8

record fru_chassis_info =
  fc_type :: u8
  fc_part_number :: "u8 list"
  fc_serial :: "u8 list"

record fru_board_info =
  fb_mfg_date :: "u8 list"
  fb_mfg :: "u8 list"
  fb_product :: "u8 list"
  fb_serial :: "u8 list"
  fb_part_number :: "u8 list"

record fru_product_info =
  fp_mfg :: "u8 list"
  fp_name :: "u8 list"
  fp_part_number :: "u8 list"
  fp_version :: "u8 list"
  fp_serial :: "u8 list"
  fp_asset_tag :: "u8 list"

record fru =
  fr_header :: fru_header
  fr_chassis :: fru_chassis_info
  fr_board :: fru_board_info
  fr_product :: fru_product_info
  fr_temp_write :: u8
  fr_header_flag :: u8
  fr_edit_flag :: u8
  fr_chassis_buf :: "u8 list"
  fr_board_buf :: "u8 list"
  fr_product_buf :: "u8 list"
  fr_chassis_total :: int
  fr_board_total :: int
  fr_product_total :: int
  fr_write_buffer :: "u8 list"
  fr_saved :: "(fru_header \<times> fru_board_info \<times> fru_product_info \<times> fru_chassis_info) option"

abbreviation (input) FRU_BOARD_HEADER_LENGTH :: int where "FRU_BOARD_HEADER_LENGTH \<equiv> 6"
abbreviation (input) FRU_PRODUCT_HEADER_LENGTH :: int where "FRU_PRODUCT_HEADER_LENGTH \<equiv> 3"
abbreviation (input) FRU_CHASSIS_HEADER_LENGTH :: int where "FRU_CHASSIS_HEADER_LENGTH \<equiv> 2"
abbreviation (input) FRU_READ_SIZE :: u8 where "FRU_READ_SIZE \<equiv> 0x1d"

text \<open>\<open>strlen\<close> and the characters before the terminating zero.\<close>

definition cstr :: "u8 list \<Rightarrow> u8 list" where
  "cstr m = takeWhile (\<lambda>b. b \<noteq> 0) m"

definition ascii :: "string \<Rightarrow> u8 list" where
  "ascii s = map of_char s"

text \<open>\<open>strcpy\<close> into a member: the bytes after the terminator keep what memory held.\<close>

definition strcpy :: "string \<Rightarrow> u8 list \<Rightarrow> u8 list" where
  "strcpy s m = write_at 0 (ascii s @ [0]) m"

section \<open>Building the areas\<close>

text \<open>A type/length byte \<open>0xC0 | strlen\<close> and the characters.\<close>

definition fru_field :: "u8 list \<Rightarrow> u8 list" where
  "fru_field m = (0xC0 OR of_nat (length (cstr m))) # cstr m"

definition chassis_area :: "fru_chassis_info \<Rightarrow> u8 list" where
  "chassis_area c = fc_type c # fru_field (fc_part_number c) @ fru_field (fc_serial c) @ [0xC1]"

definition board_area :: "fru_board_info \<Rightarrow> u8 list" where
  "board_area b = fru_field (fb_mfg b) @ fru_field (fb_product b) @ fru_field (fb_serial b)
     @ fru_field (fb_part_number b) @ [0xC1, 0x31, 0xC1]"

definition product_area :: "fru_product_info \<Rightarrow> u8 list" where
  "product_area p = fru_field (fp_mfg p) @ fru_field (fp_name p) @ fru_field (fp_part_number p)
     @ fru_field (fp_version p) @ fru_field (fp_serial p) @ fru_field (fp_asset_tag p)
     @ [0xC1, 0x31, 0xC1]"

text \<open>The areas are copied into zeroed buffers of 256 bytes; the three flags that guard the copying
  are set by the only caller. Areas longer than a buffer are written past it.\<close>

definition plat_fru_data_init :: "fru \<Rightarrow> fru option" where
  "plat_fru_data_init s =
     (let c = chassis_area (fr_chassis s); b = board_area (fr_board s); p = product_area (fr_product s);
          fill = (\<lambda>a. write_at 0 a (replicate 256 0)) in
      if length c \<le> 256 \<and> length b \<le> 256 \<and> length p \<le> 256
      then Some (s\<lparr>fr_chassis_buf := fill c, fr_chassis_total := int (length c),
                  fr_board_buf := fill b, fr_board_total := int (length b),
                  fr_product_buf := fill p, fr_product_total := int (length p)\<rparr>)
      else None)"

text \<open>\<open>junk\<close>: the 128 bytes the stack holds where each text member of the local structures lies.\<close>

definition plat_fru_device_init :: "u8 list \<Rightarrow> fru option" where
  "plat_fru_device_init junk = plat_fru_data_init
     \<lparr>fr_header = \<lparr>fh_id = 0, fh_version = 1, fh_internal = 0, fh_chassis = 3, fh_board = 4,
                   fh_product = 2, fh_multi = 0\<rparr>,
      fr_chassis = \<lparr>fc_type = 23, fc_part_number = strcpy ''KTNF-18A'' junk,
                    fc_serial = strcpy ''6CU252VN6P'' junk\<rparr>,
      fr_board = \<lparr>fb_mfg_date = concat (map le32 [0, 0xC0, 0x1B, 0xBA]),
                  fb_mfg = strcpy ''KTNF.'' junk, fb_product = strcpy ''KM-H620'' junk,
                  fb_serial = strcpy ''PTW1N931P0001'' junk,
                  fb_part_number = strcpy ''BNX1A-PWO1A'' junk\<rparr>,
      fr_product = \<lparr>fp_mfg = strcpy ''KTNF.'' junk, fp_name = strcpy ''KR422-SA1'' junk,
                    fp_part_number = strcpy ''KXAP-B0001'' junk, fp_version = strcpy ''1.0'' junk,
                    fp_serial = strcpy ''temp_KETI-215'' junk,
                    fp_asset_tag = strcpy ''NR422-SA1-0001'' junk\<rparr>,
      fr_temp_write = 0, fr_header_flag = 1, fr_edit_flag = 0,
      fr_chassis_buf = replicate 256 0, fr_board_buf = replicate 256 0, fr_product_buf = replicate 256 0,
      fr_chassis_total = 0, fr_board_total = 0, fr_product_total = 0,
      fr_write_buffer = replicate 255 0, fr_saved = None\<rparr>"

section \<open>The moving \<open>data\<close> pointer\<close>

text \<open>The position of \<open>data\<close> in the response and the response bytes. Writing, copying or moving
  outside the response, and reading outside the source, is undefined.\<close>

type_synonym cursor = "int \<times> u8 list"

definition put_bytes :: "u8 list \<Rightarrow> cursor \<Rightarrow> cursor option" where
  "put_bytes bs c = (case c of (p, buf) \<Rightarrow>
     if p + int (length bs) \<le> int (length buf)
     then Some (p + int (length bs), write_at (nat p) bs buf) else None)"

text \<open>\<open>memcpy(data, src + off, n)\<close>.\<close>

definition copy_bytes :: "u8 list \<Rightarrow> int \<Rightarrow> int \<Rightarrow> cursor \<Rightarrow> cursor option" where
  "copy_bytes src off n c = (case c of (p, buf) \<Rightarrow>
     if 0 \<le> off \<and> 0 \<le> n \<and> off + n \<le> int (length src) \<and> p + n \<le> int (length buf)
     then Some (p, write_at (nat p) (take (nat n) (drop (nat off) src)) buf) else None)"

definition move_data :: "int \<Rightarrow> cursor \<Rightarrow> cursor option" where
  "move_data n c = (case c of (p, buf) \<Rightarrow>
     if 0 \<le> p + n \<and> p + n \<le> int (length buf) then Some (p + n, buf) else None)"

section \<open>\<open>storage_get_fru\<close>\<close>

text \<open>The first eight bytes: the header with its checksum, after a length byte.\<close>

definition fru_header_bytes :: "fru_header \<Rightarrow> u8 list" where
  "fru_header_bytes h = [fh_version h, fh_internal h, fh_chassis h, fh_board h, fh_product h, fh_multi h, 0]"

text \<open>The loop of the checksum ends, because it is given seven bytes.\<close>

definition fru_header_checksum :: "fru_header \<Rightarrow> u8" where
  "fru_header_checksum h = the (keti_ipmi_checksum (fru_header_bytes h) 7)"

text \<open>What the three areas differ in: the position of the area and its buffer, the bytes of the area
  header kept outside the buffer, and the first bytes of each kind of answer.\<close>

record fru_area =
  fa_pos :: u8
  fa_buf :: "u8 list"
  fa_total :: int
  fa_header_length :: int
  fa_print_size :: u8
  fa_version :: u8
  fa_extra :: "u8 list"
  fa_edit_prefix :: "u8 list"
  fa_edit_length :: u8

definition area_length :: "int \<Rightarrow> u8" where
  "area_length n = word_of_int ((n + 8) div 8 + 1)"

definition date_bytes :: "fru_board_info \<Rightarrow> u8 list" where
  "date_bytes b = map (\<lambda>i. fb_mfg_date b ! (4 * i)) [0..<4]"

definition fru_area_of :: "u8 \<Rightarrow> u8 \<Rightarrow> fru \<Rightarrow> fru_area" where
  "fru_area_of flag len s =
     (if flag = 1 then
        \<lparr>fa_pos = fh_chassis (fr_header s), fa_buf = fr_chassis_buf s, fa_total = fr_chassis_total s,
         fa_header_length = FRU_CHASSIS_HEADER_LENGTH, fa_print_size = 16, fa_version = 0x01,
         fa_extra = [], fa_edit_prefix = [0x01], fa_edit_length = 126\<rparr>
      else if flag = 2 then
        \<lparr>fa_pos = fh_board (fr_header s), fa_buf = fr_board_buf s, fa_total = fr_board_total s,
         fa_header_length = FRU_BOARD_HEADER_LENGTH, fa_print_size = 33, fa_version = 0x02,
         fa_extra = date_bytes (fr_board s), fa_edit_prefix = [len, 0x02],
         fa_edit_length = area_length (fr_board_total s)\<rparr>
      else
        \<lparr>fa_pos = fh_product (fr_header s), fa_buf = fr_product_buf s, fa_total = fr_product_total s,
         fa_header_length = FRU_PRODUCT_HEADER_LENGTH, fa_print_size = 16, fa_version = 0x03,
         fa_extra = [0x00], fa_edit_prefix = [len, 0x03],
         fa_edit_length = area_length (fr_product_total s)\<rparr>)"

text \<open>The read of an area from its start: a short read is answered with the sizes, a read of
  \<open>FRU_READ_SIZE\<close> bytes with the area header and the first bytes of the buffer.\<close>

definition fru_read_start :: "fru_area \<Rightarrow> u8 \<Rightarrow> fru \<Rightarrow> cursor \<Rightarrow> (fru \<times> cursor) option" where
  "fru_read_start a len s c =
     (if len = 2 \<or> len = 3 then do {
        c \<leftarrow> put_bytes [len, 0x01, fa_print_size a] c;
        Some (if len = 3 then s\<lparr>fr_write_buffer := replicate 255 0\<rparr> else s, c)}
      else if len = FRU_READ_SIZE then do {
        c \<leftarrow> put_bytes ([len, fa_version a, area_length (fa_total a)] @ fa_extra a) c;
        c \<leftarrow> copy_bytes (fa_buf a) 0 (uint len) c;
        c \<leftarrow> move_data (uint len - fa_header_length a) c;
        Some (s\<lparr>fr_temp_write := len\<rparr>, c)}
      else Some (s, c))"

text \<open>The read at byte 8, used while editing; \<open>edit_offset\<close> is a byte.\<close>

definition fru_read_edit :: "fru_area \<Rightarrow> u8 \<Rightarrow> fru \<Rightarrow> cursor \<Rightarrow> (fru \<times> cursor) option" where
  "fru_read_edit a len s c =
     (let edit_offset = (if fr_edit_flag s = 1 then (fa_pos a - 1) * 8 else 0) in do {
        c \<leftarrow> put_bytes (fa_edit_prefix a @ replicate (unat edit_offset) 0 @ [fa_edit_length a] @ fa_extra a) c;
        c \<leftarrow> copy_bytes (fa_buf a) 0 (uint len - uint edit_offset) c;
        c \<leftarrow> move_data (uint len - fa_header_length a - uint edit_offset) c;
        Some (s\<lparr>fr_temp_write := len - edit_offset\<rparr>, c)})"

text \<open>The following reads.\<close>

definition fru_read_next :: "fru_area \<Rightarrow> u8 \<Rightarrow> u8 \<Rightarrow> fru \<Rightarrow> cursor \<Rightarrow> (fru \<times> cursor) option" where
  "fru_read_next a start len s c =
     (let off = uint start - uint (fa_pos a) * 8;
          n = fa_total a - uint (fr_temp_write s) + fa_header_length a in
      if off < fa_total a then do {
        c \<leftarrow> put_bytes [len] c;
        c \<leftarrow> copy_bytes (fa_buf a) (off - fa_header_length a) n c;
        c \<leftarrow> move_data n c;
        Some (s\<lparr>fr_temp_write := fr_temp_write s + len\<rparr>, c)}
      else do { c \<leftarrow> put_bytes [0x00] c; Some (s, c) })"

text \<open>Whether a position counts as inside the area; the chassis has its own lower bound.\<close>

definition fru_inside :: "u8 \<Rightarrow> fru_area \<Rightarrow> u8 \<Rightarrow> bool" where
  "fru_inside flag a start \<longleftrightarrow> fa_pos a * 8 < start \<or>
     (if flag = 1 then uint (fa_pos a * 8) - (uint (fa_pos a) - 1) * 8 < uint start
      else uint (fa_pos a) * 8 < uint start)"

definition fru_read_area :: "u8 \<Rightarrow> u8 \<Rightarrow> u8 \<Rightarrow> fru \<Rightarrow> cursor \<Rightarrow> (u8 \<times> fru \<times> cursor) option" where
  "fru_read_area flag start len s c =
     (let a = fru_area_of flag len s in
      if start = fa_pos a * 8 then
        map_option (\<lambda>(s, c). (if FRU_READ_SIZE < len then 0xCA else CC_SUCCESS, s, c)) (fru_read_start a len s c)
      else if start = 0x08 then
        map_option (\<lambda>(s, c). (CC_SUCCESS, s, c)) (fru_read_edit a len s c)
      else if fru_inside flag a start then
        map_option (\<lambda>(s, c). (CC_SUCCESS, s, c)) (fru_read_next a start len s c)
      else Some (CC_DISABLED, s, c))"

text \<open>The position of a read selects the area for it and for the reads that follow.\<close>

definition fru_select :: "u8 \<Rightarrow> fru \<Rightarrow> fru" where
  "fru_select start s =
     (let h = fr_header s in
      if uint start = uint (fh_chassis h) * 8 then s\<lparr>fr_header_flag := 1\<rparr>
      else if uint start = uint (fh_board h) * 8 then s\<lparr>fr_header_flag := 2\<rparr>
      else if uint start = uint (fh_product h) * 8 then s\<lparr>fr_header_flag := 3\<rparr>
      else s)"

definition storage_get_fru :: "fru handler" where
  "storage_get_fru s q r =
     (let start = req_byte q 1; offset = req_byte q 2; len = req_byte q 3;
          finish = (\<lambda>cc s (p, buf). Some (s, set_len (word_of_int p) (set_cc cc r)\<lparr>r_data := buf\<rparr>)) in
      if start = 0 \<and> offset = 0 \<and> (len = 8 \<or> len = FRU_READ_SIZE) then do {
        c \<leftarrow> put_bytes (8 # fru_header_bytes (fr_header s) @ [fru_header_checksum (fr_header s)]) (0, r_data r);
        finish CC_SUCCESS (s\<lparr>fr_edit_flag := if len = FRU_READ_SIZE then 1 else 0\<rparr>) c}
      else
        let s1 = fru_select start s; flag = fr_header_flag s1 in
        if flag = 1 \<or> flag = 2 \<or> flag = 3 then do {
          (cc, s2, c) \<leftarrow> fru_read_area flag start len s1 (0, r_data r);
          finish cc s2 c}
        else finish CC_SUCCESS s1 (0, r_data r))"

definition storage_get_fru_info :: "fru handler" where
  "storage_get_fru_info s q r = Some (s, reply CC_SUCCESS [0x00, 0x01, 0x00] r)"

section \<open>Setters of the web interface\<close>

text \<open>\<open>memcpy\<close> of the fixed-size argument over a member whose text differs; \<open>True\<close> counts as a
  change.\<close>

definition update_member :: "u8 list \<Rightarrow> u8 list \<Rightarrow> bool \<times> u8 list" where
  "update_member new m = (if cstr m \<noteq> cstr new then (True, write_at 0 new m) else (False, m))"

definition plat_fru_device_save :: "fru \<Rightarrow> fru" where
  "plat_fru_device_save s = s\<lparr>fr_saved := Some (fr_header s, fr_board s, fr_product s, fr_chassis s)\<rparr>"

definition save_if :: "bool \<Rightarrow> fru \<Rightarrow> fru" where
  "save_if changed s = (if changed then plat_fru_device_save s else s)"

definition rest_set_fru_header :: "u8 \<Rightarrow> u8 \<Rightarrow> u8 \<Rightarrow> u8 \<Rightarrow> fru \<Rightarrow> fru" where
  "rest_set_fru_header dev h_board h_chassis h_product s = s\<lparr>fr_header :=
     (fr_header s)\<lparr>fh_id := dev, fh_board := h_board, fh_chassis := h_chassis, fh_product := h_product\<rparr>\<rparr>"

definition rest_set_fru_board ::
  "u8 list \<Rightarrow> u8 list \<Rightarrow> u8 list \<Rightarrow> u8 list \<Rightarrow> u8 list \<Rightarrow> fru \<Rightarrow> fru" where
  "rest_set_fru_board date mfg product serial part s =
     (let b = fr_board s;
          (u1, m) = update_member mfg (fb_mfg b); (u2, p) = update_member product (fb_product b);
          (u3, n) = update_member serial (fb_serial b); (u4, k) = update_member part (fb_part_number b)
      in save_if (u1 \<or> u2 \<or> u3 \<or> u4) (s\<lparr>fr_board :=
           \<lparr>fb_mfg_date = write_at 0 date (fb_mfg_date b), fb_mfg = m, fb_product = p, fb_serial = n,
            fb_part_number = k\<rparr>\<rparr>))"

definition rest_set_fru_product ::
  "u8 list \<Rightarrow> u8 list \<Rightarrow> u8 list \<Rightarrow> u8 list \<Rightarrow> u8 list \<Rightarrow> fru \<Rightarrow> fru" where
  "rest_set_fru_product name mfg version serial part s =
     (let p = fr_product s;
          (u1, a) = update_member name (fp_name p); (u2, m) = update_member mfg (fp_mfg p);
          (u3, v) = update_member version (fp_version p); (u4, k) = update_member part (fp_part_number p);
          (u5, n) = update_member serial (fp_serial p)
      in save_if (u1 \<or> u2 \<or> u3 \<or> u4 \<or> u5) (s\<lparr>fr_product :=
           p\<lparr>fp_name := a, fp_mfg := m, fp_version := v, fp_part_number := k, fp_serial := n\<rparr>\<rparr>))"

definition rest_set_fru_chassis :: "u8 \<Rightarrow> u8 list \<Rightarrow> u8 list \<Rightarrow> fru \<Rightarrow> fru" where
  "rest_set_fru_chassis type serial part s =
     (let c = fr_chassis s;
          (u2, n) = update_member serial (fc_serial c); (u3, k) = update_member part (fc_part_number c)
      in save_if (fc_type c \<noteq> type \<or> u2 \<or> u3) (s\<lparr>fr_chassis :=
           \<lparr>fc_type = type, fc_part_number = k, fc_serial = n\<rparr>\<rparr>))"

text \<open>The time of manufacture as the web interface reads it: the first four bytes, high byte first.\<close>

definition fru_config_date :: "fru \<Rightarrow> u32" where
  "fru_config_date s = of_le32 (rev (take 4 (fb_mfg_date (fr_board s))))"

end
