(* ===== verification/Fru_Properties.thy ===== *)
theory Fru_Properties
  imports Fru_Store
begin

text \<open>
  What reading the device gives: the header with a valid checksum, the board area in two reads, and
  where the reads leave the response buffer; and how the setters of the web interface and the reads
  over IPMI disagree.
\<close>

definition fru_inv :: "fru \<Rightarrow> bool" where
  "fru_inv s \<longleftrightarrow> length (fr_chassis_buf s) = 256 \<and> length (fr_board_buf s) = 256
     \<and> length (fr_product_buf s) = 256 \<and> length (fb_mfg_date (fr_board s)) = 16"

section \<open>The data pointer stays in the response\<close>

definition cursor_ok :: "nat \<Rightarrow> cursor \<Rightarrow> bool" where
  "cursor_ok n c \<longleftrightarrow> length (snd c) = n \<and> 0 \<le> fst c"

lemma put_bytes_ok: "put_bytes bs c = Some c' \<Longrightarrow> cursor_ok n c \<Longrightarrow> cursor_ok n c'"
  by (auto simp: put_bytes_def cursor_ok_def length_write_at split: prod.splits if_splits)

lemma copy_bytes_ok: "copy_bytes src off k c = Some c' \<Longrightarrow> cursor_ok n c \<Longrightarrow> cursor_ok n c'"
  by (auto simp: copy_bytes_def cursor_ok_def length_write_at split: prod.splits if_splits)

lemma move_data_ok: "move_data k c = Some c' \<Longrightarrow> cursor_ok n c \<Longrightarrow> cursor_ok n c'"
  by (auto simp: move_data_def cursor_ok_def split: prod.splits if_splits)

lemmas cursor_ok_rules = put_bytes_ok copy_bytes_ok move_data_ok

text \<open>What reading leaves alone: everything but the flags, the length written so far and the unused
  buffer.\<close>

definition fru_static :: "fru \<Rightarrow> fru" where
  "fru_static s = s\<lparr>fr_temp_write := 0, fr_header_flag := 0, fr_edit_flag := 0, fr_write_buffer := []\<rparr>"

lemma fru_static_updates [simp]:
  "fru_static (s\<lparr>fr_temp_write := x\<rparr>) = fru_static s"
  "fru_static (s\<lparr>fr_header_flag := x\<rparr>) = fru_static s"
  "fru_static (s\<lparr>fr_edit_flag := x\<rparr>) = fru_static s"
  "fru_static (s\<lparr>fr_write_buffer := y\<rparr>) = fru_static s"
  by (simp_all add: fru_static_def)

lemma fru_static_select [simp]: "fru_static (fru_select start s) = fru_static s"
  by (simp add: fru_select_def Let_def)

lemma fru_inv_static: "fru_static s' = fru_static s \<Longrightarrow> fru_inv s' = fru_inv s"
  by (cases s; cases s') (simp add: fru_static_def fru_inv_def)

lemma fru_read_area_frame:
  assumes "fru_read_area flag start len s c = Some (cc, s', c')" and "cursor_ok n c"
  shows "fru_static s' = fru_static s" and "cursor_ok n c'"
  using assms
  by (auto simp: fru_read_area_def fru_read_start_def fru_read_edit_def fru_read_next_def Let_def
      split: if_splits Option.bind_splits dest: cursor_ok_rules)

lemma cursor_ok_start: "cursor_ok n (0, b) \<longleftrightarrow> length b = n"
  by (simp add: cursor_ok_def)

text \<open>The read, as its three cases.\<close>

definition is_header_read :: "ipmi_req \<Rightarrow> bool" where
  "is_header_read q \<longleftrightarrow> req_byte q 1 = 0 \<and> req_byte q 2 = 0
     \<and> (req_byte q 3 = 8 \<or> req_byte q 3 = FRU_READ_SIZE)"

definition fru_answer :: "u8 \<Rightarrow> cursor \<Rightarrow> ipmi_res \<Rightarrow> ipmi_res" where
  "fru_answer cc c r = set_len (word_of_int (fst c)) (set_cc cc r)\<lparr>r_data := snd c\<rparr>"

lemma storage_get_fru_header:
  "is_header_read q \<Longrightarrow> storage_get_fru s q r =
     map_option (\<lambda>c. (s\<lparr>fr_edit_flag := if req_byte q 3 = FRU_READ_SIZE then 1 else 0\<rparr>, fru_answer 0 c r))
       (put_bytes (8 # fru_header_bytes (fr_header s) @ [fru_header_checksum (fr_header s)]) (0, r_data r))"
  by (auto simp: storage_get_fru_def is_header_read_def Let_def fru_answer_def split_beta
      split: Option.bind_splits option.splits)

lemma storage_get_fru_area:
  assumes "\<not> is_header_read q" and "s1 = fru_select (req_byte q 1) s"
  shows "storage_get_fru s q r =
    (if fr_header_flag s1 = 1 \<or> fr_header_flag s1 = 2 \<or> fr_header_flag s1 = 3
     then map_option (\<lambda>(cc, s2, c). (s2, fru_answer cc c r))
            (fru_read_area (fr_header_flag s1) (req_byte q 1) (req_byte q 3) s1 (0, r_data r))
     else Some (s1, fru_answer 0 (0, r_data r) r))"
  using assms(1)
  by (auto simp: storage_get_fru_def is_header_read_def Let_def fru_answer_def assms(2) split_beta
      split: Option.bind_splits option.splits)

lemma fru_answer_fits: "cursor_ok 125 c \<Longrightarrow> res_fits (fru_answer cc c r)"
  by (simp add: fru_answer_def res_fits_def cursor_ok_def)

lemma storage_get_fru_frame:
  assumes "storage_get_fru s q r = Some (s', r')"
  shows "fru_static s' = fru_static s" and "res_fits r \<Longrightarrow> res_fits r'"
proof -
  have "fru_static s' = fru_static s \<and> (res_fits r \<longrightarrow> res_fits r')"
  proof (cases "is_header_read q")
    case True
    then show ?thesis
      using assms by (auto simp: storage_get_fru_header res_fits_def [of r] cursor_ok_start
          intro!: fru_answer_fits dest: put_bytes_ok [where n = 125])
  next
    case False
    show ?thesis
      using assms fru_read_area_frame [where n = "length (r_data r)" and c = "(0, r_data r)"]
      by (fastforce simp: storage_get_fru_area [OF False refl] res_fits_def [of r] cursor_ok_start
          intro!: fru_answer_fits split: if_splits)
  qed
  then show "fru_static s' = fru_static s" "res_fits r \<Longrightarrow> res_fits r'" by blast+
qed

lemma fru_commands_safe:
  "safe_for fru_inv storage_get_fru q" "safe_for fru_inv storage_get_fru_info q"
  using storage_get_fru_frame fru_inv_static
  by (blast intro: safe_forI) (auto simp: safe_for_def storage_get_fru_info_def)

section \<open>The header\<close>

lemma fru_header_checksum_sum:
  "fru_header_checksum h = - sum_list (fru_header_bytes h)"
  using keti_ipmi_checksum_sum [of 7 "fru_header_bytes h"]
  by (simp add: fru_header_checksum_def fru_header_bytes_def)

lemma res_payload_fru_answer:
  "0 \<le> fst c \<Longrightarrow> fst c \<le> 255 \<Longrightarrow> res_payload (fru_answer cc c r) = take (nat (fst c)) (snd c)"
  by (simp add: res_payload_def fru_answer_def unat_eq_nat_uint uint_word_of_int mod_pos_pos_trivial)

text \<open>A client that reads the header gets its size and eight bytes that sum to zero, whatever the
  header holds.\<close>

theorem fru_header_checksum_valid:
  assumes "is_header_read q" and "res_fits r"
  shows "\<exists>s' r'. storage_get_fru s q r = Some (s', r') \<and> r_cc r' = CC_SUCCESS
    \<and> length (res_payload r') = 9 \<and> hd (res_payload r') = 8 \<and> sum_list (tl (res_payload r')) = 0
    \<and> butlast (tl (res_payload r')) = fru_header_bytes (fr_header s)"
proof -
  let ?bs = "8 # fru_header_bytes (fr_header s) @ [fru_header_checksum (fr_header s)]"
  have len: "length ?bs = 9" by (simp add: fru_header_bytes_def)
  have put: "put_bytes ?bs (0, r_data r) = Some (9, write_at 0 ?bs (r_data r))"
    using assms(2) len by (simp add: put_bytes_def res_fits_def del: length_Cons length_append)
  have "take 9 (write_at 0 ?bs (r_data r)) = ?bs"
    using take_write_at_0 [of ?bs "r_data r"] len by simp
  then have p: "res_payload (fru_answer 0 (9, write_at 0 ?bs (r_data r)) r) = ?bs"
    by (simp add: res_payload_fru_answer)
  have "storage_get_fru s q r = Some (s\<lparr>fr_edit_flag := if req_byte q 3 = FRU_READ_SIZE then 1 else 0\<rparr>,
      fru_answer 0 (9, write_at 0 ?bs (r_data r)) r)"
    unfolding storage_get_fru_header [OF assms(1)] put by simp
  moreover have "sum_list (tl ?bs) = 0" by (simp add: fru_header_checksum_sum)
  moreover have "butlast (tl ?bs) = fru_header_bytes (fr_header s)" by simp
  moreover have "r_cc (fru_answer 0 c r) = 0" for c by (simp add: fru_answer_def)
  ultimately show ?thesis using p len by (metis list.sel(1))
qed

definition read_fru_request :: "u8 \<Rightarrow> u8 \<Rightarrow> ipmi_req" where
  "read_fru_request start len = \<lparr>q_netfn = 0x0A, q_cmd = 0x11, q_data = [0, start, 0, len]\<rparr>"

theorem fru_header_checksum_valid_witness:
  "\<exists>s' r'. storage_get_fru (the (plat_fru_device_init [])) (read_fru_request 0 8) blank_res = Some (s', r')
     \<and> sum_list (tl (res_payload r')) = 0"
  using fru_header_checksum_valid [of "read_fru_request 0 8" blank_res "the (plat_fru_device_init [])"]
  by (auto simp: is_header_read_def read_fru_request_def)

section \<open>The board area\<close>

lemma byte_times_8: "uint p \<le> 31 \<Longrightarrow> uint ((p :: u8) * 8) = uint p * 8"
  by (simp add: uint_word_ariths mod_pos_pos_trivial)

lemma byte_times_8_add: "uint p \<le> 27 \<Longrightarrow> uint ((p :: u8) * 8 + 29) = uint p * 8 + 29"
  by (simp add: uint_word_ariths mod_pos_pos_trivial mod_simps)


lemma take_write_at_prefix:
  "k \<le> length buf \<Longrightarrow> take (k + length bs) (write_at k bs buf) = take k buf @ bs"
  by (simp add: write_at_def)

text \<open>The first and the second read of an area whose total length exceeds what the first one holds.\<close>

lemma fru_first_read:
  assumes "length buf = 125" and "length (fa_buf a) = 256" and "0 \<le> fa_header_length a"
    and "int (length (fa_extra a)) + 2 = fa_header_length a" and "fa_header_length a \<le> 6"
  shows "\<exists>buf'. fru_read_start a 29 s (0, buf) = Some (s\<lparr>fr_temp_write := 29\<rparr>, (30, buf'))
    \<and> take 30 buf' = [29, fa_version a, area_length (fa_total a)] @ fa_extra a
        @ take (nat (29 - fa_header_length a)) (fa_buf a)"
proof -
  let ?pre = "[29, fa_version a, area_length (fa_total a)] @ fa_extra a"
  define k where "k = length (fa_extra a)"
  have k: "k \<le> 4" "length ?pre = 3 + k" "fa_header_length a = int k + 2"
    using assms(3-5) by (simp_all add: k_def)
  let ?b1 = "write_at 0 ?pre buf"
  let ?b2 = "write_at (3 + k) (take 29 (fa_buf a)) ?b1"
  have l1: "length ?b1 = 125" using assms(1) k by (simp add: length_write_at)
  have put: "put_bytes ?pre (0, buf) = Some (3 + int k, ?b1)"
    using assms(1) k by (simp add: put_bytes_def)
  have cp: "copy_bytes (fa_buf a) 0 29 (3 + int k, ?b1) = Some (3 + int k, ?b2)"
    using assms(2) l1 k(1) by (simp add: copy_bytes_def nat_add_distrib)
  have l2: "length ?b2 = 125" using assms(2) l1 k(1) by (simp add: length_write_at)
  have mv: "move_data (29 - fa_header_length a) (3 + int k, ?b2) = Some (30, ?b2)"
    using l2 k by (simp add: move_data_def)
  have "take 30 ?b2 = take (3 + k) ?b1 @ take (27 - k) (take 29 (fa_buf a))"
    using l1 k(1) assms(2) by (simp add: write_at_def [of "3 + k"] min_def)
  also have "take (3 + k) ?b1 = ?pre" by (metis k(2) take_write_at_0)
  also have "take (27 - k) (take 29 (fa_buf a)) = take (nat (29 - fa_header_length a)) (fa_buf a)"
  proof -
    have "nat (29 - fa_header_length a) = 27 - k" using k by (simp add: nat_diff_distrib)
    moreover have "min (27 - k) 29 = 27 - k" by simp
    ultimately show ?thesis by (simp del: min.bounded_iff)
  qed
  finally have t: "take 30 ?b2 = ?pre @ take (nat (29 - fa_header_length a)) (fa_buf a)" .
  have "fru_read_start a 29 s (0, buf) = Some (s\<lparr>fr_temp_write := 29\<rparr>, (30, ?b2))"
    using put cp mv by (simp add: fru_read_start_def)
  with t show ?thesis by (intro exI [of _ ?b2]) simp
qed

lemma fru_second_read:
  assumes "length buf = 125" and "length (fa_buf a) = 256" and "uint start = uint (fa_pos a) * 8 + 29"
    and "29 < fa_total a" and "fa_total a - 29 + fa_header_length a \<le> 124" and "fa_total a \<le> 256"
    and "2 \<le> fa_header_length a" and "fa_header_length a \<le> 6" and "fr_temp_write s = 29"
  shows "\<exists>s' n buf'. fru_read_next a start len s (0, buf) = Some (s', (n, buf')) \<and> 0 \<le> n \<and> n \<le> 255
    \<and> take (nat n) buf' = len # drop (nat (29 - fa_header_length a)) (take (nat (fa_total a)) (fa_buf a))"
proof -
  define h where "h = fa_header_length a"
  define m where "m = fa_total a - 29 + h"
  define src where "src = take (nat m) (drop (nat (29 - h)) (fa_buf a))"
  have m: "0 \<le> m" "m \<le> 124" "29 - h + m = fa_total a" and h: "0 \<le> 29 - h"
    using assms by (simp_all add: m_def h_def)
  have lsrc: "length src = nat m"
    using m h assms(2,6) by (simp add: src_def nat_le_iff)
  let ?b1 = "write_at 0 [len] buf"
  let ?b2 = "write_at 1 src ?b1"
  have l1: "length ?b1 = 125" using assms(1) by (simp add: length_write_at)
  have put: "put_bytes [len] (0, buf) = Some (1, ?b1)"
    using assms(1) by (simp add: put_bytes_def)
  have cp: "copy_bytes (fa_buf a) (29 - h) m (1, ?b1) = Some (1, ?b2)"
    using m h l1 assms(2,6) by (simp add: copy_bytes_def src_def)
  have l2: "length ?b2 = 125" using l1 lsrc m by (simp add: length_write_at)
  have mv: "move_data m (1, ?b2) = Some (1 + m, ?b2)" using l2 m by (simp add: move_data_def)
  have t: "take (nat (1 + m)) ?b2 = take 1 ?b1 @ src"
    using take_write_at_prefix [of 1 ?b1 src] l1 lsrc m by (simp add: nat_add_distrib)
  have t1: "take 1 ?b1 = [len]" using take_write_at_0 [of "[len]" buf] by simp
  have src: "src = drop (nat (29 - h)) (take (nat (fa_total a)) (fa_buf a))"
  proof -
    have "nat m = nat (fa_total a) - nat (29 - h)" using m h by (simp add: nat_diff_distrib [symmetric])
    then show ?thesis by (simp add: src_def drop_take)
  qed
  have t2: "take (nat (1 + m)) ?b2 = len # drop (nat (29 - h)) (take (nat (fa_total a)) (fa_buf a))"
    unfolding t t1 by (simp add: src)
  have "fru_read_next a start len s (0, buf)
      = Some (s\<lparr>fr_temp_write := fr_temp_write s + len\<rparr>, (1 + m, ?b2))"
    using put cp mv assms(3,4,9) by (simp add: fru_read_next_def Let_def h_def m_def)
  moreover have "0 \<le> 1 + m" "1 + m \<le> 255" using m by simp_all
  ultimately show ?thesis using t2 unfolding h_def by blast
qed

lemma fru_select_board:
  assumes "uint start = uint (fh_board (fr_header s)) * 8" and "fh_chassis (fr_header s) \<noteq> fh_board (fr_header s)"
  shows "fru_select start s = s\<lparr>fr_header_flag := 2\<rparr>"
  using assms by (auto simp: fru_select_def Let_def word_uint_eq_iff)

lemma fru_select_odd:
  assumes "uint start = 8 * k + 29"
  shows "fru_select start s = s"
proof -
  have "uint start \<noteq> uint p * 8" for p :: u8
    using assms by presburger
  then show ?thesis by (simp add: fru_select_def Let_def)
qed

text \<open>A client that reads the board area in two reads of \<open>FRU_READ_SIZE\<close> bytes gets, after the length
  byte of each answer, the whole area: version, length, the four date bytes and the fields.\<close>

theorem fru_board_read_complete:
  assumes "fru_inv s" and "res_fits r1" and "res_fits r2"
    and "b = fh_board (fr_header s)" and "fh_chassis (fr_header s) \<noteq> b" and "0 < uint b" and "uint b \<le> 27"
    and "29 < fr_board_total s" and "fr_board_total s \<le> 147"
  shows "\<exists>s1 a1 s2 a2.
    storage_get_fru s (read_fru_request (b * 8) FRU_READ_SIZE) r1 = Some (s1, a1)
    \<and> storage_get_fru s1 (read_fru_request (b * 8 + 29) FRU_READ_SIZE) r2 = Some (s2, a2)
    \<and> tl (res_payload a1) @ tl (res_payload a2)
        = [0x02, area_length (fr_board_total s)] @ date_bytes (fr_board s)
          @ take (nat (fr_board_total s)) (fr_board_buf s)"
proof -
  let ?q1 = "read_fru_request (b * 8) FRU_READ_SIZE"
  let ?q2 = "read_fru_request (b * 8 + 29) FRU_READ_SIZE"
  let ?t0 = "s\<lparr>fr_header_flag := 2\<rparr>"
  let ?t1 = "s\<lparr>fr_header_flag := 2, fr_temp_write := 29\<rparr>"
  define a where "a = fru_area_of 2 29 ?t0"
  have a: "fa_pos a = b" "fa_buf a = fr_board_buf s" "fa_total a = fr_board_total s"
    "fa_header_length a = 6" "fa_version a = 2" "fa_extra a = date_bytes (fr_board s)"
    "length (fa_extra a) = 4" "length (fa_buf a) = 256"
    using assms(1,4) by (simp_all add: a_def fru_area_of_def date_bytes_def fru_inv_def)
  have a1: "fru_area_of 2 29 ?t1 = a" by (simp add: a_def fru_area_of_def)
  have u: "uint (b * 8) = uint b * 8" "uint (b * 8 + 29) = uint b * 8 + 29"
    using assms(7) by (simp_all add: byte_times_8 byte_times_8_add)
  have nh: "\<not> is_header_read ?q1" "\<not> is_header_read ?q2"
    using u assms(6) by (auto simp: is_header_read_def read_fru_request_def)
  have ne: "b * 8 + 29 \<noteq> b * 8" "b * 8 + 29 \<noteq> (8 :: u8)" "b * 8 < b * 8 + 29"
    using u assms(6) by (auto simp: word_uint_eq_iff word_less_def)
  obtain buf1 where f1: "fru_read_start a 29 ?t0 (0, r_data r1) = Some (?t1, (30, buf1))"
    "take 30 buf1 = [29, 2, area_length (fr_board_total s)] @ date_bytes (fr_board s)
       @ take 23 (fr_board_buf s)"
    using fru_first_read [of "r_data r1" a ?t0] assms(2) a by (auto simp: res_fits_def)
  have s1: "storage_get_fru s ?q1 r1 = Some (?t1, fru_answer 0 (30, buf1) r1)"
    using storage_get_fru_area [OF nh(1) refl] fru_select_board [of "b * 8" s] u(1) assms(4,5) f1(1) a
    by (simp add: read_fru_request_def fru_read_area_def Let_def a_def [symmetric])
  obtain s2 n buf2 where f2: "fru_read_next a (b * 8 + 29) 29 ?t1 (0, r_data r2) = Some (s2, (n, buf2))"
    "0 \<le> n" "n \<le> 255" "take (nat n) buf2 = 29 # drop 23 (take (nat (fr_board_total s)) (fr_board_buf s))"
    using fru_second_read [of "r_data r2" a "b * 8 + 29" ?t1 29] assms(3,8,9) a u(2)
    by (auto simp: res_fits_def)
  have s2: "storage_get_fru ?t1 ?q2 r2 = Some (s2, fru_answer 0 (n, buf2) r2)"
    using storage_get_fru_area [OF nh(2) refl] fru_select_odd [of "b * 8 + 29" "uint b" ?t1] u(2) f2(1) a ne
    by (simp add: read_fru_request_def fru_read_area_def Let_def a1 fru_inside_def)
  have "tl (res_payload (fru_answer 0 (30, buf1) r1)) @ tl (res_payload (fru_answer 0 (n, buf2) r2))
      = [0x02, area_length (fr_board_total s)] @ date_bytes (fr_board s)
          @ take 23 (take (nat (fr_board_total s)) (fr_board_buf s))
          @ drop 23 (take (nat (fr_board_total s)) (fr_board_buf s))"
    using f1(2) f2(2-4) assms(8) nat_mono [of 23 "fr_board_total s"]
    by (simp add: res_payload_fru_answer min_absorb1)
  then have "tl (res_payload (fru_answer 0 (30, buf1) r1)) @ tl (res_payload (fru_answer 0 (n, buf2) r2))
      = [0x02, area_length (fr_board_total s)] @ date_bytes (fr_board s)
          @ take (nat (fr_board_total s)) (fr_board_buf s)"
    by (simp only: append_take_drop_id)
  with s1 s2 show ?thesis by blast
qed

section \<open>The device after start-up\<close>

definition booted_fru :: fru where
  "booted_fru = the (plat_fru_device_init (replicate 128 0))"

lemma cstr_strcpy: "0 \<notin> set (ascii x) \<Longrightarrow> cstr (strcpy x m) = ascii x"
  by (auto simp: cstr_def strcpy_def write_at_def takeWhile_append)

lemmas booted_fru_simps = booted_fru_def plat_fru_device_init_def plat_fru_data_init_def Let_def
  chassis_area_def board_area_def product_area_def fru_field_def cstr_strcpy ascii_def

lemma booted_fru_header: "fh_board (fr_header booted_fru) = 4" "fh_chassis (fr_header booted_fru) = 3"
  by (simp_all add: booted_fru_simps)

lemma booted_fru_inv: "fru_inv booted_fru"
  by (simp add: fru_inv_def booted_fru_simps length_write_at)

lemma booted_fru_board_total: "fr_board_total booted_fru = 43"
  by (simp add: booted_fru_simps)

theorem fru_board_read_complete_witness:
  "\<exists>s1 a1 s2 a2. storage_get_fru booted_fru (read_fru_request 32 29) blank_res = Some (s1, a1)
    \<and> storage_get_fru s1 (read_fru_request 61 29) blank_res = Some (s2, a2)
    \<and> tl (res_payload a1) @ tl (res_payload a2)
        = [0x02, 7] @ date_bytes (fr_board booted_fru) @ take 43 (fr_board_buf booted_fru)"
  using fru_board_read_complete [OF booted_fru_inv res_fits_blank res_fits_blank, of 4]
  by (simp add: booted_fru_header booted_fru_board_total area_length_def)

section \<open>Reads outside the response\<close>

text \<open>While an area is selected, a read at byte 8 copies as many bytes as the request names: from 124
  on it leaves the response. (For the chassis, outside an edit.)\<close>

theorem fru_chassis_overread_iff:
  assumes "fru_inv s" and "res_fits r" and "fr_header_flag s = 1" and "fr_edit_flag s = 0"
    and "fh_chassis (fr_header s) \<noteq> 1" and "fh_board (fr_header s) \<noteq> 1" and "fh_product (fr_header s) \<noteq> 1"
    and "uint (fh_chassis (fr_header s)) \<le> 31"
  shows "storage_get_fru s (read_fru_request 8 len) r = None \<longleftrightarrow> 123 < uint len"
proof -
  let ?q = "read_fru_request 8 len"
  have ne: "uint p * 8 \<noteq> 8" if "p \<noteq> 1" for p :: u8
    using that by (auto simp: word_uint_eq_iff)
  have sel: "fru_select 8 s = s"
    using assms(5-7) ne by (simp add: fru_select_def Let_def)
  have pos: "fh_chassis (fr_header s) * 8 \<noteq> 8"
    using ne [OF assms(5)] byte_times_8 [OF assms(8)] by (simp add: word_uint_eq_iff)
  have nh: "\<not> is_header_read ?q" by (simp add: is_header_read_def read_fru_request_def)
  have len: "length (write_at 0 [1, 126] (r_data r)) = 125"
    using assms(2) by (simp add: length_write_at res_fits_def)
  have len2: "length (write_at 2 (take (unat len) (fr_chassis_buf s)) (write_at 0 [1, 126] (r_data r))) = 125"
    if "uint len \<le> 123"
  proof -
    have "unat len \<le> 123" using that uint_less_int_iff [of len 124] by simp
    then show ?thesis using len by (simp add: length_write_at)
  qed
  have pos': "fa_pos (fru_area_of 1 len s) = fh_chassis (fr_header s)" by (simp add: fru_area_of_def)
  have buf: "length (fr_chassis_buf s) = 256" using assms(1) by (simp add: fru_inv_def)
  have put: "put_bytes [1, 126] (0, r_data r) = Some (2, write_at 0 [1, 126] (r_data r))"
    using assms(2) by (simp add: put_bytes_def res_fits_def)
  let ?c = "write_at 2 (take (unat len) (fr_chassis_buf s)) (write_at 0 [1, 126] (r_data r))"
  have copy: "copy_bytes (fr_chassis_buf s) 0 (uint len) (2, write_at 0 [1, 126] (r_data r))
      = (if uint len \<le> 123 then Some (2, ?c) else None)"
    using len buf uint_le_255 [of len] by (simp add: copy_bytes_def)
  have move: "move_data (uint len - 2) (2, ?c) \<noteq> None" if "uint len \<le> 123"
    using len2 [OF that] that by (simp add: move_data_def)
  have "fru_read_edit (fru_area_of 1 len s) len s (0, r_data r) = None \<longleftrightarrow> 123 < uint len"
    using assms(4) put copy move
    by (cases "uint len \<le> 123") (auto simp: fru_read_edit_def fru_area_of_def)
  then show ?thesis
    using storage_get_fru_area [OF nh refl, of s r] sel assms(3) pos pos'
    by (simp add: read_fru_request_def fru_read_area_def Let_def)
qed

theorem fru_chassis_overread_iff_witness:
  "storage_get_fru booted_fru (read_fru_request 8 200) blank_res = None"
  using fru_chassis_overread_iff [OF booted_fru_inv res_fits_blank, of 200]
  by (simp add: booted_fru_simps)

section \<open>The web interface and IPMI\<close>

text \<open>Reading does not depend on the chassis and product information, only on the areas built from
  them at start-up.\<close>

definition with_info :: "fru_chassis_info \<Rightarrow> fru_product_info \<Rightarrow>
    (fru_header \<times> fru_board_info \<times> fru_product_info \<times> fru_chassis_info) option \<Rightarrow> fru \<Rightarrow> fru" where
  "with_info c p v s = s\<lparr>fr_chassis := c, fr_product := p, fr_saved := v\<rparr>"

lemma with_info_sel [simp]:
  "fr_header (with_info c p v s) = fr_header s" "fr_board (with_info c p v s) = fr_board s"
  "fr_header_flag (with_info c p v s) = fr_header_flag s"
  "fr_edit_flag (with_info c p v s) = fr_edit_flag s" "fr_temp_write (with_info c p v s) = fr_temp_write s"
  "(with_info c p v s)\<lparr>fr_temp_write := x\<rparr> = with_info c p v (s\<lparr>fr_temp_write := x\<rparr>)"
  "(with_info c p v s)\<lparr>fr_header_flag := x\<rparr> = with_info c p v (s\<lparr>fr_header_flag := x\<rparr>)"
  "(with_info c p v s)\<lparr>fr_edit_flag := x\<rparr> = with_info c p v (s\<lparr>fr_edit_flag := x\<rparr>)"
  "(with_info c p v s)\<lparr>fr_write_buffer := y\<rparr> = with_info c p v (s\<lparr>fr_write_buffer := y\<rparr>)"
  by (simp_all add: with_info_def)

lemma fru_select_with_info [simp]: "fru_select st (with_info c p v s) = with_info c p v (fru_select st s)"
  by (simp add: fru_select_def Let_def)

lemma fru_area_with_info [simp]: "fru_area_of flag len (with_info c p v s) = fru_area_of flag len s"
  by (simp add: fru_area_of_def) (simp add: with_info_def)

lemma fru_reads_with_info:
  "fru_read_start a len (with_info c p v s) k = map_option (apfst (with_info c p v)) (fru_read_start a len s k)"
  "fru_read_edit a len (with_info c p v s) k = map_option (apfst (with_info c p v)) (fru_read_edit a len s k)"
  "fru_read_next a st len (with_info c p v s) k
     = map_option (apfst (with_info c p v)) (fru_read_next a st len s k)"
  by (simp_all add: fru_read_start_def fru_read_edit_def fru_read_next_def Let_def map_option_bind
      option.map_comp comp_def)

lemma fru_read_area_with_info:
  "fru_read_area flag st len (with_info c p v s) k =
     map_option (\<lambda>(cc, s', k'). (cc, with_info c p v s', k')) (fru_read_area flag st len s k)"
  by (simp add: fru_read_area_def fru_reads_with_info Let_def option.map_comp split_beta comp_def
      apfst_def map_prod_def)

lemma storage_get_fru_with_info:
  "map_option snd (storage_get_fru (with_info c p v s) q r) = map_option snd (storage_get_fru s q r)"
proof (cases "is_header_read q")
  case True
  then show ?thesis by (simp add: storage_get_fru_header option.map_comp comp_def)
next
  case False
  show ?thesis
    by (simp add: storage_get_fru_area [OF False refl] fru_read_area_with_info option.map_comp comp_def
        split_beta)
qed

lemma save_if_with_info:
  "\<exists>v. save_if ch (s\<lparr>fr_chassis := c\<rparr>) = with_info c (fr_product s) v s"
  "\<exists>v. save_if ch (s\<lparr>fr_product := p\<rparr>) = with_info (fr_chassis s) p v s"
  by (cases s; cases ch; auto simp: save_if_def plat_fru_device_save_def with_info_def
      intro: exI [of _ "fr_saved s"])+

text \<open>Chassis and product information set through the web interface never shows in an IPMI read: the
  areas are built once, at start-up.\<close>

theorem fru_setters_not_read:
  "map_option snd (storage_get_fru (rest_set_fru_chassis t n k s) q r) = map_option snd (storage_get_fru s q r)
   \<and> map_option snd (storage_get_fru (rest_set_fru_product a m v n k s) q r)
     = map_option snd (storage_get_fru s q r)"
proof -
  have 1: "\<exists>c p v. rest_set_fru_chassis t n k s = with_info c p v s"
    unfolding rest_set_fru_chassis_def Let_def split_beta using save_if_with_info(1) by blast
  have 2: "\<exists>c p w. rest_set_fru_product a m v n k s = with_info c p w s"
    unfolding rest_set_fru_product_def Let_def split_beta using save_if_with_info(2) by blast
  show ?thesis
    using 1 2 by (metis storage_get_fru_with_info)
qed

text \<open>The two views of the manufacturing date: the web interface keeps it as four bytes, of which an
  IPMI read shows only the first, followed by the old value.\<close>

theorem fru_date_views_differ:
  fixes m p n k
  assumes "fru_inv s" and "length d = 4"
  defines "s' \<equiv> rest_set_fru_board d m p n k s"
  shows "fru_config_date s' = of_le32 (rev d)
    \<and> date_bytes (fr_board s') = hd d # tl (date_bytes (fr_board s))"
proof
  have date: "fb_mfg_date (fr_board s') = write_at 0 d (fb_mfg_date (fr_board s))"
    by (simp add: s'_def rest_set_fru_board_def save_if_def plat_fru_device_save_def Let_def split_beta)
  show "fru_config_date s' = of_le32 (rev d)"
    using take_write_at_0 [of d] assms(2) by (simp add: fru_config_date_def date)
  have len: "length (fb_mfg_date (fr_board s)) = 16" using assms(1) by (simp add: fru_inv_def)
  have date: "fb_mfg_date (fr_board s') = write_at 0 d (fb_mfg_date (fr_board s))"
    by (simp add: s'_def rest_set_fru_board_def save_if_def plat_fru_device_save_def Let_def split_beta)
  show "date_bytes (fr_board s') = hd d # tl (date_bytes (fr_board s))"
    using len assms(2)
    by (simp add: date_bytes_def date upt_rec nth_write_at_hit nth_write_at_miss hd_conv_nth)
      (cases d; simp add: write_at_def)
qed

theorem fru_date_views_differ_witness:
  "date_bytes (fr_board (rest_set_fru_board [0x5F, 0xEE, 0x66, 0] [] [] [] [] booted_fru))
     = [0x5F, 0xC0, 0x1B, 0xBA]"
  using fru_date_views_differ [OF booted_fru_inv, of "[0x5F, 0xEE, 0x66, 0]" "[]" "[]" "[]" "[]"]
  by (simp add: date_bytes_def upt_rec) (simp add: booted_fru_simps le32_def)

end
