(* ===== verification/Handler_Safety.thy ===== *)
theory Handler_Safety
  imports Sel_Facts Sdr_Properties User_Properties Channel_Cfg Session_Mgr Chassis_Ctl Dcmi_Cfg
    App_Cmds Lan_Config Pef_Properties Fru_Properties
begin

text \<open>
  The contract \<open>safe_for\<close> for every command the dispatcher can select: the component's invariant is
  kept and the response stays inside its 125 data bytes, whatever the request holds. The log needs
  a weaker invariant than the one of \<open>Sel_Facts\<close>, because deleting from an empty log breaks that
  one; so does the repository, because it can be cleared.
\<close>

section \<open>System event log\<close>

definition sel_shape :: "sel \<Rightarrow> bool" where
  "sel_shape s \<longleftrightarrow> length (s_data s) = 256 \<and> (\<forall>i < 256. length (s_data s ! i) = 16)
     \<and> sel_end s \<le> 256 \<and> length (h_ts_add (s_hdr s)) = 4 \<and> length (h_ts_erase (s_hdr s)) = 4"

lemma sel_inv_shape: "sel_inv s \<Longrightarrow> sel_shape s"
  by (simp add: sel_inv_def sel_shape_def)

lemma sel_shape_cong: "s_hdr t = s_hdr s \<Longrightarrow> s_data t = s_data s \<Longrightarrow> sel_shape t = sel_shape s"
  by (simp add: sel_shape_def)

lemma sel_shape_time_stamp [simp]: "sel_shape (snd (time_stamp_fill s)) = sel_shape s"
  by (rule sel_shape_cong) simp_all

lemma sel_shape_add_core:
  assumes "sel_shape s" and "length m = 16"
  shows "sel_shape (snd (plat_sel_add_core s m))"
  using assms
  by (auto simp: plat_sel_add_core_def sel_shape_def Let_def split_beta nth_list_update
      time_stamp_fill_def set_end_def set_slot_def plat_sel_add_entry_record_id_def write_at_def)

lemma sel_shape_add: "sel_shape s \<Longrightarrow> length m = 16 \<Longrightarrow> sel_shape (snd (plat_sel_add_entry s m))"
proof (induction s m rule: plat_sel_add_entry.induct)
  case (1 s m)
  obtain c s1 where c: "plat_sel_add_core s m = (c, s1)" by (cases "plat_sel_add_core s m")
  have s1: "sel_shape s1" using sel_shape_add_core [OF 1(2,3)] c by simp
  obtain ts s2 where t: "time_stamp_fill s1 = (ts, s2)" by (cases "time_stamp_fill s1")
  have s2: "sel_shape s2" "length ts = 4"
    using sel_shape_time_stamp [of s1] time_stamp_fill_frame(6) [of s1] t s1 by simp_all
  show ?case
  proof (cases "\<exists>i. c = Ret (i, True)")
    case True
    then obtain i where i: "c = Ret (i, True)" ..
    have "sel_shape (snd (plat_sel_add_entry s2 (sel_full_entry ts)))"
      using 1(1) [OF c [symmetric] i refl TrueI t [symmetric] refl] s2 by simp
    then show ?thesis
      using c i t by (subst plat_sel_add_entry.simps) (auto split: prod.splits cres.splits)
  next
    case False
    then show ?thesis
      using c s1 by (subst plat_sel_add_entry.simps) (auto split: prod.splits cres.splits if_splits)
  qed
qed

lemma sel_shape_store_all:
  assumes "sel_shape s"
  shows "sel_shape (snd (file_store_all_sel_data s))"
  using assms file_store_all_memory [of s] by (simp add: sel_shape_def)

lemma sel_shape_delete:
  assumes "sel_shape s" and "0 \<le> rid"
  shows "sel_shape (snd (delete_sel_entry rid s))"
proof -
  have "sel_shape (delete_memory rid s)"
    using assms length_nth_shift_down [of "s_data s" 16 rid "sel_end s - 1"]
    by (auto simp: sel_shape_def)
  then have "sel_shape (snd (file_store_sel_hdr (delete_memory rid s)))"
    by (simp add: sel_shape_def)
  then show ?thesis
    using sel_shape_store_all by (auto simp: delete_sel_entry_eq Let_def split_beta)
qed

lemma sel_shape_erase: "sel_shape s \<Longrightarrow> sel_shape (snd (plat_sel_erase n s))"
proof -
  assume s: "sel_shape s"
  define s1 where "s1 = s\<lparr>s_hdr := (s_hdr s)\<lparr>h_begin := 0, h_end := 0\<rparr>\<rparr>"
  obtain ts s2 where t: "time_stamp_fill s1 = (ts, s2)" by (cases "time_stamp_fill s1")
  define s3 where "s3 = s2\<lparr>s_hdr := (s_hdr s2)\<lparr>h_ts_erase := ts\<rparr>\<rparr>"
  obtain rc s4 where st: "file_store_sel_hdr s3 = (rc, s4)" by (cases "file_store_sel_hdr s3")
  obtain ts2 s5 where t2: "time_stamp_fill s4 = (ts2, s5)" by (cases "time_stamp_fill s4")
  have "s_hdr s2 = s_hdr s1" "s_data s2 = s_data s1" "length ts = 4"
    using time_stamp_fill_frame(1,2,6) [of s1] t by simp_all
  then have "sel_shape s3" using s by (simp add: s3_def s1_def sel_shape_def)
  then have s4: "sel_shape s4"
    using file_store_sel_hdr_frame(1,2) [of s3] st sel_shape_cong [of s4 s3] by simp
  then have s5: "sel_shape s5" "length ts2 = 4"
    using sel_shape_time_stamp [of s4] time_stamp_fill_frame(6) [of s4] t2 by simp_all
  then have "sel_shape (snd (plat_sel_add_entry s5 (sel_cleared_entry ts2 (s_junk s5))))"
    by (intro sel_shape_add) (simp_all add: sel_cleared_entry_def)
  then show ?thesis
    using s s4 t st t2
    by (auto simp: plat_sel_erase_def Let_def s1_def [symmetric] s3_def [symmetric]
        split: prod.splits cres.splits)
qed

lemma sel_add_reply_safe:
  assumes "sel_shape s" and "length m = 16" and "\<And>n. length (enc n) \<le> 2"
    and "sel_add_reply (plat_sel_add_entry s m) enc r = Some (s', r')"
  shows "sel_shape s' \<and> (res_fits r \<longrightarrow> res_fits r')"
  using sel_shape_add [OF assms(1,2)] assms(3,4) order_trans [OF assms(3), of 125]
  by (auto simp: sel_add_reply_def split: prod.splits cres.splits)

lemma sel_entry_length:
  "sel_shape s \<Longrightarrow> plat_sel_get_entry s rid = Ret (e, n) \<Longrightarrow> length e = 16"
  by (auto simp: plat_sel_get_entry_def sel_shape_def Let_def split: if_splits)

lemma pef_get_status_safe: "safe_for sel_shape pef_get_status q"
  by (simp add: safe_for_def pef_get_status_def plat_sel_last_rsv_id_def)

lemma sel_commands_safe:
  "safe_for sel_shape storage_get_sel_info q" "safe_for sel_shape storage_rsv_sel q"
  "safe_for sel_shape storage_get_sel q" "safe_for sel_shape storage_add_sel q"
  "safe_for sel_shape storage_del_sel_entry q" "safe_for sel_shape storage_clr_sel q"
  "safe_for sel_shape sensor_event_get_num q"
proof -
  show "safe_for sel_shape storage_get_sel_info q"
    by (rule safe_for_frame) (simp add: storage_get_sel_info_def sel_shape_def)
  show "safe_for sel_shape storage_rsv_sel q"
    by (rule safe_forI) (auto simp: storage_rsv_sel_def plat_sel_rsv_id_def sel_shape_def Let_def
        split: if_splits)
  show "safe_for sel_shape storage_get_sel q"
    by (rule safe_forI) (auto simp: storage_get_sel_def dest: sel_entry_length split: cres.splits)
  show "safe_for sel_shape storage_add_sel q" "safe_for sel_shape sensor_event_get_num q"
    unfolding safe_for_def storage_add_sel_def sensor_event_get_num_def
    by (intro allI impI; erule sel_add_reply_safe [rotated 3]; simp)+
  show "safe_for sel_shape storage_del_sel_entry q"
    by (rule safe_forI) (auto simp: storage_del_sel_entry_def split_beta sel_shape_delete)
  show "safe_for sel_shape storage_clr_sel q"
  proof (rule safe_forI)
    fix s r s' r'
    assume s: "sel_shape s" and h: "storage_clr_sel s q r = Some (s', r')"
    show "sel_shape s'"
      using s h sel_shape_erase [OF s, of "push_bit 8 (uint (req_byte q 1)) OR uint (req_byte q 0)"]
      by (auto simp: storage_clr_sel_def Let_def split: if_splits prod.splits cres.splits)
    assume "res_fits r"
    then show "res_fits r'"
      using h by (auto simp: storage_clr_sel_def Let_def split: if_splits prod.splits cres.splits)
  qed
qed

section \<open>Sensor repository\<close>

definition record_ok :: "nat \<times> ipmisdr \<Rightarrow> bool" where
  "record_ok p \<longleftrightarrow> sensor_ok (i_rec (snd p)) \<and> length (i_rec_id (snd p)) = 2"

definition sdr_shape :: "sdr \<Rightarrow> bool" where
  "sdr_shape s \<longleftrightarrow> list_all (\<lambda>e. list_all record_ok (snd e)) (sd_recs s)"

lemma sdr_inv_shape: "sdr_inv s \<Longrightarrow> sdr_shape s"
  unfolding sdr_inv_def sdr_shape_def list_all_length [of _ "sd_recs s"]
  by (auto simp: inner_ok_def record_ok_def list_all_iff)

lemma list_all_map_of: "list_all P xs \<Longrightarrow> map_of xs k = Some v \<Longrightarrow> P (k, v)"
  using map_of_SomeD [of xs k v] by (simp add: list_all_iff)

lemma sdr_entry_length:
  assumes "sdr_shape s" and "plat_sdr_get_entry s rsv rid = Ret (e, n)"
  shows "length e \<le> 66"
proof -
  have "length (sdr_get_rec_to_vector i) = 66"
    if "map_of (sd_recs s) k = Some m" "map_of m j = Some i" for k m j i
  proof -
    have "list_all record_ok m"
      using list_all_map_of [OF assms(1) [unfolded sdr_shape_def] that(1)] by simp
    then have "record_ok (j, i)" using that(2) by (rule list_all_map_of)
    then show ?thesis by (simp add: record_ok_def sdr_get_rec_to_vector_def length_sensor_bytes)
  qed
  then show ?thesis
    using assms(2)
    by (auto simp: plat_sdr_get_entry_def Let_def split: if_splits option.splits)
qed

lemma sdr_thresh_write_ok: "record_ok (j, snd (sdr_thresh_write p q i)) = record_ok (j, i)"
  by (simp add: sdr_thresh_write_def record_ok_def sensor_ok_def Let_def)

lemma set_threshold_scan_shape:
  "set_threshold_scan q rs = Some (found, rs') \<Longrightarrow> list_all (\<lambda>e. list_all record_ok (snd e)) rs
   \<Longrightarrow> list_all (\<lambda>e. list_all record_ok (snd e)) rs'"
  by (induction q rs arbitrary: found rs' rule: set_threshold_scan.induct)
    (auto simp: sdr_thresh_write_ok split: if_splits)

lemma sdr_commands_safe:
  "safe_for sdr_shape sensor_get_reading q" "safe_for sdr_shape sensor_get_threshod q"
  "safe_for sdr_shape sensor_set_threshold q" "safe_for sdr_shape storage_get_sdr_info q"
  "safe_for sdr_shape storage_rsv_sdr q" "safe_for sdr_shape storage_get_sdr q"
  "safe_for sdr_shape storage_clear_sdr_repository q"
proof -
  show "safe_for sdr_shape sensor_get_reading q"
    by (rule safe_forI) (auto simp: sensor_get_reading_def split: if_splits)
  show "safe_for sdr_shape sensor_get_threshod q"
    by (rule safe_forI) (auto simp: sensor_get_threshod_def)
  show "safe_for sdr_shape sensor_set_threshold q"
    by (rule safe_forI)
      (auto simp: sensor_set_threshold_def sdr_shape_def Let_def intro: set_threshold_scan_shape)
  show "safe_for sdr_shape storage_get_sdr_info q"
    by (rule safe_for_frame) (simp add: storage_get_sdr_info_def)
  show "safe_for sdr_shape storage_rsv_sdr q"
    by (rule safe_forI) (auto simp: storage_rsv_sdr_def plat_sdr_rsv_id_def sdr_shape_def Let_def
        split: if_splits)
  show "safe_for sdr_shape storage_get_sdr q"
    by (rule safe_forI) (auto simp: storage_get_sdr_def Let_def dest: sdr_entry_length
        split: if_splits cres.splits)
  show "safe_for sdr_shape storage_clear_sdr_repository q"
    by (rule safe_forI) (auto simp: storage_clear_sdr_repository_def sdr_shape_def)
qed

section \<open>Users\<close>

definition user_shape :: "user_db \<Rightarrow> bool" where
  "user_shape db \<longleftrightarrow> length (ud_users db) = 10 \<and> (\<forall>u \<in> set (ud_users db). length (u_name u) \<le> 125)"

lemma user_shape_update:
  assumes "user_shape db" and "user_update i f db = Some db'"
    and "\<And>u. length (u_name u) \<le> 125 \<Longrightarrow> length (u_name (f u)) \<le> 125"
  shows "user_shape db'"
proof -
  have i: "ud_users db' = (ud_users db)[nat i := f (ud_users db ! nat i)]" "0 \<le> i" "i < 10"
    using user_update_users [OF assms(2)] by simp_all
  have "length (u_name (f (ud_users db ! nat i))) \<le> 125"
    using assms(1,3) i by (simp add: user_shape_def)
  then show ?thesis
    using assms(1) i set_update_subset_insert [of "ud_users db" "nat i" "f (ud_users db ! nat i)"]
    by (auto simp: user_shape_def)
qed

lemma user_methods_name:
  "u_name (setUserAccess q u) = u_name u" "u_name (setUserPasswd p u) = u_name u"
  "u_name (setUserEnable e u) = u_name u" "u_name (setUserName n u) = n"
  by (simp_all add: setUserAccess_def setUserPasswd_def setUserEnable_def setUserName_def)

lemma user_commands_safe:
  "safe_for user_shape app_set_useraccess q" "safe_for user_shape app_set_user_passwd q"
  "safe_for user_shape app_set_username q" "safe_for user_shape app_get_username q"
  "safe_for user_shape (app_get_useraccess junk) q"
proof -
  show "safe_for user_shape app_set_useraccess q"
    by (rule safe_forI) (auto simp: app_set_useraccess_def user_methods_name elim!: user_shape_update)
  show "safe_for user_shape app_set_user_passwd q"
    by (rule safe_forI) (auto simp: app_set_user_passwd_def Let_def user_methods_name
        elim!: user_shape_update split: if_splits)
  show "safe_for user_shape app_set_username q"
    by (rule safe_forI) (auto simp: app_set_username_def Let_def user_methods_name
        elim!: user_shape_update split: if_splits)
  show "safe_for user_shape app_get_username q"
    by (rule safe_forI) (auto simp: app_get_username_def Let_def user_shape_def split: if_splits)
  show "safe_for user_shape (app_get_useraccess junk) q"
    by (rule safe_forI) (auto simp: app_get_useraccess_def Let_def getUserAccess_def split: if_splits)
qed

section \<open>Channels, sessions, chassis, DCMI, LAN\<close>

lemma channel_commands_safe:
  "safe_for channel_inv app_get_channel_info q" "safe_for channel_inv app_get_channel_access q"
  by (auto simp: safe_for_def app_get_channel_info_def app_get_channel_access_def getChannelInfo_def
      getChannelAccess_def split: if_splits)

lemma session_commands_safe:
  "safe_for session_inv app_set_session_priv q" "safe_for session_inv app_close_session q"
  "safe_for session_inv app_get_session_info q"
proof -
  show "safe_for session_inv app_set_session_priv q"
    by (rule safe_forI) (blast intro: app_set_session_priv_inv,
      auto simp: app_set_session_priv_def Let_def split: option.splits prod.splits if_splits)
  show "safe_for session_inv app_close_session q"
    by (rule safe_forI) (blast intro: app_close_session_inv, auto simp: app_close_session_def Let_def)
  show "safe_for session_inv app_get_session_info q"
    by (rule safe_forI) (blast intro: app_get_session_info_inv app_get_session_info_fits)+
qed

lemma sol_commands_safe:
  "safe_for (\<lambda>(c, ss). session_inv ss) app_active_payload q"
  "safe_for (\<lambda>(c, ss). session_inv ss) app_deactive_payload q"
  "safe_for (\<lambda>_. True) transport_get_sol_config_params q"
  "safe_for (\<lambda>_. True) transport_set_sol_config_params q"
proof -
  show "safe_for (\<lambda>(c, ss). session_inv ss) app_active_payload q"
    unfolding safe_for_def
    by (auto dest: sol_sessions_inv) (auto simp: app_active_payload_def split: if_splits)
  show "safe_for (\<lambda>(c, ss). session_inv ss) app_deactive_payload q"
    unfolding safe_for_def
    by (auto dest: sol_sessions_inv) (auto simp: app_deactive_payload_def split: if_splits)
  show "safe_for (\<lambda>_. True) transport_get_sol_config_params q"
    by (rule safe_forI) (auto simp: transport_get_sol_config_params_def Let_def)
  show "safe_for (\<lambda>_. True) transport_set_sol_config_params q"
    by (rule safe_forI) (auto simp: transport_set_sol_config_params_def Let_def)
qed

lemma chassis_commands_safe: "safe_for chassis_inv ipmi_handle_chassis q"
  by (rule safe_forI) (auto intro: chassis_handler_fits chassis_handler_inv)

lemma dcmi_commands_safe: "safe_for dcmi_inv ipmi_handle_dcmi q"
  by (rule safe_forI) (auto intro: dcmi_handler_fits dcmi_handler_inv)

lemma lan_commands_safe: "safe_for lan_inv get_lan_config q" "safe_for lan_inv set_lan_config q"
proof -
  show "safe_for lan_inv get_lan_config q"
    by (rule safe_forI) (auto simp: get_lan_config_def split: cres.splits,
      auto dest: lan_value_small)
  show "safe_for lan_inv set_lan_config q"
    by (rule safe_forI) (auto intro: set_lan_config_fits set_lan_config_inv)
qed

section \<open>The application commands of \<open>App_Cmds\<close>\<close>

lemma app_commands_safe:
  "safe_for app_inv app_set_watchdog_timer_params q" "safe_for app_inv app_get_watchdog_timer_params q"
  "safe_for app_inv app_get_device_id q" "safe_for app_inv (app_get_channel_auth_cap us) q"
  "safe_for app_inv app_get_device_guid q" "safe_for app_inv app_set_global_enables q"
  "safe_for app_inv app_get_global_enables q" "safe_for app_inv app_cold_reset q"
  "safe_for app_inv app_warm_reset q" "safe_for app_inv app_clear_message_flag q"
  "safe_for app_inv app_bmc_selftest q"
  by (auto simp: safe_for_def app_inv_def app_set_watchdog_timer_params_def
      app_get_watchdog_timer_params_def app_get_device_id_def mc_device_def
      app_get_channel_auth_cap_def auth_rsp_bytes_def app_get_device_guid_def
      app_set_global_enables_def app_get_global_enables_def app_cold_reset_def app_warm_reset_def
      app_clear_message_flag_def app_bmc_selftest_def Let_def split_beta)

end
