(* ===== verification/Dispatch.thy ===== *)
theory Dispatch
  imports Handler_Safety
begin

text \<open>
  The dispatcher of libs/apps/apps.cpp: \<open>ipmi_handle\<close> selects the net function, and the static
  functions \<open>ipmi_handle_app\<close>, \<open>ipmi_handle_sensor\<close>, \<open>ipmi_handle_storage\<close> and
  \<open>ipmi_handle_transport\<close> the command. The state is the product of the components. The mutex, the
  console output and the configuration file written after "set watchdog timer" are left out.
\<close>

section \<open>State\<close>

record bmc =
  b_sel :: sel
  b_sdr :: sdr
  b_users :: user_db
  b_channels :: channels
  b_sessions :: sessions
  b_chassis :: chassis
  b_dcmi :: dcmi
  b_app :: app
  b_sol :: sol
  b_lans :: "lan list"
  b_pef :: pef
  b_fru :: fru
  b_junk :: u8

text \<open>A command runs on its component; \<open>b_junk\<close> is the uninitialised local of one of them.\<close>

definition on_sel :: "sel handler \<Rightarrow> bmc handler" where
  "on_sel h b q r = map_option (\<lambda>(x, r'). (b\<lparr>b_sel := x\<rparr>, r')) (h (b_sel b) q r)"

definition on_sdr :: "sdr handler \<Rightarrow> bmc handler" where
  "on_sdr h b q r = map_option (\<lambda>(x, r'). (b\<lparr>b_sdr := x\<rparr>, r')) (h (b_sdr b) q r)"

definition on_users :: "user_db handler \<Rightarrow> bmc handler" where
  "on_users h b q r = map_option (\<lambda>(x, r'). (b\<lparr>b_users := x\<rparr>, r')) (h (b_users b) q r)"

definition on_channels :: "channels handler \<Rightarrow> bmc handler" where
  "on_channels h b q r = map_option (\<lambda>(x, r'). (b\<lparr>b_channels := x\<rparr>, r')) (h (b_channels b) q r)"

definition on_sessions :: "sessions handler \<Rightarrow> bmc handler" where
  "on_sessions h b q r = map_option (\<lambda>(x, r'). (b\<lparr>b_sessions := x\<rparr>, r')) (h (b_sessions b) q r)"

definition on_chassis :: "chassis handler \<Rightarrow> bmc handler" where
  "on_chassis h b q r = map_option (\<lambda>(x, r'). (b\<lparr>b_chassis := x\<rparr>, r')) (h (b_chassis b) q r)"

definition on_dcmi :: "dcmi handler \<Rightarrow> bmc handler" where
  "on_dcmi h b q r = map_option (\<lambda>(x, r'). (b\<lparr>b_dcmi := x\<rparr>, r')) (h (b_dcmi b) q r)"

definition on_app :: "app handler \<Rightarrow> bmc handler" where
  "on_app h b q r = map_option (\<lambda>(x, r'). (b\<lparr>b_app := x\<rparr>, r')) (h (b_app b) q r)"

definition on_pef :: "pef handler \<Rightarrow> bmc handler" where
  "on_pef h b q r = map_option (\<lambda>(x, r'). (b\<lparr>b_pef := x\<rparr>, r')) (h (b_pef b) q r)"

definition on_fru :: "fru handler \<Rightarrow> bmc handler" where
  "on_fru h b q r = map_option (\<lambda>(x, r'). (b\<lparr>b_fru := x\<rparr>, r')) (h (b_fru b) q r)"

definition on_sol :: "sol handler \<Rightarrow> bmc handler" where
  "on_sol h b q r = map_option (\<lambda>(x, r'). (b\<lparr>b_sol := x\<rparr>, r')) (h (b_sol b) q r)"

definition on_sol_sessions :: "(sol \<times> sessions) handler \<Rightarrow> bmc handler" where
  "on_sol_sessions h b q r =
     map_option (\<lambda>((x, ss), r'). (b\<lparr>b_sol := x, b_sessions := ss\<rparr>, r'))
       (h (b_sol b, b_sessions b) q r)"

definition on_lan :: "nat \<Rightarrow> lan handler \<Rightarrow> bmc handler" where
  "on_lan i h b q r =
     map_option (\<lambda>(x, r'). (b\<lparr>b_lans := (b_lans b)[i := x]\<rparr>, r')) (h (b_lans b ! i) q r)"

section \<open>The net functions\<close>

definition ipmi_handle_app :: "bmc handler" where
  "ipmi_handle_app b q r =
     (let c = q_cmd q in
      if c = 0x24 then on_app app_set_watchdog_timer_params b q r
      else if c = 0x25 then on_app app_get_watchdog_timer_params b q r
      else if c = 0x01 then on_app app_get_device_id b q r
      else if c = 0x38 then on_app (app_get_channel_auth_cap (ud_users (b_users b))) b q r
      else if c = 0x3B then on_sessions app_set_session_priv b q r
      else if c = 0x3C then on_sessions app_close_session b q r
      else if c = 0x37 then on_app app_get_device_guid b q r
      else if c = 0x2E then on_app app_set_global_enables b q r
      else if c = 0x2F then on_app app_get_global_enables b q r
      else if c = 0x02 then on_app app_cold_reset b q r
      else if c = 0x03 then on_app app_warm_reset b q r
      else if c = 0x30 then on_app app_clear_message_flag b q r
      else if c = 0x04 then on_app app_bmc_selftest b q r
      else if c = 0x3D then on_sessions app_get_session_info b q r
      else if c = 0x42 then on_channels app_get_channel_info b q r
      else if c = 0x41 then on_channels app_get_channel_access b q r
      else if c = 0x46 then on_users app_get_username b q r
      else if c = 0x44 then on_users (app_get_useraccess (b_junk b)) b q r
      else if c = 0x45 then on_users app_set_username b q r
      else if c = 0x43 then on_users app_set_useraccess b q r
      else if c = 0x47 then on_users app_set_user_passwd b q r
      else if c = 0x58 \<or> c = 0x59 then Some (b, r)
      else if c = 0x48 then on_sol_sessions app_active_payload b q r
      else if c = 0x49 then on_sol_sessions app_deactive_payload b q r
      else Some (b, set_cc 0xFE r))"

text \<open>Where the code sets \<open>response->cc\<close> after the call.\<close>

definition then_success :: "'s handler \<Rightarrow> 's handler" where
  "then_success h s q r = map_option (\<lambda>(s', r'). (s', set_cc CC_SUCCESS r')) (h s q r)"

definition ipmi_handle_sensor :: "bmc handler" where
  "ipmi_handle_sensor b q r0 =
     (let c = q_cmd q; r = set_cc CC_SUCCESS r0 in
      if c = 0x2D then on_sdr sensor_get_reading b q r
      else if c = 0x27 then on_sdr sensor_get_threshod b q r
      else if c = 0x26 then on_sdr sensor_set_threshold b q r
      else if c = 0x20 then on_sdr storage_get_sdr_info b q r
      else if c = 0x22 then on_sdr storage_rsv_sdr b q r
      else if c = 0x02 then then_success (on_sel sensor_event_get_num) b q r
      else if c = 0x10 then then_success (on_pef pef_capabilities_info) b q r
      else if c = 0x12 then then_success (on_pef pef_set_config_param) b q r
      else if c = 0x13 then on_pef pef_get_config_param b q r
      else if c = 0x15 then then_success (on_sel pef_get_status) b q r
      else Some (b, set_cc CC_INVALID_CMD r))"

text \<open>The guard of the event-log commands.\<close>

definition if_sel_enabled :: "bmc handler \<Rightarrow> bmc handler" where
  "if_sel_enabled h b q r =
     (if ap_enables (b_app b) AND 0x8 \<noteq> 0x8 then Some (b, set_cc CC_DISABLED r) else h b q r)"

definition ipmi_handle_storage :: "bmc handler" where
  "ipmi_handle_storage b q r =
     (let c = q_cmd q in
      if c = 0x27 then on_sdr storage_clear_sdr_repository b q r
      else if c = 0x20 then on_sdr storage_get_sdr_info b q r
      else if c = 0x22 then on_sdr storage_rsv_sdr b q r
      else if c = 0x23 then on_sdr storage_get_sdr b q r
      else if c = 0x10 then on_fru storage_get_fru_info b q r
      else if c = 0x11 then on_fru storage_get_fru b q r
      else if c = 0x12 then Some (b, r)
      else if c = 0x40 then on_sel storage_get_sel_info b q r
      else if c = 0x42 then if_sel_enabled (on_sel storage_rsv_sel) b q r
      else if c = 0x44 then if_sel_enabled (on_sel storage_add_sel) b q r
      else if c = 0x43 then if_sel_enabled (on_sel storage_get_sel) b q r
      else if c = 0x46 then if_sel_enabled (on_sel storage_del_sel_entry) b q r
      else if c = 0x47 then if_sel_enabled (on_sel storage_clr_sel) b q r
      else Some (b, r))"

definition ipmi_handle_transport :: "bmc handler" where
  "ipmi_handle_transport b q r =
     (let c = q_cmd q; r_chan = chan_index (req_byte q 0 AND 0x0F) in
      if c = 0x01 then on_lan r_chan set_lan_config b q r
      else if c = 0x02 then on_lan r_chan get_lan_config b q r
      else if c = 0x22 then on_sol transport_get_sol_config_params b q r
      else if c = 0x21 then on_sol transport_set_sol_config_params b q r
      else Some (b, set_cc CC_INVALID_CMD r))"

section \<open>\<open>ipmi_handle\<close>\<close>

definition netfn_of :: "bool \<Rightarrow> ipmi_req \<Rightarrow> u8" where
  "netfn_of rmcp q = (if rmcp then q_netfn q else drop_bit 2 (q_netfn q))"

definition answer_as :: "u8 \<Rightarrow> ipmi_res \<Rightarrow> ipmi_res" where
  "answer_as n r = r\<lparr>r_netfn := push_bit 2 n\<rparr>"

definition ipmi_dispatch :: "bool \<Rightarrow> bmc handler" where
  "ipmi_dispatch rmcp b q r =
     (let n = netfn_of rmcp q in
      if n = 0x00 then on_chassis ipmi_handle_chassis b q (answer_as 0x01 r)
      else if n = 0x0A then ipmi_handle_storage b q (answer_as 0x0B r)
      else if n = 0x04 then ipmi_handle_sensor b q (answer_as 0x05 r)
      else if n = 0x0C then ipmi_handle_transport b q (answer_as 0x0D r)
      else if n = 0x06 then ipmi_handle_app b q (answer_as 0x07 r)
      else if n = 0x2C then on_dcmi ipmi_handle_dcmi b q (answer_as 0x2D r)
      else Some (b, r))"

text \<open>The completion code starts as 0xFF and the length as 0; \<open>*res_len\<close> is a byte, so adding the
  header size may wrap.\<close>

definition ipmi_handle :: "bool \<Rightarrow> bmc handler" where
  "ipmi_handle rmcp b q r =
     map_option (\<lambda>(b', r'). (b', set_len (r_len r' + 3) r'))
       (ipmi_dispatch rmcp b q (set_len 0 (set_cc CC_UNSPECIFIED_ERROR r\<lparr>r_cmd := q_cmd q\<rparr>)))"

lemmas on_defs = on_sel_def on_sdr_def on_users_def on_channels_def on_sessions_def on_chassis_def
  on_dcmi_def on_app_def on_pef_def on_fru_def on_sol_def on_sol_sessions_def on_lan_def

section \<open>Invariant and safety\<close>

definition bmc_inv :: "bmc \<Rightarrow> bool" where
  "bmc_inv b \<longleftrightarrow> sel_shape (b_sel b) \<and> sdr_shape (b_sdr b) \<and> user_shape (b_users b)
     \<and> channel_inv (b_channels b) \<and> session_inv (b_sessions b) \<and> chassis_inv (b_chassis b)
     \<and> dcmi_inv (b_dcmi b) \<and> app_inv (b_app b) \<and> pef_inv (b_pef b) \<and> fru_inv (b_fru b)
     \<and> length (b_lans b) = 4 \<and> list_all lan_inv (b_lans b)"

lemma on_safe:
  "safe_for sel_shape h1 q \<Longrightarrow> safe_for bmc_inv (on_sel h1) q"
  "safe_for sdr_shape h2 q \<Longrightarrow> safe_for bmc_inv (on_sdr h2) q"
  "safe_for user_shape h3 q \<Longrightarrow> safe_for bmc_inv (on_users h3) q"
  "safe_for channel_inv h4 q \<Longrightarrow> safe_for bmc_inv (on_channels h4) q"
  "safe_for session_inv h5 q \<Longrightarrow> safe_for bmc_inv (on_sessions h5) q"
  "safe_for chassis_inv h6 q \<Longrightarrow> safe_for bmc_inv (on_chassis h6) q"
  "safe_for dcmi_inv h7 q \<Longrightarrow> safe_for bmc_inv (on_dcmi h7) q"
  "safe_for app_inv h8 q \<Longrightarrow> safe_for bmc_inv (on_app h8) q"
  "safe_for (\<lambda>_. True) h9 q \<Longrightarrow> safe_for bmc_inv (on_sol h9) q"
  "safe_for pef_inv h11 q \<Longrightarrow> safe_for bmc_inv (on_pef h11) q"
  "safe_for fru_inv h12 q \<Longrightarrow> safe_for bmc_inv (on_fru h12) q"
  "safe_for (\<lambda>(c, ss). session_inv ss) h10 q \<Longrightarrow> safe_for bmc_inv (on_sol_sessions h10) q"
  by (auto simp: safe_for_def on_defs bmc_inv_def)

lemma bmc_inv_lan: "bmc_inv b \<Longrightarrow> i < 4 \<Longrightarrow> lan_inv (b_lans b ! i)"
  by (simp add: bmc_inv_def list_all_length)

lemma bmc_inv_lan_update:
  "bmc_inv b \<Longrightarrow> lan_inv x \<Longrightarrow> bmc_inv (b\<lparr>b_lans := (b_lans b)[i := x]\<rparr>)"
  by (simp add: bmc_inv_def list_all_update)

lemma on_lan_safe:
  assumes h: "safe_for lan_inv h q" and i: "i < 4"
  shows "safe_for bmc_inv (on_lan i h) q"
  using safe_forD [OF h bmc_inv_lan [OF _ i]]
  by (intro safe_forI) (auto simp: on_lan_def intro: bmc_inv_lan_update)

lemma safe_for_param: "(\<And>x. safe_for ok (h x) q) \<Longrightarrow> safe_for ok (\<lambda>s. h (f s) s) q"
  by (simp add: safe_for_def)

lemma on_auth_cap_safe:
  "safe_for bmc_inv (\<lambda>b. on_app (app_get_channel_auth_cap (ud_users (b_users b))) b) q"
  "safe_for bmc_inv (\<lambda>b. on_users (app_get_useraccess (b_junk b)) b) q"
proof -
  show "safe_for bmc_inv (\<lambda>b. on_app (app_get_channel_auth_cap (ud_users (b_users b))) b) q"
    by (rule safe_for_param [where h = "\<lambda>x. on_app (app_get_channel_auth_cap x)", OF on_safe(8), OF app_commands_safe(4)])
  show "safe_for bmc_inv (\<lambda>b. on_users (app_get_useraccess (b_junk b)) b) q"
    by (rule safe_for_param [where h = "\<lambda>x. on_users (app_get_useraccess x)", OF on_safe(3), OF user_commands_safe(5)])
qed

lemma safe_for_id: "safe_for ok (\<lambda>s q r. Some (s, f r)) q" if "\<And>r. res_fits r \<Longrightarrow> res_fits (f r)"
  using that by (simp add: safe_for_def)

lemma chan_index_less: "chan_index c < 4"
  by (simp add: chan_index_def)

lemma safe_for_if:
  "(P q \<Longrightarrow> safe_for ok h1 q) \<Longrightarrow> (\<not> P q \<Longrightarrow> safe_for ok h2 q)
   \<Longrightarrow> safe_for ok (\<lambda>s q r. if P q then h1 s q r else h2 s q r) q"
  by (cases "P q") (simp_all add: safe_for_def)

lemma safe_for_pre:
  "(\<And>r. res_fits (f r) = res_fits r) \<Longrightarrow> safe_for ok h q \<Longrightarrow> safe_for ok (\<lambda>s q r. h s q (f r)) q"
  by (auto simp: safe_for_def)

lemma then_success_safe: "safe_for ok h q \<Longrightarrow> safe_for ok (then_success h) q"
  by (auto simp: safe_for_def then_success_def)

lemma if_sel_enabled_safe: "safe_for bmc_inv h q \<Longrightarrow> safe_for bmc_inv (if_sel_enabled h) q"
  by (auto simp: safe_for_def if_sel_enabled_def split: if_splits)

lemmas command_safe = sel_commands_safe sdr_commands_safe user_commands_safe channel_commands_safe
  session_commands_safe sol_commands_safe chassis_commands_safe dcmi_commands_safe
  lan_commands_safe app_commands_safe pef_commands_safe pef_get_status_safe fru_commands_safe

lemmas dispatch_safe = safe_for_if safe_for_id on_auth_cap_safe on_safe on_lan_safe then_success_safe
  if_sel_enabled_safe chan_index_less command_safe

lemma ipmi_handle_app_safe: "safe_for bmc_inv ipmi_handle_app q"
  unfolding ipmi_handle_app_def [abs_def] Let_def
  by (intro dispatch_safe) simp_all

lemma ipmi_handle_transport_safe: "safe_for bmc_inv ipmi_handle_transport q"
proof (rule safe_forI)
  fix b r b' r'
  assume b: "bmc_inv (b :: bmc)" and h: "ipmi_handle_transport b q r = Some (b', r')"
  note lan = safe_forD [OF on_lan_safe [OF _ chan_index_less] b]
  note sol = safe_forD [OF on_safe(9) b]
  have "bmc_inv b' \<and> (res_fits r \<longrightarrow> res_fits r')"
    using h lan [OF lan_commands_safe(1)] lan [OF lan_commands_safe(2)]
      sol [OF sol_commands_safe(3)] sol [OF sol_commands_safe(4)] b
    by (auto simp: ipmi_handle_transport_def Let_def split: if_splits)
  then show "bmc_inv b'" "res_fits r \<Longrightarrow> res_fits r'" by blast+
qed

lemma ipmi_handle_sensor_safe: "safe_for bmc_inv ipmi_handle_sensor q"
  unfolding ipmi_handle_sensor_def [abs_def] Let_def
  by (rule safe_for_pre [where f = "set_cc CC_SUCCESS"], simp) (intro dispatch_safe; simp?)

lemma ipmi_handle_storage_safe: "safe_for bmc_inv ipmi_handle_storage q"
  unfolding ipmi_handle_storage_def [abs_def] Let_def
  by (intro dispatch_safe; simp?)

lemma ipmi_handle_safe: "safe_for bmc_inv (ipmi_handle rmcp) q"
proof -
  have a: "res_fits (answer_as n r) = res_fits r" for n r by (simp add: answer_as_def res_fits_def)
  have "safe_for bmc_inv (ipmi_dispatch rmcp) q"
    unfolding ipmi_dispatch_def [abs_def] Let_def
    by (intro safe_for_if safe_for_pre [where f = "answer_as _"] a ipmi_handle_storage_safe
        ipmi_handle_sensor_safe ipmi_handle_transport_safe ipmi_handle_app_safe on_safe
        chassis_commands_safe dcmi_commands_safe safe_for_id)
  moreover have "res_fits (r\<lparr>r_cmd := c\<rparr>) = res_fits r" for r c by (simp add: res_fits_def)
  ultimately show ?thesis
    by (fastforce simp: safe_for_def ipmi_handle_def)
qed

interpretation bmc_commands: buffered_handler "ipmi_handle rmcp" bmc_inv "\<lambda>q. True" for rmcp
  by unfold_locales (auto dest: safe_forD [OF ipmi_handle_safe])

end
