(* ===== verification/Ipmi_Message.thy ===== *)
theory Ipmi_Message
  imports Dispatch Checksum
begin

text \<open>
  The IPMI message layer, KETI-Edge/msg_session.cpp: \<open>ipmi_msg_process_packet\<close> unpacks a LAN
  message into the 128-byte request buffer, runs \<open>ipmi_handle\<close> on it and packs the answer. A copy
  that leaves one of its buffers is undefined behaviour (\<open>None\<close>). The session wrapper
  \<open>ipmi_session_process_packet\<close> copies eight elements to a single 32-bit member for every packet,
  which is undefined on all inputs, so there is nothing to model.
\<close>

section \<open>Unpacking and packing\<close>

text \<open>Bit fields are allocated from the low end: the logical unit number is in bits 0 and 1.\<close>

definition msg_lun :: "u8 \<Rightarrow> u8" where
  "msg_lun b = b AND 0x03"

definition msg_request :: "u8 list \<Rightarrow> ipmi_req" where
  "msg_request p = \<lparr>q_netfn = drop_bit 2 (p ! 1), q_cmd = p ! 5, q_data = butlast (drop 6 p)\<rparr>"

definition res_buf :: "ipmi_res \<Rightarrow> u8 list" where
  "res_buf r = [r_netfn r, r_cmd r, r_cc r] @ r_data r"

text \<open>The data of the answer: the completion code alone for the codes 0xFF and 0xFE, else
  \<open>res_len - 2\<close> bytes of the response buffer from its completion code on. A length below 3 reads
  through a zero-sized or impossible allocation.\<close>

definition msg_data :: "ipmi_res \<Rightarrow> u8 list option" where
  "msg_data r =
     (if \<not> res_fits r then None
      else if r_cc r = 0xFF \<or> r_cc r = 0xFE then Some [r_cc r]
      else if unat (r_len r) < 3 \<or> 128 < unat (r_len r) then None
      else Some (take (unat (r_len r) - 2) (drop 2 (res_buf r))))"

text \<open>The six header bytes; the net function plus one is stored in six bits.\<close>

definition msg_header :: "u8 list \<Rightarrow> u8 list" where
  "msg_header p =
     (let h1 = push_bit 2 (drop_bit 2 (p ! 1) + 1) OR msg_lun (p ! 4)
      in [p ! 3, h1, ipmi_checksum [p ! 3, h1], p ! 0,
          push_bit 2 (drop_bit 2 (p ! 4)) OR msg_lun (p ! 1), p ! 5])"

definition msg_reply :: "u8 list \<Rightarrow> u8 list \<Rightarrow> u8 list" where
  "msg_reply p d = (let out = msg_header p @ d in out @ [ipmi_checksum out])"

text \<open>The two checksums of the request are computed and compared, and the bodies of the comparisons
  are empty. \<open>packet_in.size() - 7\<close> wraps for a short packet; \<open>ipmi_handle\<close> copies \<open>size - 5\<close> bytes
  of the 126 data bytes of the request buffer.\<close>

definition ipmi_msg_process_packet ::
    "bmc \<Rightarrow> u8 list \<Rightarrow> (bmc \<times> u8 list) option" where
  "ipmi_msg_process_packet b p =
     (if length p < 7 \<or> 131 < length p then None
      else case ipmi_handle True b (msg_request p) blank_res of
          None \<Rightarrow> None
        | Some (b', r) \<Rightarrow> map_option (\<lambda>d. (b', msg_reply p d)) (msg_data r))"

section \<open>Facts\<close>

lemma msg_reply_eq: "msg_reply p d = msg_header p @ d @ [ipmi_checksum (msg_header p @ d)]"
  by (simp add: msg_reply_def Let_def)

lemma length_msg_header [simp]: "length (msg_header p) = 6"
  by (simp add: msg_header_def Let_def)

lemma msg_lun_take_bit: "msg_lun b = take_bit 2 b"
  by (simp add: msg_lun_def take_bit_eq_mask mask_eq_exp_minus_1)

lemma header_byte_fields:
  "drop_bit 2 (push_bit 2 a OR msg_lun b) = (a :: u8) AND 0x3F"
  "msg_lun (push_bit 2 a OR msg_lun b) = msg_lun b"
proof -
  have m: "a AND 0x3F = take_bit 6 a" by (simp add: take_bit_eq_mask mask_eq_exp_minus_1)
  show "drop_bit 2 (push_bit 2 a OR msg_lun b) = a AND 0x3F"
    unfolding m msg_lun_take_bit
    by (rule bit_word_eqI) (auto simp: bit_simps)
  show "msg_lun (push_bit 2 a OR msg_lun b) = msg_lun b"
    unfolding msg_lun_take_bit by (rule bit_word_eqI) (auto simp: bit_simps)
qed

lemma drop_bit_six: "drop_bit 2 (b :: u8) AND 0x3F = drop_bit 2 b"
proof -
  have "drop_bit 2 b AND 0x3F = take_bit 6 (drop_bit 2 b)"
    by (simp add: take_bit_eq_mask mask_eq_exp_minus_1)
  then show ?thesis by (simp only:) (rule bit_word_eqI, auto simp: bit_simps dest: bit_imp_le_length)
qed

lemma msg_data_length: "msg_data r = Some d \<Longrightarrow> 1 \<le> length d \<and> length d \<le> 126"
  by (auto simp: msg_data_def res_buf_def res_fits_def split: if_splits)

lemma msg_request_corrupt:
  assumes "7 \<le> length p"
  shows "msg_request (p[2 := x, length p - 1 := y]) = msg_request p"
proof -
  have "butlast (drop 6 (p[2 := x, length p - 1 := y])) = butlast (drop 6 p)"
    by (rule nth_equalityI) (auto simp: nth_butlast)
  then show ?thesis using assms by (simp add: msg_request_def)
qed

lemma msg_reply_corrupt:
  "7 \<le> length p \<Longrightarrow> msg_reply (p[2 := x, length p - 1 := y]) d = msg_reply p d"
  by (simp add: msg_reply_def msg_header_def)

section \<open>Properties\<close>

text \<open>Whatever a message holds in its header checksum and its data checksum, it is processed the same
  way: both are ignored.\<close>

theorem message_checksums_ignored:
  "ipmi_msg_process_packet b (p[2 := x, length p - 1 := y]) = ipmi_msg_process_packet b p"
  using msg_request_corrupt [of p x y] msg_reply_corrupt [of p x y]
  by (cases "length p < 7 \<or> 131 < length p")
    (auto simp: ipmi_msg_process_packet_def split: option.split)

text \<open>C26. Every answer is a well-formed message for the requester: it goes back from the responder's to
  the requester's address with the next net function and the request's sequence number and
  command, its first three bytes and its remaining bytes each sum to 0 modulo 256, and it is 8 to
  133 bytes long.\<close>

theorem message_reply_well_formed:
  assumes "ipmi_msg_process_packet b p = Some (b', out)"
  shows "8 \<le> length out \<and> length out \<le> 133 \<and> out ! 0 = p ! 3 \<and> out ! 3 = p ! 0 \<and> out ! 5 = p ! 5
    \<and> drop_bit 2 (out ! 1) = (drop_bit 2 (p ! 1) + 1) AND 0x3F
    \<and> drop_bit 2 (out ! 4) = drop_bit 2 (p ! 4)
    \<and> msg_lun (out ! 1) = msg_lun (p ! 4) \<and> msg_lun (out ! 4) = msg_lun (p ! 1)
    \<and> sum_list (take 3 out) = 0 \<and> sum_list (drop 3 out) = 0"
proof -
  obtain d where out: "out = msg_reply p d" and d: "1 \<le> length d" "length d \<le> 126"
    using assms msg_data_length
    by (auto simp: ipmi_msg_process_packet_def split: if_splits option.splits)
  define h1 where "h1 = push_bit 2 (drop_bit 2 (p ! 1) + 1) OR msg_lun (p ! 4)"
  define h4 where "h4 = push_bit 2 (drop_bit 2 (p ! 4)) OR msg_lun (p ! 1)"
  have hd: "msg_header p = [p ! 3, h1, ipmi_checksum [p ! 3, h1], p ! 0, h4, p ! 5]"
    by (simp add: msg_header_def h1_def h4_def Let_def)
  have all: "sum_list out = 0"
    by (simp add: out msg_reply_eq ipmi_checksum_sum)
  have three: "sum_list (take 3 out) = 0"
    by (simp add: out msg_reply_eq hd ipmi_checksum_sum)
  have "sum_list out = sum_list (take 3 out) + sum_list (drop 3 out)"
    by (metis append_take_drop_id sum_list_append)
  with all three have rest: "sum_list (drop 3 out) = 0" by simp
  have b1: "drop_bit 2 h1 = (drop_bit 2 (p ! 1) + 1) AND 0x3F" "msg_lun h1 = msg_lun (p ! 4)"
    "drop_bit 2 h4 = drop_bit 2 (p ! 4)" "msg_lun h4 = msg_lun (p ! 1)"
    by (simp_all only: h1_def h4_def header_byte_fields drop_bit_six)
  show ?thesis
    using three rest b1 d by (simp add: out msg_reply_eq hd)
qed

end
