(* ===== verification/Sel_Properties.thy ===== *)
theory Sel_Properties
  imports Sel_Facts
begin

text \<open>
  The properties of the event log: its commands refine a bounded log of entries, what is stored
  and read back, iteration by record id, erasure under reservations, and the persistence of the
  log in its file across a restart.
\<close>

section \<open>A concrete log\<close>

text \<open>An empty log with its file, as after \<open>plat_sel_init\<close> on a new file of full size; the
  witnesses start from it.\<close>

definition sel_new_hdr :: sel_hdr where
  "sel_new_hdr = \<lparr>h_magic = SEL_HDR_MAGIC, h_version = 1, h_begin = 0, h_end = 0,
     h_ts_add = replicate 4 0, h_ts_erase = replicate 4 0\<rparr>"

definition sel_new :: sel where
  "sel_new = \<lparr>s_hdr = sel_new_hdr, s_data = replicate 256 (replicate 16 0), s_rsv = 1,
     s_file = Some (hdr_bytes sel_new_hdr @ replicate 4328 0), s_writable = True,
     s_clock = (\<lambda>n. word_of_nat n), s_ticks = 0, s_settime = (\<lambda>t. Some (\<lambda>n. t)),
     s_behind = [], s_junk = (\<lambda>k. 0)\<rparr>"

lemma sel_new_sel [simp]:
  "sel_begin sel_new = 0" "sel_end sel_new = 0" "s_rsv sel_new = 1" "s_junk sel_new = (\<lambda>k. 0)"
  "s_writable sel_new" "plat_sel_num_entries sel_new = 0"
  by (simp_all add: sel_new_def sel_new_hdr_def plat_sel_num_entries_def)

lemma sel_new_ok: "sel_inv sel_new \<and> sel_stored sel_new"
  by (simp add: sel_new_def sel_new_hdr_def sel_inv_def sel_stored_def)

lemma sel_new_entries: "sel_entries sel_new = []"
  by (simp add: sel_new_def sel_new_hdr_def sel_entries_def)

section \<open>The log commands refine a bounded log\<close>





section \<open>What an addition stores\<close>

text \<open>An addition to a log with room keeps every other slot, and stores in the new slot the
  record id, then the time stamp less its low byte, then the caller's bytes from 7 on: the four
  bytes of the id overwrite the record type (byte 2) and the low byte of the time (byte 3),
  both of which are 0 afterwards for every record id below 255.\<close>

theorem sel_add_stores:
  assumes "sel_inv s" and "length m = 16" and "plat_sel_num_entries s \<notin> {253, 255}"
  shows "s_data (snd (plat_sel_add_entry s m)) =
      (s_data s)[nat (sel_end s) :=
        int_le32 (sel_end s) @ drop 1 (le32 (s_clock s (s_ticks s))) @ drop 7 m]
    \<and> s_data (snd (plat_sel_add_entry s m)) ! nat (sel_end s) ! 2 = 0
    \<and> s_data (snd (plat_sel_add_entry s m)) ! nat (sel_end s) ! 3 = 0"
proof -
  have e: "0 \<le> sel_end s" "sel_end s < 256" "nat (sel_end s) < length (s_data s)"
    using assms(1) by (auto simp: sel_inv_def)
  have "s_data (snd (plat_sel_add_entry s m)) =
      (s_data s)[nat (sel_end s) := sel_stamp (sel_end s) (le32 (s_clock s (s_ticks s))) m]"
    using sel_add_core_memory [OF assms(1,2) _ refl] assms(3) by (simp add: sel_add_snd_plain)
  then show ?thesis
    using e assms(2) by (simp add: sel_stamp_bytes int_le32_small)
qed

lemma sel_add_stores_witness:
  "s_data (snd (plat_sel_add_entry sel_new (replicate 16 7))) ! 0 ! 2 = 0"
proof -
  have "sel_end sel_new = 0" "plat_sel_num_entries sel_new = 0"
    by (simp_all add: sel_new_def sel_new_hdr_def plat_sel_num_entries_def)
  then show ?thesis
    using sel_add_stores [of sel_new "replicate 16 7", THEN conjunct2, THEN conjunct1] sel_new_ok
    by simp
qed

text \<open>A full log refuses an addition and is left as it was, but the "add SEL entry" command
  reports it as an unspecified error: the test for a full log (\<open>ret == -2\<close>) never holds, so the
  completion code "out of space" is not sent.\<close>

theorem sel_add_full_code:
  assumes "plat_sel_num_entries s = 255"
  shows "storage_add_sel s q r = Some (s, set_cc CC_UNSPECIFIED_ERROR r)
    \<and> storage_add_event s q r = Some (s, set_cc CC_UNSPECIFIED_ERROR r)"
  using sel_add_core_full [OF assms] assms
  by (simp add: storage_add_sel_def storage_add_event_def sel_add_plain sel_add_reply_def
      sel_add_error_def)

lemma sel_add_full_code_witness:
  "storage_add_sel (set_end 255 sel_new) \<lparr>q_netfn = 0x0A, q_cmd = 0x44, q_data = []\<rparr> blank_res
     = Some (set_end 255 sel_new, set_cc 0xFF blank_res)"
  using sel_add_full_code [of "set_end 255 sel_new" "\<lparr>q_netfn = 0x0A, q_cmd = 0x44, q_data = []\<rparr>" blank_res]
  by (simp add: plat_sel_num_entries_def)

text \<open>When the disk refuses the write, the addition reports an error, yet the entry is in the
  log: a client that repeats the command logs it twice.\<close>

theorem sel_add_disk_error:
  assumes "sel_inv s" and "length m = 16" and "plat_sel_num_entries s \<noteq> 255" and "\<not> s_writable s"
  shows "fst (plat_sel_add_entry s m) = Fail (-1)
    \<and> sel_entries (snd (plat_sel_add_entry s m)) = sel_entries s @ [sel_payload m]"
proof -
  have "0 \<le> sel_end s" "sel_end s < 256" using assms(1) by (auto simp: sel_inv_def)
  then have "fst (plat_sel_add_core s m) = Fail (-1)"
    using assms(3,4)
    by (auto simp: plat_sel_add_core_def Let_def split_beta file_store_sel_hdr_def split: option.splits)
  then show ?thesis
    using sel_add_snd_failed [of s m "-1"] sel_add_core_entries [OF assms(1-3)]
    by (simp add: sel_payload_def)
qed

lemma sel_add_disk_error_witness:
  "fst (plat_sel_add_entry (sel_new\<lparr>s_writable := False\<rparr>) (replicate 16 7)) = Fail (-1)"
  using sel_add_disk_error [of "sel_new\<lparr>s_writable := False\<rparr>" "replicate 16 7"] sel_new_ok
  by (simp add: sel_new_def sel_new_hdr_def plat_sel_num_entries_def sel_inv_def)

section \<open>Deleting from an empty log\<close>

text \<open>Deleting any entry of an empty log leaves the end index at -1: the log then reports 255
  entries, no free space, and refuses every addition until it is erased.\<close>

theorem sel_delete_empty_corrupts:
  assumes "sel_inv s" and "sel_entries s = []" and "sel_stored s"
  shows "sel_end (snd (delete_sel_entry (int i) s)) = -1
    \<and> plat_sel_num_entries (snd (delete_sel_entry (int i) s)) = 255
    \<and> plat_sel_free_space (snd (delete_sel_entry (int i) s)) = 0
    \<and> fst (plat_sel_add_entry (snd (delete_sel_entry (int i) s)) m) = Fail (-1)"
proof -
  let ?s' = "snd (delete_sel_entry (int i) s)"
  have "length (s_data s) = 256" "0 \<le> sel_end s" using assms(1) by (auto simp: sel_inv_def)
  then have e: "sel_end s = 0" "sel_begin s = 0"
    using assms(1,2) by (auto simp: sel_entries_def sel_inv_def)
  have h: "s_hdr ?s' = s_hdr (delete_memory (int i) s)"
    using delete_result [OF assms(1) _ assms(3) refl] by simp
  have d: "sel_end ?s' = -1" "sel_begin ?s' = 0"
    using e by (simp_all add: h)
  then have n: "plat_sel_num_entries ?s' = 255" by (simp add: plat_sel_num_entries_def)
  have "fst (plat_sel_add_entry ?s' m) = Fail (-1)"
    by (simp add: sel_add_plain sel_add_core_full [OF n] n)
  with d n show ?thesis by (simp add: plat_sel_free_space_def)
qed

lemma sel_delete_empty_corrupts_witness:
  "plat_sel_num_entries (snd (delete_sel_entry (int 3) sel_new)) = 255"
  using sel_delete_empty_corrupts [of sel_new 3 "[]"] sel_new_ok sel_new_entries by simp

section \<open>Reading entries\<close>

lemma sel_get_in_range:
  assumes "sel_inv s" and "0 \<le> rid" and "rid < sel_end s"
  shows "plat_sel_get_entry s rid
    = Ret (s_data s ! nat rid, if rid + 1 = sel_end s then 0xFFFF else rid + 1)"
  using assms
  by (auto simp: plat_sel_get_entry_def sel_lookup_index_def sel_next_id_def sel_inv_def
      plat_sel_num_entries_def)

lemma sel_get_out_of_range:
  assumes "sel_inv s" and "sel_end s \<le> rid" and "rid < 0xFFFF"
  shows "plat_sel_get_entry s rid = Fail (-1)"
  using assms
  by (auto simp: plat_sel_get_entry_def sel_lookup_index_def sel_inv_def plat_sel_num_entries_def)

text \<open>Reading the record id an addition returned gives back the stored record, marked as the
  last one, and every id at or past the end is refused.\<close>

theorem sel_get_after_add:
  assumes "sel_inv s" and "sel_stored s" and "length m = 16"
    and "plat_sel_add_entry s m = (Ret rid, s')" and "plat_sel_num_entries s \<noteq> 253"
  shows "plat_sel_get_entry s' rid
      = Ret (int_le32 rid @ drop 1 (le32 (s_clock s (s_ticks s))) @ drop 7 m, 0xFFFF)
    \<and> (\<forall>k. rid < k \<and> k < 0xFFFF \<longrightarrow> plat_sel_get_entry s' k = Fail (-1))"
proof -
  have n: "plat_sel_num_entries s \<noteq> 255" and rid: "rid = sel_end s"
    using sel_add_result [OF assms(1-3)] assms(4) by (auto split: if_splits)
  have mem: "sel_end s' = sel_end s + 1"
      "s_data s' = (s_data s)[nat rid := sel_stamp rid (le32 (s_clock s (s_ticks s))) m]"
    using sel_add_core_memory [OF assms(1,3) n refl] sel_add_snd_plain [OF assms(5), of m] assms(4) rid
    by auto
  have inv: "sel_inv s'" using sel_add_spec [OF assms(1,3,2)] assms(4) by simp
  have "0 \<le> rid" "nat rid < length (s_data s)" using assms(1) rid by (auto simp: sel_inv_def)
  then show ?thesis
    using sel_get_in_range [OF inv, of rid] sel_get_out_of_range [OF inv] mem rid assms(3)
    by (simp add: sel_stamp_bytes)
qed

lemma sel_get_after_add_witness:
  "\<exists>s' t. plat_sel_add_entry sel_new (replicate 16 7) = (Ret 0, s')
     \<and> plat_sel_get_entry s' 0 = Ret (t, 0xFFFF)"
proof -
  have n: "plat_sel_num_entries sel_new = 0" "sel_end sel_new = 0"
    by (simp_all add: sel_new_def sel_new_hdr_def plat_sel_num_entries_def)
  have "fst (plat_sel_add_entry sel_new (replicate 16 7)) = Ret 0"
    using sel_add_result [of sel_new "replicate 16 7"] sel_new_ok n by simp
  then obtain s' where add: "plat_sel_add_entry sel_new (replicate 16 7) = (Ret 0, s')"
    by (metis eq_fst_iff)
  then show ?thesis using sel_get_after_add [OF _ _ _ add] sel_new_ok n by auto
qed

text \<open>A reader of the log: start at record id 0 and follow the next record ids up to 0xFFFF.\<close>

fun sel_walk :: "nat \<Rightarrow> sel \<Rightarrow> int \<Rightarrow> u8 list list option" where
  "sel_walk 0 s rid = None"
| "sel_walk (Suc fuel) s rid =
     (case plat_sel_get_entry s rid of
        Ret (m, nxt) \<Rightarrow>
          if nxt = 0xFFFF then Some [m] else map_option ((#) m) (sel_walk fuel s nxt)
      | _ \<Rightarrow> None)"

lemma sel_walk_from:
  assumes "sel_inv s" and "int i < sel_end s" and "nat (sel_end s) - i \<le> fuel"
  shows "sel_walk fuel s (int i) = Some (drop i (take (nat (sel_end s)) (s_data s)))"
  using assms
proof (induction fuel arbitrary: i)
  case 0
  then show ?case by simp
next
  case (Suc fuel)
  have len: "nat (sel_end s) \<le> length (s_data s)" using Suc.prems(1) by (auto simp: sel_inv_def)
  have hd: "drop i (take (nat (sel_end s)) (s_data s))
      = s_data s ! i # drop (Suc i) (take (nat (sel_end s)) (s_data s))"
    using Suc.prems(2) len by (subst Cons_nth_drop_Suc [symmetric]) auto
  have get: "plat_sel_get_entry s (int i)
      = Ret (s_data s ! i, if int i + 1 = sel_end s then 0xFFFF else int i + 1)"
    using sel_get_in_range [OF Suc.prems(1), of "int i"] Suc.prems(2) by simp
  show ?case
  proof (cases "int i + 1 = sel_end s")
    case True
    then have "nat (sel_end s) = Suc i" by simp
    then show ?thesis using get True hd len by simp
  next
    case False
    have "sel_walk fuel s (int (Suc i)) = Some (drop (Suc i) (take (nat (sel_end s)) (s_data s)))"
      using Suc.prems False by (intro Suc.IH) auto
    moreover have "int i + 1 \<noteq> 0xFFFF" using Suc.prems(1,2) by (auto simp: sel_inv_def)
    ultimately show ?thesis using get False hd by (simp add: add.commute)
  qed
qed

text \<open>C27. A reader that starts at record id 0 and follows the next record ids reads every stored
  record of a non-empty log once, in order, and ends within 255 reads.\<close>

theorem sel_walk_complete:
  assumes "sel_inv s" and "sel_entries s \<noteq> []"
  shows "\<exists>ms. sel_walk 255 s 0 = Some ms \<and> map sel_payload ms = sel_entries s"
proof -
  have "0 < sel_end s" "sel_end s \<le> 255"
    using assms by (auto simp: sel_inv_def sel_entries_def)
  then show ?thesis
    using sel_walk_from [OF assms(1), of 0 255]
    by (simp add: sel_entries_def sel_payload_def [abs_def])
qed

lemma sel_walk_complete_witness:
  "\<exists>ms. sel_walk 255 (set_end 2 sel_new) 0 = Some ms \<and> length ms = 2"
proof -
  have e: "sel_entries (set_end 2 sel_new) = [replicate 9 0, replicate 9 0]"
    by (simp add: sel_new_def sel_new_hdr_def sel_entries_def set_end_def numeral_2_eq_2)
  have i: "sel_inv (set_end 2 sel_new)"
    using sel_new_ok by (simp add: sel_inv_def set_end_def)
  obtain ms where "sel_walk 255 (set_end 2 sel_new) 0 = Some ms"
      "map sel_payload ms = sel_entries (set_end 2 sel_new)"
    using sel_walk_complete [of "set_end 2 sel_new"] e i by auto
  then show ?thesis using e by (metis length_map length_Cons list.size(3) numeral_2_eq_2)
qed

text \<open>"Get SEL entry" uses only the low byte of the requested record id: requests that differ
  in the high byte get the same answer, so 0xFFFF (the last entry) reads as 255.\<close>

theorem sel_get_low_byte:
  assumes "req_byte q 2 = req_byte q' 2"
  shows "storage_get_sel s q r = storage_get_sel s q' r
    \<and> sel_request_record q = uint (req_byte q 2)"
  using assms by (simp add: storage_get_sel_def sel_request_record_def byte_low_only)

lemma sel_get_low_byte_witness:
  "storage_get_sel sel_new \<lparr>q_netfn = 0x28, q_cmd = 0x43, q_data = [0, 0, 1, 0]\<rparr> blank_res
     = storage_get_sel sel_new \<lparr>q_netfn = 0x28, q_cmd = 0x43, q_data = [0, 0, 1, 7]\<rparr> blank_res"
  using sel_get_low_byte [of "\<lparr>q_netfn = 0x28, q_cmd = 0x43, q_data = [0, 0, 1, 0]\<rparr>"
    "\<lparr>q_netfn = 0x28, q_cmd = 0x43, q_data = [0, 0, 1, 7]\<rparr>" sel_new blank_res] by simp

section \<open>Erasing under a reservation\<close>

text \<open>The "clear SEL" request of a client that holds reservation \<open>rsv\<close>.\<close>

definition clr_request :: "int \<Rightarrow> u8 \<Rightarrow> ipmi_req" where
  "clr_request rsv op = \<lparr>q_netfn = 0x28, q_cmd = 0x47,
     q_data = le16 rsv @ [0x43, 0x4C, 0x52, op]\<rparr>"

lemma clr_request_erase:
  assumes "0 \<le> rsv" and "rsv < 65536"
  shows "storage_clr_sel s (clr_request rsv 0xAA) r =
    (case plat_sel_erase rsv s of
       (Ub, s1) \<Rightarrow> None
     | (Fail e, s1) \<Rightarrow> Some (s1, set_cc CC_UNSPECIFIED_ERROR r)
     | (Ret _, s1) \<Rightarrow> Some (s1, reply CC_SUCCESS [s_junk s 0] r))"
  using byte_pair_le16 [OF assms]
  by (simp add: storage_clr_sel_def clr_request_def le16_def numeral_2_eq_2 numeral_eq_Suc)

definition sel_cleared_marker :: "(nat \<Rightarrow> u8) \<Rightarrow> u8 list" where
  "sel_cleared_marker junk = [0x20, 0, 4, 0x10, 0x72, 0x6F, 0x12, junk 14, junk 15]"

lemma length_time_stamp [simp]: "length (fst (time_stamp_fill s)) = 4"
  by simp

lemma sel_erase_current:
  assumes "sel_inv s" and "sel_stored s"
  shows "\<exists>s'. plat_sel_erase (s_rsv s) s = (Ret (), s') \<and> sel_inv s' \<and> sel_stored s'
    \<and> sel_entries s' = [sel_cleared_marker (s_junk s)]"
proof -
  let ?s1 = "s\<lparr>s_hdr := (s_hdr s)\<lparr>h_begin := 0, h_end := 0\<rparr>\<rparr>"
  obtain ts s2 where f1: "time_stamp_fill ?s1 = (ts, s2)" by (cases "time_stamp_fill ?s1")
  let ?s3 = "s2\<lparr>s_hdr := (s_hdr s2)\<lparr>h_ts_erase := ts\<rparr>\<rparr>"
  let ?s4 = "snd (file_store_sel_hdr ?s3)"
  obtain ts2 s5 where f2: "time_stamp_fill ?s4 = (ts2, s5)" by (cases "time_stamp_fill ?s4")
  have j: "s_junk s5 = s_junk s"
    using f1 f2 by (auto simp: time_stamp_fill_def file_store_sel_hdr_def split: option.splits)
  have l: "length ts = 4" "length ts2 = 4"
    using f1 f2 time_stamp_fill_frame(6) [of ?s1] time_stamp_fill_frame(6) [of ?s4] by simp_all
  have s2: "s_hdr s2 = s_hdr ?s1" "s_data s2 = s_data s" "s_rsv s2 = s_rsv s" "sel_stored s2"
    using f1 assms(2) time_stamp_fill_frame [of ?s1] time_stamp_fill_stored [of ?s1]
    by (simp_all add: sel_stored_def)
  have st3: "sel_stored ?s3" using s2 by (simp add: sel_stored_def)
  have s5: "s_hdr s5 = s_hdr ?s3" "s_data s5 = s_data s" "s_rsv s5 = s_rsv s" "sel_stored s5"
    using f2 s2 st3 time_stamp_fill_frame [of ?s4] time_stamp_fill_stored [of ?s4] by simp_all
  have inv5: "sel_inv s5" using assms(1) s2 s5 l by (simp add: sel_inv_def)
  have e5: "sel_entries s5 = []" using s2 s5 by (simp add: sel_entries_def)
  let ?m = "sel_cleared_entry ts2 (s_junk s5)"
  have m: "length ?m = 16" "drop 7 ?m = sel_cleared_marker (s_junk s)"
    using l j by (simp_all add: sel_cleared_entry_def sel_cleared_marker_def)
  have n5: "plat_sel_num_entries s5 = 0" using num_entries_entries [OF inv5] e5 by simp
  obtain s6 where add: "plat_sel_add_entry s5 ?m = (Ret (sel_end s5), s6)"
    using sel_add_result [OF inv5 s5(4) m(1)] n5 by (cases "plat_sel_add_entry s5 ?m") auto
  have "plat_sel_erase (s_rsv s) s = (Ret (), s6)"
    using st3 f2 by (simp add: plat_sel_erase_def Let_def f1 add split_beta del: time_stamp_fill_frame)
  then show ?thesis
    using sel_add_spec [OF inv5 m(1) s5(4)] m(2) e5 add by (simp add: log_step_def)
qed

text \<open>Erasing with the current reservation succeeds on a stored log and leaves exactly one
  entry, the record of the erasure; the two bytes of it the code never assigns are junk.\<close>

theorem sel_clear_with_reservation:
  assumes "sel_inv s" and "sel_stored s"
  shows "\<exists>s'. storage_clr_sel s (clr_request (s_rsv s) 0xAA) r
        = Some (s', reply CC_SUCCESS [s_junk s 0] r)
    \<and> sel_inv s' \<and> sel_entries s' = [sel_cleared_marker (s_junk s)]"
proof -
  have "0 \<le> s_rsv s" "s_rsv s < 65536" using assms(1) by (auto simp: sel_inv_def)
  then show ?thesis
    using sel_erase_current [OF assms] by (auto simp: clr_request_erase)
qed

lemma sel_clear_with_reservation_witness:
  "\<exists>s'. storage_clr_sel sel_new (clr_request (s_rsv sel_new) 0xAA) blank_res
     = Some (s', reply CC_SUCCESS [0] blank_res)"
  using sel_clear_with_reservation [of sel_new blank_res] sel_new_ok
  by (auto simp: sel_new_def)

text \<open>C25. A reservation is cancelled by any later one: after between 1 and 65533 further
  reservations, "clear SEL" with the old reservation is refused and changes nothing.\<close>

theorem sel_clear_stale_reservation:
  assumes "sel_inv s" and "plat_sel_rsv_id s = (rsv, s1)" and "0 < n" and "n < 0xFFFE"
    and "s2 = ((\<lambda>t. snd (plat_sel_rsv_id t)) ^^ n) s1"
  shows "storage_clr_sel s2 (clr_request rsv 0xAA) r = Some (s2, set_cc CC_UNSPECIFIED_ERROR r)"
proof -
  have iter: "((\<lambda>t. snd (plat_sel_rsv_id t)) ^^ n) t = sel_rsv.reserve_n n t" for n t
    by (induction n) simp_all
  have v: "sel_rsv.valid_rsv s" using assms(1) by (simp add: sel_rsv.valid_rsv_def sel_inv_def)
  have s1: "sel_rsv.valid_rsv s1" "s_rsv s1 = rsv"
    using sel_rsv.reserve_valid [OF v] sel_rsv.reserve_current [of s] assms(2) by simp_all
  then have r: "0 \<le> rsv" "rsv < 65536" by (auto simp: sel_rsv.valid_rsv_def)
  have "s_rsv s2 \<noteq> rsv"
    using sel_rsv.stale_reservation [OF s1(1) assms(3,4)] s1(2) assms(5) iter by simp
  then show ?thesis by (simp add: clr_request_erase [OF r] plat_sel_erase_def)
qed

lemma sel_clear_stale_reservation_witness:
  "storage_clr_sel (snd (plat_sel_rsv_id (snd (plat_sel_rsv_id sel_new)))) (clr_request 2 0xAA) blank_res
     = Some (snd (plat_sel_rsv_id (snd (plat_sel_rsv_id sel_new))), set_cc 0xFF blank_res)"
proof -
  have rsv: "plat_sel_rsv_id sel_new = (2, snd (plat_sel_rsv_id sel_new))"
    by (simp add: plat_sel_rsv_id_def)
  have n: "snd (plat_sel_rsv_id (snd (plat_sel_rsv_id sel_new)))
      = ((\<lambda>t. snd (plat_sel_rsv_id t)) ^^ 1) (snd (plat_sel_rsv_id sel_new))"
    by (simp only: One_nat_def funpow.simps o_apply id_apply)
  have b: "(0::nat) < 1" "(1::nat) < 0xFFFE" by simp_all
  show ?thesis by (rule sel_clear_stale_reservation [OF conjunct1 [OF sel_new_ok] rsv b n])
qed

end
