(* ===== verification/Sel_Persistence.thy ===== *)
theory Sel_Persistence
  imports Sel_Properties
begin

text \<open>
  The copy of the event log in its file: what the header and the slots of the file hold after
  every addition and deletion, and what a restart (\<open>plat_sel_init\<close> on the existing file) reads
  back.
\<close>

section \<open>Writing inside a file\<close>











section \<open>The header\<close>




section \<open>The file agrees with the log\<close>









section \<open>Rewriting the file after a deletion\<close>






section \<open>Restart\<close>





end
