(* ===== verification/Rmcp_Plus.thy ===== *)
theory Rmcp_Plus
  imports Session_Mgr User_Db
begin

text \<open>
  RMCP+ session set-up and the acceptance of session packets: class \<open>Rmcppacket\<close> of
  KETI-Edge/rmcp.cpp. The object keeps the client's address, the two session ids, the sequence
  number and the algorithms; the session table, the user table and \<open>evp_md\<close> are global.

  What is not in the source is the environment: the keyed hash of OpenSSL, the generator behind
  \<open>rand\<close> (a value for each seed and call number), the ARP table, the hexadecimal GUID of the board,
  and the bytes of a stack buffer a hash leaves unset. AES is not needed: a decrypted payload is
  either dropped or handed to the session wrapper, which is undefined for every packet.

  Writes past a local array or in front of the session table are not followed: they are recorded in
  order, and what is proved of the rest of the state holds when the bytes they hit are not used.
  Reads outside a vector or of an unset local are undefined (\<open>None\<close>).
\<close>

section \<open>State and environment\<close>

datatype md = Md_sha1 | Md_md5 | Md_sha256

fun md_size :: "md \<Rightarrow> nat" where
  "md_size Md_sha1 = 20"
| "md_size Md_md5 = 16"
| "md_size Md_sha256 = 32"

record rmcp_env =
  v_hmac :: "md \<Rightarrow> u8 list \<Rightarrow> u8 list \<Rightarrow> u8 list"
  v_rand :: "u32 \<Rightarrow> nat \<Rightarrow> nat"
  v_arp :: "u32 \<Rightarrow> u8 list"
  v_uuid :: "u8 list"
  v_stack :: "u8 list"

record conn =
  k_ip :: u32
  k_port :: u16
  k_client_id :: "u8 list"
  k_server_id :: "u8 list"
  k_seq :: "u8 list"
  k_auth :: u8
  k_integrity :: u8
  k_confidential :: u8

datatype overrun =
    User_id_before_table u8
  | Sik_overrun nat
  | Rakp3_overrun nat
  | Aes_key_overrun nat
  | Rakp4_overrun nat
  | Authcode_overrun nat
  | Decrypt_overrun nat

record lan_world =
  w_conn :: conn
  w_sessions :: sessions
  w_users :: user_db
  w_md :: "md option"
  w_seed :: u32
  w_calls :: nat
  w_now :: u32
  w_over :: "overrun list"

section \<open>Small steps\<close>

text \<open>The values of \<open>n\<close> calls of \<open>rand() % m\<close>.\<close>

definition draw :: "rmcp_env \<Rightarrow> nat \<Rightarrow> nat \<Rightarrow> lan_world \<Rightarrow> u8 list \<times> lan_world" where
  "draw v n m w =
     (map (\<lambda>i. word_of_nat (v_rand v (w_seed w) (w_calls w + i) mod m)) [0..<n],
      w\<lparr>w_calls := w_calls w + n\<rparr>)"

definition srand :: "u32 \<Rightarrow> lan_world \<Rightarrow> lan_world" where
  "srand s w = w\<lparr>w_seed := s, w_calls := 0\<rparr>"

definition note_overrun :: "(nat \<Rightarrow> overrun) \<Rightarrow> nat \<Rightarrow> nat \<Rightarrow> lan_world \<Rightarrow> lan_world" where
  "note_overrun f got room w = (if got > room then w\<lparr>w_over := w_over w @ [f (got - room)]\<rparr> else w)"

definition set_session :: "nat \<Rightarrow> session \<Rightarrow> lan_world \<Rightarrow> lan_world" where
  "set_session i s w = w\<lparr>w_sessions := (w_sessions w)[i := s]\<rparr>"

text \<open>The hash an algorithm number selects; other numbers leave \<open>evp_md\<close> as it is.\<close>

definition md_of :: "u8 \<Rightarrow> md option" where
  "md_of a = (if a = 1 then Some Md_sha1 else if a = 2 then Some Md_md5
     else if a = 3 then Some Md_sha256 else None)"

definition select_md :: "u8 \<Rightarrow> lan_world \<Rightarrow> lan_world" where
  "select_md a w = (case md_of a of None \<Rightarrow> w | Some m \<Rightarrow> w\<lparr>w_md := Some m\<rparr>)"

text \<open>The session the packet's client address and a session id select.\<close>

definition session_of :: "u8 list \<Rightarrow> lan_world \<Rightarrow> nat option" where
  "session_of sid w = find_session (k_ip (w_conn w)) sid (w_sessions w)"

definition rmcp_reply_header :: "u8 list \<Rightarrow> u8 \<Rightarrow> u8 list" where
  "rmcp_reply_header p ty = take 4 p @ [0x06, ty] @ replicate 8 0"

section \<open>Open session request\<close>

definition rmcp_open_session :: "rmcp_env \<Rightarrow> lan_world \<Rightarrow> u8 list \<Rightarrow> (lan_world \<times> u8 list) option" where
  "rmcp_open_session v w p =
     (if length p \<le> 14 \<or> length p < 16 + unat (p ! 14) \<or> p ! 14 < 29 then None
      else
        let data = take (unat (p ! 14)) (drop 16 p);
            auth_payload = drop 8 data;
            (server, w1) = draw v 4 255 w;
            client = take 4 (drop 4 data);
            k = (w_conn w1)\<lparr>k_auth := auth_payload ! 4, k_integrity := auth_payload ! 12,
                  k_confidential := auth_payload ! 20, k_client_id := client, k_server_id := server\<rparr>
        in Some (w1\<lparr>w_conn := k\<rparr>,
             rmcp_reply_header p 0x11 @ [p ! 14 + 4, 0, data ! 0, 0, 4, 0] @ client @ server
             @ auth_payload))"

section \<open>RAKP message 1\<close>

text \<open>The value stored as the user's privilege: the user's privilege when the request asks for
  level 0, the user's index otherwise.\<close>

definition rakp1_priv :: "u8 \<Rightarrow> u8 list \<Rightarrow> int \<Rightarrow> user_db \<Rightarrow> int cres" where
  "rakp1_priv rolem name idx db =
     (if rolem = 0 then
        (case app_getUserPriv name (nat idx) db of
           Ret x \<Rightarrow> if x = -1 \<or> x < uint (rolem AND 0x07) then Fail (-1) else Ret x
         | Fail e \<Rightarrow> Fail e
         | Ub \<Rightarrow> Ub)
      else Ret idx)"

text \<open>The session a request is stored in: the one with the ids, else the first closed one; \<open>None\<close> when
  the five are in use. A new session's user id is written to element -1 of the table.\<close>

definition rakp1_store ::
    "rmcp_env \<Rightarrow> (session \<Rightarrow> session) \<Rightarrow> u8 \<Rightarrow> lan_world \<Rightarrow> nat option \<times> lan_world" where
  "rakp1_store v fill user_idx w =
     (let ip = k_ip (w_conn w); port = k_port (w_conn w); lan = setRmcpLanData (le32 ip) in
      case session_of (k_server_id (w_conn w)) w of
        Some i \<Rightarrow> (Some i, set_session i
          (setSessionUserId user_idx (lan [] port (fill (w_sessions w ! i)))) w)
      | None \<Rightarrow>
          (case find_first (\<lambda>s. sn_handle s = 0) (w_sessions w) of
             None \<Rightarrow> (None, w)
           | Some i \<Rightarrow> (Some i,
               (set_session i (lan (v_arp v ip) port (fill (w_sessions w ! i))) w)
                 \<lparr>w_over := w_over w @ [User_id_before_table user_idx]\<rparr>)))"

definition rakp2_length :: "u8 \<Rightarrow> u8" where
  "rakp2_length a = (if a = 1 then 60 else if a = 3 then 72 else 56)"

definition rmcp_rakp1 :: "rmcp_env \<Rightarrow> lan_world \<Rightarrow> u8 list \<Rightarrow> (lan_world \<times> u8 list) option" where
  "rmcp_rakp1 v w p =
     (let data = drop 16 p in
      if length p < 16 \<or> length data < 28 \<or> length data < 28 + unat (data ! 27) then None
      else
        let rolem = data ! 24;
            name = take (unat (data ! 27)) (drop 28 data);
            rm = take 16 (drop 8 data);
            idx = app_getUserindex name (w_users w)
        in case (app_getUserpassword (nat idx) (w_users w), rakp1_priv rolem name idx (w_users w)) of
             (None, _) \<Rightarrow> None
           | (_, Ub) \<Rightarrow> None
           | (_, Fail _) \<Rightarrow> Some (w, [])
           | (Some passwd, Ret priv) \<Rightarrow>
               let (rc, w1) = draw v 16 256 (srand (w_now w) w);
                   k = w_conn w1;
                   fill = setRmcpData (k_server_id k) (k_client_id k) rc rm rolem (word_of_int priv)
                     name (data ! 27) passwd;
                   (slot, w2) = rakp1_store v fill (word_of_int idx) w1;
                   w3 = select_md (k_auth k) w2;
                   out = rmcp_reply_header p 0x13 @ [rakp2_length (k_auth k), 0, data ! 0, 0, 0, 0]
                     @ k_client_id k @ rc @ take 16 (v_uuid v)
               in if k_auth k = 0 then Some (w3, out)
                  else case (md_of (k_auth k), slot) of
                      (Some m, Some i) \<Rightarrow>
                        let s = w_sessions w3 ! i
                        in Some (w3, out @ v_hmac v m (sn_kuid s) (buildHmacData (v_uuid v) s))
                    | _ \<Rightarrow> None)"

section \<open>RAKP message 3\<close>

text \<open>The keys derived from a session: integrity key, the four hashes and their destinations. The
  buffer for K1 has 32 bytes, the rest of which stays unset; the one for the AES key has 16.\<close>

definition rakp3_keys :: "rmcp_env \<Rightarrow> md \<Rightarrow> session \<Rightarrow> u8 list \<times> u8 list \<times> u8 list \<times> u8 list" where
  "rakp3_keys v m s =
     (let sik = v_hmac v m (sn_kuid s) (buildHmacSikData s)
      in (sik, v_hmac v m (sn_kuid s) (buildHmacRAKP3 s), v_hmac v m sik (replicate 20 1),
          v_hmac v m sik (replicate 20 2)))"

definition rakp4_message :: "u8 list \<Rightarrow> lan_world \<Rightarrow> u8 list" where
  "rakp4_message p w = rmcp_reply_header p 0x15 @ [p ! 16, 0, 0, 0, 0, 0] @ k_client_id (w_conn w)"

definition rmcp_rakp3 :: "rmcp_env \<Rightarrow> lan_world \<Rightarrow> u8 list \<Rightarrow> (lan_world \<times> u8 list) option" where
  "rmcp_rakp3 v w p =
     (let data = drop 16 p; auth = k_auth (w_conn w) in
      if length p < 16 \<or> length data < 8 then None
      else
        let w1 = select_md auth w in
        case session_of (k_server_id (w_conn w1)) w1 of
          None \<Rightarrow> Some (w1, [])
        | Some i \<Rightarrow>
            let s = setSessionActive (word_of_nat i) (w_sessions w1 ! i);
                w2 = set_session i s w1
            in if auth = 0 then Some (w2, rakp4_message p w2)
               else case w_md w2 of
                   None \<Rightarrow> None
                 | Some m \<Rightarrow>
                     let (sik, rakp3, k1, aes) = rakp3_keys v m s;
                         w3 = note_overrun Sik_overrun (length sik) (length (buildHmacSikData s)) w2;
                         w4 = note_overrun Rakp3_overrun (length rakp3) (length (buildHmacRAKP3 s)) w3;
                         w5 = note_overrun Aes_key_overrun (length aes) 16 w4;
                         s' = setSessionAesKey (k1 @ v_stack v) aes s;
                         w6 = set_session i s' w5
                     in if drop 8 data \<noteq> rakp3 then Some (w6, [])
                        else if data ! 0 \<noteq> 0 then Some (w6, [])
                        else
                          let rakp4 = v_hmac v m sik (buildHmacRAKP4 (v_uuid v) s')
                          in Some (note_overrun Rakp4_overrun (length rakp4) 20 w6,
                               rakp4_message p w6 @ rakp4))"

section \<open>Session packets\<close>

text \<open>The authentication code at the end of an encrypted packet: where it starts and how long it is;
  \<open>None\<close> for the algorithms for which the code compares two empty vectors. The packet's length is
  kept in one byte.\<close>

definition payload_code_size :: "u8 \<Rightarrow> u8 \<Rightarrow> nat option" where
  "payload_code_size auth integrity =
     (if auth = 1 then Some 12
      else if auth = 2 \<or> (auth = 3 \<and> integrity = 4) then Some 16 else None)"

definition payload_split :: "u8 list \<Rightarrow> nat \<Rightarrow> (u8 list \<times> u8 list) option" where
  "payload_split p n =
     (let len = length p mod 256 in
      if len < 4 + n then None else Some (drop 4 (take (len - n) p), drop (len - n) p))"

datatype verdict = Accepted | Rejected | Undefined_read

definition payload_check :: "rmcp_env \<Rightarrow> lan_world \<Rightarrow> u8 list \<Rightarrow> session \<Rightarrow> verdict" where
  "payload_check v w p s =
     (if length (sn_k1 s) < 20 then Undefined_read
      else case payload_code_size (k_auth (w_conn w)) (k_integrity (w_conn w)) of
          None \<Rightarrow> Accepted
        | Some n \<Rightarrow>
            (case (payload_split p n, w_md w) of
               (Some (ex, inn), Some m) \<Rightarrow>
                 if take n (v_hmac v m (take 20 (sn_k1 s)) ex) = inn then Accepted else Rejected
             | _ \<Rightarrow> Undefined_read))"

definition next_sequence :: "u8 list \<Rightarrow> u8 list" where
  "next_sequence t = (if t ! 0 < 0xFF then t[0 := t ! 0 + 1] else t)"

definition accept_sequence :: "u8 list \<Rightarrow> lan_world \<Rightarrow> lan_world option" where
  "accept_sequence t w =
     (if t = k_seq (w_conn w) \<and> t = replicate 4 0xFF then None
      else Some (w\<lparr>w_conn := (w_conn w)\<lparr>k_seq := next_sequence t\<rparr>\<rparr>))"

text \<open>The decryption reads 32 to 32 + length of the packet and writes \<open>length\<close> bytes to a buffer of
  \<open>length - 16\<close>; a length of at most 16 has no such buffer.\<close>

definition rmcp_payload :: "rmcp_env \<Rightarrow> lan_world \<Rightarrow> u8 list \<Rightarrow> (lan_world \<times> u8 list) option" where
  "rmcp_payload v w p =
     (if length p < 16 \<or> p ! 14 \<le> 16 then None
      else
        let enc = (p ! 5 = 0xC0 \<or> p ! 5 = 0xC1);
            w1 = select_md (k_auth (w_conn w)) w
        in case session_of (take 4 (drop 6 p)) w1 of
             None \<Rightarrow> Some (w1, [])
           | Some i \<Rightarrow>
               (case (if enc then payload_check v w1 p (w_sessions w1 ! i) else Accepted) of
                  Undefined_read \<Rightarrow> None
                | Rejected \<Rightarrow> Some (w1, [])
                | Accepted \<Rightarrow>
                    (case accept_sequence (take 4 (drop 10 p)) w1 of
                       None \<Rightarrow> Some (w1, [])
                     | Some w2 \<Rightarrow>
                         if p ! 5 = 0xC0 then None
                         else if \<not> enc then Some (w2, [])
                         else if length p < 32 + unat (p ! 14) then None
                         else Some (w2\<lparr>w_over := w_over w2 @ [Decrypt_overrun 16]\<rparr>, []))))"

section \<open>\<open>rmcp_process_packet\<close>\<close>

text \<open>The header is checked byte by byte; a packet that ends before a byte that is looked at is
  undefined. Presence pings (class 6) and packets that are not for IPMI get no answer, and those
  without the RMCP+ authentication type go to the session wrapper, which is undefined.\<close>

definition header_is :: "nat \<Rightarrow> u8 \<Rightarrow> u8 \<Rightarrow> u8 list \<Rightarrow> bool option" where
  "header_is i bm b p = (if i < length p then Some (p ! i AND bm = b) else None)"

fun header_all :: "(nat \<times> u8 \<times> u8) list \<Rightarrow> u8 list \<Rightarrow> bool option" where
  "header_all [] p = Some True"
| "header_all ((i, bm, b) # cs) p =
     (case header_is i bm b p of
        None \<Rightarrow> None | Some False \<Rightarrow> Some False | Some True \<Rightarrow> header_all cs p)"

definition rmcp_process_packet :: "rmcp_env \<Rightarrow> lan_world \<Rightarrow> u8 list \<Rightarrow> (lan_world \<times> u8 list) option" where
  "rmcp_process_packet v w p =
     (case header_all [(0, 0xFF, 0x06), (1, 0xFF, 0), (2, 0xFF, 0xFF), (3, 0x0F, 0x07)] p of
        None \<Rightarrow> None
      | Some False \<Rightarrow> Some (w, [])
      | Some True \<Rightarrow>
          if length p \<le> 4 then None
          else if p ! 4 \<noteq> 0x06 then None
          else if length p \<le> 5 then None
          else if p ! 5 = 0x10 then rmcp_open_session v w p
          else if p ! 5 = 0x12 then rmcp_rakp1 v w p
          else if p ! 5 = 0x14 then rmcp_rakp3 v w p
          else if p ! 5 = 0xC0 \<or> p ! 5 = 0xC1 \<or> p ! 5 = 0x40 then rmcp_payload v w p
          else Some (w, []))"

text \<open>\<open>setRmcpInformation\<close>: one object serves every client, so a packet of another client changes
  only the address.\<close>

definition setRmcpInformation :: "u32 \<Rightarrow> u16 \<Rightarrow> lan_world \<Rightarrow> lan_world" where
  "setRmcpInformation ip port w = w\<lparr>w_conn := (w_conn w)\<lparr>k_ip := ip, k_port := port\<rparr>\<rparr>"

end
