(* ===== verification/Rmcp_Properties.thy ===== *)
theory Rmcp_Properties
  imports Rmcp_Plus User_Properties
begin

text \<open>
  Properties of the RMCP+ handshake and of the packets of a session: which key a handshake needs, what
  the first message stores, what a failed authentication leaves behind, where the server's
  challenge comes from, and which session packets are accepted.
\<close>

section \<open>Messages\<close>

definition rakp1_message :: "u8 \<Rightarrow> u8 list \<Rightarrow> u8 list \<Rightarrow> u8 \<Rightarrow> u8 list \<Rightarrow> u8 list" where
  "rakp1_message tag server rm rolem name =
     [0x06, 0, 0xFF, 0x07, 0x06, 0x12] @ replicate 8 0 @ [0, 0] @ [tag, 0, 0, 0] @ server @ rm
     @ [rolem, 0, 0, word_of_nat (length name)] @ name"

definition rakp3_message :: "u8 \<Rightarrow> u8 list \<Rightarrow> u8 list \<Rightarrow> u8 list" where
  "rakp3_message tag server code =
     [0x06, 0, 0xFF, 0x07, 0x06, 0x14] @ replicate 8 0 @ [0, 0] @ [tag, 0, 0, 0] @ server @ code"

lemma header_ok:
  "rmcp_process_packet v w ([0x06, 0, 0xFF, 0x07, 0x06, 0x12] @ q) = rmcp_rakp1 v w ([0x06, 0, 0xFF, 0x07, 0x06, 0x12] @ q)"
  "rmcp_process_packet v w ([0x06, 0, 0xFF, 0x07, 0x06, 0x14] @ q) = rmcp_rakp3 v w ([0x06, 0, 0xFF, 0x07, 0x06, 0x14] @ q)"
  by (simp_all add: rmcp_process_packet_def header_is_def)

lemma rakp1_fields:
  assumes p_def: "p = rakp1_message tag server rm rolem name"
    and assms: "length server = 4" "length rm = 16" "length name \<le> 16"
  shows "16 \<le> length p" "length (drop 16 p) = 28 + length name" "drop 16 p ! 24 = rolem"
    "unat (drop 16 p ! 27) = length name" "take (length name) (drop 28 (drop 16 p)) = name"
    "take 16 (drop 8 (drop 16 p)) = rm" "drop 16 p ! 0 = tag"
    "drop 16 p ! 27 = word_of_nat (length name)" "take 4 p = [0x06, 0, 0xFF, 0x07]"
proof -
  have d: "drop 16 p = [tag, 0, 0, 0] @ server @ rm @ [rolem, 0, 0, word_of_nat (length name)] @ name"
    by (simp add: p_def rakp1_message_def)
  have n: "length name < 256" using assms(4) by simp
  show "length (drop 16 p) = 28 + length name" "drop 16 p ! 24 = rolem"
    "take (length name) (drop 28 (drop 16 p)) = name" "take 16 (drop 8 (drop 16 p)) = rm"
    "drop 16 p ! 0 = tag" "drop 16 p ! 27 = word_of_nat (length name)"
    unfolding d using assms by (simp_all add: nth_append)
  show "unat (drop 16 p ! 27) = length name"
    unfolding d using assms n by (simp add: nth_append unat_of_nat)
  show "16 \<le> length p" "take 4 p = [0x06, 0, 0xFF, 0x07]"
    using assms by (simp_all add: p_def rakp1_message_def)
qed

section \<open>What the first message stores\<close>

text \<open>The sixteen challenge bytes of a second.\<close>

definition challenge :: "rmcp_env \<Rightarrow> u32 \<Rightarrow> u8 list" where
  "challenge v t = map (\<lambda>j. word_of_nat (v_rand v t j mod 256)) [0..<16]"

lemma length_challenge [simp]: "length (challenge v t) = 16"
  by (simp add: challenge_def)

lemma draw_challenge: "draw v 16 256 (srand t w) = (challenge v t, (srand t w)\<lparr>w_calls := 16\<rparr>)"
  by (simp add: draw_def srand_def challenge_def)

text \<open>The session RAKP message 1 opens in slot \<open>i\<close>.\<close>

definition opened :: "rmcp_env \<Rightarrow> lan_world \<Rightarrow> u8 list \<Rightarrow> u8 \<Rightarrow> u8 list \<Rightarrow> nat \<Rightarrow> session" where
  "opened v w rm rolem name i =
     (let k = w_conn w; idx = app_getUserindex name (w_users w) in
      setRmcpLanData (le32 (k_ip k)) (v_arp v (k_ip k)) (k_port k)
        (setRmcpData (k_server_id k) (k_client_id k) (challenge v (w_now w)) rm rolem (word_of_int idx)
          name (word_of_nat (length name)) (u_password (ud_users (w_users w) ! nat idx))
          (w_sessions w ! i)))"

definition fresh_handshake :: "lan_world \<Rightarrow> md \<Rightarrow> nat \<Rightarrow> bool" where
  "fresh_handshake w m i \<longleftrightarrow> session_inv (w_sessions w) \<and> user_inv (w_users w)
     \<and> length (k_server_id (w_conn w)) = 4 \<and> length (k_client_id (w_conn w)) = 4
     \<and> md_of (k_auth (w_conn w)) = Some m
     \<and> session_of (k_server_id (w_conn w)) w = None
     \<and> find_first (\<lambda>s. sn_handle s = 0) (w_sessions w) = Some i"

lemma app_getUserindex_range:
  assumes "user_inv db"
  shows "0 \<le> app_getUserindex n db \<and> app_getUserindex n db < 10"
  using find_user_range [of n 0 "ud_users db"] assms
  by (auto simp: app_getUserindex_def user_inv_def)

lemma rakp1_result:
  assumes f: "fresh_handshake w m i" and rm: "length rm = 16" and n: "length name \<le> 16" and r: "rolem \<noteq> 0"
    and s_def: "s = opened v w rm rolem name i"
  shows "\<exists>w1. rmcp_rakp1 v w (rakp1_message tag (k_server_id (w_conn w)) rm rolem name)
      = Some (w1, [0x06, 0, 0xFF, 0x07, 0x06, 0x13, 0, 0, 0, 0, 0, 0, 0, 0,
          rakp2_length (k_auth (w_conn w)), 0, tag, 0, 0, 0] @ k_client_id (w_conn w)
          @ challenge v (w_now w) @ take 16 (v_uuid v)
          @ v_hmac v m (sn_kuid s) (buildHmacData (v_uuid v) s))
    \<and> w_sessions w1 = (w_sessions w)[i := s] \<and> w_conn w1 = w_conn w \<and> w_users w1 = w_users w
    \<and> w_md w1 = Some m
    \<and> w_over w1 = w_over w @ [User_id_before_table (word_of_int (app_getUserindex name (w_users w)))]"
proof -
  define p where "p = rakp1_message tag (k_server_id (w_conn w)) rm rolem name"
  define d where "d = drop 16 p"
  let ?db = "w_users w"
  have server: "length (k_server_id (w_conn w)) = 4" using f by (simp add: fresh_handshake_def)
  note flds = rakp1_fields [OF p_def server rm n, folded d_def]
  have idx: "0 \<le> app_getUserindex name ?db" "app_getUserindex name ?db < 10"
    using app_getUserindex_range f by (simp_all add: fresh_handshake_def)
  then have pw: "app_getUserpassword (nat (app_getUserindex name ?db)) ?db
      = Some (u_password (ud_users ?db ! nat (app_getUserindex name ?db)))"
    by (simp add: app_getUserpassword_def)
  have i: "i < length (w_sessions w)"
    using f find_first_Some [of _ "w_sessions w" i] by (auto simp: fresh_handshake_def)
  have a: "md_of (k_auth (w_conn w)) = Some m" "k_auth (w_conn w) \<noteq> 0"
    "session_of (k_server_id (w_conn w)) w = None"
    "find_first (\<lambda>s. sn_handle s = 0) (w_sessions w) = Some i"
    using f by (auto simp: fresh_handshake_def md_of_def)
  have ses: "session_of sid ((srand t w)\<lparr>w_calls := c\<rparr>) = session_of sid w" for sid t c
    by (simp add: session_of_def srand_def)
  have store: "rakp1_store v fill u ((srand t w)\<lparr>w_calls := c\<rparr>) =
      (Some i, (set_session i (setRmcpLanData (le32 (k_ip (w_conn w))) (v_arp v (k_ip (w_conn w)))
          (k_port (w_conn w)) (fill (w_sessions w ! i))) ((srand t w)\<lparr>w_calls := c\<rparr>))
        \<lparr>w_over := w_over w @ [User_id_before_table u]\<rparr>)" for fill u t c
    using a by (simp add: rakp1_store_def ses Let_def) (simp add: srand_def)
  have out: "rmcp_rakp1 v w p = Some (x, y)"
    if "x = (set_session i s ((srand (w_now w) w)\<lparr>w_calls := 16\<rparr>))
          \<lparr>w_over := w_over w @ [User_id_before_table (word_of_int (app_getUserindex name ?db))],
            w_md := Some m\<rparr>"
      and "y = (rmcp_reply_header p 0x13 @ [rakp2_length (k_auth (w_conn w)), 0, tag, 0, 0, 0]
          @ k_client_id (w_conn w) @ challenge v (w_now w) @ take 16 (v_uuid v))
          @ v_hmac v m (sn_kuid s) (buildHmacData (v_uuid v) s)" for x y
  proof -
    have small: "(length p < 16) = False" "(length d < 28) = False" "(length d < 28 + length name) = False"
      using flds(1,2) by simp_all
    have s': "s = setRmcpLanData (le32 (k_ip (w_conn w))) (v_arp v (k_ip (w_conn w))) (k_port (w_conn w))
        (setRmcpData (k_server_id (w_conn w)) (k_client_id (w_conn w)) (challenge v (w_now w)) rm rolem
          (word_of_int (app_getUserindex name ?db)) name (word_of_nat (length name))
          (u_password (ud_users ?db ! nat (app_getUserindex name ?db))) (w_sessions w ! i))"
      by (simp add: s_def opened_def Let_def)
    have len8: "unat (word_of_nat (length name) :: u8) = length name" using flds(4,8) by simp
    have conn: "w_conn (srand t w) = w_conn w" for t by (simp add: srand_def)
    have nth: "(w_sessions w)[i := s] ! i = s" using i by simp
    show ?thesis
      unfolding rmcp_rakp1_def Let_def d_def [symmetric] that
      by (simp only: small simp_thms if_False flds(3,5-8) len8 pw rakp1_priv_def r draw_challenge store prod.case
          option.case cres.case)
        (simp add: conn a select_md_def set_session_def nth srand_def s' [symmetric])
  qed
  have rep: "replicate 8 (0 :: u8) = [0, 0, 0, 0, 0, 0, 0, 0]" by (simp add: numeral_eq_Suc)
  show ?thesis
    unfolding p_def [symmetric]
    using out [OF refl refl] flds(9) rep by (simp add: rmcp_reply_header_def set_session_def srand_def)
qed

section \<open>What the third message does\<close>

lemma find_first_update:
  "find_first P ss = None \<Longrightarrow> i < length ss \<Longrightarrow> P x \<Longrightarrow> find_first P (ss[i := x]) = Some i"
proof (induction ss arbitrary: i)
  case Nil
  then show ?case by simp
next
  case (Cons s ss)
  then show ?case by (cases i) (auto split: if_splits)
qed

lemma rakp3_fields:
  assumes "length server = 4"
  shows "drop 16 (rakp3_message tag server code) = [tag, 0, 0, 0] @ server @ code"
    "16 \<le> length (rakp3_message tag server code)" "rakp3_message tag server code ! 16 = tag"
    "take 4 (rakp3_message tag server code) = [0x06, 0, 0xFF, 0x07]"
  using assms by (simp_all add: rakp3_message_def nth_append)

lemma active_session_builds:
  "buildHmacRAKP3 (setSessionActive n s) = buildHmacRAKP3 s"
  "sn_kuid (setSessionActive n s) = sn_kuid s" "sn_handle (setSessionActive n s) = 32 + n"
  "sn_handle (setSessionAesKey a b s) = sn_handle s" "sn_user_priv (setSessionAesKey a b s) = sn_user_priv s"
  "sn_user_priv (setSessionActive n s) = sn_user_priv s"
  "sn_k1 (setSessionAesKey a b s) = take 32 a"
  by (simp_all add: buildHmacRAKP3_def setSessionActive_def setSessionAesKey_def)

lemma note_overrun_frame [simp]:
  "w_sessions (note_overrun f a b w) = w_sessions w" "w_conn (note_overrun f a b w) = w_conn w"
  "w_users (note_overrun f a b w) = w_users w" "w_md (note_overrun f a b w) = w_md w"
  by (simp_all add: note_overrun_def)

lemma set_session_frame [simp]:
  "w_sessions (set_session i s w) = (w_sessions w)[i := s]" "w_conn (set_session i s w) = w_conn w"
  "w_users (set_session i s w) = w_users w" "w_md (set_session i s w) = w_md w"
  by (simp_all add: set_session_def)

lemma rakp3_result:
  assumes i: "session_of (k_server_id (w_conn w)) w = Some i" and server: "length (k_server_id (w_conn w)) = 4"
    and md: "md_of (k_auth (w_conn w)) = Some m"
  shows "\<exists>w' aes. rmcp_rakp3 v w (rakp3_message tag (k_server_id (w_conn w)) code) = Some (w',
      if code = v_hmac v m (sn_kuid (w_sessions w ! i)) (buildHmacRAKP3 (w_sessions w ! i)) \<and> tag = 0
      then rakp4_message (rakp3_message tag (k_server_id (w_conn w)) code) w
        @ v_hmac v m (v_hmac v m (sn_kuid (w_sessions w ! i)) (buildHmacSikData (w_sessions w ! i)))
            (buildHmacRAKP4 (v_uuid v) (w_sessions w ! i))
      else [])
    \<and> w_conn w' = w_conn w \<and> w_users w' = w_users w
    \<and> w_sessions w' = (w_sessions w)[i := setSessionAesKey
        (v_hmac v m (v_hmac v m (sn_kuid (w_sessions w ! i)) (buildHmacSikData (w_sessions w ! i)))
           (replicate 20 1) @ v_stack v) aes
        (setSessionActive (word_of_nat i) (w_sessions w ! i))]"
proof -
  define p where "p = rakp3_message tag (k_server_id (w_conn w)) code"
  define d where "d = drop 16 p"
  define s where "s = w_sessions w ! i"
  note flds = rakp3_fields [OF server, of tag code, folded p_def]
  have d: "\<not> (length p < 16 \<or> length d < 8)" "drop 8 d = code" "d ! 0 = tag"
    using flds(1,2) server by (simp_all add: d_def)
  have len: "i < length (w_sessions w)"
    using i find_first_Some [of _ "w_sessions w" i] by (auto simp: session_of_def find_session_def)
  have a: "k_auth (w_conn w) \<noteq> 0" using md by (auto simp: md_of_def)
  have w1: "session_of sid (w\<lparr>w_md := x\<rparr>) = session_of sid w" for sid x
    by (simp add: session_of_def)
  have sik: "buildHmacSikData (setSessionActive n s) = buildHmacSikData s" for n s
    by (simp add: buildHmacSikData_def setSessionActive_def)
  have r4: "buildHmacRAKP4 u (setSessionAesKey x y (setSessionActive n s)) = buildHmacRAKP4 u s" for u x y n s
    by (simp add: buildHmacRAKP4_def setSessionActive_def setSessionAesKey_def)
  have sel: "select_md (k_auth (w_conn w)) w = w\<lparr>w_md := Some m\<rparr>" using md by (simp add: select_md_def)
  show ?thesis
    unfolding p_def [symmetric] s_def [symmetric] rmcp_rakp3_def Let_def d_def [symmetric] rakp3_keys_def
    by (simp only: d if_False sel)
      (use len flds(3) in \<open>simp add: active_session_builds sik r4 rakp4_message_def s_def [symmetric] w1 i a,
        auto\<close>)
qed

section \<open>Properties\<close>

lemma process_messages:
  "rmcp_process_packet v w (rakp1_message tag server rm rolem name) = rmcp_rakp1 v w (rakp1_message tag server rm rolem name)"
  "rmcp_process_packet v w (rakp3_message tag server code) = rmcp_rakp3 v w (rakp3_message tag server code)"
  using header_ok unfolding rakp1_message_def rakp3_message_def by blast+

text \<open>The code a client sends in RAKP message 3, from a password and public data.\<close>

definition client_code ::
    "rmcp_env \<Rightarrow> md \<Rightarrow> u8 list \<Rightarrow> u8 list \<Rightarrow> u8 list \<Rightarrow> u8 \<Rightarrow> u8 list \<Rightarrow> u8 list" where
  "client_code v m passwd rc client rolem name =
     v_hmac v m passwd (rc @ client @ [rolem, word_of_nat (length name)] @ name)"

lemma opened_facts:
  "sn_kuid (opened v w rm rolem name i) = u_password (ud_users (w_users w) ! nat (app_getUserindex name (w_users w)))"
  "buildHmacRAKP3 (opened v w rm rolem name i) = challenge v (w_now w) @ k_client_id (w_conn w)
     @ [rolem, word_of_nat (length name)] @ name"
  "sn_user_priv (opened v w rm rolem name i) = word_of_int (app_getUserindex name (w_users w))"
  "sn_user_id (opened v w rm rolem name i) = sn_user_id (w_sessions w ! i)"
  "getSessionId (k_ip (w_conn w)) (k_server_id (w_conn w)) (opened v w rm rolem name i)"
  "sn_rolem (opened v w rm rolem name i) = rolem" "sn_handle (opened v w rm rolem name i) = sn_handle (w_sessions w ! i)"
  by (simp_all add: opened_def Let_def setRmcpLanData_def setRmcpData_def buildHmacRAKP3_def getSessionId_def)

lemma handshake_runs:
  assumes f: "fresh_handshake w m i" and rm: "length rm = 16" and n: "length name \<le> 16" and r: "rolem \<noteq> 0"
    and db: "db = w_users w" and conn: "k = w_conn w"
    and code: "code = client_code v m (u_password (ud_users db ! nat (app_getUserindex name db)))
      (challenge v (w_now w)) (k_client_id k) rolem name"
  shows "\<exists>w1 out1 w2 out2.
      rmcp_process_packet v w (rakp1_message tag (k_server_id k) rm rolem name) = Some (w1, out1)
    \<and> take 16 (drop 24 out1) = challenge v (w_now w)
    \<and> rmcp_process_packet v w1 (rakp3_message 0 (k_server_id k) code) = Some (w2, out2)
    \<and> out2 \<noteq> [] \<and> out2 ! 5 = 0x15
    \<and> sn_handle (w_sessions w2 ! i) = 32 + word_of_nat i
    \<and> sn_user_priv (w_sessions w2 ! i) = word_of_int (app_getUserindex name db)"
proof -
  let ?s = "opened v w rm rolem name i"
  have k4: "length (k_server_id k) = 4" "length (k_client_id k) = 4" "md_of (k_auth k) = Some m"
    using f conn by (simp_all add: fresh_handshake_def)
  have i: "i < length (w_sessions w)"
    using f find_first_Some [of _ "w_sessions w" i] by (auto simp: fresh_handshake_def)
  obtain w1 out1 where run1: "rmcp_rakp1 v w (rakp1_message tag (k_server_id k) rm rolem name) = Some (w1, out1)"
    and w1: "w_sessions w1 = (w_sessions w)[i := ?s]" "w_conn w1 = k" "w_users w1 = db"
    and out1: "take 16 (drop 24 out1) = challenge v (w_now w)"
    using rakp1_result [OF f rm n r refl, of v tag] conn db k4(2) by auto
  have s1: "session_of (k_server_id (w_conn w1)) w1 = Some i"
    using f i find_first_update [of "getSessionId (k_ip k) (k_server_id k)" "w_sessions w" i ?s]
      opened_facts(5) [of w v rm rolem name i] conn w1
    by (simp add: session_of_def find_session_def fresh_handshake_def)
  have nth: "w_sessions w1 ! i = ?s" using i w1(1) by simp
  have code': "code = v_hmac v m (sn_kuid (w_sessions w1 ! i)) (buildHmacRAKP3 (w_sessions w1 ! i))"
    using code conn db unfolding nth opened_facts client_code_def by simp
  have s1': "length (k_server_id (w_conn w1)) = 4" "md_of (k_auth (w_conn w1)) = Some m"
    using k4 w1(2) by simp_all
  obtain w2 aes where "rmcp_rakp3 v w1 (rakp3_message 0 (k_server_id k) code)
      = Some (w2, rakp4_message (rakp3_message 0 (k_server_id k) code) w1
          @ v_hmac v m (v_hmac v m (sn_kuid ?s) (buildHmacSikData ?s)) (buildHmacRAKP4 (v_uuid v) ?s))"
    and w2: "w_sessions w2 = (w_sessions w1)[i := setSessionAesKey
        (v_hmac v m (v_hmac v m (sn_kuid ?s) (buildHmacSikData ?s)) (replicate 20 1) @ v_stack v) aes
        (setSessionActive (word_of_nat i) ?s)]"
    using rakp3_result [OF s1 s1', of v 0 code] code' nth w1(2) by auto
  moreover have "w_sessions w2 ! i = setSessionAesKey
        (v_hmac v m (v_hmac v m (sn_kuid ?s) (buildHmacSikData ?s)) (replicate 20 1) @ v_stack v) aes
        (setSessionActive (word_of_nat i) ?s)"
    using w2 i w1(1) by simp
  moreover have "rakp4_message (rakp3_message 0 (k_server_id k) code) w1 ! 5 = 0x15
      \<and> length (rakp4_message (rakp3_message 0 (k_server_id k) code) w1) > 5"
    using rakp3_fields [OF k4(1), of 0 code]
    by (simp add: rakp4_message_def rmcp_reply_header_def)
  ultimately show ?thesis
    using run1 out1 db by (auto simp: process_messages active_session_builds opened_facts nth_append)
qed

lemma find_user_first:
  "j < length us \<Longrightarrow> u_name (us ! j) = n \<Longrightarrow> u_enable (us ! j) = 1
   \<Longrightarrow> \<forall>k < j. u_name (us ! k) \<noteq> n \<Longrightarrow> find_user n i us = int (i + j)"
proof (induction us arbitrary: i j)
  case Nil
  then show ?case by simp
next
  case (Cons u us)
  show ?case
  proof (cases j)
    case 0
    then show ?thesis using Cons.prems by simp
  next
    case (Suc j')
    have "u_name u \<noteq> n" using Cons.prems(4) Suc by force
    moreover have "\<forall>k < j'. u_name (us ! k) \<noteq> n" using Cons.prems(4) Suc by force
    ultimately show ?thesis using Cons.IH [of j' "Suc i"] Cons.prems Suc by simp
  qed
qed

text \<open>C7. A client that knows the password of an enabled user, the first of that name in the table, completes
  the handshake: it gets the second's challenge, and its authentication code is answered with
  RAKP message 4. The session then takes the user's index for its privilege: it may be raised to
  exactly the levels above that index, whatever privilege the user has.\<close>

theorem handshake_completes:
  assumes "fresh_handshake w m i" and "length rm = 16" and "length name \<le> 16" and "rolem \<noteq> 0"
    and "j < 10" and "u_name (ud_users (w_users w) ! j) = name" and "u_enable (ud_users (w_users w) ! j) = 1"
    and "\<forall>k < j. u_name (ud_users (w_users w) ! k) \<noteq> name"
    and "code = client_code v m (u_password (ud_users (w_users w) ! j)) (challenge v (w_now w))
      (k_client_id (w_conn w)) rolem name"
  shows "\<exists>w1 out1 w2 out2.
      rmcp_process_packet v w (rakp1_message tag (k_server_id (w_conn w)) rm rolem name) = Some (w1, out1)
    \<and> take 16 (drop 24 out1) = challenge v (w_now w)
    \<and> rmcp_process_packet v w1 (rakp3_message 0 (k_server_id (w_conn w)) code) = Some (w2, out2)
    \<and> out2 \<noteq> [] \<and> out2 ! 5 = 0x15 \<and> sn_handle (w_sessions w2 ! i) = 32 + word_of_nat i
    \<and> (\<forall>p. fst (setSessionPriv p (w_sessions w2 ! i))
          = (if p > 4 then -2 else if word_of_nat j < p then 0 else -1))"
proof -
  have "j < length (ud_users (w_users w))"
    using assms(1,5) by (simp add: fresh_handshake_def user_inv_def)
  then have idx: "app_getUserindex name (w_users w) = int j"
    using find_user_first assms(6-8) by (simp add: app_getUserindex_def)
  from handshake_runs [OF assms(1-4) refl refl, of code v tag] assms(9) idx
  show ?thesis by (auto simp: setSessionPriv_def not_le)
qed

text \<open>C1. On a table whose first user has an empty password (as after start-up), a client that names a user
  that does not exist completes the handshake with a code computed from public data only, and its
  session may be raised to every level up to administrator.\<close>

theorem unknown_user_handshake:
  assumes "fresh_handshake w m i" and "length rm = 16" and "length name \<le> 16" and "rolem \<noteq> 0"
    and "\<forall>u \<in> set (ud_users (w_users w)). u_name u = name \<longrightarrow> u_enable u \<noteq> 1"
    and "u_password (ud_users (w_users w) ! 0) = []"
    and "code = client_code v m [] (challenge v (w_now w)) (k_client_id (w_conn w)) rolem name"
  shows "\<exists>w1 out1 w2 out2.
      rmcp_process_packet v w (rakp1_message tag (k_server_id (w_conn w)) rm rolem name) = Some (w1, out1)
    \<and> take 16 (drop 24 out1) = challenge v (w_now w)
    \<and> rmcp_process_packet v w1 (rakp3_message 0 (k_server_id (w_conn w)) code) = Some (w2, out2)
    \<and> out2 \<noteq> [] \<and> out2 ! 5 = 0x15 \<and> sn_handle (w_sessions w2 ! i) = 32 + word_of_nat i
    \<and> (\<forall>p. 0 < p \<and> p \<le> 4 \<longrightarrow> fst (setSessionPriv p (w_sessions w2 ! i)) = 0)"
proof -
  have idx: "app_getUserindex name (w_users w) = 0"
    using find_user_unknown assms(5) by (simp add: app_getUserindex_def)
  from handshake_runs [OF assms(1-4) refl refl, of code v tag] assms(6,7) idx
  show ?thesis by (auto simp: setSessionPriv_def)
qed

text \<open>C4. RAKP message 3 with a wrong code, or with a message tag other than 0, gets no answer, but the
  session is left active with its keys set: it is the one "get session info" and "set session
  privilege" then see.\<close>

theorem failed_handshake_stays_active:
  assumes "session_of (k_server_id (w_conn w)) w = Some i" and "length (k_server_id (w_conn w)) = 4"
    and "md_of (k_auth (w_conn w)) = Some m" and "s = w_sessions w ! i" and "20 \<le> length (v_stack v)"
    and "code \<noteq> v_hmac v m (sn_kuid s) (buildHmacRAKP3 s) \<or> tag \<noteq> 0"
  shows "\<exists>w'. rmcp_process_packet v w (rakp3_message tag (k_server_id (w_conn w)) code) = Some (w', [])
    \<and> sn_handle (w_sessions w' ! i) = 32 + word_of_nat i \<and> 20 \<le> length (sn_k1 (w_sessions w' ! i))"
proof -
  have i: "i < length (w_sessions w)"
    using assms(1) find_first_Some [of _ "w_sessions w" i] by (auto simp: session_of_def find_session_def)
  from rakp3_result [OF assms(1-3), of v tag code] assms(4-6) i
  show ?thesis by (auto simp: process_messages active_session_builds)
qed

text \<open>A new session does not know its user: the user id is written in front of the session table, the
  slot keeps the id it had, and the requested role, whatever it is, is what its privilege level
  reads as. The server's challenge depends on the second alone.\<close>

theorem new_session_user_id_lost:
  assumes "fresh_handshake w m i" and "length rm = 16" and "length name \<le> 16" and "rolem \<noteq> 0"
    and "length (v_arp v (k_ip (w_conn w))) = 6"
  shows "\<exists>w1 out1. rmcp_process_packet v w (rakp1_message tag (k_server_id (w_conn w)) rm rolem name)
      = Some (w1, out1)
    \<and> sn_user_id (w_sessions w1 ! i) = sn_user_id (w_sessions w ! i)
    \<and> w_over w1 = w_over w @ [User_id_before_table (word_of_int (app_getUserindex name (w_users w)))]
    \<and> getSessionPriv (w_sessions w1 ! i) = rolem AND 0x07 \<and> session_inv (w_sessions w1)
    \<and> take 16 (drop 24 out1) = challenge v (w_now w)"
proof -
  have i: "i < length (w_sessions w)" "session_inv (w_sessions w)" "length (k_client_id (w_conn w)) = 4"
    using assms(1) find_first_Some [of _ "w_sessions w" i] by (auto simp: fresh_handshake_def)
  have "slot_ok i (opened v w rm rolem name i)"
    using session_inv_slot [OF i(2), of i] i(1,2) assms(5)
    by (simp add: slot_ok_def opened_def Let_def setRmcpLanData_def setRmcpData_def session_inv_def)
  then have "session_inv ((w_sessions w)[i := opened v w rm rolem name i])"
    by (rule session_inv_update [OF i(2)])
  then show ?thesis
    using rakp1_result [OF assms(1-4) refl, of v tag] i
    by (auto simp: process_messages opened_facts getSessionPriv_def)
qed


section \<open>Witnesses\<close>

definition demo_env :: rmcp_env where
  "demo_env = \<lparr>v_hmac = (\<lambda>m k d. replicate (md_size m) (of_bool (k \<noteq> []))), v_rand = (\<lambda>s n. n),
     v_arp = (\<lambda>ip. [2, 0, 0, 0, 0, 9]), v_uuid = replicate 16 0, v_stack = replicate 32 0\<rparr>"

definition demo_world :: "u8 \<Rightarrow> lan_world" where
  "demo_world auth = \<lparr>w_conn = \<lparr>k_ip = 0x0A00000A, k_port = 623, k_client_id = [5, 6, 7, 8],
       k_server_id = [1, 2, 3, 4], k_seq = [0, 0, 0, 0], k_auth = auth, k_integrity = 1, k_confidential = 1\<rparr>,
     w_sessions = boot_sessions, w_users = boot_users, w_md = None, w_seed = 0, w_calls = 0,
     w_now = 7, w_over = []\<rparr>"

lemma demo_fresh: "md_of auth = Some m \<Longrightarrow> fresh_handshake (demo_world auth) m 0"
proof -
  assume "md_of auth = Some m"
  moreover have "find_first P boot_sessions = (if P new_session then Some 0 else None)" for P
    by (simp add: boot_sessions_def numeral_eq_Suc)
  ultimately show ?thesis
    by (simp add: fresh_handshake_def demo_world_def session_of_def find_session_def boot_sessions_inv
        boot_users_inv getSessionId_def new_session_def le32_def)
qed

lemma demo_world_simps [simp]:
  "w_users (demo_world a) = boot_users" "w_sessions (demo_world a) = boot_sessions"
  "k_server_id (w_conn (demo_world a)) = [1, 2, 3, 4]" "k_client_id (w_conn (demo_world a)) = [5, 6, 7, 8]"
  by (simp_all add: demo_world_def)

lemma unknown_user_handshake_witness:
  "\<exists>w1 out1 w2 out2. rmcp_process_packet demo_env (demo_world 1)
       (rakp1_message 0 [1, 2, 3, 4] (replicate 16 9) 0x14 [0x65]) = Some (w1, out1)
     \<and> rmcp_process_packet demo_env w1 (rakp3_message 0 [1, 2, 3, 4] (replicate 20 0)) = Some (w2, out2)
     \<and> out2 \<noteq> [] \<and> fst (setSessionPriv 4 (w_sessions w2 ! 0)) = 0"
proof -
  have f: "fresh_handshake (demo_world 1) Md_sha1 0" by (rule demo_fresh) (simp add: md_of_def)
  have u: "\<forall>u \<in> set (ud_users (w_users (demo_world 1))). u_name u = [0x65] \<longrightarrow> u_enable u \<noteq> 1"
    by (simp add: boot_users_list plat_user_init_def empty_user_def root_name_def admin_name_def)
  have pw: "u_password (ud_users (w_users (demo_world 1)) ! 0) = []"
    by (simp add: boot_users_list plat_user_init_def empty_user_def)
  have code: "replicate 20 0 = client_code demo_env Md_sha1 [] (challenge demo_env (w_now (demo_world 1)))
      (k_client_id (w_conn (demo_world 1))) 0x14 [0x65]"
    by (simp add: client_code_def demo_env_def)
  from unknown_user_handshake [OF f _ _ _ u pw code, of "replicate 16 9" 0]
  show ?thesis by auto
qed

lemma handshake_completes_witness:
  "\<exists>w1 out1 w2 out2. rmcp_process_packet demo_env (demo_world 1)
       (rakp1_message 0 [1, 2, 3, 4] (replicate 16 9) 0x14 admin_name) = Some (w1, out1)
     \<and> rmcp_process_packet demo_env w1 (rakp3_message 0 [1, 2, 3, 4] (replicate 20 1)) = Some (w2, out2)
     \<and> out2 \<noteq> [] \<and> fst (setSessionPriv 1 (w_sessions w2 ! 0)) = -1 \<and> fst (setSessionPriv 4 (w_sessions w2 ! 0)) = 0"
proof -
  have f: "fresh_handshake (demo_world 1) Md_sha1 0" by (rule demo_fresh) (simp add: md_of_def)
  have u: "u_name (ud_users (w_users (demo_world 1)) ! 1) = admin_name"
    "u_enable (ud_users (w_users (demo_world 1)) ! 1) = 1"
    "\<forall>k < 1. u_name (ud_users (w_users (demo_world 1)) ! k) \<noteq> admin_name"
    by (simp_all add: boot_users_list plat_user_init_def root_name_def admin_name_def)
  have code: "replicate 20 1 = client_code demo_env Md_sha1 (u_password (ud_users (w_users (demo_world 1)) ! 1))
      (challenge demo_env (w_now (demo_world 1))) (k_client_id (w_conn (demo_world 1))) 0x14 admin_name"
    by (simp add: client_code_def demo_env_def boot_users_list plat_user_init_def admin_name_def)
  have n: "length admin_name \<le> 16" by (simp add: admin_name_def)
  from handshake_completes [OF f _ n _ _ u code, of "replicate 16 9" 0]
  obtain w1 out1 w2 out2 where "rmcp_process_packet demo_env (demo_world 1)
       (rakp1_message 0 [1, 2, 3, 4] (replicate 16 9) 0x14 admin_name) = Some (w1, out1)"
    "rmcp_process_packet demo_env w1 (rakp3_message 0 [1, 2, 3, 4] (replicate 20 1)) = Some (w2, out2)"
    "out2 \<noteq> []" and p: "\<forall>p. fst (setSessionPriv p (w_sessions w2 ! 0))
          = (if p > 4 then -2 else if word_of_nat 1 < p then 0 else -1)"
    by auto
  moreover have "fst (setSessionPriv 1 (w_sessions w2 ! 0)) = -1" "fst (setSessionPriv 4 (w_sessions w2 ! 0)) = 0"
    using p by simp_all
  ultimately show ?thesis by blast
qed

lemma new_session_user_id_lost_witness:
  "\<exists>w1 out1. rmcp_process_packet demo_env (demo_world 1)
       (rakp1_message 0 [1, 2, 3, 4] (replicate 16 9) 0x14 admin_name) = Some (w1, out1)
     \<and> sn_user_id (w_sessions w1 ! 0) = 0 \<and> getSessionPriv (w_sessions w1 ! 0) = 4"
proof -
  have f: "fresh_handshake (demo_world 1) Md_sha1 0" by (rule demo_fresh) (simp add: md_of_def)
  have n: "length admin_name \<le> 16" by (simp add: admin_name_def)
  have a: "length (v_arp demo_env (k_ip (w_conn (demo_world 1)))) = 6" by (simp add: demo_env_def)
  from new_session_user_id_lost [OF f _ n _ a, where rm = "replicate 16 9" and rolem = "0x14" and tag = 0]
  show ?thesis by (auto simp: boot_sessions_def new_session_def)
qed

text \<open>A world in which session 0 is open.\<close>

definition demo_open :: "u8 \<Rightarrow> lan_world" where
  "demo_open auth = (demo_world auth)\<lparr>w_sessions := boot_sessions[0 := new_session\<lparr>sn_ip := le32 0x0A00000A,
     sn_mgnt_id := [1, 2, 3, 4], sn_k1 := replicate 20 0\<rparr>]\<rparr>"

lemma demo_open_session: "session_of [1, 2, 3, 4] (demo_open a) = Some 0"
  by (simp add: session_of_def find_session_def demo_open_def demo_world_def getSessionId_def
      boot_sessions_def numeral_eq_Suc)

lemma demo_open_simps [simp]:
  "k_server_id (w_conn (demo_open a)) = [1, 2, 3, 4]" "k_auth (w_conn (demo_open a)) = a"
  "k_integrity (w_conn (demo_open a)) = 1" "sn_k1 (w_sessions (demo_open a) ! 0) = replicate 20 0"
  "sn_kuid (w_sessions (demo_open a) ! 0) = []"
  by (simp_all add: demo_open_def demo_world_def boot_sessions_def new_session_def numeral_eq_Suc)

lemma failed_handshake_stays_active_witness:
  "\<exists>w'. rmcp_process_packet demo_env (demo_open 1) (rakp3_message 0 [1, 2, 3, 4] (replicate 20 7)) = Some (w', [])
     \<and> sn_handle (w_sessions w' ! 0) = 32"
proof -
  have m: "md_of (k_auth (w_conn (demo_open 1))) = Some Md_sha1" by (simp add: md_of_def)
  have st: "20 \<le> length (v_stack demo_env)" by (simp add: demo_env_def)
  have s: "session_of (k_server_id (w_conn (demo_open 1))) (demo_open 1) = Some 0"
    using demo_open_session by simp
  have c: "replicate 20 7 \<noteq> v_hmac demo_env Md_sha1 (sn_kuid (w_sessions (demo_open 1) ! 0))
      (buildHmacRAKP3 (w_sessions (demo_open 1) ! 0)) \<or> (0 :: u8) \<noteq> 0"
    by (simp add: demo_env_def)
  from failed_handshake_stays_active [OF s _ m refl st c] show ?thesis by auto
qed


end
