(* ===== verification/Redfish_Util.thy ===== *)
theory Redfish_Util
  imports Bmc_Prelude
begin

text \<open>
  libs/redfish/util.cpp: splitting and joining of URIs, decimal numbers, the tables of numbers in
  use (\<open>numset\<close>), and reading a key of a JSON body. A JSON value is a tree; numbers are integers
  (a fraction is not modelled), and an access to the wrong kind of value is \<open>None\<close>, the library's
  \<open>json_exception\<close>. Strings are HOL strings; \<open>bytes_of\<close> gives the bytes of one, for the user
  table.
\<close>

section \<open>URIs\<close>

lemma length_after_find: "d \<in> set s \<Longrightarrow> length (dropWhile (\<lambda>c. c \<noteq> d) s) - Suc 0 < length s"
proof -
  assume "d \<in> set s"
  then have "dropWhile (\<lambda>c. c \<noteq> d) s \<noteq> []" by (simp add: dropWhile_eq_Nil_conv)
  then show ?thesis using length_dropWhile_le [of "\<lambda>c. c \<noteq> d" s]
    by (cases "dropWhile (\<lambda>c. c \<noteq> d) s") auto
qed

text \<open>\<open>find\<close>, \<open>substr\<close> and the search from the next character, as in the source. Both comparisons
  of a token with a literal compare with the empty string.\<close>

function string_split :: "string \<Rightarrow> char \<Rightarrow> string list" where
  "string_split s d =
     (if d \<in> set s then
        (let tok = takeWhile (\<lambda>c. c \<noteq> d) s; rest = string_split (tl (dropWhile (\<lambda>c. c \<noteq> d) s)) d
         in if tok \<noteq> [] then tok # rest else rest)
      else if s \<noteq> [] then [s] else [])"
  by pat_completeness auto

termination by (relation "measure (\<lambda>(s, d). length s)") (auto simp: length_after_find)

declare string_split.simps [simp del]

fun join_tokens :: "string \<Rightarrow> string list \<Rightarrow> string" where
  "join_tokens path [] = path"
| "join_tokens path (t # ts) = join_tokens (if t \<noteq> [] then path @ ''/'' @ t else path) ts"

definition make_path :: "string list \<Rightarrow> string" where
  "make_path ts = (case ts of [] \<Rightarrow> ''/'' | t # ts' \<Rightarrow> join_tokens (''/'' @ t) ts')"

text \<open>The delimiters are single characters. Without one in the string, \<open>rfind\<close> gives \<open>npos\<close>: the
  name is then the whole string (\<open>npos + 1\<close> is 0), and so is the parent.\<close>

definition get_current_object_name :: "string \<Rightarrow> char \<Rightarrow> string" where
  "get_current_object_name s d = rev (takeWhile (\<lambda>c. c \<noteq> d) (rev s))"

definition get_parent_object_uri :: "string \<Rightarrow> char \<Rightarrow> string" where
  "get_parent_object_uri s d =
     (if d \<in> set s then rev (tl (dropWhile (\<lambda>c. c \<noteq> d) (rev s))) else s)"

text \<open>The first three tokens of a URI, each after a slash (the loop of \<open>treat_patch\<close> and
  \<open>treat_delete\<close>).\<close>

definition uri_part :: "string \<Rightarrow> string" where
  "uri_part uri = concat (map (\<lambda>t. ''/'' @ t) (take 3 (string_split uri CHR ''/'')))"

definition get_extracted_bmc_id_uri :: "string \<Rightarrow> string" where
  "get_extracted_bmc_id_uri uri =
     (let ts = string_split uri CHR ''/'' in concat (map (\<lambda>t. ''/'' @ t) (take 3 ts @ drop 4 ts)))"

fun lex_less :: "string \<Rightarrow> string \<Rightarrow> bool" where
  "lex_less _ [] = False"
| "lex_less [] (_ # _) = True"
| "lex_less (a # as) (b # bs) =
     ((of_char a :: nat) < of_char b \<or> a = b \<and> lex_less as bs)"

definition comp_uri :: "string \<Rightarrow> string \<Rightarrow> bool" where
  "comp_uri s t = (if length s = length t then lex_less s t else length s < length t)"

section \<open>Numbers\<close>

definition digit_chars :: string where "digit_chars = ''0123456789''"

definition isNumber :: "string \<Rightarrow> bool" where
  "isNumber s \<longleftrightarrow> list_all (\<lambda>c. c \<in> set digit_chars) s"

fun to_string :: "nat \<Rightarrow> string" where
  "to_string n =
     (if n < 10 then [digit_chars ! n] else to_string (n div 10) @ [digit_chars ! (n mod 10)])"

declare to_string.simps [simp del]

lemma to_string_length: "n < 10 ^ Suc k \<Longrightarrow> length (to_string n) \<le> Suc k"
proof (induction k arbitrary: n)
  case 0
  then show ?case by (subst to_string.simps) simp
next
  case (Suc k)
  then show ?case using Suc.IH [of "n div 10"] by (subst to_string.simps) (auto simp: less_mult_imp_div_less)
qed

definition digit_value :: "char \<Rightarrow> nat" where
  "digit_value c = of_char c - 48"

definition digits_value :: "string \<Rightarrow> nat" where
  "digits_value s = foldl (\<lambda>n c. 10 * n + digit_value c) 0 s"

definition is_space :: "char \<Rightarrow> bool" where
  "is_space c \<longleftrightarrow> c = CHR '' '' \<or> (9 \<le> (of_char c :: nat) \<and> (of_char c :: nat) \<le> 13)"

text \<open>\<open>std::stoi\<close>: leading white space, an optional sign, the digits that follow; \<open>Fail 1\<close> is
  \<open>std::invalid_argument\<close> and \<open>Fail 2\<close> \<open>std::out_of_range\<close>.\<close>

definition stoi :: "string \<Rightarrow> int cres" where
  "stoi s =
     (let s1 = dropWhile is_space s;
          neg = (s1 \<noteq> [] \<and> hd s1 = CHR ''-'');
          s2 = (if s1 \<noteq> [] \<and> (hd s1 = CHR ''-'' \<or> hd s1 = CHR ''+'') then tl s1 else s1);
          ds = takeWhile (\<lambda>c. c \<in> set digit_chars) s2;
          v = (if neg then - int (digits_value ds) else int (digits_value ds))
      in if ds = [] then Fail 1 else if v < - 2147483648 \<or> 2147483647 < v then Fail 2 else Ret v)"

definition improved_stoi :: "string \<Rightarrow> int cres" where
  "improved_stoi s = (case stoi s of Fail e \<Rightarrow> if e = 1 then Ret 0 else Fail e | x \<Rightarrow> x)"

section \<open>Numbers in use\<close>

datatype allocate_num =
    ALLOCATE_TASK_NUM | ALLOCATE_ACCOUNT_NUM | ALLOCATE_SESSION_NUM | ALLOCATE_VM_CD_NUM
  | ALLOCATE_VM_USB_NUM | ALLOCATE_SUBSCRIPTION_NUM

record numbers =
  numset :: "allocate_num \<Rightarrow> nat set"
  numset_num :: "allocate_num \<Rightarrow> nat"

definition init_numset :: numbers where
  "init_numset = \<lparr>numset = (\<lambda>_. {}), numset_num = (\<lambda>k. if k = ALLOCATE_ACCOUNT_NUM then 0 else 1)\<rparr>"

definition UINT_MAX :: nat where "UINT_MAX = 4294967295"

text \<open>The loop of \<open>allocate_numset_num\<close>: at \<open>UINT_MAX\<close> the counter is set to 0 and \<open>continue\<close> still
  increments it, so the search goes on at 1. It need not end.\<close>

partial_function (option) allocate_loop :: "nat \<Rightarrow> nat set \<Rightarrow> nat option" where
  "allocate_loop i used =
     (if i = UINT_MAX then allocate_loop 1 used
      else if i \<notin> used then Some i else allocate_loop (i + 1) used)"

definition allocate_numset_num :: "allocate_num \<Rightarrow> numbers \<Rightarrow> (nat \<times> numbers) option" where
  "allocate_numset_num k ns =
     (case allocate_loop (numset_num ns k) (numset ns k) of
        None \<Rightarrow> None
      | Some i \<Rightarrow> Some (i, ns\<lparr>numset := (numset ns)(k := insert i (numset ns k)),
                             numset_num := (numset_num ns)(k := i)\<rparr>))"

definition insert_numset_num :: "allocate_num \<Rightarrow> nat \<Rightarrow> numbers \<Rightarrow> numbers" where
  "insert_numset_num k n ns = ns\<lparr>numset := (numset ns)(k := insert n (numset ns k))\<rparr>"

definition delete_numset_num :: "allocate_num \<Rightarrow> nat \<Rightarrow> numbers \<Rightarrow> numbers" where
  "delete_numset_num k n ns = ns\<lparr>numset := (numset ns)(k := numset ns k - {n})\<rparr>"

section \<open>JSON\<close>

datatype json =
    JNull | JBool bool | JNum int | JStr string | JArr "json list" | JObj "(string \<times> json) list"

fun json_field :: "json \<Rightarrow> string \<Rightarrow> json option" where
  "json_field (JObj kvs) k = map_of kvs k"
| "json_field _ k = None"

text \<open>\<open>as_object().find(key)\<close>: the outer \<open>None\<close> is the exception for a value that is not an object.\<close>

fun as_object_find :: "json \<Rightarrow> string \<Rightarrow> json option option" where
  "as_object_find (JObj kvs) k = Some (map_of kvs k)"
| "as_object_find _ k = None"

definition int32 :: "int \<Rightarrow> int" where
  "int32 n = sint (word_of_int n :: u32)"

fun as_integer :: "json \<Rightarrow> int option" where
  "as_integer (JNum n) = Some (int32 n)"
| "as_integer _ = None"

fun as_string :: "json \<Rightarrow> string option" where
  "as_string (JStr s) = Some s"
| "as_string _ = None"

fun as_bool :: "json \<Rightarrow> bool option" where
  "as_bool (JBool b) = Some b"
| "as_bool _ = None"

text \<open>The overloads of \<open>get_value_from_json_key\<close>: the result and the value stored; a missing key and
  a wrong kind of value both store a default.\<close>

definition get_value :: "(json \<Rightarrow> 'a option) \<Rightarrow> 'a \<Rightarrow> json \<Rightarrow> string \<Rightarrow> bool \<times> 'a" where
  "get_value as_kind dflt body k =
     (case json_field body k of
        Some v \<Rightarrow> (case as_kind v of Some x \<Rightarrow> (True, x) | None \<Rightarrow> (False, dflt))
      | None \<Rightarrow> (False, dflt))"

definition get_int_value :: "json \<Rightarrow> string \<Rightarrow> bool \<times> int" where
  "get_int_value = get_value as_integer 0"

definition get_uint_value :: "json \<Rightarrow> string \<Rightarrow> bool \<times> nat" where
  "get_uint_value = get_value (\<lambda>j. map_option (\<lambda>n. nat (n mod 4294967296)) (as_integer j)) 0"

definition get_string_value :: "json \<Rightarrow> string \<Rightarrow> bool \<times> string" where
  "get_string_value = get_value as_string []"

definition get_json_value :: "json \<Rightarrow> string \<Rightarrow> bool \<times> json" where
  "get_json_value = get_value Some JNull"

definition get_bool_value :: "json \<Rightarrow> string \<Rightarrow> bool \<times> bool" where
  "get_bool_value = get_value as_bool False"

definition check_role_privileges :: "string \<Rightarrow> bool" where
  "check_role_privileges p \<longleftrightarrow> p \<in> {''ConfigureComponents'', ''ConfigureManager'', ''ConfigureSelf'',
     ''ConfigureUsers'', ''Login'', ''NoAuth''}"

section \<open>Bytes of a string\<close>

definition bytes_of :: "string \<Rightarrow> u8 list" where
  "bytes_of s = map of_char s"

definition string_of :: "u8 list \<Rightarrow> string" where
  "string_of bs = map (\<lambda>b. char_of (unat b)) bs"

text \<open>\<open>atoi\<close> of a C string: an optional sign and the digits that follow.\<close>

fun atoi_digits :: "int \<Rightarrow> u8 list \<Rightarrow> int" where
  "atoi_digits n [] = n"
| "atoi_digits n (b # bs) =
     (if 48 \<le> b \<and> b \<le> 57 then atoi_digits (10 * n + (uint b - 48)) bs else n)"

definition is_blank :: "u8 \<Rightarrow> bool" where
  "is_blank b \<longleftrightarrow> b = 32 \<or> (9 \<le> b \<and> b \<le> 13)"

definition atoi :: "u8 list \<Rightarrow> int" where
  "atoi s = (case dropWhile is_blank s of
     [] \<Rightarrow> 0
   | b # bs \<Rightarrow> if b = 45 then - atoi_digits 0 bs else if b = 43 then atoi_digits 0 bs
       else atoi_digits 0 (b # bs))"

end
