(* ===== verification/Redfish_Record.thy ===== *)
theory Redfish_Record
  imports User_Db Redfish_Util
begin

text \<open>
  The resource record of the redfish service: the classes \<open>Account\<close>, \<open>Role\<close>, \<open>Session\<close>, \<open>Task\<close>,
  \<open>EventDestination\<close>, \<open>Collection\<close> and the services (include/redfish/resource.hpp), their
  \<open>get_json\<close> (libs/redfish/resource.cpp) and the map \<open>g_record\<close> with its files
  (libs/redfish/record.cpp). Objects live at addresses of a heap, because sessions keep pointers to
  accounts and handlers delete objects: an address whose object was deleted holds nothing, and
  following a pointer to it is undefined. An address is not used twice. The collections and
  services that the start-up creates and no handler deletes are fields of the state.
\<close>

section \<open>Results\<close>

text \<open>\<open>Throws\<close>: an exception leaves the function, the library's \<open>json_exception\<close> or another one.
  \<open>Hangs\<close>: a loop does not end. \<open>Undef\<close>: undefined behaviour. \<open>Elsewhere\<close>: the request is for a
  resource of a class that is not modelled.\<close>

datatype exn = Json_exception | Std_exception

datatype 'a rres = Done 'a | Throws exn | Hangs | Undef | Elsewhere

primrec rbind :: "'a rres \<Rightarrow> ('a \<Rightarrow> 'b rres) \<Rightarrow> 'b rres" where
  "rbind (Done x) f = f x"
| "rbind (Throws e) f = Throws e"
| "rbind Hangs f = Hangs"
| "rbind Undef f = Undef"
| "rbind Elsewhere f = Elsewhere"

lemma rbind_Done: "rbind m f = Done y \<longleftrightarrow> (\<exists>x. m = Done x \<and> f x = Done y)"
  by (cases m) auto

definition deref :: "'a option \<Rightarrow> 'a rres" where
  "deref x = (case x of Some y \<Rightarrow> Done y | None \<Rightarrow> Undef)"

lemma deref_simps [simp]: "deref (Some x) = Done x" "deref None = Undef"
  by (simp_all add: deref_def)

lemma deref_Done: "deref x = Done y \<longleftrightarrow> x = Some y"
  by (cases x) auto

text \<open>How a case distinction can end with a result; used in place of the split rules, which do not go
  under the quantifiers of \<open>rbind_Done\<close>.\<close>

lemma case_Done:
  "case_sum f g t = Done y \<longleftrightarrow> (\<exists>a. t = Inl a \<and> f a = Done y) \<or> (\<exists>b. t = Inr b \<and> g b = Done y)"
  "case_option m h v = Done y \<longleftrightarrow> (v = None \<and> m = Done y) \<or> (\<exists>x. v = Some x \<and> h x = Done y)"
  "case_cres p q r c = Done y \<longleftrightarrow> (\<exists>x. c = Ret x \<and> p x = Done y) \<or> (\<exists>e. c = Fail e \<and> q e = Done y)
     \<or> (c = Ub \<and> r = Done y)"
  "case_prod k w = Done y \<longleftrightarrow> (\<exists>i j. w = (i, j) \<and> k i j = Done y)"
  "(if b then m else m') = Done y \<longleftrightarrow> (b \<and> m = Done y) \<or> (\<not> b \<and> m' = Done y)"
  by (cases t; cases v; cases c; cases w; auto)+

lemma case_rres_Done:
  "case_rres f g h u v m = Done y \<longleftrightarrow> (\<exists>x. m = Done x \<and> f x = Done y) \<or> (\<exists>e. m = Throws e \<and> g e = Done y)
     \<or> (m = Hangs \<and> h = Done y) \<or> (m = Undef \<and> u = Done y) \<or> (m = Elsewhere \<and> v = Done y)"
  "case_exn a b e = Done y \<longleftrightarrow> (e = Json_exception \<and> a = Done y) \<or> (e = Std_exception \<and> b = Done y)"
  by (cases m; cases e; auto)+

lemmas done_simps = rbind_Done deref_Done case_Done case_rres_Done

section \<open>Objects\<close>

record rf_account =
  ra_odata :: string
  ra_name :: string
  ra_id :: string
  ra_enabled :: bool
  ra_user :: account
  ra_locked :: bool
  ra_role :: "nat option"
  ra_role_id :: string
  ra_certificates :: "string option"

record rf_role =
  rr_odata :: string
  rr_name :: string
  rr_id :: string
  rr_predefined :: bool
  rr_privileges :: "string list"

record rf_session =
  rs_odata :: string
  rs_name :: string
  rs_id :: string
  rs_account :: "nat option"
  rs_account_id :: string
  rs_remain :: nat
  rs_token :: string

record rf_task =
  rt_odata :: string
  rt_name :: string
  rt_id :: string
  rt_start :: string
  rt_end :: string
  rt_state :: string
  rt_status :: string
  rt_headers :: "(string \<times> string) list"
  rt_operation :: string
  rt_body :: json
  rt_target :: string

record rf_dest =
  rd_odata :: string
  rd_name :: string
  rd_id :: string
  rd_destination :: string
  rd_subscription_type :: string
  rd_policy :: string
  rd_protocol :: string
  rd_context :: string
  rd_state :: string
  rd_health :: string

datatype robj =
  OAccount rf_account | ORole rf_role | OSession rf_session | OTask rf_task | ODest rf_dest

fun obj_odata :: "robj \<Rightarrow> string" where
  "obj_odata (OAccount x) = ra_odata x"
| "obj_odata (ORole x) = rr_odata x"
| "obj_odata (OSession x) = rs_odata x"
| "obj_odata (OTask x) = rt_odata x"
| "obj_odata (ODest x) = rd_odata x"

text \<open>The services: the members the handlers use. The other members of \<open>get_json\<close> (LDAP, directory,
  SMTP, actions) do not change and are a field of the state.\<close>

record account_service =
  as_enabled :: bool
  as_auth_failure_logging_threshold :: nat
  as_min_password :: nat
  as_max_password :: nat
  as_lockout_threshold :: nat
  as_lockout_duration :: nat
  as_lockout_reset_after :: nat
  as_lockout_reset_enabled :: bool

record session_service =
  ss_enabled :: bool
  ss_timeout :: nat

record event_service =
  es_enabled :: bool
  es_attempts :: int
  es_interval :: nat

section \<open>The record\<close>

text \<open>What a URI of \<open>g_record\<close> points to: an object of the heap, one of the collections whose members
  are numbered, the collection of roles, a service, or a resource of another class.\<close>

datatype rptr =
    Obj nat | Coll allocate_num | Roles | Account_service | Session_service | Event_service | Other_class

record rf =
  rf_heap :: "nat \<Rightarrow> robj option"
  rf_next :: nat
  rf_rec :: "string \<Rightarrow> rptr option"
  rf_members :: "allocate_num \<Rightarrow> nat list"
  rf_roles :: "nat list"
  rf_asvc :: account_service
  rf_ssvc :: session_service
  rf_esvc :: event_service
  rf_numbers :: numbers
  rf_ipmi :: "user list"
  rf_disk :: "string \<Rightarrow> json option"
  rf_clock :: string
  rf_junk :: int
  rf_constant :: "string \<Rightarrow> (string \<times> json) list"

definition ODATA_ACCOUNT_SERVICE_ID :: string where
  "ODATA_ACCOUNT_SERVICE_ID = ''/redfish/v1/AccountService''"

definition ODATA_SESSION_SERVICE_ID :: string where
  "ODATA_SESSION_SERVICE_ID = ''/redfish/v1/SessionService''"

definition ODATA_EVENT_SERVICE_ID :: string where
  "ODATA_EVENT_SERVICE_ID = ''/redfish/v1/EventService''"

definition ODATA_ROLE_ID :: string where
  "ODATA_ROLE_ID = ''/redfish/v1/AccountService/Roles''"

text \<open>\<open>ODATA_TASK_ID\<close>, \<open>ODATA_ACCOUNT_ID\<close>, \<open>ODATA_SESSION_ID\<close> and \<open>ODATA_EVENT_DESTINATION_ID\<close>.\<close>

fun coll_uri :: "allocate_num \<Rightarrow> string" where
  "coll_uri ALLOCATE_TASK_NUM = ''/redfish/v1/TaskService/Tasks''"
| "coll_uri ALLOCATE_ACCOUNT_NUM = ''/redfish/v1/AccountService/Accounts''"
| "coll_uri ALLOCATE_SESSION_NUM = ''/redfish/v1/SessionService/Sessions''"
| "coll_uri ALLOCATE_SUBSCRIPTION_NUM = ''/redfish/v1/EventService/Subscriptions''"
| "coll_uri ALLOCATE_VM_CD_NUM = ''/redfish/v1/Managers/VirtualMedia''"
| "coll_uri ALLOCATE_VM_USB_NUM = ''/redfish/v1/Managers/VirtualMedia''"

definition member_uri :: "allocate_num \<Rightarrow> string \<Rightarrow> string" where
  "member_uri k i = coll_uri k @ ''/'' @ i"

definition record_is_exist :: "string \<Rightarrow> rf \<Rightarrow> bool" where
  "record_is_exist uri s \<longleftrightarrow> rf_rec s uri \<noteq> None"

definition account_at :: "rf \<Rightarrow> nat \<Rightarrow> rf_account option" where
  "account_at s a = (case rf_heap s a of Some (OAccount x) \<Rightarrow> Some x | _ \<Rightarrow> None)"

definition role_at :: "rf \<Rightarrow> nat \<Rightarrow> rf_role option" where
  "role_at s a = (case rf_heap s a of Some (ORole x) \<Rightarrow> Some x | _ \<Rightarrow> None)"

definition session_at :: "rf \<Rightarrow> nat \<Rightarrow> rf_session option" where
  "session_at s a = (case rf_heap s a of Some (OSession x) \<Rightarrow> Some x | _ \<Rightarrow> None)"

definition task_at :: "rf \<Rightarrow> nat \<Rightarrow> rf_task option" where
  "task_at s a = (case rf_heap s a of Some (OTask x) \<Rightarrow> Some x | _ \<Rightarrow> None)"

definition dest_at :: "rf \<Rightarrow> nat \<Rightarrow> rf_dest option" where
  "dest_at s a = (case rf_heap s a of Some (ODest x) \<Rightarrow> Some x | _ \<Rightarrow> None)"

lemmas at_defs = account_at_def role_at_def session_at_def task_at_def dest_at_def

text \<open>\<open>(C * )g_record[uri]\<close>: the address; the cast is checked by the typed read that follows it. A URI
  that is not in the record gives a null pointer.\<close>

definition lookup :: "rf \<Rightarrow> string \<Rightarrow> nat option" where
  "lookup s uri = (case rf_rec s uri of Some (Obj a) \<Rightarrow> Some a | _ \<Rightarrow> None)"

section \<open>\<open>get_json\<close>\<close>

definition resource_fields :: "string \<Rightarrow> string \<Rightarrow> string \<Rightarrow> nat \<Rightarrow> (string \<times> json) list" where
  "resource_fields otype name odata ty =
     [(''@odata.type'', JStr otype), (''Name'', JStr name), (''@odata.id'', JStr odata),
      (''type'', JStr (to_string ty))]"

definition odata_id_json :: "string option \<Rightarrow> json" where
  "odata_id_json u = (case u of None \<Rightarrow> JNull | Some i \<Rightarrow> JObj [(''@odata.id'', JStr i)])"

definition role_json :: "rf_role \<Rightarrow> json" where
  "role_json x = JObj (resource_fields ''#Role.v1_0_0.Role'' (rr_name x) (rr_odata x) 34
     @ [(''Id'', JStr (rr_id x)), (''IsPredefined'', JBool (rr_predefined x))]
     @ (if rr_privileges x = [] then []
        else [(''AssignedPrivileges'', JArr (map JStr (rr_privileges x)))]))"

definition account_json :: "rf_account \<Rightarrow> rf_role option \<Rightarrow> json" where
  "account_json x role = JObj
     (resource_fields ''#ManagerAccount.v1_0_0.ManagerAccount'' (ra_name x) (ra_odata x) 33
     @ [(''Id'', JStr (ra_id x)), (''Enabled'', JBool (ra_enabled x)),
        (''Password'', JStr (string_of (a_password (ra_user x)))),
        (''UserName'', JStr (string_of (a_user_name (ra_user x)))),
        (''Locked'', JBool (ra_locked x)), (''RoleOdataId'', JStr (ra_role_id x)),
        (''CALLIN'', JNum (a_callin (ra_user x))), (''LINKAUTH'', JNum (a_link_auth (ra_user x))),
        (''IPMIMSG'', JNum (a_ipmi (ra_user x))), (''PRIVILEGE'', JNum (a_priv (ra_user x)))]
     @ (case role of None \<Rightarrow> [(''RoleId'', JNull), (''Links'', JObj [])]
        | Some r \<Rightarrow> [(''RoleId'', JStr (rr_id r)),
                     (''Links'', JObj [(''Role'', odata_id_json (Some (rr_odata r)))])])
     @ [(''Certificates'', odata_id_json (ra_certificates x))])"

definition session_json :: "rf_session \<Rightarrow> rf_account option \<Rightarrow> json" where
  "session_json x acc = JObj
     (resource_fields ''#Session.v1_0_0.Session'' (rs_name x) (rs_odata x) 31
     @ [(''Id'', JStr (rs_id x)),
        (''UserName'', JStr (case acc of None \<Rightarrow> [] | Some y \<Rightarrow> string_of (a_user_name (ra_user y)))),
        (''AccountId'', JStr (rs_account_id x)), (''AuthToken'', JStr (rs_token x))])"

definition task_json :: "rf_task \<Rightarrow> json" where
  "task_json x = JObj
     (resource_fields ''#Task.v1_0_0.Task'' (rt_name x) (rt_odata x) 29
     @ [(''Id'', JStr (rt_id x)), (''StartTime'', JStr (rt_start x)), (''EndTime'', JStr (rt_end x)),
        (''TaskState'', JStr (rt_state x)), (''TaskStatus'', JStr (rt_status x)),
        (''Payload'', JObj
           [(''HttpHeaders'', if rt_headers x = [] then JNull
               else JObj (map (\<lambda>(k, v). (k, JStr v)) (rt_headers x))),
            (''HttpOperation'', JStr (rt_operation x)), (''JsonBody'', rt_body x),
            (''TargetUri'', JStr (rt_target x))])])"

definition status_json :: "string \<Rightarrow> string \<Rightarrow> json" where
  "status_json state health = JObj [(''State'', JStr state), (''Health'', JStr health)]"

definition dest_json :: "rf_dest \<Rightarrow> json" where
  "dest_json x = JObj
     (resource_fields ''#EventDestination.v1_0_0.EventDestination'' (rd_name x) (rd_odata x) 36
     @ [(''Id'', JStr (rd_id x)), (''Destination'', JStr (rd_destination x)),
        (''SubscriptionType'', JStr (rd_subscription_type x)),
        (''DeliveryRetryPolicy'', JStr (rd_policy x)), (''Context'', JStr (rd_context x)),
        (''Protocol'', JStr (rd_protocol x)), (''Status'', status_json (rd_state x) (rd_health x))])"

text \<open>Every member pointer of a collection is followed.\<close>

fun member_links :: "rf \<Rightarrow> nat list \<Rightarrow> json list rres" where
  "member_links s [] = Done []"
| "member_links s (a # as) =
     rbind (deref (rf_heap s a)) (\<lambda>x.
     rbind (member_links s as) (\<lambda>js. Done (odata_id_json (Some (obj_odata x)) # js)))"

definition collection_json :: "rf \<Rightarrow> string \<Rightarrow> string \<Rightarrow> string \<Rightarrow> nat list \<Rightarrow> json rres" where
  "collection_json s otype name odata ms =
     rbind (member_links s ms) (\<lambda>js. Done (JObj
       (resource_fields otype name odata 2
        @ [(''Members'', JArr js), (''Members@odata.count'', JNum (int (length ms)))])))"

fun coll_type :: "allocate_num \<Rightarrow> string" where
  "coll_type ALLOCATE_TASK_NUM = ''#TaskCollection.TaskCollection''"
| "coll_type ALLOCATE_ACCOUNT_NUM = ''#ManagerAccountCollection.ManagerAccountCollection''"
| "coll_type ALLOCATE_SESSION_NUM = ''#SessionCollection.SessionCollection''"
| "coll_type _ = ''#EventDestinationCollection.EventDestinationCollection''"

fun coll_name :: "allocate_num \<Rightarrow> string" where
  "coll_name ALLOCATE_TASK_NUM = ''Task Collection''"
| "coll_name ALLOCATE_ACCOUNT_NUM = ''Accounts Collection''"
| "coll_name ALLOCATE_SESSION_NUM = ''Session Collection''"
| "coll_name _ = ''Subscription Collection''"

definition account_service_json :: "rf \<Rightarrow> json" where
  "account_service_json s = (let v = rf_asvc s in JObj
     (resource_fields ''#AccountService.v1_0_0.AccountService'' ''Account Service'' ODATA_ACCOUNT_SERVICE_ID 32
     @ [(''Id'', JStr ''AccountService''), (''Status'', status_json ''Enabled'' ''OK''),
        (''ServiceEnabled'', JBool (as_enabled v)),
        (''AuthFailureLoggingThreshold'', JNum (int (as_auth_failure_logging_threshold v))),
        (''MinPasswordLength'', JNum (int (as_min_password v))),
        (''MaxPasswordLength'', JNum (int (as_max_password v))),
        (''AccountLockoutThreshold'', JNum (int (as_lockout_threshold v))),
        (''AccountLockoutDuration'', JNum (int (as_lockout_duration v))),
        (''AccountLockoutCounterResetAfter'', JNum (int (as_lockout_reset_after v))),
        (''AccountLockoutCounterResetEnabled'', JBool (as_lockout_reset_enabled v)),
        (''Accounts'', odata_id_json (Some (coll_uri ALLOCATE_ACCOUNT_NUM))),
        (''Roles'', odata_id_json (Some ODATA_ROLE_ID))]
     @ rf_constant s ODATA_ACCOUNT_SERVICE_ID))"

definition session_service_json :: "rf \<Rightarrow> json" where
  "session_service_json s = (let v = rf_ssvc s in JObj
     (resource_fields ''#SessionService.v1_0_0.SessionService'' ''Session Service'' ODATA_SESSION_SERVICE_ID 30
     @ [(''Id'', JStr ''SessionService''), (''Status'', status_json ''Enabled'' ''OK''),
        (''ServiceEnabled'', JBool (ss_enabled v)), (''SessionTimeout'', JNum (int (ss_timeout v))),
        (''Sessions'', odata_id_json (Some (coll_uri ALLOCATE_SESSION_NUM)))]))"

definition event_service_json :: "rf \<Rightarrow> json" where
  "event_service_json s = (let v = rf_esvc s in JObj
     (resource_fields ''#EventService.v1_0_0.EventService'' [] ODATA_EVENT_SERVICE_ID 35
     @ [(''ServiceEnabled'', JBool (es_enabled v)), (''DeliveryRetryAttempts'', JNum (es_attempts v)),
        (''DeliveryRetryIntervalSeconds'', JNum (int (es_interval v))),
        (''Status'', status_json ''Enabled'' ''OK''),
        (''Subscriptions'', odata_id_json (Some (coll_uri ALLOCATE_SUBSCRIPTION_NUM)))]
     @ rf_constant s ODATA_EVENT_SERVICE_ID))"

text \<open>A null pointer to a role or account is written as null or the empty string; one to an object
  that was deleted is followed.\<close>

definition object_json :: "rf \<Rightarrow> robj \<Rightarrow> json rres" where
  "object_json s x = (case x of
     OAccount y \<Rightarrow> (case ra_role y of None \<Rightarrow> Done (account_json y None)
        | Some r \<Rightarrow> rbind (deref (role_at s r)) (\<lambda>ro. Done (account_json y (Some ro))))
   | ORole y \<Rightarrow> Done (role_json y)
   | OSession y \<Rightarrow> (case rs_account y of None \<Rightarrow> Done (session_json y None)
        | Some a \<Rightarrow> rbind (deref (account_at s a)) (\<lambda>acc. Done (session_json y (Some acc))))
   | OTask y \<Rightarrow> Done (task_json y)
   | ODest y \<Rightarrow> Done (dest_json y))"

definition record_get_json :: "string \<Rightarrow> rf \<Rightarrow> json rres" where
  "record_get_json uri s = (case rf_rec s uri of
     None \<Rightarrow> Done JNull
   | Some (Obj a) \<Rightarrow> rbind (deref (rf_heap s a)) (object_json s)
   | Some (Coll k) \<Rightarrow> collection_json s (coll_type k) (coll_name k) (coll_uri k) (rf_members s k)
   | Some Roles \<Rightarrow> collection_json s ''#RoleCollection.RoleCollection'' ''Roles Collection'' ODATA_ROLE_ID (rf_roles s)
   | Some Account_service \<Rightarrow> Done (account_service_json s)
   | Some Session_service \<Rightarrow> Done (session_service_json s)
   | Some Event_service \<Rightarrow> Done (event_service_json s)
   | Some Other_class \<Rightarrow> Elsewhere)"

section \<open>Files\<close>

text \<open>\<open>save_json\<close>: the file of the resource's URI gets its JSON, unless that is null.\<close>

definition save_json :: "string \<Rightarrow> rf \<Rightarrow> rf rres" where
  "save_json uri s = rbind (record_get_json uri s) (\<lambda>j.
     Done (if j = JNull then s else s\<lparr>rf_disk := (rf_disk s)(uri := Some j)\<rparr>))"

definition resource_save_json :: "string \<Rightarrow> rf \<Rightarrow> rf rres" where
  "resource_save_json uri s = (if record_is_exist uri s then save_json uri s else Done s)"

definition delete_resource :: "string \<Rightarrow> rf \<Rightarrow> rf" where
  "delete_resource uri s =
     (if record_is_exist uri s then s else s\<lparr>rf_disk := (rf_disk s)(uri := None)\<rparr>)"

section \<open>Creating, changing and deleting objects\<close>

text \<open>A constructor: a new address, entered in the record under the object's URI.\<close>

definition new_object :: "robj \<Rightarrow> rf \<Rightarrow> nat \<times> rf" where
  "new_object x s = (rf_next s,
     s\<lparr>rf_heap := (rf_heap s)(rf_next s := Some x), rf_next := rf_next s + 1,
       rf_rec := (rf_rec s)(obj_odata x := Some (Obj (rf_next s)))\<rparr>)"

definition put_object :: "nat \<Rightarrow> robj \<Rightarrow> rf \<Rightarrow> rf" where
  "put_object a x s = s\<lparr>rf_heap := (rf_heap s)(a := Some x)\<rparr>"

definition add_member :: "allocate_num \<Rightarrow> nat \<Rightarrow> rf \<Rightarrow> rf" where
  "add_member k a s = s\<lparr>rf_members := (rf_members s)(k := rf_members s k @ [a])\<rparr>"

text \<open>\<open>delete (*iter); members.erase(iter)\<close>: the destructor takes the URI out of the record.\<close>

definition delete_object :: "nat \<Rightarrow> rf \<Rightarrow> rf rres" where
  "delete_object a s = rbind (deref (rf_heap s a)) (\<lambda>x.
     Done (s\<lparr>rf_rec := (rf_rec s)(obj_odata x := None), rf_heap := (rf_heap s)(a := None)\<rparr>))"

definition erase_member :: "allocate_num \<Rightarrow> nat \<Rightarrow> rf \<Rightarrow> rf" where
  "erase_member k a s = s\<lparr>rf_members := (rf_members s)(k := remove1 a (rf_members s k))\<rparr>"

definition allocate_in :: "allocate_num \<Rightarrow> rf \<Rightarrow> (nat \<times> rf) rres" where
  "allocate_in k s = (case allocate_numset_num k (rf_numbers s) of
     None \<Rightarrow> Hangs | Some (n, ns) \<Rightarrow> Done (n, s\<lparr>rf_numbers := ns\<rparr>))"

definition release_in :: "allocate_num \<Rightarrow> nat \<Rightarrow> rf \<Rightarrow> rf" where
  "release_in k n s = s\<lparr>rf_numbers := delete_numset_num k n (rf_numbers s)\<rparr>"

text \<open>What making an account, a session, a subscription and a task have in common: the next free number,
  the object under it, the member of the collection, and both files.\<close>

definition create_numbered ::
    "allocate_num \<Rightarrow> (string \<Rightarrow> string \<Rightarrow> rf \<Rightarrow> robj rres) \<Rightarrow> rf \<Rightarrow> (nat \<times> rf) rres" where
  "create_numbered k mk s =
     rbind (allocate_in k s) (\<lambda>(n, s1).
     let i = to_string n; odata = member_uri k i in
     rbind (mk odata i s1) (\<lambda>x.
     let (a, s2) = new_object x s1 in
     rbind (resource_save_json odata (add_member k a s2)) (\<lambda>s3.
     rbind (resource_save_json (coll_uri k) s3) (\<lambda>s4. Done (n, s4)))))"

text \<open>And removing one: the number, the object at the iterator, the member, the file of the URI.\<close>

definition delete_numbered :: "allocate_num \<Rightarrow> nat \<Rightarrow> nat \<Rightarrow> string \<Rightarrow> rf \<Rightarrow> rf rres" where
  "delete_numbered k n a uri s =
     rbind (delete_object a (release_in k n s)) (\<lambda>s1.
     resource_save_json (coll_uri k) (delete_resource uri (erase_member k a s1)))"

text \<open>\<open>unsigned int id_num = stoi(...)\<close>.\<close>

definition unsigned_of :: "int \<Rightarrow> nat" where
  "unsigned_of n = nat (n mod 4294967296)"

text \<open>A loop over the members that stops at the first one with a property.\<close>

fun scan :: "(nat \<Rightarrow> 'a option) \<Rightarrow> ('a \<Rightarrow> bool) \<Rightarrow> nat list \<Rightarrow> nat option rres" where
  "scan get P [] = Done None"
| "scan get P (a # as) = rbind (deref (get a)) (\<lambda>x. if P x then Done (Some a) else scan get P as)"

section \<open>The IPMI users\<close>

text \<open>\<open>plat_user_save\<close> (libs/user/user.cpp) on the record: the account whose number is the index of a
  counted user gets that user's fields, and is saved.\<close>

definition mirror_user :: "nat \<Rightarrow> rf \<Rightarrow> rf rres" where
  "mirror_user i s =
     (let uri = member_uri ALLOCATE_ACCOUNT_NUM (to_string i) in
      if record_is_exist uri s then
        (case lookup s uri of
           None \<Rightarrow> Undef
         | Some a \<Rightarrow> rbind (deref (account_at s a)) (\<lambda>x.
             resource_save_json uri
               (put_object a (OAccount (x\<lparr>ra_user := account_of (rf_ipmi s ! i) (ra_user x)\<rparr>)) s)))
      else Done s)"

fun mirror_users :: "nat list \<Rightarrow> rf \<Rightarrow> rf rres" where
  "mirror_users [] s = Done s"
| "mirror_users (i # is) s = rbind (mirror_user i s) (mirror_users is)"

definition rf_user_save :: "rf \<Rightarrow> rf rres" where
  "rf_user_save s = mirror_users [0..<get_user_cnt (rf_ipmi s)] s"

text \<open>\<open>ipmiUser[i].setUserName(n)\<close>, which ends with the save.\<close>

definition rf_set_user_name :: "nat \<Rightarrow> u8 list \<Rightarrow> rf \<Rightarrow> rf rres" where
  "rf_set_user_name i n s =
     rf_user_save (s\<lparr>rf_ipmi := (rf_ipmi s)[i := setUserName n (rf_ipmi s ! i)]\<rparr>)"

end
