(* ===== verification/Redfish_Service.thy ===== *)
theory Redfish_Service
  imports Redfish_Record
begin

text \<open>
  The account, session and event services of KETI-Edge/handler.cpp: creating, changing and
  removing accounts, roles, sessions and subscriptions, the tasks every request leaves, and the
  timer of a session (libs/redfish/resource.cpp). A handler returns the new state and the reply;
  the log lines it prints are left out, and so is the network message \<open>report_last_command\<close>.
\<close>

section \<open>Requests and replies\<close>

text \<open>A request: its URI, its headers by the names the code uses, and the JSON body (null when empty).\<close>

record request =
  q_uri :: string
  q_headers :: "(string \<times> string) list"
  q_body :: json

record response =
  p_status :: nat
  p_body :: "json option"
  p_headers :: "(string \<times> string) list"

definition get_error_json :: "string \<Rightarrow> json" where
  "get_error_json m = (if m \<noteq> [] then JObj [(''Error'', JStr m)] else JNull)"

definition json_reply :: "json \<Rightarrow> nat \<Rightarrow> response" where
  "json_reply j status = \<lparr>p_status = status, p_body = (if j = JNull then None else Some j), p_headers = []\<rparr>"

text \<open>\<open>error_reply(get_error_json(m), status)\<close> and \<open>success_reply\<close>.\<close>

definition error_reply :: "string \<Rightarrow> nat \<Rightarrow> response" where
  "error_reply m status = json_reply (get_error_json m) status"

definition success_reply :: "json \<Rightarrow> nat \<Rightarrow> response" where
  "success_reply j status = json_reply j status"

definition refuse :: "string \<Rightarrow> rf \<Rightarrow> (rf \<times> response) rres" where
  "refuse m s = Done (s, error_reply m 400)"

text \<open>The reply with a resource's JSON.\<close>

definition reply_record :: "string \<Rightarrow> nat \<Rightarrow> rf \<Rightarrow> (rf \<times> response) rres" where
  "reply_record uri status s =
     rbind (record_get_json uri s) (\<lambda>j. Done (s, success_reply j status))"

section \<open>Sessions\<close>

definition find_token_session :: "string \<Rightarrow> rf \<Rightarrow> nat option rres" where
  "find_token_session token s =
     scan (session_at s) (\<lambda>x. rs_token x = token) (rf_members s ALLOCATE_SESSION_NUM)"

definition is_session_valid :: "string \<Rightarrow> rf \<Rightarrow> bool rres" where
  "is_session_valid token s =
     rbind (find_token_session token s) (\<lambda>r. case r of
       None \<Rightarrow> Done False
     | Some a \<Rightarrow> rbind (deref (session_at s a)) (\<lambda>x.
         Done (record_is_exist (rs_odata x) s \<and> 0 < rs_remain x)))"

definition get_session_odata_id_by_token :: "string \<Rightarrow> rf \<Rightarrow> string rres" where
  "get_session_odata_id_by_token token s =
     rbind (find_token_session token s) (\<lambda>r. case r of
       None \<Rightarrow> Done []
     | Some a \<Rightarrow> rbind (deref (session_at s a)) (\<lambda>x. Done (rs_odata x)))"

definition fresh_session :: "string \<Rightarrow> string \<Rightarrow> nat \<Rightarrow> rf_account \<Rightarrow> string \<Rightarrow> rf \<Rightarrow> rf_session" where
  "fresh_session odata i a acc token s =
     \<lparr>rs_odata = odata, rs_name = ''User Session'', rs_id = i, rs_account = Some a,
      rs_account_id = ra_odata acc, rs_remain = ss_timeout (rf_ssvc s), rs_token = token\<rparr>"

text \<open>\<open>token\<close> is what \<open>generate_token(16)\<close> returns.\<close>

definition make_session :: "string \<Rightarrow> json \<Rightarrow> rf \<Rightarrow> (rf \<times> response) rres" where
  "make_session token jv s =
     (if \<not> ss_enabled (rf_ssvc s) then refuse ''Session Service isn't Enabled'' s
      else
        let (u, user_name) = get_string_value jv ''UserName'';
            (p, password) = get_string_value jv ''Password''
        in if \<not> u \<or> \<not> p then refuse ''No UserName or Password'' s
           else rbind (scan (account_at s) (\<lambda>x. a_user_name (ra_user x) = bytes_of user_name)
                  (rf_members s ALLOCATE_ACCOUNT_NUM)) (\<lambda>r. case r of
               None \<Rightarrow> refuse ''No Account using that UserName'' s
             | Some a \<Rightarrow> rbind (deref (account_at s a)) (\<lambda>acc.
                 if a_password (ra_user acc) \<noteq> bytes_of password
                 then refuse ''Password does not match'' s
                 else rbind (create_numbered ALLOCATE_SESSION_NUM
                     (\<lambda>odata i s1. Done (OSession (fresh_session odata i a acc token s1))) s) (\<lambda>(n, s1).
                   Done (s1, \<lparr>p_status = 201, p_body = None,
                     p_headers = [(''X-Auth-Token'', token),
                       (''Location'', member_uri ALLOCATE_SESSION_NUM (to_string n))]\<rparr>)))))"

definition set_remain :: "nat \<Rightarrow> nat \<Rightarrow> rf \<Rightarrow> rf rres" where
  "set_remain a t s = rbind (deref (session_at s a)) (\<lambda>x. Done (put_object a (OSession (x\<lparr>rs_remain := t\<rparr>)) s))"

definition header :: "string \<Rightarrow> request \<Rightarrow> string" where
  "header k q = (case map_of (q_headers q) k of Some v \<Rightarrow> v | None \<Rightarrow> [])"

definition remove_session :: "request \<Rightarrow> rf \<Rightarrow> (rf \<times> response) rres" where
  "remove_session q s =
     (if \<not> ss_enabled (rf_ssvc s) then refuse ''Session Service isn't Enabled'' s
      else let token = header ''X-Auth-Token'' q in
        rbind (is_session_valid token s) (\<lambda>v. if \<not> v then refuse ''Unvalid Session'' s
        else rbind (get_session_odata_id_by_token token s) (\<lambda>uri.
             rbind (deref (lookup s uri)) (\<lambda>a.
             rbind (set_remain a 0 s) (\<lambda>s1. Done (s1, success_reply JNull 200))))))"

text \<open>The end of a session's timer: the first session with the same id is deleted.\<close>

definition expire_session :: "nat \<Rightarrow> rf \<Rightarrow> rf rres" where
  "expire_session a s =
     rbind (deref (session_at s a)) (\<lambda>x.
     rbind (scan (session_at s) (\<lambda>y. rs_id y = rs_id x) (rf_members s ALLOCATE_SESSION_NUM)) (\<lambda>r.
     case r of None \<Rightarrow> Done s
     | Some b \<Rightarrow> (case improved_stoi (rs_id x) of
           Ret n \<Rightarrow> delete_numbered ALLOCATE_SESSION_NUM (unsigned_of n) b (rs_odata x) s
         | Fail e \<Rightarrow> Throws Std_exception
         | Ub \<Rightarrow> Undef)))"

text \<open>One second of the timer (\<open>timer\<close> in libs/redfish/util.cpp) of a session.\<close>

definition session_timer :: "nat \<Rightarrow> rf \<Rightarrow> rf rres" where
  "session_timer a s =
     rbind (deref (session_at s a)) (\<lambda>x.
     if 0 < rs_remain x then set_remain a (rs_remain x - 1) s else expire_session a s)"

fun clip_sessions :: "nat \<Rightarrow> nat list \<Rightarrow> rf \<Rightarrow> rf rres" where
  "clip_sessions t [] s = Done s"
| "clip_sessions t (a # as) s =
     rbind (deref (session_at s a)) (\<lambda>x.
     rbind (if t < rs_remain x then set_remain a t s else Done s) (clip_sessions t as))"

definition patch_session_service :: "json \<Rightarrow> rf \<Rightarrow> (bool \<times> rf) rres" where
  "patch_session_service jv s =
     (let (r1, timeout) = get_uint_value jv ''SessionTimeout'';
          (r2, enabled) = get_bool_value jv ''ServiceEnabled'' in
      rbind (if r1 then clip_sessions timeout (rf_members s ALLOCATE_SESSION_NUM)
                     (s\<lparr>rf_ssvc := (rf_ssvc s)\<lparr>ss_timeout := timeout\<rparr>\<rparr>)
             else Done s) (\<lambda>s1.
      Done (r1 \<or> r2, if r2 then s1\<lparr>rf_ssvc := (rf_ssvc s1)\<lparr>ss_enabled := enabled\<rparr>\<rparr> else s1)))"

section \<open>Accounts\<close>

text \<open>The constructor of an account: the role is looked up, and the IPMI members are left as they are.\<close>

definition bare_account :: "string \<Rightarrow> string \<Rightarrow> int \<Rightarrow> rf_account" where
  "bare_account odata i junk =
     \<lparr>ra_odata = odata, ra_name = [], ra_id = i, ra_enabled = True,
      ra_user = \<lparr>a_user_name = [], a_password = [], a_callin = junk, a_ipmi = junk,
                 a_link_auth = junk, a_priv = junk\<rparr>,
      ra_locked = False, ra_role = None, ra_role_id = [], ra_certificates = None\<rparr>"

definition fresh_account :: "string \<Rightarrow> string \<Rightarrow> string \<Rightarrow> rf \<Rightarrow> rf_account rres" where
  "fresh_account odata i role_id s =
     (let uri = ODATA_ROLE_ID @ ''/'' @ role_id; x = bare_account odata i (rf_junk s) in
      if record_is_exist uri s then
        rbind (deref (lookup s uri)) (\<lambda>r. rbind (deref (role_at s r)) (\<lambda>ro.
        Done (x\<lparr>ra_role := Some r, ra_role_id := rr_odata ro\<rparr>)))
      else Done x)"

text \<open>\<open>RoleId\<close>: absent, \<open>ReadOnly\<close> is used; otherwise it must name a role.\<close>

definition role_of_body :: "json \<Rightarrow> rf \<Rightarrow> string option rres" where
  "role_of_body jv s = (case as_object_find jv ''RoleId'' of
     None \<Rightarrow> Throws Json_exception
   | Some None \<Rightarrow> Done (Some ''ReadOnly'')
   | Some (Some v) \<Rightarrow> (case as_string v of
        None \<Rightarrow> Throws Json_exception
      | Some r \<Rightarrow> Done (if record_is_exist (ODATA_ROLE_ID @ ''/'' @ r) s then Some r else None)))"

definition enabled_of_body :: "json \<Rightarrow> bool rres" where
  "enabled_of_body jv = (case as_object_find jv ''Enabled'' of
     None \<Rightarrow> Throws Json_exception
   | Some None \<Rightarrow> Done True
   | Some (Some v) \<Rightarrow> (case as_bool v of None \<Rightarrow> Throws Json_exception | Some b \<Rightarrow> Done b))"

definition create_account ::
    "string \<Rightarrow> string \<Rightarrow> string \<Rightarrow> bool \<Rightarrow> rf \<Rightarrow> (rf \<times> response) rres" where
  "create_account user_name password role_id enabled s =
     rbind (create_numbered ALLOCATE_ACCOUNT_NUM (\<lambda>odata i s1.
         rbind (fresh_account odata i role_id s1) (\<lambda>f. Done (OAccount (f\<lparr>ra_name := ''User Account'',
           ra_user := (ra_user f)\<lparr>a_user_name := bytes_of user_name, a_password := bytes_of password\<rparr>,
           ra_enabled := enabled, ra_locked := False\<rparr>)))) s) (\<lambda>(n, s1).
     reply_record (member_uri ALLOCATE_ACCOUNT_NUM (to_string n)) 201 s1)"

definition make_account :: "json \<Rightarrow> rf \<Rightarrow> (rf \<times> response) rres" where
  "make_account jv s =
     (if \<not> as_enabled (rf_asvc s) then refuse ''Account Service isn't Enabled'' s
      else
        let (u, user_name) = get_string_value jv ''UserName'';
            (p, password) = get_string_value jv ''Password''
        in if \<not> u \<or> \<not> p then refuse ''No UserName or Password'' s
           else if length password < as_min_password (rf_asvc s)
           then refuse (''Password length must be at least '' @ to_string (as_min_password (rf_asvc s))) s
           else if as_max_password (rf_asvc s) < length password
           then refuse (''Password length must not exceed '' @ to_string (as_max_password (rf_asvc s))) s
           else rbind (scan (account_at s) (\<lambda>x. a_user_name (ra_user x) = bytes_of user_name)
                  (rf_members s ALLOCATE_ACCOUNT_NUM)) (\<lambda>r. case r of
               Some _ \<Rightarrow> Done (s, error_reply ''UserName already exists'' 409)
             | None \<Rightarrow> rbind (role_of_body jv s) (\<lambda>ro. case ro of
                 None \<Rightarrow> refuse ''No Role'' s
               | Some role_id \<Rightarrow> rbind (enabled_of_body jv) (\<lambda>enabled.
                   create_account user_name password role_id enabled s))))"

definition remove_account :: "string \<Rightarrow> rf \<Rightarrow> (rf \<times> response) rres" where
  "remove_account uri s =
     (if \<not> as_enabled (rf_asvc s) then refuse ''Account Service isn't Enabled'' s
      else
        rbind (scan (account_at s) (\<lambda>x. ra_id x = get_current_object_name uri CHR ''/'')
          (rf_members s ALLOCATE_ACCOUNT_NUM)) (\<lambda>r.
        if \<not> record_is_exist uri s then refuse ''No Account'' s
        else rbind (deref (lookup s uri)) (\<lambda>b. rbind (deref (account_at s b)) (\<lambda>x.
          case stoi (ra_id x) of
            Ret n \<Rightarrow> rbind (deref r) (\<lambda>a.
              rbind (delete_numbered ALLOCATE_ACCOUNT_NUM (unsigned_of n) a uri s)
                (reply_record (coll_uri ALLOCATE_ACCOUNT_NUM) 200))
          | Fail e \<Rightarrow> Throws Std_exception
          | Ub \<Rightarrow> Undef))))"

text \<open>The account a request acts for: the one of the session its token names.\<close>

definition token_check :: "request \<Rightarrow> rf \<Rightarrow> (string + nat) rres" where
  "token_check q s =
     (if ''X-Auth-Token'' \<notin> fst ` set (q_headers q) then Done (Inl ''Login Required'')
      else let token = header ''X-Auth-Token'' q in
        rbind (is_session_valid token s) (\<lambda>v. if \<not> v then Done (Inl ''Session Unvalid'')
        else rbind (get_session_odata_id_by_token token s) (\<lambda>uri.
             rbind (deref (lookup s uri)) (\<lambda>a. rbind (deref (session_at s a)) (\<lambda>x.
             rbind (deref (rs_account x)) (\<lambda>b. Done (Inr b)))))))"

definition find_ipmi_user :: "u8 list \<Rightarrow> user list \<Rightarrow> nat" where
  "find_ipmi_user n us =
     (let k = length (takeWhile (\<lambda>u. u_name u \<noteq> n) (take (get_user_cnt us) us))
      in if k < get_user_cnt us then k else get_user_cnt us - 1)"

text \<open>The checks of \<open>modify_account\<close>: a refusal, or what is to be changed.\<close>

record account_change =
  ac_role :: "string option"
  ac_name :: "string option"
  ac_password :: "string option"
  ac_input_password :: string

definition role_change :: "bool \<Rightarrow> json \<Rightarrow> rf \<Rightarrow> string + string option" where
  "role_change admin jv s =
     (let (r, role_id) = get_string_value jv ''RoleId''; odata = ODATA_ROLE_ID @ ''/'' @ role_id in
      if admin \<and> r then (if record_is_exist odata s then Inr (Some odata) else Inl (role_id @ '' does not exist''))
      else Inr None)"

definition name_in_use :: "string \<Rightarrow> string \<Rightarrow> rf \<Rightarrow> bool rres" where
  "name_in_use n aid s =
     rbind (scan (account_at s) (\<lambda>x. ra_id x \<noteq> aid \<and> a_user_name (ra_user x) = bytes_of n)
       (rf_members s ALLOCATE_ACCOUNT_NUM)) (\<lambda>r. Done (r \<noteq> None))"

definition name_password_change ::
    "string \<Rightarrow> json \<Rightarrow> rf \<Rightarrow> (string + (string option \<times> string option \<times> string)) rres" where
  "name_password_change aid jv s =
     (let (n, name) = get_string_value jv ''UserName''; (p, pw) = get_string_value jv ''Password'';
          mn = as_min_password (rf_asvc s); mx = as_max_password (rf_asvc s) in
      rbind (if n then name_in_use name aid s else Done False) (\<lambda>used.
      Done (if used then Inl ''UserName is already in use''
            else if p \<and> (length pw < mn \<or> mx < length pw)
            then Inl (''Password Range is '' @ to_string mn @ '' ~ '' @ to_string mx)
            else Inr (if n then Some name else None, if p then Some pw else None, pw))))"

text \<open>The changes, in the order of the code. The last call that sets the IPMI user's name is outside
  the \<open>if\<close>, and gets the password: the empty string when the body has none.\<close>

definition apply_account_change ::
    "string \<Rightarrow> nat \<Rightarrow> account_change \<Rightarrow> rf \<Rightarrow> rf rres" where
  "apply_account_change uri i c s =
     rbind (deref (lookup s uri)) (\<lambda>b.
     rbind (case ac_role c of None \<Rightarrow> Done s | Some odata \<Rightarrow>
         rbind (deref (lookup s odata)) (\<lambda>r. rbind (deref (role_at s r)) (\<lambda>ro.
         rbind (deref (account_at s b)) (\<lambda>x.
         Done (put_object b (OAccount (x\<lparr>ra_role := Some r, ra_role_id := rr_odata ro\<rparr>)) s))))) (\<lambda>s1.
     rbind (case ac_name c of None \<Rightarrow> Done s1 | Some n \<Rightarrow>
         rbind (deref (account_at s1 b)) (\<lambda>x.
         rf_set_user_name i (bytes_of n)
           (put_object b (OAccount (x\<lparr>ra_user := (ra_user x)\<lparr>a_user_name := bytes_of n\<rparr>\<rparr>)) s1))) (\<lambda>s2.
     rbind (case ac_password c of None \<Rightarrow> Done s2 | Some p \<Rightarrow>
         rbind (deref (account_at s2 b)) (\<lambda>x.
         Done (put_object b (OAccount (x\<lparr>ra_user := (ra_user x)\<lparr>a_password := bytes_of p\<rparr>\<rparr>)) s2))) (\<lambda>s3.
     rbind (rf_set_user_name i (bytes_of (ac_input_password c)) s3) (resource_save_json uri)))))"

definition modify_account :: "request \<Rightarrow> rf \<Rightarrow> (rf \<times> response) rres" where
  "modify_account q s =
     (let uri = q_uri q; jv = q_body q; aid = get_current_object_name uri CHR ''/'' in
      if \<not> as_enabled (rf_asvc s) then refuse ''Account Service isn't Enabled'' s
      else if \<not> record_is_exist uri s then refuse ''No Account'' s
      else rbind (token_check q s) (\<lambda>t. case t of Inl m \<Rightarrow> refuse m s
        | Inr a \<Rightarrow> rbind (deref (account_at s a)) (\<lambda>me. rbind (deref (ra_role me)) (\<lambda>r.
            rbind (deref (role_at s r)) (\<lambda>role.
            let admin = (rr_id role = ''Administrator'') in
            case role_change admin jv s of Inl m \<Rightarrow> refuse m s
            | Inr op_role \<Rightarrow>
                rbind (if admin \<or> ra_id me = aid then name_password_change aid jv s
                       else Done (Inr (None, None, []))) (\<lambda>np. case np of
                  Inl m \<Rightarrow> refuse m s
                | Inr (op_name, op_pass, pw) \<Rightarrow>
                    if op_role = None \<and> op_name = None \<and> op_pass = None
                    then refuse ''Cannot Modify Account'' s
                    else rbind (apply_account_change uri
                           (find_ipmi_user (a_user_name (ra_user me)) (rf_ipmi s))
                           \<lparr>ac_role = op_role, ac_name = op_name, ac_password = op_pass, ac_input_password = pw\<rparr> s)
                         (reply_record uri 200)))))))"

text \<open>The new range of password lengths; 0 stands for a key the body does not have.\<close>

definition password_range :: "nat \<Rightarrow> nat \<Rightarrow> account_service \<Rightarrow> account_service option" where
  "password_range min_after max_after v =
     (if min_after = 0 \<and> max_after = 0 then Some v
      else if min_after = 0 then
        (if as_min_password v \<le> max_after then Some (v\<lparr>as_max_password := max_after\<rparr>) else None)
      else if max_after = 0 then
        (if min_after \<le> as_max_password v then Some (v\<lparr>as_min_password := min_after\<rparr>) else None)
      else if min_after \<le> max_after
      then Some (v\<lparr>as_max_password := max_after, as_min_password := min_after\<rparr>) else None)"

text \<open>A member that is set when the body has its key, with the result so far.\<close>

definition set_member :: "bool \<times> 'a \<Rightarrow> ('a \<Rightarrow> 'v \<Rightarrow> 'v) \<Rightarrow> bool \<times> 'v \<Rightarrow> bool \<times> 'v" where
  "set_member found upd rv = (if fst found then (True, upd (snd found) (snd rv)) else rv)"

definition patch_account_members :: "json \<Rightarrow> bool \<times> account_service \<Rightarrow> bool \<times> account_service" where
  "patch_account_members jv rv =
     set_member (get_bool_value jv ''AccountLockoutCounterResetEnabled'') (\<lambda>x v. v\<lparr>as_lockout_reset_enabled := x\<rparr>)
     (set_member (get_uint_value jv ''AccountLockoutCounterResetAfter'') (\<lambda>x v. v\<lparr>as_lockout_reset_after := x\<rparr>)
     (set_member (get_uint_value jv ''AccountLockoutDuration'') (\<lambda>x v. v\<lparr>as_lockout_duration := x\<rparr>)
     (set_member (get_uint_value jv ''AccountLockoutThreshold'') (\<lambda>x v. v\<lparr>as_lockout_threshold := x\<rparr>)
     (set_member (get_uint_value jv ''AuthFailureLoggingThreshold'')
        (\<lambda>x v. v\<lparr>as_auth_failure_logging_threshold := x\<rparr>)
     (set_member (get_bool_value jv ''ServiceEnabled'') (\<lambda>x v. v\<lparr>as_enabled := x\<rparr>) rv)))))"

definition patch_account_service :: "json \<Rightarrow> rf \<Rightarrow> bool \<times> rf" where
  "patch_account_service jv s =
     (let (r1, min_after) = get_uint_value jv ''MinPasswordLength'';
          (r2, max_after) = get_uint_value jv ''MaxPasswordLength'' in
      if r1 \<and> min_after = 0 \<or> r2 \<and> max_after = 0 then (False, s)
      else case password_range min_after max_after (rf_asvc s) of
          None \<Rightarrow> (False, s)
        | Some v \<Rightarrow>
            let (r, v') = patch_account_members jv (r1 \<or> r2, v) in (r, s\<lparr>rf_asvc := v'\<rparr>))"

section \<open>Roles\<close>

text \<open>The privileges of the body that the role has not: \<open>Inl ()\<close> when one is not a privilege.\<close>

fun new_privileges :: "string list \<Rightarrow> json list \<Rightarrow> (unit + string list) rres" where
  "new_privileges have [] = Done (Inr [])"
| "new_privileges have (v # vs) = (case as_string v of
     None \<Rightarrow> Throws Json_exception
   | Some p \<Rightarrow>
       if \<not> check_role_privileges p then Done (Inl ())
       else rbind (new_privileges have vs) (\<lambda>r. Done (case r of
              Inl u \<Rightarrow> Inl u | Inr ps \<Rightarrow> Inr (if p \<in> set have then ps else p # ps))))"

text \<open>The loop over \<open>arr.size()\<close> and \<open>arr[i]\<close>: an object has a size but no positions, another kind of
  value has size 0.\<close>

fun json_elements :: "json \<Rightarrow> json list rres" where
  "json_elements (JArr js) = Done js"
| "json_elements (JObj (kv # kvs)) = Throws Json_exception"
| "json_elements _ = Done []"

definition modify_role :: "request \<Rightarrow> rf \<Rightarrow> (rf \<times> response) rres" where
  "modify_role q s =
     (let uri = q_uri q in
      if \<not> as_enabled (rf_asvc s) then refuse ''Account Service isn't Enabled'' s
      else if \<not> record_is_exist uri s then refuse ''No Role'' s
      else rbind (token_check q s) (\<lambda>t. case t of Inl m \<Rightarrow> refuse m s
        | Inr a \<Rightarrow> rbind (deref (account_at s a)) (\<lambda>me. rbind (deref (ra_role me)) (\<lambda>r.
            rbind (deref (role_at s r)) (\<lambda>login_role.
            if rr_id login_role \<noteq> ''Administrator'' then refuse ''Only Administrator Can Use'' s
            else case as_object_find (q_body q) ''AssignedPrivileges'' of
                None \<Rightarrow> Throws Json_exception
              | Some None \<Rightarrow> refuse ''No Privileges'' s
              | Some (Some arr) \<Rightarrow>
                  rbind (deref (lookup s uri)) (\<lambda>b. rbind (deref (role_at s b)) (\<lambda>target.
                  rbind (json_elements arr) (\<lambda>vs.
                  rbind (new_privileges (rr_privileges target) vs) (\<lambda>n. case n of
                    Inl _ \<Rightarrow> refuse ''Incorrect Previlege'' s
                  | Inr store \<Rightarrow>
                      rbind (resource_save_json uri (put_object b
                         (ORole (target\<lparr>rr_privileges := rr_privileges target @ store\<rparr>)) s))
                        (reply_record uri 200))))))))))"

section \<open>Events\<close>

definition make_subscription :: "json \<Rightarrow> rf \<Rightarrow> (rf \<times> response) rres" where
  "make_subscription jv s =
     (let (d, destination) = get_string_value jv ''Destination'';
          (p, protocol) = get_string_value jv ''Protocol'';
          (_, context) = get_string_value jv ''Context'';
          (r, policy) = get_string_value jv ''DeliveryRetryPolicy'';
          (t, subs_type) = get_string_value jv ''SubscriptionType''
      in if \<not> d then refuse ''Need Destination in Request Body'' s
         else if \<not> p then refuse ''Need Protocol in Request Body'' s
         else rbind (create_numbered ALLOCATE_SUBSCRIPTION_NUM (\<lambda>odata i s1.
             Done (ODest \<lparr>rd_odata = odata, rd_name = ''Event Subscription'', rd_id = i,
               rd_destination = destination,
               rd_subscription_type = (if t then subs_type else ''RedfishEvent''),
               rd_policy = (if r then policy else ''SuspendRetries''),
               rd_protocol = protocol, rd_context = context,
               rd_state = ''Enabled'', rd_health = ''OK''\<rparr>)) s) (\<lambda>(n, s1).
           reply_record (member_uri ALLOCATE_SUBSCRIPTION_NUM (to_string n)) 201 s1))"

definition remove_subscription :: "string \<Rightarrow> rf \<Rightarrow> (rf \<times> response) rres" where
  "remove_subscription uri s =
     (if \<not> record_is_exist uri s then refuse ''No Subscription'' s
      else let name = get_current_object_name uri CHR ''/'' in
        rbind (scan (dest_at s) (\<lambda>x. rd_id x = name) (rf_members s ALLOCATE_SUBSCRIPTION_NUM)) (\<lambda>r.
        case stoi name of
          Ret n \<Rightarrow> rbind (deref r) (\<lambda>a.
            rbind (delete_numbered ALLOCATE_SUBSCRIPTION_NUM (unsigned_of n) a uri s) (\<lambda>s1.
            Done (s1, success_reply JNull 200)))
        | Fail e \<Rightarrow> Throws Std_exception
        | Ub \<Rightarrow> Undef))"

definition patch_event_service :: "json \<Rightarrow> rf \<Rightarrow> (bool \<times> rf) rres" where
  "patch_event_service jv s =
     (let (r1, attempt) = get_int_value jv ''DeliveryRetryAttempts'';
          (r2, interval) = get_int_value jv ''DeliveryRetryIntervalSeconds'';
          (r3, en) = get_bool_value jv ''ServiceEnabled'' in
      if r1 \<and> attempt < 0 then Done (False, s)
      else if r2 \<and> interval < 1 then Done (False, s)
      else if r1 \<or> r2 \<or> r3 then
        let v1 = (if r1 then (rf_esvc s)\<lparr>es_attempts := attempt\<rparr> else rf_esvc s);
            v2 = (if r2 then v1\<lparr>es_interval := nat interval\<rparr> else v1);
            v3 = (if r3 then v2\<lparr>es_enabled := en\<rparr> else v2)
        in rbind (resource_save_json ODATA_EVENT_SERVICE_ID (s\<lparr>rf_esvc := v3\<rparr>)) (\<lambda>s1. Done (True, s1))
      else Done (False, s))"

definition patch_subscription :: "json \<Rightarrow> string \<Rightarrow> rf \<Rightarrow> (bool \<times> rf) rres" where
  "patch_subscription jv uri s =
     (let (r1, context) = get_string_value jv ''Context'';
          (r2, policy) = get_string_value jv ''DeliveryRetryPolicy'' in
      if r2 \<and> policy \<notin> {''RetryForever'', ''SuspendRetries'', ''TerminateAfterRetries''} then Done (False, s)
      else if r1 \<or> r2 then
        rbind (deref (lookup s uri)) (\<lambda>a. rbind (deref (dest_at s a)) (\<lambda>x.
        let x1 = (if r1 then x\<lparr>rd_context := context\<rparr> else x);
            x2 = (if r2 then x1\<lparr>rd_policy := policy\<rparr> else x1)
        in rbind (resource_save_json uri (put_object a (ODest x2) s)) (\<lambda>s1. Done (True, s1))))
      else Done (False, s))"

section \<open>Tasks\<close>

definition generate_task_resource :: "string \<Rightarrow> request \<Rightarrow> rf \<Rightarrow> (nat \<times> rf) rres" where
  "generate_task_resource meth q s =
     create_numbered ALLOCATE_TASK_NUM (\<lambda>odata i s1.
       Done (OTask \<lparr>rt_odata = odata, rt_name = ''Task'', rt_id = i, rt_start = rf_clock s1,
         rt_end = [], rt_state = ''New'', rt_status = ''OK'', rt_headers = q_headers q,
         rt_operation = meth, rt_body = q_body q, rt_target = q_uri q\<rparr>)) s"

definition complete_task_resource :: "nat \<Rightarrow> rf \<Rightarrow> rf rres" where
  "complete_task_resource n s =
     (let odata = member_uri ALLOCATE_TASK_NUM (to_string n) in
      rbind (deref (lookup s odata)) (\<lambda>a. rbind (deref (task_at s a)) (\<lambda>x.
      resource_save_json odata
        (put_object a (OTask (x\<lparr>rt_end := rf_clock s, rt_state := ''Completed''\<rparr>)) s))))"

end
