(* ===== verification/Redfish_Http.thy ===== *)
theory Redfish_Http
  imports Redfish_Service
begin

text \<open>
  The request handlers of KETI-Edge/handler.cpp: \<open>handle_get\<close>, \<open>handle_post\<close>, \<open>handle_patch\<close>,
  \<open>handle_delete\<close>, \<open>handle_put\<close> and \<open>handle_options\<close>, with the dispatch on the URI, and the world a
  client sees: requests and the seconds of the session timers. Requests for the manager, system and
  chassis resources and for actions are \<open>Elsewhere\<close>. The CORS headers, the same for every reply,
  are left out. An exception that is not the JSON library's leaves the handler, and the listener
  answers 500.
\<close>

section \<open>Dispatch on the URI\<close>

text \<open>The bytes of the Korean message "must not come here".\<close>

definition unreachable_message :: string where
  "unreachable_message = map char_of
     [0xEC, 0x98, 0xA4, 0xEB, 0xA9, 0xB4, 0xEC, 0x95, 0x88, 0xEB, 0x90, 0x98, 0xEB, 0x8A, 0x94, 0xEA,
      0xB3, 0xB3 :: nat]"

definition do_actions :: "request \<Rightarrow> rf \<Rightarrow> (rf \<times> response) rres" where
  "do_actions q s =
     (let uri = q_uri q;
          resource_uri = get_parent_object_uri (get_parent_object_uri uri CHR ''/'') CHR ''/'';
          action_uri = get_current_object_name uri CHR ''/'';
          action_by = get_parent_object_uri action_uri CHR ''.'' in
      if \<not> record_is_exist resource_uri s then refuse ''URI Input Error in Resource part'' s
      else if action_by \<in> {''Certificate'', ''CertificateService'', ''ComputerSystem'', ''EventService'',
                           ''LogService'', ''VirtualMedia''} then Elsewhere
      else if action_by \<in> {''Bios'', ''Chassis'', ''Manager'', ''UpdateService''}
      then refuse unreachable_message s
      else refuse ''URI Input Error in action_by check'' s)"

definition treat_post :: "string \<Rightarrow> request \<Rightarrow> rf \<Rightarrow> (rf \<times> response) rres" where
  "treat_post token q s =
     (let uri = q_uri q; minus_one = get_parent_object_uri uri CHR ''/'' in
      if get_current_object_name minus_one CHR ''/'' = ''Actions'' then do_actions q s
      else if uri = coll_uri ALLOCATE_ACCOUNT_NUM then make_account (q_body q) s
      else if uri = coll_uri ALLOCATE_SESSION_NUM then make_session token (q_body q) s
      else if uri = coll_uri ALLOCATE_SUBSCRIPTION_NUM then make_subscription (q_body q) s
      else Done (s, error_reply ''URI Input Error in treat POST'' 501))"

text \<open>The reply after a \<open>patch_\<close> function: the resource, saved by the caller when \<open>saves\<close>.\<close>

definition patch_reply ::
    "bool \<Rightarrow> string \<Rightarrow> string \<Rightarrow> bool \<times> rf \<Rightarrow> (rf \<times> response) rres" where
  "patch_reply saves uri m res =
     (if fst res
      then rbind (if saves then resource_save_json uri (snd res) else Done (snd res)) (reply_record uri 200)
      else refuse m (snd res))"

definition treat_patch :: "request \<Rightarrow> rf \<Rightarrow> (rf \<times> response) rres" where
  "treat_patch q s =
     (let uri = q_uri q; jv = q_body q; part = uri_part uri;
          minus_one = get_parent_object_uri uri CHR ''/'';
          below = refuse ''URI Input Error in Below part'' s in
      if part = ODATA_ACCOUNT_SERVICE_ID then
        if uri = ODATA_ACCOUNT_SERVICE_ID
        then patch_reply True uri ''Error Occur in AccountService PATCH'' (patch_account_service jv s)
        else if minus_one = coll_uri ALLOCATE_ACCOUNT_NUM then modify_account q s
        else if minus_one = ODATA_ROLE_ID then modify_role q s
        else below
      else if part = ODATA_SESSION_SERVICE_ID then
        if uri = ODATA_SESSION_SERVICE_ID
        then rbind (patch_session_service jv s) (patch_reply True uri ''Error Occur in SessionService PATCH'')
        else below
      else if part \<in> {''/redfish/v1/Managers'', ''/redfish/v1/Systems'', ''/redfish/v1/Chassis''} then Elsewhere
      else if part = ODATA_EVENT_SERVICE_ID then
        if uri = ODATA_EVENT_SERVICE_ID
        then rbind (patch_event_service jv s) (patch_reply False uri ''Error Occur in EventService PATCH'')
        else if minus_one = coll_uri ALLOCATE_SUBSCRIPTION_NUM then
          if \<not> record_is_exist uri s then refuse ''No Subscription'' s
          else rbind (patch_subscription jv uri s) (patch_reply False uri ''Error Occur in Subscription PATCH'')
        else below
      else refuse ''URI Input Error in Whole part'' s)"

definition treat_delete :: "request \<Rightarrow> rf \<Rightarrow> (rf \<times> response) rres" where
  "treat_delete q s =
     (let uri = q_uri q; part = uri_part uri; minus_one = get_parent_object_uri uri CHR ''/'' in
      if part = ODATA_ACCOUNT_SERVICE_ID \<and> minus_one = coll_uri ALLOCATE_ACCOUNT_NUM then remove_account uri s
      else if part = ODATA_SESSION_SERVICE_ID \<and> uri = coll_uri ALLOCATE_SESSION_NUM then remove_session q s
      else if part = ODATA_EVENT_SERVICE_ID \<and> minus_one = coll_uri ALLOCATE_SUBSCRIPTION_NUM
      then remove_subscription uri s
      else refuse ''URI Input Error in treat delete'' s)"

section \<open>Handlers\<close>

definition bare_reply :: "nat \<Rightarrow> response" where
  "bare_reply status = \<lparr>p_status = status, p_body = None, p_headers = []\<rparr>"

text \<open>A request under its task: the task is completed unless an exception leaves the handler.\<close>

definition with_task ::
    "string \<Rightarrow> (request \<Rightarrow> rf \<Rightarrow> (rf \<times> response) rres) \<Rightarrow> request \<Rightarrow> rf \<Rightarrow> (rf \<times> response) rres" where
  "with_task meth treat q s =
     rbind (generate_task_resource meth q s) (\<lambda>(n, s1).
     case treat q s1 of
       Throws Json_exception \<Rightarrow> Done (s1, bare_reply 400)
     | Throws Std_exception \<Rightarrow> Done (s1, bare_reply 500)
     | r \<Rightarrow> rbind r (\<lambda>(s2, p). rbind (complete_task_resource n s2) (\<lambda>s3. Done (s3, p))))"

definition treat_get :: "request \<Rightarrow> rf \<Rightarrow> (rf \<times> response) rres" where
  "treat_get q s =
     (if \<not> record_is_exist (q_uri q) s then Done (s, bare_reply 404)
      else rbind (record_get_json (q_uri q) s) (\<lambda>j. Done (s, \<lparr>p_status = 200, p_body = Some j, p_headers = []\<rparr>)))"

definition handle_get :: "request \<Rightarrow> rf \<Rightarrow> (rf \<times> response) rres" where
  "handle_get q s =
     (if string_split (q_uri q) CHR ''/'' = [''redfish'']
      then Done (s, json_reply (JObj [(''v1'', JStr ''/redfish/v1'')]) 200)
      else with_task ''GET'' treat_get q s)"

definition handle_post :: "string \<Rightarrow> request \<Rightarrow> rf \<Rightarrow> (rf \<times> response) rres" where
  "handle_post token q s =
     (if string_split (q_uri q) CHR ''/'' = [''Event''] then Done (s, bare_reply 200)
      else with_task ''POST'' (treat_post token) q s)"

definition handle_patch :: "request \<Rightarrow> rf \<Rightarrow> (rf \<times> response) rres" where
  "handle_patch q s = with_task ''PATCH'' treat_patch q s"

definition handle_delete :: "request \<Rightarrow> rf \<Rightarrow> (rf \<times> response) rres" where
  "handle_delete q s = with_task ''DELETE'' treat_delete q s"

definition handle_put :: "request \<Rightarrow> rf \<Rightarrow> (rf \<times> response) rres" where
  "handle_put q s = Done (s, json_reply (JStr ''PUT Request Response'') 501)"

definition handle_options :: "request \<Rightarrow> rf \<Rightarrow> (rf \<times> response) rres" where
  "handle_options q s = Done (s, bare_reply 200)"

section \<open>The service as a state machine\<close>

text \<open>An event: a request (a POST with the token the generator returns if it makes a session), or a
  second of the timer of the session object at an address.\<close>

datatype http_event =
  Get request | Post string request | Patch request | Delete request | Put request | Options request
  | Second nat

definition rf_event :: "http_event \<Rightarrow> rf \<Rightarrow> (rf \<times> response option) rres" where
  "rf_event e s =
     (let answer = (\<lambda>m. rbind m (\<lambda>(s', p). Done (s', Some p))) in
      case e of
        Get q \<Rightarrow> answer (handle_get q s)
      | Post t q \<Rightarrow> answer (handle_post t q s)
      | Patch q \<Rightarrow> answer (handle_patch q s)
      | Delete q \<Rightarrow> answer (handle_delete q s)
      | Put q \<Rightarrow> answer (handle_put q s)
      | Options q \<Rightarrow> answer (handle_options q s)
      | Second a \<Rightarrow> rbind (session_timer a s) (\<lambda>s'. Done (s', None)))"

inductive rf_step :: "rf \<Rightarrow> rf \<Rightarrow> bool" where
  step: "rf_event e s = Done (s', p) \<Longrightarrow> rf_step s s'"

inductive rf_reach :: "rf \<Rightarrow> rf \<Rightarrow> bool" for s0 where
  start: "rf_reach s0 s0"
| more: "rf_reach s0 s \<Longrightarrow> rf_step s s' \<Longrightarrow> rf_reach s0 s'"

inductive_cases rf_stepE: "rf_step s s'"

section \<open>Start-up\<close>

text \<open>\<open>init_account_service\<close> and the other services on an empty disk, as the service root creates them:
  the three roles, an account for each IPMI user, the collections.\<close>

definition predefined_role :: "string \<Rightarrow> string list \<Rightarrow> rf \<Rightarrow> rf" where
  "predefined_role name privs s =
     (let (a, s1) = new_object (ORole \<lparr>rr_odata = ODATA_ROLE_ID @ ''/'' @ name, rr_name = ''User Role'',
            rr_id = name, rr_predefined = True, rr_privileges = privs\<rparr>) s
      in s1\<lparr>rf_roles := rf_roles s1 @ [a]\<rparr>)"

definition init_roles :: "rf \<Rightarrow> rf" where
  "init_roles s =
     predefined_role ''ReadOnly'' [''Login'', ''ConfigureSelf'']
     (predefined_role ''Operator'' [''Login'', ''ConfigureSelf'', ''ConfigureComponents'']
     (predefined_role ''Administrator''
        [''Login'', ''ConfigureManager'', ''ConfigureUsers'', ''ConfigureSelf'', ''ConfigureComponents''] s))"

definition role_name_of_priv :: "u8 \<Rightarrow> string" where
  "role_name_of_priv p =
     (if p = 1 then ''Callback'' else if p = 2 then ''User'' else if p = 3 then ''Operator''
      else if p = 4 then ''Administrator'' else if p = 0xF then ''Noaccess'' else ''Unknown'')"

text \<open>\<open>locked = true\<close> is outside the \<open>if\<close>.\<close>

definition init_account :: "nat \<Rightarrow> rf \<Rightarrow> rf rres" where
  "init_account i s =
     rbind (allocate_in ALLOCATE_ACCOUNT_NUM s) (\<lambda>(n, s1).
     let u = rf_ipmi s1 ! i; aid = to_string n; odata = member_uri ALLOCATE_ACCOUNT_NUM aid;
         roled = role_name_of_priv (u_priv u)
     in rbind (fresh_account odata aid roled s1) (\<lambda>f.
        let acc = f\<lparr>ra_name := ''User Account'', ra_user := account_of u (ra_user f),
              ra_enabled := roled \<notin> {''Noaccess'', ''Unknown'', ''Callback''}, ra_locked := True,
              ra_certificates := Some (odata @ ''/Certificates'')\<rparr>;
            (a, s2) = new_object (OAccount acc) s1
        in Done (add_member ALLOCATE_ACCOUNT_NUM a
             (s2\<lparr>rf_rec := (rf_rec s2)(odata @ ''/Certificates'' := Some Other_class)\<rparr>))))"

fun init_accounts :: "nat list \<Rightarrow> rf \<Rightarrow> rf rres" where
  "init_accounts [] s = Done s"
| "init_accounts (i # is) s = rbind (init_account i s) (init_accounts is)"

text \<open>Constants of the start-up: password length 6 to 24, a session of 86400 seconds.\<close>

definition fixed_resources :: "string \<Rightarrow> rptr option" where
  "fixed_resources = map_of
     [(ODATA_ACCOUNT_SERVICE_ID, Account_service), (ODATA_SESSION_SERVICE_ID, Session_service),
      (ODATA_EVENT_SERVICE_ID, Event_service), (ODATA_ROLE_ID, Roles),
      (coll_uri ALLOCATE_TASK_NUM, Coll ALLOCATE_TASK_NUM),
      (coll_uri ALLOCATE_ACCOUNT_NUM, Coll ALLOCATE_ACCOUNT_NUM),
      (coll_uri ALLOCATE_SESSION_NUM, Coll ALLOCATE_SESSION_NUM),
      (coll_uri ALLOCATE_SUBSCRIPTION_NUM, Coll ALLOCATE_SUBSCRIPTION_NUM),
      (''/redfish/v1'', Other_class), (''/redfish/v1/Systems'', Other_class),
      (''/redfish/v1/Chassis'', Other_class), (''/redfish/v1/Managers'', Other_class),
      (''/redfish/v1/TaskService'', Other_class), (''/redfish/v1/UpdateService'', Other_class)]"

definition empty_rf :: "user list \<Rightarrow> rf" where
  "empty_rf us =
     \<lparr>rf_heap = (\<lambda>_. None), rf_next = 0, rf_rec = fixed_resources, rf_members = (\<lambda>_. []), rf_roles = [],
      rf_asvc = \<lparr>as_enabled = True, as_auth_failure_logging_threshold = 0, as_min_password = 6,
        as_max_password = 24, as_lockout_threshold = 0, as_lockout_duration = 0,
        as_lockout_reset_after = 0, as_lockout_reset_enabled = True\<rparr>,
      rf_ssvc = \<lparr>ss_enabled = True, ss_timeout = 86400\<rparr>,
      rf_esvc = \<lparr>es_enabled = True, es_attempts = 3, es_interval = 60\<rparr>,
      rf_numbers = init_numset, rf_ipmi = us, rf_disk = (\<lambda>_. None), rf_clock = [], rf_junk = 0,
      rf_constant = (\<lambda>_. [])\<rparr>"

text \<open>\<open>init_event_destination\<close>: the first subscription, to the empty address.\<close>

definition init_event_destination :: "string \<Rightarrow> rf \<Rightarrow> rf" where
  "init_event_destination i s =
     (let odata = member_uri ALLOCATE_SUBSCRIPTION_NUM i in
      if record_is_exist odata s then s
      else let (a, s1) = new_object (ODest \<lparr>rd_odata = odata, rd_name = [], rd_id = i, rd_destination = [],
              rd_subscription_type = ''RedfishEvent'', rd_policy = ''SuspendRetries'',
              rd_protocol = ''Redfish'', rd_context = [], rd_state = ''Enabled'', rd_health = ''OK''\<rparr>) s
           in add_member ALLOCATE_SUBSCRIPTION_NUM a s1)"

text \<open>The services in the order of the service root's constructor; the files are written afterwards by
  \<open>record_save_json\<close>, which is left out.\<close>

definition init_redfish :: "user list \<Rightarrow> rf rres" where
  "init_redfish us =
     rbind (allocate_in ALLOCATE_SUBSCRIPTION_NUM (empty_rf us)) (\<lambda>(n, s).
     init_accounts [0..<get_user_cnt us] (init_roles (init_event_destination (to_string n) s)))"

end
