(* ===== verification/Redfish_Numbers.thy ===== *)
theory Redfish_Numbers
  imports Redfish_Record
begin

text \<open>
  Facts about the strings and numbers of the redfish service: \<open>to_string\<close> and \<open>stoi\<close>, the parts of a
  member's URI, and the search for a free number, with exactly when it ends.
\<close>

section \<open>Decimal numbers\<close>

lemma digit_chars_nth: "i < 10 \<Longrightarrow> digit_chars ! i \<in> set digit_chars"
  by (rule nth_mem) (simp add: digit_chars_def)

lemma digit_value_nth: "i < 10 \<Longrightarrow> digit_value (digit_chars ! i) = i"
proof -
  assume "i < 10"
  then have "i \<in> {0, 1, 2, 3, 4, 5, 6, 7, 8, 9}" by auto
  then show ?thesis by (auto simp: digit_chars_def digit_value_def)
qed

lemma to_string_digits: "set (to_string n) \<subseteq> set digit_chars"
proof (induction n rule: to_string.induct)
  case (1 n)
  then show ?case by (cases "n < 10") (simp_all add: to_string.simps [of n] digit_chars_nth)
qed

lemma to_string_nonempty [simp]: "to_string n \<noteq> []"
  by (simp add: to_string.simps [of n])

lemma to_string_no_slash [simp]: "CHR ''/'' \<notin> set (to_string n)"
  using to_string_digits [of n] by (auto simp: digit_chars_def)

lemma digits_value_snoc: "digits_value (s @ [c]) = 10 * digits_value s + digit_value c"
  by (simp add: digits_value_def)

lemma digits_value_to_string [simp]: "digits_value (to_string n) = n"
proof (induction n rule: to_string.induct)
  case (1 n)
  show ?case
  proof (cases "n < 10")
    case True
    then show ?thesis using digit_value_nth [OF True]
      by (simp add: to_string.simps [of n] digits_value_def)
  next
    case False
    then show ?thesis using 1 digit_value_nth [of "n mod 10"]
      by (simp add: to_string.simps [of n] digits_value_snoc)
  qed
qed

lemma to_string_inject [simp]: "to_string m = to_string n \<longleftrightarrow> m = n"
  by (metis digits_value_to_string)

lemma digit_not_space: "c \<in> set digit_chars \<Longrightarrow> \<not> is_space c \<and> c \<noteq> CHR ''-'' \<and> c \<noteq> CHR ''+''"
  by (auto simp: digit_chars_def is_space_def)

lemma stoi_to_string: "stoi (to_string n) = (if n \<le> 2147483647 then Ret (int n) else Fail 2)"
proof -
  have dig: "\<forall>c \<in> set (to_string n). c \<in> set digit_chars" using to_string_digits [of n] by blast
  then have d: "dropWhile is_space (to_string n) = to_string n"
    using digit_not_space hd_in_set [of "to_string n"] by (cases "to_string n") auto
  have h: "hd (to_string n) \<noteq> CHR ''-''" "hd (to_string n) \<noteq> CHR ''+''"
    using dig hd_in_set [of "to_string n"] digit_not_space by auto
  have t: "takeWhile (\<lambda>c. c \<in> set digit_chars) (to_string n) = to_string n"
    using dig by (simp add: takeWhile_eq_all_conv)
  show ?thesis by (simp add: stoi_def Let_def d h t)
qed

lemma isNumber_to_string: "isNumber (to_string n)"
  using to_string_digits [of n] by (auto simp: isNumber_def list_all_iff)

section \<open>The parts of a URI\<close>

lemma takeWhile_no: "d \<notin> set t \<Longrightarrow> takeWhile (\<lambda>c. c \<noteq> d) (t @ d # r) = t"
  by (induction t) auto

lemma dropWhile_no: "d \<notin> set t \<Longrightarrow> dropWhile (\<lambda>c. c \<noteq> d) (t @ d # r) = d # r"
  by (induction t) auto

lemma current_object_name [simp]: "d \<notin> set i \<Longrightarrow> get_current_object_name (p @ d # i) d = i"
  using takeWhile_no [of d "rev i" "rev p"] by (simp add: get_current_object_name_def)

lemma parent_object_uri [simp]: "d \<notin> set i \<Longrightarrow> get_parent_object_uri (p @ d # i) d = p"
  using dropWhile_no [of d "rev i" "rev p"] by (simp add: get_parent_object_uri_def)

lemma member_uri_name [simp]:
  "CHR ''/'' \<notin> set i \<Longrightarrow> get_current_object_name (member_uri k i) CHR ''/'' = i"
  using current_object_name [of "CHR ''/''" i "coll_uri k"] by (simp add: member_uri_def)

lemma member_uri_parent [simp]:
  "CHR ''/'' \<notin> set i \<Longrightarrow> get_parent_object_uri (member_uri k i) CHR ''/'' = coll_uri k"
  using parent_object_uri [of "CHR ''/''" i "coll_uri k"] by (simp add: member_uri_def)

lemma split_token:
  "d \<notin> set t \<Longrightarrow> string_split (t @ d # r) d = (if t = [] then string_split r d else t # string_split r d)"
  by (subst string_split.simps) (simp add: takeWhile_no dropWhile_no)

lemma split_last: "d \<notin> set t \<Longrightarrow> string_split t d = (if t = [] then [] else [t])"
  by (subst string_split.simps) simp

lemma split_literals:
  "string_split (CHR ''/'' # r) CHR ''/'' = string_split r CHR ''/''"
  "string_split (''redfish/'' @ r) CHR ''/'' = ''redfish'' # string_split r CHR ''/''"
  "string_split (''v1/'' @ r) CHR ''/'' = ''v1'' # string_split r CHR ''/''"
  "string_split (''AccountService/'' @ r) CHR ''/'' = ''AccountService'' # string_split r CHR ''/''"
  "string_split (''SessionService/'' @ r) CHR ''/'' = ''SessionService'' # string_split r CHR ''/''"
  "string_split (''EventService/'' @ r) CHR ''/'' = ''EventService'' # string_split r CHR ''/''"
  "string_split (''TaskService/'' @ r) CHR ''/'' = ''TaskService'' # string_split r CHR ''/''"
  using split_token [of "CHR ''/''" "[]" r] split_token [of "CHR ''/''" "''redfish''" r]
    split_token [of "CHR ''/''" "''v1''" r] split_token [of "CHR ''/''" "''AccountService''" r]
    split_token [of "CHR ''/''" "''SessionService''" r] split_token [of "CHR ''/''" "''EventService''" r]
    split_token [of "CHR ''/''" "''TaskService''" r]
  by simp_all

lemma uri_part_prefix:
  assumes "p \<in> {''AccountService'', ''SessionService'', ''EventService'', ''TaskService''}"
  shows "uri_part (''/redfish/v1/'' @ p @ ''/'' @ r) = ''/redfish/v1/'' @ p"
  using assms split_literals(1) [of "''redfish/v1/'' @ p @ ''/'' @ r"]
    split_literals(2) [of "''v1/'' @ p @ ''/'' @ r"] split_literals(3) [of "p @ ''/'' @ r"]
    split_literals(4-7) [of r]
  by (auto simp: uri_part_def)

lemma uri_part_member:
  "uri_part (member_uri ALLOCATE_ACCOUNT_NUM i) = ODATA_ACCOUNT_SERVICE_ID"
  "uri_part (member_uri ALLOCATE_SESSION_NUM i) = ODATA_SESSION_SERVICE_ID"
  "uri_part (member_uri ALLOCATE_SUBSCRIPTION_NUM i) = ODATA_EVENT_SERVICE_ID"
  "uri_part (coll_uri ALLOCATE_SESSION_NUM) = ODATA_SESSION_SERVICE_ID"
  "uri_part (ODATA_ROLE_ID @ ''/'' @ i) = ODATA_ACCOUNT_SERVICE_ID"
  using uri_part_prefix [of "''AccountService''" "''Accounts/'' @ i"]
    uri_part_prefix [of "''SessionService''" "''Sessions/'' @ i"]
    uri_part_prefix [of "''EventService''" "''Subscriptions/'' @ i"]
    uri_part_prefix [of "''SessionService''" "''Sessions''"]
    uri_part_prefix [of "''AccountService''" "''Roles/'' @ i"]
  by (simp_all add: member_uri_def ODATA_ACCOUNT_SERVICE_ID_def ODATA_SESSION_SERVICE_ID_def
      ODATA_EVENT_SERVICE_ID_def ODATA_ROLE_ID_def)

section \<open>Free numbers\<close>

lemma allocate_loop_free: "i \<noteq> UINT_MAX \<Longrightarrow> i \<notin> used \<Longrightarrow> allocate_loop i used = Some i"
  by (subst allocate_loop.simps) simp

lemma allocate_loop_used: "i \<noteq> UINT_MAX \<Longrightarrow> i \<in> used \<Longrightarrow> allocate_loop i used = allocate_loop (i + 1) used"
  by (subst allocate_loop.simps) simp

lemma allocate_loop_wrap: "allocate_loop UINT_MAX used = allocate_loop 1 used"
  by (subst allocate_loop.simps) simp

lemma allocate_loop_sound:
  assumes "allocate_loop i used = Some r"
  shows "i \<le> UINT_MAX \<longrightarrow> r < UINT_MAX \<and> r \<notin> used \<and> (i \<le> r \<or> 1 \<le> r)"
  by (rule allocate_loop.raw_induct [OF _ assms])
    (auto split: if_splits, (fastforce simp: UINT_MAX_def)+)

lemma allocate_loop_up:
  "i \<le> j \<Longrightarrow> j < UINT_MAX \<Longrightarrow> j \<notin> used \<Longrightarrow> \<exists>r. allocate_loop i used = Some r"
proof (induction "j - i" arbitrary: i)
  case 0
  then show ?case using allocate_loop_free [of i used] by auto
next
  case (Suc d)
  show ?case
  proof (cases "i \<in> used")
    case True
    then show ?thesis using Suc allocate_loop_used [of i used] Suc(1) [of "i + 1"] by auto
  qed (use Suc allocate_loop_free [of i used] in auto)
qed

lemma allocate_loop_round:
  "i \<le> UINT_MAX \<Longrightarrow> allocate_loop 1 used = Some r \<Longrightarrow> \<exists>r. allocate_loop i used = Some r"
proof (induction "UINT_MAX - i" arbitrary: i)
  case 0
  then show ?case using allocate_loop_wrap [of used] by auto
next
  case (Suc d)
  show ?case
  proof (cases "i \<in> used")
    case True
    then show ?thesis using Suc allocate_loop_used [of i used] Suc(1) [of "i + 1"] by auto
  qed (use Suc allocate_loop_free [of i used] in auto)
qed

lemma allocate_loop_ends_iff:
  assumes "i \<le> UINT_MAX"
  shows "(\<exists>r. allocate_loop i used = Some r) \<longleftrightarrow> (\<exists>j < UINT_MAX. (i \<le> j \<or> 1 \<le> j) \<and> j \<notin> used)"
proof
  assume "\<exists>r. allocate_loop i used = Some r"
  then show "\<exists>j < UINT_MAX. (i \<le> j \<or> 1 \<le> j) \<and> j \<notin> used"
    using allocate_loop_sound assms by blast
next
  assume "\<exists>j < UINT_MAX. (i \<le> j \<or> 1 \<le> j) \<and> j \<notin> used"
  then obtain j where j: "j < UINT_MAX" "i \<le> j \<or> 1 \<le> j" "j \<notin> used" by blast
  then show "\<exists>r. allocate_loop i used = Some r"
    using allocate_loop_up [of i j used] allocate_loop_up [of 1 j used]
      allocate_loop_round [OF assms, of used] by blast
qed

lemma allocate_numset_num_Some:
  assumes "allocate_numset_num k ns = Some (n, ns')" and "numset_num ns k \<le> UINT_MAX"
  shows "n < UINT_MAX \<and> n \<notin> numset ns k \<and> numset ns' = (numset ns)(k := insert n (numset ns k))
    \<and> numset_num ns' = (numset_num ns)(k := n)"
  using assms allocate_loop_sound [of "numset_num ns k" "numset ns k"]
  by (auto simp: allocate_numset_num_def split: option.splits)

text \<open>C32. The search for a free number ends exactly when a number below \<open>UINT_MAX\<close> other than 0 is free, or
  0 is free and the search starts there: the wrap-around skips 0. With all of them in use the request
  handler never returns.\<close>

theorem allocate_ends_iff:
  assumes "numset_num ns k \<le> UINT_MAX"
  shows "(\<exists>r. allocate_numset_num k ns = Some r)
    \<longleftrightarrow> (\<exists>j < UINT_MAX. (j \<noteq> 0 \<or> numset_num ns k = 0) \<and> j \<notin> numset ns k)"
proof -
  have "(\<exists>r. allocate_numset_num k ns = Some r)
      \<longleftrightarrow> (\<exists>r. allocate_loop (numset_num ns k) (numset ns k) = Some r)"
    by (auto simp: allocate_numset_num_def split: option.splits)
  also have "\<dots> \<longleftrightarrow> (\<exists>j < UINT_MAX. (numset_num ns k \<le> j \<or> 1 \<le> j) \<and> j \<notin> numset ns k)"
    by (rule allocate_loop_ends_iff [OF assms])
  also have "\<dots> \<longleftrightarrow> (\<exists>j < UINT_MAX. (j \<noteq> 0 \<or> numset_num ns k = 0) \<and> j \<notin> numset ns k)"
    by (metis le_zero_eq less_one linorder_not_le zero_le)
  finally show ?thesis .
qed

lemma allocate_ends_iff_witness:
  "(\<exists>r. allocate_numset_num ALLOCATE_TASK_NUM (insert_numset_num ALLOCATE_TASK_NUM 1 init_numset) = Some r)
    \<and> allocate_numset_num ALLOCATE_TASK_NUM
        \<lparr>numset = (\<lambda>_. {1..<UINT_MAX}), numset_num = (\<lambda>_. 1)\<rparr> = None"
proof
  have "(\<exists>r. allocate_numset_num ALLOCATE_TASK_NUM (insert_numset_num ALLOCATE_TASK_NUM 1 init_numset) = Some r)
    \<longleftrightarrow> (\<exists>j < UINT_MAX. (j \<noteq> 0 \<or> (1::nat) = 0) \<and> j \<notin> {1})"
    using allocate_ends_iff [of "insert_numset_num ALLOCATE_TASK_NUM 1 init_numset" ALLOCATE_TASK_NUM]
    by (simp add: insert_numset_num_def init_numset_def UINT_MAX_def)
  then show "\<exists>r. allocate_numset_num ALLOCATE_TASK_NUM (insert_numset_num ALLOCATE_TASK_NUM 1 init_numset) = Some r"
    by (auto simp: UINT_MAX_def intro!: exI [of _ 2])
  show "allocate_numset_num ALLOCATE_TASK_NUM
        \<lparr>numset = (\<lambda>_. {1..<UINT_MAX}), numset_num = (\<lambda>_. 1)\<rparr> = None"
    using allocate_ends_iff [of "\<lparr>numset = (\<lambda>_. {1..<UINT_MAX}), numset_num = (\<lambda>_. 1)\<rparr>" ALLOCATE_TASK_NUM]
    by (auto simp: UINT_MAX_def)
qed

end
