(* ===== verification/Redfish_Facts.thy ===== *)
theory Redfish_Facts
  imports Redfish_Http Redfish_Numbers
begin

text \<open>
  The well-formedness of the redfish record, \<open>rf_inv\<close>: the record and the heap agree, the members of
  a collection are the objects of its class, each under a number in use, and role pointers lead to
  roles. The four ways handlers change the record (saving, changing an object, creating a numbered
  one, deleting one) keep it.
\<close>

section \<open>Well-formedness\<close>

fun obj_kind :: "robj \<Rightarrow> allocate_num option" where
  "obj_kind (OAccount x) = Some ALLOCATE_ACCOUNT_NUM"
| "obj_kind (OSession x) = Some ALLOCATE_SESSION_NUM"
| "obj_kind (OTask x) = Some ALLOCATE_TASK_NUM"
| "obj_kind (ODest x) = Some ALLOCATE_SUBSCRIPTION_NUM"
| "obj_kind (ORole x) = None"

fun obj_id :: "robj \<Rightarrow> string" where
  "obj_id (OAccount x) = ra_id x"
| "obj_id (ORole x) = rr_id x"
| "obj_id (OSession x) = rs_id x"
| "obj_id (OTask x) = rt_id x"
| "obj_id (ODest x) = rd_id x"

text \<open>An object of a class under a number.\<close>

definition numbered :: "allocate_num \<Rightarrow> nat \<Rightarrow> robj \<Rightarrow> bool" where
  "numbered k n x \<longleftrightarrow> obj_kind x = Some k \<and> obj_id x = to_string n \<and> obj_odata x = member_uri k (to_string n)"

definition role_ok :: "(nat \<Rightarrow> robj option) \<Rightarrow> robj \<Rightarrow> bool" where
  "role_ok h x = (case x of
     OAccount y \<Rightarrow> (case ra_role y of None \<Rightarrow> True | Some r \<Rightarrow> (\<exists>ro. h r = Some (ORole ro)))
   | ORole y \<Rightarrow> rr_odata y = ODATA_ROLE_ID @ ''/'' @ rr_id y
   | _ \<Rightarrow> True)"

text \<open>URIs of the resources that are not objects of the heap.\<close>

definition static_uri :: "string \<Rightarrow> bool" where
  "static_uri u \<longleftrightarrow> fixed_resources u \<noteq> None
     \<or> (\<exists>n. u = member_uri ALLOCATE_ACCOUNT_NUM (to_string n) @ ''/Certificates'')"

definition heap_ok :: "rf \<Rightarrow> bool" where
  "heap_ok s \<longleftrightarrow> (\<forall>a x. rf_heap s a = Some x \<longrightarrow>
     a < rf_next s \<and> rf_rec s (obj_odata x) = Some (Obj a) \<and> role_ok (rf_heap s) x
     \<and> (\<forall>k. obj_kind x = Some k \<longrightarrow> (\<exists>n \<in> numset (rf_numbers s) k. numbered k n x)))"

definition rec_ok :: "rf \<Rightarrow> bool" where
  "rec_ok s \<longleftrightarrow> (\<forall>u a. rf_rec s u = Some (Obj a) \<longrightarrow> (\<exists>x. rf_heap s a = Some x \<and> obj_odata x = u))
   \<and> (\<forall>u p. rf_rec s u = Some p \<longrightarrow> (\<forall>a. p \<noteq> Obj a) \<longrightarrow> static_uri u)
   \<and> (\<forall>u p. fixed_resources u = Some p \<longrightarrow> rf_rec s u = Some p)"

definition members_ok :: "rf \<Rightarrow> bool" where
  "members_ok s \<longleftrightarrow> (\<forall>k. distinct (rf_members s k)
     \<and> (\<forall>a. a \<in> set (rf_members s k) \<longleftrightarrow> (\<exists>x. rf_heap s a = Some x \<and> obj_kind x = Some k)))
   \<and> (\<forall>a \<in> set (rf_roles s). \<exists>y. rf_heap s a = Some (ORole y))"

definition numbers_ok :: "numbers \<Rightarrow> bool" where
  "numbers_ok ns \<longleftrightarrow> (\<forall>k. numset_num ns k \<le> UINT_MAX \<and> (\<forall>n \<in> numset ns k. n < UINT_MAX))"

definition rf_inv :: "rf \<Rightarrow> bool" where
  "rf_inv s \<longleftrightarrow> heap_ok s \<and> rec_ok s \<and> members_ok s \<and> numbers_ok (rf_numbers s) \<and> length (rf_ipmi s) = 10"

lemmas rf_inv_defs = rf_inv_def heap_ok_def rec_ok_def members_ok_def

text \<open>The fields the invariant does not look at.\<close>

lemma rf_inv_frame [simp]:
  "rf_inv (s\<lparr>rf_disk := d\<rparr>) = rf_inv s" "rf_inv (s\<lparr>rf_asvc := v\<rparr>) = rf_inv s"
  "rf_inv (s\<lparr>rf_ssvc := w\<rparr>) = rf_inv s" "rf_inv (s\<lparr>rf_esvc := e\<rparr>) = rf_inv s"
  by (simp_all add: rf_inv_defs)

lemma rf_inv_ipmi: "length us = 10 \<Longrightarrow> rf_inv s \<Longrightarrow> rf_inv (s\<lparr>rf_ipmi := us\<rparr>)"
  by (simp add: rf_inv_defs)

section \<open>URIs do not clash\<close>

lemma ex_coll_uri: "k \<in> {ALLOCATE_ACCOUNT_NUM, ALLOCATE_SESSION_NUM, ALLOCATE_TASK_NUM, ALLOCATE_SUBSCRIPTION_NUM}
  \<Longrightarrow> j \<in> {ALLOCATE_ACCOUNT_NUM, ALLOCATE_SESSION_NUM, ALLOCATE_TASK_NUM, ALLOCATE_SUBSCRIPTION_NUM}
  \<Longrightarrow> member_uri k u = member_uri j v \<longleftrightarrow> k = j \<and> u = v"
  by (auto simp: member_uri_def)

lemma obj_kind_class: "obj_kind x = Some k \<Longrightarrow>
  k \<in> {ALLOCATE_ACCOUNT_NUM, ALLOCATE_SESSION_NUM, ALLOCATE_TASK_NUM, ALLOCATE_SUBSCRIPTION_NUM}"
  by (cases x) auto

lemma role_uri_not_member:
  "k \<in> {ALLOCATE_ACCOUNT_NUM, ALLOCATE_SESSION_NUM, ALLOCATE_TASK_NUM, ALLOCATE_SUBSCRIPTION_NUM}
    \<Longrightarrow> ODATA_ROLE_ID @ ''/'' @ i \<noteq> member_uri k j"
  by (auto simp: member_uri_def ODATA_ROLE_ID_def)

lemma fixed_dom: "fixed_resources u = Some p \<Longrightarrow> u \<in>
   {''/redfish/v1/AccountService'', ''/redfish/v1/SessionService'', ''/redfish/v1/EventService'',
    ''/redfish/v1/AccountService/Roles'', ''/redfish/v1/TaskService/Tasks'',
    ''/redfish/v1/AccountService/Accounts'', ''/redfish/v1/SessionService/Sessions'',
    ''/redfish/v1/EventService/Subscriptions'', ''/redfish/v1'', ''/redfish/v1/Systems'',
    ''/redfish/v1/Chassis'', ''/redfish/v1/Managers'', ''/redfish/v1/TaskService'',
    ''/redfish/v1/UpdateService''}"
  by (auto simp: ODATA_ACCOUNT_SERVICE_ID_def ODATA_SESSION_SERVICE_ID_def ODATA_EVENT_SERVICE_ID_def
      ODATA_ROLE_ID_def fixed_resources_def split: if_splits)

lemma fixed_not_member:
  assumes "k \<in> {ALLOCATE_ACCOUNT_NUM, ALLOCATE_SESSION_NUM, ALLOCATE_TASK_NUM, ALLOCATE_SUBSCRIPTION_NUM}"
  shows "fixed_resources (member_uri k i) = None"
proof (rule ccontr)
  assume "fixed_resources (member_uri k i) \<noteq> None"
  then obtain p where "fixed_resources (member_uri k i) = Some p" by blast
  from fixed_dom [OF this] assms show False by (auto simp: member_uri_def)
qed

lemma static_not_member:
  assumes "k \<in> {ALLOCATE_ACCOUNT_NUM, ALLOCATE_SESSION_NUM, ALLOCATE_TASK_NUM, ALLOCATE_SUBSCRIPTION_NUM}"
    and "CHR ''/'' \<notin> set i"
  shows "\<not> static_uri (member_uri k i)"
proof
  assume "static_uri (member_uri k i)"
  then obtain n where n: "member_uri k i = member_uri ALLOCATE_ACCOUNT_NUM (to_string n) @ ''/Certificates''"
    using fixed_not_member [OF assms(1)] by (auto simp: static_uri_def)
  have "member_uri ALLOCATE_ACCOUNT_NUM (to_string n) @ ''/Certificates''
      = member_uri ALLOCATE_ACCOUNT_NUM (to_string n @ ''/Certificates'')"
    by (simp add: member_uri_def)
  with n have "i = to_string n @ ''/Certificates''" using ex_coll_uri [OF assms(1)] by simp
  with assms(2) show False by simp
qed

lemma static_not_role: "\<not> static_uri (ODATA_ROLE_ID @ ''/'' @ i)"
proof
  assume a: "static_uri (ODATA_ROLE_ID @ ''/'' @ i)"
  have "fixed_resources (ODATA_ROLE_ID @ ''/'' @ i) = None"
  proof (rule ccontr)
    assume "fixed_resources (ODATA_ROLE_ID @ ''/'' @ i) \<noteq> None"
    then obtain p where "fixed_resources (ODATA_ROLE_ID @ ''/'' @ i) = Some p" by blast
    from fixed_dom [OF this] show False by (auto simp: ODATA_ROLE_ID_def)
  qed
  with a show False by (auto simp: static_uri_def member_uri_def ODATA_ROLE_ID_def)
qed

section \<open>What the invariant says of an address or URI\<close>

lemma inv_heap:
  assumes "rf_inv s" and "rf_heap s a = Some x"
  shows "a < rf_next s" "rf_rec s (obj_odata x) = Some (Obj a)" "role_ok (rf_heap s) x"
    "obj_kind x = Some k \<Longrightarrow> \<exists>n \<in> numset (rf_numbers s) k. n < UINT_MAX \<and> numbered k n x"
proof -
  show "a < rf_next s" "rf_rec s (obj_odata x) = Some (Obj a)" "role_ok (rf_heap s) x"
    using assms by (simp_all add: rf_inv_def heap_ok_def)
  show "obj_kind x = Some k \<Longrightarrow> \<exists>n \<in> numset (rf_numbers s) k. n < UINT_MAX \<and> numbered k n x"
    using assms by (fastforce simp: rf_inv_def heap_ok_def numbers_ok_def)
qed

lemma inv_rec: "rf_inv s \<Longrightarrow> rf_rec s u = Some (Obj a) \<Longrightarrow> \<exists>x. rf_heap s a = Some x \<and> obj_odata x = u"
  by (simp add: rf_inv_def rec_ok_def)

lemma inv_fixed: "rf_inv s \<Longrightarrow> fixed_resources u = Some p \<Longrightarrow> rf_rec s u = Some p"
  by (simp add: rf_inv_def rec_ok_def)

lemma inv_static: "rf_inv s \<Longrightarrow> rf_rec s u = Some p \<Longrightarrow> \<not> static_uri u \<Longrightarrow> \<exists>a x. p = Obj a \<and> rf_heap s a = Some x \<and> obj_odata x = u"
  by (cases p) (auto simp: rf_inv_def rec_ok_def)

lemma inv_members:
  "rf_inv s \<Longrightarrow> a \<in> set (rf_members s k) \<longleftrightarrow> (\<exists>x. rf_heap s a = Some x \<and> obj_kind x = Some k)"
  "rf_inv s \<Longrightarrow> distinct (rf_members s k)"
  by (simp_all add: rf_inv_def members_ok_def)

lemma inv_numbers: "rf_inv s \<Longrightarrow> numset_num (rf_numbers s) k \<le> UINT_MAX"
  by (simp add: rf_inv_def numbers_ok_def)

lemma kind_account: "obj_kind x = Some ALLOCATE_ACCOUNT_NUM \<longleftrightarrow> (\<exists>y. x = OAccount y)"
  and kind_session: "obj_kind x = Some ALLOCATE_SESSION_NUM \<longleftrightarrow> (\<exists>y. x = OSession y)"
  and kind_task: "obj_kind x = Some ALLOCATE_TASK_NUM \<longleftrightarrow> (\<exists>y. x = OTask y)"
  and kind_dest: "obj_kind x = Some ALLOCATE_SUBSCRIPTION_NUM \<longleftrightarrow> (\<exists>y. x = ODest y)"
  by (cases x; simp)+

lemma at_iff:
  "account_at s a = Some x \<longleftrightarrow> rf_heap s a = Some (OAccount x)"
  "role_at s a = Some r \<longleftrightarrow> rf_heap s a = Some (ORole r)"
  "session_at s a = Some y \<longleftrightarrow> rf_heap s a = Some (OSession y)"
  "task_at s a = Some t \<longleftrightarrow> rf_heap s a = Some (OTask t)"
  "dest_at s a = Some d \<longleftrightarrow> rf_heap s a = Some (ODest d)"
  by (auto simp: at_defs split: option.splits robj.splits)

lemma lookup_iff: "lookup s u = Some a \<longleftrightarrow> rf_rec s u = Some (Obj a)"
  by (auto simp: lookup_def split: option.splits rptr.splits)

text \<open>A URI in the form of a member's is one of a member, and one under the roles is a role's.\<close>

lemma inv_member_uri:
  assumes "rf_inv s" and "rf_rec s (member_uri k (to_string n)) = Some p"
    and "k \<in> {ALLOCATE_ACCOUNT_NUM, ALLOCATE_SESSION_NUM, ALLOCATE_TASK_NUM, ALLOCATE_SUBSCRIPTION_NUM}"
  shows "n \<in> numset (rf_numbers s) k \<and> (\<exists>a x. p = Obj a \<and> rf_heap s a = Some x \<and> numbered k n x)"
proof -
  obtain a x where p: "p = Obj a" and x: "rf_heap s a = Some x" "obj_odata x = member_uri k (to_string n)"
    using inv_static [OF assms(1,2) static_not_member [OF assms(3)]] by auto
  obtain j where j: "obj_kind x = Some j"
    using x(2) inv_heap(3) [OF assms(1) x(1)] role_uri_not_member [OF assms(3)]
    by (cases x) (auto simp: role_ok_def dest: sym)
  obtain m where m: "m \<in> numset (rf_numbers s) j" "numbered j m x"
    using inv_heap(4) [OF assms(1) x(1) j] by blast
  then have "member_uri j (to_string m) = member_uri k (to_string n)" using x(2) by (simp add: numbered_def)
  then have "j = k" "m = n" using ex_coll_uri [OF obj_kind_class [OF j] assms(3)] by auto
  then show ?thesis using p x m by blast
qed

lemma inv_role_uri:
  assumes "rf_inv s" and "rf_rec s (ODATA_ROLE_ID @ ''/'' @ i) = Some p"
  shows "\<exists>a y. p = Obj a \<and> rf_heap s a = Some (ORole y) \<and> rr_id y = i"
proof -
  obtain a x where p: "p = Obj a" and x: "rf_heap s a = Some x" "obj_odata x = ODATA_ROLE_ID @ ''/'' @ i"
    using inv_static [OF assms static_not_role] by auto
  have "obj_kind x = None"
  proof (rule ccontr)
    assume "obj_kind x \<noteq> None"
    then obtain j where j: "obj_kind x = Some j" by blast
    then obtain m where "numbered j m x" using inv_heap(4) [OF assms(1) x(1)] by blast
    then show False using x(2) role_uri_not_member [OF obj_kind_class [OF j]] by (simp add: numbered_def)
  qed
  then show ?thesis using p x inv_heap(3) [OF assms(1) x(1)]
    by (cases x) (auto simp: role_ok_def)
qed

section \<open>The changes\<close>

lemma role_ok_put:
  "role_ok h z \<Longrightarrow> h a = Some x \<Longrightarrow> obj_kind y = obj_kind x \<Longrightarrow> role_ok (h(a := Some y)) z"
  by (cases z; cases y; cases x) (auto simp: role_ok_def split: option.splits)

lemma put_object_inv:
  assumes inv: "rf_inv s" and a: "rf_heap s a = Some x"
    and y: "obj_kind y = obj_kind x" "obj_id y = obj_id x" "obj_odata y = obj_odata x"
    and r: "role_ok (rf_heap s) y"
  shows "rf_inv (put_object a y s)"
proof -
  have h: "heap_ok (put_object a y s)"
    using inv a y role_ok_put [of "rf_heap s" _ a x y] r
    by (auto simp: rf_inv_def heap_ok_def put_object_def numbered_def)
  have c: "rec_ok (put_object a y s)"
    using inv a y by (auto simp: rf_inv_def rec_ok_def put_object_def) fastforce+
  have "obj_kind x = None \<longleftrightarrow> (\<exists>z. x = ORole z)" "obj_kind y = None \<longleftrightarrow> (\<exists>z. y = ORole z)"
    by (cases x; cases y; simp)+
  then have "members_ok (put_object a y s)"
    using inv a y(1) by (auto simp: rf_inv_def members_ok_def put_object_def) fastforce+
  with h c inv show ?thesis by (simp add: rf_inv_def put_object_def)
qed

lemma allocate_in_Done:
  assumes "allocate_in k s = Done (n, s1)" and "rf_inv s"
  shows "n < UINT_MAX \<and> n \<notin> numset (rf_numbers s) k
    \<and> (\<exists>ns. s1 = s\<lparr>rf_numbers := ns\<rparr> \<and> numset ns = (numset (rf_numbers s))(k := insert n (numset (rf_numbers s) k))
      \<and> numbers_ok ns)"
proof -
  obtain ns where ns: "allocate_numset_num k (rf_numbers s) = Some (n, ns)" "s1 = s\<lparr>rf_numbers := ns\<rparr>"
    using assms(1) by (auto simp: allocate_in_def split: option.splits)
  have o: "numbers_ok (rf_numbers s)" using assms(2) by (simp add: rf_inv_def)
  show ?thesis
    using allocate_numset_num_Some [OF ns(1) inv_numbers [OF assms(2)]] ns(2) o
    by (auto simp: numbers_ok_def intro!: exI [of _ ns] split: if_splits)
qed

lemma role_ok_new:
  "role_ok h z \<Longrightarrow> h a = None \<Longrightarrow> role_ok (h(a := y)) z"
  by (cases z) (auto simp: role_ok_def split: option.splits)

text \<open>Creating a numbered object.\<close>

lemma create_inv:
  assumes inv: "rf_inv s" and al: "allocate_in k s = Done (n, s1)"
    and x: "numbered k n x" and r: "role_ok (rf_heap s) x" and new: "new_object x s1 = (a, s2)"
  shows "rf_inv (add_member k a s2) \<and> rf_heap (add_member k a s2) = (rf_heap s)(a := Some x)
    \<and> a = rf_next s \<and> rf_heap s a = None \<and> rf_rec s (obj_odata x) = None
    \<and> rf_rec (add_member k a s2) = (rf_rec s)(obj_odata x := Some (Obj a))
    \<and> rf_members (add_member k a s2) = (rf_members s)(k := rf_members s k @ [a])"
proof -
  obtain ns where n: "n < UINT_MAX" "n \<notin> numset (rf_numbers s) k" and s1: "s1 = s\<lparr>rf_numbers := ns\<rparr>"
    and ns: "numset ns = (numset (rf_numbers s))(k := insert n (numset (rf_numbers s) k))" "numbers_ok ns"
    using allocate_in_Done [OF al inv] by blast
  have k: "obj_kind x = Some k" "obj_odata x = member_uri k (to_string n)" using x by (auto simp: numbered_def)
  have free: "rf_rec s (obj_odata x) = None"
    using inv_member_uri [OF inv _ obj_kind_class [OF k(1)], of n] n(2) k(2) by (cases "rf_rec s (obj_odata x)") auto
  have none: "rf_heap s (rf_next s) = None"
    using inv_heap(1) [OF inv, of "rf_next s"] by (cases "rf_heap s (rf_next s)") auto
  have a: "a = rf_next s" and s2: "s2 = s1\<lparr>rf_heap := (rf_heap s)(a := Some x), rf_next := a + 1,
       rf_rec := (rf_rec s)(obj_odata x := Some (Obj a))\<rparr>"
    using new s1 by (auto simp: new_object_def)
  let ?t = "add_member k a s2"
  have fs: "rf_heap ?t = (rf_heap s)(a := Some x)" "rf_rec ?t = (rf_rec s)(obj_odata x := Some (Obj a))"
    "rf_members ?t = (rf_members s)(k := rf_members s k @ [a])" "rf_next ?t = a + 1" "rf_numbers ?t = ns"
    "rf_roles ?t = rf_roles s" "rf_ipmi ?t = rf_ipmi s"
    by (simp_all add: add_member_def s2 s1)
  have "heap_ok ?t"
    unfolding heap_ok_def fs
  proof (intro allI impI)
    fix b y assume b: "((rf_heap s)(a := Some x)) b = Some y"
    show "b < a + 1 \<and> ((rf_rec s)(obj_odata x := Some (Obj a))) (obj_odata y) = Some (Obj b)
      \<and> role_ok ((rf_heap s)(a := Some x)) y \<and> (\<forall>j. obj_kind y = Some j \<longrightarrow> (\<exists>m \<in> numset ns j. numbered j m y))"
    proof (cases "b = a")
      case True
      then show ?thesis using b x k role_ok_new [OF r none, of "Some x"] ns a by auto
    next
      case False
      then have y: "rf_heap s b = Some y" using b by simp
      have "obj_odata y \<noteq> obj_odata x" using inv_heap(2) [OF inv y] free by auto
      moreover have "\<forall>j. obj_kind y = Some j \<longrightarrow> (\<exists>m \<in> numset ns j. numbered j m y)"
        using inv_heap(4) [OF inv y] ns(1) by fastforce
      ultimately show ?thesis
        using inv_heap(1-3) [OF inv y] role_ok_new [OF inv_heap(3) [OF inv y] none, of "Some x"] a by auto
    qed
  qed
  moreover have "rec_ok ?t"
    unfolding rec_ok_def fs
    using inv free none a fixed_not_member [OF obj_kind_class [OF k(1)], of "to_string n"] k(2)
    by (auto simp: rf_inv_def rec_ok_def) fastforce+
  moreover have "members_ok ?t"
    unfolding members_ok_def fs
    using inv none a k(1) inv_members(1) [OF inv, of a]
    by (auto simp: rf_inv_def members_ok_def)
  ultimately show ?thesis
    using ns(2) inv fs free none a by (simp add: rf_inv_def)
qed

text \<open>Deleting a numbered object.\<close>

lemma role_ok_del: "role_ok h z \<Longrightarrow> h a = Some x \<Longrightarrow> obj_kind x = Some k \<Longrightarrow> role_ok (h(a := None)) z"
  by (cases z; cases x) (auto simp: role_ok_def split: option.splits)

definition removed :: "allocate_num \<Rightarrow> nat \<Rightarrow> nat \<Rightarrow> robj \<Rightarrow> rf \<Rightarrow> rf" where
  "removed k n a x s = erase_member k a ((release_in k n s)
     \<lparr>rf_rec := (rf_rec s)(obj_odata x := None), rf_heap := (rf_heap s)(a := None)\<rparr>)"

lemma removed_fields [simp]:
  "rf_heap (removed k n a x s) = (rf_heap s)(a := None)" "rf_next (removed k n a x s) = rf_next s"
  "rf_rec (removed k n a x s) = (rf_rec s)(obj_odata x := None)"
  "rf_members (removed k n a x s) = (rf_members s)(k := remove1 a (rf_members s k))"
  "rf_numbers (removed k n a x s) = delete_numset_num k n (rf_numbers s)"
  "rf_roles (removed k n a x s) = rf_roles s" "rf_ipmi (removed k n a x s) = rf_ipmi s"
  "rf_asvc (removed k n a x s) = rf_asvc s" "rf_ssvc (removed k n a x s) = rf_ssvc s"
  by (simp_all add: removed_def erase_member_def release_in_def)

lemma delete_removed:
  "delete_object a (release_in k n s) = Done t \<longleftrightarrow> (\<exists>x. rf_heap s a = Some x \<and> erase_member k a t = removed k n a x s
     \<and> t = (release_in k n s)\<lparr>rf_rec := (rf_rec s)(obj_odata x := None), rf_heap := (rf_heap s)(a := None)\<rparr>)"
  by (auto simp: delete_object_def rbind_Done deref_Done removed_def release_in_def)

lemma remove_inv:
  assumes inv: "rf_inv s" and a: "rf_heap s a = Some x" and x: "numbered k n x"
  shows "rf_inv (removed k n a x s)"
proof -
  have k: "obj_kind x = Some k" "obj_odata x = member_uri k (to_string n)" using x by (auto simp: numbered_def)
  have "heap_ok (removed k n a x s)"
    unfolding heap_ok_def removed_fields
  proof (intro allI impI)
    fix b y assume b: "((rf_heap s)(a := None)) b = Some y"
    then have y: "rf_heap s b = Some y" "b \<noteq> a" by (auto split: if_splits)
    have ne: "obj_odata y \<noteq> obj_odata x"
      using inv_heap(2) [OF inv y(1)] inv_heap(2) [OF inv a] y(2) by auto
    have "\<forall>j. obj_kind y = Some j \<longrightarrow> (\<exists>m \<in> numset (delete_numset_num k n (rf_numbers s)) j. numbered j m y)"
    proof (intro allI impI)
      fix j assume "obj_kind y = Some j"
      then obtain m where m: "m \<in> numset (rf_numbers s) j" "numbered j m y"
        using inv_heap(4) [OF inv y(1)] by blast
      then have "j = k \<longrightarrow> m \<noteq> n" using ne k(2) by (auto simp: numbered_def)
      then show "\<exists>m \<in> numset (delete_numset_num k n (rf_numbers s)) j. numbered j m y"
        using m by (intro bexI [of _ m]) (auto simp: delete_numset_num_def)
    qed
    then show "b < rf_next s \<and> ((rf_rec s)(obj_odata x := None)) (obj_odata y) = Some (Obj b)
      \<and> role_ok ((rf_heap s)(a := None)) y
      \<and> (\<forall>j. obj_kind y = Some j \<longrightarrow> (\<exists>m \<in> numset (delete_numset_num k n (rf_numbers s)) j. numbered j m y))"
      using inv_heap(1-3) [OF inv y(1)] ne role_ok_del [OF inv_heap(3) [OF inv y(1)] a k(1)] by simp
  qed
  moreover have "rec_ok (removed k n a x s)"
    using inv a inv_heap(2) [OF inv a] fixed_not_member [OF obj_kind_class [OF k(1)], of "to_string n"] k(2)
    by (auto simp: rf_inv_def rec_ok_def) fastforce+
  moreover have "members_ok (removed k n a x s)"
    using inv a k(1) by (auto simp: rf_inv_def members_ok_def) fastforce+
  moreover have "numbers_ok (delete_numset_num k n (rf_numbers s))"
    using inv by (auto simp: rf_inv_def numbers_ok_def delete_numset_num_def)
  ultimately show ?thesis using inv by (simp add: rf_inv_def)
qed

end
