(* ===== verification/Redfish_Steps.thy ===== *)
theory Redfish_Steps
  imports Redfish_Facts
begin

text \<open>
  Every event of the service is a sequence of primitive changes, \<open>rf_prim\<close>: writing files, changing
  an object without its class, id and URI, creating and deleting numbered objects, and setting the
  members of the users and services. A property that each primitive keeps therefore holds in every
  reachable state: the locale \<open>prim_invariant\<close>, interpreted for the well-formedness, the password
  policy and the tasks.
\<close>

section \<open>Primitive changes\<close>

text \<open>What a change leaves of an object: its class, id and URI, and the request a task keeps.\<close>

definition stable :: "robj \<Rightarrow> robj \<Rightarrow> bool" where
  "stable x y \<longleftrightarrow> obj_kind y = obj_kind x \<and> obj_id y = obj_id x \<and> obj_odata y = obj_odata x
     \<and> (\<forall>t. x = OTask t \<longrightarrow> (\<exists>u. y = OTask u \<and> rt_body u = rt_body t \<and> rt_headers u = rt_headers t
          \<and> rt_target u = rt_target t \<and> rt_operation u = rt_operation t))"

definition policy_ok :: "account_service \<Rightarrow> bool" where
  "policy_ok v \<longleftrightarrow> 1 \<le> as_min_password v \<and> as_min_password v \<le> as_max_password v"

inductive rf_prim :: "rf \<Rightarrow> rf \<Rightarrow> bool" where
  save: "rf_prim s (s\<lparr>rf_disk := d\<rparr>)"
| change: "rf_heap s a = Some x \<Longrightarrow> stable x y \<Longrightarrow> role_ok (rf_heap s) y \<Longrightarrow> rf_prim s (put_object a y s)"
| create: "allocate_in k s = Done (n, s1) \<Longrightarrow> numbered k n x \<Longrightarrow> role_ok (rf_heap s) x
    \<Longrightarrow> new_object x s1 = (a, s2) \<Longrightarrow> rf_prim s (add_member k a s2)"
| remove: "rf_heap s a = Some x \<Longrightarrow> numbered k n x \<Longrightarrow> k \<noteq> ALLOCATE_TASK_NUM \<Longrightarrow> rf_prim s (removed k n a x s)"
| users: "length us = length (rf_ipmi s) \<Longrightarrow> rf_prim s (s\<lparr>rf_ipmi := us\<rparr>)"
| accounts: "policy_ok (rf_asvc s) \<longrightarrow> policy_ok v \<Longrightarrow> rf_prim s (s\<lparr>rf_asvc := v\<rparr>)"
| sessions: "rf_prim s (s\<lparr>rf_ssvc := w\<rparr>)"
| events: "rf_prim s (s\<lparr>rf_esvc := e\<rparr>)"

abbreviation rf_prims :: "rf \<Rightarrow> rf \<Rightarrow> bool" where
  "rf_prims \<equiv> rf_prim\<^sup>*\<^sup>*"

lemma prim_inv: "rf_prim s s' \<Longrightarrow> rf_inv s \<Longrightarrow> rf_inv s'"
proof (induction rule: rf_prim.induct)
  case (change s a x y)
  then show ?case by (auto intro!: put_object_inv simp: stable_def)
next
  case (create k s n s1 x a s2)
  then show ?case using create_inv [of s k n s1 x a s2] by blast
next
  case (users us s)
  then show ?case by (simp add: rf_inv_ipmi rf_inv_def [of s])
qed (auto intro: remove_inv)

lemma prims_inv: "rf_prims s s' \<Longrightarrow> rf_inv s \<Longrightarrow> rf_inv s'"
  by (induction rule: rtranclp_induct) (auto intro: prim_inv)

text \<open>What the operations are shown to do: from a well-formed state, a sequence of primitives.\<close>

definition keeps :: "rf \<Rightarrow> rf \<Rightarrow> bool" where
  "keeps s s' \<longleftrightarrow> (rf_inv s \<longrightarrow> rf_prims s s')"

lemma keeps_refl [simp, intro]: "keeps s s"
  by (simp add: keeps_def)

lemma keeps_trans [trans]: "keeps s t \<Longrightarrow> keeps t u \<Longrightarrow> keeps s u"
  by (auto simp: keeps_def intro: prims_inv)

lemma keeps_prim: "rf_prim s s' \<Longrightarrow> keeps s s'"
  by (auto simp: keeps_def)

lemma keeps_from_inv: "(rf_inv s \<Longrightarrow> keeps s s') \<Longrightarrow> keeps s s'"
  by (simp add: keeps_def)

lemmas keeps_prims = rf_prim.intros [THEN keeps_prim]

section \<open>Results\<close>

lemma refuse_Done [simp]: "refuse m s = Done r \<longleftrightarrow> r = (s, error_reply m 400)"
  by (auto simp: refuse_def)

lemma reply_record_Done: "reply_record u st s = Done (s', p) \<Longrightarrow> s' = s"
  by (auto simp: reply_record_def rbind_Done)

lemma disk_same: "\<exists>d. s = s\<lparr>rf_disk := d\<rparr>"
  by (rule exI [of _ "rf_disk s"]) simp

lemma resource_save_Done: "resource_save_json u s = Done s' \<Longrightarrow> \<exists>d. s' = s\<lparr>rf_disk := d\<rparr>"
  by (auto simp: resource_save_json_def save_json_def rbind_Done split: if_splits intro: disk_same)

lemma resource_save_keeps: "resource_save_json u s = Done s' \<Longrightarrow> keeps s s'"
  by (auto dest!: resource_save_Done intro: keeps_prims)

lemma delete_resource_keeps: "keeps s (delete_resource u s)"
  by (auto simp: delete_resource_def intro: keeps_prims)

lemma scan_Some: "scan get P ms = Done (Some a) \<Longrightarrow> a \<in> set ms \<and> (\<exists>x. get a = Some x \<and> P x)"
  by (induction ms) (auto simp: rbind_Done deref_Done split: if_splits)

lemma scan_None: "scan get P ms = Done None \<Longrightarrow> \<forall>a \<in> set ms. \<exists>x. get a = Some x \<and> \<not> P x"
  by (induction ms) (auto simp: rbind_Done deref_Done split: if_splits)

section \<open>Creating, changing and deleting\<close>

lemma put_keeps:
  assumes "rf_heap s a = Some x" and "stable x y" and "rf_inv s \<Longrightarrow> role_ok (rf_heap s) y"
  shows "keeps s (put_object a y s)"
proof (rule keeps_from_inv)
  assume "rf_inv s"
  then show "keeps s (put_object a y s)" using assms by (intro keeps_prims(2)) auto
qed

lemma create_numbered_Done:
  assumes "create_numbered k mk s = Done (n, s')"
  obtains s1 x a s2 d where "allocate_in k s = Done (n, s1)"
    and "mk (member_uri k (to_string n)) (to_string n) s1 = Done x" and "new_object x s1 = (a, s2)"
    and "s' = (add_member k a s2)\<lparr>rf_disk := d\<rparr>"
proof -
  obtain s1 x s3 where c: "allocate_in k s = Done (n, s1)"
    "mk (member_uri k (to_string n)) (to_string n) s1 = Done x"
    "resource_save_json (member_uri k (to_string n))
      (add_member k (fst (new_object x s1)) (snd (new_object x s1))) = Done s3"
    "resource_save_json (coll_uri k) s3 = Done s'"
    using assms by (auto simp: create_numbered_def Let_def rbind_Done case_prod_unfold)
  let ?a = "fst (new_object x s1)" and ?s2 = "snd (new_object x s1)"
  obtain d where d: "s3 = (add_member k ?a ?s2)\<lparr>rf_disk := d\<rparr>" using resource_save_Done [OF c(3)] by blast
  obtain e where "s' = s3\<lparr>rf_disk := e\<rparr>" using resource_save_Done [OF c(4)] by blast
  then have "s' = (add_member k ?a ?s2)\<lparr>rf_disk := e\<rparr>" using d by simp
  with c(1,2) prod.collapse [symmetric] show thesis by (rule that)
qed

lemma create_keeps:
  assumes "create_numbered k mk s = Done (n, s')"
    and "\<And>s1 x. allocate_in k s = Done (n, s1) \<Longrightarrow> rf_inv s \<Longrightarrow>
      mk (member_uri k (to_string n)) (to_string n) s1 = Done x \<Longrightarrow> numbered k n x \<and> role_ok (rf_heap s) x"
  shows "keeps s s'"
proof (rule keeps_from_inv)
  assume inv: "rf_inv s"
  obtain s1 x a s2 d where c: "allocate_in k s = Done (n, s1)"
    "mk (member_uri k (to_string n)) (to_string n) s1 = Done x" "new_object x s1 = (a, s2)"
    "s' = (add_member k a s2)\<lparr>rf_disk := d\<rparr>"
    by (rule create_numbered_Done [OF assms(1)])
  have "keeps s (add_member k a s2)"
    using keeps_prims(3) [OF c(1) _ _ c(3)] assms(2) [OF c(1) inv c(2)] by blast
  also have "keeps \<dots> s'" unfolding c(4) by (rule keeps_prims)
  finally show "keeps s s'" .
qed

lemma delete_numbered_Done:
  assumes "delete_numbered k n a u s = Done s'"
  obtains x d where "rf_heap s a = Some x" and "s' = (removed k n a x s)\<lparr>rf_disk := d\<rparr>"
proof -
  obtain t where t: "delete_object a (release_in k n s) = Done t"
    "resource_save_json (coll_uri k) (delete_resource u (erase_member k a t)) = Done s'"
    using assms by (auto simp: delete_numbered_def rbind_Done)
  obtain x where x: "rf_heap s a = Some x" "erase_member k a t = removed k n a x s"
    using t(1) by (auto simp: delete_removed)
  obtain d where d: "s' = (delete_resource u (removed k n a x s))\<lparr>rf_disk := d\<rparr>"
    using resource_save_Done [OF t(2)] x(2) by auto
  then have "s' = (removed k n a x s)\<lparr>rf_disk := d\<rparr>" by (simp add: delete_resource_def)
  with x(1) show thesis by (rule that)
qed

lemma delete_keeps:
  assumes "delete_numbered k n a u s = Done s'" and "k \<noteq> ALLOCATE_TASK_NUM"
    and "\<And>x. rf_inv s \<Longrightarrow> rf_heap s a = Some x \<Longrightarrow> numbered k n x"
  shows "keeps s s'"
proof (rule keeps_from_inv)
  assume inv: "rf_inv s"
  obtain x d where x: "rf_heap s a = Some x" and s': "s' = (removed k n a x s)\<lparr>rf_disk := d\<rparr>"
    by (rule delete_numbered_Done [OF assms(1)])
  have "keeps s (removed k n a x s)" using x assms(2) assms(3) [OF inv x] by (intro keeps_prims(4))
  also have "keeps \<dots> s'" unfolding s' by (rule keeps_prims)
  finally show "keeps s s'" .
qed

section \<open>The operations\<close>

lemma set_remain_keeps: "set_remain a t s = Done s' \<Longrightarrow> keeps s s'"
  by (auto simp: set_remain_def rbind_Done deref_Done at_iff stable_def role_ok_def intro!: put_keeps)

lemma clip_sessions_keeps: "clip_sessions t ms s = Done s' \<Longrightarrow> keeps s s'"
proof (induction ms arbitrary: s)
  case (Cons a ms)
  then obtain s1 where s1: "s1 = s \<or> set_remain a t s = Done s1" and "clip_sessions t ms s1 = Done s'"
    by (auto simp: rbind_Done split: if_splits)
  then have "keeps s s1" "keeps s1 s'" using Cons.IH set_remain_keeps by auto
  then show ?case by (rule keeps_trans)
qed simp

lemma patch_session_service_keeps:
  assumes "patch_session_service jv s = Done (r, s')"
  shows "keeps s s'"
proof -
  obtain r1 t r2 en where g: "get_uint_value jv ''SessionTimeout'' = (r1, t)" "get_bool_value jv ''ServiceEnabled'' = (r2, en)"
    by fastforce
  let ?s = "s\<lparr>rf_ssvc := (rf_ssvc s)\<lparr>ss_timeout := t\<rparr>\<rparr>"
  obtain s1 where s1: "if r1 then clip_sessions t (rf_members s ALLOCATE_SESSION_NUM) ?s = Done s1 else s1 = s"
    and s': "s' = s1 \<or> s' = s1\<lparr>rf_ssvc := (rf_ssvc s1)\<lparr>ss_enabled := en\<rparr>\<rparr>"
    using assms by (auto simp: patch_session_service_def Let_def g rbind_Done split: if_splits)
  have "keeps s ?s" by (rule keeps_prims)
  then have "keeps s s1" using s1 clip_sessions_keeps keeps_trans by (cases r1) auto
  moreover have "keeps s1 s'" using s' by (auto intro: keeps_prims)
  ultimately show ?thesis by (rule keeps_trans)
qed

lemma make_session_keeps: "make_session token jv s = Done (s', p) \<Longrightarrow> keeps s s'"
  by (auto simp: make_session_def Let_def rbind_Done deref_Done numbered_def role_ok_def fresh_session_def
      split: prod.splits if_splits option.splits elim!: create_keeps)

lemma generate_task_keeps: "generate_task_resource m q s = Done (n, s') \<Longrightarrow> keeps s s'"
  unfolding generate_task_resource_def by (erule create_keeps) (auto simp: numbered_def role_ok_def)

lemma complete_task_keeps: "complete_task_resource n s = Done s' \<Longrightarrow> keeps s s'"
  by (auto simp: complete_task_resource_def Let_def rbind_Done deref_Done at_iff stable_def role_ok_def
      dest!: resource_save_keeps intro!: put_keeps elim!: keeps_trans [rotated])

lemma make_subscription_keeps: "make_subscription jv s = Done (s', p) \<Longrightarrow> keeps s s'"
  by (auto simp: make_subscription_def Let_def rbind_Done numbered_def role_ok_def
      split: prod.splits if_splits dest!: reply_record_Done elim!: create_keeps)

section \<open>Accounts and roles\<close>

lemma account_role_ok:
  assumes "rf_inv s" and "rf_heap s a = Some (OAccount x)" and "ra_role y = ra_role x"
  shows "role_ok (rf_heap s) (OAccount y)"
  using inv_heap(3) [OF assms(1,2)] assms(3) by (simp add: role_ok_def)

lemma put_account_keeps:
  assumes "rf_heap s a = Some (OAccount x)" and "ra_role y = ra_role x" and "ra_id y = ra_id x"
    and "ra_odata y = ra_odata x"
  shows "keeps s (put_object a (OAccount y) s)"
  using assms(1) by (rule put_keeps) (use assms account_role_ok in \<open>auto simp: stable_def\<close>)

lemma mirror_user_keeps: "mirror_user i s = Done s' \<Longrightarrow> keeps s s'"
  by (auto simp: mirror_user_def Let_def rbind_Done deref_Done at_iff split: if_splits option.splits
      dest!: resource_save_keeps elim!: keeps_trans [rotated] intro!: put_account_keeps)

lemma mirror_users_keeps: "mirror_users is s = Done s' \<Longrightarrow> keeps s s'"
  by (induction "is" arbitrary: s) (auto simp: rbind_Done intro: keeps_trans mirror_user_keeps)

lemma set_user_name_keeps: "rf_set_user_name i n s = Done s' \<Longrightarrow> keeps s s'"
  unfolding rf_set_user_name_def rf_user_save_def
  by (drule mirror_users_keeps) (auto elim!: keeps_trans [rotated] intro!: keeps_prims)

lemma fresh_account_Done:
  assumes "fresh_account odata i role s1 = Done f"
  shows "ra_odata f = odata \<and> ra_id f = i \<and>
    (case ra_role f of None \<Rightarrow> True | Some r \<Rightarrow> \<exists>ro. rf_heap s1 r = Some (ORole ro))"
  using assms
  by (auto simp: fresh_account_def bare_account_def Let_def rbind_Done deref_Done at_iff split: if_splits)

lemma allocate_heap: "allocate_in k s = Done (n, s1) \<Longrightarrow> rf_heap s1 = rf_heap s"
  by (auto simp: allocate_in_def split: option.splits)

lemma create_account_keeps: "create_account u p r e s = Done (s', rp) \<Longrightarrow> keeps s s'"
proof -
  assume "create_account u p r e s = Done (s', rp)"
  then obtain n where "create_numbered ALLOCATE_ACCOUNT_NUM (\<lambda>odata i s1.
         rbind (fresh_account odata i r s1) (\<lambda>f. Done (OAccount (f\<lparr>ra_name := ''User Account'',
           ra_user := (ra_user f)\<lparr>a_user_name := bytes_of u, a_password := bytes_of p\<rparr>,
           ra_enabled := e, ra_locked := False\<rparr>)))) s = Done (n, s')"
    by (auto simp: create_account_def rbind_Done dest!: reply_record_Done)
  then show ?thesis
    by (rule create_keeps)
      (auto simp: rbind_Done numbered_def role_ok_def dest!: fresh_account_Done allocate_heap split: option.splits)
qed

lemma make_account_keeps: "make_account jv s = Done (s', p) \<Longrightarrow> keeps s s'"
  by (auto simp: make_account_def Let_def rbind_Done split: prod.splits if_splits option.splits
      dest!: create_account_keeps)

lemma numbered_unsigned:
  "rf_inv s \<Longrightarrow> rf_heap s a = Some x \<Longrightarrow> obj_kind x = Some k \<Longrightarrow> stoi (obj_id x) = Ret n
    \<Longrightarrow> numbered k (unsigned_of n) x"
proof -
  assume "rf_inv s" "rf_heap s a = Some x" "obj_kind x = Some k" "stoi (obj_id x) = Ret n"
  moreover from this obtain m where "m < UINT_MAX" "numbered k m x" using inv_heap(4) by blast
  ultimately show "numbered k (unsigned_of n) x"
    by (auto simp: numbered_def stoi_to_string unsigned_of_def split: if_splits)
qed

lemma improved_unsigned:
  "rf_inv s \<Longrightarrow> rf_heap s a = Some x \<Longrightarrow> obj_kind x = Some k \<Longrightarrow> improved_stoi (obj_id x) = Ret n
    \<Longrightarrow> numbered k (unsigned_of n) x"
proof -
  assume i: "rf_inv s" "rf_heap s a = Some x" "obj_kind x = Some k" and "improved_stoi (obj_id x) = Ret n"
  moreover from i obtain m where "m < UINT_MAX" "numbered k m x" using inv_heap(4) by blast
  ultimately have "stoi (obj_id x) = Ret n"
    by (auto simp: numbered_def improved_stoi_def stoi_to_string split: if_splits)
  with i show "numbered k (unsigned_of n) x" by (rule numbered_unsigned)
qed

lemma same_id_numbered: "obj_kind x = Some k \<Longrightarrow> obj_kind y = Some k \<Longrightarrow> obj_id x = obj_id y \<Longrightarrow>
    rf_inv s \<Longrightarrow> rf_heap s a = Some x \<Longrightarrow> numbered k n y \<Longrightarrow> numbered k n x"
  using inv_heap(4) by (fastforce simp: numbered_def)

lemma uri_name_id:
  assumes "rf_inv s" and "rf_rec s uri = Some (Obj a)" and "rf_heap s a = Some x" and "obj_kind x = Some k"
  shows "get_current_object_name uri CHR ''/'' = obj_id x"
proof -
  obtain n where "numbered k n x" using inv_heap(4) [OF assms(1,3,4)] by blast
  moreover have "obj_odata x = uri" using inv_rec [OF assms(1,2)] assms(3) by auto
  ultimately show ?thesis by (auto simp: numbered_def)
qed

lemma remove_account_keeps: "remove_account uri s = Done (s', p) \<Longrightarrow> keeps s s'"
proof (rule keeps_from_inv)
  assume inv: "rf_inv s" and r: "remove_account uri s = Done (s', p)"
  consider "s' = s" | b x n a where
    "scan (account_at s) (\<lambda>x. ra_id x = get_current_object_name uri CHR ''/'')
          (rf_members s ALLOCATE_ACCOUNT_NUM) = Done (Some a)"
    "rf_rec s uri = Some (Obj b)" "rf_heap s b = Some (OAccount x)" "stoi (ra_id x) = Ret n"
    "delete_numbered ALLOCATE_ACCOUNT_NUM (unsigned_of n) a uri s = Done s'"
    using r by (auto simp: remove_account_def done_simps lookup_iff at_iff dest!: reply_record_Done)
  then show "keeps s s'"
  proof cases
    case 2
    obtain y where y: "rf_heap s a = Some (OAccount y)" "ra_id y = get_current_object_name uri CHR ''/''"
      using scan_Some [OF 2(1)] by (auto simp: at_iff)
    have "get_current_object_name uri CHR ''/'' = ra_id x" using uri_name_id [OF inv 2(2,3)] by simp
    then have "numbered ALLOCATE_ACCOUNT_NUM (unsigned_of n) (OAccount y)"
      using numbered_unsigned [OF inv y(1)] y(2) 2(4) by simp
    with 2(5) show ?thesis by (rule_tac delete_keeps) (use y in auto)
  qed simp
qed

lemma apply_account_change_keeps: "apply_account_change uri i c s = Done s' \<Longrightarrow> keeps s s'"
proof -
  assume a: "apply_account_change uri i c s = Done s'"
  obtain b s1 s2 s3 s4 where
    1: "(case ac_role c of None \<Rightarrow> Done s | Some odata \<Rightarrow>
         rbind (deref (lookup s odata)) (\<lambda>r. rbind (deref (role_at s r)) (\<lambda>ro.
         rbind (deref (account_at s b)) (\<lambda>x.
         Done (put_object b (OAccount (x\<lparr>ra_role := Some r, ra_role_id := rr_odata ro\<rparr>)) s))))) = Done s1"
    and 2: "(case ac_name c of None \<Rightarrow> Done s1 | Some n \<Rightarrow>
         rbind (deref (account_at s1 b)) (\<lambda>x.
         rf_set_user_name i (bytes_of n)
           (put_object b (OAccount (x\<lparr>ra_user := (ra_user x)\<lparr>a_user_name := bytes_of n\<rparr>\<rparr>)) s1))) = Done s2"
    and 3: "(case ac_password c of None \<Rightarrow> Done s2 | Some p \<Rightarrow>
         rbind (deref (account_at s2 b)) (\<lambda>x.
         Done (put_object b (OAccount (x\<lparr>ra_user := (ra_user x)\<lparr>a_password := bytes_of p\<rparr>\<rparr>)) s2))) = Done s3"
    and 4: "rf_set_user_name i (bytes_of (ac_input_password c)) s3 = Done s4"
    and 5: "resource_save_json uri s4 = Done s'"
    using a by (auto simp: apply_account_change_def rbind_Done)
  have "keeps s s1"
  proof (cases "ac_role c")
    case (Some odata)
    then obtain r ro x where x: "rf_heap s b = Some (OAccount x)" "rf_heap s r = Some (ORole ro)"
      and s1: "s1 = put_object b (OAccount (x\<lparr>ra_role := Some r, ra_role_id := rr_odata ro\<rparr>)) s"
      using 1 by (auto simp: rbind_Done deref_Done at_iff)
    from x(1) show ?thesis unfolding s1 by (rule put_keeps) (use x in \<open>auto simp: stable_def role_ok_def\<close>)
  qed (use 1 in simp)
  also have "keeps s1 s2"
    using 2 by (auto simp: rbind_Done deref_Done at_iff split: option.splits dest!: set_user_name_keeps
        elim!: keeps_trans [rotated] intro!: put_account_keeps)
  also have "keeps s2 s3"
    using 3 by (auto simp: rbind_Done deref_Done at_iff split: option.splits intro!: put_account_keeps)
  also have "keeps s3 s4" using 4 by (rule set_user_name_keeps)
  also have "keeps s4 s'" using 5 by (rule resource_save_keeps)
  finally show ?thesis .
qed

lemma modify_account_keeps: "modify_account q s = Done (s', p) \<Longrightarrow> keeps s s'"
  by (auto simp: modify_account_def Let_def done_simps dest!: reply_record_Done apply_account_change_keeps)

lemma modify_role_keeps: "modify_role q s = Done (s', p) \<Longrightarrow> keeps s s'"
  by (auto simp: modify_role_def Let_def done_simps at_iff stable_def role_ok_def
      dest!: reply_record_Done resource_save_keeps dest: inv_heap(3)
      elim!: keeps_trans [rotated] intro!: put_keeps)

text \<open>The password range of the service: a change keeps it non-empty.\<close>

lemma set_member_keep:
  "(\<And>x v. f (upd x v) = f v) \<Longrightarrow> f (snd rv) = y \<Longrightarrow> f (snd (set_member found upd rv)) = y"
  by (simp add: set_member_def)

lemma patch_account_members_policy [simp]:
  "as_min_password (snd (patch_account_members jv rv)) = as_min_password (snd rv)"
  "as_max_password (snd (patch_account_members jv rv)) = as_max_password (snd rv)"
  unfolding patch_account_members_def
  by (intro set_member_keep [of as_min_password] set_member_keep [of as_max_password]; simp)+

lemma password_range_policy:
  "password_range mn mx v = Some v' \<Longrightarrow> policy_ok v \<Longrightarrow> policy_ok v'"
  by (auto simp: password_range_def policy_ok_def split: if_splits)

lemma patch_account_service_policy:
  assumes "patch_account_service jv s = (r, s')"
  shows "\<exists>v. s' = s\<lparr>rf_asvc := v\<rparr> \<and> (policy_ok (rf_asvc s) \<longrightarrow> policy_ok v)"
proof -
  obtain r1 mn r2 mx where g: "get_uint_value jv ''MinPasswordLength'' = (r1, mn)"
    "get_uint_value jv ''MaxPasswordLength'' = (r2, mx)" by fastforce
  have s': "s' = snd (patch_account_service jv s)" using assms by simp
  show ?thesis
  proof (cases "(r1 \<and> mn = 0 \<or> r2 \<and> mx = 0) \<or> password_range mn mx (rf_asvc s) = None")
    case True
    then have "s' = s" by (auto simp: s' patch_account_service_def g)
    then show ?thesis by (intro exI [of _ "rf_asvc s"]) simp
  next
    case False
    then obtain v where v: "password_range mn mx (rf_asvc s) = Some v" by auto
    with False have "s' = s\<lparr>rf_asvc := snd (patch_account_members jv (r1 \<or> r2, v))\<rparr>"
      by (auto simp: s' patch_account_service_def g case_prod_unfold Let_def)
    then show ?thesis using password_range_policy [OF v]
      by (intro exI [of _ "snd (patch_account_members jv (r1 \<or> r2, v))"]) (simp add: policy_ok_def)
  qed
qed

lemma patch_account_service_keeps: "patch_account_service jv s = (r, s') \<Longrightarrow> keeps s s'"
  by (auto dest!: patch_account_service_policy intro: keeps_prims)

section \<open>Sessions and events\<close>

lemma remove_session_keeps: "remove_session q s = Done (s', p) \<Longrightarrow> keeps s s'"
  by (auto simp: remove_session_def Let_def done_simps dest!: set_remain_keeps)

lemma expire_session_keeps: "expire_session a s = Done s' \<Longrightarrow> keeps s s'"
proof (rule keeps_from_inv)
  assume inv: "rf_inv s" and r: "expire_session a s = Done s'"
  consider "s' = s" | x b n where "rf_heap s a = Some (OSession x)"
    "scan (session_at s) (\<lambda>y. rs_id y = rs_id x) (rf_members s ALLOCATE_SESSION_NUM) = Done (Some b)"
    "improved_stoi (rs_id x) = Ret n"
    "delete_numbered ALLOCATE_SESSION_NUM (unsigned_of n) b (rs_odata x) s = Done s'"
    using r by (auto simp: expire_session_def done_simps at_iff)
  then show "keeps s s'"
  proof cases
    case 2
    obtain y where y: "rf_heap s b = Some (OSession y)" "rs_id y = rs_id x"
      using scan_Some [OF 2(2)] by (auto simp: at_iff)
    then have "numbered ALLOCATE_SESSION_NUM (unsigned_of n) (OSession y)"
      using improved_unsigned [OF inv y(1)] 2(3) by simp
    with 2(4) show ?thesis by (rule_tac delete_keeps) (use y in auto)
  qed simp
qed

lemma session_timer_keeps: "session_timer a s = Done s' \<Longrightarrow> keeps s s'"
  by (auto simp: session_timer_def done_simps dest: set_remain_keeps expire_session_keeps)

lemma remove_subscription_keeps: "remove_subscription uri s = Done (s', p) \<Longrightarrow> keeps s s'"
proof (rule keeps_from_inv)
  assume inv: "rf_inv s" and r: "remove_subscription uri s = Done (s', p)"
  let ?name = "get_current_object_name uri CHR ''/''"
  consider "s' = s" | n a where
    "scan (dest_at s) (\<lambda>x. rd_id x = ?name) (rf_members s ALLOCATE_SUBSCRIPTION_NUM) = Done (Some a)"
    "stoi ?name = Ret n" "delete_numbered ALLOCATE_SUBSCRIPTION_NUM (unsigned_of n) a uri s = Done s'"
    using r by (auto simp: remove_subscription_def Let_def done_simps)
  then show "keeps s s'"
  proof cases
    case 2
    obtain y where y: "rf_heap s a = Some (ODest y)" "rd_id y = ?name"
      using scan_Some [OF 2(1)] by (auto simp: at_iff)
    then have "numbered ALLOCATE_SUBSCRIPTION_NUM (unsigned_of n) (ODest y)"
      using numbered_unsigned [OF inv y(1)] 2(2) by simp
    with 2(3) show ?thesis by (rule_tac delete_keeps) (use y in auto)
  qed simp
qed

lemma patch_event_service_keeps: "patch_event_service jv s = Done (r, s') \<Longrightarrow> keeps s s'"
  by (auto simp: patch_event_service_def Let_def done_simps dest!: resource_save_keeps
      elim!: keeps_trans [rotated] intro: keeps_prims)

lemma patch_subscription_keeps: "patch_subscription jv uri s = Done (r, s') \<Longrightarrow> keeps s s'"
  by (auto simp: patch_subscription_def Let_def done_simps at_iff stable_def role_ok_def
      dest!: resource_save_keeps elim!: keeps_trans [rotated] intro!: put_keeps)

section \<open>Requests\<close>

lemma patch_reply_keeps: "patch_reply b u m res = Done (s', p) \<Longrightarrow> keeps (snd res) s'"
  by (auto simp: patch_reply_def done_simps dest!: reply_record_Done resource_save_keeps)

lemma treat_get_keeps: "treat_get q s = Done (s', p) \<Longrightarrow> keeps s s'"
  by (auto simp: treat_get_def done_simps)

lemma treat_post_keeps: "treat_post token q s = Done (s', p) \<Longrightarrow> keeps s s'"
  by (auto simp: treat_post_def do_actions_def Let_def done_simps
      dest: make_account_keeps make_session_keeps make_subscription_keeps)

lemma treat_patch_keeps: "treat_patch q s = Done (s', p) \<Longrightarrow> keeps s s'"
  by (auto simp: treat_patch_def Let_def done_simps
      dest: modify_account_keeps modify_role_keeps
      dest!: patch_reply_keeps elim!: keeps_trans [rotated]
      intro: patch_session_service_keeps patch_event_service_keeps patch_subscription_keeps
        patch_account_service_keeps prod.collapse [symmetric])

lemma treat_delete_keeps: "treat_delete q s = Done (s', p) \<Longrightarrow> keeps s s'"
  by (auto simp: treat_delete_def Let_def done_simps
      dest: remove_account_keeps remove_session_keeps remove_subscription_keeps)

lemma with_task_keeps:
  assumes "with_task m treat q s = Done (s', p)"
    and "\<And>s1 s2 p. treat q s1 = Done (s2, p) \<Longrightarrow> keeps s1 s2"
  shows "keeps s s'"
proof -
  obtain n s1 where t: "generate_task_resource m q s = Done (n, s1)"
    and r: "s' = s1 \<or> (\<exists>s2 p. treat q s1 = Done (s2, p) \<and> complete_task_resource n s2 = Done s')"
    using assms(1) by (auto simp: with_task_def done_simps)
  have "keeps s s1" using t by (rule generate_task_keeps)
  also have "keeps s1 s'" using r assms(2) complete_task_keeps keeps_trans by blast
  finally show ?thesis .
qed

lemma event_keeps: "rf_event e s = Done (s', p) \<Longrightarrow> keeps s s'"
proof (cases e)
  case (Get q)
  then show "rf_event e s = Done (s', p) \<Longrightarrow> keeps s s'"
    by (auto simp: rf_event_def handle_get_def done_simps dest: with_task_keeps [OF _ treat_get_keeps])
next
  case (Post t q)
  then show "rf_event e s = Done (s', p) \<Longrightarrow> keeps s s'"
    by (auto simp: rf_event_def handle_post_def done_simps dest: with_task_keeps [OF _ treat_post_keeps])
next
  case (Patch q)
  then show "rf_event e s = Done (s', p) \<Longrightarrow> keeps s s'"
    by (auto simp: rf_event_def handle_patch_def done_simps dest: with_task_keeps [OF _ treat_patch_keeps])
next
  case (Delete q)
  then show "rf_event e s = Done (s', p) \<Longrightarrow> keeps s s'"
    by (auto simp: rf_event_def handle_delete_def done_simps dest: with_task_keeps [OF _ treat_delete_keeps])
qed (auto simp: rf_event_def handle_put_def handle_options_def done_simps dest: session_timer_keeps)

end
