(* ===== verification/Redfish_Access.thy ===== *)
theory Redfish_Access
  imports Redfish_Steps
begin

text \<open>
  What holds in every reachable state (the locale \<open>prim_invariant\<close> with its interpretations), and
  when the operations return: on a well-formed record the loops over members, the JSON of a
  resource and the saves are defined, except for a session whose account is gone.
\<close>

section \<open>Invariants of reachable states\<close>

locale prim_invariant =
  fixes good :: "rf \<Rightarrow> bool"
  assumes prim: "rf_inv s \<Longrightarrow> good s \<Longrightarrow> rf_prim s s' \<Longrightarrow> good s'"
begin

lemma prims: "rf_prims s s' \<Longrightarrow> rf_inv s \<Longrightarrow> good s \<Longrightarrow> good s' \<and> rf_inv s'"
  by (induction rule: rtranclp_induct) (auto intro: prim prim_inv)

lemma event: "rf_event e s = Done (s', p) \<Longrightarrow> rf_inv s \<Longrightarrow> good s \<Longrightarrow> good s' \<and> rf_inv s'"
  using event_keeps [of e s s' p] prims [of s s'] by (simp add: keeps_def)

lemma reach: "rf_reach s0 s \<Longrightarrow> rf_inv s0 \<Longrightarrow> good s0 \<Longrightarrow> good s \<and> rf_inv s"
  by (induction rule: rf_reach.induct) (auto elim!: rf_stepE dest: event)

end

text \<open>The password range of the account service.\<close>

interpretation policy: prim_invariant "\<lambda>s. policy_ok (rf_asvc s)"
proof
  show "rf_inv s \<Longrightarrow> policy_ok (rf_asvc s) \<Longrightarrow> rf_prim s s' \<Longrightarrow> policy_ok (rf_asvc s')" for s s'
    by (erule rf_prim.cases)
      (auto simp: put_object_def add_member_def new_object_def allocate_in_def split: option.splits)
qed

text \<open>The request a task holds: tasks are not removed, and keep their request.\<close>

definition task_holds :: "nat \<Rightarrow> string \<Rightarrow> (string \<times> string) list \<Rightarrow> json \<Rightarrow> rf \<Rightarrow> bool" where
  "task_holds a odata hs body s \<longleftrightarrow> (\<exists>t. rf_heap s a = Some (OTask t) \<and> rt_odata t = odata
     \<and> rt_headers t = hs \<and> rt_body t = body)"

interpretation tasks: prim_invariant "task_holds a odata hs body" for a odata hs body
proof
  fix s s' assume inv: "rf_inv s" and t: "task_holds a odata hs body s" and p: "rf_prim s s'"
  from p show "task_holds a odata hs body s'"
  proof cases
    case (change b x y)
    then show ?thesis using t by (fastforce simp: task_holds_def put_object_def stable_def)
  next
    case (create k n s1 x b s2)
    then show ?thesis using t create_inv [OF inv create(2-5)] by (auto simp: task_holds_def)
  next
    case (remove b x k n)
    then show ?thesis using t by (auto simp: task_holds_def numbered_def)
  qed (use t in \<open>auto simp: task_holds_def\<close>)
qed

section \<open>When operations return\<close>

lemma scan_total:
  assumes "\<forall>a \<in> set ms. get a \<noteq> None"
  shows "\<exists>r. scan get P ms = Done r"
  using assms by (induction ms) auto

lemma scan_first:
  assumes "\<forall>a \<in> set ms. get a \<noteq> None" and "a \<in> set ms" and "get a = Some x" and "P x"
    and u: "\<And>b y. b \<in> set ms \<Longrightarrow> get b = Some y \<Longrightarrow> P y \<Longrightarrow> b = a"
  shows "scan get P ms = Done (Some a)"
proof -
  obtain r where r: "scan get P ms = Done r" using scan_total [OF assms(1)] by blast
  show ?thesis
  proof (cases r)
    case None
    then show ?thesis using scan_None [of get P ms] r assms(2-4) by fastforce
  next
    case (Some b)
    then show ?thesis using scan_Some [of get P ms b] r u by blast
  qed
qed

lemma scan_absent:
  assumes "\<forall>a \<in> set ms. \<exists>x. get a = Some x \<and> \<not> P x"
  shows "scan get P ms = Done None"
  using assms by (induction ms) auto

lemma inv_accounts: "rf_inv s \<Longrightarrow> a \<in> set (rf_members s ALLOCATE_ACCOUNT_NUM) \<longleftrightarrow> account_at s a \<noteq> None"
  using inv_members(1) [of s a ALLOCATE_ACCOUNT_NUM] by (auto simp: kind_account at_iff)

lemma inv_sessions: "rf_inv s \<Longrightarrow> a \<in> set (rf_members s ALLOCATE_SESSION_NUM) \<longleftrightarrow> session_at s a \<noteq> None"
  using inv_members(1) [of s a ALLOCATE_SESSION_NUM] by (auto simp: kind_session at_iff)

lemma member_links_total: "\<forall>a \<in> set ms. rf_heap s a \<noteq> None \<Longrightarrow> \<exists>js. member_links s ms = Done js"
  by (induction ms) auto

lemma fixed_coll:
  "fixed_resources (coll_uri ALLOCATE_TASK_NUM) = Some (Coll ALLOCATE_TASK_NUM)"
  "fixed_resources (coll_uri ALLOCATE_ACCOUNT_NUM) = Some (Coll ALLOCATE_ACCOUNT_NUM)"
  "fixed_resources (coll_uri ALLOCATE_SESSION_NUM) = Some (Coll ALLOCATE_SESSION_NUM)"
  "fixed_resources (coll_uri ALLOCATE_SUBSCRIPTION_NUM) = Some (Coll ALLOCATE_SUBSCRIPTION_NUM)"
  by (simp_all add: fixed_resources_def ODATA_ACCOUNT_SERVICE_ID_def ODATA_SESSION_SERVICE_ID_def
      ODATA_EVENT_SERVICE_ID_def ODATA_ROLE_ID_def)

definition proper :: "allocate_num \<Rightarrow> bool" where
  "proper k \<longleftrightarrow> k \<in> {ALLOCATE_ACCOUNT_NUM, ALLOCATE_SESSION_NUM, ALLOCATE_TASK_NUM, ALLOCATE_SUBSCRIPTION_NUM}"

lemma proper_simps [simp]:
  "proper ALLOCATE_ACCOUNT_NUM" "proper ALLOCATE_SESSION_NUM" "proper ALLOCATE_TASK_NUM"
  "proper ALLOCATE_SUBSCRIPTION_NUM"
  by (simp_all add: proper_def)

lemma inv_coll: "rf_inv s \<Longrightarrow> proper k \<Longrightarrow> rf_rec s (coll_uri k) = Some (Coll k)"
  using fixed_coll by (auto simp: proper_def intro!: inv_fixed simp del: coll_uri.simps)

lemma collection_total:
  assumes "rf_inv s" and "proper k"
  shows "\<exists>j. record_get_json (coll_uri k) s = Done j"
proof -
  have "\<forall>a \<in> set (rf_members s k). rf_heap s a \<noteq> None" using inv_members(1) [OF assms(1)] by auto
  then obtain js where "member_links s (rf_members s k) = Done js" using member_links_total by blast
  then show ?thesis by (simp add: record_get_json_def inv_coll [OF assms] collection_json_def)
qed

text \<open>A session points to an account that is still there.\<close>

definition live :: "rf \<Rightarrow> robj \<Rightarrow> bool" where
  "live s x \<longleftrightarrow> (\<forall>y b. x = OSession y \<longrightarrow> rs_account y = Some b \<longrightarrow> account_at s b \<noteq> None)"

lemma live_simps [simp]: "live s (OAccount x)" "live s (ORole r)" "live s (OTask t)" "live s (ODest d)"
  by (simp_all add: live_def)

lemma object_json_total:
  assumes "role_ok (rf_heap s) x" and "live s x"
  shows "\<exists>j. object_json s x = Done j"
  using assms
proof (cases x)
  case (OAccount y)
  then show ?thesis using assms(1)
    by (cases "ra_role y") (auto simp: object_json_def role_ok_def role_at_def)
next
  case (OSession y)
  then show ?thesis using assms(2)
    by (cases "rs_account y") (auto simp: object_json_def live_def)
qed (simp_all add: object_json_def)

lemma object_total:
  assumes "rf_inv s" and "rf_rec s u = Some (Obj a)" and "rf_heap s a = Some x" and "live s x"
  shows "\<exists>j. record_get_json u s = Done j"
  using object_json_total [OF inv_heap(3) [OF assms(1,3)] assms(4)] assms(2,3)
  by (simp add: record_get_json_def)

lemma save_total: "\<exists>j. record_get_json u s = Done j \<Longrightarrow> \<exists>d. resource_save_json u s = Done (s\<lparr>rf_disk := d\<rparr>)"
  using resource_save_Done [of u s]
  by (cases "resource_save_json u s") (auto simp: resource_save_json_def save_json_def split: if_splits)

lemma disk_record [simp]:
  "rf_rec (s\<lparr>rf_disk := d\<rparr>) = rf_rec s" "record_is_exist u (s\<lparr>rf_disk := d\<rparr>) = record_is_exist u s"
  "account_at (s\<lparr>rf_disk := d\<rparr>) = account_at s" "session_at (s\<lparr>rf_disk := d\<rparr>) = session_at s"
  "role_at (s\<lparr>rf_disk := d\<rparr>) = role_at s" "lookup (s\<lparr>rf_disk := d\<rparr>) = lookup s"
  by (auto simp: record_is_exist_def at_defs lookup_def fun_eq_iff)

text \<open>Creating a numbered object returns when a number is free.\<close>

lemma create_numbered_total:
  assumes inv: "rf_inv s" and k: "proper k" and al: "allocate_in k s = Done (n, s1)"
    and mk: "mk (member_uri k (to_string n)) (to_string n) s1 = Done x"
    and x: "numbered k n x" "role_ok (rf_heap s) x" "live s x"
  obtains s' where "create_numbered k mk s = Done (n, s')" and "rf_inv s'"
    and "rf_heap s' = (rf_heap s)(rf_next s := Some x)" and "rf_heap s (rf_next s) = None"
    and "rf_rec s' = (rf_rec s)(member_uri k (to_string n) := Some (Obj (rf_next s)))"
    and "rf_members s' = (rf_members s)(k := rf_members s k @ [rf_next s])"
    and "rf_asvc s' = rf_asvc s" and "rf_ssvc s' = rf_ssvc s" and "rf_ipmi s' = rf_ipmi s"
    and "\<forall>j. j \<noteq> k \<longrightarrow> allocate_in j s' \<noteq> Hangs \<longleftrightarrow> allocate_in j s \<noteq> Hangs"
proof -
  obtain a s2 where new: "new_object x s1 = (a, s2)" by fastforce
  let ?t = "add_member k a s2"
  note c = create_inv [OF inv al x(1,2) new]
  have u: "obj_odata x = member_uri k (to_string n)" using x(1) by (simp add: numbered_def)
  have "live ?t x" using x(3) c by (auto simp: live_def at_defs)
  then obtain d where d: "resource_save_json (member_uri k (to_string n)) ?t = Done (?t\<lparr>rf_disk := d\<rparr>)"
    using object_total [of ?t "member_uri k (to_string n)" a x] c u save_total by fastforce
  obtain e where e: "resource_save_json (coll_uri k) (?t\<lparr>rf_disk := d\<rparr>) = Done (?t\<lparr>rf_disk := d, rf_disk := e\<rparr>)"
    using collection_total [of "?t\<lparr>rf_disk := d\<rparr>" k] c k save_total by fastforce
  obtain ns where s1: "s1 = s\<lparr>rf_numbers := ns\<rparr>" and "allocate_numset_num k (rf_numbers s) = Some (n, ns)"
    using al by (auto simp: allocate_in_def split: option.splits)
  then have ns: "numset ns = (numset (rf_numbers s))(k := insert n (numset (rf_numbers s) k))"
      "numset_num ns = (numset_num (rf_numbers s))(k := n)"
    by (auto simp: allocate_numset_num_def split: option.splits)
  have s2: "rf_asvc s2 = rf_asvc s" "rf_ssvc s2 = rf_ssvc s" "rf_ipmi s2 = rf_ipmi s" "rf_numbers s2 = ns"
    using new s1 by (auto simp: new_object_def)
  have "allocate_in j (?t\<lparr>rf_disk := e\<rparr>) \<noteq> Hangs \<longleftrightarrow> allocate_in j s \<noteq> Hangs" if "j \<noteq> k" for j
    using that ns s2
    by (auto simp: allocate_in_def add_member_def allocate_numset_num_def split: option.splits)
  moreover have "create_numbered k mk s = Done (n, ?t\<lparr>rf_disk := e\<rparr>)"
    using d e by (simp add: create_numbered_def al mk new Let_def)
  moreover have "rf_asvc ?t = rf_asvc s" "rf_ssvc ?t = rf_ssvc s" "rf_ipmi ?t = rf_ipmi s"
    by (simp_all add: add_member_def s2)
  ultimately show thesis using c u by (intro that [of "?t\<lparr>rf_disk := e\<rparr>"]) auto
qed

end
