(* ===== verification/Redfish_Users.thy ===== *)
theory Redfish_Users
  imports Redfish_Access
begin

text \<open>
  The IPMI users seen through the redfish record: \<open>plat_user_save\<close> on the record refines the one of
  \<open>User_Db\<close>, where the accounts are a map from their number.
\<close>

definition user_view :: "rf \<Rightarrow> user_db" where
  "user_view s = \<lparr>ud_users = rf_ipmi s, ud_accounts = (\<lambda>i.
     case lookup s (member_uri ALLOCATE_ACCOUNT_NUM (to_string i)) of None \<Rightarrow> None
     | Some a \<Rightarrow> map_option ra_user (account_at s a))\<rparr>"

text \<open>Nothing changes but the user fields of accounts (and files).\<close>

definition only_users :: "rf \<Rightarrow> rf \<Rightarrow> bool" where
  "only_users s s' \<longleftrightarrow> rf_rec s' = rf_rec s \<and> rf_members s' = rf_members s \<and> rf_asvc s' = rf_asvc s
     \<and> rf_ssvc s' = rf_ssvc s \<and> rf_ipmi s' = rf_ipmi s \<and> session_at s' = session_at s \<and> role_at s' = role_at s
     \<and> (\<forall>a x. account_at s a = Some x \<longrightarrow> (\<exists>u. account_at s' a = Some (x\<lparr>ra_user := u\<rparr>)))"

lemma same_user: "\<exists>u. x = x\<lparr>ra_user := u\<rparr>"
  by (rule exI [of _ "ra_user x"]) simp

lemma only_users_refl [simp]: "only_users s s"
  by (simp add: only_users_def same_user)

lemma only_users_trans: "only_users s t \<Longrightarrow> only_users t u \<Longrightarrow> only_users s u"
  unfolding only_users_def by (elim conjE, intro conjI allI impI) (auto, fastforce)

lemma only_users_disk: "only_users s t \<Longrightarrow> only_users s (t\<lparr>rf_disk := d\<rparr>)"
  by (simp add: only_users_def)

lemma put_user:
  assumes "account_at s a = Some x"
  shows "only_users s (put_object a (OAccount (x\<lparr>ra_user := u\<rparr>)) s)"
proof -
  have "\<exists>v. account_at (put_object a (OAccount (x\<lparr>ra_user := u\<rparr>)) s) b = Some (y\<lparr>ra_user := v\<rparr>)"
    if "account_at s b = Some y" for b y
  proof (cases "b = a")
    case True
    then show ?thesis using assms that by (auto simp: account_at_def put_object_def)
  next
    case False
    then have "account_at (put_object a (OAccount (x\<lparr>ra_user := u\<rparr>)) s) b = Some y"
      using that by (simp add: account_at_def put_object_def)
    then show ?thesis using same_user [of y] by simp
  qed
  then show ?thesis
    using assms by (auto simp: only_users_def put_object_def at_defs fun_eq_iff split: option.splits robj.splits)
qed

lemma account_uri_unique:
  assumes "rf_inv s" and "lookup s (member_uri ALLOCATE_ACCOUNT_NUM (to_string i)) = Some a"
    and "lookup s (member_uri ALLOCATE_ACCOUNT_NUM (to_string j)) = Some b"
  shows "a = b \<longleftrightarrow> i = j"
proof
  assume "a = b"
  then have "member_uri ALLOCATE_ACCOUNT_NUM (to_string i) = member_uri ALLOCATE_ACCOUNT_NUM (to_string j)"
    using inv_rec [OF assms(1) assms(2) [unfolded lookup_iff]]
      inv_rec [OF assms(1) assms(3) [unfolded lookup_iff]] by auto
  then show "i = j" using ex_coll_uri [of ALLOCATE_ACCOUNT_NUM ALLOCATE_ACCOUNT_NUM] by simp
qed (use assms(2,3) in simp)

lemma account_uri_account:
  assumes "rf_inv s" and "rf_rec s (member_uri ALLOCATE_ACCOUNT_NUM (to_string i)) = Some p"
  obtains a x where "p = Obj a" and "account_at s a = Some x" and "ra_id x = to_string i"
    and "ra_odata x = member_uri ALLOCATE_ACCOUNT_NUM (to_string i)"
  using inv_member_uri [OF assms] by (auto simp: numbered_def kind_account at_iff)

text \<open>Setting the user fields of one account.\<close>

lemma put_user_view:
  assumes inv: "rf_inv s" and l: "lookup s (member_uri ALLOCATE_ACCOUNT_NUM (to_string i)) = Some a"
    and a: "account_at s a = Some x"
  shows "user_view (put_object a (OAccount (x\<lparr>ra_user := u\<rparr>)) s)
    = (user_view s)\<lparr>ud_accounts := (ud_accounts (user_view s))(i := Some u)\<rparr>"
proof -
  let ?t = "put_object a (OAccount (x\<lparr>ra_user := u\<rparr>)) s"
  have "lookup ?t = lookup s" by (simp add: lookup_def put_object_def fun_eq_iff)
  moreover have "account_at ?t b = (if b = a then Some (x\<lparr>ra_user := u\<rparr>) else account_at s b)" for b
    by (simp add: account_at_def put_object_def)
  moreover have "rf_ipmi ?t = rf_ipmi s" by (simp add: put_object_def)
  ultimately show ?thesis
    using l a account_uri_unique [OF inv l] by (auto simp: user_view_def fun_eq_iff split: option.splits)
qed

lemma user_view_disk [simp]: "user_view (s\<lparr>rf_disk := d\<rparr>) = user_view s"
  by (simp add: user_view_def cong: option.case_cong)

lemma put_user_inv: "rf_inv s \<Longrightarrow> account_at s a = Some x \<Longrightarrow>
    rf_inv (put_object a (OAccount (x\<lparr>ra_user := u\<rparr>)) s)"
  using put_account_keeps [of s a x "x\<lparr>ra_user := u\<rparr>"] prims_inv by (auto simp: keeps_def at_iff)

lemma mirror_user_total:
  assumes inv: "rf_inv s"
  shows "\<exists>s'. mirror_user i s = Done s' \<and> rf_inv s' \<and> only_users s s'
    \<and> user_view s' = (user_view s)\<lparr>ud_accounts := (ud_accounts (user_view s))
        (i := map_option (account_of (rf_ipmi s ! i)) (ud_accounts (user_view s) i))\<rparr>"
proof (cases "rf_rec s (member_uri ALLOCATE_ACCOUNT_NUM (to_string i))")
  case None
  then have "ud_accounts (user_view s) i = None" by (simp add: user_view_def lookup_def)
  then show ?thesis using None inv by (auto simp: mirror_user_def record_is_exist_def fun_upd_idem)
next
  case (Some p)
  obtain a x where a: "p = Obj a" "account_at s a = Some x" by (rule account_uri_account [OF inv Some])
  then have l: "lookup s (member_uri ALLOCATE_ACCOUNT_NUM (to_string i)) = Some a" using Some by (simp add: lookup_iff)
  let ?u = "account_of (rf_ipmi s ! i) (ra_user x)"
  let ?t = "put_object a (OAccount (x\<lparr>ra_user := ?u\<rparr>)) s"
  have it: "rf_inv ?t" by (rule put_user_inv [OF inv a(2)])
  have "rf_heap ?t a = Some (OAccount (x\<lparr>ra_user := ?u\<rparr>))" "rf_rec ?t = rf_rec s" by (simp_all add: put_object_def)
  then obtain d where d: "resource_save_json (member_uri ALLOCATE_ACCOUNT_NUM (to_string i)) ?t = Done (?t\<lparr>rf_disk := d\<rparr>)"
    using object_total [OF it, of _ a] Some a(1) save_total by fastforce
  have "ud_accounts (user_view s) i = Some (ra_user x)" using l a by (simp add: user_view_def)
  moreover have "mirror_user i s = Done (?t\<lparr>rf_disk := d\<rparr>)"
    using Some l a d by (simp add: mirror_user_def record_is_exist_def)
  ultimately show ?thesis
    using it put_user_view [OF inv l a(2)] put_user [OF a(2)] only_users_disk by auto
qed

lemma mirror_users_total:
  assumes "rf_inv s" and "distinct is"
  shows "\<exists>s'. mirror_users is s = Done s' \<and> rf_inv s' \<and> only_users s s'
    \<and> user_view s' = (user_view s)\<lparr>ud_accounts := (\<lambda>i. if i \<in> set is
        then map_option (account_of (rf_ipmi s ! i)) (ud_accounts (user_view s) i)
        else ud_accounts (user_view s) i)\<rparr>"
  using assms
proof (induction "is" arbitrary: s)
  case (Cons i "is")
  obtain s1 where s1: "mirror_user i s = Done s1" "rf_inv s1" "only_users s s1"
    "user_view s1 = (user_view s)\<lparr>ud_accounts := (ud_accounts (user_view s))
        (i := map_option (account_of (rf_ipmi s ! i)) (ud_accounts (user_view s) i))\<rparr>"
    using mirror_user_total [OF Cons.prems(1)] by blast
  obtain s2 where s2: "mirror_users is s1 = Done s2" "rf_inv s2" "only_users s1 s2"
    "user_view s2 = (user_view s1)\<lparr>ud_accounts := (\<lambda>j. if j \<in> set is
        then map_option (account_of (rf_ipmi s1 ! j)) (ud_accounts (user_view s1) j)
        else ud_accounts (user_view s1) j)\<rparr>"
    using Cons.IH [OF s1(2)] Cons.prems(2) by auto
  have ip: "rf_ipmi s1 = rf_ipmi s" using s1(3) by (simp add: only_users_def)
  have "user_view s2 = (user_view s)\<lparr>ud_accounts := (\<lambda>j. if j \<in> set (i # is)
        then map_option (account_of (rf_ipmi s ! j)) (ud_accounts (user_view s) j)
        else ud_accounts (user_view s) j)\<rparr>"
    using Cons.prems(2) by (auto simp: s2(4) s1(4) ip fun_eq_iff)
  then show ?case using s1 s2 only_users_trans [OF s1(3) s2(3)] by simp
qed simp

lemma get_user_cnt_10: "length us = 10 \<Longrightarrow> get_user_cnt us \<le> 10"
  using get_user_cnt_le [of "\<lparr>ud_users = us, ud_accounts = Map.empty\<rparr>"] by (simp add: user_inv_def)

lemma user_save_total:
  assumes "rf_inv s"
  shows "\<exists>s'. rf_user_save s = Done s' \<and> rf_inv s' \<and> only_users s s'
    \<and> user_view s' = plat_user_save (user_view s)"
proof -
  have "(user_view s)\<lparr>ud_accounts := (\<lambda>i. if i \<in> set [0..<get_user_cnt (rf_ipmi s)]
        then map_option (account_of (rf_ipmi s ! i)) (ud_accounts (user_view s) i)
        else ud_accounts (user_view s) i)\<rparr> = plat_user_save (user_view s)"
    by (auto simp: plat_user_save_def user_view_def fun_eq_iff)
  then show ?thesis
    using mirror_users_total [OF assms, of "[0..<get_user_cnt (rf_ipmi s)]"] by (simp add: rf_user_save_def)
qed

end
