(* ===== verification/Redfish_Boot.thy ===== *)
theory Redfish_Boot
  imports Redfish_Users User_Properties
begin

text \<open>
  The start-up of the redfish service: the record it builds from the IPMI users "root" and "admin" is
  well-formed, has the three roles and an administrator account for each of the two. The state
  \<open>boot_rf\<close> is the concrete one the examples start from.
\<close>

section \<open>Steps of the start-up\<close>

lemma empty_rf_inv: "length us = 10 \<Longrightarrow> rf_inv (empty_rf us)"
proof -
  have "p = Account_service \<or> p = Session_service \<or> p = Event_service \<or> p = Roles \<or> p = Other_class
      \<or> (\<exists>k. p = Coll k)" if "fixed_resources u = Some p" for u p
    using that by (auto simp: fixed_resources_def split: if_splits)
  then have "fixed_resources u = Some (Obj a) \<Longrightarrow> False" for u a by blast
  then show "length us = 10 \<Longrightarrow> rf_inv (empty_rf us)"
    by (auto simp: rf_inv_defs empty_rf_def numbers_ok_def init_numset_def UINT_MAX_def static_uri_def)
qed

lemma new_role_inv:
  assumes inv: "rf_inv s" and free: "rf_rec s (ODATA_ROLE_ID @ ''/'' @ name) = None"
  shows "rf_inv (predefined_role name privs s)
    \<and> rf_heap (predefined_role name privs s) = (rf_heap s)(rf_next s := Some (ORole
       \<lparr>rr_odata = ODATA_ROLE_ID @ ''/'' @ name, rr_name = ''User Role'', rr_id = name,
        rr_predefined = True, rr_privileges = privs\<rparr>))
    \<and> rf_rec (predefined_role name privs s) = (rf_rec s)(ODATA_ROLE_ID @ ''/'' @ name := Some (Obj (rf_next s)))
    \<and> rf_next (predefined_role name privs s) = rf_next s + 1
    \<and> rf_members (predefined_role name privs s) = rf_members s
    \<and> rf_asvc (predefined_role name privs s) = rf_asvc s \<and> rf_ssvc (predefined_role name privs s) = rf_ssvc s
    \<and> rf_ipmi (predefined_role name privs s) = rf_ipmi s \<and> rf_numbers (predefined_role name privs s) = rf_numbers s"
proof -
  let ?o = "ORole \<lparr>rr_odata = ODATA_ROLE_ID @ ''/'' @ name, rr_name = ''User Role'', rr_id = name,
        rr_predefined = True, rr_privileges = privs\<rparr>"
  let ?t = "predefined_role name privs s" and ?a = "rf_next s" and ?u = "ODATA_ROLE_ID @ ''/'' @ name"
  have fs: "rf_heap ?t = (rf_heap s)(?a := Some ?o)" "rf_rec ?t = (rf_rec s)(?u := Some (Obj ?a))"
    "rf_next ?t = ?a + 1" "rf_members ?t = rf_members s" "rf_roles ?t = rf_roles s @ [?a]"
    "rf_numbers ?t = rf_numbers s" "rf_ipmi ?t = rf_ipmi s" "rf_asvc ?t = rf_asvc s" "rf_ssvc ?t = rf_ssvc s"
    by (simp_all add: predefined_role_def new_object_def)
  have none: "rf_heap s ?a = None" using inv_heap(1) [OF inv, of ?a] by (cases "rf_heap s ?a") auto
  have "heap_ok ?t" unfolding heap_ok_def fs
  proof (intro allI impI)
    fix b y assume b: "((rf_heap s)(?a := Some ?o)) b = Some y"
    show "b < ?a + 1 \<and> ((rf_rec s)(?u := Some (Obj ?a))) (obj_odata y) = Some (Obj b)
      \<and> role_ok ((rf_heap s)(?a := Some ?o)) y \<and> (\<forall>k. obj_kind y = Some k \<longrightarrow> (\<exists>n \<in> numset (rf_numbers s) k. numbered k n y))"
    proof (cases "b = ?a")
      case True
      then show ?thesis using b by (auto simp: role_ok_def)
    next
      case False
      then have y: "rf_heap s b = Some y" using b by simp
      have "obj_odata y \<noteq> ?u" using inv_heap(2) [OF inv y] free by auto
      moreover have "\<forall>k. obj_kind y = Some k \<longrightarrow> (\<exists>n \<in> numset (rf_numbers s) k. numbered k n y)"
        using inv_heap(4) [OF inv y] by blast
      ultimately show ?thesis
        using inv_heap(1-3) [OF inv y] role_ok_new [OF inv_heap(3) [OF inv y] none, of "Some ?o"] by auto
    qed
  qed
  moreover have "rec_ok ?t"
    unfolding rec_ok_def fs using inv free none
    by (auto simp: rf_inv_def rec_ok_def) fastforce+
  moreover have "members_ok ?t"
    unfolding members_ok_def fs using inv none by (auto simp: rf_inv_def members_ok_def)
  ultimately show ?thesis using inv fs by (simp add: rf_inv_def)
qed

lemma static_entry_inv:
  assumes inv: "rf_inv s" and u: "static_uri u" "fixed_resources u = None"
  shows "rf_inv (s\<lparr>rf_rec := (rf_rec s)(u := Some Other_class)\<rparr>)"
proof -
  have "obj_odata x \<noteq> u" if x: "rf_heap s a = Some x" for a x
  proof (cases "obj_kind x")
    case None
    then have "\<exists>y. x = ORole y" by (cases x) auto
    then show ?thesis using inv_heap(3) [OF inv x] static_not_role u(1) by (auto simp: role_ok_def)
  next
    case (Some k)
    then obtain n where "numbered k n x" using inv_heap(4) [OF inv x] by blast
    then show ?thesis using static_not_member [OF obj_kind_class [OF Some], of "to_string n"] u(1)
      by (auto simp: numbered_def)
  qed
  then show ?thesis
    using inv u by (auto simp: rf_inv_def heap_ok_def rec_ok_def members_ok_def)
qed

lemma certificates_static:
  "static_uri (member_uri ALLOCATE_ACCOUNT_NUM (to_string n) @ ''/Certificates'')"
  "fixed_resources (member_uri ALLOCATE_ACCOUNT_NUM (to_string n) @ ''/Certificates'') = None"
proof -
  show "static_uri (member_uri ALLOCATE_ACCOUNT_NUM (to_string n) @ ''/Certificates'')"
    by (auto simp: static_uri_def)
  have "member_uri ALLOCATE_ACCOUNT_NUM (to_string n) @ ''/Certificates''
      = member_uri ALLOCATE_ACCOUNT_NUM (to_string n @ ''/Certificates'')" by (simp add: member_uri_def)
  then show "fixed_resources (member_uri ALLOCATE_ACCOUNT_NUM (to_string n) @ ''/Certificates'') = None"
    using fixed_not_member [of ALLOCATE_ACCOUNT_NUM] by simp
qed

text \<open>An account's constructor finds the role it names.\<close>

lemma fresh_account_total:
  assumes inv: "rf_inv s"
  shows "\<exists>f. fresh_account odata i role s = Done f \<and> ra_odata f = odata \<and> ra_id f = i
    \<and> ra_user f = ra_user (bare_account odata i (rf_junk s))
    \<and> (case rf_rec s (ODATA_ROLE_ID @ ''/'' @ role) of None \<Rightarrow> ra_role f = None
       | Some _ \<Rightarrow> \<exists>r ro. ra_role f = Some r \<and> role_at s r = Some ro \<and> rr_id ro = role)"
proof (cases "rf_rec s (ODATA_ROLE_ID @ ''/'' @ role)")
  case None
  then show ?thesis by (simp add: fresh_account_def record_is_exist_def bare_account_def)
next
  case (Some p)
  then obtain r ro where "p = Obj r" "role_at s r = Some ro" "rr_id ro = role"
    using inv_role_uri [OF inv Some] by (auto simp: at_iff)
  then show ?thesis using Some by (simp add: fresh_account_def record_is_exist_def bare_account_def lookup_def)
qed

lemma allocate_total: "allocate_in k s \<noteq> Hangs \<Longrightarrow> \<exists>n s1. allocate_in k s = Done (n, s1)"
  by (auto simp: allocate_in_def split: option.splits)

lemma allocate_rest:
  assumes "allocate_in k s = Done (n, s1)"
  shows "rf_heap s1 = rf_heap s \<and> rf_rec s1 = rf_rec s \<and> rf_ipmi s1 = rf_ipmi s \<and> rf_asvc s1 = rf_asvc s
    \<and> rf_ssvc s1 = rf_ssvc s \<and> rf_members s1 = rf_members s \<and> rf_next s1 = rf_next s \<and> rf_junk s1 = rf_junk s"
  using assms by (auto simp: allocate_in_def split: option.splits)

lemma fresh_account_allocated:
  assumes "rf_inv s" and "allocate_in k s = Done (n, s1)"
  obtains f where "fresh_account odata i role s1 = Done f" and "ra_odata f = odata" and "ra_id f = i"
    and "role_ok (rf_heap s) (OAccount f)"
    and "rf_rec s (ODATA_ROLE_ID @ ''/'' @ role) \<noteq> None \<Longrightarrow>
      \<exists>r ro. ra_role f = Some r \<and> role_at s r = Some ro \<and> rr_id ro = role"
proof -
  have e: "fresh_account odata i role s1 = fresh_account odata i role s"
  proof -
    have "lookup s1 = lookup s" "role_at s1 = role_at s"
      using allocate_rest [OF assms(2)] by (simp_all add: lookup_def role_at_def fun_eq_iff)
    then show ?thesis using allocate_rest [OF assms(2)] by (simp add: fresh_account_def record_is_exist_def Let_def)
  qed
  obtain f where f: "fresh_account odata i role s = Done f" "ra_odata f = odata" "ra_id f = i"
    "case rf_rec s (ODATA_ROLE_ID @ ''/'' @ role) of None \<Rightarrow> ra_role f = None
       | Some _ \<Rightarrow> \<exists>r ro. ra_role f = Some r \<and> role_at s r = Some ro \<and> rr_id ro = role"
    using fresh_account_total [OF assms(1)] by blast
  then have "role_ok (rf_heap s) (OAccount f)"
    by (auto simp: role_ok_def at_iff split: option.splits)
  then show thesis using that [of f] e f by (auto split: option.splits)
qed

lemma init_account_total:
  assumes inv: "rf_inv s" and al: "allocate_in ALLOCATE_ACCOUNT_NUM s = Done (n, s1)"
  obtains s' x where "init_account i s = Done s'" and "rf_inv s'" and "rf_numbers s' = rf_numbers s1"
    and "rf_heap s' = (rf_heap s)(rf_next s := Some (OAccount x))" and "rf_next s' = rf_next s + 1"
    and "rf_rec s' = (rf_rec s)(member_uri ALLOCATE_ACCOUNT_NUM (to_string n) := Some (Obj (rf_next s)),
           member_uri ALLOCATE_ACCOUNT_NUM (to_string n) @ ''/Certificates'' := Some Other_class)"
    and "rf_members s' = (rf_members s)(ALLOCATE_ACCOUNT_NUM := rf_members s ALLOCATE_ACCOUNT_NUM @ [rf_next s])"
    and "rf_asvc s' = rf_asvc s" and "rf_ssvc s' = rf_ssvc s" and "rf_ipmi s' = rf_ipmi s"
    and "ra_id x = to_string n" and "ra_odata x = member_uri ALLOCATE_ACCOUNT_NUM (to_string n)"
    and "a_user_name (ra_user x) = u_name (rf_ipmi s ! i)" and "a_password (ra_user x) = u_password (rf_ipmi s ! i)"
    and "rf_rec s (ODATA_ROLE_ID @ ''/'' @ role_name_of_priv (u_priv (rf_ipmi s ! i))) \<noteq> None \<longrightarrow>
      (\<exists>r ro. ra_role x = Some r \<and> role_at s r = Some ro \<and> rr_id ro = role_name_of_priv (u_priv (rf_ipmi s ! i)))"
proof -
  let ?o = "member_uri ALLOCATE_ACCOUNT_NUM (to_string n)" and ?u = "rf_ipmi s ! i"
  let ?r = "role_name_of_priv (u_priv ?u)"
  obtain f where f: "fresh_account ?o (to_string n) ?r s1 = Done f" "ra_odata f = ?o" "ra_id f = to_string n"
    "role_ok (rf_heap s) (OAccount f)"
    and rl: "rf_rec s (ODATA_ROLE_ID @ ''/'' @ ?r) \<noteq> None \<longrightarrow>
      (\<exists>r ro. ra_role f = Some r \<and> role_at s r = Some ro \<and> rr_id ro = ?r)"
    using fresh_account_allocated [OF inv al, of ?o "to_string n" ?r] by metis
  define x where "x = f\<lparr>ra_name := ''User Account'', ra_user := account_of ?u (ra_user f),
     ra_enabled := ?r \<notin> {''Noaccess'', ''Unknown'', ''Callback''}, ra_locked := True,
     ra_certificates := Some (?o @ ''/Certificates'')\<rparr>"
  have x: "ra_id x = to_string n" "ra_odata x = ?o" "ra_role x = ra_role f" "ra_user x = account_of ?u (ra_user f)"
    using f by (simp_all add: x_def)
  obtain a s2 where new: "new_object (OAccount x) s1 = (a, s2)" by fastforce
  have num: "numbered ALLOCATE_ACCOUNT_NUM n (OAccount x)" using x by (simp add: numbered_def)
  have rok: "role_ok (rf_heap s) (OAccount x)" using f(4) x(3) by (simp add: role_ok_def)
  note c = create_inv [OF inv al num rok new]
  let ?t = "add_member ALLOCATE_ACCOUNT_NUM a s2"
  define e where "e = add_member ALLOCATE_ACCOUNT_NUM a
     (s2\<lparr>rf_rec := (rf_rec s2)(?o @ ''/Certificates'' := Some Other_class)\<rparr>)"
  have et: "e = ?t\<lparr>rf_rec := (rf_rec ?t)(?o @ ''/Certificates'' := Some Other_class)\<rparr>"
    by (cases s2) (simp add: e_def add_member_def)
  have rest: "rf_numbers e = rf_numbers s1" "rf_asvc e = rf_asvc s" "rf_ssvc e = rf_ssvc s"
    "rf_ipmi e = rf_ipmi s" "rf_next e = rf_next s + 1" "rf_heap e = rf_heap ?t" "rf_members e = rf_members ?t"
    "rf_rec e = (rf_rec ?t)(?o @ ''/Certificates'' := Some Other_class)"
    using new allocate_rest [OF al] by (auto simp: et add_member_def new_object_def)
  have "init_account i s = Done e"
    using f(1) new [unfolded x_def] allocate_rest [OF al]
    by (simp add: init_account_def al Let_def e_def)
  moreover have "rf_inv e" unfolding et using static_entry_inv [OF _ certificates_static] c by blast
  ultimately show thesis
    by (rule that [of e x]) (use c rest x rl in \<open>auto simp: account_of_def\<close>)
qed

section \<open>The state after start-up\<close>

lemma alloc_first:
  "numset_num (rf_numbers s) k \<noteq> UINT_MAX \<Longrightarrow> numset_num (rf_numbers s) k \<notin> numset (rf_numbers s) k
    \<Longrightarrow> \<exists>s1. allocate_in k s = Done (numset_num (rf_numbers s) k, s1)
      \<and> numset (rf_numbers s1) = (numset (rf_numbers s))(k := insert (numset_num (rf_numbers s) k) (numset (rf_numbers s) k))
      \<and> numset_num (rf_numbers s1) = numset_num (rf_numbers s)"
  by (auto simp: allocate_in_def allocate_numset_num_def allocate_loop_free)

lemma alloc_next:
  "numset_num (rf_numbers s) k = n \<Longrightarrow> n + 1 < UINT_MAX \<Longrightarrow> n \<in> numset (rf_numbers s) k
    \<Longrightarrow> n + 1 \<notin> numset (rf_numbers s) k
    \<Longrightarrow> \<exists>s1. allocate_in k s = Done (n + 1, s1)
      \<and> numset (rf_numbers s1) = (numset (rf_numbers s))(k := insert (n + 1) (numset (rf_numbers s) k))
      \<and> numset_num (rf_numbers s1) = (numset_num (rf_numbers s))(k := n + 1)"
  by (auto simp: allocate_in_def allocate_numset_num_def allocate_loop_free allocate_loop_used)

definition boot_rf :: rf where
  "boot_rf = (case init_redfish (ud_users boot_users) of Done s \<Rightarrow> s | _ \<Rightarrow> empty_rf [])"

lemma boot_user_cnt: "get_user_cnt (ud_users boot_users) = 2"
  by (simp add: boot_users_list get_user_cnt_def empty_user_def plat_user_init_def root_name_def admin_name_def)

text \<open>The record before the accounts are made.\<close>

definition boot_base :: "user list \<Rightarrow> rf \<Rightarrow> bool" where
  "boot_base us s \<longleftrightarrow> rf_inv s \<and> rf_next s = 4
     \<and> (\<forall>k. rf_members s k = (if k = ALLOCATE_SUBSCRIPTION_NUM then [0] else []))
     \<and> rf_ipmi s = us \<and> rf_asvc s = rf_asvc (empty_rf us) \<and> rf_ssvc s = rf_ssvc (empty_rf us)
     \<and> (\<forall>k. k \<noteq> ALLOCATE_SUBSCRIPTION_NUM \<longrightarrow> numset (rf_numbers s) k = {})
     \<and> numset_num (rf_numbers s) = numset_num init_numset
     \<and> (\<exists>ro. rf_rec s (ODATA_ROLE_ID @ ''/Administrator'') = Some (Obj 1)
          \<and> rf_heap s 1 = Some (ORole ro) \<and> rr_id ro = ''Administrator'')"

lemma before_accounts:
  assumes "length us = 10"
  shows "\<exists>n s. allocate_in ALLOCATE_SUBSCRIPTION_NUM (empty_rf us) = Done (n, s)
    \<and> boot_base us (init_roles (init_event_destination (to_string n) s))"
proof -
  let ?e = "empty_rf us"
  have e: "rf_inv ?e" by (rule empty_rf_inv [OF assms])
  obtain s where al: "allocate_in ALLOCATE_SUBSCRIPTION_NUM ?e = Done (1, s)"
    and ns: "numset (rf_numbers s) = (\<lambda>_. {})(ALLOCATE_SUBSCRIPTION_NUM := {1})"
      "numset_num (rf_numbers s) = numset_num init_numset"
    using alloc_first [of ?e ALLOCATE_SUBSCRIPTION_NUM]
    by (auto simp: empty_rf_def init_numset_def UINT_MAX_def)
  let ?d = "ODest \<lparr>rd_odata = member_uri ALLOCATE_SUBSCRIPTION_NUM (to_string 1), rd_name = [], rd_id = to_string 1,
     rd_destination = [], rd_subscription_type = ''RedfishEvent'', rd_policy = ''SuspendRetries'',
     rd_protocol = ''Redfish'', rd_context = [], rd_state = ''Enabled'', rd_health = ''OK''\<rparr>"
  obtain a s2 where new: "new_object ?d s = (a, s2)" by fastforce
  have "rf_rec s (member_uri ALLOCATE_SUBSCRIPTION_NUM (to_string 1)) = None"
    using allocate_rest [OF al] fixed_not_member [of ALLOCATE_SUBSCRIPTION_NUM] by (simp add: empty_rf_def)
  then have i: "init_event_destination (to_string 1) s = add_member ALLOCATE_SUBSCRIPTION_NUM a s2"
    using new by (simp add: init_event_destination_def record_is_exist_def)
  let ?i = "init_event_destination (to_string 1) s"
  have c: "rf_inv ?i \<and> rf_heap ?i = (rf_heap ?e)(a := Some ?d) \<and> a = 0
      \<and> rf_rec ?i = (rf_rec ?e)(obj_odata ?d := Some (Obj a))
      \<and> rf_members ?i = (rf_members ?e)(ALLOCATE_SUBSCRIPTION_NUM := [a])"
  proof -
    have "numbered ALLOCATE_SUBSCRIPTION_NUM 1 ?d" "role_ok (rf_heap ?e) ?d"
      by (simp_all add: numbered_def role_ok_def)
    from create_inv [OF e al this new] show ?thesis
      unfolding i by (auto simp: empty_rf_def)
  qed
  have r: "rf_numbers ?i = rf_numbers s" "rf_asvc ?i = rf_asvc ?e" "rf_ssvc ?i = rf_ssvc ?e" "rf_ipmi ?i = us"
    "rf_next ?i = 1"
    unfolding i using new allocate_rest [OF al] by (auto simp: add_member_def new_object_def empty_rf_def)
  have free: "rf_rec ?i (ODATA_ROLE_ID @ ''/'' @ nm) = None" for nm
  proof -
    have "fixed_resources (ODATA_ROLE_ID @ ''/'' @ nm) = None"
      using static_not_role [of nm] by (auto simp: static_uri_def)
    then show ?thesis using c role_uri_not_member [of ALLOCATE_SUBSCRIPTION_NUM nm "to_string 1"]
      by (simp add: empty_rf_def)
  qed
  define r1 where "r1 = predefined_role ''Administrator''
        [''Login'', ''ConfigureManager'', ''ConfigureUsers'', ''ConfigureSelf'', ''ConfigureComponents''] ?i"
  define r2 where "r2 = predefined_role ''Operator'' [''Login'', ''ConfigureSelf'', ''ConfigureComponents''] r1"
  define r3 where "r3 = predefined_role ''ReadOnly'' [''Login'', ''ConfigureSelf''] r2"
  have ir: "init_roles ?i = r3" by (simp add: init_roles_def r1_def r2_def r3_def)
  have n1: "rf_inv r1 \<and> rf_next r1 = 2
      \<and> (\<exists>ro. rf_heap r1 = (rf_heap ?i)(1 := Some (ORole ro)) \<and> rr_id ro = ''Administrator'')
      \<and> rf_rec r1 = (rf_rec ?i)(ODATA_ROLE_ID @ ''/Administrator'' := Some (Obj 1)) \<and> rf_members r1 = rf_members ?i
      \<and> rf_asvc r1 = rf_asvc ?i \<and> rf_ssvc r1 = rf_ssvc ?i \<and> rf_ipmi r1 = rf_ipmi ?i \<and> rf_numbers r1 = rf_numbers ?i"
    using new_role_inv [of ?i "''Administrator''" "[''Login'', ''ConfigureManager'', ''ConfigureUsers'',
        ''ConfigureSelf'', ''ConfigureComponents'']", folded r1_def, OF conjunct1 [OF c] free] r(5)
    by auto
  have f2: "rf_rec r1 (ODATA_ROLE_ID @ ''/Operator'') = None" using n1 free by simp
  have n2: "rf_inv r2 \<and> rf_next r2 = 3 \<and> (\<exists>v. rf_heap r2 = (rf_heap r1)(2 := v))
      \<and> rf_rec r2 = (rf_rec r1)(ODATA_ROLE_ID @ ''/Operator'' := Some (Obj 2)) \<and> rf_members r2 = rf_members r1
      \<and> rf_asvc r2 = rf_asvc r1 \<and> rf_ssvc r2 = rf_ssvc r1 \<and> rf_ipmi r2 = rf_ipmi r1 \<and> rf_numbers r2 = rf_numbers r1"
    using new_role_inv [of r1 "''Operator''" "[''Login'', ''ConfigureSelf'', ''ConfigureComponents'']", folded r2_def]
      n1 f2 r(5) by simp blast
  have f3: "rf_rec r2 (ODATA_ROLE_ID @ ''/ReadOnly'') = None" using n1 n2 free by simp
  have n3: "rf_inv r3 \<and> rf_next r3 = 4 \<and> (\<exists>v. rf_heap r3 = (rf_heap r2)(3 := v))
      \<and> rf_rec r3 = (rf_rec r2)(ODATA_ROLE_ID @ ''/ReadOnly'' := Some (Obj 3)) \<and> rf_members r3 = rf_members r2
      \<and> rf_asvc r3 = rf_asvc r2 \<and> rf_ssvc r3 = rf_ssvc r2 \<and> rf_ipmi r3 = rf_ipmi r2 \<and> rf_numbers r3 = rf_numbers r2"
    using new_role_inv [of r2 "''ReadOnly''" "[''Login'', ''ConfigureSelf'']", folded r3_def] n2 f3 by simp blast
  have adm: "rf_rec r3 (ODATA_ROLE_ID @ ''/Administrator'') = Some (Obj 1)"
    "\<exists>ro. rf_heap r3 1 = Some (ORole ro) \<and> rr_id ro = ''Administrator''"
    using n1 n2 n3 by auto
  have "boot_base us r3"
    unfolding boot_base_def using n1 n2 n3 c r ns adm by (auto simp: empty_rf_def)
  then show ?thesis using al ir by auto
qed

text \<open>The two accounts.\<close>

definition admin_account :: "nat \<Rightarrow> nat \<Rightarrow> user \<Rightarrow> rf \<Rightarrow> bool" where
  "admin_account a n u s \<longleftrightarrow> (\<exists>x r ro. account_at s a = Some x \<and> ra_id x = to_string n
     \<and> ra_odata x = member_uri ALLOCATE_ACCOUNT_NUM (to_string n)
     \<and> a_user_name (ra_user x) = u_name u \<and> a_password (ra_user x) = u_password u
     \<and> ra_role x = Some r \<and> role_at s r = Some ro \<and> rr_id ro = ''Administrator'')"

lemma admin_account_keep:
  "admin_account a n u s \<Longrightarrow> rf_inv s \<Longrightarrow> rf_heap s' = (rf_heap s)(rf_next s := y) \<Longrightarrow> admin_account a n u s'"
proof -
  assume a: "admin_account a n u s" and inv: "rf_inv s" and h: "rf_heap s' = (rf_heap s)(rf_next s := y)"
  have "rf_heap s (rf_next s) = None" using inv_heap(1) [OF inv, of "rf_next s"] by (cases "rf_heap s (rf_next s)") auto
  then have "account_at s b = Some x \<Longrightarrow> account_at s' b = Some x" "role_at s b = Some z \<Longrightarrow> role_at s' b = Some z" for b x z
    using h by (auto simp: at_iff)
  then show ?thesis using a unfolding admin_account_def by blast
qed

lemma init_admin:
  assumes inv: "rf_inv s" and al: "allocate_in ALLOCATE_ACCOUNT_NUM s = Done (n, s1)"
    and priv: "u_priv (rf_ipmi s ! i) = 4" and ad: "rf_rec s (ODATA_ROLE_ID @ ''/Administrator'') = Some (Obj r)"
  shows "\<exists>s'. init_account i s = Done s' \<and> rf_inv s' \<and> rf_numbers s' = rf_numbers s1
    \<and> (\<exists>x. rf_heap s' = (rf_heap s)(rf_next s := Some (OAccount x))) \<and> rf_next s' = rf_next s + 1
    \<and> rf_rec s' (ODATA_ROLE_ID @ ''/Administrator'') = Some (Obj r)
    \<and> rf_members s' = (rf_members s)(ALLOCATE_ACCOUNT_NUM := rf_members s ALLOCATE_ACCOUNT_NUM @ [rf_next s])
    \<and> rf_asvc s' = rf_asvc s \<and> rf_ssvc s' = rf_ssvc s \<and> rf_ipmi s' = rf_ipmi s
    \<and> admin_account (rf_next s) n (rf_ipmi s ! i) s'"
proof -
  have rn: "role_name_of_priv (u_priv (rf_ipmi s ! i)) = ''Administrator''" by (simp add: priv role_name_of_priv_def)
  obtain s' x where s': "init_account i s = Done s'" "rf_inv s'" "rf_numbers s' = rf_numbers s1"
    "rf_heap s' = (rf_heap s)(rf_next s := Some (OAccount x))" "rf_next s' = rf_next s + 1"
    "rf_rec s' = (rf_rec s)(member_uri ALLOCATE_ACCOUNT_NUM (to_string n) := Some (Obj (rf_next s)),
           member_uri ALLOCATE_ACCOUNT_NUM (to_string n) @ ''/Certificates'' := Some Other_class)"
    "rf_members s' = (rf_members s)(ALLOCATE_ACCOUNT_NUM := rf_members s ALLOCATE_ACCOUNT_NUM @ [rf_next s])"
    "rf_asvc s' = rf_asvc s" "rf_ssvc s' = rf_ssvc s" "rf_ipmi s' = rf_ipmi s"
    and x: "ra_id x = to_string n" "ra_odata x = member_uri ALLOCATE_ACCOUNT_NUM (to_string n)"
    "a_user_name (ra_user x) = u_name (rf_ipmi s ! i)" "a_password (ra_user x) = u_password (rf_ipmi s ! i)"
    "\<exists>r ro. ra_role x = Some r \<and> role_at s r = Some ro \<and> rr_id ro = ''Administrator''"
    by (rule init_account_total [OF inv al, of i]) (use ad rn in simp)
  have "rf_heap s (rf_next s) = None" using inv_heap(1) [OF inv, of "rf_next s"] by (cases "rf_heap s (rf_next s)") auto
  then have "role_at s b = Some z \<Longrightarrow> role_at s' b = Some z" for b z using s'(4) by (auto simp: at_iff)
  moreover have "account_at s' (rf_next s) = Some x" using s'(4) by (simp add: at_iff)
  ultimately have aa: "admin_account (rf_next s) n (rf_ipmi s ! i) s'" unfolding admin_account_def using x by blast
  have "member_uri ALLOCATE_ACCOUNT_NUM (to_string n) @ ''/Certificates'' \<noteq> ODATA_ROLE_ID @ ''/Administrator''"
    "member_uri ALLOCATE_ACCOUNT_NUM (to_string n) \<noteq> ODATA_ROLE_ID @ ''/Administrator''"
    by (simp_all add: member_uri_def ODATA_ROLE_ID_def)
  then have rec: "rf_rec s' (ODATA_ROLE_ID @ ''/Administrator'') = Some (Obj r)" using s'(6) ad by simp
  have hp: "\<exists>x. rf_heap s' = (rf_heap s)(rf_next s := Some (OAccount x))" using s'(4) by (rule exI)
  show ?thesis
  proof (rule exI [of _ s'], intro conjI)
    show "init_account i s = Done s'" by (rule s'(1))
    show "rf_inv s'" by (rule s'(2))
    show "rf_numbers s' = rf_numbers s1" by (rule s'(3))
    show "\<exists>x. rf_heap s' = (rf_heap s)(rf_next s := Some (OAccount x))" by (rule hp)
    show "rf_next s' = rf_next s + 1" by (rule s'(5))
    show "rf_rec s' (ODATA_ROLE_ID @ ''/Administrator'') = Some (Obj r)" by (rule rec)
    show "rf_members s' = (rf_members s)(ALLOCATE_ACCOUNT_NUM := rf_members s ALLOCATE_ACCOUNT_NUM @ [rf_next s])"
      by (rule s'(7))
    show "rf_asvc s' = rf_asvc s" "rf_ssvc s' = rf_ssvc s" "rf_ipmi s' = rf_ipmi s" by (rule s'(8) s'(9) s'(10))+
    show "admin_account (rf_next s) n (rf_ipmi s ! i) s'" by (rule aa)
  qed
qed

lemma boot_priv: "u_priv (ud_users boot_users ! 0) = 4" "u_priv (ud_users boot_users ! 1) = 4"
  by (simp_all add: boot_users_list plat_user_init_def)

lemma boot_runs:
  "\<exists>s. init_redfish (ud_users boot_users) = Done s \<and> rf_inv s \<and> rf_ipmi s = ud_users boot_users
    \<and> rf_asvc s = rf_asvc (empty_rf []) \<and> rf_ssvc s = rf_ssvc (empty_rf [])
    \<and> rf_members s ALLOCATE_ACCOUNT_NUM = [4, 5] \<and> rf_members s ALLOCATE_SESSION_NUM = []
    \<and> admin_account 4 0 (ud_users boot_users ! 0) s \<and> admin_account 5 1 (ud_users boot_users ! 1) s
    \<and> rf_rec s (ODATA_ROLE_ID @ ''/Administrator'') = Some (Obj 1)
    \<and> numset (rf_numbers s) ALLOCATE_ACCOUNT_NUM = {0, 1} \<and> numset (rf_numbers s) ALLOCATE_SESSION_NUM = {}
    \<and> numset (rf_numbers s) ALLOCATE_TASK_NUM = {}
    \<and> numset_num (rf_numbers s) = (numset_num init_numset)(ALLOCATE_ACCOUNT_NUM := 1)"
proof -
  let ?us = "ud_users boot_users"
  have len: "length ?us = 10" using boot_users_inv by (simp add: user_inv_def)
  obtain n0 s0 where a0: "allocate_in ALLOCATE_SUBSCRIPTION_NUM (empty_rf ?us) = Done (n0, s0)"
    and "boot_base ?us (init_roles (init_event_destination (to_string n0) s0))"
    using before_accounts [OF len] by blast
  then obtain s1 where s1: "s1 = init_roles (init_event_destination (to_string n0) s0)" and b: "boot_base ?us s1" by blast
  obtain t1 where t1: "allocate_in ALLOCATE_ACCOUNT_NUM s1 = Done (0, t1)"
    "numset (rf_numbers t1) = (numset (rf_numbers s1))(ALLOCATE_ACCOUNT_NUM := {0})"
    "numset_num (rf_numbers t1) = numset_num (rf_numbers s1)"
    using alloc_first [of s1 ALLOCATE_ACCOUNT_NUM] b by (auto simp: boot_base_def init_numset_def UINT_MAX_def)
  have p0: "u_priv (rf_ipmi s1 ! 0) = 4" using b boot_priv by (simp add: boot_base_def)
  obtain s2 where s2: "init_account 0 s1 = Done s2" "rf_inv s2" "rf_numbers s2 = rf_numbers t1"
    "rf_next s2 = 5" "rf_rec s2 (ODATA_ROLE_ID @ ''/Administrator'') = Some (Obj 1)"
    "rf_members s2 = (rf_members s1)(ALLOCATE_ACCOUNT_NUM := [4])"
    "rf_asvc s2 = rf_asvc s1" "rf_ssvc s2 = rf_ssvc s1" "rf_ipmi s2 = ?us" "admin_account 4 0 (?us ! 0) s2"
    using init_admin [of s1 0 t1 0 1] t1(1) p0 b by (auto simp: boot_base_def)
  obtain t2 where t2: "allocate_in ALLOCATE_ACCOUNT_NUM s2 = Done (1, t2)"
    "numset (rf_numbers t2) = (numset (rf_numbers s2))(ALLOCATE_ACCOUNT_NUM := {1, 0})"
    "numset_num (rf_numbers t2) = (numset_num (rf_numbers s2))(ALLOCATE_ACCOUNT_NUM := 1)"
    using alloc_next [of s2 ALLOCATE_ACCOUNT_NUM 0] s2(3) t1 b
    by (auto simp: boot_base_def init_numset_def UINT_MAX_def)
  have p1: "u_priv (rf_ipmi s2 ! 1) = 4" using s2(9) boot_priv by simp
  obtain s3 x where s3: "init_account 1 s2 = Done s3" "rf_inv s3" "rf_numbers s3 = rf_numbers t2"
    "rf_rec s3 (ODATA_ROLE_ID @ ''/Administrator'') = Some (Obj 1)" "rf_heap s3 = (rf_heap s2)(rf_next s2 := Some (OAccount x))"
    "rf_members s3 = (rf_members s2)(ALLOCATE_ACCOUNT_NUM := [4, 5])"
    "rf_asvc s3 = rf_asvc s2" "rf_ssvc s3 = rf_ssvc s2" "rf_ipmi s3 = ?us" "admin_account 5 1 (?us ! 1) s3"
    using init_admin [OF s2(2) t2(1) p1 s2(5)] s2(4,6,9) by auto
  have "init_redfish ?us = Done s3"
    using a0 s1 s2(1) s3(1) by (simp add: init_redfish_def boot_user_cnt upt_conv_Cons)
  then show ?thesis
    using s3 s2 b t1 t2 admin_account_keep [OF s2(10,2) s3(5)]
    by (auto simp: boot_base_def empty_rf_def insert_commute)
qed

lemma boot_rf_init: "init_redfish (ud_users boot_users) = Done boot_rf"
  using boot_runs by (auto simp: boot_rf_def)

lemma boot_rf_facts:
  "rf_inv boot_rf" "rf_ipmi boot_rf = ud_users boot_users"
  "rf_asvc boot_rf = rf_asvc (empty_rf [])" "rf_ssvc boot_rf = rf_ssvc (empty_rf [])"
  "rf_members boot_rf ALLOCATE_ACCOUNT_NUM = [4, 5]" "rf_members boot_rf ALLOCATE_SESSION_NUM = []"
  "admin_account 4 0 (ud_users boot_users ! 0) boot_rf" "admin_account 5 1 (ud_users boot_users ! 1) boot_rf"
  "rf_rec boot_rf (ODATA_ROLE_ID @ ''/Administrator'') = Some (Obj 1)"
  using boot_runs boot_rf_init by auto

lemma boot_rf_allocates:
  "k \<in> {ALLOCATE_ACCOUNT_NUM, ALLOCATE_SESSION_NUM, ALLOCATE_TASK_NUM} \<Longrightarrow> allocate_in k boot_rf \<noteq> Hangs"
proof -
  have n: "numset (rf_numbers boot_rf) ALLOCATE_ACCOUNT_NUM = {0, 1}" "numset (rf_numbers boot_rf) ALLOCATE_SESSION_NUM = {}"
    "numset (rf_numbers boot_rf) ALLOCATE_TASK_NUM = {}"
    "numset_num (rf_numbers boot_rf) = (numset_num init_numset)(ALLOCATE_ACCOUNT_NUM := 1)"
    using boot_runs boot_rf_init by auto
  assume "k \<in> {ALLOCATE_ACCOUNT_NUM, ALLOCATE_SESSION_NUM, ALLOCATE_TASK_NUM}"
  then show ?thesis
    using n alloc_first [of boot_rf k] alloc_next [of boot_rf k 1]
    by (auto simp: init_numset_def UINT_MAX_def)
qed

end
