(* ===== verification/Redfish_Requests.thy ===== *)
theory Redfish_Requests
  imports Redfish_Boot Redfish_Users
begin

text \<open>
  When a request is served: free numbers suffice for the loops that search one, tasks change nothing
  but the tasks, a login and the creation of an account succeed, and a token stands for the account of
  its session.
\<close>

text \<open>The request a client sends.\<close>

definition request_to :: "string \<Rightarrow> json \<Rightarrow> request" where
  "request_to uri body = \<lparr>q_uri = uri, q_headers = [], q_body = body\<rparr>"

definition with_token :: "string \<Rightarrow> request \<Rightarrow> request" where
  "with_token t q = q\<lparr>q_headers := [(''X-Auth-Token'', t)]\<rparr>"

lemma request_simps [simp]:
  "q_uri (request_to u b) = u" "q_headers (request_to u b) = []" "q_body (request_to u b) = b"
  "q_uri (with_token t q) = q_uri q" "q_headers (with_token t q) = [(''X-Auth-Token'', t)]"
  "q_body (with_token t q) = q_body q" "header ''X-Auth-Token'' (with_token t q) = t"
  by (simp_all add: request_to_def with_token_def header_def)

section \<open>Free numbers\<close>

definition free_numbers :: "rf \<Rightarrow> allocate_num \<Rightarrow> nat" where
  "free_numbers s k = card ({1..<UINT_MAX} - numset (rf_numbers s) k)"

lemma free_allocate:
  assumes "rf_inv s" and "1 \<le> free_numbers s k"
  shows "\<exists>n s1. allocate_in k s = Done (n, s1)"
proof -
  have "{1..<UINT_MAX} - numset (rf_numbers s) k \<noteq> {}"
    using assms(2) by (metis free_numbers_def card.empty not_one_le_zero)
  then obtain j where "j \<in> {1..<UINT_MAX} - numset (rf_numbers s) k" by blast
  then have "1 \<le> j" "j < UINT_MAX" "j \<notin> numset (rf_numbers s) k" by simp_all
  moreover from this have "(numset_num (rf_numbers s) k \<le> j \<or> 1 \<le> j)" by simp
  ultimately obtain r where "allocate_loop (numset_num (rf_numbers s) k) (numset (rf_numbers s) k) = Some r"
    using allocate_loop_ends_iff [OF inv_numbers [OF assms(1)], of k "numset (rf_numbers s) k"] by blast
  then show ?thesis by (simp add: allocate_in_def allocate_numset_num_def)
qed

lemma create_numset:
  assumes "create_numbered k mk s = Done (n, s')" and "rf_inv s"
  shows "numset (rf_numbers s') = (numset (rf_numbers s))(k := insert n (numset (rf_numbers s) k))"
proof -
  obtain s1 x a s2 d where "allocate_in k s = Done (n, s1)" "new_object x s1 = (a, s2)"
    "s' = (add_member k a s2)\<lparr>rf_disk := d\<rparr>"
    using assms(1) by (rule create_numbered_Done)
  then show ?thesis using allocate_in_Done [OF _ assms(2), of k n s1] by (auto simp: new_object_def add_member_def)
qed

lemma free_insert: "numset (rf_numbers t) k = insert n (numset (rf_numbers s) k) \<Longrightarrow>
    free_numbers s k \<le> free_numbers t k + 1"
proof -
  assume n: "numset (rf_numbers t) k = insert n (numset (rf_numbers s) k)"
  let ?S = "{1..<UINT_MAX} - numset (rf_numbers s) k"
  have "card ?S \<le> card (?S - {n}) + 1" by (cases "n \<in> ?S") (simp_all add: card_Diff_singleton_if)
  moreover have "?S - {n} = {1..<UINT_MAX} - numset (rf_numbers t) k" using n by auto
  ultimately show ?thesis by (simp add: free_numbers_def)
qed

section \<open>Tasks change only tasks\<close>

definition task_uri :: "string \<Rightarrow> bool" where
  "task_uri u \<longleftrightarrow> (\<exists>n. u = member_uri ALLOCATE_TASK_NUM (to_string n))"

definition tasks_only :: "rf \<Rightarrow> rf \<Rightarrow> bool" where
  "tasks_only s t \<longleftrightarrow> account_at t = account_at s \<and> session_at t = session_at s \<and> role_at t = role_at s
     \<and> (\<forall>k. k \<noteq> ALLOCATE_TASK_NUM \<longrightarrow> rf_members t k = rf_members s k
          \<and> numset (rf_numbers t) k = numset (rf_numbers s) k)
     \<and> rf_asvc t = rf_asvc s \<and> rf_ssvc t = rf_ssvc s \<and> rf_ipmi t = rf_ipmi s
     \<and> (\<forall>u. \<not> task_uri u \<longrightarrow> rf_rec t u = rf_rec s u)"

lemma tasks_only_free: "tasks_only s t \<Longrightarrow> k \<noteq> ALLOCATE_TASK_NUM \<Longrightarrow> free_numbers t k = free_numbers s k"
  by (simp add: tasks_only_def free_numbers_def)

lemma generate_task_total:
  assumes inv: "rf_inv s" and f: "1 \<le> free_numbers s ALLOCATE_TASK_NUM"
  obtains n a s1 where "generate_task_resource m q s = Done (n, s1)" and "rf_inv s1" and "tasks_only s s1"
    and "free_numbers s ALLOCATE_TASK_NUM \<le> free_numbers s1 ALLOCATE_TASK_NUM + 1"
    and "task_holds a (member_uri ALLOCATE_TASK_NUM (to_string n)) (q_headers q) (q_body q) s1"
proof -
  obtain n t where al: "allocate_in ALLOCATE_TASK_NUM s = Done (n, t)" using free_allocate [OF inv f] by blast
  let ?u = "member_uri ALLOCATE_TASK_NUM (to_string n)"
  define y where "y = \<lparr>rt_odata = ?u, rt_name = ''Task'', rt_id = to_string n, rt_start = rf_clock t,
         rt_end = [], rt_state = ''New'', rt_status = ''OK'', rt_headers = q_headers q,
         rt_operation = m, rt_body = q_body q, rt_target = q_uri q\<rparr>"
  have p: "proper ALLOCATE_TASK_NUM" by simp
  have y: "numbered ALLOCATE_TASK_NUM n (OTask y)" "role_ok (rf_heap s) (OTask y)" "live s (OTask y)"
    by (simp_all add: numbered_def role_ok_def y_def)
  obtain s1 where s1: "generate_task_resource m q s = Done (n, s1)" "rf_inv s1"
    "rf_heap s1 = (rf_heap s)(rf_next s := Some (OTask y))" "rf_heap s (rf_next s) = None"
    "rf_rec s1 = (rf_rec s)(?u := Some (Obj (rf_next s)))"
    "rf_members s1 = (rf_members s)(ALLOCATE_TASK_NUM := rf_members s ALLOCATE_TASK_NUM @ [rf_next s])"
    "rf_asvc s1 = rf_asvc s" "rf_ssvc s1 = rf_ssvc s" "rf_ipmi s1 = rf_ipmi s"
    unfolding generate_task_resource_def
    by (rule create_numbered_total [OF inv p al _ y]) (auto simp: y_def)
  have ns: "numset (rf_numbers s1) = (numset (rf_numbers s))(ALLOCATE_TASK_NUM := insert n (numset (rf_numbers s) ALLOCATE_TASK_NUM))"
    using s1(1) inv unfolding generate_task_resource_def by (rule create_numset)
  have "account_at s1 = account_at s" "session_at s1 = session_at s" "role_at s1 = role_at s"
    using s1(3,4) by (auto simp: at_defs fun_eq_iff)
  then have "tasks_only s s1" unfolding tasks_only_def using s1 ns by (auto simp: task_uri_def)
  moreover have "task_holds (rf_next s) ?u (q_headers q) (q_body q) s1"
    using s1(3) by (simp add: task_holds_def y_def)
  ultimately show thesis using s1(1,2) free_insert [of s1 ALLOCATE_TASK_NUM n s] ns that by simp
qed

lemma complete_task_total:
  assumes inv: "rf_inv s" and h: "task_holds a (member_uri ALLOCATE_TASK_NUM (to_string n)) hs b s"
  obtains s1 where "complete_task_resource n s = Done s1" and "rf_inv s1" and "tasks_only s s1"
    and "free_numbers s1 ALLOCATE_TASK_NUM = free_numbers s ALLOCATE_TASK_NUM"
proof -
  let ?u = "member_uri ALLOCATE_TASK_NUM (to_string n)"
  obtain y where y: "rf_heap s a = Some (OTask y)" "rt_odata y = ?u" using h by (auto simp: task_holds_def)
  have l: "lookup s ?u = Some a" using inv_heap(2) [OF inv y(1)] y(2) by (simp add: lookup_iff)
  let ?z = "OTask (y\<lparr>rt_end := rf_clock s, rt_state := ''Completed''\<rparr>)"
  let ?t = "put_object a ?z s"
  have it: "rf_inv ?t" by (rule put_object_inv [OF inv y(1)]) (simp_all add: role_ok_def)
  have "rf_heap ?t a = Some ?z" "rf_rec ?t ?u = Some (Obj a)" using l by (simp_all add: put_object_def lookup_iff)
  then obtain d where d: "resource_save_json ?u ?t = Done (?t\<lparr>rf_disk := d\<rparr>)"
    using object_total [OF it] save_total by fastforce
  have "complete_task_resource n s = Done (?t\<lparr>rf_disk := d\<rparr>)"
    using l y(1) d by (simp add: complete_task_resource_def Let_def task_at_def)
  moreover have "account_at ?t = account_at s" "session_at ?t = session_at s" "role_at ?t = role_at s"
    using y(1) by (auto simp: at_defs fun_eq_iff put_object_def)
  then have "tasks_only s (?t\<lparr>rf_disk := d\<rparr>)" by (simp add: tasks_only_def put_object_def)
  ultimately show thesis using it that by (simp add: free_numbers_def put_object_def)
qed

text \<open>A served request under its task.\<close>

lemma with_task_total:
  assumes inv: "rf_inv s" and f: "1 \<le> free_numbers s ALLOCATE_TASK_NUM"
    and r: "\<And>s1. rf_inv s1 \<Longrightarrow> tasks_only s s1 \<Longrightarrow> \<exists>s2 p. treat q s1 = Done (s2, p) \<and> P s1 s2 p"
    and k: "\<And>s1 s2 p. treat q s1 = Done (s2, p) \<Longrightarrow> keeps s1 s2"
    and n: "\<And>s1 s2 p. treat q s1 = Done (s2, p) \<Longrightarrow> P s1 s2 p \<Longrightarrow>
      numset (rf_numbers s2) ALLOCATE_TASK_NUM = numset (rf_numbers s1) ALLOCATE_TASK_NUM"
  shows "\<exists>s1 s2 s3 p. with_task m treat q s = Done (s3, p) \<and> rf_inv s3 \<and> tasks_only s s1 \<and> rf_inv s1 \<and> P s1 s2 p
    \<and> tasks_only s2 s3 \<and> free_numbers s ALLOCATE_TASK_NUM \<le> free_numbers s3 ALLOCATE_TASK_NUM + 1"
proof -
  obtain i a s1 where s1: "generate_task_resource m q s = Done (i, s1)" "rf_inv s1" "tasks_only s s1"
    "free_numbers s ALLOCATE_TASK_NUM \<le> free_numbers s1 ALLOCATE_TASK_NUM + 1"
    "task_holds a (member_uri ALLOCATE_TASK_NUM (to_string i)) (q_headers q) (q_body q) s1"
    by (rule generate_task_total [OF inv f])
  obtain s2 p where s2: "treat q s1 = Done (s2, p)" "P s1 s2 p" using r [OF s1(2,3)] by blast
  have "rf_inv s2 \<and> task_holds a (member_uri ALLOCATE_TASK_NUM (to_string i)) (q_headers q) (q_body q) s2"
    using tasks.prims [OF _ s1(2,5), of s2] k [OF s2(1)] s1(2) by (simp add: keeps_def)
  then obtain s3 where s3: "complete_task_resource i s2 = Done s3" "rf_inv s3" "tasks_only s2 s3"
    "free_numbers s3 ALLOCATE_TASK_NUM = free_numbers s2 ALLOCATE_TASK_NUM"
    using complete_task_total by blast
  have "free_numbers s2 ALLOCATE_TASK_NUM = free_numbers s1 ALLOCATE_TASK_NUM"
    using n [OF s2] by (simp add: free_numbers_def)
  moreover have "with_task m treat q s = Done (s3, p)"
    using s1(1) s2(1) s3(1) by (simp add: with_task_def)
  ultimately show ?thesis using s1 s2 s3 by auto
qed

section \<open>Sessions\<close>

text \<open>The token of a session, and the account the session is for.\<close>

definition sole_session :: "rf \<Rightarrow> string \<Rightarrow> nat \<Rightarrow> rf_session \<Rightarrow> bool" where
  "sole_session s t c y \<longleftrightarrow> session_at s c = Some y \<and> rs_token y = t
     \<and> (\<forall>d z. session_at s d = Some z \<longrightarrow> rs_token z = t \<longrightarrow> d = c)"

lemma sole_find:
  assumes "rf_inv s" and "sole_session s t c y"
  shows "find_token_session t s = Done (Some c)"
  unfolding find_token_session_def
  by (rule scan_first [where x = y])
    (use assms inv_sessions [OF assms(1)] in \<open>auto simp: sole_session_def\<close>)

lemma session_exists: "rf_inv s \<Longrightarrow> session_at s c = Some y \<Longrightarrow> rf_rec s (rs_odata y) = Some (Obj c)"
  using inv_heap(2) [of s c "OSession y"] by (simp add: at_iff)

lemma token_check_account:
  assumes inv: "rf_inv s" and c: "sole_session s t c y" and v: "0 < rs_remain y" "rs_account y = Some b"
  shows "token_check (with_token t q) s = Done (Inr b)"
proof -
  have y: "session_at s c = Some y" using c by (simp add: sole_session_def)
  have r: "rf_rec s (rs_odata y) = Some (Obj c)" by (rule session_exists [OF inv y])
  have "is_session_valid t s = Done True" "get_session_odata_id_by_token t s = Done (rs_odata y)"
    using sole_find [OF inv c] y r v(1)
    by (simp_all add: is_session_valid_def get_session_odata_id_by_token_def record_is_exist_def)
  then show ?thesis using y r v(2) by (simp add: token_check_def Let_def lookup_def)
qed

text \<open>A login.\<close>

definition login_body :: "string \<Rightarrow> string \<Rightarrow> json" where
  "login_body u p = JObj [(''UserName'', JStr u), (''Password'', JStr p)]"

definition new_token_reply :: "string \<Rightarrow> nat \<Rightarrow> response" where
  "new_token_reply t n = \<lparr>p_status = 201, p_body = None,
     p_headers = [(''X-Auth-Token'', t), (''Location'', member_uri ALLOCATE_SESSION_NUM (to_string n))]\<rparr>"

definition sole_account :: "rf \<Rightarrow> u8 list \<Rightarrow> nat \<Rightarrow> rf_account \<Rightarrow> bool" where
  "sole_account s u a x \<longleftrightarrow> account_at s a = Some x \<and> a_user_name (ra_user x) = u
     \<and> (\<forall>b y. account_at s b = Some y \<longrightarrow> a_user_name (ra_user y) = u \<longrightarrow> b = a)"

lemma sole_account_scan:
  assumes "rf_inv s" and "sole_account s u a x"
  shows "scan (account_at s) (\<lambda>x. a_user_name (ra_user x) = u) (rf_members s ALLOCATE_ACCOUNT_NUM) = Done (Some a)"
  by (rule scan_first [where x = x])
    (use assms inv_accounts [OF assms(1)] in \<open>auto simp: sole_account_def\<close>)

lemma make_session_total:
  assumes inv: "rf_inv s" and f: "1 \<le> free_numbers s ALLOCATE_SESSION_NUM" and e: "ss_enabled (rf_ssvc s)"
    and x: "sole_account s (bytes_of u) a x" and pw: "a_password (ra_user x) = bytes_of p"
  obtains n c s1 where "make_session t (login_body u p) s = Done (s1, new_token_reply t n)" and "rf_inv s1"
    and "account_at s1 = account_at s" and "role_at s1 = role_at s" and "session_at s c = None"
    and "session_at s1 = (session_at s)
      (c := Some (fresh_session (member_uri ALLOCATE_SESSION_NUM (to_string n)) (to_string n) a x t s))"
    and "rf_ssvc s1 = rf_ssvc s" and "rf_asvc s1 = rf_asvc s" and "rf_ipmi s1 = rf_ipmi s"
    and "numset (rf_numbers s1) ALLOCATE_TASK_NUM = numset (rf_numbers s) ALLOCATE_TASK_NUM"
proof -
  obtain n s1 where al: "allocate_in ALLOCATE_SESSION_NUM s = Done (n, s1)" using free_allocate [OF inv f] by blast
  have v: "rf_ssvc s1 = rf_ssvc s" using al by (auto simp: allocate_in_def split: option.splits)
  let ?mk = "\<lambda>odata i s1. Done (OSession (fresh_session odata i a x t s1))"
  let ?y = "fresh_session (member_uri ALLOCATE_SESSION_NUM (to_string n)) (to_string n) a x t s"
  have a: "account_at s a = Some x" using x by (simp add: sole_account_def)
  have y: "numbered ALLOCATE_SESSION_NUM n (OSession ?y)" "role_ok (rf_heap s) (OSession ?y)" "live s (OSession ?y)"
    using a by (simp_all add: numbered_def role_ok_def fresh_session_def live_def)
  have mk: "?mk (member_uri ALLOCATE_SESSION_NUM (to_string n)) (to_string n) s1 = Done (OSession ?y)"
    using v by (simp add: fresh_session_def)
  have p: "proper ALLOCATE_SESSION_NUM" by simp
  obtain s2 where s2: "create_numbered ALLOCATE_SESSION_NUM ?mk s = Done (n, s2)" "rf_inv s2"
    "rf_heap s2 = (rf_heap s)(rf_next s := Some (OSession ?y))" "rf_heap s (rf_next s) = None"
    "rf_asvc s2 = rf_asvc s" "rf_ssvc s2 = rf_ssvc s" "rf_ipmi s2 = rf_ipmi s"
    by (rule create_numbered_total [where mk = ?mk, OF inv p al mk y])
  have "make_session t (login_body u p) s = Done (s2, new_token_reply t n)"
    using e sole_account_scan [OF inv x] a pw s2(1)
    by (simp add: make_session_def login_body_def get_string_value_def get_value_def new_token_reply_def)
  moreover have "account_at s2 = account_at s" "role_at s2 = role_at s" "session_at s (rf_next s) = None"
    "session_at s2 = (session_at s)(rf_next s := Some ?y)"
    using s2(3,4) by (auto simp: at_defs fun_eq_iff)
  ultimately show thesis using s2 create_numset [OF s2(1) inv] that by simp
qed

section \<open>New accounts\<close>

definition account_body :: "string \<Rightarrow> string \<Rightarrow> string \<Rightarrow> json" where
  "account_body u p r = JObj [(''UserName'', JStr u), (''Password'', JStr p), (''RoleId'', JStr r)]"

lemma no_account_scan:
  assumes "rf_inv s" and "\<forall>b y. account_at s b = Some y \<longrightarrow> a_user_name (ra_user y) \<noteq> u"
  shows "scan (account_at s) (\<lambda>x. a_user_name (ra_user x) = u) (rf_members s ALLOCATE_ACCOUNT_NUM) = Done None"
  by (rule scan_absent) (use assms inv_accounts [OF assms(1)] in blast)

lemma reply_object_total:
  assumes "rf_inv s" and "rf_rec s u = Some (Obj a)" and "rf_heap s a = Some x" and "live s x"
  shows "\<exists>p. reply_record u st s = Done (s, p) \<and> p_status p = st"
  using object_total [OF assms] by (auto simp: reply_record_def success_reply_def json_reply_def)

lemma make_account_total:
  assumes inv: "rf_inv s" and f: "1 \<le> free_numbers s ALLOCATE_ACCOUNT_NUM" and e: "as_enabled (rf_asvc s)"
    and len: "as_min_password (rf_asvc s) \<le> length p" "length p \<le> as_max_password (rf_asvc s)"
    and new: "\<forall>b y. account_at s b = Some y \<longrightarrow> a_user_name (ra_user y) \<noteq> bytes_of u"
    and role: "rf_rec s (ODATA_ROLE_ID @ ''/'' @ r) \<noteq> None"
  obtains s1 rp a x i ro where "make_account (account_body u p r) s = Done (s1, rp)" and "p_status rp = 201"
    and "rf_inv s1" and "account_at s a = None" and "account_at s1 = (account_at s)(a := Some x)"
    and "a_user_name (ra_user x) = bytes_of u" and "a_password (ra_user x) = bytes_of p"
    and "ra_role x = Some i" and "role_at s1 i = Some ro" and "rr_id ro = r"
    and "session_at s1 = session_at s" and "role_at s1 = role_at s" and "rf_ssvc s1 = rf_ssvc s"
    and "\<forall>k. k \<noteq> ALLOCATE_ACCOUNT_NUM \<longrightarrow> numset (rf_numbers s1) k = numset (rf_numbers s) k"
proof -
  let ?K = ALLOCATE_ACCOUNT_NUM
  obtain n t where al: "allocate_in ?K s = Done (n, t)" using free_allocate [OF inv f] by blast
  let ?o = "member_uri ?K (to_string n)"
  obtain g i ro where g: "fresh_account ?o (to_string n) r t = Done g" "ra_odata g = ?o" "ra_id g = to_string n"
    "role_ok (rf_heap s) (OAccount g)" "ra_role g = Some i" "role_at s i = Some ro" "rr_id ro = r"
    using fresh_account_allocated [OF inv al, of ?o "to_string n" r] role by metis
  define x where "x = g\<lparr>ra_name := ''User Account'',
           ra_user := (ra_user g)\<lparr>a_user_name := bytes_of u, a_password := bytes_of p\<rparr>,
           ra_enabled := True, ra_locked := False\<rparr>"
  let ?mk = "\<lambda>odata i s1. rbind (fresh_account odata i r s1) (\<lambda>f. Done (OAccount (f\<lparr>ra_name := ''User Account'',
           ra_user := (ra_user f)\<lparr>a_user_name := bytes_of u, a_password := bytes_of p\<rparr>,
           ra_enabled := True, ra_locked := False\<rparr>)))"
  have mk: "?mk ?o (to_string n) t = Done (OAccount x)" using g(1) by (simp add: x_def)
  have y: "numbered ?K n (OAccount x)" "role_ok (rf_heap s) (OAccount x)" "live s (OAccount x)"
    using g(2-4) by (simp_all add: numbered_def role_ok_def x_def)
  have pr: "proper ?K" by simp
  obtain s1 where s1: "create_numbered ?K ?mk s = Done (n, s1)" "rf_inv s1"
    "rf_heap s1 = (rf_heap s)(rf_next s := Some (OAccount x))" "rf_heap s (rf_next s) = None"
    "rf_rec s1 = (rf_rec s)(?o := Some (Obj (rf_next s)))" "rf_ssvc s1 = rf_ssvc s"
    by (rule create_numbered_total [where mk = ?mk, OF inv pr al mk y])
  obtain rp where rp: "reply_record ?o 201 s1 = Done (s1, rp)" "p_status rp = 201"
    using reply_object_total [OF s1(2), of ?o "rf_next s" "OAccount x"] s1(3,5) by auto
  have "create_account u p r True s = Done (s1, rp)" using s1(1) rp(1) by (simp add: create_account_def)
  then have "make_account (account_body u p r) s = Done (s1, rp)"
    using e len role no_account_scan [OF inv new]
    by (simp add: make_account_def account_body_def get_string_value_def get_value_def role_of_body_def
        enabled_of_body_def record_is_exist_def)
  moreover have "account_at s (rf_next s) = None" "account_at s1 = (account_at s)(rf_next s := Some x)"
    "session_at s1 = session_at s" "role_at s1 = role_at s"
    using s1(3,4) by (auto simp: at_defs fun_eq_iff)
  moreover have "ra_role x = Some i" "a_user_name (ra_user x) = bytes_of u" "a_password (ra_user x) = bytes_of p"
    using g(5) by (simp_all add: x_def)
  ultimately show thesis using that g(6,7) rp(2) s1(2,6) create_numset [OF s1(1) inv] by simp
qed

section \<open>Removing\<close>

lemma delete_numbered_total:
  assumes inv: "rf_inv s" and a: "rf_heap s a = Some x" and n: "numbered k n x" and k: "proper k"
  shows "\<exists>d. delete_numbered k n a u s = Done ((removed k n a x s)\<lparr>rf_disk := d\<rparr>)"
proof -
  let ?t = "(release_in k n s)\<lparr>rf_rec := (rf_rec s)(obj_odata x := None), rf_heap := (rf_heap s)(a := None)\<rparr>"
  have d: "delete_object a (release_in k n s) = Done ?t" and e: "erase_member k a ?t = removed k n a x s"
    using a by (simp_all add: delete_object_def removed_def release_in_def)
  obtain d where r: "delete_resource u (removed k n a x s) = (removed k n a x s)\<lparr>rf_disk := d\<rparr>"
    using disk_same [of "removed k n a x s"] that by (cases "record_is_exist u (removed k n a x s)") (auto simp: delete_resource_def)
  have "rf_inv ((removed k n a x s)\<lparr>rf_disk := d\<rparr>)" using remove_inv [OF inv a n] by simp
  then obtain d' where "resource_save_json (coll_uri k) ((removed k n a x s)\<lparr>rf_disk := d\<rparr>)
      = Done ((removed k n a x s)\<lparr>rf_disk := d\<rparr>\<lparr>rf_disk := d'\<rparr>)"
    using collection_total [OF _ k] save_total by blast
  then show ?thesis using d e r by (intro exI [of _ d']) (simp add: delete_numbered_def)
qed

text \<open>Objects of one class with the same number are the same object.\<close>

lemma same_number:
  assumes "rf_inv s" and "rf_heap s a = Some x" and "rf_heap s b = Some y"
    and "obj_kind x = Some k" and "obj_kind y = Some k" and "obj_id x = obj_id y"
  shows "a = b"
proof -
  obtain m n where "numbered k m x" "numbered k n y"
    using inv_heap(4) [OF assms(1,2,4)] inv_heap(4) [OF assms(1,3,5)] by blast
  then have "obj_odata x = obj_odata y" using assms(6) by (simp add: numbered_def)
  then show ?thesis using inv_heap(2) [OF assms(1,2)] inv_heap(2) [OF assms(1,3)] by simp
qed

lemma scan_session_id:
  assumes inv: "rf_inv s" and y: "session_at s a = Some y"
  shows "scan (session_at s) (\<lambda>z. rs_id z = rs_id y) (rf_members s ALLOCATE_SESSION_NUM) = Done (Some a)"
proof (rule scan_first [where x = y])
  fix b z assume "session_at s b = Some z" "rs_id z = rs_id y"
  then show "b = a" using same_number [OF inv, of b "OSession z" a "OSession y"] y by (simp add: at_iff)
qed (use inv y inv_sessions [OF inv] in auto)

lemma scan_account_id:
  assumes inv: "rf_inv s" and x: "account_at s a = Some x"
  shows "scan (account_at s) (\<lambda>z. ra_id z = ra_id x) (rf_members s ALLOCATE_ACCOUNT_NUM) = Done (Some a)"
proof (rule scan_first [where x = x])
  fix b z assume "account_at s b = Some z" "ra_id z = ra_id x"
  then show "b = a" using same_number [OF inv, of b "OAccount z" a "OAccount x"] x by (simp add: at_iff)
qed (use inv x inv_accounts [OF inv] in auto)

lemma scan_same: "\<forall>b. map_option P (get' b) = map_option P (get b) \<Longrightarrow> scan get' P ms = scan get P ms"
proof (induction ms)
  case (Cons b ms)
  then show ?case using spec [OF Cons.prems, of b] by (cases "get b"; cases "get' b") auto
qed simp

lemma unsigned_small: "n \<le> 2147483647 \<Longrightarrow> unsigned_of (int n) = n"
  by (simp add: unsigned_of_def)

lemma session_numbered:
  assumes "rf_inv s" and "session_at s a = Some y"
  obtains n where "rs_id y = to_string n" and "numbered ALLOCATE_SESSION_NUM n (OSession y)"
  using inv_heap(4) [OF assms(1), of a "OSession y" ALLOCATE_SESSION_NUM] assms(2)
  by (auto simp: at_iff numbered_def)

lemma account_numbered:
  assumes "rf_inv s" and "account_at s a = Some y"
  obtains n where "ra_id y = to_string n" and "numbered ALLOCATE_ACCOUNT_NUM n (OAccount y)"
  using inv_heap(4) [OF assms(1), of a "OAccount y" ALLOCATE_ACCOUNT_NUM] assms(2)
  by (auto simp: at_iff numbered_def)

text \<open>The second after the last one: the session is gone.\<close>

lemma expire_total:
  assumes inv: "rf_inv s" and y: "session_at s a = Some y" "rs_remain y = 0" and small: "stoi (rs_id y) \<noteq> Fail 2"
  shows "\<exists>s'. session_timer a s = Done s' \<and> session_at s' a = None \<and> \<not> record_is_exist (rs_odata y) s'"
proof -
  obtain n where n: "rs_id y = to_string n" "numbered ALLOCATE_SESSION_NUM n (OSession y)"
    by (rule session_numbered [OF inv y(1)])
  have st: "stoi (rs_id y) = Ret (int n)" "n \<le> 2147483647" using small n(1) by (auto simp: stoi_to_string split: if_splits)
  have h: "rf_heap s a = Some (OSession y)" using y(1) by (simp add: at_iff)
  have p: "proper ALLOCATE_SESSION_NUM" by simp
  obtain d where d: "delete_numbered ALLOCATE_SESSION_NUM n a (rs_odata y) s
      = Done ((removed ALLOCATE_SESSION_NUM n a (OSession y) s)\<lparr>rf_disk := d\<rparr>)"
    using delete_numbered_total [OF inv h n(2) p] by blast
  have "session_timer a s = Done ((removed ALLOCATE_SESSION_NUM n a (OSession y) s)\<lparr>rf_disk := d\<rparr>)"
    using y st d scan_session_id [OF inv y(1)]
    by (simp add: session_timer_def expire_session_def improved_stoi_def unsigned_small)
  then show ?thesis by (simp add: session_at_def record_is_exist_def)
qed

end
