(* ===== verification/Redfish_Properties.thy ===== *)
theory Redfish_Properties
  imports Redfish_Requests Redfish_Boot
begin

text \<open>
  What the redfish service guarantees and what it gives away: reachable states are well-formed, what
  a request leaves behind for others to read, who may become an administrator, the end of a session,
  deleted accounts, and the effect of a change of password.
\<close>

section \<open>Reachable states\<close>

lemma init_accounts_inv:
  "init_accounts is s = Done s' \<Longrightarrow> rf_inv s \<Longrightarrow> rf_inv s' \<and> rf_asvc s' = rf_asvc s"
proof (induction "is" arbitrary: s)
  case (Cons i "is")
  obtain t where t: "init_account i s = Done t" "init_accounts is t = Done s'"
    using Cons.prems(1) by (auto simp: rbind_Done)
  then obtain n s1 where "allocate_in ALLOCATE_ACCOUNT_NUM s = Done (n, s1)"
    by (auto simp: init_account_def rbind_Done)
  from init_account_total [OF Cons.prems(2) this, of i] t(1)
  have "rf_inv t" "rf_asvc t = rf_asvc s" by fastforce+
  then show ?case using Cons.IH [OF t(2)] by simp
qed simp

lemma init_redfish_inv:
  assumes "length us = 10" and "init_redfish us = Done s"
  shows "rf_inv s \<and> policy_ok (rf_asvc s)"
proof -
  obtain n t where "allocate_in ALLOCATE_SUBSCRIPTION_NUM (empty_rf us) = Done (n, t)"
    and b: "boot_base us (init_roles (init_event_destination (to_string n) t))"
    using before_accounts [OF assms(1)] by blast
  then have "init_accounts [0..<get_user_cnt us] (init_roles (init_event_destination (to_string n) t)) = Done s"
    using assms(2) by (simp add: init_redfish_def)
  from init_accounts_inv [OF this] b show ?thesis
    by (simp add: boot_base_def policy_ok_def empty_rf_def)
qed

text \<open>C14. In every state the service can reach from its start, by any sequence of requests and timer ticks
  that are answered, the record is well-formed: each URI of an object leads to an object with that
  URI, the members of a collection are exactly the objects of its class, numbers are used once, the
  role of an account is a role, and the password range of the account service is not empty.\<close>

theorem redfish_reachable_ok:
  assumes "length us = 10" and "init_redfish us = Done s0" and "rf_reach s0 s"
  shows "rf_inv s \<and> policy_ok (rf_asvc s)"
  using init_redfish_inv [OF assms(1,2)] policy.reach [OF assms(3)] by simp

lemma redfish_reachable_ok_witness: "rf_inv boot_rf \<and> policy_ok (rf_asvc boot_rf)"
proof (rule redfish_reachable_ok [of "ud_users boot_users" boot_rf boot_rf])
  show "length (ud_users boot_users) = 10" using boot_users_inv by (simp add: user_inv_def)
qed (simp_all add: boot_rf_init rf_reach.start)

section \<open>Reading without a session\<close>

lemma string_of_bytes [simp]: "string_of (bytes_of s) = s"
proof -
  have "unat (of_char c :: u8) = of_char c" for c
    unfolding of_nat_of_char [symmetric, where 'a = u8] unat_of_nat
    using nat_of_char_less_256 [of c] by simp
  then show ?thesis by (simp add: string_of_def bytes_of_def comp_def)
qed

text \<open>A GET needs no session: whatever its headers are, the GET of an account answers 200 with the
  password in clear, and the GET of a session answers 200 with the token of the session.\<close>

theorem get_gives_secrets:
  assumes "rf_inv s" and "rf_heap s a = Some x" and "live s x" and "q_uri q = obj_odata x"
  shows "\<exists>fs. treat_get q s = Done (s, \<lparr>p_status = 200, p_body = Some (JObj fs), p_headers = []\<rparr>)
    \<and> (\<forall>y. x = OAccount y \<longrightarrow> map_of fs ''Password'' = Some (JStr (string_of (a_password (ra_user y)))))
    \<and> (\<forall>y. x = OSession y \<longrightarrow> map_of fs ''AuthToken'' = Some (JStr (rs_token y)))"
proof -
  have r: "rf_rec s (q_uri q) = Some (Obj a)" using inv_heap(2) [OF assms(1,2)] assms(4) by simp
  obtain j where j: "object_json s x = Done j"
    using object_json_total [OF inv_heap(3) [OF assms(1,2)] assms(3)] by blast
  have "\<exists>fs. j = JObj fs
    \<and> (\<forall>y. x = OAccount y \<longrightarrow> map_of fs ''Password'' = Some (JStr (string_of (a_password (ra_user y)))))
    \<and> (\<forall>y. x = OSession y \<longrightarrow> map_of fs ''AuthToken'' = Some (JStr (rs_token y)))"
    using j by (cases x) (auto simp: object_json_def account_json_def session_json_def role_json_def task_json_def
        dest_json_def resource_fields_def done_simps)
  then show ?thesis using r j assms(2) by (auto simp: treat_get_def record_is_exist_def record_get_json_def)
qed

lemma boot_admin:
  obtains x r ro where "rf_heap boot_rf 5 = Some (OAccount x)" and "ra_id x = to_string 1"
    and "ra_odata x = member_uri ALLOCATE_ACCOUNT_NUM (to_string 1)"
    and "a_user_name (ra_user x) = bytes_of ''admin''" and "a_password (ra_user x) = bytes_of ''admin''"
    and "ra_role x = Some r" and "role_at boot_rf r = Some ro" and "rr_id ro = ''Administrator''"
proof -
  have "bytes_of ''admin'' = admin_name" by (simp add: bytes_of_def admin_name_def)
  then show thesis
    using boot_rf_facts(8) that
    by (auto simp: admin_account_def at_iff boot_users_list plat_user_init_def)
qed

lemma get_gives_secrets_witness:
  "\<exists>fs. treat_get (request_to ''/redfish/v1/AccountService/Accounts/1'' JNull) boot_rf
      = Done (boot_rf, \<lparr>p_status = 200, p_body = Some (JObj fs), p_headers = []\<rparr>)
    \<and> map_of fs ''Password'' = Some (JStr ''admin'')"
proof -
  obtain x where x: "rf_heap boot_rf 5 = Some (OAccount x)" "ra_odata x = member_uri ALLOCATE_ACCOUNT_NUM (to_string 1)"
    "a_password (ra_user x) = bytes_of ''admin''" using boot_admin by metis
  have u: "member_uri ALLOCATE_ACCOUNT_NUM (to_string 1) = ''/redfish/v1/AccountService/Accounts/1''"
    by (simp add: member_uri_def to_string.simps digit_chars_def)
  show ?thesis
    using get_gives_secrets [OF boot_rf_facts(1) x(1), of "request_to ''/redfish/v1/AccountService/Accounts/1'' JNull"] x(2,3) u
    by auto
qed

lemma boot_free:
  "2 \<le> free_numbers boot_rf ALLOCATE_TASK_NUM" "1 \<le> free_numbers boot_rf ALLOCATE_ACCOUNT_NUM"
  "1 \<le> free_numbers boot_rf ALLOCATE_SESSION_NUM"
proof -
  have n: "numset (rf_numbers boot_rf) ALLOCATE_ACCOUNT_NUM = {0, 1}"
    "numset (rf_numbers boot_rf) ALLOCATE_SESSION_NUM = {}" "numset (rf_numbers boot_rf) ALLOCATE_TASK_NUM = {}"
    using boot_runs boot_rf_init by auto
  have "{1..<UINT_MAX} - {0, 1} = {2..<UINT_MAX}" by auto
  then show "2 \<le> free_numbers boot_rf ALLOCATE_TASK_NUM" "1 \<le> free_numbers boot_rf ALLOCATE_ACCOUNT_NUM"
    "1 \<le> free_numbers boot_rf ALLOCATE_SESSION_NUM"
    by (simp_all add: free_numbers_def n UINT_MAX_def)
qed

lemma boot_accounts:
  assumes "account_at boot_rf b = Some y"
  shows "b = 4 \<and> a_user_name (ra_user y) = root_name \<or> b = 5 \<and> a_user_name (ra_user y) = admin_name"
proof -
  have "b \<in> set (rf_members boot_rf ALLOCATE_ACCOUNT_NUM)" using assms inv_accounts [OF boot_rf_facts(1)] by simp
  then have "b = 4 \<or> b = 5" by (simp add: boot_rf_facts(5))
  then show ?thesis
    using assms boot_rf_facts(7,8) by (auto simp: admin_account_def boot_users_list plat_user_init_def)
qed

lemma boot_no_sessions: "session_at boot_rf c = None"
  using inv_sessions [OF boot_rf_facts(1), of c] by (auto simp: boot_rf_facts(6))

lemma boot_services:
  "as_enabled (rf_asvc boot_rf)" "ss_enabled (rf_ssvc boot_rf)" "ss_timeout (rf_ssvc boot_rf) = 86400"
  "as_min_password (rf_asvc boot_rf) = 6" "as_max_password (rf_asvc boot_rf) = 24"
  by (simp_all add: boot_rf_facts(3,4) empty_rf_def)

section \<open>Tasks\<close>







section \<open>Who becomes an administrator\<close>

lemma treat_post_uri:
  "treat_post t (request_to (coll_uri ALLOCATE_ACCOUNT_NUM) b) s = make_account b s"
  "treat_post t (request_to (coll_uri ALLOCATE_SESSION_NUM) b) s = make_session t b s"
  by (simp_all add: treat_post_def Let_def get_current_object_name_def get_parent_object_uri_def
      ODATA_ACCOUNT_SERVICE_ID_def ODATA_SESSION_SERVICE_ID_def)

lemma handle_post_coll:
  "handle_post t (request_to (coll_uri ALLOCATE_ACCOUNT_NUM) b) s
    = with_task ''POST'' (treat_post t) (request_to (coll_uri ALLOCATE_ACCOUNT_NUM) b) s"
  "handle_post t (request_to (coll_uri ALLOCATE_SESSION_NUM) b) s
    = with_task ''POST'' (treat_post t) (request_to (coll_uri ALLOCATE_SESSION_NUM) b) s"
  by (simp_all add: handle_post_def ODATA_ACCOUNT_SERVICE_ID_def ODATA_SESSION_SERVICE_ID_def string_split.simps)

text \<open>The state after the creation of an account, and after a login.\<close>

definition has_account :: "rf \<Rightarrow> nat \<Rightarrow> u8 list \<Rightarrow> u8 list \<Rightarrow> string \<Rightarrow> bool" where
  "has_account s a u p r \<longleftrightarrow> (\<exists>x i ro. sole_account s u a x \<and> a_password (ra_user x) = p
     \<and> ra_role x = Some i \<and> role_at s i = Some ro \<and> rr_id ro = r)"

lemma has_account_tasks: "tasks_only s t \<Longrightarrow> has_account s a u p r \<Longrightarrow> has_account t a u p r"
  by (simp add: has_account_def sole_account_def tasks_only_def)

lemma post_account:
  assumes inv: "rf_inv s" and ft: "1 \<le> free_numbers s ALLOCATE_TASK_NUM"
    and f: "1 \<le> free_numbers s ALLOCATE_ACCOUNT_NUM" and e: "as_enabled (rf_asvc s)"
    and len: "as_min_password (rf_asvc s) \<le> length p" "length p \<le> as_max_password (rf_asvc s)"
    and new: "\<forall>b y. account_at s b = Some y \<longrightarrow> a_user_name (ra_user y) \<noteq> bytes_of u"
    and role: "rf_rec s (ODATA_ROLE_ID @ ''/'' @ r) \<noteq> None"
  obtains s1 rp a where "handle_post t (request_to (coll_uri ALLOCATE_ACCOUNT_NUM) (account_body u p r)) s = Done (s1, rp)"
    and "p_status rp = 201" and "rf_inv s1" and "has_account s1 a (bytes_of u) (bytes_of p) r"
    and "session_at s1 = session_at s" and "rf_ssvc s1 = rf_ssvc s"
    and "free_numbers s1 ALLOCATE_SESSION_NUM = free_numbers s ALLOCATE_SESSION_NUM"
    and "free_numbers s ALLOCATE_TASK_NUM \<le> free_numbers s1 ALLOCATE_TASK_NUM + 1"
proof -
  let ?q = "request_to (coll_uri ALLOCATE_ACCOUNT_NUM) (account_body u p r)"
  let ?P = "\<lambda>t0 t1 rp. p_status rp = 201 \<and> (\<exists>a. has_account t1 a (bytes_of u) (bytes_of p) r)
    \<and> session_at t1 = session_at t0 \<and> rf_ssvc t1 = rf_ssvc t0
    \<and> (\<forall>k. k \<noteq> ALLOCATE_ACCOUNT_NUM \<longrightarrow> numset (rf_numbers t1) k = numset (rf_numbers t0) k)"
  have served: "\<exists>t1 rp. treat_post t ?q t0 = Done (t1, rp) \<and> ?P t0 t1 rp" if t0: "rf_inv t0" "tasks_only s t0" for t0
  proof -
    have "\<not> task_uri (ODATA_ROLE_ID @ ''/'' @ r)"
      using role_uri_not_member [of ALLOCATE_TASK_NUM r] by (auto simp: task_uri_def)
    then have c: "1 \<le> free_numbers t0 ALLOCATE_ACCOUNT_NUM" "as_enabled (rf_asvc t0)"
      "as_min_password (rf_asvc t0) \<le> length p" "length p \<le> as_max_password (rf_asvc t0)"
      "\<forall>b y. account_at t0 b = Some y \<longrightarrow> a_user_name (ra_user y) \<noteq> bytes_of u"
      "rf_rec t0 (ODATA_ROLE_ID @ ''/'' @ r) \<noteq> None"
      using f e len new role t0(2) tasks_only_free [OF t0(2), of ALLOCATE_ACCOUNT_NUM]
      by (simp_all add: tasks_only_def)
    obtain t1 rp a x i ro where t1: "make_account (account_body u p r) t0 = Done (t1, rp)" "p_status rp = 201"
      "account_at t0 a = None" "account_at t1 = (account_at t0)(a := Some x)"
      "a_user_name (ra_user x) = bytes_of u" "a_password (ra_user x) = bytes_of p"
      "ra_role x = Some i" "role_at t1 i = Some ro" "rr_id ro = r"
      "session_at t1 = session_at t0" "rf_ssvc t1 = rf_ssvc t0"
      "\<forall>k. k \<noteq> ALLOCATE_ACCOUNT_NUM \<longrightarrow> numset (rf_numbers t1) k = numset (rf_numbers t0) k"
      by (rule make_account_total [OF t0(1) c])
    then have "has_account t1 a (bytes_of u) (bytes_of p) r"
      using c(5) by (auto simp: has_account_def sole_account_def)
    then show ?thesis using t1 unfolding treat_post_uri by blast
  qed
  have "\<exists>t0 t1 s1 rp. with_task ''POST'' (treat_post t) ?q s = Done (s1, rp) \<and> rf_inv s1 \<and> tasks_only s t0
    \<and> rf_inv t0 \<and> ?P t0 t1 rp \<and> tasks_only t1 s1
    \<and> free_numbers s ALLOCATE_TASK_NUM \<le> free_numbers s1 ALLOCATE_TASK_NUM + 1"
  proof (rule with_task_total [where P = ?P, OF inv ft])
    show "\<exists>t1 rp. treat_post t ?q t0 = Done (t1, rp) \<and> ?P t0 t1 rp" if "rf_inv t0" "tasks_only s t0" for t0
      using that by (rule served)
    show "keeps t0 t1" if "treat_post t ?q t0 = Done (t1, rp)" for t0 t1 rp
      using that by (rule treat_post_keeps)
    show "numset (rf_numbers t1) ALLOCATE_TASK_NUM = numset (rf_numbers t0) ALLOCATE_TASK_NUM" if "?P t0 t1 rp" for t0 t1 rp
      using that by simp
  qed
  then obtain t0 t1 s1 rp where w: "with_task ''POST'' (treat_post t) ?q s = Done (s1, rp)" "rf_inv s1"
    "tasks_only s t0" "?P t0 t1 rp" "tasks_only t1 s1"
    "free_numbers s ALLOCATE_TASK_NUM \<le> free_numbers s1 ALLOCATE_TASK_NUM + 1"
    by blast
  then have "free_numbers s1 ALLOCATE_SESSION_NUM = free_numbers s ALLOCATE_SESSION_NUM"
    using tasks_only_free [OF w(3), of ALLOCATE_SESSION_NUM] tasks_only_free [OF w(5), of ALLOCATE_SESSION_NUM]
    by (simp add: free_numbers_def)
  moreover have "session_at s1 = session_at s" "rf_ssvc s1 = rf_ssvc s" using w(3,4,5) by (auto simp: tasks_only_def)
  ultimately show thesis
    using that w has_account_tasks [OF w(5)] unfolding handle_post_coll by blast
qed

lemma post_session:
  assumes inv: "rf_inv s" and ft: "1 \<le> free_numbers s ALLOCATE_TASK_NUM"
    and f: "1 \<le> free_numbers s ALLOCATE_SESSION_NUM" and e: "ss_enabled (rf_ssvc s)" "0 < ss_timeout (rf_ssvc s)"
    and acc: "has_account s a (bytes_of u) (bytes_of p) r"
    and new: "\<forall>c y. session_at s c = Some y \<longrightarrow> rs_token y \<noteq> t"
  obtains s1 n where "handle_post t (request_to (coll_uri ALLOCATE_SESSION_NUM) (login_body u p)) s
      = Done (s1, new_token_reply t n)"
    and "rf_inv s1" and "has_account s1 a (bytes_of u) (bytes_of p) r"
    and "\<And>q. token_check (with_token t q) s1 = Done (Inr a)"
    and "\<exists>c y. sole_session s1 t c y \<and> 0 < rs_remain y \<and> rs_account y = Some a"
    and "account_at s1 = account_at s" and "role_at s1 = role_at s" and "rf_asvc s1 = rf_asvc s"
    and "rf_ssvc s1 = rf_ssvc s" and "rf_ipmi s1 = rf_ipmi s"
proof -
  let ?q = "request_to (coll_uri ALLOCATE_SESSION_NUM) (login_body u p)"
  let ?P = "\<lambda>t0 t1 rp. (\<exists>n. rp = new_token_reply t n) \<and> has_account t1 a (bytes_of u) (bytes_of p) r
    \<and> (\<exists>c y. sole_session t1 t c y \<and> 0 < rs_remain y \<and> rs_account y = Some a)
    \<and> account_at t1 = account_at t0 \<and> role_at t1 = role_at t0 \<and> rf_asvc t1 = rf_asvc t0
    \<and> rf_ssvc t1 = rf_ssvc t0 \<and> rf_ipmi t1 = rf_ipmi t0
    \<and> numset (rf_numbers t1) ALLOCATE_TASK_NUM = numset (rf_numbers t0) ALLOCATE_TASK_NUM"
  have served: "\<exists>t1 rp. treat_post t ?q t0 = Done (t1, rp) \<and> ?P t0 t1 rp" if t0: "rf_inv t0" "tasks_only s t0" for t0
  proof -
    obtain x i ro where x: "sole_account t0 (bytes_of u) a x" "a_password (ra_user x) = bytes_of p"
      "ra_role x = Some i" "role_at t0 i = Some ro" "rr_id ro = r"
      using has_account_tasks [OF t0(2) acc] by (auto simp: has_account_def)
    have v: "1 \<le> free_numbers t0 ALLOCATE_SESSION_NUM" "ss_enabled (rf_ssvc t0)" "0 < ss_timeout (rf_ssvc t0)"
      "\<forall>c y. session_at t0 c = Some y \<longrightarrow> rs_token y \<noteq> t"
      using f e new t0(2) tasks_only_free [OF t0(2), of ALLOCATE_SESSION_NUM] by (simp_all add: tasks_only_def)
    obtain n c t1 where t1: "make_session t (login_body u p) t0 = Done (t1, new_token_reply t n)"
      "account_at t1 = account_at t0" "role_at t1 = role_at t0" "session_at t0 c = None"
      "session_at t1 = (session_at t0)
        (c := Some (fresh_session (member_uri ALLOCATE_SESSION_NUM (to_string n)) (to_string n) a x t t0))"
      "rf_ssvc t1 = rf_ssvc t0" "rf_asvc t1 = rf_asvc t0" "rf_ipmi t1 = rf_ipmi t0"
      "numset (rf_numbers t1) ALLOCATE_TASK_NUM = numset (rf_numbers t0) ALLOCATE_TASK_NUM"
      by (rule make_session_total [OF t0(1) v(1,2) x(1,2)])
    let ?y = "fresh_session (member_uri ALLOCATE_SESSION_NUM (to_string n)) (to_string n) a x t t0"
    have "sole_session t1 t c ?y \<and> 0 < rs_remain ?y \<and> rs_account ?y = Some a"
      using t1(5) v by (auto simp: sole_session_def fresh_session_def)
    moreover have "has_account t1 a (bytes_of u) (bytes_of p) r"
      using x t1(2,3) by (auto simp: has_account_def sole_account_def)
    ultimately show ?thesis using t1(1-3,6-9) unfolding treat_post_uri by blast
  qed
  have "\<exists>t0 t1 s1 rp. with_task ''POST'' (treat_post t) ?q s = Done (s1, rp) \<and> rf_inv s1 \<and> tasks_only s t0
    \<and> rf_inv t0 \<and> ?P t0 t1 rp \<and> tasks_only t1 s1
    \<and> free_numbers s ALLOCATE_TASK_NUM \<le> free_numbers s1 ALLOCATE_TASK_NUM + 1"
  proof (rule with_task_total [where P = ?P, OF inv ft])
    show "\<exists>t1 rp. treat_post t ?q t0 = Done (t1, rp) \<and> ?P t0 t1 rp" if "rf_inv t0" "tasks_only s t0" for t0
      using that by (rule served)
    show "keeps t0 t1" if "treat_post t ?q t0 = Done (t1, rp)" for t0 t1 rp
      using that by (rule treat_post_keeps)
    show "numset (rf_numbers t1) ALLOCATE_TASK_NUM = numset (rf_numbers t0) ALLOCATE_TASK_NUM" if "?P t0 t1 rp" for t0 t1 rp
      using that by simp
  qed
  then obtain t0 t1 s1 n where w: "with_task ''POST'' (treat_post t) ?q s = Done (s1, new_token_reply t n)" "rf_inv s1"
    "has_account t1 a (bytes_of u) (bytes_of p) r"
    "\<exists>c y. sole_session t1 t c y \<and> 0 < rs_remain y \<and> rs_account y = Some a"
    and f0: "account_at t1 = account_at t0" "role_at t1 = role_at t0" "rf_asvc t1 = rf_asvc t0"
    "rf_ssvc t1 = rf_ssvc t0" "rf_ipmi t1 = rf_ipmi t0"
    and k: "tasks_only s t0" "tasks_only t1 s1"
    by blast
  have c: "\<exists>c y. sole_session s1 t c y \<and> 0 < rs_remain y \<and> rs_account y = Some a"
    using w(4) k(2) by (simp add: sole_session_def tasks_only_def)
  moreover have "account_at s1 = account_at s" "role_at s1 = role_at s" "rf_asvc s1 = rf_asvc s"
    "rf_ssvc s1 = rf_ssvc s" "rf_ipmi s1 = rf_ipmi s"
    using f0 k by (simp_all add: tasks_only_def)
  moreover have "token_check (with_token t q) s1 = Done (Inr a)" for q
    using c token_check_account [OF w(2)] by blast
  ultimately show thesis
    using that w(1,2) has_account_tasks [OF k(2) w(3)] unfolding handle_post_coll by blast
qed

text \<open>C9. Creating an account needs no session. Anyone can send the two requests, with no token: a POST of
  an account of the role Administrator under a new name, and a login under it. Both are answered 201,
  and the token of the second stands, in every request that is checked, for an administrator.\<close>

theorem anonymous_becomes_administrator:
  assumes "rf_inv s" and "as_enabled (rf_asvc s)" and "ss_enabled (rf_ssvc s)" and "0 < ss_timeout (rf_ssvc s)"
    and "2 \<le> free_numbers s ALLOCATE_TASK_NUM" and "1 \<le> free_numbers s ALLOCATE_ACCOUNT_NUM"
    and "1 \<le> free_numbers s ALLOCATE_SESSION_NUM"
    and "as_min_password (rf_asvc s) \<le> length p" and "length p \<le> as_max_password (rf_asvc s)"
    and "\<forall>b y. account_at s b = Some y \<longrightarrow> a_user_name (ra_user y) \<noteq> bytes_of u"
    and "rf_rec s (ODATA_ROLE_ID @ ''/Administrator'') \<noteq> None"
    and "\<forall>c y. session_at s c = Some y \<longrightarrow> rs_token y \<noteq> t"
  shows "\<exists>s1 r1 s2 n a x i ro.
    handle_post t' (request_to (coll_uri ALLOCATE_ACCOUNT_NUM) (account_body u p ''Administrator'')) s = Done (s1, r1)
    \<and> p_status r1 = 201
    \<and> handle_post t (request_to (coll_uri ALLOCATE_SESSION_NUM) (login_body u p)) s1 = Done (s2, new_token_reply t n)
    \<and> (\<forall>q. token_check (with_token t q) s2 = Done (Inr a))
    \<and> account_at s2 a = Some x \<and> ra_role x = Some i \<and> role_at s2 i = Some ro \<and> rr_id ro = ''Administrator''"
proof -
  have ft: "1 \<le> free_numbers s ALLOCATE_TASK_NUM" using assms(5) by simp
  have role: "rf_rec s (ODATA_ROLE_ID @ ''/'' @ ''Administrator'') \<noteq> None" using assms(11) by simp
  obtain s1 r1 a where s1: "handle_post t' (request_to (coll_uri ALLOCATE_ACCOUNT_NUM) (account_body u p ''Administrator'')) s
      = Done (s1, r1)" "p_status r1 = 201" "rf_inv s1" "has_account s1 a (bytes_of u) (bytes_of p) ''Administrator''"
    "session_at s1 = session_at s" "rf_ssvc s1 = rf_ssvc s"
    "free_numbers s1 ALLOCATE_SESSION_NUM = free_numbers s ALLOCATE_SESSION_NUM"
    "free_numbers s ALLOCATE_TASK_NUM \<le> free_numbers s1 ALLOCATE_TASK_NUM + 1"
    by (rule post_account [OF assms(1) ft assms(6,2,8,9,10) role])
  obtain s2 n where "handle_post t (request_to (coll_uri ALLOCATE_SESSION_NUM) (login_body u p)) s1 = Done (s2, new_token_reply t n)"
    "has_account s2 a (bytes_of u) (bytes_of p) ''Administrator''" "\<And>q. token_check (with_token t q) s2 = Done (Inr a)"
    by (rule post_session [of s1 a u p _ t]) (use s1 assms in auto)
  then show ?thesis using s1(1,2) by (auto simp: has_account_def sole_account_def)
qed

lemma anonymous_becomes_administrator_witness:
  "\<exists>s1 r1 s2 n a x i ro.
    handle_post ''x'' (request_to (coll_uri ALLOCATE_ACCOUNT_NUM) (account_body ''eve'' ''secret'' ''Administrator'')) boot_rf
      = Done (s1, r1)
    \<and> p_status r1 = 201
    \<and> handle_post ''t0'' (request_to (coll_uri ALLOCATE_SESSION_NUM) (login_body ''eve'' ''secret'')) s1
      = Done (s2, new_token_reply ''t0'' n)
    \<and> (\<forall>q. token_check (with_token ''t0'' q) s2 = Done (Inr a))
    \<and> account_at s2 a = Some x \<and> ra_role x = Some i \<and> role_at s2 i = Some ro \<and> rr_id ro = ''Administrator''"
proof (rule anonymous_becomes_administrator [OF boot_rf_facts(1) boot_services(1,2) _ boot_free])
  show "\<forall>b y. account_at boot_rf b = Some y \<longrightarrow> a_user_name (ra_user y) \<noteq> bytes_of ''eve''"
    using boot_accounts by (fastforce simp: bytes_of_def root_name_def admin_name_def)
qed (simp_all add: boot_services boot_no_sessions boot_rf_facts(9))

text \<open>A login of "admin" after the start.\<close>

lemma boot_login:
  obtains s n c y where "handle_post ''t0'' (request_to (coll_uri ALLOCATE_SESSION_NUM) (login_body ''admin'' ''admin'')) boot_rf
      = Done (s, new_token_reply ''t0'' n)"
    and "rf_inv s" and "sole_session s ''t0'' c y" and "0 < rs_remain y" and "rs_account y = Some 5"
    and "account_at s = account_at boot_rf" and "role_at s = role_at boot_rf" and "rf_asvc s = rf_asvc boot_rf"
    and "rf_ssvc s = rf_ssvc boot_rf" and "rf_ipmi s = rf_ipmi boot_rf"
proof -
  have n: "bytes_of ''admin'' = admin_name" "admin_name \<noteq> root_name"
    by (simp_all add: bytes_of_def admin_name_def root_name_def)
  obtain x r ro where x: "rf_heap boot_rf 5 = Some (OAccount x)" "a_user_name (ra_user x) = bytes_of ''admin''"
    "a_password (ra_user x) = bytes_of ''admin''" "ra_role x = Some r" "role_at boot_rf r = Some ro"
    "rr_id ro = ''Administrator''" by (rule boot_admin)
  have "b = 5" if "account_at boot_rf b = Some y" "a_user_name (ra_user y) = bytes_of ''admin''" for b y
    using boot_accounts [OF that(1)] that(2) n by auto
  moreover have "account_at boot_rf 5 = Some x" using x(1) by (simp add: at_iff)
  ultimately have "sole_account boot_rf (bytes_of ''admin'') 5 x" unfolding sole_account_def using x(2) by blast
  then have a: "has_account boot_rf 5 (bytes_of ''admin'') (bytes_of ''admin'') ''Administrator''"
    unfolding has_account_def using x(3-6) by blast
  have f: "1 \<le> free_numbers boot_rf ALLOCATE_TASK_NUM" "0 < ss_timeout (rf_ssvc boot_rf)"
    "\<forall>c y. session_at boot_rf c = Some y \<longrightarrow> rs_token y \<noteq> ''t0''"
    using boot_free(1) by (simp_all add: boot_no_sessions boot_services)
  show thesis
    by (rule post_session [OF boot_rf_facts(1) f(1) boot_free(3) boot_services(2) f(2) a f(3)]) (blast intro: that)
qed


section \<open>The end of a session\<close>

text \<open>C24. A logout that is answered with 200 makes the token invalid at once, and the next tick of the
  session's timer deletes the session: its URI is gone. (A session number that does not fit an
  \<open>int\<close> makes the timer throw; it is excluded.)\<close>

theorem logout_ends_session:
  assumes "rf_inv s" and "remove_session q s = Done (s1, p)" and "p_status p = 200"
  shows "is_session_valid (header ''X-Auth-Token'' q) s1 = Done False
    \<and> (\<exists>a x. session_at s a = Some x \<and> rs_token x = header ''X-Auth-Token'' q
      \<and> (stoi (rs_id x) \<noteq> Fail 2 \<longrightarrow>
          (\<exists>s2. session_timer a s1 = Done s2 \<and> session_at s2 a = None \<and> \<not> record_is_exist (rs_odata x) s2)))"
proof -
  let ?t = "header ''X-Auth-Token'' q"
  obtain a x where f: "find_token_session ?t s = Done (Some a)" and x: "session_at s a = Some x"
    and r: "rbind (deref (lookup s (rs_odata x))) (\<lambda>a. set_remain a 0 s) = Done s1"
    using assms(2,3) by (auto simp: remove_session_def Let_def done_simps is_session_valid_def
        get_session_odata_id_by_token_def error_reply_def json_reply_def)
  have t: "rs_token x = ?t" using scan_Some [OF f [unfolded find_token_session_def]] x by simp
  have "lookup s (rs_odata x) = Some a" using session_exists [OF assms(1) x] by (simp add: lookup_iff)
  then have s1: "s1 = put_object a (OSession (x\<lparr>rs_remain := 0\<rparr>)) s" using r x by (simp add: set_remain_def)
  have inv1: "rf_inv s1"
    unfolding s1 by (rule put_object_inv [OF assms(1)]) (use x in \<open>auto simp: at_iff role_ok_def\<close>)
  have x1: "session_at s1 a = Some (x\<lparr>rs_remain := 0\<rparr>)" by (simp add: s1 session_at_def put_object_def)
  have "find_token_session ?t s1 = find_token_session ?t s"
    unfolding find_token_session_def s1
    using scan_same [of "\<lambda>x. rs_token x = ?t" "session_at (put_object a (OSession (x\<lparr>rs_remain := 0\<rparr>)) s)" "session_at s"] x
    by (simp add: put_object_def session_at_def split: option.splits robj.splits)
  then have "is_session_valid ?t s1 = Done False" using f x1 by (simp add: is_session_valid_def)
  moreover have "\<exists>s2. session_timer a s1 = Done s2 \<and> session_at s2 a = None \<and> \<not> record_is_exist (rs_odata x) s2"
    if "stoi (rs_id x) \<noteq> Fail 2"
    using expire_total [OF inv1 x1] that by simp
  ultimately show ?thesis using x t by blast
qed

section \<open>Deleted accounts\<close>

lemma member_uri_neq: "member_uri ALLOCATE_ACCOUNT_NUM i \<noteq> ODATA_ACCOUNT_SERVICE_ID"
  by (simp add: member_uri_def ODATA_ACCOUNT_SERVICE_ID_def)

text \<open>C23. Deleting an account needs no session either, and leaves the sessions of the account with a
  pointer to freed memory. After it, a GET of the session, and every PATCH of an account with its
  token, read the deleted account: undefined behaviour, reached from the network.\<close>

theorem deleted_account_session_undefined:
  assumes "rf_inv s" and "as_enabled (rf_asvc s)" and "sole_session s t c y" and "0 < rs_remain y"
    and "rs_account y = Some b" and "account_at s b = Some x" and "stoi (ra_id x) \<noteq> Fail 2"
  shows "\<exists>s1 p. treat_delete (request_to (ra_odata x) JNull) s = Done (s1, p) \<and> p_status p = 200
    \<and> treat_get (request_to (rs_odata y) JNull) s1 = Undef
    \<and> (\<forall>n body. to_string n \<noteq> ra_id x \<and> record_is_exist (member_uri ALLOCATE_ACCOUNT_NUM (to_string n)) s \<longrightarrow>
        treat_patch (with_token t (request_to (member_uri ALLOCATE_ACCOUNT_NUM (to_string n)) body)) s1 = Undef)"
proof -
  obtain n where n: "ra_id x = to_string n" "numbered ALLOCATE_ACCOUNT_NUM n (OAccount x)"
    by (rule account_numbered [OF assms(1,6)])
  have o: "ra_odata x = member_uri ALLOCATE_ACCOUNT_NUM (to_string n)" using n by (simp add: numbered_def)
  have st: "stoi (ra_id x) = Ret (int n)" "n \<le> 2147483647"
    using assms(7) n(1) by (auto simp: stoi_to_string split: if_splits)
  have h: "rf_heap s b = Some (OAccount x)" using assms(6) by (simp add: at_iff)
  have rec: "rf_rec s (ra_odata x) = Some (Obj b)" using inv_heap(2) [OF assms(1) h] by simp
  have pr: "proper ALLOCATE_ACCOUNT_NUM" by simp
  obtain d where d: "delete_numbered ALLOCATE_ACCOUNT_NUM n b (ra_odata x) s
      = Done ((removed ALLOCATE_ACCOUNT_NUM n b (OAccount x) s)\<lparr>rf_disk := d\<rparr>)"
    using delete_numbered_total [OF assms(1) h n(2) pr] by blast
  let ?s = "(removed ALLOCATE_ACCOUNT_NUM n b (OAccount x) s)\<lparr>rf_disk := d\<rparr>"
  have inv1: "rf_inv ?s" using remove_inv [OF assms(1) h n(2)] by simp
  obtain p where p: "reply_record (coll_uri ALLOCATE_ACCOUNT_NUM) 200 ?s = Done (?s, p)" "p_status p = 200"
    using collection_total [OF inv1 pr] by (auto simp: reply_record_def success_reply_def json_reply_def)
  have "get_current_object_name (ra_odata x) CHR ''/'' = ra_id x" using o n(1) by simp
  then have "remove_account (ra_odata x) s = Done (?s, p)"
    using assms(2,6) rec st d p(1) scan_account_id [OF assms(1,6)]
    by (simp add: remove_account_def record_is_exist_def lookup_def unsigned_small)
  then have del: "treat_delete (request_to (ra_odata x) JNull) s = Done (?s, p)"
    by (simp add: treat_delete_def Let_def o uri_part_member)
  have c: "session_at s c = Some y" using assms(3) by (simp add: sole_session_def)
  have cb: "c \<noteq> b" using c h by (auto simp: at_iff)
  have c1: "sole_session ?s t c y"
    using assms(3) cb by (auto simp: sole_session_def session_at_def split: if_splits)
  have gone: "account_at ?s b = None" by (simp add: account_at_def)
  have "treat_get (request_to (rs_odata y) JNull) ?s = Undef"
    using session_exists [OF inv1, of c y] c1 gone assms(5)
    by (simp add: sole_session_def treat_get_def record_is_exist_def record_get_json_def object_json_def at_iff)
  moreover have "treat_patch (with_token t (request_to (member_uri ALLOCATE_ACCOUNT_NUM (to_string m)) body)) ?s = Undef"
    if "to_string m \<noteq> ra_id x \<and> record_is_exist (member_uri ALLOCATE_ACCOUNT_NUM (to_string m)) s" for m body
  proof -
    have "record_is_exist (member_uri ALLOCATE_ACCOUNT_NUM (to_string m)) ?s"
      using that n(1) o ex_coll_uri [of ALLOCATE_ACCOUNT_NUM ALLOCATE_ACCOUNT_NUM] by (simp add: record_is_exist_def)
    then show ?thesis
    using token_check_account [OF inv1 c1 assms(4,5)] gone assms(2)
    by (simp add: treat_patch_def Let_def uri_part_member modify_account_def member_uri_neq)
  qed
  ultimately show ?thesis using del p(2) by blast
qed

section \<open>A change of password\<close>

lemma takeWhile_update: "m < length (takeWhile P xs) \<Longrightarrow> P u \<Longrightarrow> m < length (takeWhile P (xs[m := u]))"
proof (induction xs arbitrary: m)
  case (Cons x xs)
  then show ?case by (cases m) (auto split: if_splits)
qed simp

lemma get_user_cnt_update: "n < get_user_cnt us \<Longrightarrow> u_name u \<noteq> [] \<Longrightarrow> n < get_user_cnt (us[n := u])"
  using takeWhile_update [of "n - 1" "\<lambda>u. u_name u \<noteq> []" "drop 1 us" u]
  by (cases n) (simp_all add: get_user_cnt_def drop_update_swap)

text \<open>Setting the name of the IPMI user of an account, seen from the account.\<close>

lemma set_user_name_account:
  assumes inv: "rf_inv s" and l: "rf_rec s (member_uri ALLOCATE_ACCOUNT_NUM (to_string n)) = Some (Obj b)"
    and x: "account_at s b = Some x" and n: "n < get_user_cnt (rf_ipmi s)" and nm: "nm \<noteq> []"
  obtains s' z where "rf_set_user_name n nm s = Done s'" and "rf_inv s'" and "only_users (s\<lparr>rf_ipmi := (rf_ipmi s)[n := setUserName nm (rf_ipmi s ! n)]\<rparr>) s'"
    and "account_at s' b = Some z" and "ra_user z = account_of (setUserName nm (rf_ipmi s ! n)) (ra_user x)"
proof -
  let ?us = "(rf_ipmi s)[n := setUserName nm (rf_ipmi s ! n)]" and ?u = "member_uri ALLOCATE_ACCOUNT_NUM (to_string n)"
  let ?t = "s\<lparr>rf_ipmi := ?us\<rparr>"
  have len: "length (rf_ipmi s) = 10" using inv by (simp add: rf_inv_def)
  then have it: "rf_inv ?t" using rf_inv_ipmi [of ?us s] inv by simp
  obtain s' where s': "rf_user_save ?t = Done s'" "rf_inv s'" "only_users ?t s'" "user_view s' = plat_user_save (user_view ?t)"
    using user_save_total [OF it] by blast
  have l': "lookup ?t ?u = Some b" "lookup s' ?u = Some b"
    using l s'(3) by (simp_all add: lookup_iff only_users_def)
  have x': "account_at ?t b = Some x" using x by (simp add: account_at_def)
  then obtain z where z: "account_at s' b = Some z" using s'(3) by (auto simp: only_users_def)
  have "n < get_user_cnt ?us" using get_user_cnt_update [OF n] nm by (simp add: setUserName_def)
  moreover have "n < 10" using n get_user_cnt_10 [OF len] by simp
  ultimately have "ud_accounts (plat_user_save (user_view ?t)) n
      = Some (account_of (setUserName nm (rf_ipmi s ! n)) (ra_user x))"
    using l'(1) x' len by (simp add: plat_user_save_def user_view_def)
  moreover have "ud_accounts (user_view s') n = Some (ra_user z)" using l'(2) z by (simp add: user_view_def)
  ultimately have "ra_user z = account_of (setUserName nm (rf_ipmi s ! n)) (ra_user x)" using s'(4) by simp
  then show thesis using that s' z by (simp add: rf_set_user_name_def)
qed

lemma own_password_change:
  assumes "as_enabled (rf_asvc s)" and "record_is_exist u s" and "token_check (with_token t (request_to u (JObj [(''Password'', JStr p)]))) s = Done (Inr b)"
    and "account_at s b = Some x" and "ra_role x = Some r" and "role_at s r = Some ro"
    and "get_current_object_name u CHR ''/'' = ra_id x"
    and "as_min_password (rf_asvc s) \<le> length p" and "length p \<le> as_max_password (rf_asvc s)"
  shows "modify_account (with_token t (request_to u (JObj [(''Password'', JStr p)]))) s
    = rbind (apply_account_change u (find_ipmi_user (a_user_name (ra_user x)) (rf_ipmi s))
        \<lparr>ac_role = None, ac_name = None, ac_password = Some p, ac_input_password = p\<rparr> s) (reply_record u 200)"
  using assms
  by (simp add: modify_account_def Let_def role_change_def get_string_value_def get_value_def name_password_change_def)

text \<open>A change of password does not change the password. When the owner of an account that mirrors an
  IPMI user sends a PATCH with a new password, the answer is 200, but the new password becomes the
  name of the IPMI user, and the account has it as its user name; its password is again the old one of
  the IPMI user.\<close>

theorem password_change_renames:
  assumes "rf_inv s" and "as_enabled (rf_asvc s)" and "sole_session s t c y" and "0 < rs_remain y"
    and "rs_account y = Some b" and "account_at s b = Some x" and "ra_role x = Some r" and "role_at s r = Some ro"
    and "ra_id x = to_string n" and "n < get_user_cnt (rf_ipmi s)"
    and "find_ipmi_user (a_user_name (ra_user x)) (rf_ipmi s) = n" and "p \<noteq> []"
    and "as_min_password (rf_asvc s) \<le> length p" and "length p \<le> as_max_password (rf_asvc s)"
  shows "\<exists>s' rp z. treat_patch (with_token t (request_to (ra_odata x) (JObj [(''Password'', JStr p)]))) s = Done (s', rp)
    \<and> p_status rp = 200 \<and> u_name (rf_ipmi s' ! n) = bytes_of p \<and> account_at s' b = Some z
    \<and> a_user_name (ra_user z) = bytes_of p \<and> a_password (ra_user z) = u_password (rf_ipmi s ! n)"
proof -
  let ?q = "with_token t (request_to (ra_odata x) (JObj [(''Password'', JStr p)]))"
  have len: "length (rf_ipmi s) = 10" using assms(1) by (simp add: rf_inv_def)
  have n10: "n < 10" using assms(10) get_user_cnt_10 [OF len] by simp
  have h: "rf_heap s b = Some (OAccount x)" using assms(6) by (simp add: at_iff)
  have o: "ra_odata x = member_uri ALLOCATE_ACCOUNT_NUM (to_string n)"
    using account_numbered [OF assms(1,6)] assms(9) by (auto simp: numbered_def)
  have rec: "rf_rec s (ra_odata x) = Some (Obj b)" using inv_heap(2) [OF assms(1) h] by simp
  let ?x = "x\<lparr>ra_user := (ra_user x)\<lparr>a_password := bytes_of p\<rparr>\<rparr>"
  let ?t = "put_object b (OAccount ?x) s"
  have it: "rf_inv ?t" by (rule put_user_inv [OF assms(1,6)])
  have t: "rf_rec ?t (member_uri ALLOCATE_ACCOUNT_NUM (to_string n)) = Some (Obj b)" "account_at ?t b = Some ?x"
    "n < get_user_cnt (rf_ipmi ?t)" "bytes_of p \<noteq> []" "rf_ipmi ?t = rf_ipmi s"
    using rec o assms(10,12) by (simp_all add: put_object_def account_at_def bytes_of_def)
  obtain s' z where s': "rf_set_user_name n (bytes_of p) ?t = Done s'" "rf_inv s'"
    "only_users (?t\<lparr>rf_ipmi := (rf_ipmi ?t)[n := setUserName (bytes_of p) (rf_ipmi ?t ! n)]\<rparr>) s'"
    "account_at s' b = Some z" "ra_user z = account_of (setUserName (bytes_of p) (rf_ipmi ?t ! n)) (ra_user ?x)"
    by (rule set_user_name_account [OF it t(1-4)])
  have r': "rf_rec s' (ra_odata x) = Some (Obj b)" "rf_ipmi s' = (rf_ipmi s)[n := setUserName (bytes_of p) (rf_ipmi s ! n)]"
    using s'(3) t(1,5) o by (simp_all add: only_users_def)
  have h': "rf_heap s' b = Some (OAccount z)" using s'(4) by (simp add: at_iff)
  obtain d where d: "resource_save_json (ra_odata x) s' = Done (s'\<lparr>rf_disk := d\<rparr>)"
    using object_total [OF s'(2) r'(1) h'] save_total by fastforce
  have "apply_account_change (ra_odata x) n
      \<lparr>ac_role = None, ac_name = None, ac_password = Some p, ac_input_password = p\<rparr> s = Done (s'\<lparr>rf_disk := d\<rparr>)"
    using rec assms(6) s'(1) d by (simp add: apply_account_change_def lookup_def)
  moreover obtain rp where "reply_record (ra_odata x) 200 (s'\<lparr>rf_disk := d\<rparr>) = Done (s'\<lparr>rf_disk := d\<rparr>, rp)" "p_status rp = 200"
    using reply_object_total [of "s'\<lparr>rf_disk := d\<rparr>" "ra_odata x" b "OAccount z" 200] s'(2) r'(1) h' by auto
  moreover have "modify_account ?q s = rbind (apply_account_change (ra_odata x) n
      \<lparr>ac_role = None, ac_name = None, ac_password = Some p, ac_input_password = p\<rparr> s) (reply_record (ra_odata x) 200)"
    using own_password_change [of s "ra_odata x" t p b x r ro] token_check_account [OF assms(1,3-5)] rec assms o
    by (simp add: record_is_exist_def)
  ultimately have "treat_patch ?q s = Done (s'\<lparr>rf_disk := d\<rparr>, rp)" "p_status rp = 200"
    by (simp_all add: treat_patch_def Let_def o uri_part_member member_uri_neq)
  moreover have "u_name (rf_ipmi s' ! n) = bytes_of p" using r'(2) n10 len by (simp add: setUserName_def)
  moreover have "a_user_name (ra_user z) = bytes_of p" "a_password (ra_user z) = u_password (rf_ipmi s ! n)"
    using s'(5) t(5) by (simp_all add: account_of_def setUserName_def)
  ultimately show ?thesis using s'(4) by (intro exI [of _ "s'\<lparr>rf_disk := d\<rparr>"] exI [of _ rp] exI [of _ z]) simp
qed

text \<open>C22. Saving the IPMI users on the record always returns, changes nothing but the users' fields of the
  accounts, and is \<open>plat_user_save\<close> of the user table under the view of accounts by number.\<close>

theorem user_save_refines:
  assumes "rf_inv s"
  shows "\<exists>s'. rf_user_save s = Done s' \<and> rf_inv s' \<and> only_users s s'
    \<and> user_view s' = plat_user_save (user_view s)"
  using assms by (rule user_save_total)

lemma user_save_refines_witness:
  "\<exists>s'. rf_user_save boot_rf = Done s' \<and> user_view s' = plat_user_save (user_view boot_rf)"
  using user_save_refines [OF boot_rf_facts(1)] by blast

lemma deleted_account_session_undefined_witness:
  "\<exists>s s1 p. treat_delete (request_to (member_uri ALLOCATE_ACCOUNT_NUM (to_string 1)) JNull) s = Done (s1, p)
    \<and> p_status p = 200
    \<and> treat_patch (with_token ''t0'' (request_to (member_uri ALLOCATE_ACCOUNT_NUM (to_string 0)) JNull)) s1 = Undef"
proof -
  obtain s n c y where s: "rf_inv s" "sole_session s ''t0'' c y" "0 < rs_remain y" "rs_account y = Some 5"
    "account_at s = account_at boot_rf" "rf_asvc s = rf_asvc boot_rf" by (rule boot_login)
  obtain x where x: "rf_heap boot_rf 5 = Some (OAccount x)" "ra_id x = to_string 1"
    "ra_odata x = member_uri ALLOCATE_ACCOUNT_NUM (to_string 1)" by (rule boot_admin)
  obtain w where w: "account_at s 4 = Some w" "ra_odata w = member_uri ALLOCATE_ACCOUNT_NUM (to_string 0)"
    using boot_rf_facts(7) s(5) by (auto simp: admin_account_def)
  have a: "account_at s 5 = Some x" "as_enabled (rf_asvc s)" using x(1) s(5,6) boot_services(1) by (simp_all add: at_iff)
  have st: "stoi (ra_id x) \<noteq> Fail 2" using x(2) by (simp add: stoi_to_string)
  have e: "to_string 0 \<noteq> ra_id x \<and> record_is_exist (member_uri ALLOCATE_ACCOUNT_NUM (to_string 0)) s"
    using x(2) inv_heap(2) [OF s(1), of 4 "OAccount w"] w by (simp add: record_is_exist_def at_iff)
  obtain s1 p where d: "treat_delete (request_to (ra_odata x) JNull) s = Done (s1, p)" "p_status p = 200"
    and u: "\<And>n body. to_string n \<noteq> ra_id x \<and> record_is_exist (member_uri ALLOCATE_ACCOUNT_NUM (to_string n)) s \<Longrightarrow>
        treat_patch (with_token ''t0'' (request_to (member_uri ALLOCATE_ACCOUNT_NUM (to_string n)) body)) s1 = Undef"
    using deleted_account_session_undefined [OF s(1) a(2) s(2-4) a(1) st] by blast
  show ?thesis by (intro exI [of _ s] exI [of _ s1] exI [of _ p] conjI d(2) u [OF e]) (use d(1) x(3) in simp)
qed

lemma logout_ends_session_witness:
  "\<exists>s s1 p. remove_session (with_token ''t0'' (request_to (coll_uri ALLOCATE_SESSION_NUM) JNull)) s = Done (s1, p)
    \<and> p_status p = 200 \<and> is_session_valid ''t0'' s1 = Done False"
proof -
  let ?q = "with_token ''t0'' (request_to (coll_uri ALLOCATE_SESSION_NUM) JNull)"
  obtain s c y where s: "rf_inv s" "sole_session s ''t0'' c y" "0 < rs_remain y" "rf_ssvc s = rf_ssvc boot_rf"
    by (rule boot_login)
  have c: "session_at s c = Some y" using s(2) by (simp add: sole_session_def)
  have "rf_rec s (rs_odata y) = Some (Obj c)" by (rule session_exists [OF s(1) c])
  then have r: "remove_session ?q s = Done (put_object c (OSession (y\<lparr>rs_remain := 0\<rparr>)) s, success_reply JNull 200)"
    using c s(3,4) sole_find [OF s(1,2)] boot_services(2)
    by (simp add: remove_session_def Let_def is_session_valid_def get_session_odata_id_by_token_def
        record_is_exist_def lookup_def set_remain_def)
  moreover have p: "p_status (success_reply JNull 200) = 200" by (simp add: success_reply_def json_reply_def)
  ultimately show ?thesis using logout_ends_session [OF s(1) r p] by auto
qed

lemma password_change_renames_witness:
  "\<exists>s s' rp z. treat_patch (with_token ''t0'' (request_to (member_uri ALLOCATE_ACCOUNT_NUM (to_string 1))
        (JObj [(''Password'', JStr ''new-pass'')]))) s = Done (s', rp)
    \<and> p_status rp = 200 \<and> account_at s' 5 = Some z
    \<and> string_of (a_user_name (ra_user z)) = ''new-pass'' \<and> string_of (a_password (ra_user z)) = ''admin''"
proof -
  obtain s c y where s: "rf_inv s" "sole_session s ''t0'' c y" "0 < rs_remain y" "rs_account y = Some 5"
    "account_at s = account_at boot_rf" "role_at s = role_at boot_rf" "rf_asvc s = rf_asvc boot_rf"
    "rf_ipmi s = rf_ipmi boot_rf" by (rule boot_login)
  obtain x r ro where x: "rf_heap boot_rf 5 = Some (OAccount x)" "ra_id x = to_string 1"
    "ra_odata x = member_uri ALLOCATE_ACCOUNT_NUM (to_string 1)" "a_user_name (ra_user x) = bytes_of ''admin''"
    "ra_role x = Some r" "role_at boot_rf r = Some ro" by (rule boot_admin)
  have a: "account_at s 5 = Some x" "role_at s r = Some ro" "as_enabled (rf_asvc s)"
    "as_min_password (rf_asvc s) \<le> length ''new-pass''" "length ''new-pass'' \<le> as_max_password (rf_asvc s)"
    using x(1,6) s(5-7) boot_services by (simp_all add: at_iff)
  have n: "bytes_of ''admin'' = admin_name" by (simp add: bytes_of_def admin_name_def)
  have u: "rf_ipmi s = ud_users boot_users" using s(8) boot_rf_facts(2) by simp
  have k: "get_user_cnt (rf_ipmi s) = 2" by (simp add: u boot_user_cnt)
  have "find_ipmi_user (a_user_name (ra_user x)) (rf_ipmi s) = 1"
    unfolding find_ipmi_user_def k Let_def
    by (simp add: u x(4) n boot_users_list plat_user_init_def root_name_def admin_name_def)
  then have f: "1 < get_user_cnt (rf_ipmi s)" "find_ipmi_user (a_user_name (ra_user x)) (rf_ipmi s) = 1"
    "u_password (rf_ipmi s ! 1) = bytes_of ''admin''"
    using k by (simp_all add: u n boot_users_list plat_user_init_def)
  have "''new-pass'' \<noteq> []" by simp
  from password_change_renames [OF s(1) a(3) s(2-4) a(1) x(5) a(2) x(2) f(1,2) this a(4,5)] x(3) f(3)
  show ?thesis by (metis string_of_bytes)
qed

end
