(* ===== verification/Ipmb.thy ===== *)
theory Ipmb
  imports Checksum
begin

text \<open>
  The IPMB client: libs/ipmb/ipmb.cpp frames a request, sends it over the I2C bus and waits for
  the receive thread (\<open>ipmb_rx_handler\<close>) to report an answer; libs/lightning/lightning_sensor.cpp
  takes the temperatures out of the receive buffer. The I2C driver is a parameter: the return
  codes of the write attempts and the packets the slave device delivers. The receive thread and
  the requester share \<open>rx_buf\<close>, \<open>rx_len\<close>, \<open>rx_done\<close> and \<open>gseq\<close> without a lock; here a packet is
  handled as a whole, and packets arrive while the requester sleeps in \<open>delay(1)\<close>.
\<close>

section \<open>State\<close>

record ipmb_state =
  gseq :: int
  rx_buf :: "u8 list"
  rx_len :: u8
  rx_done :: u8
  g_Tmax :: int
  temp_data :: "int list"

definition ipmb_boot :: ipmb_state where
  "ipmb_boot = \<lparr>gseq = 0, rx_buf = replicate 300 0, rx_len = 0, rx_done = 0, g_Tmax = 90,
     temp_data = replicate 64 0\<rparr>"

record ipmi_msg =
  m_dest_addr :: u8
  m_netfn :: u8
  m_dest_LUN :: u8
  m_src_addr :: u8
  m_seq :: u8
  m_src_LUN :: u8
  m_cmd :: u8
  m_data_len :: u8
  m_data :: "u8 list"

section \<open>Checksums and framing\<close>

text \<open>\<open>for (i = 0; i < len; i++) cksum += buf[i]; return (0x100 - cksum)\<close>, with \<open>uint8_t\<close>
  variables and an \<open>int\<close> subtraction narrowed to \<open>uint8_t\<close>.\<close>

definition calc_cksum :: "u8 list \<Rightarrow> u8 \<Rightarrow> u8" where
  "calc_cksum buf len =
     word_of_int (0x100 - uint (fold (\<lambda>i cksum. cksum + byte_at buf i) [0..<unat len] 0))"

text \<open>The copy of the routine in libs/lightning/lightning_sensor.cpp.\<close>

definition calc_checksum :: "u8 list \<Rightarrow> u8 \<Rightarrow> u8" where
  "calc_checksum buf len =
     word_of_int (0x100 - uint (fold (\<lambda>i cksum. cksum + byte_at buf i) [0..<unat len] 0))"

definition ipmb_encode :: "u8 list \<Rightarrow> ipmi_msg \<Rightarrow> int \<times> u8 list" where
  "ipmb_encode buffer msg = (
     let b = write_at 0 [m_dest_addr msg] buffer;
         b = write_at 1 [(push_bit 2 (m_netfn msg) AND 0xFC) OR (m_dest_LUN msg AND 0x03)] b;
         b = write_at 2 [calc_cksum b 2] b;
         b = write_at 3 [m_src_addr msg] b;
         b = write_at 4 [(push_bit 2 (m_seq msg) AND 0xFC) OR (m_src_LUN msg AND 0x03)] b;
         b = write_at 5 [m_cmd msg] b;
         i = (6 :: u8);
         b = (if m_data_len msg \<noteq> 0
              then write_at (unat i) (take (unat (m_data_len msg)) (m_data msg)) b else b);
         i = (if m_data_len msg \<noteq> 0 then i + m_data_len msg else i)
     in (uint i + 1, write_at (unat i) [calc_cksum b i] b))"

section \<open>The I2C bus\<close>

text \<open>\<open>i2c_write\<close> tries \<open>I2C_RDWR\<close> up to 15 times; \<open>rc k\<close> is the driver's return value at attempt
  \<open>k\<close>. The message goes to \<open>buf[0] >> 1\<close> and carries the bytes after the first.\<close>

fun i2c_attempts :: "(nat \<Rightarrow> int) \<Rightarrow> nat \<Rightarrow> nat \<Rightarrow> int" where
  "i2c_attempts rc i 0 = -1"
| "i2c_attempts rc i (Suc left) = (if rc i < 0 then i2c_attempts rc (Suc i) left else 0)"

definition i2c_write :: "(nat \<Rightarrow> int) \<Rightarrow> u8 list \<Rightarrow> u8 \<Rightarrow> int \<times> (u8 \<times> u8 list)" where
  "i2c_write rc buf len =
     (i2c_attempts rc 0 15, (drop_bit 1 (byte_at buf 0), bytes_at buf 1 (unat (len - 1))))"

text \<open>\<open>ipmb_handle\<close> drops the result of the write: what remains is the message put on the bus,
  if an attempt got through.\<close>

definition ipmb_handle :: "(nat \<Rightarrow> int) \<Rightarrow> u8 list \<Rightarrow> u8 \<Rightarrow> (u8 \<times> u8 list) option" where
  "ipmb_handle rc request req_len =
     (let (r, msg) = i2c_write rc request req_len in if r \<noteq> 0 then None else Some msg)"

text \<open>\<open>i2c_slave_read\<close>: the driver stores at most \<open>MAX_BYTES\<close> bytes and sets \<open>msg.len\<close>, which is
  then narrowed to the \<open>uint8_t\<close> \<open>rx_len\<close>.\<close>

definition i2c_slave_read :: "u8 list \<Rightarrow> ipmb_state \<Rightarrow> ipmb_state" where
  "i2c_slave_read packet s = s\<lparr>rx_buf := write_at 0 (take 300 packet) (rx_buf s),
     rx_len := word_of_nat (length (take 300 packet))\<rparr>"

text \<open>One turn of the loop of \<open>ipmb_rx_handler\<close>; the indices are those of \<open>ipmb_res_t\<close>
  (\<open>hdr_cksum\<close> 2, \<open>seq_lun\<close> 4, \<open>cc\<close> 6).\<close>

definition ipmb_rx_handler :: "u8 list \<Rightarrow> ipmb_state \<Rightarrow> ipmb_state" where
  "ipmb_rx_handler packet s = (
     let s = i2c_slave_read packet s; buf = rx_buf s; len = rx_len s in
     if unat len < 6 then s
     else if byte_at buf 2 \<noteq> calc_cksum buf 2 then s
     else if byte_at buf (unat (len - 1)) \<noteq> calc_cksum (drop 3 buf) (len - 4) then s
     else if byte_at buf 6 = 0
     then (if gseq s = uint (drop_bit 2 (byte_at buf 4)) then s\<lparr>rx_done := 1\<rparr> else s)
     else s)"

section \<open>Requests\<close>

definition next_seq :: "ipmb_state \<Rightarrow> ipmb_state" where
  "next_seq s = s\<lparr>gseq := (if gseq s = 63 then 0 else gseq s) + 1\<rparr>"

definition request_msg :: "u8 \<Rightarrow> u8 \<Rightarrow> u8 list \<Rightarrow> ipmb_state \<Rightarrow> ipmi_msg" where
  "request_msg netfn cmd d s = \<lparr>m_dest_addr = push_bit 1 0x16, m_netfn = netfn, m_dest_LUN = 0,
     m_src_addr = push_bit 1 0x20, m_seq = word_of_int (gseq s), m_src_LUN = 0, m_cmd = cmd,
     m_data_len = word_of_nat (length d), m_data = d @ replicate (32 - length d) 0\<rparr>"

definition ipmb_send :: "(nat \<Rightarrow> int) \<Rightarrow> ipmi_msg \<Rightarrow> (u8 \<times> u8 list) option" where
  "ipmb_send rc msg = (let (n, b) = ipmb_encode (replicate 128 0) msg
                       in ipmb_handle rc b (word_of_int n))"

text \<open>\<open>while ((rx_done == 0) && count < 300) { count++; delay(1); }\<close>: the first argument is how
  often the loop may still run, \<open>arrive k\<close> the packets that come in during the delay that makes
  \<open>count\<close> equal to \<open>k + 1\<close>.\<close>

fun wait_rx :: "nat \<Rightarrow> (nat \<Rightarrow> u8 list list) \<Rightarrow> ipmb_state \<Rightarrow> ipmb_state" where
  "wait_rx 0 arrive s = s"
| "wait_rx (Suc n) arrive s =
     (if rx_done s = 0 then wait_rx n arrive (fold ipmb_rx_handler (arrive (299 - n)) s) else s)"

text \<open>\<open>get_ipmb_sensor(id, rx_buf, rx_len)\<close>; \<open>res->data[k]\<close> is byte \<open>7 + k\<close> of the buffer. The
  length is not looked at.\<close>

definition not_ff :: "u8 \<Rightarrow> int" where
  "not_ff b = (if b \<noteq> 0xff then uint b else 0)"

fun copy_temps :: "nat \<Rightarrow> nat \<Rightarrow> nat \<Rightarrow> u8 list \<Rightarrow> int list \<Rightarrow> int list" where
  "copy_temps 0 dst src buf t = t"
| "copy_temps (Suc n) dst src buf t =
     copy_temps n (Suc dst) (Suc src) buf (t[dst := not_ff (byte_at buf src)])"

definition get_ipmb_sensor :: "int \<Rightarrow> ipmb_state \<Rightarrow> ipmb_state" where
  "get_ipmb_sensor sid s = (let buf = rx_buf s in
     if sid = 48 then s\<lparr>g_Tmax := uint (byte_at buf 7)\<rparr>
     else if sid = 0x4B then
       s\<lparr>temp_data := copy_temps 8 (2 + 12) (7 + 13) buf (copy_temps 8 2 (7 + 5) buf
           ((temp_data s)[0 := uint (byte_at buf (7 + 3)), 1 := uint (byte_at buf (7 + 4))]))\<rparr>
     else s)"


definition ipmb_sensor_reading ::
    "u8 \<Rightarrow> (nat \<Rightarrow> int) \<Rightarrow> (nat \<Rightarrow> u8 list list) \<Rightarrow> ipmb_state
      \<Rightarrow> int \<times> (u8 \<times> u8 list) option \<times> ipmb_state" where
  "ipmb_sensor_reading sid rc arrive s = (
     let s = next_seq s;
         s = s\<lparr>rx_buf := (rx_buf s)[7 := 0]\<rparr>;
         sent = ipmb_send rc (request_msg 0x04 0x2d [sid] s);
         s = wait_rx 300 arrive (s\<lparr>rx_done := 0\<rparr>)
     in (0, sent, get_ipmb_sensor (uint sid) s))"



text \<open>\<open>ipmb_res_handle(response, res_len)\<close> over a buffer of known size: the bytes it reads are
  the header, byte \<open>len - 1\<close> (an \<open>int\<close> index), and \<open>(uint8_t)(len - 4)\<close> bytes from the fourth.\<close>

definition ipmb_res_handle :: "u8 list \<Rightarrow> u8 \<Rightarrow> u8 cres" where
  "ipmb_res_handle response len = (
     if length response < 3 then Ub
     else if byte_at response 2 \<noteq> calc_checksum response 2 then Ret 0xff
     else if len = 0 \<or> length response < unat len \<or> length response < 3 + unat (len - 4) then Ub
     else if byte_at response (unat (len - 1)) \<noteq> calc_checksum (drop 3 response) (len - 4)
     then Ret 0xff
     else if length response < 7 then Ub
     else Ret (byte_at response 6))"

section \<open>The checksum contract\<close>

lemma fold_cksum:
  "n \<le> length buf \<Longrightarrow> fold (\<lambda>i c. c + byte_at buf i) [0..<n] c = c + sum_list (take n buf)"
  by (induction n arbitrary: c) (simp_all add: take_Suc_conv_app_nth byte_at_nth add.assoc)

lemma calc_cksum_sum:
  "unat len \<le> length buf \<Longrightarrow> calc_cksum buf len = - sum_list (take (unat len) buf)"
  by (simp add: calc_cksum_def fold_cksum word_uint_eq_iff uint_word_of_int uint_word_ariths)

lemma calc_checksum_same: "calc_checksum = calc_cksum"
  by (intro ext) (simp add: calc_checksum_def calc_cksum_def)

lemma calc_cksum_all:
  "length bs \<le> 255 \<Longrightarrow> calc_cksum bs (word_of_nat (length bs)) = - sum_list bs"
  by (subst calc_cksum_sum) (simp_all add: unat_of_nat)

interpretation ipmb_ck: checksum_scheme
  "\<lambda>bs. calc_cksum bs (word_of_nat (length bs))" "\<lambda>bs. length bs \<le> 255"
  by unfold_locales (simp add: calc_cksum_all)

section \<open>The frame of the IPMB specification\<close>

text \<open>Two checksums, one over the connection header and one over the rest.\<close>

definition ipmb_header :: "ipmi_msg \<Rightarrow> u8 list" where
  "ipmb_header m = [m_dest_addr m, (push_bit 2 (m_netfn m) AND 0xFC) OR (m_dest_LUN m AND 0x03)]"

definition ipmb_body :: "ipmi_msg \<Rightarrow> u8 list" where
  "ipmb_body m = [m_src_addr m, (push_bit 2 (m_seq m) AND 0xFC) OR (m_src_LUN m AND 0x03), m_cmd m]
     @ take (unat (m_data_len m)) (m_data m)"

definition ipmb_frame :: "ipmi_msg \<Rightarrow> u8 list" where
  "ipmb_frame m = ipmb_header m @ [- sum_list (ipmb_header m)] @ ipmb_body m
     @ [- sum_list (ipmb_body m)]"

definition msg_ok :: "ipmi_msg \<Rightarrow> bool" where
  "msg_ok m \<longleftrightarrow> unat (m_data_len m) \<le> 32 \<and> length (m_data m) = 32"

lemma write_at_append:
  "length xs = k \<Longrightarrow> k + length ys \<le> length buf \<Longrightarrow>
     write_at k ys (write_at 0 xs buf) = write_at 0 (xs @ ys) buf"
  by (simp add: write_at_def add.commute)

lemma length_ipmb_frame: "msg_ok m \<Longrightarrow> length (ipmb_frame m) = 7 + unat (m_data_len m)"
  by (simp add: ipmb_frame_def ipmb_header_def ipmb_body_def msg_ok_def)

lemma calc_cksum_prefix:
  "length xs = unat len \<Longrightarrow> length xs \<le> length buf \<Longrightarrow>
     calc_cksum (write_at 0 xs buf) len = - sum_list xs"
  by (subst calc_cksum_sum) (simp_all add: write_at_def)

lemma unat_numeral_6: "unat (6 :: u8) = 6"
  by simp

lemma unat_add_6: "unat n \<le> 32 \<Longrightarrow> unat ((6 :: u8) + n) = 6 + unat n"
  by (simp add: unat_word_ariths)

lemma uint_add_6:
  assumes "unat n \<le> 32"
  shows "uint ((6 :: u8) + n) + 1 = 7 + uint n"
proof -
  have "uint (6 + n) = int (unat (6 + n))" by (rule of_nat_unat [symmetric])
  also have "\<dots> = 6 + int (unat n)" unfolding unat_add_6 [OF assms] by (simp only: of_nat_add of_nat_numeral)
  also have "int (unat n) = uint n" by (rule of_nat_unat)
  finally show ?thesis by linarith
qed

text \<open>The routine checksums the header inside the message: as the header adds up to zero, the
  last byte is the checksum of the body alone.\<close>

lemma ipmb_encode_frame:
  assumes "msg_ok m" and "39 \<le> length buffer"
  shows "ipmb_encode buffer m = (7 + uint (m_data_len m), write_at 0 (ipmb_frame m) buffer)"
proof -
  let ?n = "unat (m_data_len m)"
  let ?d = "take ?n (m_data m)"
  let ?x1 = "(push_bit 2 (m_netfn m) AND 0xFC) OR (m_dest_LUN m AND 0x03)"
  let ?x4 = "(push_bit 2 (m_seq m) AND 0xFC) OR (m_src_LUN m AND 0x03)"
  let ?h = "[m_dest_addr m, ?x1]"
  let ?p = "?h @ [- sum_list ?h] @ ipmb_body m"
  have n: "?n \<le> 32" "length ?d = ?n" using assms(1) by (simp_all add: msg_ok_def)
  have len: "?n + 7 \<le> length buffer" using n(1) assms(2) by linarith
  have head: "write_at 1 [?x1] (write_at 0 [m_dest_addr m] buffer) = write_at 0 ?h buffer"
    using len by (subst write_at_append) simp_all
  have ck: "calc_cksum (write_at 0 ?h buffer) 2 = - sum_list ?h"
    using len by (rule_tac calc_cksum_prefix) simp_all
  have five: "write_at 5 [m_cmd m] (write_at 4 [?x4] (write_at 3 [m_src_addr m]
      (write_at 2 [- sum_list ?h] (write_at 0 ?h buffer))))
     = write_at 0 (?h @ [- sum_list ?h] @ [m_src_addr m, ?x4, m_cmd m]) buffer"
    using len by (simp add: write_at_append)
  let ?q = "?h @ [- sum_list ?h] @ [m_src_addr m, ?x4, m_cmd m]"
  have q: "?p = ?q @ ?d" by (simp only: ipmb_body_def append_assoc)
  have "write_at 6 ?d (write_at 0 ?q buffer) = write_at 0 (?q @ ?d) buffer"
    by (rule write_at_append) (use len n in simp_all)
  moreover have "write_at 0 ?q buffer = write_at 0 (?q @ ?d) buffer" if "m_data_len m = 0"
    using that by simp
  ultimately have data: "(if m_data_len m \<noteq> 0 then write_at (unat (6 :: u8)) ?d
      (write_at 0 ?q buffer) else write_at 0 ?q buffer) = write_at 0 ?p buffer"
    unfolding q by (metis (no_types) unat_numeral_6)
  have i: "(if m_data_len m \<noteq> 0 then (6 :: u8) + m_data_len m else 6) = 6 + m_data_len m"
    by simp
  have lp: "length ?p = unat (6 + m_data_len m)" "length ?p \<le> length buffer"
    using n len by (simp_all add: unat_add_6 ipmb_body_def)
  have last: "calc_cksum (write_at 0 ?p buffer) (6 + m_data_len m) = - sum_list (ipmb_body m)"
    using lp by (subst calc_cksum_prefix) simp_all
  have res: "write_at (unat (6 + m_data_len m)) [- sum_list (ipmb_body m)] (write_at 0 ?p buffer)
     = write_at 0 (ipmb_frame m) buffer"
    using lp len n by (subst write_at_append)
      (simp_all add: ipmb_frame_def ipmb_header_def unat_add_6)
  have num: "uint (6 + m_data_len m) + 1 = 7 + uint (m_data_len m)"
    by (rule uint_add_6 [OF n(1)])
  show ?thesis
    unfolding ipmb_encode_def Let_def head ck five i data last res num ..
qed

section \<open>What the receive thread accepts\<close>

text \<open>The packet as the thread sees it: at most 300 bytes are stored, and the length is counted
  modulo 256.\<close>

definition received :: "u8 list \<Rightarrow> u8 list" where
  "received packet = take (length (take 300 packet) mod 256) packet"

definition well_framed :: "u8 list \<Rightarrow> bool" where
  "well_framed p \<longleftrightarrow> 6 \<le> length p \<and> sum_list (take 3 p) = 0 \<and> sum_list (drop 3 p) = 0"

definition answers :: "int \<Rightarrow> u8 list \<Rightarrow> bool" where
  "answers g packet \<longleftrightarrow> well_framed (received packet) \<and> g = uint (drop_bit 2 (packet ! 4))"

definition bus_ok :: "ipmb_state \<Rightarrow> bool" where
  "bus_ok s \<longleftrightarrow> length (rx_buf s) = 300 \<and> length (temp_data s) = 64 \<and> 0 \<le> gseq s \<and> gseq s \<le> 63"




lemma slave_read_sel [simp]:
  "rx_buf (i2c_slave_read p s) = write_at 0 (take 300 p) (rx_buf s)"
  "rx_len (i2c_slave_read p s) = word_of_nat (length (take 300 p))"
  "rx_done (i2c_slave_read p s) = rx_done s" "gseq (i2c_slave_read p s) = gseq s"
  "g_Tmax (i2c_slave_read p s) = g_Tmax s" "temp_data (i2c_slave_read p s) = temp_data s"
  by (simp_all add: i2c_slave_read_def)






section \<open>Invariant and waiting\<close>

lemma rx_handler_keeps [simp]:
  "gseq (ipmb_rx_handler p s) = gseq s" "temp_data (ipmb_rx_handler p s) = temp_data s"
  "g_Tmax (ipmb_rx_handler p s) = g_Tmax s"
  "rx_buf (ipmb_rx_handler p s) = write_at 0 (take 300 p) (rx_buf s)"
  by (simp_all add: ipmb_rx_handler_def Let_def)

lemma bus_ok_rx [simp]: "bus_ok s \<Longrightarrow> bus_ok (ipmb_rx_handler p s)"
  by (simp add: bus_ok_def length_write_at)

lemma bus_ok_rxs [simp]: "bus_ok s \<Longrightarrow> bus_ok (fold ipmb_rx_handler ps s)"
  by (induction ps arbitrary: s) simp_all

lemma rxs_keep [simp]:
  "gseq (fold ipmb_rx_handler ps s) = gseq s" "temp_data (fold ipmb_rx_handler ps s) = temp_data s"
  by (induction ps arbitrary: s) simp_all

lemma wait_rx_keeps [simp]:
  "gseq (wait_rx n arrive s) = gseq s" "temp_data (wait_rx n arrive s) = temp_data s"
  by (induction n arbitrary: s) simp_all

lemma bus_ok_wait [simp]: "bus_ok s \<Longrightarrow> bus_ok (wait_rx n arrive s)"
  by (induction n arbitrary: s) simp_all

lemma wait_rx_done: "rx_done s \<noteq> 0 \<Longrightarrow> wait_rx n arrive s = s"
  by (cases n) simp_all

lemma wait_rx_nothing: "(\<And>k. 300 - n \<le> k \<Longrightarrow> arrive k = []) \<Longrightarrow> n \<le> 300 \<Longrightarrow> wait_rx n arrive s = s"
proof (induction n arbitrary: s)
  case (Suc n)
  have "arrive (299 - n) = []" using Suc.prems(1) by simp
  moreover have "wait_rx n arrive s = s"
    using Suc.prems by (intro Suc.IH) simp_all
  ultimately show ?case by simp
qed simp

lemma wait_rx_single:
  assumes "t < 300" and "rx_done s = 0"
  shows "n \<le> 300 \<Longrightarrow> 300 - n \<le> t \<Longrightarrow>
    wait_rx n (\<lambda>k. if k = t then [p] else []) s = ipmb_rx_handler p s"
proof (induction n)
  case 0
  then show ?case using assms(1) by simp
next
  case (Suc n)
  show ?case
  proof (cases "299 - n = t")
    case True
    have "wait_rx n (\<lambda>k. if k = t then [p] else []) s' = s'" for s'
      by (rule wait_rx_nothing) (use True Suc.prems in simp_all)
    then show ?thesis using True assms(2) by simp
  next
    case False
    then have "300 - n \<le> t" "n \<le> 300" using Suc.prems by linarith+
    then show ?thesis using Suc.IH False assms(2) by simp
  qed
qed





lemma bus_ok_steps [simp]:
  "bus_ok s \<Longrightarrow> bus_ok (next_seq s)"
  "bus_ok s \<Longrightarrow> bus_ok (s\<lparr>rx_done := b\<rparr>)"
  "bus_ok s \<Longrightarrow> bus_ok (s\<lparr>rx_buf := (rx_buf s)[i := c]\<rparr>)"
  by (simp_all add: bus_ok_def next_seq_def)

lemma length_copy_temps [simp]: "length (copy_temps n d e buf t) = length t"
  by (induction n arbitrary: d e t) simp_all

lemma copy_temps_low [simp]: "i < d \<Longrightarrow> copy_temps n d e buf t ! i = t ! i"
  by (induction n arbitrary: d e t) simp_all

lemma bus_ok_get [simp]: "bus_ok s \<Longrightarrow> bus_ok (get_ipmb_sensor i s)"
  by (simp add: bus_ok_def get_ipmb_sensor_def Let_def)




lemma bus_ok_boot: "bus_ok ipmb_boot"
  by (simp add: bus_ok_def ipmb_boot_def)



section \<open>Fields\<close>

lemma pack_fields:
  fixes x y :: u8
  shows "drop_bit 2 ((push_bit 2 x AND 0xFC) OR (y AND 3)) = x AND mask 6"
    and "((push_bit 2 x AND 0xFC) OR (y AND 3)) AND 3 = y AND 3"
proof -
  have c: "(0xFC :: u8) = push_bit 2 (mask 6)" "(3 :: u8) = mask 2"
    by (simp_all add: mask_eq_exp_minus_1)
  show "drop_bit 2 ((push_bit 2 x AND 0xFC) OR (y AND 3)) = x AND mask 6"
    unfolding c by (rule bit_word_eqI) (auto simp: bit_simps)
  show "((push_bit 2 x AND 0xFC) OR (y AND 3)) AND 3 = y AND 3"
    unfolding c by (rule bit_word_eqI) (auto simp: bit_simps)
qed


lemma ipmb_frame_framed:
  assumes "msg_ok m"
  shows "well_framed (ipmb_frame m)" "length (ipmb_frame m) = 7 + unat (m_data_len m)"
    "length (ipmb_frame m) \<le> 39"
proof -
  show l: "length (ipmb_frame m) = 7 + unat (m_data_len m)" by (rule length_ipmb_frame [OF assms])
  then show "length (ipmb_frame m) \<le> 39" using assms by (simp add: msg_ok_def)
  show "well_framed (ipmb_frame m)"
    using l by (simp add: well_framed_def ipmb_frame_def ipmb_header_def algebra_simps)
qed

lemma ipmb_frame_fields:
  assumes "msg_ok m"
  shows "ipmb_frame m ! 0 = m_dest_addr m" "drop_bit 2 (ipmb_frame m ! 1) = m_netfn m AND mask 6"
    "ipmb_frame m ! 1 AND 3 = m_dest_LUN m AND 3" "ipmb_frame m ! 3 = m_src_addr m"
    "drop_bit 2 (ipmb_frame m ! 4) = m_seq m AND mask 6"
    "ipmb_frame m ! 4 AND 3 = m_src_LUN m AND 3" "ipmb_frame m ! 5 = m_cmd m"
    "take (unat (m_data_len m)) (drop 6 (ipmb_frame m)) = take (unat (m_data_len m)) (m_data m)"
proof -
  have n: "ipmb_frame m ! 0 = m_dest_addr m" "ipmb_frame m ! 3 = m_src_addr m"
    "ipmb_frame m ! 1 = (push_bit 2 (m_netfn m) AND 0xFC) OR (m_dest_LUN m AND 3)"
    "ipmb_frame m ! 4 = (push_bit 2 (m_seq m) AND 0xFC) OR (m_src_LUN m AND 3)"
    "ipmb_frame m ! 5 = m_cmd m"
    by (simp_all add: ipmb_frame_def ipmb_header_def ipmb_body_def)
  show "ipmb_frame m ! 0 = m_dest_addr m" "ipmb_frame m ! 3 = m_src_addr m"
    "ipmb_frame m ! 5 = m_cmd m"
    by (rule n)+
  show "drop_bit 2 (ipmb_frame m ! 1) = m_netfn m AND mask 6"
    "ipmb_frame m ! 1 AND 3 = m_dest_LUN m AND 3"
    "drop_bit 2 (ipmb_frame m ! 4) = m_seq m AND mask 6"
    "ipmb_frame m ! 4 AND 3 = m_src_LUN m AND 3"
    unfolding n by (rule pack_fields)+
  show "take (unat (m_data_len m)) (drop 6 (ipmb_frame m))
      = take (unat (m_data_len m)) (m_data m)"
    using assms by (simp add: ipmb_frame_def ipmb_header_def ipmb_body_def msg_ok_def)
qed

lemma request_msg_ok: "length d \<le> 32 \<Longrightarrow> msg_ok (request_msg f c d s)"
  by (simp add: msg_ok_def request_msg_def unat_of_nat)

lemma take_frame:
  "take (length (ipmb_frame m)) (write_at 0 (ipmb_frame m) b) = ipmb_frame m"
  by (rule take_write_at_0)



section \<open>Properties\<close>

text \<open>C33. The frame \<open>ipmb_encode\<close> writes is the one of the IPMB specification: the message checksum it
  computes over the whole frame, header included, is the one over the body alone that the
  receiving side verifies; its fields give back the message, with network function and sequence
  number cut to six bits, the unit numbers to two; and no byte after the frame is touched.\<close>

theorem ipmb_encode_roundtrip:
  assumes "msg_ok m" and "length buffer = 128"
  shows "\<exists>n. fst (ipmb_encode buffer m) = int n \<and> n = 7 + unat (m_data_len m)
    \<and> (let f = take n (snd (ipmb_encode buffer m)) in
        well_framed f \<and> f ! 0 = m_dest_addr m \<and> drop_bit 2 (f ! 1) = m_netfn m AND mask 6
        \<and> f ! 1 AND 3 = m_dest_LUN m AND 3 \<and> f ! 3 = m_src_addr m
        \<and> drop_bit 2 (f ! 4) = m_seq m AND mask 6 \<and> f ! 4 AND 3 = m_src_LUN m AND 3
        \<and> f ! 5 = m_cmd m
        \<and> take (unat (m_data_len m)) (drop 6 f) = take (unat (m_data_len m)) (m_data m)
        \<and> drop n (snd (ipmb_encode buffer m)) = drop n buffer)"
proof -
  have e: "ipmb_encode buffer m = (7 + uint (m_data_len m), write_at 0 (ipmb_frame m) buffer)"
    by (rule ipmb_encode_frame) (use assms in simp_all)
  have l: "length (ipmb_frame m) = 7 + unat (m_data_len m)" "length (ipmb_frame m) \<le> 39"
    by (rule ipmb_frame_framed(2,3) [OF assms(1)])+
  have t: "take (7 + unat (m_data_len m)) (write_at 0 (ipmb_frame m) buffer) = ipmb_frame m"
    unfolding l(1) [symmetric] by (rule take_frame)
  have d: "drop (7 + unat (m_data_len m)) (write_at 0 (ipmb_frame m) buffer)
      = drop (7 + unat (m_data_len m)) buffer"
    using l(1) by (simp add: write_at_def)
  show ?thesis
    using ipmb_frame_framed(1) [OF assms(1)] ipmb_frame_fields [OF assms(1)]
    by (intro exI [of _ "7 + unat (m_data_len m)"]) (simp add: e t d Let_def)
qed

theorem ipmb_encode_roundtrip_witness:
  "\<exists>n. fst (ipmb_encode (replicate 128 0) (request_msg 4 0x2d [48] ipmb_boot)) = int n \<and> n = 8"
proof -
  have "msg_ok (request_msg 4 0x2d [48] ipmb_boot)" by (rule request_msg_ok) simp
  from ipmb_encode_roundtrip [OF this, of "replicate 128 0"]
  show ?thesis by (auto simp: request_msg_def)
qed

text \<open>A sensor reading takes the temperature limit out of the receive buffer whether or not an
  answer was accepted: with one packet on the bus during the 300 ms, the limit becomes its byte 7
  - wrong checksum, foreign sequence number or error code notwithstanding - and with none it
  becomes 0. The return value is 0 in every case.\<close>

theorem sensor_reading_unchecked:
  assumes "bus_ok s" and "t < 300" and "8 \<le> length p" and "length p \<le> 300"
  shows "(let (r, sent, s') = ipmb_sensor_reading 48 rc (\<lambda>k. if k = t then [p] else []) s
          in r = 0 \<and> g_Tmax s' = uint (p ! 7))
    \<and> (let (r, sent, s') = ipmb_sensor_reading 48 rc (\<lambda>k. []) s in r = 0 \<and> g_Tmax s' = 0)"
proof -
  let ?s = "(next_seq s)\<lparr>rx_buf := (rx_buf (next_seq s))[7 := 0], rx_done := 0\<rparr>"
  have w: "wait_rx 300 (\<lambda>k. if k = t then [p] else []) ?s = ipmb_rx_handler p ?s"
    by (rule wait_rx_single) (use assms(2) in simp_all)
  have e: "wait_rx 300 (\<lambda>k. []) ?s = ?s"
    by (rule wait_rx_nothing) simp_all
  have "length (rx_buf (next_seq s)) = 300" using assms(1) by (simp add: bus_ok_def next_seq_def)
  then show ?thesis using assms(3,4)
    by (simp add: ipmb_sensor_reading_def Let_def w e get_ipmb_sensor_def byte_at_def
        write_at_def nth_append)
qed

theorem sensor_reading_unchecked_witness:
  "g_Tmax (snd (snd (ipmb_sensor_reading 48 (\<lambda>_. 0)
      (\<lambda>k. if k = 5 then [[1, 2, 3, 4, 5, 6, 7, 8]] else []) ipmb_boot))) = 8"
  using sensor_reading_unchecked [OF bus_ok_boot, of 5 "[1, 2, 3, 4, 5, 6, 7, 8]" "\<lambda>_. 0"]
  by (simp add: case_prod_beta Let_def)



text \<open>The receiver counts lengths modulo 256: a packet with 256 bytes of anything behind a valid
  answer is accepted as that answer.\<close>

theorem long_packet_truncated:
  assumes "length q = 256" and "length p \<le> 44" and "6 \<le> length p"
  shows "received (p @ q) = p \<and> answers g (p @ q) = answers g p"
  using assms by (simp add: answers_def received_def nth_append)

theorem long_packet_truncated_witness:
  "answers 1 ([0x40, 0x14, 0xAC, 0x2C, 0x04, 0x2D, 0, 0xA3] @ replicate 256 0xEE)
    = answers 1 [0x40, 0x14, 0xAC, 0x2C, 0x04, 0x2D, 0, 0xA3]"
  using long_packet_truncated [of "replicate 256 0xEE" "[0x40, 0x14, 0xAC, 0x2C, 0x04, 0x2D, 0, 0xA3]" 1]
  by simp

end
