(* ===== verification/Rest_Settings.thy ===== *)
theory Rest_Settings
  imports User_Db Fru_Store Redfish_Util
begin

text \<open>
  The account and mail settings behind the REST commands of libs/apps/apps.cpp: LDAP, Active
  Directory, RADIUS, SMTP and the certificate data. Each lives in a file holding one C structure
  that every setter reads, changes and writes back as a whole; \<open>write_ldap_to_nslcd\<close>,
  \<open>write_ad_to_file\<close>, \<open>set_radius_config\<close> and \<open>write_smtp_config_to_file\<close> turn them into the
  configuration files of the daemons. Character arrays are byte lists of the array's length; a
  copy that does not fit its array or a string without a terminator is undefined behaviour
  (\<open>None\<close>). A structure the code declares without initialising it is a parameter \<open>junk\<close>.
\<close>

section \<open>Files, arrays and printed numbers\<close>

text \<open>A binary settings file: \<open>Cut\<close> is one that was opened for writing but holds no structure.\<close>

datatype 'r bin = Absent | Cut | Stored 'r

definition fread_bin :: "'r \<Rightarrow> 'r bin \<Rightarrow> 'r" where
  "fread_bin junk f = (case f of Stored c \<Rightarrow> c | _ \<Rightarrow> junk)"

text \<open>\<open>strcpy(array, s)\<close> for a C string given without its terminator.\<close>

definition strcpy_field :: "u8 list \<Rightarrow> u8 list \<Rightarrow> u8 list option" where
  "strcpy_field array s = (if length s < length array then Some (write_at 0 (s @ [0]) array) else None)"

text \<open>The string in a field, copied into a local array of \<open>n\<close> bytes.\<close>

definition strcpy_local :: "nat \<Rightarrow> u8 list \<Rightarrow> u8 list option" where
  "strcpy_local n field = (case c_string field of
     None \<Rightarrow> None | Some s \<Rightarrow> if length s < n then Some s else None)"

definition print_int :: "int \<Rightarrow> u8 list" where
  "print_int n = (if n < 0 then ascii (CHR ''-'' # to_string (nat (- n))) else ascii (to_string (nat n)))"

lemma ascii_append [simp]: "ascii (s @ t) = ascii s @ ascii t"
  by (simp add: ascii_def)

lemma length_ascii [simp]: "length (ascii s) = length s"
  by (simp add: ascii_def)

lemma strcpy_field_Some [simp]:
  "length s < length array \<Longrightarrow> strcpy_field array s = Some (write_at 0 (s @ [0]) array)"
  by (simp add: strcpy_field_def)

lemma strcpy_field_length:
  "strcpy_field array s = Some x \<Longrightarrow> length x = length array"
  by (auto simp: strcpy_field_def length_write_at split: if_splits)

lemma c_string_write [simp]:
  "0 \<notin> set s \<Longrightarrow> c_string (write_at 0 (s @ [0]) array) = Some s"
  by (subgoal_tac "\<forall>b \<in> set s. b \<noteq> 0") (auto simp: c_string_def write_at_def takeWhile_append2)

lemma strcpy_local_write [simp]:
  "0 \<notin> set s \<Longrightarrow> strcpy_local n (write_at 0 (s @ [0]) array) = (if length s < n then Some s else None)"
  by (simp add: strcpy_local_def)

section \<open>LDAP\<close>

record ldap_config =
  ld_enable :: int
  ld_ip :: "u8 list"
  ld_port :: "u8 list"
  ld_binddn :: "u8 list"
  ld_bindpw :: "u8 list"
  ld_basedn :: "u8 list"
  ld_ssl :: int
  ld_timelimit :: int

definition ldap_sized :: "ldap_config \<Rightarrow> bool" where
  "ldap_sized c \<longleftrightarrow> length (ld_ip c) = 17 \<and> length (ld_port c) = 6 \<and> length (ld_binddn c) = 64
     \<and> length (ld_bindpw c) = 32 \<and> length (ld_basedn c) = 32"

text \<open>\<open>memset(&ldap_config, 0, sizeof(ldap_config_t))\<close>\<close>

definition ldap_zero :: ldap_config where
  "ldap_zero = \<lparr>ld_enable = 0, ld_ip = replicate 17 0, ld_port = replicate 6 0,
     ld_binddn = replicate 64 0, ld_bindpw = replicate 32 0, ld_basedn = replicate 32 0,
     ld_ssl = 0, ld_timelimit = 0\<rparr>"

definition set_ldap_enable :: "int \<Rightarrow> ldap_config bin \<Rightarrow> ldap_config bin option" where
  "set_ldap_enable enable f = Some (Stored (ldap_zero\<lparr>ld_enable := enable - 48\<rparr>))"

definition set_ldap_ip :: "u8 list \<Rightarrow> ldap_config \<Rightarrow> ldap_config bin \<Rightarrow> ldap_config bin option" where
  "set_ldap_ip ip junk f = (let c = fread_bin junk f in
     map_option (\<lambda>x. Stored (c\<lparr>ld_ip := x\<rparr>)) (strcpy_field (ld_ip c) ip))"

definition set_ldap_port :: "u8 list \<Rightarrow> ldap_config \<Rightarrow> ldap_config bin \<Rightarrow> ldap_config bin option" where
  "set_ldap_port port junk f = (let c = fread_bin junk f in
     map_option (\<lambda>x. Stored (c\<lparr>ld_port := x\<rparr>)) (strcpy_field (ld_port c) port))"

definition set_ldap_searchbase ::
    "u8 list \<Rightarrow> ldap_config \<Rightarrow> ldap_config bin \<Rightarrow> ldap_config bin option" where
  "set_ldap_searchbase basedn junk f = (let c = fread_bin junk f in
     map_option (\<lambda>x. Stored (c\<lparr>ld_basedn := x\<rparr>)) (strcpy_field (ld_basedn c) basedn))"

definition set_ldap_binddn :: "u8 list \<Rightarrow> ldap_config \<Rightarrow> ldap_config bin \<Rightarrow> ldap_config bin option" where
  "set_ldap_binddn binddn junk f = (let c = fread_bin junk f in
     map_option (\<lambda>x. Stored (c\<lparr>ld_binddn := x\<rparr>)) (strcpy_field (ld_binddn c) binddn))"

definition set_ldap_bindpw :: "u8 list \<Rightarrow> ldap_config \<Rightarrow> ldap_config bin \<Rightarrow> ldap_config bin option" where
  "set_ldap_bindpw bindpw junk f = (let c = fread_bin junk f in
     map_option (\<lambda>x. Stored (c\<lparr>ld_bindpw := x\<rparr>)) (strcpy_field (ld_bindpw c) bindpw))"

definition set_ldap_ssl :: "int \<Rightarrow> ldap_config \<Rightarrow> ldap_config bin \<Rightarrow> ldap_config bin option" where
  "set_ldap_ssl ssl junk f = Some (Stored ((fread_bin junk f)\<lparr>ld_ssl := ssl - 48\<rparr>))"

definition set_ldap_timelimit :: "int \<Rightarrow> ldap_config \<Rightarrow> ldap_config bin \<Rightarrow> ldap_config bin option" where
  "set_ldap_timelimit time junk f = Some (Stored ((fread_bin junk f)\<lparr>ld_timelimit := time\<rparr>))"

text \<open>The lines of /etc/nslcd.conf. They fit \<open>buf[128]\<close> and \<open>full_buf[4092]\<close> whatever the fields
  hold.\<close>

definition write_ldap_to_nslcd :: "ldap_config \<Rightarrow> ldap_config bin \<Rightarrow> u8 list option" where
  "write_ldap_to_nslcd junk f = (let c = fread_bin junk f in
     case (c_string (ld_ip c), c_string (ld_port c), c_string (ld_basedn c), c_string (ld_binddn c),
           c_string (ld_bindpw c)) of
       (Some ip, Some port, Some base, Some dn, Some pw) \<Rightarrow>
         Some (ascii ''uri ldap://'' @ ip @ ascii '':'' @ port @ [10]
           @ ascii ''base '' @ base @ [10] @ ascii ''binddn '' @ dn @ [10]
           @ ascii ''bindpw '' @ pw @ [10] @ ascii ''timelimit '' @ print_int (ld_timelimit c) @ [10])
     | _ \<Rightarrow> None)"

text \<open>What the query returns, before cpprestsdk prints it: \<open>LDAP_EN\<close>, \<open>BIND_PW\<close>, \<open>LDAP_IP\<close>,
  \<open>LDAP_PORT\<close>, \<open>TIMEOUT\<close>, \<open>BASE_DN\<close>, \<open>LDAP_SSL\<close>, \<open>BIND_DN\<close>.\<close>

record ldap_view =
  lv_enable :: int
  lv_bindpw :: "u8 list"
  lv_ip :: "u8 list"
  lv_port :: "u8 list"
  lv_timeout :: int
  lv_basedn :: "u8 list"
  lv_ssl :: int
  lv_binddn :: "u8 list"

definition parse_ldap_conf_file :: "ldap_config bin \<Rightarrow> ldap_view option" where
  "parse_ldap_conf_file f = (let c = fread_bin ldap_zero f in
     if ld_enable c \<noteq> 0 then
       (case (strcpy_local 16 (ld_ip c), strcpy_local 6 (ld_port c), strcpy_local 32 (ld_basedn c),
              strcpy_local 32 (ld_binddn c), strcpy_local 32 (ld_bindpw c)) of
          (Some ip, Some port, Some base, Some dn, Some pw) \<Rightarrow>
            Some \<lparr>lv_enable = ld_enable c, lv_bindpw = pw, lv_ip = ip, lv_port = port,
              lv_timeout = ld_timelimit c, lv_basedn = base, lv_ssl = ld_ssl c, lv_binddn = dn\<rparr>
        | _ \<Rightarrow> None)
     else Some \<lparr>lv_enable = 0, lv_bindpw = [], lv_ip = [], lv_port = [], lv_timeout = 0,
            lv_basedn = [], lv_ssl = 0, lv_binddn = []\<rparr>)"

section \<open>Active Directory\<close>

record ad_config =
  ad_enable :: int
  ad_dc_ip :: "u8 list"
  ad_domain :: "u8 list"
  ad_secret_name :: "u8 list"
  ad_secret_pwd :: "u8 list"

definition ad_zero :: ad_config where
  "ad_zero = \<lparr>ad_enable = 0, ad_dc_ip = replicate 32 0, ad_domain = replicate 32 0,
     ad_secret_name = replicate 64 0, ad_secret_pwd = replicate 32 0\<rparr>"

definition set_ad_enable :: "int \<Rightarrow> ad_config bin \<Rightarrow> ad_config bin option" where
  "set_ad_enable enable f = Some (Stored (ad_zero\<lparr>ad_enable := enable - 48\<rparr>))"

text \<open>A file that cannot be opened is handed to \<open>fread\<close> as a null pointer. The function ends
  without a \<open>return\<close>; its callers do not use the value.\<close>

definition set_ad_conf_file_ip_pwd ::
    "u8 list \<Rightarrow> u8 list \<Rightarrow> ad_config bin \<Rightarrow> ad_config bin option" where
  "set_ad_conf_file_ip_pwd ip pwd f = (case f of
     Absent \<Rightarrow> None
   | Cut \<Rightarrow> Some Cut
   | Stored c \<Rightarrow> (case (strcpy_field (ad_dc_ip c) ip, strcpy_field (ad_secret_pwd c) pwd) of
       (Some x, Some y) \<Rightarrow> Some (Stored (c\<lparr>ad_dc_ip := x, ad_secret_pwd := y\<rparr>))
     | _ \<Rightarrow> None))"

definition set_ad_conf_file_domain :: "u8 list \<Rightarrow> ad_config bin \<Rightarrow> ad_config bin option" where
  "set_ad_conf_file_domain domain f = (case f of
     Stored c \<Rightarrow> map_option (\<lambda>x. Stored (c\<lparr>ad_domain := x\<rparr>)) (strcpy_field (ad_domain c) domain)
   | _ \<Rightarrow> Some f)"

definition set_ad_conf_file_username :: "u8 list \<Rightarrow> ad_config bin \<Rightarrow> ad_config bin option" where
  "set_ad_conf_file_username s_username f = (case f of
     Stored c \<Rightarrow>
       map_option (\<lambda>x. Stored (c\<lparr>ad_secret_name := x\<rparr>)) (strcpy_field (ad_secret_name c) s_username)
   | _ \<Rightarrow> Some f)"

text \<open>The new contents of /etc/nslcd.conf; \<open>Some None\<close> when the function gives up and leaves the
  file as it is.\<close>

definition write_ad_to_file :: "ad_config bin \<Rightarrow> u8 list option option" where
  "write_ad_to_file f = (case f of
     Stored c \<Rightarrow>
       (case (c_string (ad_dc_ip c), c_string (ad_domain c), c_string (ad_secret_name c),
              c_string (ad_secret_pwd c)) of
          (Some ip, Some domain, Some name, Some pwd) \<Rightarrow>
            Some (Some (ascii ''uri ldap://'' @ ip @ [10] @ ascii ''tls_reqcert allow'' @ [10]
              @ ascii ''base '' @ domain @ [10] @ ascii ''pagesize 1000'' @ [10]
              @ ascii ''referrals off'' @ [10] @ ascii ''nss_nested_groups yes'' @ [10]
              @ ascii ''binddn '' @ name @ [10] @ ascii ''bindpw '' @ pwd @ [10]
              @ ascii ''filter     passwd (objectClass=*)'' @ [10]
              @ ascii ''map     passwd  uid     sAMAccountName'' @ [10]
              @ ascii ''filter     shadow (objectClass=*)'' @ [10]
              @ ascii ''map     shadow  uid     sAMAccountName'' @ [10]))
        | _ \<Rightarrow> None)
   | _ \<Rightarrow> Some None)"

record ad_view =
  av_enable :: int
  av_ip :: "u8 list"
  av_domain :: "u8 list"
  av_secret_name :: "u8 list"
  av_secret_pwd :: "u8 list"

text \<open>A failed \<open>fread\<close> leaves the structure uninitialised.\<close>

definition parse_ad_conf_file :: "ad_config \<Rightarrow> ad_config bin \<Rightarrow> ad_view option" where
  "parse_ad_conf_file junk f = (
     let off = \<lparr>av_enable = 0, av_ip = [], av_domain = [], av_secret_name = [], av_secret_pwd = []\<rparr>
     in if f = Absent then Some off
     else let c = fread_bin junk f in
       if ad_enable c = 0 then Some off
       else (case (strcpy_local 16 (ad_dc_ip c), strcpy_local 64 (ad_domain c),
                   strcpy_local 64 (ad_secret_name c), strcpy_local 32 (ad_secret_pwd c)) of
          (Some ip, Some domain, Some name, Some pwd) \<Rightarrow>
            Some \<lparr>av_enable = ad_enable c, av_ip = ip, av_domain = domain, av_secret_name = name,
              av_secret_pwd = pwd\<rparr>
        | _ \<Rightarrow> None))"

section \<open>RADIUS\<close>

record rad_config =
  rd_enable :: u8
  rd_ip :: "u8 list"
  rd_port :: "u8 list"
  rd_secret :: "u8 list"

definition rad_zero :: rad_config where
  "rad_zero = \<lparr>rd_enable = 0, rd_ip = replicate 16 0, rd_port = replicate 6 0,
     rd_secret = replicate 32 0\<rparr>"

text \<open>Returns the binary file and /etc/raddb/server. Like \<open>set_ad_conf_file_ip_pwd\<close> it ends
  without a \<open>return\<close>.\<close>

definition set_radius_config ::
    "rad_config \<Rightarrow> u8 list \<Rightarrow> u8 list \<Rightarrow> u8 list \<Rightarrow> (rad_config bin \<times> u8 list option) option" where
  "set_radius_config junk ip port secret =
     (case (strcpy_field (rd_ip junk) ip, strcpy_field (rd_port junk) port,
            strcpy_field (rd_secret junk) secret) of
        (Some x, Some y, Some z) \<Rightarrow>
          Some (Stored (junk\<lparr>rd_enable := 1, rd_ip := x, rd_port := y, rd_secret := z\<rparr>),
            Some (ip @ ascii '':'' @ port @ [9] @ secret @ [9] @ ascii ''5'' @ [10]))
      | _ \<Rightarrow> None)"

definition set_radius_disable :: "rad_config bin \<times> u8 list option" where
  "set_radius_disable = (Stored rad_zero, None)"

record rad_view =
  rv_enable :: int
  rv_ip :: "u8 list"
  rv_port :: "u8 list"
  rv_secret :: "u8 list"

text \<open>\<open>enable\<close> is never initialised when there is no file. A file without a structure gives the
  empty response (\<open>Some None\<close>).\<close>

definition parse_radius_conf_file :: "int \<Rightarrow> rad_config bin \<Rightarrow> rad_view option option" where
  "parse_radius_conf_file junk f = (case f of
     Absent \<Rightarrow> Some (Some \<lparr>rv_enable = junk, rv_ip = [], rv_port = [], rv_secret = []\<rparr>)
   | Cut \<Rightarrow> Some None
   | Stored c \<Rightarrow>
       (case (strcpy_local 16 (rd_ip c), strcpy_local 6 (rd_port c), strcpy_local 32 (rd_secret c)) of
          (Some ip, Some port, Some secret) \<Rightarrow>
            Some (Some \<lparr>rv_enable = uint (rd_enable c), rv_ip = ip, rv_port = port,
              rv_secret = secret\<rparr>)
        | _ \<Rightarrow> None))"

section \<open>SMTP\<close>

record smtp_config =
  sm_sender :: "u8 list"
  sm_machine :: "u8 list"
  sm_server1 :: "u8 list"
  sm_id1 :: "u8 list"
  sm_pwd1 :: "u8 list"
  sm_server2 :: "u8 list"
  sm_id2 :: "u8 list"
  sm_pwd2 :: "u8 list"

definition smtp_sized :: "smtp_config \<Rightarrow> bool" where
  "smtp_sized c \<longleftrightarrow> length (sm_sender c) = 32 \<and> length (sm_machine c) = 32
     \<and> length (sm_server1 c) = 20 \<and> length (sm_id1 c) = 20 \<and> length (sm_pwd1 c) = 24
     \<and> length (sm_server2 c) = 20 \<and> length (sm_id2 c) = 20 \<and> length (sm_pwd2 c) = 24"

text \<open>The mail members of the redfish \<open>EventService\<close>, when the record has one.\<close>

record es_smtp =
  es_sender :: "u8 list"
  es_server :: "u8 list"
  es_username :: "u8 list"
  es_password :: "u8 list"

text \<open>The file is truncated before the event service is looked up.\<close>

definition set_smtp_sender_machine ::
    "smtp_config \<Rightarrow> u8 list \<Rightarrow> u8 list \<Rightarrow> es_smtp option \<Rightarrow> (smtp_config bin \<times> es_smtp option) option"
  where
  "set_smtp_sender_machine junk sender machine es = (case es of
     None \<Rightarrow> Some (Cut, None)
   | Some e \<Rightarrow> (case (strcpy_field (sm_sender junk) sender, strcpy_field (sm_machine junk) machine) of
       (Some x, Some y) \<Rightarrow>
         Some (Stored (junk\<lparr>sm_sender := x, sm_machine := y\<rparr>), Some (e\<lparr>es_sender := sender\<rparr>))
     | _ \<Rightarrow> None))"

text \<open>Here the event service is used without a check.\<close>

definition set_smtp_primary_receiver ::
    "u8 list \<Rightarrow> u8 list \<Rightarrow> u8 list \<Rightarrow> smtp_config bin \<Rightarrow> es_smtp option
      \<Rightarrow> (smtp_config bin \<times> es_smtp option) option" where
  "set_smtp_primary_receiver server sid pwd f es = (case f of
     Stored c \<Rightarrow>
       (case (es, strcpy_field (sm_server1 c) server, strcpy_field (sm_id1 c) sid,
              strcpy_field (sm_pwd1 c) pwd) of
          (Some e, Some x, Some y, Some z) \<Rightarrow>
            Some (Stored (c\<lparr>sm_server1 := x, sm_id1 := y, sm_pwd1 := z\<rparr>),
              Some (e\<lparr>es_server := server, es_username := sid, es_password := pwd\<rparr>))
        | _ \<Rightarrow> None)
   | _ \<Rightarrow> Some (f, es))"

definition set_smtp_secondary_receiver ::
    "u8 list \<Rightarrow> u8 list \<Rightarrow> u8 list \<Rightarrow> smtp_config bin \<Rightarrow> smtp_config bin option" where
  "set_smtp_secondary_receiver server sid pwd f = (case f of
     Stored c \<Rightarrow>
       (case (strcpy_field (sm_server2 c) server, strcpy_field (sm_id2 c) sid,
              strcpy_field (sm_pwd2 c) pwd) of
          (Some x, Some y, Some z) \<Rightarrow> Some (Stored (c\<lparr>sm_server2 := x, sm_id2 := y, sm_pwd2 := z\<rparr>))
        | _ \<Rightarrow> None)
   | _ \<Rightarrow> Some f)"

definition write_smtp_config_to_file :: "smtp_config bin \<Rightarrow> u8 list option option" where
  "write_smtp_config_to_file f = (case f of
     Stored c \<Rightarrow>
       (case map c_string [sm_machine c, sm_sender c, sm_server1 c, sm_id1 c, sm_pwd1 c,
              sm_server2 c, sm_id2 c, sm_pwd2 c] of
          [Some machine, Some sender, Some server1, Some id1, Some pwd1, Some server2, Some id2,
           Some pwd2] \<Rightarrow>
            Some (Some (ascii ''#machine '' @ machine @ [10] @ ascii ''defaults'' @ [10]
              @ ascii ''from '' @ sender @ [10] @ ascii ''auth on'' @ [10] @ ascii ''port 587'' @ [10]
              @ ascii ''tls on'' @ [10] @ ascii ''tls_starttls on'' @ [10]
              @ ascii ''tls_trust_file /etc/ssl/certs/ca-certificates.crt'' @ [10, 10]
              @ ascii ''account PRIMARY'' @ [10] @ ascii ''host '' @ server1 @ [10]
              @ ascii ''user '' @ id1 @ [10] @ ascii ''password '' @ pwd1 @ [10, 10]
              @ ascii ''account SECONDARY'' @ [10] @ ascii ''host '' @ server2 @ [10]
              @ ascii ''user '' @ id2 @ [10] @ ascii ''password '' @ pwd2 @ [10]))
        | _ \<Rightarrow> None)
   | _ \<Rightarrow> Some None)"

section \<open>Certificate data\<close>

record ssl_config =
  sl_country :: "u8 list"
  sl_state_province :: "u8 list"
  sl_city_locality :: "u8 list"
  sl_organ :: "u8 list"
  sl_organ_unit :: "u8 list"
  sl_common :: "u8 list"
  sl_email :: "u8 list"
  sl_keylen :: "u8 list"
  sl_valid_from :: "u8 list"
  sl_valid_to :: "u8 list"
  sl_valid_for :: int

text \<open>\<open>get_expire_day\<close>: \<open>day t\<close> is the text of the local date at time \<open>t\<close>; the product
  \<open>24 * days * 60 * 60\<close> is an \<open>int\<close>.\<close>

definition get_expire_day :: "(int \<Rightarrow> u8 list) \<Rightarrow> int \<Rightarrow> int \<Rightarrow> (u8 list \<times> u8 list) option" where
  "get_expire_day day now days = (let p = 24 * days * 60 * 60 in
     if - (2 ^ 31) \<le> p \<and> p < 2 ^ 31 then Some (day now, day (now + p)) else None)"

definition set_ssl_1 ::
    "(int \<Rightarrow> u8 list) \<Rightarrow> int \<Rightarrow> ssl_config \<Rightarrow> u8 list \<Rightarrow> u8 list \<Rightarrow> u8 list \<Rightarrow> u8 list \<Rightarrow> u8 list
      \<Rightarrow> int \<Rightarrow> ssl_config bin option" where
  "set_ssl_1 day now junk keylen country state_province city_locality organ valid_for =
     (case get_expire_day day now valid_for of
        None \<Rightarrow> None
      | Some (today, expire) \<Rightarrow>
         (case (strcpy_field (sl_country junk) country, strcpy_field (sl_keylen junk) keylen,
                strcpy_field (sl_state_province junk) state_province,
                strcpy_field (sl_city_locality junk) city_locality, strcpy_field (sl_organ junk) organ,
                strcpy_field (sl_valid_from junk) today, strcpy_field (sl_valid_to junk) expire) of
            (Some c, Some k, Some s, Some l, Some g, Some f, Some t) \<Rightarrow>
              Some (Stored (junk\<lparr>sl_country := c, sl_keylen := k, sl_state_province := s,
                sl_city_locality := l, sl_organ := g, sl_valid_for := valid_for, sl_valid_from := f,
                sl_valid_to := t\<rparr>))
          | _ \<Rightarrow> None))"

definition set_ssl_2 ::
    "u8 list \<Rightarrow> u8 list \<Rightarrow> u8 list \<Rightarrow> ssl_config bin \<Rightarrow> ssl_config bin option" where
  "set_ssl_2 organ_unit common email f = (case f of
     Stored c \<Rightarrow>
       (case (strcpy_field (sl_organ_unit c) organ_unit, strcpy_field (sl_common c) common,
              strcpy_field (sl_email c) email) of
          (Some x, Some y, Some z) \<Rightarrow>
            Some (Stored (c\<lparr>sl_organ_unit := x, sl_common := y, sl_email := z\<rparr>))
        | _ \<Rightarrow> None)
   | _ \<Rightarrow> Some f)"

end
