(* ===== verification/Rest_Commands.thy ===== *)
theory Rest_Commands
  imports Rest_Settings Lan_Config Chassis_Ctl
begin

text \<open>
  The controller's side of the web interface: \<open>ipmi_handle_rest\<close> of libs/apps/apps.cpp, which the
  thread of KETI-Edge/rest_handler.cpp runs on every message of the request queue. The request
  carries 128 data bytes; the response buffer is zeroed before the handler runs and
  \<open>res_len\<close> starts at 0. Outside the model are the shell (\<open>system\<close>: its exit status is a
  parameter), the C library's calendar, uninitialised memory (parameters) and the commands that
  only print a report or whose routines the development does not model (\<open>others\<close>).
\<close>

section \<open>State and environment\<close>

text \<open>The IPv6 members of \<open>Ipminetwork\<close>, which the IPMI commands never touch.\<close>

record lan6 =
  v_enable :: u8
  v_src :: u8
  v_ip :: "u8 list"
  v_mask :: "u8 list"
  v_gw :: "u8 list"

datatype sys_cmd =
    Vlan_Down u8 | Vlan_Rem u8 | Vlan_Add u8 | Vlan_Up u8 "u8 list" "u8 list" | Boot_Ifup nat

record rest_state =
  rs_users :: user_db
  rs_lan :: "lan list"
  rs_lan6 :: "lan6 list"
  rs_chassis :: chassis
  rs_fru :: fru
  rs_ldap :: "ldap_config bin"
  rs_ad :: "ad_config bin"
  rs_rad :: "rad_config bin"
  rs_smtp :: "smtp_config bin"
  rs_ssl :: "ssl_config bin"
  rs_nslcd :: "u8 list option"
  rs_raddb :: "u8 list option"
  rs_msmtprc :: "u8 list option"
  rs_es :: "es_smtp option"
  rs_eth_priority :: u8
  rs_system :: "sys_cmd list"

record rest_env =
  re_shell :: "u8 list \<Rightarrow> int"
  re_mktime :: "u16 \<Rightarrow> u8 \<Rightarrow> u8 \<Rightarrow> u8 \<Rightarrow> u8 \<Rightarrow> u8 \<Rightarrow> int"
  re_now :: int
  re_day :: "int \<Rightarrow> u8 list"
  re_ldap :: ldap_config
  re_rad :: rad_config
  re_smtp :: smtp_config
  re_ssl :: ssl_config

text \<open>A routine returns the new state and the response text with its \<open>res_len\<close>; \<open>None\<close> is
  undefined behaviour.\<close>

type_synonym rest_routine = "rest_env \<Rightarrow> u8 list \<Rightarrow> rest_state \<Rightarrow> (rest_state \<times> u8 list \<times> int) option"

text \<open>A command that leaves the response untouched.\<close>

definition silent :: "rest_state option \<Rightarrow> (rest_state \<times> u8 list \<times> int) option" where
  "silent r = map_option (\<lambda>s. (s, [], 0)) r"

section \<open>Logging in\<close>

text \<open>\<open>sprintf\<close> into \<open>cmd[64]\<close> and \<open>system\<close>.\<close>

definition auth_command :: "u8 list \<Rightarrow> u8 list \<Rightarrow> u8 list \<Rightarrow> u8 list" where
  "auth_command username password kind =
     ascii ''echo '' @ password @ ascii '' | auth '' @ username @ ascii '' '' @ kind"

definition auth_external ::
    "(u8 list \<Rightarrow> int) \<Rightarrow> u8 list \<Rightarrow> u8 list \<Rightarrow> u8 list \<Rightarrow> int option" where
  "auth_external shell kind username password =
     (let cmd = auth_command username password kind in
      if length cmd < 64 then Some (if shell cmd = 0 then 2 else 0) else None)"

definition authenticate_ldap :: "(u8 list \<Rightarrow> int) \<Rightarrow> u8 list \<Rightarrow> u8 list \<Rightarrow> int option" where
  "authenticate_ldap shell username password = auth_external shell (ascii ''ldap'') username password"

definition authenticate_ad :: "(u8 list \<Rightarrow> int) \<Rightarrow> u8 list \<Rightarrow> u8 list \<Rightarrow> int option" where
  "authenticate_ad shell username password = auth_external shell (ascii ''ldap'') username password"

definition authenticate_radius :: "(u8 list \<Rightarrow> int) \<Rightarrow> u8 list \<Rightarrow> u8 list \<Rightarrow> int option" where
  "authenticate_radius shell username password =
     auth_external shell (ascii ''radius'') username password"

text \<open>\<open>char username[16], pwd[16]\<close> are turned into strings without a terminator being stored.\<close>

definition login_privilege ::
    "(u8 list \<Rightarrow> int) \<Rightarrow> u8 list \<Rightarrow> u8 list \<Rightarrow> user_db \<Rightarrow> u8 option" where
  "login_privilege shell u p db = (
     let r = word_of_int (authenticate_ipmi u p db) :: u8 in
     if r \<noteq> 0 then Some r
     else case authenticate_ldap shell u p of
       None \<Rightarrow> None
     | Some l \<Rightarrow> if word_of_int l \<noteq> (0 :: u8) then Some (word_of_int l)
         else map_option word_of_int (authenticate_ad shell u p))"

definition rest_try_login :: rest_routine where
  "rest_try_login env d s =
     (case (c_string (take 16 d), c_string (take 16 (drop 16 d))) of
        (Some u, Some p) \<Rightarrow>
          (case login_privilege (re_shell env) u p (rs_users s) of
             None \<Rightarrow> None
           | Some r \<Rightarrow>
               let root = ud_users (rs_users s) ! 0;
                   text = (if u_name root = u \<and> u_password root = p then [0x34] else print_int (uint r))
               in Some (s, text, int (length text)))
      | _ \<Rightarrow> None)"

section \<open>FRU\<close>

definition rest_fru_header :: rest_routine where
  "rest_fru_header env d s = silent (Some (s\<lparr>rs_fru :=
     rest_set_fru_header (byte_at d 0) (byte_at d 1) (byte_at d 3) (byte_at d 2) (rs_fru s)\<rparr>))"

text \<open>The time is stored with its high byte first.\<close>

definition date_of_time :: "int \<Rightarrow> u8 list" where
  "date_of_time t = [lo8 (t div 2 ^ 24), lo8 (t div 2 ^ 16), lo8 (t div 2 ^ 8), lo8 t]"

definition rest_fru_board :: rest_routine where
  "rest_fru_board env d s = (
     let at = (\<lambda>i n. take n (drop i d)) in
     case map c_string [at 1 5, at 6 3, at 9 3, at 12 3, at 15 3, at 18 3] of
       [Some year, Some month, Some day, Some hour, Some minute, Some sec] \<Rightarrow>
         let t = re_mktime env (word_of_int (atoi year)) (word_of_int (atoi month))
               (word_of_int (atoi day)) (word_of_int (atoi hour)) (word_of_int (atoi minute))
               (word_of_int (atoi sec))
         in silent (Some (s\<lparr>rs_fru := rest_set_fru_board (date_of_time t) (at 27 23) (at 50 24)
              (at 74 24) (at 98 24) (rs_fru s)\<rparr>))
     | _ \<Rightarrow> None)"

definition rest_fru_product :: rest_routine where
  "rest_fru_product env d s = (
     let at = (\<lambda>i n. take n (drop i d)) in
     silent (Some (s\<lparr>rs_fru := rest_set_fru_product (at 1 24) (at 25 23) (at 48 8) (at 56 24)
       (at 80 24) (rs_fru s)\<rparr>)))"

definition rest_fru_chassis :: rest_routine where
  "rest_fru_chassis env d s = (
     let at = (\<lambda>i n. take n (drop i d)) in
     case c_string (at 1 3) of
       None \<Rightarrow> None
     | Some type \<Rightarrow> silent (Some (s\<lparr>rs_fru := rest_set_fru_chassis (word_of_int (atoi type))
         (at 4 24) (at 28 24) (rs_fru s)\<rparr>)))"

section \<open>Network\<close>

text \<open>\<open>ipmiNetwork[i]\<close> has four elements. The setters mark the parameter but, unlike the IPMI
  command, do not raise the flag the monitor thread waits for.\<close>

definition with_lan :: "u8 \<Rightarrow> (lan \<Rightarrow> lan option) \<Rightarrow> rest_state \<Rightarrow> rest_state option" where
  "with_lan i f s = (if i < 4
     then map_option (\<lambda>l. s\<lparr>rs_lan := (rs_lan s)[unat i := l]\<rparr>) (f (rs_lan s ! unat i)) else None)"

definition with_lan6 :: "u8 \<Rightarrow> (lan6 \<Rightarrow> lan6 option) \<Rightarrow> rest_state \<Rightarrow> rest_state option" where
  "with_lan6 i f s = (if i < 4
     then map_option (\<lambda>l. s\<lparr>rs_lan6 := (rs_lan6 s)[unat i := l]\<rparr>) (f (rs_lan6 s ! unat i)) else None)"

definition flag_changed :: "u8 \<Rightarrow> lan \<Rightarrow> lan" where
  "flag_changed p l = l\<lparr>l_changed := (l_changed l)(p := 1)\<rparr>"

text \<open>\<open>memcpy\<close> to the first element of a vector.\<close>

definition copy_vec :: "u8 list \<Rightarrow> u8 list \<Rightarrow> u8 list option" where
  "copy_vec bs v = (if length bs \<le> length v then Some (write_at 0 bs v) else None)"

definition rest_lan_mac :: rest_routine where
  "rest_lan_mac env d s = silent (with_lan (byte_at d 0) (\<lambda>l.
     map_option (\<lambda>m. flag_changed 5 (l\<lparr>l_mac := m\<rparr>)) (copy_vec (bytes_at d 1 6) (l_mac l))) s)"

definition rest_lan_ipv4_dhcp :: rest_routine where
  "rest_lan_ipv4_dhcp env d s = silent (with_lan (byte_at d 0) (\<lambda>l.
     Some (flag_changed 4 (l\<lparr>l_ip_src := byte_at d 1 + 1\<rparr>))) s)"

definition rest_lan_ipv4_ip_netmask :: rest_routine where
  "rest_lan_ipv4_ip_netmask env d s = silent (with_lan (byte_at d 0) (\<lambda>l.
     case (copy_vec (bytes_at d 1 4) (l_ip l), copy_vec (bytes_at d 5 4) (l_mask l)) of
       (Some ip, Some m) \<Rightarrow> Some (flag_changed 6 (flag_changed 3 (l\<lparr>l_ip := ip, l_mask := m\<rparr>)))
     | _ \<Rightarrow> None) s)"

definition rest_lan_ipv4_gateway :: rest_routine where
  "rest_lan_ipv4_gateway env d s = silent (with_lan (byte_at d 0) (\<lambda>l.
     map_option (\<lambda>g. flag_changed 12 (l\<lparr>l_gw := g\<rparr>)) (copy_vec (bytes_at d 1 4) (l_gw l))) s)"

definition rest_lan_ipv6_enable :: rest_routine where
  "rest_lan_ipv6_enable env d s =
     silent (with_lan6 (byte_at d 0) (\<lambda>v. Some (v\<lparr>v_enable := byte_at d 1\<rparr>)) s)"

definition rest_lan_ipv6_dhcp :: rest_routine where
  "rest_lan_ipv6_dhcp env d s = silent (Option.bind
     (with_lan6 (byte_at d 0) (\<lambda>v. Some (v\<lparr>v_src := (if byte_at d 1 = 1 then 2 else 0)\<rparr>)) s)
     (with_lan (byte_at d 0) (\<lambda>l. Some (flag_changed 200 l))))"

definition rest_lan_ipv6_ip :: rest_routine where
  "rest_lan_ipv6_ip env d s =
     silent (with_lan6 (byte_at d 0) (\<lambda>v. Some (v\<lparr>v_ip := bytes_at d 1 39\<rparr>)) s)"

text \<open>\<open>net_mask_v6[0] = ...\<close>: the constructor only reserves room, the vector starts empty.\<close>

definition rest_lan_ipv6_prefix :: rest_routine where
  "rest_lan_ipv6_prefix env d s = silent (with_lan6 (byte_at d 0) (\<lambda>v.
     if v_mask v = [] then None else Some (v\<lparr>v_mask := (v_mask v)[0 := byte_at d 1]\<rparr>)) s)"

definition rest_lan_ipv6_gateway :: rest_routine where
  "rest_lan_ipv6_gateway env d s =
     silent (with_lan6 (byte_at d 0) (\<lambda>v. Some (v\<lparr>v_gw := bytes_at d 1 39\<rparr>)) s)"

definition run_system :: "sys_cmd list \<Rightarrow> rest_state \<Rightarrow> rest_state" where
  "run_system cs s = s\<lparr>rs_system := rs_system s @ cs\<rparr>"

definition rest_lan_vlan_enable :: rest_routine where
  "rest_lan_vlan_enable env d s = silent (
     if byte_at d 1 = 1
     then with_lan (byte_at d 0) (\<lambda>l. Some (l\<lparr>l_vlan_enable := 0x80\<rparr>)) s
     else if byte_at d 0 < 4 then
       (let v = l_vlan_id (rs_lan s ! unat (byte_at d 0)) in
        with_lan (byte_at d 0) (\<lambda>l. Some (l\<lparr>l_vlan_enable := 0, l_vlan_id := 0\<rparr>))
          (run_system [Vlan_Down v, Vlan_Rem v] s))
     else None)"

text \<open>Here the first byte is the VLAN and the second the interface.\<close>

definition rest_lan_vlan_id :: rest_routine where
  "rest_lan_vlan_id env d s = silent (map_option (\<lambda>s.
       let l = rs_lan s ! unat (byte_at d 1) in
       run_system [Vlan_Add (l_vlan_id l), Vlan_Up (l_vlan_id l) (l_ip l) (l_mask l)] s)
     (with_lan (byte_at d 1) (\<lambda>l. if length (l_ip l) < 4 \<or> length (l_mask l) < 4 then None
        else Some (l\<lparr>l_vlan_enable := 0x80, l_vlan_id := byte_at d 0\<rparr>)) s))"

definition rest_lan_vlan_priority :: rest_routine where
  "rest_lan_vlan_priority env d s =
     silent (with_lan (byte_at d 0) (\<lambda>l. Some (l\<lparr>l_vlan_priority := byte_at d 1\<rparr>)) s)"

definition set_eth_priority :: "u8 \<Rightarrow> rest_state \<Rightarrow> rest_state" where
  "set_eth_priority dev s = run_system
     (if dev = 1 then [Boot_Ifup 0] else if dev = 8 then [Boot_Ifup 1] else [])
     (s\<lparr>rs_eth_priority := dev\<rparr>)"

definition rest_lan_priority :: rest_routine where
  "rest_lan_priority env d s = silent (Some (set_eth_priority (byte_at d 0 - 0x30) s))"

section \<open>Mail and certificates\<close>

text \<open>\<open>strncpy\<close> of \<open>n\<close> bytes into an array of \<open>n\<close> bytes, used as a string afterwards.\<close>

definition field_at :: "u8 list \<Rightarrow> nat \<Rightarrow> nat \<Rightarrow> u8 list option" where
  "field_at d i n = c_string (take n (drop i d))"

text \<open>The routine's parameters are called sender and machine, the caller passes machine and
  sender.\<close>

definition rest_smtp_sender :: rest_routine where
  "rest_smtp_sender env d s = silent (case (field_at d 0 32, field_at d 32 32) of
     (Some machine, Some sender) \<Rightarrow>
       map_option (\<lambda>(f, es). s\<lparr>rs_smtp := f, rs_es := es\<rparr>)
         (set_smtp_sender_machine (re_smtp env) machine sender (rs_es s))
   | _ \<Rightarrow> None)"

definition rest_smtp_primary :: rest_routine where
  "rest_smtp_primary env d s = silent (case (field_at d 0 20, field_at d 20 20, field_at d 40 24) of
     (Some server, Some sid, Some pwd) \<Rightarrow>
       map_option (\<lambda>(f, es). s\<lparr>rs_smtp := f, rs_es := es\<rparr>)
         (set_smtp_primary_receiver server sid pwd (rs_smtp s) (rs_es s))
   | _ \<Rightarrow> None)"

definition rest_smtp_secondary :: rest_routine where
  "rest_smtp_secondary env d s = silent (case (field_at d 0 20, field_at d 20 20, field_at d 40 24) of
     (Some server, Some sid, Some pwd) \<Rightarrow>
       Option.bind (set_smtp_secondary_receiver server sid pwd (rs_smtp s)) (\<lambda>f.
         map_option (\<lambda>t. s\<lparr>rs_smtp := f,
             rs_msmtprc := (case t of None \<Rightarrow> rs_msmtprc s | Some x \<Rightarrow> Some x)\<rparr>)
           (write_smtp_config_to_file f))
   | _ \<Rightarrow> None)"

definition rest_ssl_1 :: rest_routine where
  "rest_ssl_1 env d s = silent (
     case map (\<lambda>(i, n). field_at d i n) [(0, 6), (6, 3), (9, 16), (25, 16), (41, 16), (57, 4)] of
       [Some keylen, Some country, Some state, Some city, Some organ, Some valid] \<Rightarrow>
         map_option (\<lambda>f. s\<lparr>rs_ssl := f\<rparr>) (set_ssl_1 (re_day env) (re_now env) (re_ssl env) keylen
           country state city organ (atoi valid))
     | _ \<Rightarrow> None)"

definition rest_ssl_2 :: rest_routine where
  "rest_ssl_2 env d s = silent (case (field_at d 0 16, field_at d 16 16, field_at d 32 32) of
     (Some organ_unit, Some cn, Some email) \<Rightarrow>
       map_option (\<lambda>f. s\<lparr>rs_ssl := f\<rparr>) (set_ssl_2 organ_unit cn email (rs_ssl s))
   | _ \<Rightarrow> None)"

section \<open>Directories\<close>

definition rest_ad_enable :: rest_routine where
  "rest_ad_enable env d s = silent (map_option (\<lambda>f. s\<lparr>rs_ad := f\<rparr>)
     (set_ad_enable (uint (byte_at d 0)) (rs_ad s)))"

definition rest_ad_ip_pwd :: rest_routine where
  "rest_ad_ip_pwd env d s = silent (case (field_at d 0 16, field_at d 16 64) of
     (Some ip, Some pwd) \<Rightarrow>
       map_option (\<lambda>f. s\<lparr>rs_ad := f\<rparr>) (set_ad_conf_file_ip_pwd ip pwd (rs_ad s))
   | _ \<Rightarrow> None)"

definition rest_ad_domain :: rest_routine where
  "rest_ad_domain env d s = silent (Option.bind (c_string d) (\<lambda>domain.
     map_option (\<lambda>f. s\<lparr>rs_ad := f\<rparr>) (set_ad_conf_file_domain domain (rs_ad s))))"

definition rest_ad_username :: rest_routine where
  "rest_ad_username env d s = silent (Option.bind (c_string d) (\<lambda>name.
     Option.bind (set_ad_conf_file_username name (rs_ad s)) (\<lambda>f.
       map_option (\<lambda>t. s\<lparr>rs_ad := f, rs_nslcd := (case t of None \<Rightarrow> rs_nslcd s | Some x \<Rightarrow> Some x)\<rparr>)
         (write_ad_to_file f))))"

definition rest_ldap_enable :: rest_routine where
  "rest_ldap_enable env d s = silent (map_option (\<lambda>f. s\<lparr>rs_ldap := f\<rparr>)
     (set_ldap_enable (uint (byte_at d 0)) (rs_ldap s)))"

definition rest_ldap_string ::
    "(u8 list \<Rightarrow> ldap_config \<Rightarrow> ldap_config bin \<Rightarrow> ldap_config bin option) \<Rightarrow> rest_routine" where
  "rest_ldap_string set_it env d s = silent (Option.bind (c_string d) (\<lambda>x.
     map_option (\<lambda>f. s\<lparr>rs_ldap := f\<rparr>) (set_it x (re_ldap env) (rs_ldap s))))"

definition rest_ldap_ssl :: rest_routine where
  "rest_ldap_ssl env d s = silent (map_option (\<lambda>f. s\<lparr>rs_ldap := f\<rparr>)
     (set_ldap_ssl (uint (byte_at d 0)) (re_ldap env) (rs_ldap s)))"

definition rest_ldap_timelimit :: rest_routine where
  "rest_ldap_timelimit env d s = silent (
     Option.bind (set_ldap_timelimit (uint (byte_at d 0)) (re_ldap env) (rs_ldap s)) (\<lambda>f.
       map_option (\<lambda>t. s\<lparr>rs_ldap := f, rs_nslcd := Some t\<rparr>) (write_ldap_to_nslcd (re_ldap env) f)))"

definition rest_radius :: rest_routine where
  "rest_radius env d s = silent (case (field_at d 0 16, field_at d 16 6, field_at d 22 16) of
     (Some ip, Some port, Some secret) \<Rightarrow>
       map_option (\<lambda>(f, t). s\<lparr>rs_rad := f, rs_raddb := t\<rparr>)
         (set_radius_config (re_rad env) ip port secret)
   | _ \<Rightarrow> None)"

definition rest_radius_disable :: rest_routine where
  "rest_radius_disable env d s =
     silent (Some (s\<lparr>rs_rad := fst set_radius_disable, rs_raddb := snd set_radius_disable\<rparr>))"

section \<open>Users and power\<close>

text \<open>\<open>(ipmi_req_t *)req\<close> and \<open>(ipmi_res_t *)response\<close>: the request's data start at the same
  offset, the completion code is byte 2 of the response.\<close>

definition as_ipmi :: "u8 \<Rightarrow> u8 list \<Rightarrow> ipmi_req" where
  "as_ipmi cmd d = \<lparr>q_netfn = 0, q_cmd = cmd, q_data = d\<rparr>"

definition rest_user_name :: rest_routine where
  "rest_user_name env d s = silent (Option.bind (field_at d 1 14) (\<lambda>name.
     map_option (\<lambda>db. s\<lparr>rs_users := plat_user_save db\<rparr>)
       (app_set_user_name_params (uint (byte_at d 0) - 1) name (rs_users s))))"

definition rest_user_password :: rest_routine where
  "rest_user_password env d s = map_option
     (\<lambda>(db, r). (s\<lparr>rs_users := plat_user_save db\<rparr>, [0, 0, r_cc r], 0))
     (app_set_user_passwd_params (rs_users s) (as_ipmi 0x26 d) blank_res)"

definition rest_user_access :: rest_routine where
  "rest_user_access env d s = silent (map_option (\<lambda>db. s\<lparr>rs_users := plat_user_save db\<rparr>)
     (app_set_user_access_params (rs_users s) (as_ipmi 0x27 d)))"

definition rest_del_user :: rest_routine where
  "rest_del_user env d s = silent (map_option (\<lambda>db. s\<lparr>rs_users := plat_user_save db\<rparr>)
     (app_del_user (uint (byte_at d 0) - 1) (rs_users s)))"

definition rest_set_power_status :: rest_routine where
  "rest_set_power_status env d s = map_option
     (\<lambda>(c, r). (s\<lparr>rs_chassis := c\<rparr>, [0, 0, r_cc r], 0))
     (chassis_control (rs_chassis s) (as_ipmi 0x2E d) blank_res)"

definition rest_power_ctl :: rest_routine where
  "rest_power_ctl env d s = (
     let param = uint (byte_at d 0) - 48;
         ctl = (\<lambda>p ch. map_option (\<lambda>(c, r). (s\<lparr>rs_chassis := c\<rparr>, [ch, 0, r_cc r], 1))
           (chassis_control (rs_chassis s) (as_ipmi 0x0D (p # tl d)) blank_res))
     in if param = 1 then ctl 1 0x31
        else if param = 2 then ctl 0 0x30
        else if param = 3 then ctl 3 0x33
        else Some (s, [], 1))"

section \<open>The dispatcher\<close>

definition ipmi_handle_rest ::
    "(u8 \<Rightarrow> rest_routine) \<Rightarrow> u8 \<Rightarrow> rest_routine" where
  "ipmi_handle_rest others cmd = (
     if cmd = 0xfe then rest_try_login
     else if cmd = 0x4B then rest_fru_header
     else if cmd = 0x4C then rest_fru_board
     else if cmd = 0x4D then rest_fru_product
     else if cmd = 0x4E then rest_fru_chassis
     else if cmd = 0x2E then rest_set_power_status
     else if cmd = 0x0D then rest_power_ctl
     else if cmd = 0x0F then rest_lan_mac
     else if cmd = 0x10 then rest_lan_ipv4_dhcp
     else if cmd = 0x11 then rest_lan_ipv4_ip_netmask
     else if cmd = 0x12 then rest_lan_ipv4_gateway
     else if cmd = 0x13 then rest_lan_vlan_enable
     else if cmd = 0x14 then rest_lan_vlan_id
     else if cmd = 0x15 then rest_lan_vlan_priority
     else if cmd = 0x16 then rest_lan_ipv6_enable
     else if cmd = 0x17 then rest_lan_ipv6_dhcp
     else if cmd = 0x18 then rest_lan_ipv6_ip
     else if cmd = 0x19 then rest_lan_ipv6_prefix
     else if cmd = 0x1A then rest_lan_ipv6_gateway
     else if cmd = 0x5A then rest_lan_priority
     else if cmd = 0x2A then rest_smtp_sender
     else if cmd = 0x2B then rest_smtp_primary
     else if cmd = 0x2C then rest_smtp_secondary
     else if cmd = 0x42 then rest_ssl_1
     else if cmd = 0x43 then rest_ssl_2
     else if cmd = 0x47 then rest_ad_enable
     else if cmd = 0x48 then rest_ad_ip_pwd
     else if cmd = 0x49 then rest_ad_domain
     else if cmd = 0x4A then rest_ad_username
     else if cmd = 0x30 then rest_ldap_enable
     else if cmd = 0x31 then rest_ldap_string set_ldap_ip
     else if cmd = 0x32 then rest_ldap_string set_ldap_port
     else if cmd = 0x33 then rest_ldap_string set_ldap_searchbase
     else if cmd = 0x34 then rest_ldap_string set_ldap_binddn
     else if cmd = 0x35 then rest_ldap_string set_ldap_bindpw
     else if cmd = 0x36 then rest_ldap_ssl
     else if cmd = 0x37 then rest_ldap_timelimit
     else if cmd = 0x45 then rest_radius
     else if cmd = 0x5D then rest_radius_disable
     else if cmd = 0x25 then rest_user_name
     else if cmd = 0x26 then rest_user_password
     else if cmd = 0x27 then rest_user_access
     else if cmd = 0x28 then rest_del_user
     else others cmd)"

end
