(* ===== verification/Rest_Web.thy ===== *)
theory Rest_Web
  imports Rest_Commands
begin

text \<open>
  The web server's side: the request builders of KETI-REST/req.cpp, the message queue of
  KETI-REST/helper.cpp and KETI-Edge/rest_handler.cpp, and the URL handlers of
  KETI-REST/rhandler.cpp, composed with the controller's routines. The JSON parser (cpprestsdk) is
  a parameter, as are the bytes the code reads or sends without having written them: what follows
  a string in memory (\<open>over\<close>), the unset part of the request (\<open>stack\<close>) and of the reply (\<open>stale\<close>).
  No handler looks at who is asking: the server has no session and checks no credentials.
\<close>

section \<open>Building requests\<close>

text \<open>A request is its command and the \<open>data_len\<close> bytes at \<open>data\<close>; \<open>None\<close> when building it writes
  outside an array.\<close>

type_synonym rest_msg = "(u8 \<times> u8 list) option"

text \<open>\<open>n\<close> bytes at a string in memory.\<close>

definition read_mem :: "u8 list \<Rightarrow> nat \<Rightarrow> u8 list \<Rightarrow> u8 list" where
  "read_mem over n s = take n (s @ [0] @ over)"

text \<open>\<open>strncpy\<close> pads with zeros.\<close>

definition strncpy :: "nat \<Rightarrow> u8 list \<Rightarrow> u8 list" where
  "strncpy n s = take n (s @ replicate n 0)"

definition try_login :: "u8 list \<Rightarrow> u8 list \<Rightarrow> u8 list \<Rightarrow> rest_msg" where
  "try_login over username pwd = Some (0xfe, read_mem over 16 username @ read_mem over 16 pwd)"

definition set_power_status :: "int \<Rightarrow> rest_msg" where
  "set_power_status status = Some (0x2E, int_le32 (
     if status = 1 then 3 else if status = 2 then 0 else if status = 3 then 6
     else if status = 4 then 1 else if status = 5 then 2 else status))"

definition set_user_name :: "u8 list \<Rightarrow> u8 list \<Rightarrow> u8 list \<Rightarrow> rest_msg" where
  "set_user_name over index name = (
     if length name > 14 then None
     else let msg = word_of_int (atoi index) # name @ replicate (14 - length name) 0
       in map_option (\<lambda>s. (0x25, s @ [0])) (c_string (msg @ over)))"

text \<open>Neither byte need be 0: \<open>strlen\<close> then runs into what follows the two-byte array.\<close>

definition set_user_enable :: "u8 list \<Rightarrow> u8 list \<Rightarrow> u8 list \<Rightarrow> rest_msg" where
  "set_user_enable over index enable =
     map_option (\<lambda>s. (0x26, s @ [0]))
       (c_string ([word_of_int (atoi index), word_of_int (atoi enable)] @ over))"

text \<open>\<open>strcat\<close> puts the password at the first zero byte. \<open>type\<close> is the printed length of the
  password, which \<open>str2uchar\<close> accepts up to 255.\<close>

definition set_user_password :: "u8 list \<Rightarrow> u8 list \<Rightarrow> rest_msg" where
  "set_user_password index password = (
     let b0 = (if 16 < length password \<and> length password \<le> 255 then 0x80 else 0)
           OR (word_of_int (atoi index) AND 0x1F);
         at = (if b0 = 0 then 0 else 2)
     in if at + length password + 1 \<le> 22
        then Some (0x26, write_at at (password @ [0]) ([b0, 2] @ replicate 20 0)) else None)"

definition set_user_access :: "u8 list \<Rightarrow> u8 list \<Rightarrow> rest_msg" where
  "set_user_access index priv = Some (0x27, [0, word_of_int (atoi index), word_of_int (atoi priv)])"

definition delete_user :: "u8 \<Rightarrow> rest_msg" where
  "delete_user index = Some (0x28, [index])"

definition req_ldap_enable :: "u8 list \<Rightarrow> u8 list \<Rightarrow> rest_msg" where
  "req_ldap_enable over enable = Some (0x30, read_mem over 2 enable)"

definition req_ldap_ip :: "u8 list \<Rightarrow> u8 list \<Rightarrow> rest_msg" where
  "req_ldap_ip over ipaddr = Some (0x31, read_mem over 32 ipaddr)"

definition req_ldap_port :: "u8 list \<Rightarrow> u8 list \<Rightarrow> rest_msg" where
  "req_ldap_port over port = Some (0x32, read_mem over 16 port)"

definition req_ldap_searchbase :: "u8 list \<Rightarrow> u8 list \<Rightarrow> rest_msg" where
  "req_ldap_searchbase over searchbase = Some (0x33, read_mem over 32 searchbase)"

definition req_ldap_binddn :: "u8 list \<Rightarrow> u8 list \<Rightarrow> rest_msg" where
  "req_ldap_binddn over binddn = Some (0x34, read_mem over 32 binddn)"

definition req_ldap_password :: "u8 list \<Rightarrow> u8 list \<Rightarrow> rest_msg" where
  "req_ldap_password over password = Some (0x35, read_mem over 32 password)"

definition req_ldap_ssl :: "u8 list \<Rightarrow> u8 list \<Rightarrow> rest_msg" where
  "req_ldap_ssl over ssl = Some (0x36, read_mem over 2 ssl)"

text \<open>\<open>req.msg.data[0] = atoi(timelimit)\<close> through a pointer that was never set.\<close>

definition req_ldap_timelimit :: "u8 list \<Rightarrow> rest_msg" where
  "req_ldap_timelimit timelimit = None"

definition req_ad_enable :: "u8 list \<Rightarrow> u8 list \<Rightarrow> rest_msg" where
  "req_ad_enable over enable = Some (0x47, read_mem over 2 enable)"

definition req_ad_ip_pwd :: "u8 list \<Rightarrow> u8 list \<Rightarrow> u8 list \<Rightarrow> rest_msg" where
  "req_ad_ip_pwd over ip pwd = (
     if length ip < 82 \<and> 16 + length pwd < 82
     then Some (0x48, write_at 16 (pwd @ [0]) (write_at 0 (ip @ [0]) (take 82 over))) else None)"

definition req_ad_domain :: "u8 list \<Rightarrow> rest_msg" where
  "req_ad_domain domain = Some (0x49, domain @ [0])"

definition req_ad_username :: "u8 list \<Rightarrow> rest_msg" where
  "req_ad_username s_username = Some (0x4A, s_username @ [0])"

definition req_radius_info :: "u8 list \<Rightarrow> u8 list \<Rightarrow> u8 list \<Rightarrow> u8 list \<Rightarrow> rest_msg" where
  "req_radius_info over ip port secret =
     Some (0x45, read_mem over 16 ip @ read_mem over 6 port @ read_mem over 16 secret)"

definition req_smtp_sender :: "u8 list \<Rightarrow> u8 list \<Rightarrow> rest_msg" where
  "req_smtp_sender sender machine = Some (0x2A, strncpy 32 sender @ strncpy 32 machine)"

definition req_smtp_primary :: "u8 list \<Rightarrow> u8 list \<Rightarrow> u8 list \<Rightarrow> rest_msg" where
  "req_smtp_primary server sid pwd = Some (0x2B, strncpy 20 server @ strncpy 20 sid @ strncpy 24 pwd)"

definition req_smtp_secondary :: "u8 list \<Rightarrow> u8 list \<Rightarrow> u8 list \<Rightarrow> rest_msg" where
  "req_smtp_secondary server sid pwd = Some (0x2C, strncpy 20 server @ strncpy 20 sid @ strncpy 24 pwd)"

text \<open>The network requests; numbers are what \<open>strtol\<close> returned.\<close>

definition set_network_ipv4_dhcp :: "u8 \<Rightarrow> u8 \<Rightarrow> rest_msg" where
  "set_network_ipv4_dhcp dev dhcp_or_static = Some (0x10, [dev, dhcp_or_static])"

definition set_network_vlan_enable :: "u8 \<Rightarrow> u8 \<Rightarrow> rest_msg" where
  "set_network_vlan_enable dev enable = Some (0x13, [dev, enable])"

definition set_network_vlan_id :: "u8 \<Rightarrow> int \<Rightarrow> rest_msg" where
  "set_network_vlan_id dev vid = Some (0x14, [dev, word_of_int vid])"

definition set_network_vlan_priority :: "u8 \<Rightarrow> int \<Rightarrow> rest_msg" where
  "set_network_vlan_priority dev priority = Some (0x15, [dev, word_of_int priority])"

definition set_network_ipv6_enable :: "u8 \<Rightarrow> u8 \<Rightarrow> rest_msg" where
  "set_network_ipv6_enable dev en_disable = Some (0x16, [dev, en_disable])"

definition set_network_ipv6_dhcp :: "u8 \<Rightarrow> u8 \<Rightarrow> rest_msg" where
  "set_network_ipv6_dhcp dev dhcp_or_static = Some (0x17, [dev, dhcp_or_static])"

definition set_network_ipv6_ip :: "u8 list \<Rightarrow> u8 \<Rightarrow> u8 list \<Rightarrow> rest_msg" where
  "set_network_ipv6_ip over dev ip = Some (0x18, dev # read_mem over 39 ip)"

definition set_network_ipv6_prefix :: "u8 \<Rightarrow> int \<Rightarrow> rest_msg" where
  "set_network_ipv6_prefix dev prefix = Some (0x19, [dev, word_of_int prefix])"

definition set_network_ipv6_gateway :: "u8 list \<Rightarrow> u8 \<Rightarrow> u8 list \<Rightarrow> rest_msg" where
  "set_network_ipv6_gateway over dev gw = Some (0x1A, dev # read_mem over 39 gw)"

definition set_fru_header :: "u8 \<Rightarrow> u8 \<Rightarrow> u8 \<Rightarrow> u8 \<Rightarrow> rest_msg" where
  "set_fru_header fru_id en_board en_product en_chassis =
     Some (0x4B, [fru_id, en_board, en_product, en_chassis])"

definition set_fru_product ::
    "u8 list \<Rightarrow> u8 \<Rightarrow> u8 list \<Rightarrow> u8 list \<Rightarrow> u8 list \<Rightarrow> u8 list \<Rightarrow> u8 list \<Rightarrow> rest_msg" where
  "set_fru_product over fru_id name mfg version serial part_num =
     Some (0x4D, fru_id # read_mem over 24 name @ read_mem over 23 mfg @ read_mem over 8 version
       @ read_mem over 24 serial @ read_mem over 24 part_num @ [0])"

definition set_fru_chassis :: "u8 list \<Rightarrow> u8 \<Rightarrow> u8 \<Rightarrow> u8 list \<Rightarrow> u8 list \<Rightarrow> rest_msg" where
  "set_fru_chassis over fru_id type serial part_num =
     Some (0x4E, [fru_id, type, 0, 0] @ read_mem over 24 serial @ read_mem over 24 part_num @ [0])"

section \<open>The message queue\<close>

record web_env =
  we_rest :: rest_env
  we_others :: "u8 \<Rightarrow> rest_routine"
  we_over :: "u8 list"
  we_stack :: "u8 list"
  we_stale :: "u8 list"
  we_ptr :: u32
  we_parse :: "u8 list \<Rightarrow> (string \<Rightarrow> (int + u8 list) option) option"

text \<open>A web handler changes the controller's state and answers, dies of an exception no one catches
  (\<open>Fail\<close>) or runs into undefined behaviour, in either process; the state it reached is kept.\<close>

type_synonym 'a web = "rest_state \<Rightarrow> 'a cres \<times> rest_state"

definition wret :: "'a \<Rightarrow> 'a web" where
  "wret x s = (Ret x, s)"

definition wbind :: "'a web \<Rightarrow> ('a \<Rightarrow> 'b web) \<Rightarrow> 'b web" where
  "wbind m f s = (case m s of (Ret x, s') \<Rightarrow> f x s' | (Fail e, s') \<Rightarrow> (Fail e, s') | (Ub, s') \<Rightarrow> (Ub, s'))"

definition wub :: "'a web" where
  "wub s = (Ub, s)"

definition wthrow :: "'a web" where
  "wthrow s = (Fail (-1), s)"

text \<open>\<open>run_ipmi_handle_rest\<close>: \<open>strncpy(msq_rsp.data, res_buf, res_len)\<close> into an uninitialised
  reply.\<close>

definition run_ipmi_handle_rest ::
    "web_env \<Rightarrow> u8 \<Rightarrow> u8 list \<Rightarrow> rest_state \<Rightarrow> (rest_state \<times> u8 list) option" where
  "run_ipmi_handle_rest W cmd d s =
     map_option (\<lambda>(s', text, n). (s', strncpy (nat n) (cstr text) @ drop (nat n) (we_stale W)))
       (ipmi_handle_rest (we_others W) cmd (we_rest W) d s)"

text \<open>\<open>memcpy(rq.data, req->msg.data, data_len)\<close>, the two queues, and the reply.\<close>

definition exchange :: "web_env \<Rightarrow> rest_msg \<Rightarrow> u8 list web" where
  "exchange W m s = (case m of
     None \<Rightarrow> (Ub, s)
   | Some (cmd, bs) \<Rightarrow>
       if length bs > 128 then (Ub, s)
       else (case run_ipmi_handle_rest W cmd (bs @ drop (length bs) (we_stack W)) s of
         None \<Rightarrow> (Ub, s)
       | Some (s', rsp) \<Rightarrow> (Ret rsp, s')))"

text \<open>\<open>sendrecv\<close> returns 0 or the address of a buffer, converted to \<open>int\<close>.\<close>

definition sendrecv :: "web_env \<Rightarrow> rest_msg \<Rightarrow> u32 web" where
  "sendrecv W m = wbind (exchange W m) (\<lambda>rsp. wret (if byte_at rsp 0 \<noteq> 0 then we_ptr W else 0))"

text \<open>\<open>test_sendrecv\<close> copies the reply, without its terminator, to a buffer of \<open>n\<close> bytes.\<close>

definition test_sendrecv :: "web_env \<Rightarrow> nat \<Rightarrow> rest_msg \<Rightarrow> u8 list web" where
  "test_sendrecv W n m = wbind (exchange W m) (\<lambda>rsp. case c_string rsp of
     None \<Rightarrow> wub
   | Some t \<Rightarrow> if length t \<le> n then wret t else wub)"

section \<open>Handlers\<close>

record http_msg =
  hm_method :: "u8 list"
  hm_body :: "u8 list"
  hm_query :: "u8 list"

text \<open>What is sent back: a text, one of the result messages of \<open>send_result_message\<close>
  (\<open>True\<close>: success), the answer to a preflight request, or nothing at all.\<close>

datatype web_answer = Text "u8 list" | Result bool | Preflight | Silence

text \<open>\<open>strncpy\<close> of \<open>len\<close> bytes, a one-byte count, into a zeroed array of \<open>n\<close> bytes and
  \<open>data[len] = 0\<close>.\<close>

definition one_byte_len :: "u8 list \<Rightarrow> nat" where
  "one_byte_len s = length s mod 256"

definition local_copy :: "nat \<Rightarrow> u8 list \<Rightarrow> u8 list option" where
  "local_copy n s = (if one_byte_len s < n then Some (cstr (take (one_byte_len s) s)) else None)"

definition with_method :: "http_msg \<Rightarrow> (u8 list \<Rightarrow> 'a web) \<Rightarrow> 'a web" where
  "with_method h f = (case local_copy 10 (hm_method h) of None \<Rightarrow> wub | Some m \<Rightarrow> f m)"

text \<open>A parsed object is a partial map from member names to integers and strings; members of other
  types are left out of it. \<open>at(k).as_string()\<close>: \<open>at\<close> throws for a missing member, \<open>as_string\<close> for another type.\<close>

definition json_string :: "(string \<Rightarrow> (int + u8 list) option) \<Rightarrow> string \<Rightarrow> u8 list web" where
  "json_string j k = (case j k of Some (Inr x) \<Rightarrow> wret (cstr x) | _ \<Rightarrow> wthrow)"

fun json_strings ::
    "(string \<Rightarrow> (int + u8 list) option) \<Rightarrow> string list \<Rightarrow> u8 list list web" where
  "json_strings j [] = wret []"
| "json_strings j (k # ks) =
     wbind (json_string j k) (\<lambda>x. wbind (json_strings j ks) (\<lambda>xs. wret (x # xs)))"

definition json_parse :: "web_env \<Rightarrow> u8 list \<Rightarrow> (string \<Rightarrow> (int + u8 list) option) web" where
  "json_parse W t = (case we_parse W t of None \<Rightarrow> wthrow | Some j \<Rightarrow> wret j)"

text \<open>\<open>stoi\<close> throws when there is no number.\<close>

definition web_stoi :: "u8 list \<Rightarrow> int web" where
  "web_stoi s = (let t = dropWhile is_blank s; u = (case t of b # bs \<Rightarrow> if b = 45 \<or> b = 43 then bs else t | [] \<Rightarrow> t)
     in case u of b # _ \<Rightarrow> (if 48 \<le> b \<and> b \<le> 57 \<and> - (2 ^ 31) \<le> atoi s \<and> atoi s < 2 ^ 31
          then wret (atoi s) else wthrow) | [] \<Rightarrow> wthrow)"

definition result_of :: "u32 \<Rightarrow> web_answer web" where
  "result_of rets = wret (Result (rets = 0))"

definition handle_power_call :: "web_env \<Rightarrow> http_msg \<Rightarrow> web_answer web" where
  "handle_power_call W h = with_method h (\<lambda>m. case local_copy 100 (hm_body h) of
     None \<Rightarrow> wub
   | Some sdata \<Rightarrow>
     (let b_len = one_byte_len (hm_body h) in
      if m = ascii ''GET'' then wbind (test_sendrecv W 35000 (Some (0x2D, []))) (\<lambda>t. wret (Text t))
      else if b_len = 0 \<and> m = ascii ''OPTIONS'' then wret Preflight
      else if b_len \<noteq> 0 \<and> (m = ascii ''PUT'' \<or> m = ascii ''POST'') then
        wbind (json_parse W sdata) (\<lambda>j.
        wbind (case j ''STATUS'' of Some (Inl n) \<Rightarrow> wret n | Some (Inr x) \<Rightarrow> web_stoi x | None \<Rightarrow> wthrow)
          (\<lambda>c_status.
        wbind (test_sendrecv W 50 (set_power_status c_status)) (\<lambda>_. wret (Result True))))
      else wret Silence))"

definition handle_login_call :: "web_env \<Rightarrow> http_msg \<Rightarrow> web_answer web" where
  "handle_login_call W h = with_method h (\<lambda>m. case local_copy 100 (hm_body h) of
     None \<Rightarrow> wub
   | Some sdata \<Rightarrow>
     (let b_len = one_byte_len (hm_body h) in
      if b_len = 0 \<and> m = ascii ''OPTIONS'' then wret Preflight
      else if b_len \<noteq> 0 \<and> m = ascii ''POST'' then
        wbind (json_parse W sdata) (\<lambda>j.
        wbind (json_string j ''USERNAME'') (\<lambda>username.
        wbind (json_string j ''PASSWORD'') (\<lambda>password.
        wbind (test_sendrecv W 20 (try_login (we_over W) username password)) (\<lambda>t.
          case t of [] \<Rightarrow> wub
          | b # _ \<Rightarrow> wret (Text (ascii ''{\"PRIVILEGE\":\"'' @ [b] @ ascii ''\"}'' @ [13, 10, 13, 10]))))))
      else wret Silence))"

text \<open>\<open>POST /user\<close> sends name, enable flag, password and access in turn; the remaining members of the
  object are read and not used. \<open>DELETE\<close> takes the number after the first \<open>=\<close> of the query.\<close>

definition after_equals :: "u8 list \<Rightarrow> u8 list option" where
  "after_equals q = (let toks = filter (\<lambda>t. t \<noteq> [])
       (let a = dropWhile (\<lambda>b. b = 61) q; f = takeWhile (\<lambda>b. b \<noteq> 61) a;
            r = dropWhile (\<lambda>b. b = 61) (drop (length f) a)
        in [f, takeWhile (\<lambda>b. b \<noteq> 61) r])
     in case toks of [_, x] \<Rightarrow> Some x | _ \<Rightarrow> None)"

definition post_user :: "web_env \<Rightarrow> u8 list \<Rightarrow> web_answer web" where
  "post_user W sdata =
     wbind (json_parse W sdata) (\<lambda>j.
     wbind (json_strings j [''NAME'', ''INDEX'', ''PASSWORD'', ''ENABLE_STATUS'', ''CALLBACK'',
         ''LINKAUTH'', ''IPMIMSG'', ''PRIVILEGE'']) (\<lambda>xs.
       let name = xs ! 0; index = xs ! 1; password = xs ! 2; enable = xs ! 3; privilege = xs ! 7 in
     wbind (web_stoi index) (\<lambda>i.
       if i \<le> 10 then
         wbind (sendrecv W (set_user_name (we_over W) index name)) (\<lambda>r1.
         wbind (sendrecv W (set_user_enable (we_over W) index enable)) (\<lambda>r2.
         wbind (sendrecv W (set_user_password index password)) (\<lambda>r3.
         wbind (sendrecv W (set_user_access index privilege)) (\<lambda>r4.
           result_of (r1 + r2 + r3 + r4)))))
       else wret Silence)))"

definition handle_user_call :: "web_env \<Rightarrow> http_msg \<Rightarrow> web_answer web" where
  "handle_user_call W h = with_method h (\<lambda>m.
     let b_len = one_byte_len (hm_body h); q_len = one_byte_len (hm_query h);
         sdata = cstr (take b_len (hm_body h)) in
     if m = ascii ''GET'' then wbind (test_sendrecv W 35000 (Some (0x24, []))) (\<lambda>t. wret (Text t))
     else if b_len = 0 \<and> m = ascii ''OPTIONS'' then wret Preflight
     else if b_len \<noteq> 0 \<and> m = ascii ''POST'' then post_user W sdata
     else if q_len \<noteq> 0 \<and> m = ascii ''DELETE'' then
       (case after_equals (write_at 0 (cstr (take q_len (hm_query h))) sdata) of
          None \<Rightarrow> wub
        | Some x \<Rightarrow> wbind (sendrecv W (delete_user (word_of_int (atoi x)))) result_of)
     else wret Silence)"

text \<open>\<open>strcpy(data, hm->body.p)\<close> runs on to the first zero byte in memory; \<open>refine_data\<close> cuts behind
  the last closing brace and has no other stop.\<close>

definition body_text :: "web_env \<Rightarrow> u8 list \<Rightarrow> u8 list option" where
  "body_text W b = (case c_string (b @ we_over W) of
     None \<Rightarrow> None
   | Some t \<Rightarrow>
       if length t \<ge> 1000 \<or> 0x7D \<notin> set t then None
       else Some (rev (dropWhile (\<lambda>c. c \<noteq> 0x7D) (rev t))))"

definition handle_ldap_call :: "web_env \<Rightarrow> http_msg \<Rightarrow> web_answer web" where
  "handle_ldap_call W h = with_method h (\<lambda>m.
     let b_len = one_byte_len (hm_body h); over = we_over W in
     if m = ascii ''GET'' then wbind (test_sendrecv W 35000 (Some (0x2F, []))) (\<lambda>t. wret (Text t))
     else if b_len = 0 \<and> m = ascii ''OPTIONS'' then wret Preflight
     else if b_len \<noteq> 0 \<and> m = ascii ''PUT'' then
       (case body_text W (hm_body h) of
          None \<Rightarrow> wub
        | Some sdata \<Rightarrow>
          wbind (json_parse W sdata) (\<lambda>j.
          wbind (json_string j ''LDAP_EN'') (\<lambda>ldap_en.
            if ldap_en = ascii ''1'' then
              wbind (json_strings j [''BIND_DN'', ''LDAP_IP'', ''LDAP_PORT'', ''LDAP_SSL'', ''BASE_DN'',
                  ''BIND_PW'', ''TIMEOUT'']) (\<lambda>xs.
              wbind (sendrecv W (req_ldap_enable over (ascii ''1''))) (\<lambda>_.
              wbind (sendrecv W (req_ldap_ip over (xs ! 1))) (\<lambda>r1.
              wbind (sendrecv W (req_ldap_port over (xs ! 2))) (\<lambda>r2.
              wbind (sendrecv W (req_ldap_searchbase over (xs ! 4))) (\<lambda>r3.
              wbind (sendrecv W (req_ldap_binddn over (xs ! 0))) (\<lambda>r4.
              wbind (sendrecv W (req_ldap_password over (xs ! 5))) (\<lambda>r5.
              wbind (sendrecv W (req_ldap_ssl over (xs ! 3))) (\<lambda>r6.
              wbind (sendrecv W (req_ldap_timelimit (xs ! 6))) (\<lambda>r7.
              wbind (sendrecv W (req_ad_enable over (ascii ''0''))) (\<lambda>_.
                result_of (r1 + r2 + r3 + r4 + r5 + r6 + r7)))))))))))
            else wbind (sendrecv W (req_ldap_enable over (ascii ''0''))) (\<lambda>_. wret (Result True)))))
     else wret Silence)"

definition handle_ad_call :: "web_env \<Rightarrow> http_msg \<Rightarrow> web_answer web" where
  "handle_ad_call W h = with_method h (\<lambda>m.
     let b_len = one_byte_len (hm_body h); over = we_over W in
     if m = ascii ''GET'' then wbind (test_sendrecv W 35000 (Some (0x46, []))) (\<lambda>t. wret (Text t))
     else if b_len = 0 \<and> m = ascii ''OPTIONS'' then wret Preflight
     else if b_len \<noteq> 0 \<and> m = ascii ''POST'' then
       (case body_text W (hm_body h) of
          None \<Rightarrow> wub
        | Some sdata \<Rightarrow>
          wbind (json_parse W sdata) (\<lambda>j.
          wbind (json_string j ''ENABLE'') (\<lambda>enable.
            if enable = ascii ''1'' then
              wbind (json_strings j [''IP'', ''DOMAIN'', ''SECRET_NAME'', ''SECRET_PWD'']) (\<lambda>xs.
              wbind (sendrecv W (req_ad_enable over enable)) (\<lambda>_.
              wbind (sendrecv W (req_ad_ip_pwd over (xs ! 0) (xs ! 3))) (\<lambda>_.
              wbind (sendrecv W (req_ad_domain (xs ! 1))) (\<lambda>_.
              wbind (sendrecv W (req_ad_username (xs ! 2))) (\<lambda>_.
              wbind (sendrecv W (req_ldap_enable over (ascii ''0''))) (\<lambda>_. wret (Result True)))))))
            else wbind (sendrecv W (req_ad_enable over enable)) result_of)))
     else wret Silence)"

end
