(* ===== verification/Rest_Properties.thy ===== *)
theory Rest_Properties
  imports Rest_Web User_Properties Fru_Properties
begin

text \<open>
  What the web interface does, from the URL handler to the controller's state: the settings that
  come back as they were set, the ones that never take effect, what an answer says of the outcome,
  and what anyone who reaches the port can do.
\<close>

section \<open>Plumbing\<close>

named_theorems web_simps \<open>the web monad and the message queue\<close>

lemma wbind_wret [web_simps]: "wbind (wret x) f = f x"
  by (rule ext) (simp add: wbind_def wret_def)

lemma wbind_wub [web_simps]: "wbind wub f = wub"
  by (rule ext) (simp add: wbind_def wub_def)

lemma wbind_Ret [web_simps]: "m s = (Ret x, s') \<Longrightarrow> wbind m f s = f x s'"
  by (simp add: wbind_def)

lemma wbind_Ub [web_simps]: "m s = (Ub, s') \<Longrightarrow> wbind m f s = (Ub, s')"
  by (simp add: wbind_def)

lemma wret_app [web_simps]: "wret x s = (Ret x, s)"
  by (simp add: wret_def)

lemma json_string_Inr [web_simps]: "j k = Some (Inr x) \<Longrightarrow> json_string j k = wret (cstr x)"
  by (simp add: json_string_def)

lemma json_strings_Nil [web_simps]: "json_strings j [] = wret []"
  by simp

lemma json_parse_Some [web_simps]: "we_parse W t = Some j \<Longrightarrow> json_parse W t = wret j"
  by (simp add: json_parse_def)

lemma exchange_app:
  "length bs \<le> 128 \<Longrightarrow> exchange W (Some (cmd, bs)) s =
    (case run_ipmi_handle_rest W cmd (bs @ drop (length bs) (we_stack W)) s of
       None \<Rightarrow> (Ub, s) | Some (s', rsp) \<Rightarrow> (Ret rsp, s'))"
  by (simp add: exchange_def)

lemma cstr_id [simp]: "0 \<notin> set s \<Longrightarrow> cstr s = s"
  unfolding cstr_def by (rule takeWhile_eq_all_conv [THEN iffD2]) auto

lemma strncpy_0 [simp]: "strncpy 0 t = []"
  by (simp add: strncpy_def)

lemma strncpy_length [simp]: "strncpy (length t) t = t"
  by (simp add: strncpy_def)


lemma take_c_string:
  assumes "0 \<notin> set s" and "length s < n"
  shows "c_string (take n (s @ 0 # r)) = Some s"
proof -
  have "take n (s @ 0 # r) = s @ 0 # take (n - length s - 1) r"
    using assms(2) by (simp add: take_Cons' )
  moreover have "takeWhile (\<lambda>b. b \<noteq> 0) (s @ 0 # take (n - length s - 1) r) = s"
    using assms(1) by (subst takeWhile_append2) auto
  ultimately show ?thesis by (simp add: c_string_def)
qed


section \<open>A concrete controller and web server\<close>

definition sample_rest :: rest_state where
  "sample_rest = \<lparr>rs_users = boot_users, rs_lan = replicate 4 (new_lan 1 sample_info None),
     rs_lan6 = replicate 4 \<lparr>v_enable = 0, v_src = 0, v_ip = [], v_mask = [], v_gw = []\<rparr>,
     rs_chassis = boot_chassis 0 0, rs_fru = booted_fru, rs_ldap = Absent, rs_ad = Absent,
     rs_rad = Absent, rs_smtp = Absent, rs_ssl = Absent, rs_nslcd = None, rs_raddb = None,
     rs_msmtprc = None, rs_es = None, rs_eth_priority = 0, rs_system = []\<rparr>"

text \<open>A shell whose commands succeed, zeroed memory and a parser that knows one text.\<close>

definition sample_web :: "u8 list \<Rightarrow> (string \<Rightarrow> (int + u8 list) option) \<Rightarrow> web_env" where
  "sample_web text j = \<lparr>we_rest = \<lparr>re_shell = (\<lambda>_. 0), re_mktime = (\<lambda>_ _ _ _ _ _. 0), re_now = 0,
       re_day = (\<lambda>_. []), re_ldap = ldap_zero, re_rad = rad_zero,
       re_smtp = \<lparr>sm_sender = replicate 32 0, sm_machine = replicate 32 0, sm_server1 = replicate 20 0,
         sm_id1 = replicate 20 0, sm_pwd1 = replicate 24 0, sm_server2 = replicate 20 0,
         sm_id2 = replicate 20 0, sm_pwd2 = replicate 24 0\<rparr>,
       re_ssl = \<lparr>sl_country = [], sl_state_province = [], sl_city_locality = [], sl_organ = [],
         sl_organ_unit = [], sl_common = [], sl_email = [], sl_keylen = [], sl_valid_from = [],
         sl_valid_to = [], sl_valid_for = 0\<rparr>\<rparr>,
     we_others = (\<lambda>_ _ _ s. Some (s, [], 0)), we_over = replicate 16 0, we_stack = replicate 128 0,
     we_stale = replicate 128 0, we_ptr = 1, we_parse = (\<lambda>t. if t = text then Some j else None)\<rparr>"

definition http_put :: "string \<Rightarrow> u8 list \<Rightarrow> http_msg" where
  "http_put m b = \<lparr>hm_method = ascii m, hm_body = b, hm_query = []\<rparr>"

lemmas sample_defs = sample_rest_def sample_web_def http_put_def

section \<open>Directory settings\<close>

text \<open>The setters in the order \<open>handle_ldap_call\<close> sends them, ending with the time limit.\<close>

definition ldap_configure ::
    "ldap_config \<Rightarrow> u8 list \<Rightarrow> u8 list \<Rightarrow> u8 list \<Rightarrow> u8 list \<Rightarrow> u8 list \<Rightarrow> int \<Rightarrow> int
      \<Rightarrow> ldap_config bin \<Rightarrow> ldap_config bin option" where
  "ldap_configure junk ip port base dn pw ssl t f =
     Option.bind (set_ldap_enable 49 f) (\<lambda>f. Option.bind (set_ldap_ip ip junk f) (\<lambda>f.
     Option.bind (set_ldap_port port junk f) (\<lambda>f. Option.bind (set_ldap_searchbase base junk f) (\<lambda>f.
     Option.bind (set_ldap_binddn dn junk f) (\<lambda>f. Option.bind (set_ldap_bindpw pw junk f) (\<lambda>f.
     Option.bind (set_ldap_ssl ssl junk f) (\<lambda>f. set_ldap_timelimit t junk f)))))))"

lemmas ldap_setters = set_ldap_enable_def set_ldap_ip_def set_ldap_port_def set_ldap_searchbase_def
  set_ldap_binddn_def set_ldap_bindpw_def set_ldap_ssl_def set_ldap_timelimit_def

lemma ldap_configure_Some:
  assumes "length ip \<le> 16" and "length port \<le> 5" and "length base \<le> 31" and "length dn \<le> 63"
    and "length pw \<le> 31"
  shows "ldap_configure junk ip port base dn pw ssl t f = Some (Stored (ldap_zero\<lparr>ld_enable := 1,
    ld_ip := write_at 0 (ip @ [0]) (replicate 17 0), ld_port := write_at 0 (port @ [0]) (replicate 6 0),
    ld_basedn := write_at 0 (base @ [0]) (replicate 32 0),
    ld_binddn := write_at 0 (dn @ [0]) (replicate 64 0),
    ld_bindpw := write_at 0 (pw @ [0]) (replicate 32 0), ld_ssl := ssl - 48, ld_timelimit := t\<rparr>))"
  using assms by (simp add: ldap_configure_def ldap_setters fread_bin_def ldap_zero_def)

text \<open>The LDAP settings come back as they were set, whatever the file held before and whatever
  memory held - except that an address of 16 characters or a bind DN of 32 or more, which the
  setters accept and store, overruns a local array of the query.\<close>

theorem ldap_settings_roundtrip:
  assumes "length ip \<le> 16" and "length port \<le> 5" and "length base \<le> 31" and "length dn \<le> 63"
    and "length pw \<le> 31" and "0 \<notin> set (ip @ port @ base @ dn @ pw)"
  shows "Option.bind (ldap_configure junk ip port base dn pw ssl t f) parse_ldap_conf_file =
    (if length ip \<le> 15 \<and> length dn \<le> 31
     then Some \<lparr>lv_enable = 1, lv_bindpw = pw, lv_ip = ip, lv_port = port, lv_timeout = t,
       lv_basedn = base, lv_ssl = ssl - 48, lv_binddn = dn\<rparr>
     else None)"
proof -
  have le: "length ip < 16 \<longleftrightarrow> length ip \<le> 15" "length dn < 32 \<longleftrightarrow> length dn \<le> 31"
    "length port < 6" "length base < 32" "length pw < 32"
    using assms by linarith+
  show ?thesis
    unfolding ldap_configure_Some [OF assms(1-5)]
    using assms(6) le
    by (simp add: parse_ldap_conf_file_def fread_bin_def ldap_zero_def Let_def)
qed

theorem ldap_settings_roundtrip_witness:
  "Option.bind (ldap_configure ldap_zero [49] [51] [100] (replicate 40 99) [112] 48 5 Absent)
     parse_ldap_conf_file = None"
  by (subst ldap_settings_roundtrip) simp_all

section \<open>Never returning, and what a handler leaves alone\<close>

definition no_ret :: "'a web \<Rightarrow> bool" where
  "no_ret m \<longleftrightarrow> (\<forall>s. \<not> is_ret (fst (m s)))"

definition web_keeps :: "(rest_state \<Rightarrow> 'b) \<Rightarrow> 'a web \<Rightarrow> bool" where
  "web_keeps f m \<longleftrightarrow> (\<forall>s. f (snd (m s)) = f s)"

lemma no_ret_bind: "(\<And>x. no_ret (f x)) \<Longrightarrow> no_ret (wbind m f)"
  unfolding no_ret_def wbind_def by (auto split: prod.splits cres.splits)

lemma no_ret_basic [intro]: "no_ret wub" "no_ret wthrow"
  by (simp_all add: no_ret_def wub_def wthrow_def)

lemma no_ret_first: "no_ret m \<Longrightarrow> no_ret (wbind m f)"
  unfolding no_ret_def wbind_def
  by (auto split: prod.splits cres.splits) (metis fst_conv is_ret_simps(1))

lemma keeps_bind [intro]: "web_keeps g m \<Longrightarrow> (\<And>x. web_keeps g (f x)) \<Longrightarrow> web_keeps g (wbind m f)"
  unfolding web_keeps_def wbind_def by (auto split: prod.splits cres.splits) (metis snd_conv)+

lemma keeps_basic [intro]: "web_keeps g (wret x)" "web_keeps g wub" "web_keeps g wthrow"
  by (simp_all add: web_keeps_def wret_def wub_def wthrow_def)

lemma keeps_json [intro]: "web_keeps g (json_string j k)" "web_keeps g (json_parse W t)"
  by (auto simp: json_string_def json_parse_def split: option.splits sum.splits)

lemma keeps_jsons [intro]: "web_keeps g (json_strings j ks)"
  by (induction ks) auto

lemma keeps_sendrecv:
  assumes "\<And>d s s' t n. ipmi_handle_rest (we_others W) cmd (we_rest W) d s = Some (s', t, n)
      \<Longrightarrow> g s' = g s"
  shows "web_keeps g (sendrecv W (Some (cmd, bs)))"
proof -
  have "web_keeps g (exchange W (Some (cmd, bs)))"
    using assms by (auto simp: web_keeps_def exchange_def run_ipmi_handle_rest_def split: option.splits)
  then show ?thesis unfolding sendrecv_def by (intro keeps_bind keeps_basic)
qed

lemma silent_Some: "silent r = Some (s, t, n) \<longleftrightarrow> r = Some s \<and> t = [] \<and> n = 0"
  by (auto simp: silent_def)

lemmas rest_ldap_routines = rest_ldap_enable_def rest_ldap_string_def rest_ldap_ssl_def

lemma ldap_requests_keep:
  assumes "g = (\<lambda>s. (rs_nslcd s, rs_ad s))"
  shows "web_keeps g (sendrecv W (req_ldap_enable ov x))" "web_keeps g (sendrecv W (req_ldap_ip ov x))"
    "web_keeps g (sendrecv W (req_ldap_port ov x))" "web_keeps g (sendrecv W (req_ldap_searchbase ov x))"
    "web_keeps g (sendrecv W (req_ldap_binddn ov x))" "web_keeps g (sendrecv W (req_ldap_password ov x))"
    "web_keeps g (sendrecv W (req_ldap_ssl ov x))"
  unfolding assms req_ldap_enable_def req_ldap_ip_def req_ldap_port_def req_ldap_searchbase_def
    req_ldap_binddn_def req_ldap_password_def req_ldap_ssl_def
  by (rule keeps_sendrecv, auto simp: ipmi_handle_rest_def rest_ldap_routines silent_Some
      split: bind_splits)+

lemma sendrecv_None: "sendrecv W None = wub"
  by (rule ext) (simp add: sendrecv_def exchange_def wbind_def wub_def)

text \<open>Enabling LDAP over the web never succeeds: the request for the time limit is written through a
  pointer that was never set. The handler does not return, /etc/nslcd.conf is not rewritten and
  Active Directory is not switched off, whatever object is sent.\<close>

theorem web_ldap_enable_undefined:
  assumes "cstr (hm_method h) = ascii ''PUT''" and "length (hm_method h) = 3"
    and "length (hm_body h) mod 256 \<noteq> 0" and "body_text W (hm_body h) = Some sdata"
    and "we_parse W sdata = Some j" and "j ''LDAP_EN'' = Some (Inr (ascii ''1''))"
  shows "\<not> is_ret (fst (handle_ldap_call W h s))
    \<and> rs_nslcd (snd (handle_ldap_call W h s)) = rs_nslcd s
    \<and> rs_ad (snd (handle_ldap_call W h s)) = rs_ad s"
proof -
  have m: "with_method h f = f (ascii ''PUT'')" for f :: "u8 list \<Rightarrow> web_answer web"
    using assms(1,2) by (simp add: with_method_def local_copy_def one_byte_len_def)
  have one: "cstr (ascii ''1'') = ascii ''1''" by (simp add: cstr_def ascii_def)
  let ?rest = "handle_ldap_call W h"
  have h: "?rest = (wbind (json_strings j [''BIND_DN'', ''LDAP_IP'', ''LDAP_PORT'', ''LDAP_SSL'',
      ''BASE_DN'', ''BIND_PW'', ''TIMEOUT'']) (\<lambda>xs.
    wbind (sendrecv W (req_ldap_enable (we_over W) (ascii ''1''))) (\<lambda>_.
    wbind (sendrecv W (req_ldap_ip (we_over W) (xs ! 1))) (\<lambda>r1.
    wbind (sendrecv W (req_ldap_port (we_over W) (xs ! 2))) (\<lambda>r2.
    wbind (sendrecv W (req_ldap_searchbase (we_over W) (xs ! 4))) (\<lambda>r3.
    wbind (sendrecv W (req_ldap_binddn (we_over W) (xs ! 0))) (\<lambda>r4.
    wbind (sendrecv W (req_ldap_password (we_over W) (xs ! 5))) (\<lambda>r5.
    wbind (sendrecv W (req_ldap_ssl (we_over W) (xs ! 3))) (\<lambda>r6. wub)))))))))"
    using assms(3,4)
    by (simp add: handle_ldap_call_def m Let_def one_byte_len_def json_parse_Some [of W sdata, OF assms(5)]
        json_string_Inr [of j, OF assms(6)] one wbind_wret wbind_wub req_ldap_timelimit_def sendrecv_None
        ascii_def)
  have "no_ret ?rest" unfolding h by (intro no_ret_bind no_ret_basic)
  moreover have "web_keeps (\<lambda>s. (rs_nslcd s, rs_ad s)) ?rest"
    unfolding h by (intro keeps_bind keeps_basic keeps_jsons ldap_requests_keep refl)
  ultimately show ?thesis by (simp add: no_ret_def web_keeps_def)
qed

theorem web_ldap_enable_undefined_witness:
  "rs_nslcd (snd (handle_ldap_call (sample_web [0x7B, 0x7D] [''LDAP_EN'' \<mapsto> Inr (ascii ''1'')])
     (http_put ''PUT'' [0x7B, 0x7D]) sample_rest)) = None"
  using web_ldap_enable_undefined [of "http_put ''PUT'' [0x7B, 0x7D]"
      "sample_web [0x7B, 0x7D] [''LDAP_EN'' \<mapsto> Inr (ascii ''1'')]" "[0x7B, 0x7D]"
      "[''LDAP_EN'' \<mapsto> Inr (ascii ''1'')]" sample_rest]
  by (simp add: sample_defs body_text_def c_string_def cstr_def ascii_def)

section \<open>Network settings\<close>



definition asleep :: "rest_state \<Rightarrow> bool" where
  "asleep s \<longleftrightarrow> length (rs_lan s) = 4 \<and> (\<forall>l \<in> set (rs_lan s). \<not> l_lock l)"

text \<open>What holds of every interface, with the rest of the state as it was.\<close>

definition lan_all :: "(lan \<Rightarrow> bool) \<Rightarrow> rest_state \<Rightarrow> rest_state \<Rightarrow> bool" where
  "lan_all Q s0 s \<longleftrightarrow> length (rs_lan s) = 4 \<and> (\<forall>l \<in> set (rs_lan s). Q l)
     \<and> rs_users s = rs_users s0 \<and> length (rs_lan6 s) = length (rs_lan6 s0)"



lemma lan_all_run_system [simp]: "lan_all Q s0 (run_system cs s) = lan_all Q s0 s"
  by (simp add: run_system_def lan_all_def)








lemma sample_rest_lan: "asleep sample_rest" "\<forall>l \<in> set (rs_lan sample_rest). lan_inv l"
  by (simp_all add: asleep_def sample_rest_def new_lan_def)
    (simp add: lan_inv_def sample_info_def)



text \<open>The request for a VLAN carries the interface first, the controller reads the VLAN first: the
  VLAN of the interface with the VLAN's number is set to the interface's number, and a VLAN of
  4 or more indexes past the table.\<close>

theorem vlan_id_swapped:
  assumes "asleep s" and "\<forall>l \<in> set (rs_lan s). lan_inv l" and "0 \<le> vid" and "vid < 256"
  shows "(vid < 4 \<longrightarrow> (\<exists>r s'. exchange W (set_network_vlan_id dev vid) s = (Ret r, s')
      \<and> rs_lan s' = (rs_lan s)[nat vid :=
          (rs_lan s ! nat vid)\<lparr>l_vlan_enable := 0x80, l_vlan_id := dev\<rparr>]))
    \<and> (4 \<le> vid \<longrightarrow> exchange W (set_network_vlan_id dev vid) s = (Ub, s))"
proof -
  let ?d = "[dev, word_of_int vid] @ drop 2 (we_stack W)"
  have u: "unat (word_of_int vid :: u8) = nat vid"
    using assms(3,4) by (simp add: unat_eq_nat_uint uint_word_of_int)
  have lt: "(word_of_int vid :: u8) < 4 \<longleftrightarrow> vid < 4"
    using nat_less_iff [OF assms(3), of 4] by (simp add: word_less_nat_alt u)
  have in_set: "rs_lan s ! nat vid \<in> set (rs_lan s)" if "vid < 4"
    using assms(1,3) that by (simp add: asleep_def)
  have len: "\<not> length (l_ip (rs_lan s ! nat vid)) < 4" "\<not> length (l_mask (rs_lan s ! nat vid)) < 4"
    if "vid < 4"
    using assms(2) in_set [OF that] by (auto simp: lan_inv_def)
  show ?thesis
    using len
    by (auto simp: exchange_def set_network_vlan_id_def run_ipmi_handle_rest_def
        ipmi_handle_rest_def rest_lan_vlan_id_def with_lan_def u lt silent_def Let_def run_system_def)
qed

theorem vlan_id_swapped_witness:
  "exchange (sample_web [] Map.empty) (set_network_vlan_id 1 100) sample_rest = (Ub, sample_rest)"
  using vlan_id_swapped [OF sample_rest_lan, of 100] by simp

section \<open>Power\<close>

text \<open>The chassis command a status of the web interface stands for.\<close>

definition power_code :: "int \<Rightarrow> u8" where
  "power_code status = (if status = 1 then 3 else if status = 2 then 0 else if status = 3 then 6
     else if status = 4 then 1 else if status = 5 then 2 else word_of_int status)"

lemma hd_int_le32: "byte_at (int_le32 n @ r) 0 = word_of_int n"
proof -
  have "ucast (word_of_int n :: u32) = (word_of_int n :: u8)"
    by (rule bit_word_eqI) (simp add: bit_ucast_iff bit_word_of_int_iff)
  then show ?thesis by (simp add: int_le32_def le32_def)
qed

lemma chassis_control_byte:
  "byte_at d 0 = c \<Longrightarrow> chassis_control ch (as_ipmi k d) r = chassis_control ch \<lparr>q_netfn = 0, q_cmd = 2, q_data = [c]\<rparr> r"
  by (simp add: chassis_control_def as_ipmi_def Let_def)

lemma chassis_control_total: "\<exists>c r'. chassis_control ch q r = Some (c, r')"
  by (simp add: chassis_control_def Let_def)

lemma power_exchange:
  assumes "chassis_control (rs_chassis s) \<lparr>q_netfn = 0, q_cmd = 2, q_data = [power_code n]\<rparr> blank_res
      = Some (c, r)"
  shows "exchange W (set_power_status n) s = (Ret (we_stale W), s\<lparr>rs_chassis := c\<rparr>)"
proof -
  define k :: int where "k = (if n = 1 then 3 else if n = 2 then 0 else if n = 3 then 6
     else if n = 4 then 1 else if n = 5 then 2 else n)"
  have k: "word_of_int k = power_code n" by (simp add: k_def power_code_def)
  have m: "set_power_status n = Some (0x2E, int_le32 k)" by (simp add: set_power_status_def k_def)
  let ?d = "int_le32 k @ drop 4 (we_stack W)"
  have "chassis_control (rs_chassis s) (as_ipmi 0x2E ?d) blank_res = Some (c, r)"
    using chassis_control_byte [of ?d "power_code n"] hd_int_le32 [of k] k assms by simp
  then show ?thesis
    by (simp add: m exchange_app run_ipmi_handle_rest_def ipmi_handle_rest_def
        rest_set_power_status_def)
qed

text \<open>\<open>POST /power\<close> does to the chassis what the IPMI chassis command with the translated code does -
  a status outside 1 to 5 goes through as a raw code, so that 0 switches the host off - and always
  answers that it succeeded, also when the controller refused the code.\<close>

theorem web_power_call:
  assumes "cstr (hm_method h) = ascii ''POST''" and "length (hm_method h) = 4"
    and "0 < length (hm_body h)" and "length (hm_body h) < 100"
    and "we_parse W (cstr (hm_body h)) = Some j" and "j ''STATUS'' = Some (Inl n)"
    and "c_string (we_stale W) = Some t" and "length t \<le> 50"
  shows "\<exists>c r. chassis_control (rs_chassis s)
        \<lparr>q_netfn = 0, q_cmd = 2, q_data = [power_code n]\<rparr> blank_res = Some (c, r)
    \<and> handle_power_call W h s = (Ret (Result True), s\<lparr>rs_chassis := c\<rparr>)"
proof -
  obtain c r where c: "chassis_control (rs_chassis s)
      \<lparr>q_netfn = 0, q_cmd = 2, q_data = [power_code n]\<rparr> blank_res = Some (c, r)"
    using chassis_control_total by blast
  have m: "with_method h f = f (ascii ''POST'')" for f :: "u8 list \<Rightarrow> web_answer web"
    using assms(1,2) by (simp add: with_method_def local_copy_def one_byte_len_def)
  have b: "local_copy 100 (hm_body h) = Some (cstr (hm_body h))" "one_byte_len (hm_body h) \<noteq> 0"
    using assms(3,4) by (simp_all add: local_copy_def one_byte_len_def)
  have send: "test_sendrecv W 50 (set_power_status n) s = (Ret t, s\<lparr>rs_chassis := c\<rparr>)"
    unfolding test_sendrecv_def wbind_Ret [of "exchange W (set_power_status n)", OF power_exchange [OF c]]
    using assms(7,8) by (simp add: wret_def)
  have "ascii ''POST'' \<noteq> ascii ''GET''" "ascii ''POST'' \<noteq> ascii ''OPTIONS''"
    by (simp_all add: ascii_def)
  then have "handle_power_call W h s
      = wbind (test_sendrecv W 50 (set_power_status n)) (\<lambda>_. wret (Result True)) s"
    using b assms(6) by (simp add: handle_power_call_def m Let_def
      json_parse_Some [of W, OF assms(5)] wbind_wret)
  then show ?thesis using c by (simp add: wbind_Ret [of "test_sendrecv W 50 (set_power_status n)", OF send] wret_def)
qed

theorem web_power_call_witness:
  "fst (handle_power_call (sample_web [0x7B] [''STATUS'' \<mapsto> Inl 0]) (http_put ''POST'' [0x7B]) sample_rest)
    = Ret (Result True)"
proof -
  let ?W = "sample_web [0x7B] [''STATUS'' \<mapsto> Inl 0]"
  have "c_string (we_stale ?W) = Some []" by (simp add: sample_web_def c_string_def)
  then show ?thesis
    using web_power_call [of "http_put ''POST'' [0x7B]" ?W "[''STATUS'' \<mapsto> Inl 0]" 0 "[]" sample_rest]
    by (auto simp: sample_defs cstr_def ascii_def)
qed

section \<open>Accounts\<close>

lemma save_users [simp]: "ud_users (plat_user_save db) = ud_users db"
  by (simp add: plat_user_save_def)

abbreviation root_of :: "rest_state \<Rightarrow> user" where
  "root_of s \<equiv> ud_users (rs_users s) ! 0"















section \<open>Logging in\<close>

definition shell_name :: "u8 list" where
  "shell_name = ascii ''x;true #''"

lemma shell_name_bytes: "shell_name = [0x78, 0x3B, 0x74, 0x72, 0x75, 0x65, 0x20, 0x23]"
  by (simp add: shell_name_def ascii_def)

lemma authenticate_scan_absent: "\<forall>u \<in> set us. u_name u \<noteq> n \<Longrightarrow> authenticate_scan u0 n p us = 0"
  by (induction us) auto

lemma login_shell_name:
  assumes "re_shell env (ascii ''echo  | auth x;true # ldap'') = 0"
    and "\<forall>u \<in> set (ud_users (rs_users s)). u_name u \<noteq> shell_name" and "ud_users (rs_users s) \<noteq> []"
    and "15 \<le> length ov"
  shows "rest_try_login env (read_mem ov 16 shell_name @ read_mem ov 16 [] @ r) s = Some (s, [0x32], 1)"
proof -
  have len: "length (read_mem ov 16 shell_name) = 16" "length (read_mem ov 16 []) = 16"
    using assms(4) by (simp_all add: read_mem_def shell_name_bytes)
  have c: "c_string (read_mem ov 16 shell_name) = Some shell_name" "c_string (read_mem ov 16 []) = Some []"
    using take_c_string [of shell_name 16 ov] take_c_string [of "[]" 16 ov]
    by (simp_all add: read_mem_def shell_name_bytes)
  have cmd: "auth_command shell_name [] (ascii ''ldap'') = ascii ''echo  | auth x;true # ldap''"
    by (simp add: auth_command_def shell_name_def ascii_def)
  have "authenticate_ldap (re_shell env) shell_name [] = Some 2"
    by (simp add: authenticate_ldap_def auth_external_def cmd assms(1) Let_def)
  moreover have "authenticate_ipmi shell_name [] (rs_users s) = 0"
    unfolding authenticate_ipmi_def by (rule authenticate_scan_absent [OF assms(2)])
  ultimately have "login_privilege (re_shell env) shell_name [] (rs_users s) = Some 2"
    by (simp add: login_privilege_def)
  moreover have "u_name (root_of s) \<noteq> shell_name" using assms(2,3) by simp
  moreover have "print_int 2 = [0x32]" by (simp add: print_int_def to_string.simps digit_chars_def ascii_def)
  ultimately show ?thesis using len c by (simp add: rest_try_login_def)
qed

text \<open>The log-in pastes the name into a shell command without quoting it and takes the command's exit
  status for the directory's verdict: a name that ends the command and comments out the rest is
  granted privilege 2, with no such account, no password, and LDAP not even configured. Assumed of
  the shell is that a list ending in \<open>true\<close> succeeds.\<close>

theorem login_by_shell:
  assumes "cstr (hm_method h) = ascii ''POST''" and "length (hm_method h) = 4"
    and "0 < length (hm_body h)" and "length (hm_body h) < 100"
    and "we_parse W (cstr (hm_body h)) = Some j" and "j ''USERNAME'' = Some (Inr shell_name)"
    and "j ''PASSWORD'' = Some (Inr [])"
    and "re_shell (we_rest W) (ascii ''echo  | auth x;true # ldap'') = 0"
    and "\<forall>u \<in> set (ud_users (rs_users s)). u_name u \<noteq> shell_name" and "ud_users (rs_users s) \<noteq> []"
    and "15 \<le> length (we_over W)" and "c_string (drop 1 (we_stale W)) = Some t" and "length t \<le> 19"
  shows "handle_login_call W h s
    = (Ret (Text (ascii ''{\"PRIVILEGE\":\"2\"}'' @ [13, 10, 13, 10])), s)"
proof -
  have m: "with_method h f = f (ascii ''POST'')" for f :: "u8 list \<Rightarrow> web_answer web"
    using assms(1,2) by (simp add: with_method_def local_copy_def one_byte_len_def)
  have b: "local_copy 100 (hm_body h) = Some (cstr (hm_body h))" "one_byte_len (hm_body h) \<noteq> 0"
    using assms(3,4) by (simp_all add: local_copy_def one_byte_len_def)
  have ne: "ascii ''POST'' \<noteq> ascii ''OPTIONS''" by (simp add: ascii_def)
  have lit: "cstr shell_name = shell_name" "cstr [] = []"
    by (simp_all add: cstr_def shell_name_bytes)
  let ?bs = "read_mem (we_over W) 16 shell_name @ read_mem (we_over W) 16 []"
  have len: "length ?bs = 32" using assms(11) by (simp add: read_mem_def shell_name_bytes)
  have "run_ipmi_handle_rest W 0xfe (?bs @ drop 32 (we_stack W)) s
      = Some (s, 0x32 # drop 1 (we_stale W))"
    using login_shell_name [OF assms(8-11), of "drop 32 (we_stack W)"]
    by (simp add: run_ipmi_handle_rest_def ipmi_handle_rest_def cstr_def strncpy_def)
  then have ex: "exchange W (Some (0xfe, ?bs)) s = (Ret (0x32 # drop 1 (we_stale W)), s)"
    using len by (simp add: exchange_def)
  have "c_string (0x32 # drop 1 (we_stale W)) = Some (0x32 # t)"
    using assms(12) by (auto simp: c_string_def split: if_splits)
  then have "test_sendrecv W 20 (try_login (we_over W) shell_name []) s = (Ret (0x32 # t), s)"
    using assms(13) by (simp add: test_sendrecv_def try_login_def
      wbind_Ret [of "exchange W (Some (0xfe, ?bs))", OF ex] wret_def)
  then show ?thesis
    using b ne assms(6,7) lit
    by (simp add: handle_login_call_def m Let_def json_parse_Some [of W, OF assms(5)] json_string_Inr
        wbind_wret wbind_Ret [of "test_sendrecv W 20 (try_login (we_over W) shell_name [])"] wret_app)
      (simp add: ascii_def)
qed

theorem login_by_shell_witness:
  "fst (handle_login_call (sample_web [0x7B] [''USERNAME'' \<mapsto> Inr shell_name, ''PASSWORD'' \<mapsto> Inr []])
      (http_put ''POST'' [0x7B]) sample_rest)
    = Ret (Text (ascii ''{\"PRIVILEGE\":\"2\"}'' @ [13, 10, 13, 10]))"
proof -
  let ?j = "[''USERNAME'' \<mapsto> Inr shell_name, ''PASSWORD'' \<mapsto> Inr []] :: string \<Rightarrow> (int + u8 list) option"
  have "c_string (drop 1 (we_stale (sample_web [0x7B] ?j))) = Some []"
    by (simp add: sample_web_def c_string_def)
  moreover have "\<forall>u \<in> set (ud_users (rs_users sample_rest)). u_name u \<noteq> shell_name"
    "ud_users (rs_users sample_rest) \<noteq> []"
    by (simp_all add: sample_rest_def boot_users_list plat_user_init_def empty_user_def root_name_def
        admin_name_def shell_name_bytes)
  ultimately show ?thesis
    using login_by_shell [of "http_put ''POST'' [0x7B]" "sample_web [0x7B] ?j" ?j sample_rest "[]"]
    by (simp add: sample_web_def http_put_def cstr_def ascii_def)
qed

section \<open>The tables keep their shape\<close>

definition rest_ok :: "rest_state \<Rightarrow> bool" where
  "rest_ok s \<longleftrightarrow> length (ud_users (rs_users s)) = 10 \<and> length (rs_lan s) = 4 \<and> length (rs_lan6 s) = 4
     \<and> (\<forall>l \<in> set (rs_lan s). lan_inv l)"

lemma rest_ok_cong:
  "rs_users s' = rs_users s \<Longrightarrow> rs_lan s' = rs_lan s \<Longrightarrow> rs_lan6 s' = rs_lan6 s \<Longrightarrow> rest_ok s' = rest_ok s"
  by (simp add: rest_ok_def)

lemma rest_ok_updates [simp]:
  "rest_ok (s\<lparr>rs_chassis := c\<rparr>) = rest_ok s" "rest_ok (s\<lparr>rs_fru := f\<rparr>) = rest_ok s"
  "rest_ok (s\<lparr>rs_ldap := g\<rparr>) = rest_ok s" "rest_ok (s\<lparr>rs_ad := h\<rparr>) = rest_ok s"
  "rest_ok (s\<lparr>rs_rad := i\<rparr>) = rest_ok s" "rest_ok (s\<lparr>rs_smtp := j\<rparr>) = rest_ok s"
  "rest_ok (s\<lparr>rs_ssl := k\<rparr>) = rest_ok s" "rest_ok (s\<lparr>rs_nslcd := n\<rparr>) = rest_ok s"
  "rest_ok (s\<lparr>rs_raddb := n\<rparr>) = rest_ok s" "rest_ok (s\<lparr>rs_msmtprc := n\<rparr>) = rest_ok s"
  "rest_ok (s\<lparr>rs_es := e\<rparr>) = rest_ok s" "rest_ok (s\<lparr>rs_eth_priority := p\<rparr>) = rest_ok s"
  "rest_ok (s\<lparr>rs_system := q\<rparr>) = rest_ok s" "rest_ok (run_system cs s) = rest_ok s"
  by (simp_all add: rest_ok_def run_system_def)



















end
