(* ===== verification/Power_Meter.thy ===== *)
theory Power_Meter
  imports Redfish_Util
begin

text \<open>
  The power meter of KETI-Edge/psu_server.cpp: a thread that samples the two power supplies and
  keeps their last values in six tables of an SQLite file - minutes, hours and days of each supply.
  A table takes new rows until it is full and is then overwritten in turn. SQLite is modelled by
  what the four statements the code uses are documented to do; a statement on a table that does
  not exist has no effect and counts no rows. The calendar and the sensors are parameters.
\<close>

section \<open>Tables\<close>

record power_usage =
  pu_id :: int
  pu_watt :: int
  pu_dt :: string

text \<open>A table with the cursor the program keeps for it.\<close>

record ring =
  rg_cursor :: int
  rg_table :: "power_usage list option"

text \<open>\<open>SELECT count(*)\<close> as \<open>sqlite_run\<close> returns it.\<close>

definition sqlite_run :: "power_usage list option \<Rightarrow> nat" where
  "sqlite_run t = (case t of None \<Rightarrow> 0 | Some rows \<Rightarrow> length rows)"

text \<open>\<open>INSERT\<close> into a table with an \<open>AUTOINCREMENT\<close> key from which no row is ever deleted.\<close>

definition insert_row :: "int \<Rightarrow> string \<Rightarrow> power_usage list \<Rightarrow> power_usage list" where
  "insert_row w dt rows = rows @ [\<lparr>pu_id = fold max (map pu_id rows) 0 + 1, pu_watt = w, pu_dt = dt\<rparr>]"

definition update_row :: "int \<Rightarrow> int \<Rightarrow> string \<Rightarrow> power_usage list \<Rightarrow> power_usage list" where
  "update_row i w dt rows =
     map (\<lambda>r. if pu_id r = i then r\<lparr>pu_watt := w, pu_dt := dt\<rparr> else r) rows"

text \<open>One of the six blocks of \<open>DoStuff\<close>.\<close>

definition store_sample :: "nat \<Rightarrow> int \<Rightarrow> string \<Rightarrow> ring \<Rightarrow> ring" where
  "store_sample n w dt r =
     (if sqlite_run (rg_table r) < n then r\<lparr>rg_table := map_option (insert_row w dt) (rg_table r)\<rparr>
      else r\<lparr>rg_table := map_option (update_row (rg_cursor r) w dt) (rg_table r),
             rg_cursor := (if rg_cursor r < int n then rg_cursor r + 1 else 1)\<rparr>)"

section \<open>Time stamps\<close>

text \<open>\<open>struct tm\<close>; \<open>time_function\<close> takes its members as \<open>uint8_t\<close> and prints all but the year into
  arrays of three characters.\<close>

record tm =
  tm_year :: int
  tm_mon :: int
  tm_mday :: int
  tm_hour :: int
  tm_min :: int
  tm_sec :: int

definition narrow8 :: "int \<Rightarrow> nat" where
  "narrow8 n = nat (n mod 256)"

definition two_digits :: "nat \<Rightarrow> string option" where
  "two_digits n = (let s = (if n < 10 then CHR ''0'' # to_string n else to_string n)
                   in if length s < 3 then Some s else None)"

definition time_function :: "tm \<Rightarrow> string option" where
  "time_function t =
     (case map two_digits [narrow8 (tm_mon t) + 1, narrow8 (tm_mday t), narrow8 (tm_hour t),
           narrow8 (tm_min t), narrow8 (tm_sec t)] of
        [Some month, Some days, Some hour, Some mins, Some sec] \<Rightarrow>
          Some (to_string (narrow8 (tm_year t) + 1900) @ ''-'' @ month @ ''-'' @ days @ '' '' @ hour
            @ '':'' @ mins @ '':'' @ sec)
      | _ \<Rightarrow> None)"

section \<open>The sampler\<close>

record psu =
  count_m :: int
  count_h :: int
  count_d :: int
  power_watt1 :: int
  power_watt2 :: int
  min_1 :: ring
  min_2 :: ring
  hour_1 :: ring
  hour_2 :: ring
  day_1 :: ring
  day_2 :: ring

text \<open>The reading of the sensors is a comment in the code, so that only this changes the values.\<close>

definition watch_power_good :: "bool \<Rightarrow> psu \<Rightarrow> psu" where
  "watch_power_good good s = (if good then s
     else s\<lparr>power_watt1 := (if power_watt1 s = 13 then 0 else power_watt1 s),
            power_watt2 := (if power_watt2 s = 13 then 0 else power_watt2 s)\<rparr>)"

definition store_minutes :: "string \<Rightarrow> psu \<Rightarrow> psu" where
  "store_minutes dt s = s\<lparr>min_1 := store_sample 30 (power_watt1 s * 10) dt (min_1 s),
     min_2 := store_sample 30 (power_watt2 s * 10) dt (min_2 s)\<rparr>"

definition store_hours :: "string \<Rightarrow> psu \<Rightarrow> psu" where
  "store_hours dt s = s\<lparr>hour_1 := store_sample 600 (power_watt1 s * 10) dt (hour_1 s),
     hour_2 := store_sample 600 (power_watt2 s * 10) dt (hour_2 s)\<rparr>"

definition store_days :: "string \<Rightarrow> psu \<Rightarrow> psu" where
  "store_days dt s = s\<lparr>day_1 := store_sample 1440 (power_watt1 s * 10) dt (day_1 s),
     day_2 := store_sample 1440 (power_watt2 s * 10) dt (day_2 s)\<rparr>"

definition DoStuff :: "bool \<Rightarrow> tm \<Rightarrow> psu \<Rightarrow> psu option" where
  "DoStuff good t s = (
     let s = watch_power_good good s in
     map_option (\<lambda>s. s\<lparr>count_m := count_m s + 1\<rparr>)
       (if count_m s > 2 then
          (case time_function t of
             None \<Rightarrow> None
           | Some dt \<Rightarrow>
               let s = store_minutes dt s;
                   s = (if count_h s > 3 then
                          let s = store_hours dt s;
                              s = (if count_d s > 10 then (store_days dt s)\<lparr>count_d := 0\<rparr> else s)
                          in s\<lparr>count_h := 0, count_d := count_d s + 1\<rparr>
                        else s)
               in Some (s\<lparr>count_m := 0, count_h := count_h s + 1\<rparr>))
        else Some s))"

fun psu_run :: "(bool \<times> tm) list \<Rightarrow> psu \<Rightarrow> psu option" where
  "psu_run [] s = Some s"
| "psu_run ((good, t) # ts) s = Option.bind (DoStuff good t s) (psu_run ts)"

section \<open>Start\<close>

text \<open>\<open>check_db\<close>: the query for the table has the semicolon inside the quotes and so never finds it;
  creating a table that exists has no effect.\<close>

definition check_table :: "ring \<Rightarrow> ring" where
  "check_table r = r\<lparr>rg_table := (case rg_table r of None \<Rightarrow> Some [] | Some rows \<Rightarrow> Some rows)\<rparr>"

definition check_db :: "psu \<Rightarrow> psu" where
  "check_db s = s\<lparr>min_1 := check_table (min_1 s), min_2 := check_table (min_2 s),
     hour_1 := check_table (hour_1 s), hour_2 := check_table (hour_2 s),
     day_1 := check_table (day_1 s), day_2 := check_table (day_2 s)\<rparr>"

text \<open>\<open>find_first_index\<close>. The index \<open>l\<close> of the first loop is never set (\<open>l0\<close>); \<open>secs\<close> is what
  \<open>strptime\<close> and \<open>mktime\<close> make of a text. The array has \<open>count\<close> elements of 100 characters.\<close>

fun latest_index :: "nat \<Rightarrow> nat \<Rightarrow> int \<Rightarrow> int list \<Rightarrow> nat" where
  "latest_index l i_max t_max [] = i_max"
| "latest_index l i_max t_max (t # ts) =
     (if t_max < t then latest_index (Suc l) l t ts else latest_index (Suc l) i_max t_max ts)"

definition find_first_index :: "(string \<Rightarrow> int) \<Rightarrow> int \<Rightarrow> nat \<Rightarrow> power_usage list option \<Rightarrow> int option" where
  "find_first_index secs l0 count t = (
     let dts = (case t of None \<Rightarrow> [] | Some rows \<Rightarrow> map pu_dt rows) in
     if count = 0 then Some 1
     else if l0 \<noteq> 0 \<or> length dts \<noteq> count \<or> (\<exists>dt \<in> set dts. 100 \<le> length dt) then None
     else let ts = map secs dts in Some (int (latest_index 0 0 (hd ts) ts) + 1))"

text \<open>The start of \<open>psu_handler\<close>; the count for the second day table is taken from the first.\<close>

definition with_cursor :: "int option \<Rightarrow> ring \<Rightarrow> ring option" where
  "with_cursor c r = map_option (\<lambda>i. r\<lparr>rg_cursor := i\<rparr>) c"

definition psu_start :: "(string \<Rightarrow> int) \<Rightarrow> (nat \<Rightarrow> int) \<Rightarrow> bool \<Rightarrow> psu \<Rightarrow> psu option" where
  "psu_start secs junk exists s = (
     let s = (if exists then check_db s else s);
         find = (\<lambda>k c r. with_cursor
           (find_first_index secs (junk k) (sqlite_run (rg_table c)) (rg_table r)) r)
     in case map (\<lambda>(k, c, r). find k c r) [(1, min_1 s, min_1 s), (2, min_2 s, min_2 s),
          (3, hour_1 s, hour_1 s), (4, hour_2 s, hour_2 s), (5, day_1 s, day_1 s),
          (6, day_1 s, day_2 s)] of
          [Some m1, Some m2, Some h1, Some h2, Some d1, Some d2] \<Rightarrow>
            Some (s\<lparr>min_1 := m1, min_2 := m2, hour_1 := h1, hour_2 := h2, day_1 := d1, day_2 := d2\<rparr>)
        | _ \<Rightarrow> None)"

text \<open>The program's variables when the process starts, over tables with the given contents.\<close>

definition psu_boot :: "power_usage list option \<Rightarrow> psu" where
  "psu_boot t = (let r = \<lparr>rg_cursor = 0, rg_table = t\<rparr> in
     \<lparr>count_m = 0, count_h = 0, count_d = 0, power_watt1 = 0, power_watt2 = 0, min_1 = r, min_2 = r,
      hour_1 = r, hour_2 = r, day_1 = r, day_2 = r\<rparr>)"

section \<open>The window of the last samples\<close>

definition window :: "nat \<Rightarrow> 'a \<Rightarrow> 'a list \<Rightarrow> 'a list" where
  "window n x q = (let q = q @ [x] in drop (length q - n) q)"

lemma window_drop: "window n x (drop (length q - n) q) = drop (length (q @ [x]) - n) (q @ [x])"
proof -
  have "drop k (drop j q @ [x]) = drop (k + j) (q @ [x])" if "j \<le> length q" for k j
    using drop_append [of j q "[x]"] that by (metis diff_is_0_eq drop0 drop_drop)
  then show ?thesis by (cases "length q \<le> n") (simp_all add: window_def Suc_diff_le)
qed

locale sample_window =
  fixes size :: nat
    and store :: "'a \<Rightarrow> 'r \<Rightarrow> 'r"
    and contents :: "'r \<Rightarrow> 'a list"
    and ok :: "'r \<Rightarrow> bool"
  assumes keeps_ok: "ok r \<Longrightarrow> ok (store x r)"
    and store_contents: "ok r \<Longrightarrow> contents (store x r) = window size x (contents r)"
    and bounded: "ok r \<Longrightarrow> length (contents r) \<le> size"
begin

lemma fold_ok: "ok r \<Longrightarrow> ok (fold store xs r)"
  by (induction xs arbitrary: r) (simp_all add: keeps_ok)

lemma last_samples:
  assumes "ok r"
  shows "contents (fold store xs r)
    = drop (length (contents r) + length xs - size) (contents r @ xs)"
proof (induction xs rule: rev_induct)
  case Nil
  then show ?case using bounded [OF assms] by simp
next
  case (snoc x xs)
  let ?q = "contents r @ xs"
  have "contents (fold store (xs @ [x]) r) = window size x (drop (length ?q - size) ?q)"
    using snoc.IH by (simp add: store_contents [OF fold_ok [OF assms]])
  then show ?case by (simp only: window_drop) simp
qed

end

end
