(* ===== verification/Power_Report.thy ===== *)
theory Power_Report
  imports Power_Meter
begin

text \<open>
  The power statistics of libs/apps/apps.cpp (from the comment on the PSU to the end of the file):
  reading the six tables of the power meter into global arrays, picking every tenth and every
  sixtieth row of the hour and day tables, the highest and lowest values, and the JSON text of the
  report. The functions for the two supplies are copies of each other; here they share a
  definition over a record of the globals of one supply. A read or write outside an array and a
  line that does not fit its buffer are undefined (\<open>None\<close>).
\<close>

section \<open>The globals\<close>

record supply_stats =
  sp_min :: "power_usage list"
  sp_hour :: "power_usage list"
  sp_day :: "power_usage list"
  sp_rm :: nat
  sp_rh :: nat
  sp_rd :: nat
  sp_fh :: nat
  sp_fd :: nat
  sp_high :: "nat list"
  sp_low :: "nat list"

record power =
  pw_1 :: supply_stats
  pw_2 :: supply_stats
  pw_min_total :: int
  pw_hour_total :: int

record power_db =
  db_min :: "power_usage list option \<times> power_usage list option"
  db_hour :: "power_usage list option \<times> power_usage list option"
  db_day :: "power_usage list option \<times> power_usage list option"

definition psu_db :: "psu \<Rightarrow> power_db" where
  "psu_db s = \<lparr>db_min = (rg_table (min_1 s), rg_table (min_2 s)),
     db_hour = (rg_table (hour_1 s), rg_table (hour_2 s)),
     db_day = (rg_table (day_1 s), rg_table (day_2 s))\<rparr>"

definition zero_usage :: power_usage where
  "zero_usage = \<lparr>pu_id = 0, pu_watt = 0, pu_dt = []\<rparr>"

definition zero_supply :: supply_stats where
  "zero_supply = \<lparr>sp_min = replicate 30 zero_usage, sp_hour = replicate 60 zero_usage,
     sp_day = replicate 24 zero_usage, sp_rm = 0, sp_rh = 0, sp_rd = 0, sp_fh = 0, sp_fd = 0,
     sp_high = [0, 0, 0, 0], sp_low = [0, 0, 0, 0]\<rparr>"

definition zero_power :: power where
  "zero_power = \<lparr>pw_1 = zero_supply, pw_2 = zero_supply, pw_min_total = 0, pw_hour_total = 0\<rparr>"

section \<open>Reading the tables\<close>

text \<open>\<open>order\<close> is what SQLite makes of \<open>ORDER BY dt\<close>. A loop over the rows stores to successive elements
  of an array; values outside 0 to 800 become 0, and the text goes to 100 characters.\<close>

definition clip_watt :: "power_usage \<Rightarrow> power_usage" where
  "clip_watt r = (if 0 \<le> pu_watt r \<and> pu_watt r \<le> 800 then r else r\<lparr>pu_watt := 0\<rparr>)"

definition load_rows ::
    "(power_usage list \<Rightarrow> power_usage list) \<Rightarrow> power_usage list option \<Rightarrow> power_usage list
      \<Rightarrow> power_usage list option" where
  "load_rows order t arr = (
     let rows = (case t of None \<Rightarrow> [] | Some rs \<Rightarrow> order rs) in
     if length rows \<le> length arr \<and> (\<forall>r \<in> set rows. length (pu_dt r) < 100)
     then Some (map clip_watt rows @ drop (length rows) arr) else None)"

definition load_pair ::
    "(power_usage list \<Rightarrow> power_usage list) \<Rightarrow> power_usage list option \<times> power_usage list option
      \<Rightarrow> power_usage list \<Rightarrow> (power_usage list \<times> power_usage list) option" where
  "load_pair order t arr = (case (load_rows order (fst t) arr, load_rows order (snd t) arr) of
     (Some a, Some b) \<Rightarrow> Some (a, b) | _ \<Rightarrow> None)"

definition watt_sum :: "power_usage list option \<Rightarrow> int" where
  "watt_sum t = (case t of None \<Rightarrow> 0 | Some rows \<Rightarrow> sum_list (map (pu_watt \<circ> clip_watt) rows))"

text \<open>One case of \<open>convert_power_to_g_power\<close>: every \<open>step\<close>-th element from the newest on.\<close>

function convert_loop ::
    "nat \<Rightarrow> int \<Rightarrow> nat \<Rightarrow> power_usage list \<Rightarrow> power_usage list \<Rightarrow> power_usage list" where
  "convert_loop step l m inp g =
     (if l < 0 \<or> step = 0 then g
      else convert_loop step (l - int step) (if m \<noteq> 0 then m - 1 else m) inp (g[m := inp ! nat l]))"
  by pat_completeness auto

termination convert_loop
  by (relation "measure (\<lambda>(step, l, m, inp, g). nat (l + 1))") auto

declare convert_loop.simps [simp del]

definition convert_rows ::
    "nat \<Rightarrow> nat \<Rightarrow> nat \<Rightarrow> power_usage list \<Rightarrow> power_usage list \<Rightarrow> power_usage list option" where
  "convert_rows step mx cnt inp g =
     (if cnt > length inp then None
      else Some (convert_loop step (int cnt - 1) (if cnt > mx then mx - 1 else cnt - 1) inp g))"

definition convert_power_to_g_power :: "power_usage list \<Rightarrow> int \<Rightarrow> power \<Rightarrow> power option" where
  "convert_power_to_g_power inp flag p = (
     let a = pw_1 p; b = pw_2 p in
     if flag = 1 then map_option (\<lambda>g. p\<lparr>pw_1 := a\<lparr>sp_hour := g\<rparr>\<rparr>) (convert_rows 10 60 (sp_rh a) inp (sp_hour a))
     else if flag = 2 then map_option (\<lambda>g. p\<lparr>pw_2 := b\<lparr>sp_hour := g\<rparr>\<rparr>) (convert_rows 10 60 (sp_rh b) inp (sp_hour b))
     else if flag = 3 then map_option (\<lambda>g. p\<lparr>pw_1 := a\<lparr>sp_day := g\<rparr>\<rparr>) (convert_rows 60 24 (sp_rd a) inp (sp_day a))
     else if flag = 4 then map_option (\<lambda>g. p\<lparr>pw_2 := b\<lparr>sp_day := g\<rparr>\<rparr>) (convert_rows 60 24 (sp_rd b) inp (sp_day b))
     else Some p)"

definition clear_arrays :: "power \<Rightarrow> power" where
  "clear_arrays p = (
     let z = (\<lambda>a. a\<lparr>sp_min := replicate 30 zero_usage, sp_hour := replicate 60 zero_usage,
                sp_day := replicate 24 zero_usage\<rparr>)
     in p\<lparr>pw_1 := z (pw_1 p), pw_2 := z (pw_2 p), pw_min_total := 0, pw_hour_total := 0\<rparr>)"

definition count_minutes :: "power_db \<Rightarrow> power \<Rightarrow> power" where
  "count_minutes db p = p\<lparr>pw_1 := (pw_1 p)\<lparr>sp_rm := sqlite_run (fst (db_min db))\<rparr>,
     pw_2 := (pw_2 p)\<lparr>sp_rm := sqlite_run (snd (db_min db))\<rparr>\<rparr>"

text \<open>A count past the size of the reduced table sets the number of rows shown. In the menu with
  everything the second day count is compared with and set to the hour limit; in the hour menu the
  second hour count sets the number of days.\<close>

definition count_hours :: "bool \<Rightarrow> power_db \<Rightarrow> power \<Rightarrow> power" where
  "count_hours all db p = (
     let a = pw_1 p; b = pw_2 p; h = sqlite_run (fst (db_hour db)); k = sqlite_run (snd (db_hour db))
     in p\<lparr>pw_1 := a\<lparr>sp_rh := h, sp_fh := (if h > 60 then 60 else sp_fh a)\<rparr>,
          pw_2 := b\<lparr>sp_rh := k, sp_fh := (if all \<and> k > 60 then 60 else sp_fh b),
                    sp_fd := (if \<not> all \<and> k > 60 then 60 else sp_fd b)\<rparr>\<rparr>)"

definition count_days :: "bool \<Rightarrow> power_db \<Rightarrow> power \<Rightarrow> power" where
  "count_days all db p = (
     let a = pw_1 p; b = pw_2 p; d = sqlite_run (fst (db_day db)); k = sqlite_run (snd (db_day db))
     in p\<lparr>pw_1 := a\<lparr>sp_rd := d, sp_fd := (if d > 24 then 24 else sp_fd a)\<rparr>,
          pw_2 := b\<lparr>sp_rd := k, sp_fd := (if all then (if k > 60 then 60 else sp_fd b)
            else if k > 24 then 24 else sp_fd b)\<rparr>\<rparr>)"

definition load_minutes ::
    "(power_usage list \<Rightarrow> power_usage list) \<Rightarrow> power_db \<Rightarrow> power \<Rightarrow> power option" where
  "load_minutes order db p = map_option
     (\<lambda>(x, y). p\<lparr>pw_1 := (pw_1 p)\<lparr>sp_min := x\<rparr>, pw_2 := (pw_2 p)\<lparr>sp_min := y\<rparr>\<rparr>)
     (load_pair order (db_min db) (replicate 30 zero_usage))"

text \<open>The rows of the hour and day tables go through 600 and 1440 freshly allocated elements
  (\<open>junk\<close>).\<close>

definition load_hours ::
    "(power_usage list \<Rightarrow> power_usage list) \<Rightarrow> power_usage \<Rightarrow> power_db \<Rightarrow> power \<Rightarrow> power option" where
  "load_hours order junk db p = (case load_pair order (db_hour db) (replicate 600 junk) of
     None \<Rightarrow> None
   | Some (x, y) \<Rightarrow> Option.bind (convert_power_to_g_power x 1 p) (convert_power_to_g_power y 2))"

definition load_days ::
    "(power_usage list \<Rightarrow> power_usage list) \<Rightarrow> power_usage \<Rightarrow> power_db \<Rightarrow> power \<Rightarrow> power option" where
  "load_days order junk db p = (case load_pair order (db_day db) (replicate 1440 junk) of
     None \<Rightarrow> None
   | Some (x, y) \<Rightarrow> Option.bind (convert_power_to_g_power x 3 p) (convert_power_to_g_power y 4))"

definition get_min_power_usage ::
    "(power_usage list \<Rightarrow> power_usage list) \<Rightarrow> power_usage \<Rightarrow> int \<Rightarrow> power_db \<Rightarrow> power \<Rightarrow> power option" where
  "get_min_power_usage order junk menu db p = (
     let p = clear_arrays p in
     if menu = 0 then
       (let p = count_days True db (count_hours True db (count_minutes db p));
            p = p\<lparr>pw_hour_total := watt_sum (fst (db_hour db)) + watt_sum (snd (db_hour db)),
                  pw_min_total := watt_sum (fst (db_min db)) + watt_sum (snd (db_min db))\<rparr>
        in Option.bind (load_minutes order db p) (\<lambda>p.
           Option.bind (load_hours order junk db p) (load_days order junk db)))
     else if menu = 1 \<or> menu = 2 then
       Option.bind (load_minutes order db p) (\<lambda>p.
         Option.bind (load_hours order junk db p) (load_days order junk db))
     else if menu = 3 then load_minutes order db (count_minutes db p)
     else if menu = 4 then load_hours order junk db (count_hours False db p)
     else if menu = 5 then load_days order junk db (count_days False db p)
     else Some p)"

section \<open>Highest and lowest values\<close>

fun scan_highest :: "nat \<Rightarrow> int \<Rightarrow> nat \<Rightarrow> power_usage list \<Rightarrow> int \<times> nat" where
  "scan_highest i best at [] = (best, at)"
| "scan_highest i best at (x # xs) =
     (if best < pu_watt x then scan_highest (Suc i) (pu_watt x) i xs else scan_highest (Suc i) best at xs)"

definition highest_power :: "int \<Rightarrow> supply_stats \<Rightarrow> int \<times> supply_stats" where
  "highest_power flag sp = (
     let (mn, i1) = scan_highest 0 0 (sp_high sp ! 1) (sp_min sp);
         (hr, i2) = scan_highest 0 0 (sp_high sp ! 2) (sp_hour sp);
         (dy, i3) = scan_highest 0 0 (sp_high sp ! 3) (sp_day sp);
         h = (sp_high sp)[1 := i1, 2 := i2, 3 := i3];
         out = (\<lambda>v i. (v, sp\<lparr>sp_high := h[0 := i]\<rparr>))
     in if flag = 1 then
          (if dy > hr \<and> dy > mn then out dy i3
           else if hr > mn \<and> hr > dy then out hr i2
           else if mn > dy \<and> mn > hr then out mn i1
           else (0, sp\<lparr>sp_high := h\<rparr>))
        else if flag = 2 then out mn i1
        else if flag = 3 then out hr i2
        else if flag = 4 then out dy i3
        else (0, sp\<lparr>sp_high := h\<rparr>))"

definition get_highest_power_1 :: "int \<Rightarrow> power \<Rightarrow> int \<times> power" where
  "get_highest_power_1 flag p = (let (v, sp) = highest_power flag (pw_1 p) in (v, p\<lparr>pw_1 := sp\<rparr>))"

definition get_highest_power_2 :: "int \<Rightarrow> power \<Rightarrow> int \<times> power" where
  "get_highest_power_2 flag p = (let (v, sp) = highest_power flag (pw_2 p) in (v, p\<lparr>pw_2 := sp\<rparr>))"

text \<open>The lowest value starts with the first element, which may be 0. The index for flag 1 is set
  behind the chain of conditions.\<close>

fun scan_lowest :: "nat \<Rightarrow> int \<Rightarrow> nat \<Rightarrow> power_usage list \<Rightarrow> int \<times> nat" where
  "scan_lowest i best at [] = (best, at)"
| "scan_lowest i best at (x # xs) =
     (if best > pu_watt x \<and> pu_watt x \<noteq> 0 then scan_lowest (Suc i) (pu_watt x) i xs
      else scan_lowest (Suc i) best at xs)"

definition lowest_of :: "nat \<Rightarrow> power_usage list \<Rightarrow> int \<times> nat" where
  "lowest_of at xs = (case xs of [] \<Rightarrow> (0, at) | x # ys \<Rightarrow> scan_lowest 1 (pu_watt x) at ys)"

definition lowest_power :: "int \<Rightarrow> supply_stats \<Rightarrow> int \<times> supply_stats" where
  "lowest_power flag sp = (
     let (mn, i1) = lowest_of (sp_low sp ! 1) (sp_min sp);
         (hr, i2) = lowest_of (sp_low sp ! 2) (sp_hour sp);
         (dy, i3) = lowest_of (sp_low sp ! 3) (sp_day sp);
         l = (sp_low sp)[1 := i1, 2 := i2, 3 := i3];
         out = (\<lambda>v i. (v, sp\<lparr>sp_low := l[0 := i]\<rparr>))
     in if flag = 1 then
          out (if dy < hr \<and> dy < mn then dy else if hr < mn \<and> hr < dy then hr
               else if mn < dy \<and> mn < hr then mn else 0) i1
        else if flag = 2 then out mn i1
        else if flag = 3 then out hr i2
        else if flag = 4 then out dy i3
        else (0, sp\<lparr>sp_low := l\<rparr>))"

definition get_lowest_power_1 :: "int \<Rightarrow> power \<Rightarrow> int \<times> power" where
  "get_lowest_power_1 flag p = (let (v, sp) = lowest_power flag (pw_1 p) in (v, p\<lparr>pw_1 := sp\<rparr>))"

definition get_lowest_power_2 :: "int \<Rightarrow> power \<Rightarrow> int \<times> power" where
  "get_lowest_power_2 flag p = (let (v, sp) = lowest_power flag (pw_2 p) in (v, p\<lparr>pw_2 := sp\<rparr>))"

section \<open>The report\<close>

text \<open>A line goes through \<open>char buf[100]\<close>; tabs and the final newline count.\<close>

definition tabs :: "nat \<Rightarrow> string" where
  "tabs n = replicate n (CHR 0x09)"

definition quote :: "string \<Rightarrow> string" where
  "quote s = CHR 0x22 # s @ [CHR 0x22]"

definition show_int :: "int \<Rightarrow> string" where
  "show_int n = (if n < 0 then CHR ''-'' # to_string (nat (- n)) else to_string (nat n))"

definition pair_line :: "string \<Rightarrow> string \<Rightarrow> string \<Rightarrow> string \<Rightarrow> string" where
  "pair_line indent k v e = indent @ quote k @ '' : '' @ quote v @ e @ [CHR 0x0A]"

definition text_line :: "string \<Rightarrow> string" where
  "text_line s = s @ [CHR 0x0A]"

definition emit_lines :: "string list \<Rightarrow> string option" where
  "emit_lines ls = (if \<forall>l \<in> set ls. length l < 100 then Some (concat ls) else None)"

definition dt_at :: "power_usage list \<Rightarrow> nat \<Rightarrow> string option" where
  "dt_at xs i = (if i < length xs then Some (pu_dt (xs ! i)) else None)"

text \<open>The date of a peak is looked up in the first array whose index equals the overall one; when
  none does, \<open>buf\<close> still holds the line before.\<close>

definition peak_date :: "nat list \<Rightarrow> supply_stats \<Rightarrow> string \<Rightarrow> string option" where
  "peak_date ix sp prev = (
     let line = map_option (\<lambda>d. pair_line (tabs 2 @ '' '') ''DATETIME'' d []) in
     if ix ! 0 = ix ! 1 then line (dt_at (sp_min sp) (ix ! 0))
     else if ix ! 0 = ix ! 2 then line (dt_at (sp_hour sp) (ix ! 0))
     else if ix ! 0 = ix ! 3 then line (dt_at (sp_day sp) (ix ! 0))
     else Some prev)"

definition get_power_peak :: "power \<Rightarrow> (string \<times> power) option" where
  "get_power_peak p = (
     let (h1, p) = get_highest_power_1 1 p; (l1, p) = get_lowest_power_1 1 p;
         (h2, p) = get_highest_power_2 1 p; (l2, p) = get_lowest_power_2 1 p;
         value = (\<lambda>v. pair_line (tabs 2 @ '' '') ''VALUE'' (show_int v) '','');
         a = pw_1 p
     in case (peak_date (sp_high a) a (value (h1 + h2)), peak_date (sp_low a) a (value (l1 + l2))) of
          (Some hdate, Some ldate) \<Rightarrow> map_option (\<lambda>t. (text_line (tabs 1 @ quote ''HIGHEST_PEAK'' @ '' : {'') @ t, p))
            (emit_lines [value (h1 + h2), hdate, text_line (tabs 1 @ ''},''),
               text_line (tabs 1 @ '' '' @ quote ''LOWEST_PEAK'' @ '' :{''), value (l1 + l2), ldate,
               text_line (tabs 1 @ ''},''),
               pair_line (tabs 1 @ '' '') ''MIN_TOTAL_PEAK'' (show_int (pw_min_total p)) '','',
               pair_line (tabs 1 @ '' '') ''HOUR_TOTAL_PEAK'' (show_int (pw_hour_total p)) []])
        | _ \<Rightarrow> None)"

definition consumption_lines ::
    "string \<Rightarrow> int \<Rightarrow> string \<Rightarrow> int \<Rightarrow> string \<Rightarrow> string \<Rightarrow> string list" where
  "consumption_lines name hi hdate lo ldate e =
     [text_line (tabs 1 @ '' '' @ quote name @ '' : {''),
      text_line (tabs 2 @ '' '' @ quote ''HIGHEST'' @ '' : {''),
      pair_line (tabs 3 @ '' '') ''VALUE'' (show_int hi) '','',
      pair_line (tabs 3 @ '' '') ''DATETIME'' hdate [],
      text_line (tabs 2 @ ''},''),
      text_line (tabs 2 @ '' '' @ quote ''LOWEST'' @ '' : {''),
      pair_line (tabs 3 @ '' '') ''VALUE'' (show_int lo) '','',
      pair_line (tabs 3 @ '' '') ''DATETIME'' ldate [],
      text_line (tabs 2 @ ''}''), text_line (tabs 1 @ ''}'' @ e)]"

text \<open>In the block for the hour \<open>lowest_peak[1]\<close> is assigned twice and \<open>lowest_peak[0]\<close> keeps the value
  of the minutes.\<close>

definition get_power_consumption :: "power \<Rightarrow> (string \<times> power) option" where
  "get_power_consumption p = (
     let (mh1, p) = get_highest_power_1 2 p; (mh2, p) = get_highest_power_2 2 p;
         (ml1, p) = get_lowest_power_1 2 p; (ml2, p) = get_lowest_power_2 2 p;
         a = pw_1 p; md = (dt_at (sp_min a) (sp_high a ! 0), dt_at (sp_min a) (sp_low a ! 0));
         (hh1, p) = get_highest_power_1 3 p; (hh2, p) = get_highest_power_2 3 p;
         (_, p) = get_lowest_power_1 3 p; (hl2, p) = get_lowest_power_2 3 p;
         a = pw_1 p; hx = (dt_at (sp_hour a) (sp_high a ! 0), dt_at (sp_hour a) (sp_low a ! 0));
         (dh1, p) = get_highest_power_1 4 p; (dh2, p) = get_highest_power_2 4 p;
         (dl1, p) = get_lowest_power_1 4 p; (dl2, p) = get_lowest_power_2 4 p;
         a = pw_1 p; dd = (dt_at (sp_day a) (sp_high a ! 0), dt_at (sp_day a) (sp_low a ! 0))
     in case (md, hx, dd) of
          ((Some m1, Some m2), (Some x1, Some x2), (Some d1, Some d2)) \<Rightarrow>
            map_option (\<lambda>t. (t, p)) (emit_lines
              (consumption_lines ''PAST_MIN'' (mh1 + mh2) m1 (ml1 + ml2) m2 '',''
               @ consumption_lines ''PAST_HOUR'' (hh1 + hh2) x1 (ml1 + hl2) x2 '',''
               @ consumption_lines ''PAST_DAY'' (dh1 + dh2) d1 (dl1 + dl2) d2 []))
        | _ \<Rightarrow> None)"

definition graph_entry :: "power_usage \<Rightarrow> string list" where
  "graph_entry r = [text_line (tabs 3 @ '' {''), pair_line (tabs 4) ''ID'' (show_int (pu_id r)) '','',
     pair_line (tabs 4) ''WATT'' (show_int (pu_watt r)) '','',
     pair_line (tabs 4) ''DATETIME'' (if pu_id r \<noteq> 0 then pu_dt r else ''-'') []]"

text \<open>The entries of a graph; \<open>close\<close> ends the last one.\<close>

fun graph_entries :: "string \<Rightarrow> power_usage list \<Rightarrow> string list" where
  "graph_entries close [] = []"
| "graph_entries close [r] = graph_entry r @ [text_line (tabs 3 @ '' }'') @ close]"
| "graph_entries close (r # s # rs) = graph_entry r @ [text_line (tabs 3 @ '' },'')] @ graph_entries close (s # rs)"

definition bracket :: string where
  "bracket = text_line (tabs 2 @ '']'')"

text \<open>\<open>count\<close> decides whether the graph is empty, \<open>shown\<close> how many rows are printed.\<close>

definition graph_lines :: "string \<Rightarrow> nat \<Rightarrow> nat \<Rightarrow> power_usage list \<Rightarrow> string list option" where
  "graph_lines name count shown rows = (
     let title = text_line (tabs 2 @ '' '' @ quote name @ '' : ['') in
     if count = 0 then Some [title, bracket]
     else if shown > length rows then None
     else Some (title # graph_entries bracket (take shown rows)))"

definition get_min_power_graph :: "nat \<Rightarrow> power \<Rightarrow> string option" where
  "get_min_power_graph index p = (
     let sp = (if index = 0 then pw_1 p else pw_2 p) in
     Option.bind (graph_lines (''LAST_MIN_GRAPH_'' @ to_string (index + 1)) (sp_rm sp) (sp_rm sp) (sp_min sp))
       emit_lines)"

definition get_hour_power_graph :: "nat \<Rightarrow> power \<Rightarrow> string option" where
  "get_hour_power_graph index p = (
     let sp = (if index = 0 then pw_1 p else pw_2 p) in
     Option.bind (graph_lines (''LAST_HOUR_GRAPH_'' @ to_string (index + 1)) (sp_rh sp) (sp_fh sp) (sp_hour sp))
       emit_lines)"

definition get_day_power_graph :: "nat \<Rightarrow> power \<Rightarrow> string option" where
  "get_day_power_graph index p = (
     if index = 0 then Option.bind (graph_lines ''LAST_DAY_GRAPH_1'' (sp_rd (pw_1 p)) (sp_fd (pw_1 p))
         (sp_day (pw_1 p))) emit_lines
     else
       let sp = pw_2 p; title = text_line (tabs 2 @ '' '' @ quote ''LAST_DAY_GRAPH_2'' @ '' : ['') in
       if sp_rd sp = 0 then emit_lines [title, bracket]
       else if sp_fd sp > length (sp_day sp) then None
       else emit_lines (title # graph_entries [] (take (sp_fd sp) (sp_day sp)) @ [bracket]))"

text \<open>Each part is built in \<open>buf[30000]\<close>, the whole in the response of 35000 bytes. In the menus 3 to 5
  the first part is appended to a \<open>buf\<close> that was never set (\<open>junk\<close>: the text it happens to hold).\<close>

definition in_buf :: "string option \<Rightarrow> string option" where
  "in_buf t = (case t of None \<Rightarrow> None | Some s \<Rightarrow> if length s < 30000 then Some s else None)"

definition in_response :: "string option \<Rightarrow> string option" where
  "in_response t = (case t of None \<Rightarrow> None | Some s \<Rightarrow> if length s < 35000 then Some s else None)"

definition join_two :: "string \<Rightarrow> string option \<Rightarrow> string option \<Rightarrow> string option" where
  "join_two junk s t = (case (in_buf (map_option ((@) junk) s), in_buf t) of
     (Some a, Some b) \<Rightarrow> in_response (Some (text_line ''{'' @ a @ text_line (tabs 1 @ '','') @ b @ text_line ''}''))
   | _ \<Rightarrow> None)"

definition report_part :: "string option \<Rightarrow> string option" where
  "report_part t = map_option (\<lambda>s. s @ text_line (tabs 1 @ '','')) (in_buf t)"

fun join_parts :: "string option list \<Rightarrow> string option" where
  "join_parts [] = Some []"
| "join_parts (t # ts) = (case (t, join_parts ts) of (Some s, Some r) \<Rightarrow> Some (s @ r) | _ \<Rightarrow> None)"

definition whole_report :: "power \<Rightarrow> (string \<times> power) option" where
  "whole_report p = Option.bind (get_power_peak p) (\<lambda>(peak, p).
     Option.bind (get_power_consumption p) (\<lambda>(cons, p).
       map_option (\<lambda>t. (t, p)) (in_response (join_parts
         [Some (text_line ''{'' @ text_line (tabs 1 @ quote ''POWER_USAGE'' @ '' : {'')),
          report_part (Some peak), report_part (Some cons),
          report_part (get_min_power_graph 0 p), report_part (get_min_power_graph 1 p),
          report_part (get_hour_power_graph 0 p), report_part (get_hour_power_graph 1 p),
          report_part (get_day_power_graph 0 p), in_buf (get_day_power_graph 1 p),
          Some (text_line (tabs 1) @ text_line (tabs 1 @ ''}'') @ text_line ''}'')]))))"

definition get_power_response :: "string \<Rightarrow> int \<Rightarrow> power \<Rightarrow> (string \<times> power) option" where
  "get_power_response junk menu p = (
     let one = (\<lambda>r. Option.bind r (\<lambda>(t, p). map_option (\<lambda>s. (s, p))
           (in_response (map_option (\<lambda>s. text_line ''{'' @ s @ text_line ''}'') (in_buf (Some t))))));
         two = (\<lambda>f. map_option (\<lambda>s. (s, p)) (join_two junk (f 0 p) (f 1 p)))
     in if menu = 0 then whole_report p
        else if menu = 1 then one (get_power_peak p)
        else if menu = 2 then one (get_power_consumption p)
        else if menu = 3 then two get_min_power_graph
        else if menu = 4 then two get_hour_power_graph
        else if menu = 5 then two get_day_power_graph
        else Some ([], p))"

text \<open>The REST command sets the menu to 0. The response starts out zeroed.\<close>

definition rest_power_usage ::
    "(power_usage list \<Rightarrow> power_usage list) \<Rightarrow> power_usage \<Rightarrow> string \<Rightarrow> power_db \<Rightarrow> power
      \<Rightarrow> (string \<times> power) option" where
  "rest_power_usage order row junk db p =
     Option.bind (get_min_power_usage order row 0 db p) (get_power_response junk 0)"

end
