(* ===== verification/Power_Facts.thy ===== *)
theory Power_Facts
  imports Power_Report
begin

text \<open>
  Facts about the power meter: a table with its cursor is a window over the last samples, the
  counters of the sampler give its schedule, and what a restart does to a full table.
\<close>

section \<open>A table is a window\<close>

definition row_ids :: "power_usage list \<Rightarrow> bool" where
  "row_ids rows \<longleftrightarrow> map pu_id rows = map int [1..<length rows + 1]"

definition ring_ok :: "nat \<Rightarrow> ring \<Rightarrow> bool" where
  "ring_ok n r \<longleftrightarrow> 0 < n \<and> (\<exists>rows. rg_table r = Some rows \<and> length rows \<le> n \<and> row_ids rows
     \<and> (if length rows < n then rg_cursor r = 1 else 1 \<le> rg_cursor r \<and> rg_cursor r \<le> int n))"

definition sample_of :: "power_usage \<Rightarrow> int \<times> string" where
  "sample_of r = (pu_watt r, pu_dt r)"

definition samples_of :: "ring \<Rightarrow> (int \<times> string) list" where
  "samples_of r = (case rg_table r of None \<Rightarrow> []
     | Some rows \<Rightarrow> map sample_of (rotate (nat (rg_cursor r - 1)) rows))"

definition store :: "nat \<Rightarrow> int \<times> string \<Rightarrow> ring \<Rightarrow> ring" where
  "store n x r = store_sample n (fst x) (snd x) r"

lemma fold_max_ids: "fold max (map int [1..<k + 1]) 0 = int k"
  by (induction k) (simp_all del: upt_Suc add: upt_Suc_append)

lemma row_ids_nth: "row_ids rows \<Longrightarrow> i < length rows \<Longrightarrow> pu_id (rows ! i) = int i + 1"
  unfolding row_ids_def by (drule arg_cong [where f = "\<lambda>xs. xs ! i"]) (simp del: upt_Suc)

lemma row_idsI: "(\<And>i. i < length rows \<Longrightarrow> pu_id (rows ! i) = int i + 1) \<Longrightarrow> row_ids rows"
  unfolding row_ids_def by (rule nth_equalityI) (simp_all del: upt_Suc)

lemma insert_row_ids:
  "row_ids rows \<Longrightarrow> insert_row w dt rows = rows @ [\<lparr>pu_id = int (length rows) + 1, pu_watt = w, pu_dt = dt\<rparr>]"
  by (simp only: insert_row_def row_ids_def fold_max_ids)

lemma update_row_ids:
  assumes "row_ids rows" and "k < length rows"
  shows "update_row (int k + 1) w dt rows = rows[k := (rows ! k)\<lparr>pu_watt := w, pu_dt := dt\<rparr>]"
  by (rule nth_equalityI)
    (use assms in \<open>auto simp: update_row_def row_ids_nth nth_list_update\<close>)

lemma ring_ok_table: "ring_ok n r \<Longrightarrow> \<exists>rows. rg_table r = Some rows"
  by (auto simp: ring_ok_def)

lemma ring_okD:
  assumes "ring_ok n r" and "rg_table r = Some rows"
  shows "length rows \<le> n" "row_ids rows" "0 < n" "length rows < n \<Longrightarrow> rg_cursor r = 1"
    "length rows = n \<Longrightarrow> 1 \<le> rg_cursor r \<and> rg_cursor r \<le> int n"
  using assms by (auto simp: ring_ok_def split: if_splits)

text \<open>The two kinds of store.\<close>

lemma store_grow:
  assumes "ring_ok n r" and "rg_table r = Some rows" and "length rows < n"
  shows "store n x r = r\<lparr>rg_table := Some (rows @ [\<lparr>pu_id = int (length rows) + 1, pu_watt = fst x, pu_dt = snd x\<rparr>])\<rparr>"
    and "rg_cursor r = 1"
  using ring_okD [OF assms(1,2)] assms(2,3)
  by (simp_all add: store_def store_sample_def sqlite_run_def insert_row_ids)

lemma store_full:
  assumes "ring_ok n r" and "rg_table r = Some rows" and "length rows = n"
  obtains k where "k < n" "rg_cursor r = int k + 1"
    "store n x r = r\<lparr>rg_table := Some (rows[k := (rows ! k)\<lparr>pu_watt := fst x, pu_dt := snd x\<rparr>]),
       rg_cursor := int ((k + 1) mod n) + 1\<rparr>"
proof -
  note r = ring_okD [OF assms(1,2)]
  define k where "k = nat (rg_cursor r - 1)"
  have k: "k < n" "rg_cursor r = int k + 1" using r(3) r(5) [OF assms(3)] by (auto simp: k_def)
  have c: "(if rg_cursor r < int n then rg_cursor r + 1 else 1) = int ((k + 1) mod n) + 1"
    using k by (cases "k + 1 < n") (auto simp: mod_if)
  have "update_row (rg_cursor r) (fst x) (snd x) rows = rows[k := (rows ! k)\<lparr>pu_watt := fst x, pu_dt := snd x\<rparr>]"
    unfolding k(2) by (rule update_row_ids) (use r(2) assms(3) k in simp_all)
  then have "store n x r = r\<lparr>rg_table := Some (rows[k := (rows ! k)\<lparr>pu_watt := fst x, pu_dt := snd x\<rparr>]),
       rg_cursor := int ((k + 1) mod n) + 1\<rparr>"
    using assms(2,3) c by (simp add: store_def store_sample_def sqlite_run_def)
  with k show thesis by (rule that)
qed

lemma store_ok: "ring_ok n r \<Longrightarrow> ring_ok n (store n x r)"
proof -
  assume ok: "ring_ok n r"
  obtain rows where t: "rg_table r = Some rows" using ring_ok_table [OF ok] by blast
  note r = t ring_okD(1-3) [OF ok t]
  show ?thesis
  proof (cases "length rows < n")
    case True
    have "row_ids (rows @ [\<lparr>pu_id = int (length rows) + 1, pu_watt = fst x, pu_dt = snd x\<rparr>])"
      by (rule row_idsI) (auto simp: nth_append row_ids_nth [OF r(3)])
    then show ?thesis
      using True r store_grow [OF ok r(1) True] by (simp add: ring_ok_def)
  next
    case False
    then have n: "length rows = n" using r(2) by simp
    obtain k where k: "k < n" "store n x r = r\<lparr>rg_table := Some (rows[k := (rows ! k)\<lparr>pu_watt := fst x, pu_dt := snd x\<rparr>]),
       rg_cursor := int ((k + 1) mod n) + 1\<rparr>"
      using store_full [OF ok r(1) n, where x = x] by metis
    have "row_ids (rows[k := (rows ! k)\<lparr>pu_watt := fst x, pu_dt := snd x\<rparr>])"
      by (rule row_idsI) (use k(1) n in \<open>auto simp: nth_list_update row_ids_nth [OF r(3)]\<close>)
    moreover have "int ((k + 1) mod n) + 1 \<le> int n"
      using mod_less_divisor [OF r(4), of "k + 1"] by linarith
    ultimately show ?thesis using r(4) n by (simp add: k(2) ring_ok_def)
  qed
qed

lemma samples_length: "rg_table r = Some rows \<Longrightarrow> length (samples_of r) = length rows"
  by (simp add: samples_of_def)

lemma rotate_update:
  assumes "k < length rows"
  shows "rotate ((k + 1) mod length rows) (rows[k := y]) = drop 1 (rotate k rows) @ [y]"
proof -
  have k: "rotate k (rows[k := y]) = y # drop (Suc k) rows @ take k rows"
    using assms by (simp add: rotate_drop_take drop_update_cancel Cons_nth_drop_Suc [symmetric])
  have "rotate ((k + 1) mod length rows) (rows[k := y]) = rotate1 (rotate k (rows[k := y]))"
    using rotate_conv_mod [of "k + 1" "rows[k := y]"] by simp
  also have "\<dots> = drop (Suc k) rows @ take k rows @ [y]" by (simp add: k)
  also have "\<dots> = drop 1 (rotate k rows) @ [y]" using assms by (simp add: rotate_drop_take)
  finally show ?thesis .
qed

lemma store_window:
  assumes ok: "ring_ok n r"
  shows "samples_of (store n x r) = window n x (samples_of r)"
proof -
  obtain rows where t: "rg_table r = Some rows" using ring_ok_table [OF ok] by blast
  show ?thesis
  proof (cases "length rows < n")
    case True
    then show ?thesis using store_grow [OF ok t True] t
      by (simp add: samples_of_def window_def sample_of_def)
  next
    case False
    then have n: "length rows = n" using ring_okD(1) [OF ok t] by simp
    obtain k where k: "k < n" "rg_cursor r = int k + 1"
      "store n x r = r\<lparr>rg_table := Some (rows[k := (rows ! k)\<lparr>pu_watt := fst x, pu_dt := snd x\<rparr>]),
         rg_cursor := int ((k + 1) mod n) + 1\<rparr>"
      using store_full [OF ok t n, where x = x] by metis
    have "samples_of (store n x r)
        = map sample_of (rotate ((k + 1) mod n) (rows[k := (rows ! k)\<lparr>pu_watt := fst x, pu_dt := snd x\<rparr>]))"
      by (simp add: samples_of_def k(3))
    also have "\<dots> = map sample_of (drop 1 (rotate k rows) @ [(rows ! k)\<lparr>pu_watt := fst x, pu_dt := snd x\<rparr>])"
      using rotate_update [of k rows] k(1) n by simp
    also have "\<dots> = window n x (samples_of r)"
      using n k(1) by (simp add: samples_of_def t k(2) window_def sample_of_def drop_map)
    finally show ?thesis .
  qed
qed

lemma samples_bounded: "ring_ok n r \<Longrightarrow> length (samples_of r) \<le> n"
  using ring_ok_table [of n r] ring_okD(1) [of n r] by (auto simp: samples_length)

interpretation meter_window: sample_window n "store n" samples_of "ring_ok n" for n
  by unfold_locales (simp_all add: store_ok store_window samples_bounded)

lemma store_length: "ring_ok n r \<Longrightarrow> length (samples_of (store n x r)) = min n (length (samples_of r) + 1)"
  using samples_bounded [of n r] by (simp add: store_window window_def)

section \<open>The schedule\<close>

text \<open>A counter that is reset to 0 past \<open>N\<close> and then raised: its value and the number of resets after
  \<open>k\<close> rounds.\<close>

definition phase :: "nat \<Rightarrow> nat \<Rightarrow> nat" where
  "phase N k = (if k = 0 then 0 else (k - 1) mod N + 1)"

definition laps :: "nat \<Rightarrow> nat \<Rightarrow> nat" where
  "laps N k = (k - 1) div N"

lemma lap_step:
  assumes "0 < N"
  shows "phase N k = N \<Longrightarrow> phase N (Suc k) = 1 \<and> laps N (Suc k) = Suc (laps N k)"
    "phase N k \<noteq> N \<Longrightarrow> phase N (Suc k) = phase N k + 1 \<and> laps N (Suc k) = laps N k"
    "phase N k \<le> N"
proof -
  show "phase N k \<le> N" using assms by (simp add: phase_def Suc_leI)
  show "phase N (Suc k) = 1 \<and> laps N (Suc k) = Suc (laps N k)" if "phase N k = N"
    using that assms by (cases k) (auto simp: phase_def laps_def mod_Suc div_Suc)
  show "phase N (Suc k) = phase N k + 1 \<and> laps N (Suc k) = laps N k" if "phase N k \<noteq> N"
    using that assms by (cases k) (auto simp: phase_def laps_def mod_Suc div_Suc)
qed

definition ring_at :: "nat \<Rightarrow> nat \<Rightarrow> ring \<Rightarrow> bool" where
  "ring_at n c r \<longleftrightarrow> ring_ok n r \<and> length (samples_of r) = min n c"

lemma ring_at_store: "ring_at n c r \<Longrightarrow> ring_at n (Suc c) (store_sample n w dt r)"
  using store_ok [of n r "(w, dt)"] store_length [of n r "(w, dt)"]
  by (auto simp: ring_at_def store_def)

definition minutes_at :: "nat \<Rightarrow> psu \<Rightarrow> bool" where
  "minutes_at c s \<longleftrightarrow> ring_at 30 c (min_1 s) \<and> ring_at 30 c (min_2 s)"

definition hours_at :: "nat \<Rightarrow> psu \<Rightarrow> bool" where
  "hours_at c s \<longleftrightarrow> ring_at 600 c (hour_1 s) \<and> ring_at 600 c (hour_2 s)"

definition days_at :: "nat \<Rightarrow> psu \<Rightarrow> bool" where
  "days_at c s \<longleftrightarrow> ring_at 1440 c (day_1 s) \<and> ring_at 1440 c (day_2 s)"

definition minute_stores :: "nat \<Rightarrow> nat" where "minute_stores k = laps 3 k"
definition hour_stores :: "nat \<Rightarrow> nat" where "hour_stores k = laps 4 (minute_stores k)"
definition day_stores :: "nat \<Rightarrow> nat" where "day_stores k = laps 11 (hour_stores k)"

definition psu_at :: "nat \<Rightarrow> psu \<Rightarrow> bool" where
  "psu_at k s \<longleftrightarrow> count_m s = int (phase 3 k) \<and> count_h s = int (phase 4 (minute_stores k))
     \<and> count_d s = int (phase 11 (hour_stores k))
     \<and> minutes_at (minute_stores k) s \<and> hours_at (hour_stores k) s \<and> days_at (day_stores k) s"

lemma at_updates [simp]:
  "minutes_at c (s\<lparr>count_m := i\<rparr>) = minutes_at c s" "hours_at c (s\<lparr>count_m := i\<rparr>) = hours_at c s"
  "days_at c (s\<lparr>count_m := i\<rparr>) = days_at c s"
  "minutes_at c (s\<lparr>count_h := i\<rparr>) = minutes_at c s" "hours_at c (s\<lparr>count_h := i\<rparr>) = hours_at c s"
  "days_at c (s\<lparr>count_h := i\<rparr>) = days_at c s"
  "minutes_at c (s\<lparr>count_d := i\<rparr>) = minutes_at c s" "hours_at c (s\<lparr>count_d := i\<rparr>) = hours_at c s"
  "days_at c (s\<lparr>count_d := i\<rparr>) = days_at c s"
  "minutes_at c (watch_power_good g s) = minutes_at c s" "hours_at c (watch_power_good g s) = hours_at c s"
  "days_at c (watch_power_good g s) = days_at c s"
  by (simp_all add: minutes_at_def hours_at_def days_at_def watch_power_good_def)

lemma at_stores [simp]:
  "minutes_at c (store_hours dt s) = minutes_at c s" "minutes_at c (store_days dt s) = minutes_at c s"
  "hours_at c (store_minutes dt s) = hours_at c s" "hours_at c (store_days dt s) = hours_at c s"
  "days_at c (store_minutes dt s) = days_at c s" "days_at c (store_hours dt s) = days_at c s"
  by (simp_all add: minutes_at_def hours_at_def days_at_def store_minutes_def store_hours_def store_days_def)

lemma at_next:
  "minutes_at c s \<Longrightarrow> minutes_at (Suc c) (store_minutes dt s)"
  "hours_at c s \<Longrightarrow> hours_at (Suc c) (store_hours dt s)"
  "days_at c s \<Longrightarrow> days_at (Suc c) (store_days dt s)"
  by (simp_all add: minutes_at_def hours_at_def days_at_def store_minutes_def store_hours_def
      store_days_def ring_at_store)

lemma counts_stores [simp]:
  "count_m (store_minutes dt s) = count_m s" "count_h (store_minutes dt s) = count_h s"
  "count_d (store_minutes dt s) = count_d s" "count_m (store_hours dt s) = count_m s"
  "count_h (store_hours dt s) = count_h s" "count_d (store_hours dt s) = count_d s"
  "count_m (store_days dt s) = count_m s" "count_h (store_days dt s) = count_h s"
  "count_d (store_days dt s) = count_d s" "count_m (watch_power_good g s) = count_m s"
  "count_h (watch_power_good g s) = count_h s" "count_d (watch_power_good g s) = count_d s"
  by (simp_all add: store_minutes_def store_hours_def store_days_def watch_power_good_def)

text \<open>What a round does to the hour and day tables once the minutes are stored.\<close>

definition after_minutes :: "string \<Rightarrow> psu \<Rightarrow> psu" where
  "after_minutes dt s = (if count_h s > 3 then
      let s = store_hours dt s;
          s = (if count_d s > 10 then (store_days dt s)\<lparr>count_d := 0\<rparr> else s)
      in s\<lparr>count_h := 0, count_d := count_d s + 1\<rparr>
    else s)"

lemma DoStuff_alt:
  "DoStuff good t s = (let s = watch_power_good good s in
     if count_m s > 2 then map_option (\<lambda>dt. let s = after_minutes dt (store_minutes dt s)
         in s\<lparr>count_m := 1, count_h := count_h s + 1\<rparr>) (time_function t)
     else Some (s\<lparr>count_m := count_m s + 1\<rparr>))"
  by (simp add: DoStuff_def after_minutes_def Let_def split: option.splits)

lemma phase_greater: "0 < N \<Longrightarrow> int (phase N k) > int N - 1 \<longleftrightarrow> phase N k = N"
  using lap_step(3) [of N k] by linarith

lemma after_minutes_days:
  assumes "count_d s = int (phase 11 H)" and "hours_at H s" and "days_at (laps 11 H) s"
    and "count_h s > 3"
  shows "count_d (after_minutes dt s) = int (phase 11 (Suc H)) \<and> count_h (after_minutes dt s) = 0
    \<and> hours_at (Suc H) (after_minutes dt s) \<and> days_at (laps 11 (Suc H)) (after_minutes dt s)"
proof (cases "phase 11 H = 11")
  case True
  then show ?thesis using assms lap_step(1) [of 11 H] at_next(2) [OF assms(2)] at_next(3) [OF assms(3)]
    by (simp add: after_minutes_def Let_def minutes_at_def hours_at_def days_at_def store_hours_def store_days_def)
next
  case False
  then have "\<not> count_d s > 10" using phase_greater [of 11 H] assms(1) by simp
  then show ?thesis using False assms lap_step(2) [of 11 H] at_next(2) [OF assms(2)]
    by (simp add: after_minutes_def Let_def)
qed

lemma after_minutes_minutes [simp]: "minutes_at c (after_minutes dt s) = minutes_at c s"
  by (simp add: after_minutes_def Let_def)

lemma psu_at_step:
  assumes "psu_at k s" and "DoStuff good t s = Some s'"
  shows "psu_at (Suc k) s'"
proof -
  let ?w = "watch_power_good good s"
  let ?M = "minute_stores k"
  have at: "count_m ?w = int (phase 3 k)" "count_h ?w = int (phase 4 ?M)"
    "count_d ?w = int (phase 11 (hour_stores k))" "minutes_at ?M ?w" "hours_at (hour_stores k) ?w"
    "days_at (day_stores k) ?w"
    using assms(1) by (simp_all add: psu_at_def)
  show ?thesis
  proof (cases "phase 3 k = 3")
    case False
    then have "minute_stores (Suc k) = ?M" "phase 3 (Suc k) = phase 3 k + 1"
      using lap_step(2) [of 3 k] by (simp_all add: minute_stores_def)
    moreover have "s' = ?w\<lparr>count_m := count_m ?w + 1\<rparr>"
      using assms(2) False phase_greater [of 3 k] at(1) by (simp add: DoStuff_alt Let_def)
    ultimately show ?thesis using at by (simp add: psu_at_def hour_stores_def day_stores_def)
  next
    case True
    then have k: "minute_stores (Suc k) = Suc ?M" "phase 3 (Suc k) = 1"
      using lap_step(1) [of 3 k] by (simp_all add: minute_stores_def)
    have m: "count_m ?w > 2" using at(1) True by simp
    obtain dt where s': "s' = (after_minutes dt (store_minutes dt ?w))\<lparr>count_m := 1,
        count_h := count_h (after_minutes dt (store_minutes dt ?w)) + 1\<rparr>"
      using assms(2) m by (auto simp: DoStuff_alt Let_def)
    let ?s = "store_minutes dt ?w"
    show ?thesis
    proof (cases "phase 4 ?M = 4")
      case False
      then have "hour_stores (Suc k) = hour_stores k" "phase 4 (Suc ?M) = phase 4 ?M + 1"
        using lap_step(2) [of 4 ?M] by (simp_all add: hour_stores_def k)
      moreover have "\<not> count_h ?w > 3" using False phase_greater [of 4 ?M] at(2) by simp
      ultimately show ?thesis using at at_next(1) [OF at(4), of dt] s'
        by (simp add: psu_at_def k day_stores_def after_minutes_def)
    next
      case True
      then have "hour_stores (Suc k) = Suc (hour_stores k)" "phase 4 (Suc ?M) = 1"
        using lap_step(1) [of 4 ?M] by (simp_all add: hour_stores_def k)
      moreover have "count_h ?s > 3" using True at(2) by simp
      ultimately show ?thesis
        using at at_next(1) [OF at(4), of dt] s'
          after_minutes_days [of ?s "hour_stores k" dt]
        by (simp add: psu_at_def k day_stores_def)
    qed
  qed
qed

lemma psu_at_run: "psu_run ts s = Some s' \<Longrightarrow> psu_at k s \<Longrightarrow> psu_at (k + length ts) s'"
proof (induction ts arbitrary: s k)
  case (Cons q ts)
  obtain good t where q: "q = (good, t)" by (cases q)
  obtain u where "DoStuff good t s = Some u" and "psu_run ts u = Some s'"
    using Cons.prems(1) by (auto simp: q bind_eq_Some_conv)
  then show ?case using Cons.IH [of u "Suc k"] psu_at_step Cons.prems(2) by auto
qed simp

text \<open>The sampler on empty tables.\<close>

definition psu_fresh :: psu where
  "psu_fresh = the (psu_start (\<lambda>_. 0) (\<lambda>_. 0) True (psu_boot (Some [])))"

lemma psu_fresh:
  "psu_start secs junk True (psu_boot (Some [])) = Some psu_fresh"
  "psu_start secs junk True (psu_boot None) = Some psu_fresh"
  by (simp_all add: psu_fresh_def psu_start_def psu_boot_def check_db_def check_table_def Let_def
      find_first_index_def sqlite_run_def with_cursor_def)

lemma psu_fresh_eq: "psu_fresh = (let r = \<lparr>rg_cursor = 1, rg_table = Some []\<rparr> in
     \<lparr>count_m = 0, count_h = 0, count_d = 0, power_watt1 = 0, power_watt2 = 0, min_1 = r, min_2 = r,
      hour_1 = r, hour_2 = r, day_1 = r, day_2 = r\<rparr>)"
  by (simp add: psu_fresh_def psu_start_def psu_boot_def check_db_def check_table_def Let_def
      find_first_index_def sqlite_run_def with_cursor_def)

lemma psu_fresh_at: "psu_at 0 psu_fresh"
  by (simp add: psu_at_def psu_fresh_eq Let_def phase_def laps_def minute_stores_def hour_stores_def
      day_stores_def minutes_at_def hours_at_def days_at_def ring_at_def ring_ok_def samples_of_def
      row_ids_def)

section \<open>What the tables hold\<close>

definition ring_all :: "(int \<Rightarrow> string \<Rightarrow> bool) \<Rightarrow> ring \<Rightarrow> bool" where
  "ring_all P r \<longleftrightarrow> (\<forall>rows. rg_table r = Some rows \<longrightarrow> (\<forall>x \<in> set rows. P (pu_watt x) (pu_dt x)))"

definition psu_all :: "(int \<Rightarrow> string \<Rightarrow> bool) \<Rightarrow> psu \<Rightarrow> bool" where
  "psu_all P s \<longleftrightarrow> ring_all P (min_1 s) \<and> ring_all P (min_2 s) \<and> ring_all P (hour_1 s)
     \<and> ring_all P (hour_2 s) \<and> ring_all P (day_1 s) \<and> ring_all P (day_2 s)"

lemma ring_all_store: "ring_all P r \<Longrightarrow> P w dt \<Longrightarrow> ring_all P (store_sample n w dt r)"
  by (auto simp: ring_all_def store_sample_def insert_row_def update_row_def)

lemma psu_all_updates [simp]:
  "psu_all P (s\<lparr>count_m := i\<rparr>) = psu_all P s" "psu_all P (s\<lparr>count_h := i\<rparr>) = psu_all P s"
  "psu_all P (s\<lparr>count_d := i\<rparr>) = psu_all P s" "psu_all P (watch_power_good g s) = psu_all P s"
  by (simp_all add: psu_all_def watch_power_good_def)

lemma psu_all_stores:
  assumes "psu_all P s" and "P (power_watt1 s * 10) dt" and "P (power_watt2 s * 10) dt"
  shows "psu_all P (store_minutes dt s)" "psu_all P (store_hours dt s)" "psu_all P (store_days dt s)"
  using assms by (simp_all add: psu_all_def store_minutes_def store_hours_def store_days_def ring_all_store)

lemma stores_watts [simp]:
  "power_watt1 (store_minutes dt s) = power_watt1 s" "power_watt2 (store_minutes dt s) = power_watt2 s"
  "power_watt1 (store_hours dt s) = power_watt1 s" "power_watt2 (store_hours dt s) = power_watt2 s"
  "power_watt1 (store_days dt s) = power_watt1 s" "power_watt2 (store_days dt s) = power_watt2 s"
  by (simp_all add: store_minutes_def store_hours_def store_days_def)

lemma psu_all_step:
  assumes "psu_all P s" and "DoStuff good t s = Some s'"
    and "\<And>dt. time_function t = Some dt \<Longrightarrow> P (power_watt1 (watch_power_good good s) * 10) dt
      \<and> P (power_watt2 (watch_power_good good s) * 10) dt"
  shows "psu_all P s' \<and> power_watt1 s' = power_watt1 (watch_power_good good s)
    \<and> power_watt2 s' = power_watt2 (watch_power_good good s)"
proof -
  let ?w = "watch_power_good good s"
  have after: "psu_all P (after_minutes dt u) \<and> power_watt1 (after_minutes dt u) = power_watt1 u
      \<and> power_watt2 (after_minutes dt u) = power_watt2 u"
    if "psu_all P u" "P (power_watt1 u * 10) dt" "P (power_watt2 u * 10) dt" for u dt
    using that psu_all_stores(2) [OF that]
      psu_all_stores(3) [of P "store_hours dt u" dt]
    by (simp add: after_minutes_def Let_def)
  show ?thesis
    using assms(2)
    by (auto simp: DoStuff_alt Let_def split: if_splits)
      (use assms(1,3) after [of "store_minutes _ ?w"] psu_all_stores(1) [of P ?w] in auto)
qed

lemma to_string_four: "1000 \<le> n \<Longrightarrow> n < 10000 \<Longrightarrow> length (to_string n) = 4"
  by (subst to_string.simps, subst to_string.simps, subst to_string.simps, subst to_string.simps)
    (auto simp: div_mult2_eq [symmetric])

lemma two_digits_length: "two_digits n = Some s \<Longrightarrow> length s = 2"
proof -
  have small: "length (to_string n) = 1" if "n < 10" using that by (subst to_string.simps) simp
  have big: "2 \<le> length (to_string n)" if "\<not> n < 10"
  proof -
    have "1 \<le> length (to_string (n div 10))" by (subst to_string.simps) simp
    then show ?thesis using that by (subst to_string.simps) simp
  qed
  show "two_digits n = Some s \<Longrightarrow> length s = 2"
    using small big by (auto simp: two_digits_def Let_def split: if_splits)
qed

lemma time_function_length: "time_function t = Some dt \<Longrightarrow> length dt = 19"
proof -
  have "narrow8 n < 256" for n
    using pos_mod_bound [of 256 n] by (simp add: narrow8_def nat_less_iff)
  then have "length (to_string (narrow8 (tm_year t) + 1900)) = 4"
    by (intro to_string_four) (simp_all add: add.commute less_trans [of _ 2156])
  then show "time_function t = Some dt \<Longrightarrow> length dt = 19"
    by (auto simp: time_function_def dest!: two_digits_length split: option.splits list.splits)
qed

end
