(* ===== verification/Power_Properties.thy ===== *)
theory Power_Properties
  imports Power_Facts "HOL-Library.Multiset"
begin

text \<open>
  The power meter and the report together: which samples the tables keep and when, what a restart
  loses, what the highest value says, and exactly when the report is defined.
\<close>

section \<open>Sizes of the text\<close>

lemma show_int_length: "0 \<le> n \<Longrightarrow> n < 10 ^ Suc k \<Longrightarrow> length (show_int n) \<le> Suc k"
  using to_string_length [of "nat n" k] by (simp add: show_int_def nat_less_iff)

definition row_ok :: "power_usage \<Rightarrow> bool" where
  "row_ok r \<longleftrightarrow> 0 \<le> pu_id r \<and> pu_id r < 10000 \<and> 0 \<le> pu_watt r \<and> pu_watt r \<le> 800 \<and> length (pu_dt r) \<le> 19"

lemma zero_row_ok [simp]: "row_ok zero_usage"
  by (simp add: row_ok_def zero_usage_def)

lemmas line_lengths = pair_line_def text_line_def quote_def tabs_def

lemma graph_entry_short:
  assumes "row_ok r"
  shows "\<forall>l \<in> set (graph_entry r). length l < 100" "length (concat (graph_entry r)) \<le> 84"
proof -
  have "length (show_int (pu_id r)) \<le> 4" "length (show_int (pu_watt r)) \<le> 3" "length (pu_dt r) \<le> 19"
    using assms show_int_length [of "pu_id r" 3] show_int_length [of "pu_watt r" 2]
    by (auto simp: row_ok_def)
  then show "\<forall>l \<in> set (graph_entry r). length l < 100" "length (concat (graph_entry r)) \<le> 84"
    by (auto simp: graph_entry_def line_lengths)
qed

lemma graph_entries_short:
  assumes "\<forall>r \<in> set rows. row_ok r" and "length close \<le> 8"
  shows "(\<forall>l \<in> set (graph_entries close rows). length l < 100)
    \<and> length (concat (graph_entries close rows)) \<le> 100 * length rows"
  using assms
proof (induction close rows rule: graph_entries.induct)
  case (2 close r)
  then show ?case using graph_entry_short [of r] by (auto simp: text_line_def tabs_def)
next
  case (3 close r s rs)
  then show ?case using graph_entry_short [of r] by (auto simp: text_line_def tabs_def)
qed simp

lemma bracket_length: "length bracket = 4"
  by (simp add: bracket_def text_line_def tabs_def)

lemma graph_short:
  assumes "\<forall>r \<in> set rows. row_ok r" and "shown \<le> length rows" and "length name \<le> 30"
  shows "\<exists>t. Option.bind (graph_lines name cnt shown rows) emit_lines = Some t \<and> length t \<le> 100 * shown + 50"
proof -
  have "\<forall>r \<in> set (take shown rows). row_ok r" using assms(1) by (auto dest: in_set_takeD)
  then have "(\<forall>l \<in> set (graph_entries bracket (take shown rows)). length l < 100)
    \<and> length (concat (graph_entries bracket (take shown rows))) \<le> 100 * length (take shown rows)"
    by (rule graph_entries_short) (simp add: bracket_length)
  then show ?thesis
    using assms(2,3) by (auto simp: graph_lines_def Let_def emit_lines_def line_lengths bracket_length)
qed

section \<open>Highest and lowest\<close>

lemma scan_highest_fold: "fst (scan_highest i b a xs) = fold max (map pu_watt xs) b"
  by (induction i b a xs rule: scan_highest.induct) (simp_all add: max_def)

lemma scan_highest_index: "snd (scan_highest i b a xs) = a \<or> snd (scan_highest i b a xs) < i + length xs"
  by (induction i b a xs rule: scan_highest.induct) auto

lemma scan_lowest_index: "snd (scan_lowest i b a xs) = a \<or> snd (scan_lowest i b a xs) < i + length xs"
  by (induction i b a xs rule: scan_lowest.induct) auto

lemma lowest_of_index: "snd (lowest_of a xs) = a \<or> snd (lowest_of a xs) < length xs"
  using scan_lowest_index [of 1 "pu_watt (hd xs)" a "tl xs"] by (cases xs) (auto simp: lowest_of_def)

lemma scan_lowest_range:
  "\<forall>r \<in> set xs. row_ok r \<Longrightarrow> 0 \<le> b \<Longrightarrow> b \<le> 800 \<Longrightarrow> 0 \<le> fst (scan_lowest i b a xs) \<and> fst (scan_lowest i b a xs) \<le> 800"
  by (induction i b a xs rule: scan_lowest.induct) (auto simp: row_ok_def)

lemma lowest_of_range:
  "\<forall>r \<in> set xs. row_ok r \<Longrightarrow> 0 \<le> fst (lowest_of a xs) \<and> fst (lowest_of a xs) \<le> 800"
  using scan_lowest_range [of "tl xs" "pu_watt (hd xs)" 1 a] by (cases xs) (auto simp: lowest_of_def row_ok_def)

lemma scan_highest_range:
  "\<forall>r \<in> set xs. row_ok r \<Longrightarrow> 0 \<le> b \<Longrightarrow> b \<le> 800 \<Longrightarrow> 0 \<le> fst (scan_highest i b a xs) \<and> fst (scan_highest i b a xs) \<le> 800"
  by (induction i b a xs rule: scan_highest.induct) (auto simp: row_ok_def)

definition peak_of :: "power_usage list \<Rightarrow> int" where
  "peak_of xs = Max (insert 0 (pu_watt ` set xs))"

lemma scan_highest_peak: "fst (scan_highest i 0 a xs) = peak_of xs"
proof -
  show ?thesis
    using Max.set_eq_fold [of 0 "map pu_watt xs"] by (simp add: scan_highest_fold peak_of_def)
qed

text \<open>The overall peak is the highest value of the three windows only when exactly one of them
  attains it; when two share it - a constant load, or a minute value that was also taken into the
  hour table - the report says 0.\<close>

theorem highest_peak_ties:
  "fst (get_highest_power_1 1 p) =
     (let windows = [sp_min (pw_1 p), sp_hour (pw_1 p), sp_day (pw_1 p)];
          top = peak_of (concat windows)
      in if length (filter (\<lambda>w. peak_of w = top) windows) = 1 then top else 0)"
proof -
  have "peak_of (xs @ ys) = max (peak_of xs) (peak_of ys)" for xs ys
    unfolding peak_of_def by (simp add: image_Un insert_commute Max_Un [symmetric] del: Max_Un)
  then show ?thesis
    by (auto simp: get_highest_power_1_def highest_power_def Let_def split_beta scan_highest_peak
        peak_of_def [of "[]"] max_def)
qed

section \<open>Reducing a table\<close>

lemma length_convert_loop [simp]: "length (convert_loop step l m inp g) = length g"
  by (induction step l m inp g rule: convert_loop.induct) (subst convert_loop.simps, simp)

definition sample_loop :: "nat \<Rightarrow> nat \<Rightarrow> nat \<Rightarrow> power_usage list \<Rightarrow> power_usage list \<Rightarrow> power_usage list" where
  "sample_loop step l m inp g = convert_loop step (int l) m inp g"

lemma sample_loop_step:
  "0 < step \<Longrightarrow> sample_loop step l m inp g =
     (if l < step then g[m := inp ! l] else sample_loop step (l - step) (m - 1) inp (g[m := inp ! l]))"
  unfolding sample_loop_def
  by (subst convert_loop.simps, cases "m = 0") (auto simp: convert_loop.simps of_nat_diff)

lemma sample_loop_keeps: "0 < step \<Longrightarrow> m < i \<Longrightarrow> sample_loop step l m inp g ! i = g ! i"
proof (induction l arbitrary: m g rule: less_induct)
  case (less l)
  then show ?case using less.IH [of "l - step" "m - 1" "g[m := inp ! l]"]
    by (subst sample_loop_step) auto
qed

lemma sample_loop_nth:
  "0 < step \<Longrightarrow> l div step \<le> m \<Longrightarrow> m < length g \<Longrightarrow> k * step \<le> l
     \<Longrightarrow> sample_loop step l m inp g ! (m - k) = inp ! (l - k * step)"
proof (induction l arbitrary: m g k rule: less_induct)
  case (less l)
  note step = sample_loop_step [OF less.prems(1), of l m inp g]
  show ?case
  proof (cases "l < step")
    case True
    then have "k = 0" using less.prems(1,4) by (cases k) auto
    then show ?thesis using True less.prems(3) by (simp add: step)
  next
    case False
    then have "l div step = Suc ((l - step) div step)" using less.prems(1) by (simp add: le_div_geq)
    then have m: "(l - step) div step \<le> m - 1" "0 < m" using less.prems(2) by linarith+
    show ?thesis
    proof (cases k)
      case 0
      then show ?thesis
        using False m(2) less.prems(3) sample_loop_keeps [OF less.prems(1), of "m - 1" m "l - step" inp "g[m := inp ! l]"]
        by (simp add: step)
    next
      case (Suc j)
      have "sample_loop step (l - step) (m - 1) inp (g[m := inp ! l]) ! (m - 1 - j) = inp ! (l - step - j * step)"
        by (rule less.IH) (use Suc False less.prems m in simp_all)
      then show ?thesis using Suc False by (simp add: step diff_diff_left add.commute)
    qed
  qed
qed

lemma set_sample_loop:
  "0 < step \<Longrightarrow> set (sample_loop step l m inp g) \<subseteq> set g \<union> (!) inp ` {..l}"
proof (induction l arbitrary: m g rule: less_induct)
  case (less l)
  note step = sample_loop_step [OF less.prems, of l m inp g]
  have u: "set (g[m := inp ! l]) \<subseteq> set g \<union> (!) inp ` {..l}"
    using set_update_subset_insert [of g m "inp ! l"] by auto
  show ?case
  proof (cases "l < step")
    case True
    then show ?thesis using u by (simp add: step)
  next
    case False
    have "set (sample_loop step (l - step) (m - 1) inp (g[m := inp ! l]))
        \<subseteq> set (g[m := inp ! l]) \<union> (!) inp ` {..l - step}"
      by (rule less.IH) (use False less.prems in simp_all)
    also have "(!) inp ` {..l - step} \<subseteq> (!) inp ` {..l}" by (intro image_mono) auto
    finally show ?thesis using False u by (auto simp: step)
  qed
qed

text \<open>The reduced table holds every \<open>step\<close>-th of the \<open>cnt\<close> rows, the newest last: a full hour table
  of 600 rows gives 60, a full day table of 1440 gives 24.\<close>

theorem convert_takes_every:
  assumes "0 < step" and "cnt \<le> length inp" and "cnt \<le> step * mx" and "length g = mx" and "k * step < cnt"
  shows "\<exists>h. convert_rows step mx cnt inp g = Some h \<and> length h = mx
    \<and> h ! ((if cnt > mx then mx else cnt) - 1 - k) = inp ! (cnt - 1 - k * step)"
proof -
  let ?m = "if cnt > mx then mx - 1 else cnt - 1"
  have pos: "0 < cnt" "0 < mx" using assms(3,5) by (cases mx; simp)+
  have "(cnt - 1) div step \<le> ?m"
  proof (cases "cnt > mx")
    case True
    have "(cnt - 1) div step < mx"
      using assms(1,3) pos by (simp add: less_mult_imp_div_less mult.commute)
    then show ?thesis using True by simp
  qed (simp add: div_le_dividend)
  moreover have "?m < length g" using assms(4) pos by auto
  moreover have "k * step \<le> cnt - 1" using assms(5) by simp
  ultimately have "sample_loop step (cnt - 1) ?m inp g ! (?m - k) = inp ! (cnt - 1 - k * step)"
    by (rule sample_loop_nth [OF assms(1)])
  moreover have "int cnt - 1 = int (cnt - 1)" using pos by simp
  moreover have "(if cnt > mx then mx else cnt) - 1 - k = ?m - k" by simp
  ultimately show ?thesis using assms(2,4) unfolding sample_loop_def convert_rows_def
    by (metis length_convert_loop not_less)
qed

theorem convert_takes_every_witness:
  "\<exists>h. convert_rows 10 60 600 (map (\<lambda>i. zero_usage\<lparr>pu_id := int i\<rparr>) [0..<600]) (replicate 60 zero_usage) = Some h
     \<and> length h = 60 \<and> pu_id (h ! 0) = 9"
  using convert_takes_every [of 10 600 "map (\<lambda>i. zero_usage\<lparr>pu_id := int i\<rparr>) [0..<600]" 60
      "replicate 60 zero_usage" 59] by auto

section \<open>Loading\<close>

definition table_ok :: "nat \<Rightarrow> power_usage list option \<Rightarrow> bool" where
  "table_ok n t \<longleftrightarrow> (\<exists>rows. t = Some rows \<and> length rows \<le> n \<and> (\<forall>r \<in> set rows. row_ok (clip_watt r)))"

definition db_ok :: "power_db \<Rightarrow> bool" where
  "db_ok db \<longleftrightarrow> table_ok 30 (fst (db_min db)) \<and> table_ok 30 (snd (db_min db))
     \<and> table_ok 600 (fst (db_hour db)) \<and> table_ok 600 (snd (db_hour db))
     \<and> table_ok 1440 (fst (db_day db)) \<and> table_ok 1440 (snd (db_day db))"

text \<open>What SQLite promises of \<open>ORDER BY\<close>: the rows are all there.\<close>

definition reorders :: "(power_usage list \<Rightarrow> power_usage list) \<Rightarrow> bool" where
  "reorders order \<longleftrightarrow> (\<forall>rows. mset (order rows) = mset rows)"

lemma reorders_facts:
  "reorders order \<Longrightarrow> length (order rows) = length rows" "reorders order \<Longrightarrow> set (order rows) = set rows"
  by (auto simp: reorders_def dest: mset_eq_length mset_eq_setD spec [of _ rows])

lemma table_ok_count: "table_ok n t \<Longrightarrow> sqlite_run t \<le> n"
  by (auto simp: table_ok_def sqlite_run_def)

lemma clip_dt [simp]: "pu_dt (clip_watt r) = pu_dt r"
  by (simp add: clip_watt_def)

lemma load_rows_ok:
  assumes "table_ok n t" and "reorders order" and "n \<le> length arr"
  shows "\<exists>xs. load_rows order t arr = Some (xs @ drop (length xs) arr) \<and> length xs = sqlite_run t
    \<and> (\<forall>x \<in> set xs. row_ok x)"
proof -
  obtain rows where t: "t = Some rows" "length rows \<le> n" "\<forall>r \<in> set rows. row_ok (clip_watt r)"
    using assms(1) by (auto simp: table_ok_def)
  have "\<forall>r \<in> set (order rows). length (pu_dt r) < 100"
    using t(3) reorders_facts(2) [OF assms(2)] by (auto simp: row_ok_def)
  moreover have "length (order rows) \<le> length arr"
    using t(2) assms(3) reorders_facts(1) [OF assms(2)] by simp
  ultimately have "load_rows order t arr = Some (map clip_watt (order rows) @ drop (length rows) arr)"
    using reorders_facts(1) [OF assms(2), of rows] by (simp add: load_rows_def t(1))
  moreover have "\<forall>x \<in> set (map clip_watt (order rows)). row_ok x"
    using t(3) reorders_facts(2) [OF assms(2)] by auto
  ultimately show ?thesis using reorders_facts(1) [OF assms(2), of rows]
    by (intro exI [of _ "map clip_watt (order rows)"]) (simp add: t(1) sqlite_run_def)
qed

lemma load_pair_ok:
  assumes "table_ok n (fst t)" and "table_ok n (snd t)" and "reorders order" and "n \<le> length arr"
  shows "\<exists>xs ys. load_pair order t arr = Some (xs @ drop (length xs) arr, ys @ drop (length ys) arr)
    \<and> length xs = sqlite_run (fst t) \<and> length ys = sqlite_run (snd t)
    \<and> (\<forall>x \<in> set xs. row_ok x) \<and> (\<forall>y \<in> set ys. row_ok y)"
proof -
  obtain xs ys where "load_rows order (fst t) arr = Some (xs @ drop (length xs) arr)"
    "length xs = sqlite_run (fst t)" "\<forall>x \<in> set xs. row_ok x"
    "load_rows order (snd t) arr = Some (ys @ drop (length ys) arr)"
    "length ys = sqlite_run (snd t)" "\<forall>x \<in> set ys. row_ok x"
    using load_rows_ok [OF assms(1,3,4)] load_rows_ok [OF assms(2,3,4)] by blast
  then show ?thesis
    by (intro exI [of _ xs] exI [of _ ys]) (simp add: load_pair_def)
qed

definition rows_ok :: "nat \<Rightarrow> power_usage list \<Rightarrow> bool" where
  "rows_ok n xs \<longleftrightarrow> length xs = n \<and> (\<forall>x \<in> set xs. row_ok x)"

lemma rows_ok_zero [simp]: "rows_ok n (replicate n zero_usage)"
  by (simp add: rows_ok_def)

lemma rows_ok_load: "rows_ok n arr \<Longrightarrow> \<forall>x \<in> set xs. row_ok x \<Longrightarrow> length xs \<le> n \<Longrightarrow> rows_ok n (xs @ drop (length xs) arr)"
  by (auto simp: rows_ok_def dest: in_set_dropD)

lemma convert_rows_ok:
  assumes "rows_ok mx g" and "\<forall>x \<in> set xs. row_ok x" and "0 < step" and "length xs \<le> length (xs @ ys)"
  shows "\<exists>h. convert_rows step mx (length xs) (xs @ ys) g = Some h \<and> rows_ok mx h"
proof (cases "length xs = 0")
  case True
  then show ?thesis using assms(1) by (simp add: convert_rows_def convert_loop.simps)
next
  case False
  define m where "m = (if length xs > mx then mx - 1 else length xs - 1)"
  have "convert_rows step mx (length xs) (xs @ ys) g = Some (sample_loop step (length xs - 1) m (xs @ ys) g)"
    using False by (simp add: convert_rows_def sample_loop_def m_def of_nat_diff Suc_leI)
  moreover have "rows_ok mx (sample_loop step (length xs - 1) m (xs @ ys) g)"
  proof -
    have "set (sample_loop step (length xs - 1) m (xs @ ys) g) \<subseteq> set g \<union> set xs"
    proof -
      have "(!) (xs @ ys) ` {..length xs - 1} \<subseteq> set xs"
      proof (rule image_subsetI)
        fix i assume "i \<in> {..length xs - 1}"
        then have "i < length xs" using False by (cases xs) auto
        then show "(xs @ ys) ! i \<in> set xs" by (simp add: nth_append)
      qed
      then show ?thesis using set_sample_loop [OF assms(3), of "length xs - 1" m "xs @ ys" g] by blast
    qed
    then show ?thesis using assms(1,2) by (auto simp: rows_ok_def sample_loop_def)
  qed
  ultimately show ?thesis by blast
qed

definition ready :: "supply_stats \<Rightarrow> bool" where
  "ready sp \<longleftrightarrow> rows_ok 30 (sp_min sp) \<and> rows_ok 60 (sp_hour sp) \<and> rows_ok 24 (sp_day sp) \<and> sp_rm sp \<le> 30
     \<and> sp_fh sp \<le> 60 \<and> length (sp_high sp) = 4 \<and> length (sp_low sp) = 4
     \<and> sp_high sp ! 1 < 30 \<and> sp_high sp ! 2 < 60 \<and> sp_high sp ! 3 < 24
     \<and> sp_low sp ! 1 < 30 \<and> sp_low sp ! 2 < 60 \<and> sp_low sp ! 3 < 24"

definition stats_ok :: "supply_stats \<Rightarrow> bool" where
  "stats_ok sp \<longleftrightarrow> sp_fh sp \<le> 60 \<and> sp_fd sp \<le> 24 \<and> length (sp_high sp) = 4 \<and> length (sp_low sp) = 4
     \<and> sp_high sp ! 1 < 30 \<and> sp_high sp ! 2 < 60 \<and> sp_high sp ! 3 < 24
     \<and> sp_low sp ! 1 < 30 \<and> sp_low sp ! 2 < 60 \<and> sp_low sp ! 3 < 24"

lemma load_minutes_ok:
  assumes "db_ok db" and "reorders order"
  shows "\<exists>x y. load_minutes order db p = Some (p\<lparr>pw_1 := (pw_1 p)\<lparr>sp_min := x\<rparr>, pw_2 := (pw_2 p)\<lparr>sp_min := y\<rparr>\<rparr>)
    \<and> rows_ok 30 x \<and> rows_ok 30 y"
proof -
  have t: "table_ok 30 (fst (db_min db))" "table_ok 30 (snd (db_min db))"
    using assms(1) by (simp_all add: db_ok_def)
  have "30 \<le> length (replicate 30 zero_usage)" by simp
  from load_pair_ok [OF t assms(2) this] obtain xs ys where
    l: "load_pair order (db_min db) (replicate 30 zero_usage)
      = Some (xs @ drop (length xs) (replicate 30 zero_usage), ys @ drop (length ys) (replicate 30 zero_usage))"
    "length xs = sqlite_run (fst (db_min db))" "length ys = sqlite_run (snd (db_min db))"
    "\<forall>x \<in> set xs. row_ok x" "\<forall>y \<in> set ys. row_ok y" by blast
  have "length xs \<le> 30" "length ys \<le> 30" using table_ok_count [OF t(1)] table_ok_count [OF t(2)] l by simp_all
  then show ?thesis
    using rows_ok_load [OF rows_ok_zero l(4), of 30] rows_ok_load [OF rows_ok_zero l(5), of 30] l(1)
    by (intro exI [of _ "xs @ drop (length xs) (replicate 30 zero_usage)"]
        exI [of _ "ys @ drop (length ys) (replicate 30 zero_usage)"])
      (simp add: load_minutes_def del: drop_replicate)
qed

lemma load_hours_ok:
  assumes "db_ok db" and "reorders order" and "rows_ok 60 (sp_hour (pw_1 p))" and "rows_ok 60 (sp_hour (pw_2 p))"
    and "sp_rh (pw_1 p) = sqlite_run (fst (db_hour db))" and "sp_rh (pw_2 p) = sqlite_run (snd (db_hour db))"
  shows "\<exists>x y. load_hours order junk db p = Some (p\<lparr>pw_1 := (pw_1 p)\<lparr>sp_hour := x\<rparr>, pw_2 := (pw_2 p)\<lparr>sp_hour := y\<rparr>\<rparr>)
    \<and> rows_ok 60 x \<and> rows_ok 60 y"
proof -
  have t: "table_ok 600 (fst (db_hour db))" "table_ok 600 (snd (db_hour db))"
    using assms(1) by (simp_all add: db_ok_def)
  have "600 \<le> length (replicate 600 junk)" by simp
  from load_pair_ok [OF t assms(2) this] obtain xs ys where
    l: "load_pair order (db_hour db) (replicate 600 junk)
      = Some (xs @ drop (length xs) (replicate 600 junk), ys @ drop (length ys) (replicate 600 junk))"
    "length xs = sqlite_run (fst (db_hour db))" "length ys = sqlite_run (snd (db_hour db))"
    "\<forall>x \<in> set xs. row_ok x" "\<forall>y \<in> set ys. row_ok y" by blast
  obtain h k where "convert_rows 10 60 (length xs) (xs @ drop (length xs) (replicate 600 junk)) (sp_hour (pw_1 p)) = Some h"
    "rows_ok 60 h"
    "convert_rows 10 60 (length ys) (ys @ drop (length ys) (replicate 600 junk)) (sp_hour (pw_2 p)) = Some k"
    "rows_ok 60 k"
    using convert_rows_ok [OF assms(3) l(4)] convert_rows_ok [OF assms(4) l(5)] by (metis length_append le_add1 zero_less_numeral)
  then show ?thesis
    using assms(5,6) l(1-3)
    by (intro exI [of _ h] exI [of _ k])
      (simp add: load_hours_def convert_power_to_g_power_def Let_def del: drop_replicate)
qed

lemma load_days_ok:
  assumes "db_ok db" and "reorders order" and "rows_ok 24 (sp_day (pw_1 p))" and "rows_ok 24 (sp_day (pw_2 p))"
    and "sp_rd (pw_1 p) = sqlite_run (fst (db_day db))" and "sp_rd (pw_2 p) = sqlite_run (snd (db_day db))"
  shows "\<exists>x y. load_days order junk db p = Some (p\<lparr>pw_1 := (pw_1 p)\<lparr>sp_day := x\<rparr>, pw_2 := (pw_2 p)\<lparr>sp_day := y\<rparr>\<rparr>)
    \<and> rows_ok 24 x \<and> rows_ok 24 y"
proof -
  have t: "table_ok 1440 (fst (db_day db))" "table_ok 1440 (snd (db_day db))"
    using assms(1) by (simp_all add: db_ok_def)
  have "1440 \<le> length (replicate 1440 junk)" by simp
  from load_pair_ok [OF t assms(2) this] obtain xs ys where
    l: "load_pair order (db_day db) (replicate 1440 junk)
      = Some (xs @ drop (length xs) (replicate 1440 junk), ys @ drop (length ys) (replicate 1440 junk))"
    "length xs = sqlite_run (fst (db_day db))" "length ys = sqlite_run (snd (db_day db))"
    "\<forall>x \<in> set xs. row_ok x" "\<forall>y \<in> set ys. row_ok y" by blast
  obtain h k where "convert_rows 60 24 (length xs) (xs @ drop (length xs) (replicate 1440 junk)) (sp_day (pw_1 p)) = Some h"
    "rows_ok 24 h"
    "convert_rows 60 24 (length ys) (ys @ drop (length ys) (replicate 1440 junk)) (sp_day (pw_2 p)) = Some k"
    "rows_ok 24 k"
    using convert_rows_ok [OF assms(3) l(4)] convert_rows_ok [OF assms(4) l(5)] by (metis length_append le_add1 zero_less_numeral)
  then show ?thesis
    using assms(5,6) l(1-3)
    by (intro exI [of _ h] exI [of _ k])
      (simp add: load_days_def convert_power_to_g_power_def Let_def del: drop_replicate)
qed

definition power_ready :: "power \<Rightarrow> bool" where
  "power_ready p \<longleftrightarrow> ready (pw_1 p) \<and> ready (pw_2 p) \<and> 0 \<le> pw_min_total p \<and> pw_min_total p < 10000000
     \<and> 0 \<le> pw_hour_total p \<and> pw_hour_total p < 10000000"

lemma watt_sum_range: "table_ok n t \<Longrightarrow> 0 \<le> watt_sum t \<and> watt_sum t \<le> 800 * int n"
proof -
  have "(\<forall>r \<in> set rows. row_ok (clip_watt r)) \<Longrightarrow>
      0 \<le> sum_list (map (pu_watt \<circ> clip_watt) rows) \<and> sum_list (map (pu_watt \<circ> clip_watt) rows) \<le> 800 * int (length rows)" for rows
    by (induction rows) (auto simp: row_ok_def)
  then show "table_ok n t \<Longrightarrow> 0 \<le> watt_sum t \<and> watt_sum t \<le> 800 * int n"
    by (fastforce simp: table_ok_def watt_sum_def)
qed

text \<open>The whole of the load: the counts of the second day table and nothing else decide how many of
  its rows will be shown.\<close>

definition day_rows_shown :: "power_db \<Rightarrow> power \<Rightarrow> nat" where
  "day_rows_shown db p = (if sqlite_run (snd (db_day db)) > 60 then 60 else sp_fd (pw_2 p))"

lemma load_all:
  assumes "db_ok db" and "reorders order" and "stats_ok (pw_1 p)" and "stats_ok (pw_2 p)"
  shows "\<exists>q. get_min_power_usage order junk 0 db p = Some q \<and> power_ready q \<and> sp_fd (pw_1 q) \<le> 24
    \<and> sp_fd (pw_2 q) = day_rows_shown db p \<and> sp_rd (pw_2 q) = sqlite_run (snd (db_day db))"
proof -
  define q0 where "q0 = (count_days True db (count_hours True db (count_minutes db (clear_arrays p))))
      \<lparr>pw_hour_total := watt_sum (fst (db_hour db)) + watt_sum (snd (db_hour db)),
       pw_min_total := watt_sum (fst (db_min db)) + watt_sum (snd (db_min db))\<rparr>"
  note counts = q0_def count_days_def count_hours_def count_minutes_def clear_arrays_def Let_def
  obtain x y where m: "load_minutes order db q0
      = Some (q0\<lparr>pw_1 := (pw_1 q0)\<lparr>sp_min := x\<rparr>, pw_2 := (pw_2 q0)\<lparr>sp_min := y\<rparr>\<rparr>)" "rows_ok 30 x" "rows_ok 30 y"
    using load_minutes_ok [OF assms(1,2)] by blast
  let ?q1 = "q0\<lparr>pw_1 := (pw_1 q0)\<lparr>sp_min := x\<rparr>, pw_2 := (pw_2 q0)\<lparr>sp_min := y\<rparr>\<rparr>"
  have "rows_ok 60 (sp_hour (pw_1 ?q1))" "rows_ok 60 (sp_hour (pw_2 ?q1))"
    "sp_rh (pw_1 ?q1) = sqlite_run (fst (db_hour db))" "sp_rh (pw_2 ?q1) = sqlite_run (snd (db_hour db))"
    by (simp_all add: counts)
  from load_hours_ok [OF assms(1,2) this, of junk] obtain u v where
    h: "load_hours order junk db ?q1 = Some (?q1\<lparr>pw_1 := (pw_1 ?q1)\<lparr>sp_hour := u\<rparr>, pw_2 := (pw_2 ?q1)\<lparr>sp_hour := v\<rparr>\<rparr>)"
    "rows_ok 60 u" "rows_ok 60 v" by blast
  let ?q2 = "?q1\<lparr>pw_1 := (pw_1 ?q1)\<lparr>sp_hour := u\<rparr>, pw_2 := (pw_2 ?q1)\<lparr>sp_hour := v\<rparr>\<rparr>"
  have "rows_ok 24 (sp_day (pw_1 ?q2))" "rows_ok 24 (sp_day (pw_2 ?q2))"
    "sp_rd (pw_1 ?q2) = sqlite_run (fst (db_day db))" "sp_rd (pw_2 ?q2) = sqlite_run (snd (db_day db))"
    by (simp_all add: counts)
  from load_days_ok [OF assms(1,2) this, of junk] obtain e f where
    d: "load_days order junk db ?q2 = Some (?q2\<lparr>pw_1 := (pw_1 ?q2)\<lparr>sp_day := e\<rparr>, pw_2 := (pw_2 ?q2)\<lparr>sp_day := f\<rparr>\<rparr>)"
    "rows_ok 24 e" "rows_ok 24 f" by blast
  let ?q = "?q2\<lparr>pw_1 := (pw_1 ?q2)\<lparr>sp_day := e\<rparr>, pw_2 := (pw_2 ?q2)\<lparr>sp_day := f\<rparr>\<rparr>"
  have "get_min_power_usage order junk 0 db p = Some ?q"
    using m(1) h(1) d(1) by (simp add: get_min_power_usage_def Let_def q0_def)
  moreover have "sp_rm (pw_1 q0) \<le> 30" "sp_rm (pw_2 q0) \<le> 30"
    using assms(1) table_ok_count by (auto simp: counts db_ok_def)
  moreover have "0 \<le> pw_min_total q0 \<and> pw_min_total q0 < 10000000 \<and> 0 \<le> pw_hour_total q0 \<and> pw_hour_total q0 < 10000000"
    using assms(1) watt_sum_range [of 30 "fst (db_min db)"] watt_sum_range [of 30 "snd (db_min db)"]
      watt_sum_range [of 600 "fst (db_hour db)"] watt_sum_range [of 600 "snd (db_hour db)"]
    by (simp add: db_ok_def q0_def)
  moreover have "sp_fh (pw_1 q0) \<le> 60 \<and> sp_fh (pw_2 q0) \<le> 60 \<and> sp_fd (pw_1 q0) \<le> 24
      \<and> sp_fd (pw_2 q0) = day_rows_shown db p \<and> sp_rd (pw_2 q0) = sqlite_run (snd (db_day db))
      \<and> sp_high (pw_1 q0) = sp_high (pw_1 p) \<and> sp_high (pw_2 q0) = sp_high (pw_2 p)
      \<and> sp_low (pw_1 q0) = sp_low (pw_1 p) \<and> sp_low (pw_2 q0) = sp_low (pw_2 p)"
    using assms(3,4) by (simp add: counts stats_ok_def day_rows_shown_def)
  ultimately show ?thesis
    using m(2,3) h(2,3) d(2,3) assms(3,4)
    by (intro exI [of _ ?q]) (simp add: power_ready_def ready_def stats_ok_def)
qed

section \<open>The report is defined\<close>

text \<open>The scans change the indices only.\<close>

definition same_rows :: "supply_stats \<Rightarrow> supply_stats \<Rightarrow> bool" where
  "same_rows a b \<longleftrightarrow> (\<exists>h l. b = a\<lparr>sp_high := h, sp_low := l\<rparr>)"

lemma same_rows_refl [simp]: "same_rows a a"
  unfolding same_rows_def by (intro exI [of _ "sp_high a"] exI [of _ "sp_low a"]) simp

lemma same_rows_trans: "same_rows a b \<Longrightarrow> same_rows b c \<Longrightarrow> same_rows a c"
  by (auto simp: same_rows_def) (intro exI, rule refl)

lemma highest_ready:
  assumes "ready sp"
  shows "ready (snd (highest_power f sp))" "same_rows sp (snd (highest_power f sp))"
    "0 \<le> fst (highest_power f sp) \<and> fst (highest_power f sp) \<le> 800"
    "sp_low (snd (highest_power f sp)) = sp_low sp"
proof -
  have r: "\<forall>x \<in> set (sp_min sp). row_ok x" "\<forall>x \<in> set (sp_hour sp). row_ok x" "\<forall>x \<in> set (sp_day sp). row_ok x"
    "length (sp_min sp) = 30" "length (sp_hour sp) = 60" "length (sp_day sp) = 24"
    using assms by (auto simp: ready_def rows_ok_def)
  obtain mn i1 where 1: "scan_highest 0 0 (sp_high sp ! 1) (sp_min sp) = (mn, i1)" by fastforce
  obtain hr i2 where 2: "scan_highest 0 0 (sp_high sp ! 2) (sp_hour sp) = (hr, i2)" by fastforce
  obtain dy i3 where 3: "scan_highest 0 0 (sp_high sp ! 3) (sp_day sp) = (dy, i3)" by fastforce
  have v: "0 \<le> mn" "mn \<le> 800" "0 \<le> hr" "hr \<le> 800" "0 \<le> dy" "dy \<le> 800"
    using scan_highest_range [OF r(1), of 0 0 "sp_high sp ! 1"] scan_highest_range [OF r(2), of 0 0 "sp_high sp ! 2"]
      scan_highest_range [OF r(3), of 0 0 "sp_high sp ! 3"] 1 2 3 by simp_all
  have i: "i1 < 30" "i2 < 60" "i3 < 24"
    using scan_highest_index [of 0 0 "sp_high sp ! 1" "sp_min sp"] scan_highest_index [of 0 0 "sp_high sp ! 2" "sp_hour sp"]
      scan_highest_index [of 0 0 "sp_high sp ! 3" "sp_day sp"] 1 2 3 r(4-6) assms by (auto simp: ready_def)
  obtain a b c d where h: "sp_high sp = [a, b, c, d]"
    using assms by (auto simp: ready_def length_Suc_conv numeral_eq_Suc)
  note defs = highest_power_def Let_def 1 [unfolded One_nat_def] 2 3
  show "0 \<le> fst (highest_power f sp) \<and> fst (highest_power f sp) \<le> 800"
    using v by (auto simp: defs)
  show "sp_low (snd (highest_power f sp)) = sp_low sp" by (simp add: defs)
  have "same_rows sp (sp\<lparr>sp_high := x\<rparr>)" for x
    unfolding same_rows_def by (intro exI [of _ x] exI [of _ "sp_low sp"]) simp
  then show "same_rows sp (snd (highest_power f sp))" by (simp add: defs)
  show "ready (snd (highest_power f sp))"
    using assms i by (simp add: defs) (simp add: ready_def h)
qed

lemma lowest_ready:
  assumes "ready sp"
  shows "ready (snd (lowest_power f sp))" "same_rows sp (snd (lowest_power f sp))"
    "0 \<le> fst (lowest_power f sp) \<and> fst (lowest_power f sp) \<le> 800"
    "sp_high (snd (lowest_power f sp)) = sp_high sp"
proof -
  have r: "\<forall>x \<in> set (sp_min sp). row_ok x" "\<forall>x \<in> set (sp_hour sp). row_ok x" "\<forall>x \<in> set (sp_day sp). row_ok x"
    "length (sp_min sp) = 30" "length (sp_hour sp) = 60" "length (sp_day sp) = 24"
    using assms by (auto simp: ready_def rows_ok_def)
  obtain mn i1 where 1: "lowest_of (sp_low sp ! 1) (sp_min sp) = (mn, i1)" by fastforce
  obtain hr i2 where 2: "lowest_of (sp_low sp ! 2) (sp_hour sp) = (hr, i2)" by fastforce
  obtain dy i3 where 3: "lowest_of (sp_low sp ! 3) (sp_day sp) = (dy, i3)" by fastforce
  have v: "0 \<le> mn" "mn \<le> 800" "0 \<le> hr" "hr \<le> 800" "0 \<le> dy" "dy \<le> 800"
    using lowest_of_range [OF r(1), of "sp_low sp ! 1"] lowest_of_range [OF r(2), of "sp_low sp ! 2"]
      lowest_of_range [OF r(3), of "sp_low sp ! 3"] 1 2 3 by simp_all
  have i: "i1 < 30" "i2 < 60" "i3 < 24"
    using lowest_of_index [of "sp_low sp ! 1" "sp_min sp"] lowest_of_index [of "sp_low sp ! 2" "sp_hour sp"]
      lowest_of_index [of "sp_low sp ! 3" "sp_day sp"] 1 2 3 r(4-6) assms by (auto simp: ready_def)
  obtain a b c d where h: "sp_low sp = [a, b, c, d]"
    using assms by (auto simp: ready_def length_Suc_conv numeral_eq_Suc)
  note defs = lowest_power_def Let_def 1 [unfolded One_nat_def] 2 3
  show "0 \<le> fst (lowest_power f sp) \<and> fst (lowest_power f sp) \<le> 800"
    using v by (auto simp: defs)
  show "sp_high (snd (lowest_power f sp)) = sp_high sp" by (simp add: defs)
  have "same_rows sp (sp\<lparr>sp_low := x\<rparr>)" for x
    unfolding same_rows_def by (intro exI [of _ "sp_high sp"] exI [of _ x]) simp
  then show "same_rows sp (snd (lowest_power f sp))" by (simp add: defs)
  show "ready (snd (lowest_power f sp))"
    using assms i by (simp add: defs) (simp add: ready_def h)
qed

text \<open>The index that a window's scan leaves at 0 lies in the window.\<close>

lemma highest_in_window:
  assumes "ready sp"
  shows "sp_high (snd (highest_power 2 sp)) ! 0 < 30" "sp_high (snd (highest_power 3 sp)) ! 0 < 60"
    "sp_high (snd (highest_power 4 sp)) ! 0 < 24"
  using highest_ready(1) [OF assms, of 2] highest_ready(1) [OF assms, of 3] highest_ready(1) [OF assms, of 4] assms
  by (auto simp: ready_def highest_power_def Let_def split_beta)

lemma lowest_in_window:
  assumes "ready sp"
  shows "sp_low (snd (lowest_power 2 sp)) ! 0 < 30" "sp_low (snd (lowest_power 3 sp)) ! 0 < 60"
    "sp_low (snd (lowest_power 4 sp)) ! 0 < 24"
  using lowest_ready(1) [OF assms, of 2] lowest_ready(1) [OF assms, of 3] lowest_ready(1) [OF assms, of 4] assms
  by (auto simp: ready_def lowest_power_def Let_def split_beta)

definition power_like :: "power \<Rightarrow> power \<Rightarrow> bool" where
  "power_like p q \<longleftrightarrow> same_rows (pw_1 p) (pw_1 q) \<and> same_rows (pw_2 p) (pw_2 q)
     \<and> pw_min_total q = pw_min_total p \<and> pw_hour_total q = pw_hour_total p"

lemma power_like_trans: "power_like p q \<Longrightarrow> power_like q r \<Longrightarrow> power_like p r"
  by (auto simp: power_like_def intro: same_rows_trans)

lemma scan_steps:
  assumes "power_ready p"
  shows "power_ready (snd (get_highest_power_1 f p)) \<and> power_like p (snd (get_highest_power_1 f p))
      \<and> 0 \<le> fst (get_highest_power_1 f p) \<and> fst (get_highest_power_1 f p) \<le> 800"
    "power_ready (snd (get_highest_power_2 f p)) \<and> power_like p (snd (get_highest_power_2 f p))
      \<and> 0 \<le> fst (get_highest_power_2 f p) \<and> fst (get_highest_power_2 f p) \<le> 800"
    "power_ready (snd (get_lowest_power_1 f p)) \<and> power_like p (snd (get_lowest_power_1 f p))
      \<and> 0 \<le> fst (get_lowest_power_1 f p) \<and> fst (get_lowest_power_1 f p) \<le> 800"
    "power_ready (snd (get_lowest_power_2 f p)) \<and> power_like p (snd (get_lowest_power_2 f p))
      \<and> 0 \<le> fst (get_lowest_power_2 f p) \<and> fst (get_lowest_power_2 f p) \<le> 800"
  using assms highest_ready(1-3) [of "pw_1 p" f] highest_ready(1-3) [of "pw_2 p" f]
    lowest_ready(1-3) [of "pw_1 p" f] lowest_ready(1-3) [of "pw_2 p" f]
  by (simp_all add: power_ready_def power_like_def get_highest_power_1_def get_highest_power_2_def
      get_lowest_power_1_def get_lowest_power_2_def Let_def split_beta)

lemma scan_frames:
  "pw_1 (snd (get_highest_power_2 f p)) = pw_1 p" "pw_1 (snd (get_lowest_power_2 f p)) = pw_1 p"
  "pw_1 (snd (get_highest_power_1 f p)) = snd (highest_power f (pw_1 p))"
  "pw_1 (snd (get_lowest_power_1 f p)) = snd (lowest_power f (pw_1 p))"
  by (simp_all add: get_highest_power_1_def get_highest_power_2_def get_lowest_power_1_def
      get_lowest_power_2_def Let_def split_beta)

text \<open>The four scans of one window, in the order in which the consumption calls them.\<close>

definition scan_four :: "int \<Rightarrow> power \<Rightarrow> power" where
  "scan_four f p = snd (get_lowest_power_2 f (snd (get_lowest_power_1 f
     (snd (get_highest_power_2 f (snd (get_highest_power_1 f p)))))))"

lemma scan_four_facts:
  assumes "power_ready p"
  shows "power_ready (scan_four f p)" "power_like p (scan_four f p)"
    "pw_1 (scan_four f p) = snd (lowest_power f (snd (highest_power f (pw_1 p))))"
proof -
  let ?a = "snd (get_highest_power_1 f p)"
  let ?b = "snd (get_highest_power_2 f ?a)"
  let ?c = "snd (get_lowest_power_1 f ?b)"
  have e: "scan_four f p = snd (get_lowest_power_2 f ?c)" by (simp add: scan_four_def)
  have a: "power_ready ?a" "power_like p ?a" using scan_steps(1) [OF assms, of f] by simp_all
  have b: "power_ready ?b" "power_like ?a ?b" using scan_steps(2) [OF a(1), of f] by simp_all
  have c: "power_ready ?c" "power_like ?b ?c" using scan_steps(3) [OF b(1), of f] by simp_all
  have d: "power_ready (scan_four f p)" "power_like ?c (scan_four f p)"
    using scan_steps(4) [OF c(1), of f] by (simp_all add: e)
  show "power_ready (scan_four f p)" by (rule d(1))
  show "power_like p (scan_four f p)"
    by (rule power_like_trans [OF a(2) power_like_trans [OF b(2) power_like_trans [OF c(2) d(2)]]])
  show "pw_1 (scan_four f p) = snd (lowest_power f (snd (highest_power f (pw_1 p))))"
    by (simp add: scan_four_def scan_frames)
qed

lemma dt_at_ok: "rows_ok n xs \<Longrightarrow> i < n \<Longrightarrow> \<exists>d. dt_at xs i = Some d \<and> length d \<le> 19"
  by (auto simp: rows_ok_def dt_at_def row_ok_def)

lemma scan_four_dates:
  assumes "power_ready p"
  shows "\<exists>d. dt_at (sp_min (pw_1 (scan_four 2 p))) (sp_high (pw_1 (scan_four 2 p)) ! 0) = Some d \<and> length d \<le> 19"
    "\<exists>d. dt_at (sp_min (pw_1 (scan_four 2 p))) (sp_low (pw_1 (scan_four 2 p)) ! 0) = Some d \<and> length d \<le> 19"
    "\<exists>d. dt_at (sp_hour (pw_1 (scan_four 3 p))) (sp_high (pw_1 (scan_four 3 p)) ! 0) = Some d \<and> length d \<le> 19"
    "\<exists>d. dt_at (sp_hour (pw_1 (scan_four 3 p))) (sp_low (pw_1 (scan_four 3 p)) ! 0) = Some d \<and> length d \<le> 19"
    "\<exists>d. dt_at (sp_day (pw_1 (scan_four 4 p))) (sp_high (pw_1 (scan_four 4 p)) ! 0) = Some d \<and> length d \<le> 19"
    "\<exists>d. dt_at (sp_day (pw_1 (scan_four 4 p))) (sp_low (pw_1 (scan_four 4 p)) ! 0) = Some d \<and> length d \<le> 19"
proof -
  have r: "ready (pw_1 p)" using assms by (simp add: power_ready_def)
  have h: "ready (snd (highest_power f (pw_1 p)))" for f by (rule highest_ready(1) [OF r])
  have l: "ready (snd (lowest_power f (snd (highest_power f (pw_1 p)))))" for f by (rule lowest_ready(1) [OF h])
  have rows: "rows_ok 30 (sp_min (pw_1 (scan_four f p)))" "rows_ok 60 (sp_hour (pw_1 (scan_four f p)))"
    "rows_ok 24 (sp_day (pw_1 (scan_four f p)))" for f
    using l [of f] by (auto simp: scan_four_facts(3) [OF assms] ready_def)
  note high = highest_in_window [OF r] and low = lowest_in_window [OF h]
  note keep = lowest_ready(4) [OF h]
  show "\<exists>d. dt_at (sp_min (pw_1 (scan_four 2 p))) (sp_high (pw_1 (scan_four 2 p)) ! 0) = Some d \<and> length d \<le> 19"
    by (rule dt_at_ok [OF rows(1)]) (simp add: scan_four_facts(3) [OF assms] keep high)
  show "\<exists>d. dt_at (sp_min (pw_1 (scan_four 2 p))) (sp_low (pw_1 (scan_four 2 p)) ! 0) = Some d \<and> length d \<le> 19"
    by (rule dt_at_ok [OF rows(1)]) (simp add: scan_four_facts(3) [OF assms] low)
  show "\<exists>d. dt_at (sp_hour (pw_1 (scan_four 3 p))) (sp_high (pw_1 (scan_four 3 p)) ! 0) = Some d \<and> length d \<le> 19"
    by (rule dt_at_ok [OF rows(2)]) (simp add: scan_four_facts(3) [OF assms] keep high)
  show "\<exists>d. dt_at (sp_hour (pw_1 (scan_four 3 p))) (sp_low (pw_1 (scan_four 3 p)) ! 0) = Some d \<and> length d \<le> 19"
    by (rule dt_at_ok [OF rows(2)]) (simp add: scan_four_facts(3) [OF assms] low)
  show "\<exists>d. dt_at (sp_day (pw_1 (scan_four 4 p))) (sp_high (pw_1 (scan_four 4 p)) ! 0) = Some d \<and> length d \<le> 19"
    by (rule dt_at_ok [OF rows(3)]) (simp add: scan_four_facts(3) [OF assms] keep high)
  show "\<exists>d. dt_at (sp_day (pw_1 (scan_four 4 p))) (sp_low (pw_1 (scan_four 4 p)) ! 0) = Some d \<and> length d \<le> 19"
    by (rule dt_at_ok [OF rows(3)]) (simp add: scan_four_facts(3) [OF assms] low)
qed

text \<open>The parts of the report.\<close>

lemma emit_lines_short:
  assumes "\<forall>l \<in> set ls. length l < 100"
  shows "\<exists>t. emit_lines ls = Some t \<and> length t \<le> 100 * length ls"
proof -
  have "length (concat ls) \<le> 100 * length ls" using assms by (induction ls) auto
  then show ?thesis using assms by (simp add: emit_lines_def)
qed

lemma value_line_short:
  "0 \<le> v \<Longrightarrow> v < 10000000 \<Longrightarrow> length ind \<le> 4 \<Longrightarrow> length k \<le> 20 \<Longrightarrow> length e \<le> 1
     \<Longrightarrow> length (pair_line ind k (show_int v) e) < 100"
  using show_int_length [of v 6] by (simp add: line_lengths)

lemma date_line_short:
  "length d \<le> 19 \<Longrightarrow> length ind \<le> 4 \<Longrightarrow> length (pair_line ind ''DATETIME'' d []) < 100"
  by (simp add: line_lengths)

lemma peak_date_ok:
  assumes "ready sp" and "length prev < 100" and "ix = sp_high sp \<or> ix = sp_low sp"
  shows "\<exists>d. peak_date ix sp prev = Some d \<and> length d < 100"
proof -
  have r: "rows_ok 30 (sp_min sp)" "rows_ok 60 (sp_hour sp)" "rows_ok 24 (sp_day sp)"
    "ix ! 1 < 30" "ix ! 2 < 60" "ix ! 3 < 24"
    using assms(1,3) by (auto simp: ready_def)
  have line: "length (pair_line (tabs 2 @ '' '') ''DATETIME'' d []) < 100" if "length d \<le> 19" for d
    by (rule date_line_short [OF that]) (simp add: tabs_def)
  show ?thesis
    using dt_at_ok [OF r(1) r(4)] dt_at_ok [OF r(2) r(5)] dt_at_ok [OF r(3) r(6)] assms(2) line
    by (fastforce simp: peak_date_def Let_def)
qed

lemma peak_ok:
  assumes "power_ready p"
  shows "\<exists>t q. get_power_peak p = Some (t, q) \<and> length t \<le> 1000 \<and> power_ready q \<and> power_like p q"
proof -
  obtain h1 a where a: "get_highest_power_1 1 p = (h1, a)" by fastforce
  obtain l1 b where b: "get_lowest_power_1 1 a = (l1, b)" by fastforce
  obtain h2 c where c: "get_highest_power_2 1 b = (h2, c)" by fastforce
  obtain l2 d where d: "get_lowest_power_2 1 c = (l2, d)" by fastforce
  have ra: "power_ready a" "power_like p a" "0 \<le> h1" "h1 \<le> 800"
    using scan_steps(1) [OF assms, of 1] by (simp_all add: a)
  have rb: "power_ready b" "power_like a b" "0 \<le> l1" "l1 \<le> 800"
    using scan_steps(3) [OF ra(1), of 1] by (simp_all add: b)
  have rc: "power_ready c" "power_like b c" "0 \<le> h2" "h2 \<le> 800"
    using scan_steps(2) [OF rb(1), of 1] by (simp_all add: c)
  have rd: "power_ready d" "power_like c d" "0 \<le> l2" "l2 \<le> 800"
    using scan_steps(4) [OF rc(1), of 1] by (simp_all add: d)
  let ?vline = "\<lambda>v. pair_line (tabs 2 @ '' '') ''VALUE'' (show_int v) '',''"
  have v: "length (?vline (h1 + h2)) < 100" "length (?vline (l1 + l2)) < 100"
    using ra rb rc rd by (intro value_line_short; simp add: tabs_def)+
  have sp: "ready (pw_1 d)" "0 \<le> pw_min_total d" "pw_min_total d < 10000000"
    "0 \<le> pw_hour_total d" "pw_hour_total d < 10000000"
    using rd(1) by (simp_all add: power_ready_def)
  obtain x where x: "peak_date (sp_high (pw_1 d)) (pw_1 d) (?vline (h1 + h2)) = Some x" "length x < 100"
    using peak_date_ok [OF sp(1) v(1)] by blast
  obtain y where y: "peak_date (sp_low (pw_1 d)) (pw_1 d) (?vline (l1 + l2)) = Some y" "length y < 100"
    using peak_date_ok [OF sp(1) v(2)] by blast
  let ?ls = "[?vline (h1 + h2), x, text_line (tabs 1 @ ''},''),
    text_line (tabs 1 @ '' '' @ quote ''LOWEST_PEAK'' @ '' :{''), ?vline (l1 + l2), y, text_line (tabs 1 @ ''},''),
    pair_line (tabs 1 @ '' '') ''MIN_TOTAL_PEAK'' (show_int (pw_min_total d)) '','',
    pair_line (tabs 1 @ '' '') ''HOUR_TOTAL_PEAK'' (show_int (pw_hour_total d)) []]"
  have t: "length (pair_line (tabs 1 @ '' '') ''MIN_TOTAL_PEAK'' (show_int (pw_min_total d)) '','') < 100"
    "length (pair_line (tabs 1 @ '' '') ''HOUR_TOTAL_PEAK'' (show_int (pw_hour_total d)) []) < 100"
    using sp by (intro value_line_short; simp add: tabs_def)+
  have "\<forall>l \<in> set ?ls. length l < 100"
    using v t x(2) y(2) by (simp add: text_line_def tabs_def quote_def)
  then obtain u where u: "emit_lines ?ls = Some u" "length u \<le> 900"
    using emit_lines_short [of ?ls] by auto
  have "get_power_peak p = Some (text_line (tabs 1 @ quote ''HIGHEST_PEAK'' @ '' : {'') @ u, d)"
    using u(1) by (simp add: get_power_peak_def Let_def a b c d x(1) y(1) split_beta)
  moreover have "power_like p d"
    by (rule power_like_trans [OF ra(2) power_like_trans [OF rb(2) power_like_trans [OF rc(2) rd(2)]]])
  ultimately show ?thesis using u(2) rd(1) by (simp add: text_line_def tabs_def quote_def)
qed

lemma four_scans:
  assumes "power_ready p"
  obtains h1 a h2 b l1 c l2 where "get_highest_power_1 f p = (h1, a)" "get_highest_power_2 f a = (h2, b)"
    "get_lowest_power_1 f b = (l1, c)" "get_lowest_power_2 f c = (l2, scan_four f p)"
    "0 \<le> h1" "h1 \<le> 800" "0 \<le> h2" "h2 \<le> 800" "0 \<le> l1" "l1 \<le> 800" "0 \<le> l2" "l2 \<le> 800"
proof -
  obtain h1 a where a: "get_highest_power_1 f p = (h1, a)" by fastforce
  obtain h2 b where b: "get_highest_power_2 f a = (h2, b)" by fastforce
  obtain l1 c where c: "get_lowest_power_1 f b = (l1, c)" by fastforce
  obtain l2 d where d: "get_lowest_power_2 f c = (l2, d)" by fastforce
  have ra: "power_ready a" "0 \<le> h1" "h1 \<le> 800" using scan_steps(1) [OF assms, of f] by (simp_all add: a)
  have rb: "power_ready b" "0 \<le> h2" "h2 \<le> 800" using scan_steps(2) [OF ra(1), of f] by (simp_all add: b)
  have rc: "power_ready c" "0 \<le> l1" "l1 \<le> 800" using scan_steps(3) [OF rb(1), of f] by (simp_all add: c)
  have "0 \<le> l2" "l2 \<le> 800" using scan_steps(4) [OF rc(1), of f] by (simp_all add: d)
  moreover have "scan_four f p = d" by (simp add: scan_four_def a b c d)
  ultimately show thesis using that a b c d ra rb rc by metis
qed

lemma consumption_lines_short:
  assumes "0 \<le> hi" "hi \<le> 1600" "0 \<le> lo" "lo \<le> 1600" "length hx \<le> 19" "length lx \<le> 19"
    and "length name \<le> 20" and "length e \<le> 1"
  shows "\<forall>l \<in> set (consumption_lines name hi hx lo lx e). length l < 100"
  using assms show_int_length [of hi 3] show_int_length [of lo 3]
  by (simp add: consumption_lines_def line_lengths)

lemma consumption_ok:
  assumes "power_ready p"
  shows "\<exists>t q. get_power_consumption p = Some (t, q) \<and> length t \<le> 3000 \<and> power_ready q \<and> power_like p q"
proof -
  let ?m = "scan_four 2 p"
  let ?h = "scan_four 3 ?m"
  let ?d = "scan_four 4 ?h"
  note m = scan_four_facts(1,2) [OF assms, of 2]
  note h = scan_four_facts(1,2) [OF m(1), of 3]
  note d = scan_four_facts(1,2) [OF h(1), of 4]
  obtain mh1 a1 mh2 b1 ml1 c1 ml2 where 1: "get_highest_power_1 2 p = (mh1, a1)" "get_highest_power_2 2 a1 = (mh2, b1)"
    "get_lowest_power_1 2 b1 = (ml1, c1)" "get_lowest_power_2 2 c1 = (ml2, ?m)" and v1:
    "0 \<le> mh1" "mh1 \<le> 800" "0 \<le> mh2" "mh2 \<le> 800" "0 \<le> ml1" "ml1 \<le> 800" "0 \<le> ml2" "ml2 \<le> 800"
    by (rule four_scans [OF assms, of 2]) (rule that)
  obtain hh1 a2 hh2 b2 hl1 c2 hl2 where 2: "get_highest_power_1 3 ?m = (hh1, a2)" "get_highest_power_2 3 a2 = (hh2, b2)"
    "get_lowest_power_1 3 b2 = (hl1, c2)" "get_lowest_power_2 3 c2 = (hl2, ?h)" and v2:
    "0 \<le> hh1" "hh1 \<le> 800" "0 \<le> hh2" "hh2 \<le> 800" "0 \<le> hl1" "hl1 \<le> 800" "0 \<le> hl2" "hl2 \<le> 800"
    by (rule four_scans [OF m(1), of 3]) (rule that)
  obtain dh1 a3 dh2 b3 dl1 c3 dl2 where 3: "get_highest_power_1 4 ?h = (dh1, a3)" "get_highest_power_2 4 a3 = (dh2, b3)"
    "get_lowest_power_1 4 b3 = (dl1, c3)" "get_lowest_power_2 4 c3 = (dl2, ?d)" and v3:
    "0 \<le> dh1" "dh1 \<le> 800" "0 \<le> dh2" "dh2 \<le> 800" "0 \<le> dl1" "dl1 \<le> 800" "0 \<le> dl2" "dl2 \<le> 800"
    by (rule four_scans [OF h(1), of 4]) (rule that)
  obtain m1 m2 where dm: "dt_at (sp_min (pw_1 ?m)) (sp_high (pw_1 ?m) ! 0) = Some m1" "length m1 \<le> 19"
    "dt_at (sp_min (pw_1 ?m)) (sp_low (pw_1 ?m) ! 0) = Some m2" "length m2 \<le> 19"
    using scan_four_dates(1,2) [OF assms] by blast
  obtain x1 x2 where dx: "dt_at (sp_hour (pw_1 ?h)) (sp_high (pw_1 ?h) ! 0) = Some x1" "length x1 \<le> 19"
    "dt_at (sp_hour (pw_1 ?h)) (sp_low (pw_1 ?h) ! 0) = Some x2" "length x2 \<le> 19"
    using scan_four_dates(3,4) [OF m(1)] by blast
  obtain d1 d2 where dd: "dt_at (sp_day (pw_1 ?d)) (sp_high (pw_1 ?d) ! 0) = Some d1" "length d1 \<le> 19"
    "dt_at (sp_day (pw_1 ?d)) (sp_low (pw_1 ?d) ! 0) = Some d2" "length d2 \<le> 19"
    using scan_four_dates(5,6) [OF h(1)] by blast
  let ?ls = "consumption_lines ''PAST_MIN'' (mh1 + mh2) m1 (ml1 + ml2) m2 '',''
    @ consumption_lines ''PAST_HOUR'' (hh1 + hh2) x1 (ml1 + hl2) x2 '',''
    @ consumption_lines ''PAST_DAY'' (dh1 + dh2) d1 (dl1 + dl2) d2 []"
  have "\<forall>l \<in> set (consumption_lines ''PAST_MIN'' (mh1 + mh2) m1 (ml1 + ml2) m2 '',''). length l < 100"
    "\<forall>l \<in> set (consumption_lines ''PAST_HOUR'' (hh1 + hh2) x1 (ml1 + hl2) x2 '',''). length l < 100"
    "\<forall>l \<in> set (consumption_lines ''PAST_DAY'' (dh1 + dh2) d1 (dl1 + dl2) d2 []). length l < 100"
    by (rule consumption_lines_short; use v1 v2 v3 dm dx dd in simp)+
  then have "\<forall>l \<in> set ?ls. length l < 100" by auto
  moreover have "length ?ls = 30" by (simp add: consumption_lines_def)
  ultimately obtain t where t: "emit_lines ?ls = Some t" "length t \<le> 3000"
    using emit_lines_short [of ?ls] by auto
  have "get_power_consumption p = Some (t, ?d)"
    using t(1) by (simp add: get_power_consumption_def Let_def 1 2 3 dm dx dd split_beta)
  moreover have "power_like p ?d"
    by (rule power_like_trans [OF m(2) power_like_trans [OF h(2) d(2)]])
  ultimately show ?thesis using t(2) d(1) by blast
qed

lemma graph_name: "i \<le> 1 \<Longrightarrow> length pre \<le> 16 \<Longrightarrow> length (pre @ to_string (i + 1)) \<le> 30"
  using to_string_length [of "i + 1" 0] by simp

lemma min_graph_ok:
  assumes "power_ready p" and "i \<le> 1"
  shows "\<exists>t. get_min_power_graph i p = Some t \<and> length t \<le> 3050"
proof -
  let ?sp = "if i = 0 then pw_1 p else pw_2 p"
  have r: "\<forall>r \<in> set (sp_min ?sp). row_ok r" "sp_rm ?sp \<le> length (sp_min ?sp)" "sp_rm ?sp \<le> 30"
    using assms by (auto simp: power_ready_def ready_def rows_ok_def)
  have "length (''LAST_MIN_GRAPH_'' @ to_string (i + 1)) \<le> 30" by (rule graph_name [OF assms(2)]) simp
  from graph_short [OF r(1,2) this, of "sp_rm ?sp"] r(3) show ?thesis
    by (auto simp: get_min_power_graph_def Let_def intro: le_trans)
qed

lemma hour_graph_ok:
  assumes "power_ready p" and "i \<le> 1"
  shows "\<exists>t. get_hour_power_graph i p = Some t \<and> length t \<le> 6050"
proof -
  let ?sp = "if i = 0 then pw_1 p else pw_2 p"
  have r: "\<forall>r \<in> set (sp_hour ?sp). row_ok r" "sp_fh ?sp \<le> length (sp_hour ?sp)" "sp_fh ?sp \<le> 60"
    using assms by (auto simp: power_ready_def ready_def rows_ok_def)
  have "length (''LAST_HOUR_GRAPH_'' @ to_string (i + 1)) \<le> 30" by (rule graph_name [OF assms(2)]) simp
  from graph_short [OF r(1,2) this, of "sp_rh ?sp"] r(3) show ?thesis
    by (auto simp: get_hour_power_graph_def Let_def intro: le_trans)
qed

lemma day_graph_0_ok:
  assumes "power_ready p" and "sp_fd (pw_1 p) \<le> 24"
  shows "\<exists>t. get_day_power_graph 0 p = Some t \<and> length t \<le> 2450"
proof -
  have r: "\<forall>r \<in> set (sp_day (pw_1 p)). row_ok r" "sp_fd (pw_1 p) \<le> length (sp_day (pw_1 p))"
    using assms by (auto simp: power_ready_def ready_def rows_ok_def)
  from graph_short [OF r, of "''LAST_DAY_GRAPH_1''" "sp_rd (pw_1 p)"] assms(2) show ?thesis
    by (auto simp: get_day_power_graph_def intro: le_trans)
qed

lemma day_graph_1_ok:
  assumes "power_ready p"
  shows "sp_fd (pw_2 p) \<le> 24 \<Longrightarrow> \<exists>t. get_day_power_graph 1 p = Some t \<and> length t \<le> 2450"
    and "sp_fd (pw_2 p) > 24 \<Longrightarrow> sp_rd (pw_2 p) \<noteq> 0 \<Longrightarrow> get_day_power_graph 1 p = None"
proof -
  let ?rows = "take (sp_fd (pw_2 p)) (sp_day (pw_2 p))"
  have l: "length (sp_day (pw_2 p)) = 24" "\<forall>r \<in> set ?rows. row_ok r"
    using assms by (auto simp: power_ready_def ready_def rows_ok_def dest: in_set_takeD)
  have e: "(\<forall>l \<in> set (graph_entries [] ?rows). length l < 100)
    \<and> length (concat (graph_entries [] ?rows)) \<le> 100 * length ?rows"
    by (rule graph_entries_short [OF l(2)]) simp
  show "\<exists>t. get_day_power_graph 1 p = Some t \<and> length t \<le> 2450" if "sp_fd (pw_2 p) \<le> 24"
    using that l(1) e
    by (auto simp: get_day_power_graph_def Let_def emit_lines_def line_lengths bracket_length)
  show "get_day_power_graph 1 p = None" if "sp_fd (pw_2 p) > 24" "sp_rd (pw_2 p) \<noteq> 0"
    using that l(1) by (simp add: get_day_power_graph_def Let_def)
qed

lemma part_ok: "t = Some s \<Longrightarrow> length s \<le> 7000 \<Longrightarrow> report_part t = Some (s @ text_line (tabs 1 @ '',''))"
  by (simp add: report_part_def in_buf_def)

lemma whole_report_ok:
  assumes "power_ready p" and "sp_fd (pw_1 p) \<le> 24"
  shows "sp_fd (pw_2 p) \<le> 24 \<Longrightarrow> whole_report p \<noteq> None"
    and "sp_fd (pw_2 p) > 24 \<Longrightarrow> sp_rd (pw_2 p) \<noteq> 0 \<Longrightarrow> whole_report p = None"
proof -
  obtain peak a where a: "get_power_peak p = Some (peak, a)" "length peak \<le> 1000" "power_ready a" "power_like p a"
    using peak_ok [OF assms(1)] by blast
  obtain cons q where q: "get_power_consumption a = Some (cons, q)" "length cons \<le> 3000" "power_ready q" "power_like a q"
    using consumption_ok [OF a(3)] by blast
  have like: "sp_fd (pw_1 q) = sp_fd (pw_1 p)" "sp_fd (pw_2 q) = sp_fd (pw_2 p)" "sp_rd (pw_2 q) = sp_rd (pw_2 p)"
    using power_like_trans [OF a(4) q(4)] by (auto simp: power_like_def same_rows_def)
  obtain m0 m1 where m: "get_min_power_graph 0 q = Some m0" "length m0 \<le> 3050"
    "get_min_power_graph 1 q = Some m1" "length m1 \<le> 3050"
    using min_graph_ok [OF q(3), of 0] min_graph_ok [OF q(3), of 1] by auto
  obtain h0 h1 where h: "get_hour_power_graph 0 q = Some h0" "length h0 \<le> 6050"
    "get_hour_power_graph 1 q = Some h1" "length h1 \<le> 6050"
    using hour_graph_ok [OF q(3), of 0] hour_graph_ok [OF q(3), of 1] by auto
  obtain d0 where d0: "get_day_power_graph 0 q = Some d0" "length d0 \<le> 2450"
    using day_graph_0_ok [OF q(3)] like(1) assms(2) by auto
  note parts = whole_report_def a(1) q(1) part_ok [OF refl] part_ok [OF m(1)] part_ok [OF m(3)] part_ok [OF h(1)]
    part_ok [OF h(3)] part_ok [OF d0(1)]
  show "whole_report p \<noteq> None" if "sp_fd (pw_2 p) \<le> 24"
  proof -
    have "sp_fd (pw_2 q) \<le> 24" using like(2) that by simp
    then obtain d1 where d1: "get_day_power_graph 1 q = Some d1" "length d1 \<le> 2450"
      using day_graph_1_ok(1) [OF q(3)] by blast
    have "in_buf (Some d1) = Some d1" using d1(2) by (simp add: in_buf_def)
    then show ?thesis
      using a(2) q(2) m(2,4) h(2,4) d0(2) d1 by (simp add: parts del: One_nat_def) (simp add: in_response_def line_lengths)
  qed
  show "whole_report p = None" if "sp_fd (pw_2 p) > 24" "sp_rd (pw_2 p) \<noteq> 0"
  proof -
    have "get_day_power_graph 1 q = None" using day_graph_1_ok(2) [OF q(3)] like that by simp
    then have "in_buf (get_day_power_graph 1 q) = None" by (simp add: in_buf_def)
    then show ?thesis
      using a(2) q(2) m(2,4) h(2,4) d0(2) by (simp add: parts in_response_def del: One_nat_def)
  qed
qed

text \<open>The whole report is defined exactly while the second day table holds at most 60 rows: with more,
  60 rows of an array of 24 are printed.\<close>

theorem report_defined:
  assumes "db_ok db" and "reorders order" and "stats_ok (pw_1 p)" and "stats_ok (pw_2 p)"
  shows "rest_power_usage order row junk db p \<noteq> None \<longleftrightarrow> sqlite_run (snd (db_day db)) \<le> 60"
proof -
  obtain q where q: "get_min_power_usage order row 0 db p = Some q" "power_ready q" "sp_fd (pw_1 q) \<le> 24"
    "sp_fd (pw_2 q) = day_rows_shown db p" "sp_rd (pw_2 q) = sqlite_run (snd (db_day db))"
    using load_all [OF assms, of row] by blast
  have e: "rest_power_usage order row junk db p = whole_report q"
    by (simp add: rest_power_usage_def q(1) get_power_response_def)
  have "sp_fd (pw_2 p) \<le> 24" using assms(4) by (simp add: stats_ok_def)
  then show ?thesis
    using whole_report_ok [OF q(2,3)]
    by (cases "sqlite_run (snd (db_day db)) > 60") (simp_all add: e q(4,5) day_rows_shown_def)
qed

end
