(* ===== verification/Power_Lifetime.thy ===== *)
theory Power_Lifetime
  imports Power_Properties
begin

text \<open>
  The power meter over time: the schedule of its tables, what they hold, what a restart overwrites,
  and for how long the report on them is defined.
\<close>

section \<open>Runs\<close>

lemma psu_all_run:
  assumes "psu_run ts s = Some s'" and "psu_all P s" and "power_watt1 s = 0" and "power_watt2 s = 0"
    and "\<And>t dt. time_function t = Some dt \<Longrightarrow> P 0 dt"
  shows "psu_all P s'"
  using assms(1-4)
proof (induction ts arbitrary: s)
  case (Cons q ts)
  obtain good t where q: "q = (good, t)" by (cases q)
  obtain u where u: "DoStuff good t s = Some u" "psu_run ts u = Some s'"
    using Cons.prems(1) by (auto simp: q bind_eq_Some_conv)
  have w: "power_watt1 (watch_power_good good s) = 0" "power_watt2 (watch_power_good good s) = 0"
    using Cons.prems(3,4) by (simp_all add: watch_power_good_def)
  have "psu_all P u \<and> power_watt1 u = 0 \<and> power_watt2 u = 0"
    using psu_all_step [OF Cons.prems(2) u(1)] assms(5) w by simp
  then show ?case using Cons.IH [OF u(2)] by simp
qed simp

lemma psu_all_fresh: "psu_all P psu_fresh"
  by (simp add: psu_all_def ring_all_def psu_fresh_eq Let_def)

lemma fresh_watts [simp]: "power_watt1 psu_fresh = 0" "power_watt2 psu_fresh = 0"
  by (simp_all add: psu_fresh_eq Let_def)

lemma run_at: "psu_run ts psu_fresh = Some s \<Longrightarrow> psu_at (length ts) s"
  using psu_at_run [OF _ psu_fresh_at, of ts s] by simp

lemma run_holds: "psu_run ts psu_fresh = Some s \<Longrightarrow> psu_all (\<lambda>w dt. w = 0 \<and> length dt = 19) s"
  by (rule psu_all_run [OF _ psu_all_fresh]) (simp_all add: time_function_length)

lemma ring_at_rows:
  "ring_at n c r \<Longrightarrow> \<exists>rows. rg_table r = Some rows \<and> length rows = min n c \<and> row_ids rows"
  using ring_ok_table [of n r] ring_okD(2) [of n r] by (auto simp: ring_at_def samples_length)

text \<open>From the first start on empty tables, of \<open>k\<close> rounds every third fills the minutes, every
  twelfth the hours and every 132nd the days, up to the size of the table; and since nothing reads
  the sensors, every value kept is 0.\<close>

theorem meter_schedule:
  assumes "psu_run ts psu_fresh = Some s"
  shows "map (\<lambda>r. length (samples_of r)) [min_1 s, hour_1 s, day_1 s]
      = [min 30 ((length ts - 1) div 3), min 600 (((length ts - 1) div 3 - 1) div 4),
         min 1440 ((((length ts - 1) div 3 - 1) div 4 - 1) div 11)]
    \<and> map (\<lambda>r. length (samples_of r)) [min_2 s, hour_2 s, day_2 s]
      = map (\<lambda>r. length (samples_of r)) [min_1 s, hour_1 s, day_1 s]
    \<and> psu_all (\<lambda>w dt. w = 0) s"
proof -
  have "psu_all (\<lambda>w dt. w = 0) s"
    by (rule psu_all_run [OF assms(1) psu_all_fresh]) simp_all
  then show ?thesis
    using run_at [OF assms(1)]
    by (simp add: psu_at_def minutes_at_def hours_at_def days_at_def ring_at_def minute_stores_def
        hour_stores_def day_stores_def laps_def)
qed

definition noon :: tm where
  "noon = \<lparr>tm_year = 124, tm_mon = 2, tm_mday = 9, tm_hour = 12, tm_min = 0, tm_sec = 0\<rparr>"

lemma noon_text: "time_function noon = Some ''2024-03-09 12:00:00''"
  by (simp add: time_function_def noon_def narrow8_def two_digits_def to_string.simps digit_chars_def Let_def)

lemma noon_step: "\<exists>s'. DoStuff good noon s = Some s'"
  by (simp add: DoStuff_def noon_text Let_def)

lemma noon_runs: "\<exists>s'. psu_run (replicate n (good, noon)) s = Some s'"
proof (induction n arbitrary: s)
  case (Suc n)
  obtain u where "DoStuff good noon s = Some u" using noon_step by blast
  then show ?case using Suc.IH [of u] by simp
qed simp

theorem meter_schedule_witness:
  "\<exists>s. psu_run (replicate 400 (True, noon)) psu_fresh = Some s
     \<and> length (samples_of (min_1 s)) = 30 \<and> length (samples_of (hour_1 s)) = 33 \<and> length (samples_of (day_1 s)) = 2"
proof -
  obtain s where s: "psu_run (replicate 400 (True, noon)) psu_fresh = Some s"
    using noon_runs [of 400 True psu_fresh] by blast
  then show ?thesis using meter_schedule [OF s] by simp
qed

section \<open>A table keeps the last samples\<close>

text \<open>C34. Whatever a table held, after any samples it holds the last of them, oldest first from the
  cursor on: the rows written in turn refine a window over the sequence of samples.\<close>

theorem table_keeps_last:
  assumes "ring_ok n r"
  shows "samples_of (fold (\<lambda>x. store_sample n (fst x) (snd x)) xs r)
    = drop (length (samples_of r) + length xs - n) (samples_of r @ xs)"
proof -
  have "(\<lambda>x. store_sample n (fst x) (snd x)) = store n" by (rule ext, rule ext) (simp add: store_def)
  then show ?thesis by (simp only: meter_window.last_samples [OF assms])
qed

theorem table_keeps_last_witness:
  "samples_of (fold (\<lambda>x. store_sample 2 (fst x) (snd x)) [(10, ''a''), (20, ''b''), (30, ''c'')]
     \<lparr>rg_cursor = 1, rg_table = Some []\<rparr>) = [(20, ''b''), (30, ''c'')]"
proof -
  have "ring_ok 2 \<lparr>rg_cursor = 1, rg_table = Some []\<rparr>" by (simp add: ring_ok_def row_ids_def)
  from table_keeps_last [OF this, of "[(10, ''a''), (20, ''b''), (30, ''c'')]"] show ?thesis
    by (simp add: samples_of_def)
qed

section \<open>A restart\<close>

lemma latest_index_keeps: "\<forall>t \<in> set ts. t \<le> m \<Longrightarrow> latest_index l i m ts = i"
  by (induction l i m ts rule: latest_index.induct) auto

lemma latest_index_max:
  assumes "j < length ts" and "\<forall>i < length ts. i \<noteq> j \<longrightarrow> ts ! i < ts ! j" and "m < ts ! j \<or> m = ts ! j \<and> i0 = l + j"
  shows "latest_index l i0 m ts = l + j"
  using assms
proof (induction ts arbitrary: l i0 m j)
  case (Cons t ts)
  show ?case
  proof (cases j)
    case 0
    have "\<forall>x \<in> set ts. x \<le> t"
    proof
      fix x assume "x \<in> set ts"
      then obtain i where "i < length ts" "x = ts ! i" by (auto simp: in_set_conv_nth)
      then show "x \<le> t" using Cons.prems(2) 0 by (auto dest: spec [of _ "Suc i"])
    qed
    then show ?thesis using 0 Cons.prems(3) by (auto simp: latest_index_keeps)
  next
    case (Suc k)
    have k: "k < length ts" "\<forall>i < length ts. i \<noteq> k \<longrightarrow> ts ! i < ts ! k"
      using Cons.prems(1,2) Suc by (auto dest: spec [of _ "Suc _"])
    have t: "t < ts ! k" using Cons.prems(2) Suc k(1) by (auto dest: spec [of _ 0])
    show ?thesis
      using Cons.IH [OF k, of t l "Suc l"] Cons.IH [OF k, of m i0 "Suc l"] t Cons.prems(3) Suc by auto
  qed
qed simp

lemma find_first_latest:
  assumes "j < length rows" and "\<forall>i < length rows. i \<noteq> j \<longrightarrow> secs (pu_dt (rows ! i)) < secs (pu_dt (rows ! j))"
    and "\<forall>r \<in> set rows. length (pu_dt r) < 100"
  shows "find_first_index secs 0 (length rows) (Some rows) = Some (int j + 1)"
proof -
  let ?ts = "map secs (map pu_dt rows)"
  have "latest_index 0 0 (hd ?ts) ?ts = 0 + j"
  proof (rule latest_index_max)
    show "j < length ?ts" "\<forall>i < length ?ts. i \<noteq> j \<longrightarrow> ?ts ! i < ?ts ! j" using assms(1,2) by auto
    have "rows \<noteq> []" using assms(1) by (metis less_nat_zero_code list.size(3))
    then have "hd ?ts = ?ts ! 0" by (simp add: hd_conv_nth)
    moreover have "0 < length rows" using \<open>rows \<noteq> []\<close> by simp
    ultimately show "hd ?ts < ?ts ! j \<or> hd ?ts = ?ts ! j \<and> 0 = 0 + j"
      using assms(1,2) by (cases "j = 0") (auto dest: spec [of _ 0])
  qed
  moreover have "rows \<noteq> []" using assms(1) by (metis less_nat_zero_code list.size(3))
  ultimately show ?thesis using assms(3) by (simp add: find_first_index_def Let_def not_le)
qed

text \<open>A restart on a full table sets the cursor to the newest row instead of the one after it: the
  first sample after the restart overwrites the newest sample, and the oldest one stays.\<close>

theorem restart_overwrites_newest:
  assumes "row_ids rows" and "length rows = n" and "j < n" and "\<forall>r \<in> set rows. length (pu_dt r) < 100"
    and "\<forall>i < n. i \<noteq> j \<longrightarrow> secs (pu_dt (rows ! i)) < secs (pu_dt (rows ! j))"
  shows "\<exists>r. with_cursor (find_first_index secs 0 (sqlite_run (Some rows)) (Some rows)) \<lparr>rg_cursor = c, rg_table = Some rows\<rparr> = Some r
    \<and> rg_table (store_sample n w dt r) = Some (rows[j := (rows ! j)\<lparr>pu_watt := w, pu_dt := dt\<rparr>])"
proof -
  have "find_first_index secs 0 (sqlite_run (Some rows)) (Some rows) = Some (int j + 1)"
    unfolding sqlite_run_def using find_first_latest [of j rows secs] assms by simp
  then show ?thesis
    using update_row_ids [OF assms(1), of j w dt] assms(2,3)
    by (simp add: with_cursor_def store_sample_def sqlite_run_def)
qed

theorem restart_overwrites_newest_witness:
  "\<exists>r. with_cursor (find_first_index (\<lambda>s. int (length s)) 0 2 (Some [\<lparr>pu_id = 1, pu_watt = 5, pu_dt = ''11''\<rparr>, \<lparr>pu_id = 2, pu_watt = 6, pu_dt = ''1''\<rparr>]))
       \<lparr>rg_cursor = 2, rg_table = Some [\<lparr>pu_id = 1, pu_watt = 5, pu_dt = ''11''\<rparr>, \<lparr>pu_id = 2, pu_watt = 6, pu_dt = ''1''\<rparr>]\<rparr> = Some r
     \<and> rg_table (store_sample 2 7 ''111'' r)
       = Some [\<lparr>pu_id = 1, pu_watt = 7, pu_dt = ''111''\<rparr>, \<lparr>pu_id = 2, pu_watt = 6, pu_dt = ''1''\<rparr>]"
proof -
  let ?rows = "[\<lparr>pu_id = 1, pu_watt = 5, pu_dt = ''11''\<rparr>, \<lparr>pu_id = 2, pu_watt = 6, pu_dt = ''1''\<rparr>]"
  have "row_ids ?rows" by (simp add: row_ids_def upt_rec)
  moreover have "\<forall>i < 2. i \<noteq> (0::nat) \<longrightarrow> int (length (pu_dt (?rows ! i))) < int (length (pu_dt (?rows ! 0)))"
    by (auto simp: less_Suc_eq numeral_2_eq_2)
  ultimately show ?thesis
    using restart_overwrites_newest [of ?rows 2 0 "\<lambda>s. int (length s)" 2 7 "''111''"]
    by (simp add: sqlite_run_def numeral_2_eq_2)
qed

section \<open>How long the report lasts\<close>

lemma ring_db_ok:
  assumes "ring_at n c r" and "ring_all (\<lambda>w dt. w = 0 \<and> length dt = 19) r" and "n \<le> 9000"
  shows "table_ok n (rg_table r)" "sqlite_run (rg_table r) = min n c"
proof -
  obtain rows where t: "rg_table r = Some rows" "length rows = min n c" "row_ids rows"
    using ring_at_rows [OF assms(1)] by blast
  have "row_ok (clip_watt x)" if "x \<in> set rows" for x
  proof -
    obtain i where i: "i < length rows" "x = rows ! i" using \<open>x \<in> set rows\<close> by (auto simp: in_set_conv_nth)
    then have "pu_id x = int i + 1" using row_ids_nth [OF t(3)] by simp
    moreover have "pu_watt x = 0" "length (pu_dt x) = 19" using assms(2) that t(1) by (simp_all add: ring_all_def)
    ultimately show ?thesis using i(1) t(2) assms(3) by (simp add: row_ok_def clip_watt_def)
  qed
  then show "table_ok n (rg_table r)" using t(1,2) by (simp add: table_ok_def)
  show "sqlite_run (rg_table r) = min n c" using t by (simp add: sqlite_run_def)
qed

lemma run_db:
  assumes "psu_run ts psu_fresh = Some s"
  shows "db_ok (psu_db s)" "sqlite_run (snd (db_day (psu_db s))) = min 1440 (day_stores (length ts))"
proof -
  have at: "minutes_at (minute_stores (length ts)) s" "hours_at (hour_stores (length ts)) s"
    "days_at (day_stores (length ts)) s"
    using run_at [OF assms] by (simp_all add: psu_at_def)
  note all = run_holds [OF assms]
  show "db_ok (psu_db s)"
    using at all ring_db_ok(1) unfolding minutes_at_def hours_at_def days_at_def psu_all_def
    by (auto simp: db_ok_def psu_db_def)
  show "sqlite_run (snd (db_day (psu_db s))) = min 1440 (day_stores (length ts))"
    using at(3) all ring_db_ok(2) [of 1440 _ "day_2 s"] by (simp add: psu_db_def days_at_def psu_all_def)
qed

lemma laps_bound: "0 < N \<Longrightarrow> laps N k \<le> c \<longleftrightarrow> k \<le> Suc c * N"
proof -
  assume N: "0 < N"
  then have "laps N k < Suc c \<longleftrightarrow> k - 1 < Suc c * N" unfolding laps_def by (rule div_less_iff_less_mult)
  moreover have "0 < Suc c * N" using N by simp
  ultimately show ?thesis by linarith
qed

lemma zero_stats_ok: "stats_ok zero_supply"
  by (simp add: stats_ok_def zero_supply_def)

text \<open>C18. The sampler and the report together: on a controller that samples every 10 seconds from empty
  tables the report is defined for the first 8067 samples - a little over 22 hours - and never
  again.\<close>

theorem report_lifetime:
  assumes "psu_run ts psu_fresh = Some s" and "reorders order"
  shows "rest_power_usage order row junk (psu_db s) zero_power \<noteq> None \<longleftrightarrow> length ts < 8068"
proof -
  have "rest_power_usage order row junk (psu_db s) zero_power \<noteq> None \<longleftrightarrow> day_stores (length ts) \<le> 60"
    using report_defined [OF run_db(1) [OF assms(1)] assms(2), of zero_power] zero_stats_ok
    by (simp add: run_db(2) [OF assms(1)] zero_power_def min_le_iff_disj)
  also have "\<dots> \<longleftrightarrow> length ts < 8068"
    unfolding day_stores_def hour_stores_def minute_stores_def by (auto simp: laps_bound)
  finally show ?thesis .
qed

theorem report_lifetime_witness:
  "\<exists>s. psu_run (replicate 8067 (True, noon)) psu_fresh = Some s
     \<and> rest_power_usage (\<lambda>r. r) zero_usage [] (psu_db s) zero_power \<noteq> None
     \<and> (\<exists>s'. psu_run (replicate 8068 (True, noon)) psu_fresh = Some s'
       \<and> rest_power_usage (\<lambda>r. r) zero_usage [] (psu_db s') zero_power = None)"
proof -
  obtain s s' where s: "psu_run (replicate 8067 (True, noon)) psu_fresh = Some s"
    "psu_run (replicate 8068 (True, noon)) psu_fresh = Some s'"
    using noon_runs by metis
  have r: "reorders (\<lambda>r. r)" by (simp add: reorders_def)
  have "rest_power_usage (\<lambda>r. r) zero_usage [] (psu_db s) zero_power \<noteq> None"
    using report_lifetime [OF s(1) r, of zero_usage "[]"] by (simp del: not_None_eq)
  moreover have "rest_power_usage (\<lambda>r. r) zero_usage [] (psu_db s') zero_power = None"
    using report_lifetime [OF s(2) r, of zero_usage "[]"] by (simp del: not_None_eq)
  ultimately show ?thesis using s by blast
qed

end
