(* ===== verification/Ssdp.thy ===== *)
theory Ssdp
  imports Redfish_Util
begin

text \<open>
  The discovery service of KETI-Edge/lssdp.cpp and its thread in KETI-Edge/khandler.cpp: the
  controller announces itself on the multicast address, answers searches and keeps a list of the
  neighbours it hears of. A C string in an array is its text; the sockets, the interfaces the kernel
  lists and the clock are inputs. Memory allocation is taken to succeed, and the callbacks are the
  ones the thread installs: a change of the interfaces opens the socket anew, the other two print.
\<close>

section \<open>Data\<close>

definition LSSDP_FIELD_LEN :: nat where "LSSDP_FIELD_LEN = 128"
definition LSSDP_LOCATION_LEN :: nat where "LSSDP_LOCATION_LEN = 256"
definition LSSDP_BUFFER_LEN :: nat where "LSSDP_BUFFER_LEN = 2048"
definition LSSDP_INTERFACE_LIST_SIZE :: nat where "LSSDP_INTERFACE_LIST_SIZE = 16"

datatype ssdp_method = MSEARCH | NOTIFY | RESPONSE

record ssdp_packet =
  pk_method :: ssdp_method
  pk_st :: string
  pk_usn :: string
  pk_location :: string
  pk_sm_id :: string
  pk_dev :: string
  pk_time :: int

record neighbor =
  nb_usn :: string
  nb_location :: string
  nb_sm_id :: string
  nb_dev :: string
  nb_time :: int

text \<open>Addresses and masks are compared and masked only, so their byte order does not matter; they are
  written here with the first byte on top.\<close>

record ssdp_interface =
  if_name :: string
  if_ip :: string
  if_addr :: u32
  if_mask :: u32

record ssdp_header =
  hd_st :: string
  hd_usn :: string
  hd_prefix :: string
  hd_domain :: string
  hd_suffix :: string
  hd_sm_id :: string
  hd_dev :: string

record ssdp =
  sx_sock :: int
  sx_port :: nat
  sx_nbrs :: "neighbor list"
  sx_timeout :: int
  sx_ifs :: "ssdp_interface list"
  sx_hdr :: ssdp_header

text \<open>What the service does to the outside: datagrams, and the call-back for a changed list.\<close>

datatype ssdp_out = Multicast ssdp_interface string | Unicast u32 string | List_Changed

section \<open>Texts\<close>

definition crlf :: string where
  "crlf = [CHR 0x0D, CHR 0x0A]"

definition line_of :: "string \<Rightarrow> string \<Rightarrow> string" where
  "line_of k v = k @ CHR '':'' # v @ crlf"

definition HEADER_MSEARCH :: string where "HEADER_MSEARCH = ''M-SEARCH * HTTP/1.1'' @ crlf"
definition HEADER_NOTIFY :: string where "HEADER_NOTIFY = ''NOTIFY * HTTP/1.1'' @ crlf"
definition HEADER_RESPONSE :: string where "HEADER_RESPONSE = ''HTTP/1.1 200 OK'' @ crlf"
definition ADDR_MULTICAST :: string where "ADDR_MULTICAST = ''239.255.255.250''"
definition ADDR_LOCALHOST :: u32 where "ADDR_LOCALHOST = 0x0A00066B"

definition host_line :: "nat \<Rightarrow> string" where
  "host_line port = line_of ''HOST'' (ADDR_MULTICAST @ CHR '':'' # to_string port)"

definition location_of :: "ssdp_header \<Rightarrow> ssdp_interface \<Rightarrow> string" where
  "location_of h i = hd_prefix h @ (if hd_domain h \<noteq> [] then hd_domain h else if_ip i) @ hd_suffix h"

definition msearch_text :: "ssdp \<Rightarrow> string" where
  "msearch_text x = HEADER_MSEARCH @ host_line (sx_port x) @ line_of ''MAN'' (CHR 0x22 # ''ssdp:discover'' @ [CHR 0x22])
     @ line_of ''MX'' ''1'' @ line_of ''ST'' (hd_st (sx_hdr x))
     @ line_of ''USER-AGENT'' ''OS/version product/version'' @ crlf"

definition notify_text :: "ssdp \<Rightarrow> ssdp_interface \<Rightarrow> string" where
  "notify_text x i = (let h = sx_hdr x in HEADER_NOTIFY @ host_line (sx_port x) @ line_of ''CACHE-CONTROL'' ''max-age=120''
     @ line_of ''LOCATION'' (location_of h i) @ line_of ''SERVER'' ''OS/version product/version''
     @ line_of ''NT'' (hd_st h) @ line_of ''NTS'' ''ssdp:alive'' @ line_of ''USN'' (hd_usn h)
     @ line_of ''SM_ID'' (hd_sm_id h) @ line_of ''DEV_TYPE'' (hd_dev h) @ crlf)"

definition response_text :: "ssdp \<Rightarrow> ssdp_interface \<Rightarrow> string" where
  "response_text x i = (let h = sx_hdr x in HEADER_RESPONSE @ line_of ''CACHE-CONTROL'' ''max-age=120'' @ line_of ''DATE'' []
     @ line_of ''EXT'' [] @ line_of ''LOCATION'' (location_of h i) @ line_of ''SERVER'' ''OS/version product/version''
     @ line_of ''ST'' (hd_st h) @ line_of ''USN'' (hd_usn h) @ line_of ''SM_ID'' (hd_sm_id h)
     @ line_of ''DEV_TYPE'' (hd_dev h) @ crlf)"

text \<open>\<open>snprintf\<close> into a buffer of \<open>LSSDP_BUFFER_LEN\<close> characters.\<close>

definition in_buffer :: "string \<Rightarrow> string" where
  "in_buffer t = take (LSSDP_BUFFER_LEN - 1) t"

section \<open>The parser\<close>

definition isprint :: "char \<Rightarrow> bool" where
  "isprint c \<longleftrightarrow> 0x20 \<le> (of_char c :: nat) \<and> (of_char c :: nat) \<le> 0x7E"

definition trimmed :: "char \<Rightarrow> bool" where
  "trimmed c \<longleftrightarrow> \<not> isprint c \<or> is_space c"

function get_colon_index :: "string \<Rightarrow> nat \<Rightarrow> nat \<Rightarrow> nat option" where
  "get_colon_index s i e = (if i > e then None else if s ! i = CHR '':'' then Some i else get_colon_index s (Suc i) e)"
  by pat_completeness auto

termination get_colon_index
  by (relation "measure (\<lambda>(s, i, e). Suc e - i)") auto

function trim_up :: "string \<Rightarrow> nat \<Rightarrow> nat \<Rightarrow> nat" where
  "trim_up s i e = (if i \<le> e \<and> trimmed (s ! i) then trim_up s (Suc i) e else i)"
  by pat_completeness auto

termination trim_up
  by (relation "measure (\<lambda>(s, i, e). Suc e - i)") auto

text \<open>Every use has a start above 0, so the index does not pass below 0.\<close>

fun trim_down :: "string \<Rightarrow> nat \<Rightarrow> nat \<Rightarrow> nat" where
  "trim_down s 0 b = 0"
| "trim_down s (Suc j) b = (if b \<le> Suc j \<and> trimmed (s ! Suc j) then trim_down s j b else Suc j)"

declare get_colon_index.simps [simp del] trim_up.simps [simp del] trim_down.simps [simp del]

definition trim_spaces :: "string \<Rightarrow> nat \<Rightarrow> nat \<Rightarrow> (nat \<times> nat) option" where
  "trim_spaces s b e = (let i = trim_up s b e; j = trim_down s e b in if i > j then None else Some (i, j))"

definition slice :: "string \<Rightarrow> nat \<Rightarrow> nat \<Rightarrow> string" where
  "slice s i j = take (j - i + 1) (drop i s)"

definition lower :: "char \<Rightarrow> char" where
  "lower c = (if 65 \<le> (of_char c :: nat) \<and> (of_char c :: nat) \<le> 90 then char_of (of_char c + 32 :: nat) else c)"

text \<open>\<open>memcpy\<close> over the text an array already holds: a shorter value leaves the end of a longer one.\<close>

definition copy_value :: "nat \<Rightarrow> string \<Rightarrow> string \<Rightarrow> string" where
  "copy_value n v old = (let v = take (if length v < n then length v else n - 1) v in v @ drop (length v) old)"

definition set_field :: "string \<Rightarrow> string \<Rightarrow> ssdp_packet \<Rightarrow> ssdp_packet" where
  "set_field field value p = (
     let f = map lower field in
     if f = ''st'' \<or> f = ''nt'' then p\<lparr>pk_st := copy_value LSSDP_FIELD_LEN value (pk_st p)\<rparr>
     else if f = ''usn'' then p\<lparr>pk_usn := copy_value LSSDP_FIELD_LEN value (pk_usn p)\<rparr>
     else if f = ''location'' then p\<lparr>pk_location := copy_value LSSDP_LOCATION_LEN value (pk_location p)\<rparr>
     else if f = ''sm_id'' then p\<lparr>pk_sm_id := copy_value LSSDP_FIELD_LEN value (pk_sm_id p)\<rparr>
     else if f = ''dev_type'' then p\<lparr>pk_dev := copy_value LSSDP_FIELD_LEN value (pk_dev p)\<rparr>
     else p)"

text \<open>All reads lie between the two indices; the return value is ignored.\<close>

definition parse_field_line :: "string \<Rightarrow> nat \<Rightarrow> nat \<Rightarrow> ssdp_packet \<Rightarrow> ssdp_packet cres" where
  "parse_field_line s b e p = (
     if \<not> (b \<le> e \<and> e < length s) then Ub
     else if s ! b = CHR '':'' then Ret p
     else case get_colon_index s (b + 1) e of None \<Rightarrow> Ret p
     | Some colon \<Rightarrow>
         if colon = e then Ret p
         else case trim_spaces s b (colon - 1) of None \<Rightarrow> Ret p
         | Some (i, j) \<Rightarrow> (case trim_spaces s (colon + 1) e of None \<Rightarrow> Ret p
           | Some (k, l) \<Rightarrow> Ret (set_field (slice s i j) (slice s k l) p)))"

function field_lines :: "string \<Rightarrow> nat \<Rightarrow> nat \<Rightarrow> ssdp_packet \<Rightarrow> ssdp_packet cres" where
  "field_lines s start i p =
     (if i \<ge> length s then Ret p
      else if s ! i = CHR 0x0A \<and> i - 1 > start \<and> s ! (i - 1) = CHR 0x0D then
        (case parse_field_line s start (i - 2) p of Ret p \<Rightarrow> field_lines s (i + 1) (i + 1) p
         | Fail e \<Rightarrow> Fail e | Ub \<Rightarrow> Ub)
      else field_lines s start (i + 1) p)"
  by pat_completeness auto

termination field_lines
  by (relation "measure (\<lambda>(s, start, i, p). length s - i)") auto

declare field_lines.simps [simp del]

definition has_header :: "string \<Rightarrow> string \<Rightarrow> bool" where
  "has_header h s \<longleftrightarrow> length h < length s \<and> take (length h) s = h"

definition method_of :: "string \<Rightarrow> (ssdp_method \<times> nat) option" where
  "method_of s = (if has_header HEADER_MSEARCH s then Some (MSEARCH, length HEADER_MSEARCH)
     else if has_header HEADER_NOTIFY s then Some (NOTIFY, length HEADER_NOTIFY)
     else if has_header HEADER_RESPONSE s then Some (RESPONSE, length HEADER_RESPONSE) else None)"

text \<open>\<open>strlen\<close> of the received bytes: a full buffer without a null character has none.\<close>

definition lssdp_packet_parser :: "int \<Rightarrow> string \<Rightarrow> ssdp_packet cres" where
  "lssdp_packet_parser now s = (
     if CHR 0x00 \<in> set s then Fail (- 1)
     else if length s \<ge> LSSDP_BUFFER_LEN then Ub
     else case method_of s of None \<Rightarrow> Fail (- 1)
     | Some (m, i) \<Rightarrow>
         (case field_lines s i i \<lparr>pk_method = m, pk_st = [], pk_usn = [], pk_location = [], pk_sm_id = [],
              pk_dev = [], pk_time = 0\<rparr> of
            Ret p \<Rightarrow> if now < 0 then Fail (- 1) else Ret (p\<lparr>pk_time := now\<rparr>)
          | Fail e \<Rightarrow> Fail e | Ub \<Rightarrow> Ub))"

section \<open>The neighbours\<close>

definition changed :: "bool \<Rightarrow> ssdp_out list" where
  "changed b = (if b then [List_Changed] else [])"

text \<open>The first neighbour at the location is updated, and whether one was found and its data differ.\<close>

fun update_neighbor :: "ssdp_packet \<Rightarrow> neighbor list \<Rightarrow> (neighbor list \<times> bool) option" where
  "update_neighbor p [] = None"
| "update_neighbor p (n # ns) =
     (if nb_location n = pk_location p then
        Some (n\<lparr>nb_usn := pk_usn p, nb_sm_id := pk_sm_id p, nb_dev := pk_dev p, nb_time := pk_time p\<rparr> # ns,
          nb_usn n \<noteq> pk_usn p \<or> nb_sm_id n \<noteq> pk_sm_id p \<or> nb_dev n \<noteq> pk_dev p)
      else map_option (\<lambda>(ms, b). (n # ms, b)) (update_neighbor p ns))"

definition neighbor_list_add :: "ssdp_packet \<Rightarrow> ssdp \<Rightarrow> ssdp \<times> ssdp_out list" where
  "neighbor_list_add p x = (case update_neighbor p (sx_nbrs x) of
     Some (ns, b) \<Rightarrow> (x\<lparr>sx_nbrs := ns\<rparr>, changed b)
   | None \<Rightarrow> (x\<lparr>sx_nbrs := sx_nbrs x @ [\<lparr>nb_usn = pk_usn p, nb_location = pk_location p,
       nb_sm_id = pk_sm_id p, nb_dev = pk_dev p, nb_time = pk_time p\<rparr>]\<rparr>, changed True))"

definition lssdp_neighbor_remove_all :: "ssdp \<Rightarrow> ssdp \<times> ssdp_out list" where
  "lssdp_neighbor_remove_all x = (if sx_nbrs x = [] then (x, []) else (x\<lparr>sx_nbrs := []\<rparr>, [List_Changed]))"

fun drop_timeout :: "int \<Rightarrow> int \<Rightarrow> neighbor list \<Rightarrow> neighbor list \<times> bool" where
  "drop_timeout now limit [] = ([], False)"
| "drop_timeout now limit (n # ns) = (
     let (ms, b) = drop_timeout now limit ns in
     if now - nb_time n < limit then (n # ms, b) else (ms, True))"

definition lssdp_neighbor_check_timeout :: "int \<Rightarrow> ssdp \<Rightarrow> ssdp \<times> ssdp_out list" where
  "lssdp_neighbor_check_timeout now x = (
     if sx_timeout x \<le> 0 \<or> now < 0 then (x, [])
     else let (ns, b) = drop_timeout now (sx_timeout x) (sx_nbrs x) in (x\<lparr>sx_nbrs := ns\<rparr>, changed b))"

section \<open>Sockets and interfaces\<close>

text \<open>What the system calls give: a descriptor, whether it could be set up, and whether closing the
  old and the new descriptor works.\<close>

record ssdp_os =
  os_fd :: int
  os_setup :: bool
  os_close :: bool
  os_close_new :: bool

definition lssdp_socket_close :: "bool \<Rightarrow> ssdp \<Rightarrow> int \<times> ssdp \<times> ssdp_out list" where
  "lssdp_socket_close ok x = (
     if sx_sock x > 0 \<and> \<not> ok then (- 1, x, [])
     else let (y, os) = lssdp_neighbor_remove_all (x\<lparr>sx_sock := - 1\<rparr>) in (0, y, os))"

definition lssdp_socket_create :: "ssdp_os \<Rightarrow> ssdp \<Rightarrow> int \<times> ssdp \<times> ssdp_out list" where
  "lssdp_socket_create os x = (
     if sx_port x = 0 then (- 1, x, [])
     else let (_, y, o1) = lssdp_socket_close (os_close os) x; y = y\<lparr>sx_sock := os_fd os\<rparr> in
       if os_fd os < 0 then (- 1, y, o1)
       else if os_setup os then (0, y, o1)
       else let (_, z, o2) = lssdp_socket_close (os_close_new os) y in (- 1, z, o1 @ o2))"

text \<open>An entry of the kernel's list: its family, name, address as text and number, and its mask.\<close>

record if_entry =
  en_inet :: bool
  en_name :: string
  en_ip :: "string option"
  en_addr :: u32
  en_mask :: "u32 option"

fun collect_interfaces :: "if_entry list \<Rightarrow> ssdp_interface list \<Rightarrow> ssdp_interface list" where
  "collect_interfaces [] ifs = ifs"
| "collect_interfaces (e # es) ifs = collect_interfaces es
     (case (en_inet e, en_ip e, en_mask e) of
        (True, Some ip, Some m) \<Rightarrow>
          if length ifs \<ge> LSSDP_INTERFACE_LIST_SIZE then ifs
          else ifs @ [\<lparr>if_name = take 15 (en_name e), if_ip = take 15 ip, if_addr = en_addr e, if_mask = m\<rparr>]
      | _ \<Rightarrow> ifs)"

text \<open>The array that is compared.\<close>

definition interface_array :: "ssdp_interface list \<Rightarrow> ssdp_interface list" where
  "interface_array ifs = ifs @ replicate (LSSDP_INTERFACE_LIST_SIZE - length ifs)
     \<lparr>if_name = [], if_ip = [], if_addr = 0, if_mask = 0\<rparr>"

definition lssdp_network_interface_update ::
    "if_entry list option \<Rightarrow> ssdp_os \<Rightarrow> ssdp \<Rightarrow> int \<times> ssdp \<times> ssdp_out list" where
  "lssdp_network_interface_update scan os x = (
     let y = x\<lparr>sx_ifs := (case scan of None \<Rightarrow> [] | Some es \<Rightarrow> collect_interfaces es [])\<rparr>;
         result = (case scan of None \<Rightarrow> - 1 | Some _ \<Rightarrow> 0)
     in if interface_array (sx_ifs x) = interface_array (sx_ifs y) then (result, y, [])
        else let (z, o1) = lssdp_neighbor_remove_all y; (_, w, o2) = lssdp_socket_create os z
             in (result, w, o1 @ o2))"

section \<open>Sending and receiving\<close>

definition send_multicast_data :: "string \<Rightarrow> ssdp_interface \<Rightarrow> ssdp_out list" where
  "send_multicast_data t i = (if t = [] \<or> if_name i = [] then [] else [Multicast i t])"

definition lssdp_send_msearch :: "ssdp \<Rightarrow> ssdp_out list" where
  "lssdp_send_msearch x = (
     if sx_port x = 0 then []
     else concat (map (\<lambda>i. if if_addr i = ADDR_LOCALHOST then []
            else send_multicast_data (in_buffer (msearch_text x)) i) (sx_ifs x)))"

definition lssdp_send_notify :: "ssdp \<Rightarrow> ssdp_out list" where
  "lssdp_send_notify x = (
     if sx_port x = 0 then []
     else concat (map (\<lambda>i. if if_addr i = ADDR_LOCALHOST then []
            else send_multicast_data (in_buffer (notify_text x i)) i) (sx_ifs x)))"

definition find_interface_in_LAN :: "ssdp \<Rightarrow> u32 \<Rightarrow> ssdp_interface option" where
  "find_interface_in_LAN x a = find (\<lambda>i. if_addr i AND if_mask i = a AND if_mask i) (sx_ifs x)"

text \<open>The reply is sent with the length \<open>snprintf\<close> would have needed, from a buffer of 2048.\<close>

definition lssdp_send_response :: "u32 \<Rightarrow> ssdp \<Rightarrow> ssdp_out list option" where
  "lssdp_send_response a x = (case find_interface_in_LAN x a of
     None \<Rightarrow> Some []
   | Some i \<Rightarrow> let t = response_text x i in
       if length t > LSSDP_BUFFER_LEN then None
       else Some [Unicast a (if length t = LSSDP_BUFFER_LEN then in_buffer t @ [CHR 0x00] else t)])"

text \<open>The loop that should skip packets from the controller itself only leaves itself, so it has no
  effect. A received datagram is its sender and its bytes; \<open>None\<close> is an error of \<open>recvfrom\<close>.\<close>

definition lssdp_socket_read ::
    "int \<Rightarrow> (u32 \<times> string) option \<Rightarrow> ssdp \<Rightarrow> (int \<times> ssdp \<times> ssdp_out list) option" where
  "lssdp_socket_read now dgram x = (
     if sx_sock x \<le> 0 \<or> sx_port x = 0 then Some (- 1, x, [])
     else case dgram of None \<Rightarrow> Some (- 1, x, [])
     | Some (a, s) \<Rightarrow>
         (case lssdp_packet_parser now (take LSSDP_BUFFER_LEN s) of
            Ub \<Rightarrow> None
          | Fail _ \<Rightarrow> Some (0, x, [])
          | Ret p \<Rightarrow>
              if pk_st p \<noteq> hd_st (sx_hdr x) then Some (0, x, [])
              else if pk_method p = MSEARCH then map_option (\<lambda>os. (0, x, os)) (lssdp_send_response a x)
              else let (y, os) = neighbor_list_add p x in Some (0, y, os)))"

section \<open>The thread\<close>

text \<open>One round of \<open>ssdp_handler\<close>: the result of \<open>select\<close>, the datagram, the three readings of the clock,
  the interfaces and the sockets. \<open>FD_SET\<close> on a descriptor that is not there is undefined.\<close>

record ssdp_input =
  in_select :: int
  in_dgram :: "(u32 \<times> string) option"
  in_t_read :: int
  in_now :: int
  in_t_check :: int
  in_scan :: "if_entry list option"
  in_os :: ssdp_os

datatype 'a outcome = Running 'a | Stopped

definition ssdp_start :: "string \<Rightarrow> string \<Rightarrow> ssdp" where
  "ssdp_start domain port = \<lparr>sx_sock = 0, sx_port = 1900, sx_nbrs = [], sx_timeout = 15000, sx_ifs = [],
     sx_hdr = \<lparr>hd_st = ''BMC-CM1'', hd_usn = ''CM1'', hd_prefix = ''http://'', hd_domain = domain,
       hd_suffix = port, hd_sm_id = ''CM1_TYPE'', hd_dev = []\<rparr>\<rparr>"

definition ssdp_tasks :: "ssdp_input \<Rightarrow> ssdp \<Rightarrow> ssdp \<times> ssdp_out list" where
  "ssdp_tasks v x = (
     let (_, y, o1) = lssdp_network_interface_update (in_scan v) (in_os v) x;
         o2 = lssdp_send_msearch y; o3 = lssdp_send_notify y;
         (z, o4) = lssdp_neighbor_check_timeout (in_t_check v) y
     in (z, o1 @ o2 @ o3 @ o4))"

definition ssdp_round ::
    "ssdp_input \<Rightarrow> ssdp \<times> int \<Rightarrow> ((ssdp \<times> int) \<times> ssdp_out list) outcome option" where
  "ssdp_round v s = (
     let (x, last) = s in
     if sx_sock x < 0 then None
     else if in_select v < 0 then Some Stopped
     else case (if in_select v > 0 then lssdp_socket_read (in_t_read v) (in_dgram v) x else Some (0, x, [])) of
       None \<Rightarrow> None
     | Some (_, y, o1) \<Rightarrow>
         if in_now v < 0 then Some Stopped
         else if in_now v - last \<ge> 3500 then
           (let (z, o2) = ssdp_tasks v y in Some (Running ((z, in_now v), o1 @ o2)))
         else Some (Running ((y, last), o1)))"

end
