(* ===== verification/Ssdp_Facts.thy ===== *)
theory Ssdp_Facts
  imports Ssdp
begin

text \<open>
  Facts about the discovery service: the index arithmetic of the parser as operations on the text of
  a line, and the list of neighbours as a map in which entries expire.
\<close>

section \<open>A line as a text\<close>

definition seg :: "string \<Rightarrow> nat \<Rightarrow> nat \<Rightarrow> string" where
  "seg s b e = take (Suc e - b) (drop b s)"

lemma seg_empty [simp]: "e < b \<Longrightarrow> seg s b e = []"
  by (simp add: seg_def)

lemma seg_first: "b \<le> e \<Longrightarrow> e < length s \<Longrightarrow> seg s b e = s ! b # seg s (Suc b) e"
  by (simp add: seg_def Cons_nth_drop_Suc [symmetric] Suc_diff_le)

lemma seg_last: "b \<le> Suc e \<Longrightarrow> Suc e < length s \<Longrightarrow> seg s b (Suc e) = seg s b e @ [s ! Suc e]"
  by (simp add: seg_def Suc_diff_le take_Suc_conv_app_nth)

lemma length_seg [simp]: "e < length s \<Longrightarrow> length (seg s b e) = Suc e - b"
  by (simp add: seg_def)

lemma seg_seg: "i \<le> j \<Longrightarrow> b \<le> i \<Longrightarrow> j \<le> e \<Longrightarrow> seg s i j = take (Suc j - i) (drop (i - b) (seg s b e))"
  by (simp add: seg_def drop_take min_def)

lemma slice_seg: "i \<le> j \<Longrightarrow> slice s i j = seg s i j"
  by (simp add: slice_def seg_def Suc_diff_le)

lemma get_colon_index_seg:
  assumes "e < length s" and "i \<le> Suc e"
  shows "get_colon_index s i e = (let k = length (takeWhile (\<lambda>c. c \<noteq> CHR '':'') (seg s i e)) in
    if k < Suc e - i then Some (i + k) else None)"
  using assms
proof (induction s i e rule: get_colon_index.induct)
  case (1 s i e)
  show ?case
  proof (cases "i \<le> e")
    case True
    then show ?thesis using 1 seg_first [OF True 1(2)]
      by (subst get_colon_index.simps) (auto simp: Let_def Suc_diff_le)
  qed (subst get_colon_index.simps, simp)
qed

lemma trim_up_seg:
  "e < length s \<Longrightarrow> i \<le> Suc e \<Longrightarrow> trim_up s i e = i + length (takeWhile trimmed (seg s i e))"
proof (induction s i e rule: trim_up.induct)
  case (1 s i e)
  then show ?case using seg_first [of i e s] by (subst trim_up.simps) (cases "i \<le> e"; auto)
qed

lemma trim_down_seg:
  "0 < b \<Longrightarrow> e < length s \<Longrightarrow> b \<le> Suc e \<Longrightarrow> trim_down s e b = e - length (takeWhile trimmed (rev (seg s b e)))"
proof (induction s e b rule: trim_down.induct)
  case (1 s b)
  then show ?case by (simp add: trim_down.simps)
next
  case (2 s j b)
  then show ?case by (subst trim_down.simps) (auto simp: seg_last not_le le_Suc_eq)
qed

definition trim :: "string \<Rightarrow> string" where
  "trim l = rev (dropWhile trimmed (rev (dropWhile trimmed l)))"

lemma trim_cases:
  obtains "\<forall>c \<in> set l. trimmed c" "trim l = []"
  | xs m ys where "l = xs @ m @ ys" "\<forall>c \<in> set xs. trimmed c" "\<forall>c \<in> set ys. trimmed c" "m \<noteq> []"
    "\<not> trimmed (hd m)" "\<not> trimmed (last m)" "trim l = m"
proof (cases "\<forall>c \<in> set l. trimmed c")
  case True
  then have d: "dropWhile trimmed l = []" by simp
  have "trim l = []" unfolding trim_def d by simp
  then show thesis using True that(1) by blast
next
  case False
  define r where "r = dropWhile trimmed l"
  define m where "m = rev (dropWhile trimmed (rev r))"
  have r: "r \<noteq> []" "\<not> trimmed (hd r)" "\<exists>c \<in> set r. \<not> trimmed c"
    using False hd_dropWhile [of trimmed l] by (auto simp: r_def dropWhile_eq_Nil_conv)
      (metis (no_types, lifting) UnE set_append set_takeWhileD takeWhile_dropWhile_id)
  have "rev r = takeWhile trimmed (rev r) @ dropWhile trimmed (rev r)" by simp
  then have rm: "r = m @ rev (takeWhile trimmed (rev r))" unfolding m_def by (metis rev_append rev_rev_ident)
  have m: "m \<noteq> []" "\<not> trimmed (last m)"
    using r(3) hd_dropWhile [of trimmed "rev r"] by (auto simp: m_def dropWhile_eq_Nil_conv last_rev)
  show thesis
  proof (rule that(2))
    show "l = takeWhile trimmed l @ m @ rev (takeWhile trimmed (rev r))"
      using rm by (metis r_def takeWhile_dropWhile_id)
    show "\<not> trimmed (hd m)" using r(2) rm m(1) by (metis hd_append2)
  qed (use m in \<open>auto simp: m_def r_def trim_def dest: set_takeWhileD\<close>)
qed

lemma trim_spaces_seg:
  assumes "0 < b" and "e < length s" and "b \<le> Suc e"
  shows "(case trim_spaces s b e of None \<Rightarrow> trim (seg s b e) = []
    | Some (i, j) \<Rightarrow> slice s i j = trim (seg s b e) \<and> trim (seg s b e) \<noteq> [])"
proof -
  let ?l = "seg s b e"
  have up: "trim_up s b e = b + length (takeWhile trimmed ?l)" by (rule trim_up_seg [OF assms(2,3)])
  have down: "trim_down s e b = e - length (takeWhile trimmed (rev ?l))" by (rule trim_down_seg [OF assms])
  show ?thesis
  proof (rule trim_cases [of ?l])
    assume a: "\<forall>c \<in> set ?l. trimmed c" "trim ?l = []"
    then have t: "takeWhile trimmed ?l = ?l" "takeWhile trimmed (rev ?l) = rev ?l" by (simp_all add: takeWhile_eq_all_conv)
    show ?thesis using assms a(2) unfolding trim_spaces_def up down t by (auto simp: Let_def)
  next
    fix xs m ys
    assume l: "?l = xs @ m @ ys" "\<forall>c \<in> set xs. trimmed c" "\<forall>c \<in> set ys. trimmed c" "m \<noteq> []"
      "\<not> trimmed (hd m)" "\<not> trimmed (last m)" "trim ?l = m"
    obtain c ms where mc: "m = c # ms" using l(4) by (cases m) auto
    obtain d ns where md: "m = ns @ [d]" using l(4) by (cases m rule: rev_cases) auto
    have tu: "takeWhile trimmed ?l = xs"
      unfolding l(1) using l(2,5) by (simp add: takeWhile_append2 mc)
    have td: "takeWhile trimmed (rev ?l) = rev ys"
      unfolding l(1) using l(3,6) takeWhile_append2 [of "rev ys" trimmed "d # rev ns @ rev xs"] by (simp add: md)
    have len: "Suc e - b = length xs + length m + length ys"
      using arg_cong [OF l(1), of length] assms(2) by simp
    let ?i = "b + length xs" and ?j = "e - length ys"
    have ij: "?i \<le> ?j" "?j \<le> e" "Suc ?j - ?i = length m" using len l(4) assms(3) by (auto simp: mc)
    have "slice s ?i ?j = take (length m) (drop (length xs) ?l)"
      using seg_seg [OF ij(1) _ ij(2), of b s] ij by (simp add: slice_seg)
    then have "slice s ?i ?j = m" by (simp add: l(1))
    then show ?thesis using ij(1) l(4,7) by (simp add: trim_spaces_def up down tu td)
  qed
qed

text \<open>The reference for \<open>parse_field_line\<close>.\<close>

definition parse_line :: "string \<Rightarrow> ssdp_packet \<Rightarrow> ssdp_packet" where
  "parse_line l p = (
     let f = takeWhile (\<lambda>c. c \<noteq> CHR '':'') l; v = drop (Suc (length f)) l in
     if trim f = [] \<or> trim v = [] then p else set_field (trim f) (trim v) p)"

lemma trim_Nil [simp]: "trim [] = []"
  by (simp add: trim_def)

lemma parse_field_line_seg:
  assumes "0 < b" and "b \<le> e" and "e < length s"
  shows "parse_field_line s b e p = Ret (parse_line (seg s b e) p)"
proof (cases "s ! b = CHR '':''")
  case True
  then show ?thesis using assms by (simp add: parse_field_line_def parse_line_def seg_first Let_def)
next
  case False
  let ?r = "seg s (Suc b) e"
  let ?k = "length (takeWhile (\<lambda>c. c \<noteq> CHR '':'') ?r)"
  have l: "seg s b e = s ! b # ?r" using assms by (simp add: seg_first)
  have colon: "get_colon_index s (Suc b) e = (if ?k < e - b then Some (Suc b + ?k) else None)"
    using get_colon_index_seg [of e s "Suc b"] assms by (simp add: Let_def)
  have f: "takeWhile (\<lambda>c. c \<noteq> CHR '':'') (seg s b e) = s ! b # takeWhile (\<lambda>c. c \<noteq> CHR '':'') ?r"
    using False by (simp add: l)
  have k: "?k \<le> e - b" using length_takeWhile_le [of _ ?r] assms by (metis diff_Suc_Suc length_seg)
  show ?thesis
  proof (cases "?k < e - b")
    case no: False
    then have "drop (Suc (Suc ?k)) (seg s b e) = []" using k assms by simp
    then show ?thesis using no False assms by (simp add: parse_field_line_def colon parse_line_def f Let_def)
  next
    case yes: True
    have fs: "s ! b # takeWhile (\<lambda>c. c \<noteq> CHR '':'') ?r = seg s b (b + ?k)"
    proof -
      have "takeWhile (\<lambda>c. c \<noteq> CHR '':'') (seg s b e) = take (Suc ?k) (seg s b e)"
        by (metis f length_Cons takeWhile_eq_take)
      then show ?thesis using yes by (simp add: f) (simp add: seg_def min_def)
    qed
    have vs: "drop (Suc (Suc ?k)) (seg s b e) = seg s (Suc (Suc b + ?k)) e"
      using yes by (simp add: seg_def drop_take add.commute)
    have tf: "case trim_spaces s b (b + ?k) of None \<Rightarrow> trim (seg s b (b + ?k)) = []
        | Some (i, j) \<Rightarrow> slice s i j = trim (seg s b (b + ?k)) \<and> trim (seg s b (b + ?k)) \<noteq> []"
      by (rule trim_spaces_seg) (use assms yes in auto)
    have tv: "case trim_spaces s (Suc (Suc b + ?k)) e of None \<Rightarrow> trim (seg s (Suc (Suc b + ?k)) e) = []
        | Some (i, j) \<Rightarrow> slice s i j = trim (seg s (Suc (Suc b + ?k)) e) \<and> trim (seg s (Suc (Suc b + ?k)) e) \<noteq> []"
      by (rule trim_spaces_seg) (use assms yes in auto)
    have line: "parse_line (seg s b e) p = (if trim (seg s b (b + ?k)) = [] \<or> trim (seg s (Suc (Suc b + ?k)) e) = []
        then p else set_field (trim (seg s b (b + ?k))) (trim (seg s (Suc (Suc b + ?k)) e)) p)"
      by (simp add: parse_line_def f fs [symmetric] vs Let_def)
    show ?thesis
    proof (cases "Suc b + ?k = e")
      case True
      then show ?thesis using False assms yes by (simp add: parse_field_line_def colon line)
    next
      case far: False
      then show ?thesis using False assms yes tf tv
        by (auto simp: parse_field_line_def colon line split: option.splits)
    qed
  qed
qed

section \<open>Lines\<close>

lemma field_lines_skip:
  assumes "i \<le> j" and "j \<le> length s"
    and "\<And>k. i \<le> k \<Longrightarrow> k < j \<Longrightarrow> \<not> (s ! k = CHR 0x0A \<and> k - 1 > start \<and> s ! (k - 1) = CHR 0x0D)"
  shows "field_lines s start i p = field_lines s start j p"
  using assms
proof (induction "j - i" arbitrary: i)
  case (Suc n)
  have "i < j" using Suc.hyps(2) by simp
  then have "field_lines s start i p = field_lines s start (i + 1) p"
    using Suc.prems(2) Suc.prems(3) [of i] by (subst field_lines.simps) auto
  also have "\<dots> = field_lines s start j p"
    using Suc.hyps(2) Suc.prems by (intro Suc.hyps(1)) auto
  finally show ?case .
qed simp

lemma field_lines_step:
  assumes "l \<noteq> []" and "CHR 0x0A \<notin> set l" and "pre \<noteq> []"
  shows "field_lines (pre @ l @ crlf @ rest) (length pre) (length pre) p
    = field_lines ((pre @ l @ crlf) @ rest) (length (pre @ l @ crlf)) (length (pre @ l @ crlf)) (parse_line l p)"
proof -
  let ?s = "pre @ l @ crlf @ rest" and ?b = "length pre" and ?e = "length pre + length l - 1"
  have e: "?b \<le> ?e" "?e < length ?s" "Suc ?e = ?b + length l" using assms(1) by (cases l; simp add: crlf_def)+
  have seg: "seg ?s ?b ?e = l" using e(3) by (simp add: seg_def)
  have "field_lines ?s ?b ?b p = field_lines ?s ?b (?b + length l + 1) p"
  proof (rule field_lines_skip)
    fix k assume k: "?b \<le> k" "k < ?b + length l + 1"
    have "?s ! k \<noteq> CHR 0x0A"
    proof (cases "k < ?b + length l")
      case True
      then have "k - ?b < length l" using k by linarith
      moreover from this have "?s ! k = l ! (k - ?b)" using k by (simp add: nth_append)
      ultimately have "?s ! k = l ! (k - ?b)" "k - ?b < length l" by blast+
      then show ?thesis using assms(2) by (metis nth_mem)
    next
      case False
      then have "k = ?b + length l" using k by simp
      then show ?thesis by (simp add: nth_append crlf_def)
    qed
    then show "\<not> (?s ! k = CHR 0x0A \<and> k - 1 > ?b \<and> ?s ! (k - 1) = CHR 0x0D)" by simp
  qed (simp_all add: crlf_def)
  also have "\<dots> = field_lines ?s (?b + length l + 2) (?b + length l + 2) (parse_line l p)"
  proof -
    have at: "?s ! (?b + length l + 1) = CHR 0x0A" "?s ! (?b + length l) = CHR 0x0D"
      by (simp_all add: nth_append crlf_def)
    have "parse_field_line ?s ?b ?e p = Ret (parse_line l p)"
      using parse_field_line_seg [of ?b ?e ?s p] e assms(3) seg by simp
    moreover have "?b + length l + 1 - 2 = ?e" by simp
    ultimately show ?thesis
      using at assms(1) by (subst field_lines.simps) (simp add: crlf_def)
  qed
  finally show ?thesis by (simp add: crlf_def)
qed

lemma field_lines_all:
  assumes "\<forall>l \<in> set ls. l \<noteq> [] \<and> CHR 0x0A \<notin> set l" and "pre \<noteq> []"
  shows "field_lines (pre @ concat (map (\<lambda>l. l @ crlf) ls) @ crlf) (length pre) (length pre) p = Ret (fold parse_line ls p)"
  using assms
proof (induction ls arbitrary: pre p)
  case Nil
  have "field_lines (pre @ crlf) (length pre) (length pre) p = field_lines (pre @ crlf) (length pre) (length (pre @ crlf)) p"
    by (rule field_lines_skip) (auto simp: crlf_def nth_append)
  then show ?case by (simp add: field_lines.simps)
next
  case (Cons l ls)
  have "field_lines (pre @ l @ crlf @ concat (map (\<lambda>l. l @ crlf) ls) @ crlf) (length pre) (length pre) p
      = field_lines ((pre @ l @ crlf) @ concat (map (\<lambda>l. l @ crlf) ls) @ crlf) (length (pre @ l @ crlf))
          (length (pre @ l @ crlf)) (parse_line l p)"
    by (rule field_lines_step) (use Cons.prems in auto)
  also have "\<dots> = Ret (fold parse_line ls (parse_line l p))"
    by (rule Cons.IH) (use Cons.prems in auto)
  finally show ?case by simp
qed

section \<open>Clean values\<close>

definition clean :: "string \<Rightarrow> bool" where
  "clean v \<longleftrightarrow> (\<forall>c \<in> set v. isprint c) \<and> (v \<noteq> [] \<longrightarrow> \<not> trimmed (hd v) \<and> \<not> trimmed (last v))"

lemma clean_trim: "clean v \<Longrightarrow> trim v = v"
proof -
  assume v: "clean v"
  have "dropWhile trimmed v = v" using v by (auto simp: clean_def dropWhile_eq_self_iff)
  moreover have "dropWhile trimmed (rev v) = rev v" using v by (auto simp: clean_def dropWhile_eq_self_iff hd_rev)
  ultimately show "trim v = v" by (simp add: trim_def)
qed

lemma clean_chars: "clean v \<Longrightarrow> CHR 0x0A \<notin> set v \<and> CHR 0x00 \<notin> set v"
  by (auto simp: clean_def isprint_def)

lemma parse_line_value:
  "trim k = k \<Longrightarrow> k \<noteq> [] \<Longrightarrow> CHR '':'' \<notin> set k \<Longrightarrow> clean v
     \<Longrightarrow> parse_line (k @ CHR '':'' # v) p = (if v = [] then p else set_field k v p)"
proof -
  assume a: "trim k = k" "k \<noteq> []" "CHR '':'' \<notin> set k" "clean v"
  have "takeWhile (\<lambda>c. c \<noteq> CHR '':'') (k @ CHR '':'' # v) = k"
    using a(3) by (induction k) auto
  then show ?thesis using a by (simp add: parse_line_def Let_def clean_trim)
qed

lemma line_of_crlf: "line_of k v = (k @ CHR '':'' # v) @ crlf"
  by (simp add: line_of_def)

section \<open>The parser is defined\<close>

lemma parse_line_keeps:
  "(\<And>f v p. P p \<Longrightarrow> P (set_field f v p)) \<Longrightarrow> P p \<Longrightarrow> P (parse_line l p)"
  by (simp add: parse_line_def Let_def)

lemma field_lines_keeps:
  assumes "\<And>f v p. P p \<Longrightarrow> P (set_field f v p)"
  shows "0 < start \<Longrightarrow> start \<le> i \<Longrightarrow> P p \<Longrightarrow> \<exists>q. field_lines s start i p = Ret q \<and> P q"
proof (induction s start i p rule: field_lines.induct)
  case (1 s start i p)
  show ?case
  proof (cases "i \<ge> length s \<or> \<not> (s ! i = CHR 0x0A \<and> i - 1 > start \<and> s ! (i - 1) = CHR 0x0D)")
    case True
    then show ?thesis using 1 by (subst field_lines.simps) auto
  next
    case False
    then have f: "parse_field_line s start (i - 2) p = Ret (parse_line (seg s start (i - 2)) p)"
      using 1(3,4) by (intro parse_field_line_seg) auto
    have "P (parse_line (seg s start (i - 2)) p)"
      using parse_line_keeps [of P, OF assms 1(5)] .
    then show ?thesis using False 1(1) f by (subst field_lines.simps) auto
  qed
qed

definition packet_ok :: "ssdp_packet \<Rightarrow> bool" where
  "packet_ok p \<longleftrightarrow> length (pk_st p) < 128 \<and> length (pk_usn p) < 128 \<and> length (pk_location p) < 256
     \<and> length (pk_sm_id p) < 128 \<and> length (pk_dev p) < 128"

lemma copy_value_length: "length old < n \<Longrightarrow> length (copy_value n v old) < n"
  by (cases "length old \<le> length v") (simp_all add: copy_value_def Let_def)

lemma set_field_ok: "packet_ok p \<Longrightarrow> packet_ok (set_field f v p)"
  by (simp add: packet_ok_def set_field_def Let_def copy_value_length LSSDP_FIELD_LEN_def LSSDP_LOCATION_LEN_def)

lemma method_of_start: "method_of s = Some (m, i) \<Longrightarrow> 0 < i"
  by (auto simp: method_of_def HEADER_MSEARCH_def HEADER_NOTIFY_def HEADER_RESPONSE_def split: if_splits)

lemma parser_ok:
  "lssdp_packet_parser now s = Ub \<longleftrightarrow> CHR 0x00 \<notin> set s \<and> LSSDP_BUFFER_LEN \<le> length s"
  "lssdp_packet_parser now s = Ret p \<Longrightarrow> packet_ok p \<and> pk_time p = now"
proof -
  have zero: "packet_ok \<lparr>pk_method = m, pk_st = [], pk_usn = [], pk_location = [], pk_sm_id = [], pk_dev = [], pk_time = 0\<rparr>" for m
    by (simp add: packet_ok_def)
  have f: "\<exists>q. field_lines s i i \<lparr>pk_method = m, pk_st = [], pk_usn = [], pk_location = [], pk_sm_id = [], pk_dev = [], pk_time = 0\<rparr>
      = Ret q \<and> packet_ok q" if "method_of s = Some (m, i)" for m i
    using field_lines_keeps [of packet_ok, OF set_field_ok method_of_start [OF that] order_refl zero] by blast
  show "lssdp_packet_parser now s = Ub \<longleftrightarrow> CHR 0x00 \<notin> set s \<and> LSSDP_BUFFER_LEN \<le> length s"
  proof (cases "method_of s")
    case None
    then show ?thesis by (simp add: lssdp_packet_parser_def)
  next
    case (Some mi)
    then obtain m i where "method_of s = Some (m, i)" by (cases mi) auto
    with f [OF this] show ?thesis by (auto simp: lssdp_packet_parser_def split: if_splits)
  qed
  show "packet_ok p \<and> pk_time p = now" if "lssdp_packet_parser now s = Ret p"
  proof (cases "method_of s")
    case None
    then show ?thesis using that by (simp add: lssdp_packet_parser_def split: if_splits)
  next
    case (Some mi)
    then obtain m i where "method_of s = Some (m, i)" by (cases mi) auto
    with f [OF this] that show ?thesis by (auto simp: lssdp_packet_parser_def packet_ok_def split: if_splits)
  qed
qed

section \<open>Neighbours as a map\<close>

locale expiring_map =
  fixes look :: "'s \<Rightarrow> 'k \<Rightarrow> ('v \<times> int) option"
    and learn :: "'k \<Rightarrow> 'v \<Rightarrow> int \<Rightarrow> 's \<Rightarrow> 's"
    and expire :: "int \<Rightarrow> 's \<Rightarrow> 's"
    and ok :: "'s \<Rightarrow> bool"
    and limit :: int
  assumes ok_learn: "ok s \<Longrightarrow> ok (learn k v t s)"
    and ok_expire: "ok s \<Longrightarrow> ok (expire t s)"
    and look_learn: "ok s \<Longrightarrow> look (learn k v t s) j = (if j = k then Some (v, t) else look s j)"
    and look_expire: "ok s \<Longrightarrow> 0 \<le> t \<Longrightarrow> look (expire t s) j = (case look s j of None \<Rightarrow> None
      | Some (v, u) \<Rightarrow> if t - u < limit then Some (v, u) else None)"
begin

definition act :: "('k \<times> 'v) option \<times> int \<Rightarrow> 's \<Rightarrow> 's" where
  "act e s = (case e of (Some (k, v), t) \<Rightarrow> learn k v t s | (None, t) \<Rightarrow> expire t s)"

lemma act_simps [simp]: "act (Some (k, v), t) s = learn k v t s" "act (None, t) s = expire t s"
  by (simp_all add: act_def)

lemma ok_fold: "ok s \<Longrightarrow> ok (fold act es s)"
  by (induction es arbitrary: s) (auto simp: act_def ok_learn ok_expire split: option.splits prod.splits)

lemma look_later:
  assumes "ok s" and "look s k = Some (v, u) \<or> look s k = None" and "\<forall>w t. (Some (k, w), t) \<notin> set es"
    and "\<forall>t. (None, t) \<in> set es \<longrightarrow> 0 \<le> t"
  shows "look (fold act es s) k = (if (\<exists>t. (None, t) \<in> set es \<and> t - u \<ge> limit) then None else look s k)"
  using assms
proof (induction es arbitrary: s)
  case (Cons e es)
  obtain m t where e: "e = (m, t)" by (cases e)
  show ?case
  proof (cases m)
    case None
    have s: "ok (expire t s)" "look (expire t s) k = (if t - u \<ge> limit then None else look s k)"
      using Cons.prems(1,2) Cons.prems(4) by (auto simp: ok_expire look_expire e None)
    have "look (fold act es (expire t s)) k = (if (\<exists>t. (None, t) \<in> set es \<and> t - u \<ge> limit) then None else look (expire t s) k)"
      by (rule Cons.IH) (use s Cons.prems(2-4) in auto)
    then show ?thesis using s(2) by (auto simp: e None)
  next
    case (Some kv)
    obtain j w where kv: "kv = (j, w)" by (cases kv)
    have s: "ok (learn j w t s)" "look (learn j w t s) k = look s k"
      using Cons.prems(1,3) by (auto simp: ok_learn look_learn e Some kv)
    have "look (fold act es (learn j w t s)) k = (if (\<exists>t. (None, t) \<in> set es \<and> t - u \<ge> limit) then None else look (learn j w t s) k)"
      by (rule Cons.IH) (use s Cons.prems(2-4) in auto)
    then show ?thesis using s(2) by (auto simp: e Some kv split: if_splits)
  qed
qed simp

lemma known_exactly:
  assumes "ok s" and "\<forall>w t. (Some (k, w), t) \<notin> set es" and "\<forall>t. (None, t) \<in> set es \<longrightarrow> 0 \<le> t"
  shows "look (fold act es (learn k v u s)) k
    = (if \<exists>t. (None, t) \<in> set es \<and> t - u \<ge> limit then None else Some (v, u))"
  using look_later [of "learn k v u s" k v u es] assms by (simp add: ok_learn look_learn)

end

definition known :: "ssdp \<Rightarrow> string \<Rightarrow> ((string \<times> string \<times> string) \<times> int) option" where
  "known x l = map_option (\<lambda>n. ((nb_usn n, nb_sm_id n, nb_dev n), nb_time n))
     (find (\<lambda>n. nb_location n = l) (sx_nbrs x))"

definition nbrs_ok :: "ssdp \<Rightarrow> bool" where
  "nbrs_ok x \<longleftrightarrow> distinct (map nb_location (sx_nbrs x)) \<and> sx_timeout x = 15000"

definition packet_of :: "string \<Rightarrow> string \<times> string \<times> string \<Rightarrow> int \<Rightarrow> ssdp_packet" where
  "packet_of l v t = (case v of (usn, sm, dev) \<Rightarrow> \<lparr>pk_method = NOTIFY, pk_st = [], pk_usn = usn, pk_location = l,
     pk_sm_id = sm, pk_dev = dev, pk_time = t\<rparr>)"

lemma update_neighbor_None: "update_neighbor p ns = None \<longleftrightarrow> pk_location p \<notin> nb_location ` set ns"
  by (induction ns) auto

lemma update_neighbor_locations: "update_neighbor p ns = Some (ms, b) \<Longrightarrow> map nb_location ms = map nb_location ns"
  by (induction ns arbitrary: ms) (auto split: if_splits)

lemma update_neighbor_find:
  "update_neighbor p ns = Some (ms, b) \<Longrightarrow> find (\<lambda>n. nb_location n = l) ms
    = (if l = pk_location p then map_option (\<lambda>n. n\<lparr>nb_usn := pk_usn p, nb_sm_id := pk_sm_id p, nb_dev := pk_dev p,
          nb_time := pk_time p\<rparr>) (find (\<lambda>n. nb_location n = l) ns)
       else find (\<lambda>n. nb_location n = l) ns)"
  by (induction ns arbitrary: ms) (auto split: if_splits)

lemma find_append: "find P (xs @ ys) = (case find P xs of None \<Rightarrow> find P ys | Some x \<Rightarrow> Some x)"
  by (induction xs) auto

lemma find_location: "pk_location p \<in> nb_location ` set ns \<Longrightarrow> \<exists>n. find (\<lambda>n. nb_location n = pk_location p) ns = Some n"
  by (induction ns) auto

lemma find_location_None: "find (\<lambda>n. nb_location n = l) ns = None \<longleftrightarrow> l \<notin> nb_location ` set ns"
  by (auto simp: find_None_iff)

lemma drop_timeout_filter: "fst (drop_timeout now limit ns) = filter (\<lambda>n. now - nb_time n < limit) ns"
  by (induction ns) (auto split: prod.splits)

lemma find_filter:
  "distinct (map nb_location ns) \<Longrightarrow> find (\<lambda>n. nb_location n = l) (filter P ns)
    = (case find (\<lambda>n. nb_location n = l) ns of None \<Rightarrow> None | Some n \<Rightarrow> if P n then Some n else None)"
proof (induction ns)
  case (Cons n ns)
  have "find (\<lambda>n. nb_location n = l) (filter P ns) = None" if "nb_location n = l"
    using Cons.prems that by (auto simp: find_None_iff) (metis imageI)
  then show ?case using Cons by auto
qed simp

lemma add_neighbor:
  assumes "nbrs_ok x"
  shows "nbrs_ok (fst (neighbor_list_add p x))"
    "known (fst (neighbor_list_add p x)) l
      = (if l = pk_location p then Some ((pk_usn p, pk_sm_id p, pk_dev p), pk_time p) else known x l)"
proof -
  show "nbrs_ok (fst (neighbor_list_add p x))"
  proof (cases "update_neighbor p (sx_nbrs x)")
    case None
    then show ?thesis using assms update_neighbor_None [of p "sx_nbrs x"]
      by (simp add: nbrs_ok_def neighbor_list_add_def)
  next
    case (Some r)
    then show ?thesis using assms update_neighbor_locations [of p "sx_nbrs x"]
      by (cases r) (simp add: nbrs_ok_def neighbor_list_add_def)
  qed
  show "known (fst (neighbor_list_add p x)) l
      = (if l = pk_location p then Some ((pk_usn p, pk_sm_id p, pk_dev p), pk_time p) else known x l)"
  proof (cases "update_neighbor p (sx_nbrs x)")
    case None
    then have "find (\<lambda>n. nb_location n = pk_location p) (sx_nbrs x) = None"
      using update_neighbor_None find_location_None by metis
    then show ?thesis using None
      by (simp add: known_def neighbor_list_add_def find_append split: option.splits)
  next
    case (Some r)
    obtain ms b where r: "r = (ms, b)" by (cases r)
    have "pk_location p \<in> nb_location ` set (sx_nbrs x)" using Some update_neighbor_None by (metis option.distinct(1))
    then obtain n where "find (\<lambda>n. nb_location n = pk_location p) (sx_nbrs x) = Some n" using find_location by blast
    then show ?thesis using Some r update_neighbor_find [of p "sx_nbrs x" ms b l]
      by (simp add: known_def neighbor_list_add_def)
  qed
qed

lemma check_timeout:
  assumes "nbrs_ok x"
  shows "nbrs_ok (fst (lssdp_neighbor_check_timeout t x))"
    "0 \<le> t \<Longrightarrow> sx_nbrs (fst (lssdp_neighbor_check_timeout t x)) = filter (\<lambda>n. t - nb_time n < 15000) (sx_nbrs x)"
proof -
  show n: "sx_nbrs (fst (lssdp_neighbor_check_timeout t x)) = filter (\<lambda>n. t - nb_time n < 15000) (sx_nbrs x)" if "0 \<le> t"
    using assms that drop_timeout_filter [of t 15000 "sx_nbrs x"]
    by (simp add: lssdp_neighbor_check_timeout_def nbrs_ok_def split_beta)
  show "nbrs_ok (fst (lssdp_neighbor_check_timeout t x))"
  proof (cases "0 \<le> t")
    case True
    have "sx_timeout (fst (lssdp_neighbor_check_timeout t x)) = sx_timeout x"
      by (simp add: lssdp_neighbor_check_timeout_def split_beta)
    then show ?thesis using assms n [OF True] by (simp add: nbrs_ok_def distinct_map_filter)
  qed (use assms in \<open>simp add: lssdp_neighbor_check_timeout_def\<close>)
qed

interpretation nbrs: expiring_map known "\<lambda>l v t x. fst (neighbor_list_add (packet_of l v t) x)"
  "\<lambda>t x. fst (lssdp_neighbor_check_timeout t x)" nbrs_ok 15000
proof
  fix x :: ssdp and l j :: string and v :: "string \<times> string \<times> string" and t :: int
  assume ok: "nbrs_ok x"
  show "nbrs_ok (fst (neighbor_list_add (packet_of l v t) x))" by (rule add_neighbor(1) [OF ok])
  show "nbrs_ok (fst (lssdp_neighbor_check_timeout t x))" by (rule check_timeout(1) [OF ok])
  show "known (fst (neighbor_list_add (packet_of l v t) x)) j = (if j = l then Some (v, t) else known x j)"
    using add_neighbor(2) [OF ok, of "packet_of l v t" j] by (cases v) (simp add: packet_of_def)
  show "known (fst (lssdp_neighbor_check_timeout t x)) j = (case known x j of None \<Rightarrow> None
      | Some (v, u) \<Rightarrow> if t - u < 15000 then Some (v, u) else None)" if "0 \<le> t"
    using find_filter [of "sx_nbrs x" j "\<lambda>n. t - nb_time n < 15000"] ok
    by (simp add: known_def check_timeout(2) [OF ok that] nbrs_ok_def split: option.splits)
qed

end
