(* ===== verification/Ssdp_Properties.thy ===== *)
theory Ssdp_Properties
  imports Ssdp_Facts
begin

text \<open>
  Properties of the discovery service: what one controller announces another one learns, for how
  long a neighbour is known, when a round of the thread is undefined, and what every reachable
  state satisfies.
\<close>

section \<open>Announcements\<close>

definition header_ok :: "ssdp_header \<Rightarrow> bool" where
  "header_ok h \<longleftrightarrow> length (hd_st h) < 128 \<and> length (hd_usn h) < 128 \<and> length (hd_prefix h) < 128
     \<and> length (hd_domain h) < 128 \<and> length (hd_suffix h) < 128 \<and> length (hd_sm_id h) < 128 \<and> length (hd_dev h) < 128"

text \<open>Texts that can be announced: printable, without blanks at the ends.\<close>

definition announceable :: "ssdp_header \<Rightarrow> ssdp_interface \<Rightarrow> bool" where
  "announceable h i \<longleftrightarrow> clean (hd_st h) \<and> clean (hd_usn h) \<and> clean (hd_sm_id h) \<and> clean (hd_dev h)
     \<and> clean (location_of h i) \<and> length (location_of h i) < 256"

lemma to_string_chars: "set (to_string n) \<subseteq> set digit_chars"
proof (induction n rule: to_string.induct)
  case (1 n)
  have "digit_chars ! (n mod 10) \<in> set digit_chars"
    by (rule nth_mem) (simp add: digit_chars_def)
  then show ?case using 1 by (subst to_string.simps) auto
qed

lemma digits_printable: "c \<in> set digit_chars \<Longrightarrow> isprint c \<and> \<not> trimmed c"
  by (auto simp: digit_chars_def trimmed_def isprint_def is_space_def)

lemma to_string_not_Nil [simp]: "to_string n \<noteq> []"
  by (subst to_string.simps) simp

lemma solid_clean: "\<forall>c \<in> set s. \<not> trimmed c \<Longrightarrow> clean s"
  by (auto simp: clean_def trimmed_def)

lemma multicast_solid: "\<forall>c \<in> set ADDR_MULTICAST. \<not> trimmed c" "\<not> trimmed (CHR '':'')"
  by (simp_all add: ADDR_MULTICAST_def trimmed_def isprint_def is_space_def)

lemma host_clean: "clean (ADDR_MULTICAST @ CHR '':'' # to_string port)"
proof (rule solid_clean)
  have "\<forall>c \<in> set (to_string port). \<not> trimmed c" using to_string_chars [of port] digits_printable by blast
  then show "\<forall>c \<in> set (ADDR_MULTICAST @ CHR '':'' # to_string port). \<not> trimmed c"
    using multicast_solid by auto
qed

definition notify_lines :: "ssdp \<Rightarrow> ssdp_interface \<Rightarrow> (string \<times> string) list" where
  "notify_lines x i = (let h = sx_hdr x in [(''HOST'', ADDR_MULTICAST @ CHR '':'' # to_string (sx_port x)),
     (''CACHE-CONTROL'', ''max-age=120''), (''LOCATION'', location_of h i), (''SERVER'', ''OS/version product/version''),
     (''NT'', hd_st h), (''NTS'', ''ssdp:alive''), (''USN'', hd_usn h), (''SM_ID'', hd_sm_id h), (''DEV_TYPE'', hd_dev h)])"

definition response_lines :: "ssdp \<Rightarrow> ssdp_interface \<Rightarrow> (string \<times> string) list" where
  "response_lines x i = (let h = sx_hdr x in [(''CACHE-CONTROL'', ''max-age=120''), (''DATE'', []), (''EXT'', []),
     (''LOCATION'', location_of h i), (''SERVER'', ''OS/version product/version''), (''ST'', hd_st h), (''USN'', hd_usn h),
     (''SM_ID'', hd_sm_id h), (''DEV_TYPE'', hd_dev h)])"

definition text_of :: "(string \<times> string) list \<Rightarrow> string list" where
  "text_of kvs = map (\<lambda>(k, v). k @ CHR '':'' # v) kvs"

lemma notify_text_lines: "notify_text x i = HEADER_NOTIFY @ concat (map (\<lambda>l. l @ crlf) (text_of (notify_lines x i))) @ crlf"
  by (simp add: notify_text_def notify_lines_def text_of_def host_line_def line_of_crlf Let_def)

lemma response_text_lines: "response_text x i = HEADER_RESPONSE @ concat (map (\<lambda>l. l @ crlf) (text_of (response_lines x i))) @ crlf"
  by (simp add: response_text_def response_lines_def text_of_def line_of_crlf Let_def)

definition plain_key :: "string \<Rightarrow> bool" where
  "plain_key k \<longleftrightarrow> trim k = k \<and> k \<noteq> [] \<and> CHR '':'' \<notin> set k \<and> CHR 0x0A \<notin> set k \<and> CHR 0x00 \<notin> set k"

lemma fold_lines:
  "\<forall>(k, v) \<in> set kvs. plain_key k \<and> clean v \<Longrightarrow>
    fold parse_line (text_of kvs) p = fold (\<lambda>(k, v) p. if v = [] then p else set_field k v p) kvs p"
  by (induction kvs arbitrary: p) (auto simp: text_of_def parse_line_value plain_key_def)

lemma text_of_lines:
  "\<forall>(k, v) \<in> set kvs. plain_key k \<and> clean v \<Longrightarrow>
    \<forall>l \<in> set (text_of kvs). l \<noteq> [] \<and> CHR 0x0A \<notin> set l \<and> CHR 0x00 \<notin> set l"
  using clean_chars by (fastforce simp: text_of_def plain_key_def)

lemma parse_announcement:
  assumes "\<forall>(k, v) \<in> set kvs. plain_key k \<and> clean v" and "method_of t = Some (m, length pre)"
    and "t = pre @ concat (map (\<lambda>l. l @ crlf) (text_of kvs)) @ crlf" and "CHR 0x00 \<notin> set pre" and "pre \<noteq> []"
    and "length t < LSSDP_BUFFER_LEN" and "0 \<le> now"
  shows "lssdp_packet_parser now t = Ret ((fold (\<lambda>(k, v) p. if v = [] then p else set_field k v p) kvs
    \<lparr>pk_method = m, pk_st = [], pk_usn = [], pk_location = [], pk_sm_id = [], pk_dev = [], pk_time = 0\<rparr>)\<lparr>pk_time := now\<rparr>)"
proof -
  have lines: "\<forall>l \<in> set (text_of kvs). l \<noteq> [] \<and> CHR 0x0A \<notin> set l"
    using text_of_lines [OF assms(1)] by blast
  have "CHR 0x00 \<notin> set t"
    using text_of_lines [OF assms(1)] assms(4) by (auto simp: assms(3) crlf_def)
  moreover note field_lines_all [OF lines assms(5), folded assms(3)]
  ultimately show ?thesis
    using assms(2,6,7) fold_lines [OF assms(1)] by (simp add: lssdp_packet_parser_def)
qed

lemma keys_plain:
  "plain_key ''HOST''" "plain_key ''CACHE-CONTROL''" "plain_key ''LOCATION''" "plain_key ''SERVER''" "plain_key ''NT''"
  "plain_key ''NTS''" "plain_key ''USN''" "plain_key ''SM_ID''" "plain_key ''DEV_TYPE''" "plain_key ''DATE''" "plain_key ''EXT''"
  "plain_key ''ST''"
  by (simp_all add: plain_key_def trim_def trimmed_def isprint_def is_space_def)

lemma fixed_clean: "clean ''max-age=120''" "clean ''OS/version product/version''" "clean ''ssdp:alive''" "clean []"
  by (simp_all add: clean_def trimmed_def isprint_def is_space_def)

lemma notify_lines_ok:
  assumes "announceable (sx_hdr x) i"
  shows "\<forall>(k, v) \<in> set (notify_lines x i). plain_key k \<and> clean v"
    "\<forall>(k, v) \<in> set (response_lines x i). plain_key k \<and> clean v"
  using assms by (auto simp: notify_lines_def response_lines_def Let_def announceable_def keys_plain fixed_clean host_clean)

lemma lower_keys:
  "map lower ''HOST'' = ''host''" "map lower ''CACHE-CONTROL'' = ''cache-control''" "map lower ''SERVER'' = ''server''"
  "map lower ''NTS'' = ''nts''" "map lower ''DATE'' = ''date''" "map lower ''EXT'' = ''ext''" "map lower ''NT'' = ''nt''"
  "map lower ''ST'' = ''st''" "map lower ''LOCATION'' = ''location''" "map lower ''USN'' = ''usn''"
  "map lower ''SM_ID'' = ''sm_id''" "map lower ''DEV_TYPE'' = ''dev_type''"
  by code_simp+

lemma set_fields:
  "set_field ''HOST'' v p = p" "set_field ''CACHE-CONTROL'' v p = p" "set_field ''SERVER'' v p = p"
  "set_field ''NTS'' v p = p" "set_field ''DATE'' v p = p" "set_field ''EXT'' v p = p"
  "set_field ''NT'' v p = p\<lparr>pk_st := copy_value 128 v (pk_st p)\<rparr>"
  "set_field ''ST'' v p = p\<lparr>pk_st := copy_value 128 v (pk_st p)\<rparr>"
  "set_field ''LOCATION'' v p = p\<lparr>pk_location := copy_value 256 v (pk_location p)\<rparr>"
  "set_field ''USN'' v p = p\<lparr>pk_usn := copy_value 128 v (pk_usn p)\<rparr>"
  "set_field ''SM_ID'' v p = p\<lparr>pk_sm_id := copy_value 128 v (pk_sm_id p)\<rparr>"
  "set_field ''DEV_TYPE'' v p = p\<lparr>pk_dev := copy_value 128 v (pk_dev p)\<rparr>"
  by (simp_all only: set_field_def lower_keys) (simp_all add: LSSDP_FIELD_LEN_def LSSDP_LOCATION_LEN_def)

lemma copy_value_fresh: "length v < n \<Longrightarrow> copy_value n v [] = v"
  by (simp add: copy_value_def)

lemma texts_short:
  assumes "header_ok (sx_hdr x)" and "sx_port x < 65536" and "length (if_ip i) \<le> 15"
  shows "length (notify_text x i) < 2000" "length (response_text x i) < 2000"
proof -
  let ?h = "sx_hdr x"
  have port: "length (to_string (sx_port x)) \<le> 5" using to_string_length [of "sx_port x" 4] assms(2) by simp
  have loc: "length (location_of ?h i) \<le> 384" using assms(1,3) by (simp add: location_of_def header_ok_def)
  note texts = notify_text_def response_text_def host_line_def line_of_def HEADER_NOTIFY_def HEADER_RESPONSE_def
    ADDR_MULTICAST_def crlf_def Let_def
  show "length (notify_text x i) < 2000" using port loc assms(1) by (simp add: texts header_ok_def)
  show "length (response_text x i) < 2000" using loc assms(1) by (simp add: texts header_ok_def)
qed

definition announced :: "ssdp_method \<Rightarrow> int \<Rightarrow> ssdp_header \<Rightarrow> ssdp_interface \<Rightarrow> ssdp_packet" where
  "announced m now h i = \<lparr>pk_method = m, pk_st = hd_st h, pk_usn = hd_usn h, pk_location = location_of h i,
     pk_sm_id = hd_sm_id h, pk_dev = hd_dev h, pk_time = now\<rparr>"

lemma announced_fields:
  assumes "announceable (sx_hdr x) i" and "header_ok (sx_hdr x)"
  shows "(fold (\<lambda>(k, v) p. if v = [] then p else set_field k v p) (notify_lines x i)
      \<lparr>pk_method = m, pk_st = [], pk_usn = [], pk_location = [], pk_sm_id = [], pk_dev = [], pk_time = 0\<rparr>)\<lparr>pk_time := now\<rparr>
      = announced m now (sx_hdr x) i"
    and "(fold (\<lambda>(k, v) p. if v = [] then p else set_field k v p) (response_lines x i)
      \<lparr>pk_method = m, pk_st = [], pk_usn = [], pk_location = [], pk_sm_id = [], pk_dev = [], pk_time = 0\<rparr>)\<lparr>pk_time := now\<rparr>
      = announced m now (sx_hdr x) i"
  using assms
  by (simp_all add: notify_lines_def response_lines_def set_fields copy_value_fresh announceable_def header_ok_def
      announced_def Let_def)

lemma parse_texts:
  assumes "announceable (sx_hdr x) i" and "header_ok (sx_hdr x)" and "sx_port x < 65536" and "length (if_ip i) \<le> 15"
    and "0 \<le> now"
  shows "lssdp_packet_parser now (notify_text x i) = Ret (announced NOTIFY now (sx_hdr x) i)"
    and "lssdp_packet_parser now (response_text x i) = Ret (announced RESPONSE now (sx_hdr x) i)"
proof -
  note short = texts_short [OF assms(2-4)]
  have m: "method_of (notify_text x i) = Some (NOTIFY, length HEADER_NOTIFY)"
    "method_of (response_text x i) = Some (RESPONSE, length HEADER_RESPONSE)"
    by (simp_all add: method_of_def has_header_def notify_text_lines response_text_lines HEADER_MSEARCH_def
        HEADER_NOTIFY_def HEADER_RESPONSE_def crlf_def)
  show "lssdp_packet_parser now (notify_text x i) = Ret (announced NOTIFY now (sx_hdr x) i)"
    using parse_announcement [OF notify_lines_ok(1) [OF assms(1)] m(1) notify_text_lines _ _ _ assms(5)] short(1)
    by (simp add: announced_fields [OF assms(1,2)] LSSDP_BUFFER_LEN_def) (simp add: HEADER_NOTIFY_def crlf_def)
  show "lssdp_packet_parser now (response_text x i) = Ret (announced RESPONSE now (sx_hdr x) i)"
    using parse_announcement [OF notify_lines_ok(2) [OF assms(1)] m(2) response_text_lines _ _ _ assms(5)] short(2)
    by (simp add: announced_fields [OF assms(1,2)] LSSDP_BUFFER_LEN_def) (simp add: HEADER_RESPONSE_def crlf_def)
qed

text \<open>C19. What a controller announces or answers is what a controller with the same search target
  learns, from whichever address it comes - its own included, since the check for packets from
  itself has no effect.\<close>

theorem announcement_learned:
  assumes "announceable (sx_hdr x) i" and "header_ok (sx_hdr x)" and "sx_port x < 65536" and "length (if_ip i) \<le> 15"
    and "nbrs_ok y" and "0 < sx_sock y" and "0 < sx_port y" and "hd_st (sx_hdr y) = hd_st (sx_hdr x)" and "0 \<le> now"
    and "t = in_buffer (notify_text x i) \<or> t = response_text x i"
  shows "\<exists>z os. lssdp_socket_read now (Some (a, t)) y = Some (0, z, os)
    \<and> known z = (known y)(location_of (sx_hdr x) i \<mapsto> ((hd_usn (sx_hdr x), hd_sm_id (sx_hdr x), hd_dev (sx_hdr x)), now))"
proof -
  note short = texts_short [OF assms(2-4)]
  have t: "take LSSDP_BUFFER_LEN t = t" "\<exists>m. m \<noteq> MSEARCH \<and> lssdp_packet_parser now t = Ret (announced m now (sx_hdr x) i)"
    using assms(10) short parse_texts [OF assms(1-4,9)]
    by (auto simp: in_buffer_def LSSDP_BUFFER_LEN_def)
  then obtain m where m: "m \<noteq> MSEARCH" "lssdp_packet_parser now t = Ret (announced m now (sx_hdr x) i)" by blast
  let ?p = "announced m now (sx_hdr x) i"
  have "lssdp_socket_read now (Some (a, t)) y = Some (0, neighbor_list_add ?p y)"
    using assms(6-8) m by (simp add: lssdp_socket_read_def t(1)) (simp add: announced_def split_beta)
  moreover have "known (fst (neighbor_list_add ?p y)) = (known y)(location_of (sx_hdr x) i \<mapsto>
      ((hd_usn (sx_hdr x), hd_sm_id (sx_hdr x), hd_dev (sx_hdr x)), now))"
    using add_neighbor(2) [OF assms(5), of ?p] by (intro ext) (simp add: announced_def)
  ultimately show ?thesis by (cases "neighbor_list_add ?p y") auto
qed

definition demo_if :: ssdp_interface where
  "demo_if = \<lparr>if_name = ''eth0'', if_ip = ''10.0.6.1'', if_addr = 0x0A000601, if_mask = 0xFFFFFF00\<rparr>"

definition demo_ssdp :: ssdp where
  "demo_ssdp = (ssdp_start ''10.0.6.1'' '':443'')\<lparr>sx_sock := 5, sx_ifs := [demo_if]\<rparr>"

lemma demo_facts:
  "announceable (sx_hdr demo_ssdp) demo_if" "header_ok (sx_hdr demo_ssdp)" "nbrs_ok demo_ssdp"
  "sx_port demo_ssdp = 1900" "sx_sock demo_ssdp = 5" "length (if_ip demo_if) \<le> 15"
  by (simp_all add: announceable_def header_ok_def nbrs_ok_def demo_ssdp_def demo_if_def ssdp_start_def location_of_def
      clean_def trimmed_def isprint_def is_space_def)

theorem announcement_learned_witness:
  "\<exists>z os. lssdp_socket_read 1000 (Some (0x0A000601, in_buffer (notify_text demo_ssdp demo_if))) demo_ssdp = Some (0, z, os)
     \<and> known z ''http://10.0.6.1:443'' = Some ((''CM1'', ''CM1_TYPE'', []), 1000)"
proof -
  have "location_of (sx_hdr demo_ssdp) demo_if = ''http://10.0.6.1:443''"
    by (simp add: location_of_def demo_ssdp_def ssdp_start_def)
  then show ?thesis
    using announcement_learned [OF demo_facts(1,2) _ demo_facts(6,3), where now = 1000
      and t = "in_buffer (notify_text demo_ssdp demo_if)" and a = "0x0A000601"]
    by (simp add: demo_facts(4,5)) (auto simp: demo_ssdp_def ssdp_start_def)
qed

section \<open>How long a neighbour is known\<close>

datatype nbr_event = Heard ssdp_packet | Checked int

fun nbr_step :: "nbr_event \<Rightarrow> ssdp \<Rightarrow> ssdp" where
  "nbr_step (Heard p) x = fst (neighbor_list_add p x)"
| "nbr_step (Checked t) x = fst (lssdp_neighbor_check_timeout t x)"

fun as_act :: "nbr_event \<Rightarrow> (string \<times> string \<times> string \<times> string) option \<times> int" where
  "as_act (Heard p) = (Some (pk_location p, pk_usn p, pk_sm_id p, pk_dev p), pk_time p)"
| "as_act (Checked t) = (None, t)"

lemma as_act_iff: "(None, t) = as_act e \<longleftrightarrow> e = Checked t" "(Some (l, w), t) = as_act e \<Longrightarrow> \<exists>q. e = Heard q \<and> pk_location q = l"
  by (cases e; auto)+

lemma update_neighbor_cong:
  "pk_location p = pk_location q \<Longrightarrow> pk_usn p = pk_usn q \<Longrightarrow> pk_sm_id p = pk_sm_id q \<Longrightarrow> pk_dev p = pk_dev q
     \<Longrightarrow> pk_time p = pk_time q \<Longrightarrow> update_neighbor p ns = update_neighbor q ns"
  by (induction ns) auto

lemma nbr_step_act: "nbr_step e x = nbrs.act (as_act e) x"
proof (cases e)
  case (Heard p)
  let ?q = "packet_of (pk_location p) (pk_usn p, pk_sm_id p, pk_dev p) (pk_time p)"
  have q: "pk_location ?q = pk_location p" "pk_usn ?q = pk_usn p" "pk_sm_id ?q = pk_sm_id p" "pk_dev ?q = pk_dev p"
    "pk_time ?q = pk_time p" by (simp_all add: packet_of_def)
  have u: "update_neighbor ?q (sx_nbrs x) = update_neighbor p (sx_nbrs x)"
    by (rule update_neighbor_cong) (simp_all add: q)
  have "neighbor_list_add p x = neighbor_list_add ?q x"
    unfolding neighbor_list_add_def u q by (rule refl)
  then show ?thesis by (simp add: Heard)
qed simp

lemma fold_nbr_step: "fold nbr_step es x = fold nbrs.act (map as_act es) x"
  by (induction es arbitrary: x) (simp_all add: nbr_step_act)

text \<open>C35. After any packets and checks, a location is known with the data of its last packet, and is known
  unless a check since then came 15 seconds or more after that packet.\<close>

theorem neighbor_known_exactly:
  assumes "nbrs_ok x" and "\<forall>q. Heard q \<in> set later \<longrightarrow> pk_location q \<noteq> pk_location p"
    and "\<forall>t. Checked t \<in> set later \<longrightarrow> 0 \<le> t"
  shows "known (fold nbr_step (earlier @ Heard p # later) x) (pk_location p)
    = (if \<exists>t. Checked t \<in> set later \<and> t - pk_time p \<ge> 15000 then None
       else Some ((pk_usn p, pk_sm_id p, pk_dev p), pk_time p))"
proof -
  define y where "y = fold nbr_step earlier x"
  have y: "nbrs_ok y" unfolding y_def fold_nbr_step by (rule nbrs.ok_fold [OF assms(1)])
  have img: "(None, t) \<in> set (map as_act later) \<longleftrightarrow> Checked t \<in> set later" for t
    by (auto simp: image_iff as_act_iff(1))
  have "\<forall>w t. (Some (pk_location p, w), t) \<notin> set (map as_act later)"
    using assms(2) by (auto simp: image_iff dest!: as_act_iff(2))
  moreover have "\<forall>t. (None, t) \<in> set (map as_act later) \<longrightarrow> 0 \<le> t" using assms(3) img by blast
  ultimately have "known (fold nbrs.act (map as_act later)
      (fst (neighbor_list_add (packet_of (pk_location p) (pk_usn p, pk_sm_id p, pk_dev p) (pk_time p)) y))) (pk_location p)
    = (if \<exists>t. (None, t) \<in> set (map as_act later) \<and> t - pk_time p \<ge> 15000 then None
       else Some ((pk_usn p, pk_sm_id p, pk_dev p), pk_time p))"
    by (rule nbrs.known_exactly [OF y])
  moreover have "fold nbr_step (earlier @ Heard p # later) x = fold nbrs.act (map as_act later)
      (fst (neighbor_list_add (packet_of (pk_location p) (pk_usn p, pk_sm_id p, pk_dev p) (pk_time p)) y))"
    using nbr_step_act [of "Heard p" y] by (simp add: fold_nbr_step [symmetric] y_def)
  ultimately show ?thesis by (simp only: img)
qed

theorem neighbor_known_exactly_witness:
  "let p = announced NOTIFY 1000 (sx_hdr demo_ssdp) demo_if in
   known (fold nbr_step ([] @ Heard p # [Checked 4500, Checked 15999]) demo_ssdp) (pk_location p) = Some ((''CM1'', ''CM1_TYPE'', []), 1000)
   \<and> known (fold nbr_step ([] @ Heard p # [Checked 4500, Checked 16000]) demo_ssdp) (pk_location p) = None"
proof -
  let ?p = "announced NOTIFY 1000 (sx_hdr demo_ssdp) demo_if"
  have d: "pk_usn ?p = ''CM1''" "pk_sm_id ?p = ''CM1_TYPE''" "pk_dev ?p = []" "pk_time ?p = 1000"
    by (simp_all add: announced_def demo_ssdp_def ssdp_start_def)
  show ?thesis
    unfolding Let_def
    by (subst (1 2) neighbor_known_exactly [OF demo_facts(3)]) (auto simp: d)
qed

section \<open>Reachable states\<close>

definition neighbor_ok :: "neighbor \<Rightarrow> bool" where
  "neighbor_ok n \<longleftrightarrow> length (nb_usn n) < 128 \<and> length (nb_location n) < 256 \<and> length (nb_sm_id n) < 128
     \<and> length (nb_dev n) < 128"

definition ssdp_inv :: "ssdp_header \<Rightarrow> ssdp \<Rightarrow> bool" where
  "ssdp_inv h x \<longleftrightarrow> sx_hdr x = h \<and> sx_port x = 1900 \<and> nbrs_ok x \<and> (\<forall>n \<in> set (sx_nbrs x). neighbor_ok n)
     \<and> length (sx_ifs x) \<le> 16 \<and> (\<forall>i \<in> set (sx_ifs x). length (if_ip i) \<le> 15)"

text \<open>The states of the thread: the first look at the interfaces, then any rounds.\<close>

inductive ssdp_reach :: "string \<Rightarrow> string \<Rightarrow> ssdp \<times> int \<Rightarrow> bool" for domain port where
  reach_start: "lssdp_network_interface_update scan os (ssdp_start domain port) = (r, x, out) \<Longrightarrow> 0 \<le> t
     \<Longrightarrow> ssdp_reach domain port (x, t)"
| reach_round: "ssdp_reach domain port s \<Longrightarrow> ssdp_round v s = Some (Running (s', out)) \<Longrightarrow> ssdp_reach domain port s'"

lemma inv_sock [simp]: "ssdp_inv h (x\<lparr>sx_sock := i\<rparr>) = ssdp_inv h x"
  by (simp add: ssdp_inv_def nbrs_ok_def)

lemma inv_remove_all: "ssdp_inv h x \<Longrightarrow> ssdp_inv h (fst (lssdp_neighbor_remove_all x))"
  by (simp add: lssdp_neighbor_remove_all_def ssdp_inv_def nbrs_ok_def)

lemma inv_close: "ssdp_inv h x \<Longrightarrow> ssdp_inv h (fst (snd (lssdp_socket_close ok x)))"
  using inv_remove_all [of h "x\<lparr>sx_sock := - 1\<rparr>"] by (simp add: lssdp_socket_close_def split_beta)

lemma inv_create: "ssdp_inv h x \<Longrightarrow> ssdp_inv h (fst (snd (lssdp_socket_create os x)))"
  using inv_close [of h x "os_close os"]
    inv_close [of h "(fst (snd (lssdp_socket_close (os_close os) x)))\<lparr>sx_sock := os_fd os\<rparr>" "os_close_new os"]
  by (simp add: lssdp_socket_create_def split_beta Let_def)

lemma collect_ok:
  "length ifs \<le> 16 \<Longrightarrow> \<forall>i \<in> set ifs. length (if_ip i) \<le> 15
     \<Longrightarrow> length (collect_interfaces es ifs) \<le> 16 \<and> (\<forall>i \<in> set (collect_interfaces es ifs). length (if_ip i) \<le> 15)"
proof (induction es arbitrary: ifs)
  case (Cons e es)
  define js where "js = (case (en_inet e, en_ip e, en_mask e) of
      (True, Some ip, Some m) \<Rightarrow> if length ifs \<ge> LSSDP_INTERFACE_LIST_SIZE then ifs
        else ifs @ [\<lparr>if_name = take 15 (en_name e), if_ip = take 15 ip, if_addr = en_addr e, if_mask = m\<rparr>]
    | _ \<Rightarrow> ifs)"
  have "length js \<le> 16" "\<forall>i \<in> set js. length (if_ip i) \<le> 15"
    using Cons.prems by (auto simp: js_def LSSDP_INTERFACE_LIST_SIZE_def split: option.splits bool.splits)
  then show ?case using Cons.IH [of js] by (simp add: js_def)
qed simp

lemma inv_update: "ssdp_inv h x \<Longrightarrow> ssdp_inv h (fst (snd (lssdp_network_interface_update scan os x)))"
proof -
  assume x: "ssdp_inv h x"
  let ?y = "x\<lparr>sx_ifs := (case scan of None \<Rightarrow> [] | Some es \<Rightarrow> collect_interfaces es [])\<rparr>"
  have y: "ssdp_inv h ?y"
    using x collect_ok [of "[]"] by (auto simp: ssdp_inv_def nbrs_ok_def split: option.splits)
  show ?thesis
    using y inv_create [OF inv_remove_all [OF y]] by (simp add: lssdp_network_interface_update_def Let_def split_beta)
qed

lemma update_keeps:
  "packet_ok p \<Longrightarrow> \<forall>n \<in> set ns. neighbor_ok n \<Longrightarrow> update_neighbor p ns = Some (ms, b) \<Longrightarrow> \<forall>n \<in> set ms. neighbor_ok n"
proof (induction ns arbitrary: ms)
  case (Cons n ns)
  show ?case
  proof (cases "nb_location n = pk_location p")
    case True
    then have "ms = n\<lparr>nb_usn := pk_usn p, nb_sm_id := pk_sm_id p, nb_dev := pk_dev p, nb_time := pk_time p\<rparr> # ns"
      using Cons.prems(3) by simp
    then show ?thesis using Cons.prems(1,2) by (simp add: neighbor_ok_def packet_ok_def)
  next
    case False
    then obtain ks where "ms = n # ks" "update_neighbor p ns = Some (ks, b)" using Cons.prems(3) by auto
    then show ?thesis using Cons.IH [OF Cons.prems(1)] Cons.prems(2) by simp
  qed
qed simp

lemma inv_add:
  assumes "ssdp_inv h x" and "packet_ok p"
  shows "ssdp_inv h (fst (neighbor_list_add p x))"
proof -
  have n: "nbrs_ok (fst (neighbor_list_add p x))" using add_neighbor(1) assms(1) by (simp add: ssdp_inv_def)
  show ?thesis
  proof (cases "update_neighbor p (sx_nbrs x)")
    case None
    then show ?thesis using assms n by (simp add: neighbor_list_add_def ssdp_inv_def neighbor_ok_def packet_ok_def)
  next
    case (Some r)
    obtain ms b where r: "r = (ms, b)" by (cases r)
    have "\<forall>n \<in> set ms. neighbor_ok n"
      using update_keeps [OF assms(2) _ Some [unfolded r]] assms(1) by (simp add: ssdp_inv_def)
    then show ?thesis using assms(1) n Some r by (simp add: neighbor_list_add_def ssdp_inv_def)
  qed
qed

lemma inv_check: "ssdp_inv h x \<Longrightarrow> ssdp_inv h (fst (lssdp_neighbor_check_timeout t x))"
proof -
  assume x: "ssdp_inv h x"
  have "nbrs_ok x" using x by (simp add: ssdp_inv_def)
  note c = check_timeout [OF this, of t]
  have "sx_hdr (fst (lssdp_neighbor_check_timeout t x)) = sx_hdr x \<and> sx_port (fst (lssdp_neighbor_check_timeout t x)) = sx_port x
      \<and> sx_ifs (fst (lssdp_neighbor_check_timeout t x)) = sx_ifs x"
    by (simp add: lssdp_neighbor_check_timeout_def split_beta)
  moreover have "set (sx_nbrs (fst (lssdp_neighbor_check_timeout t x))) \<subseteq> set (sx_nbrs x)"
    using c(2) by (cases "0 \<le> t") (auto simp: lssdp_neighbor_check_timeout_def)
  ultimately show ?thesis using x c(1) by (auto simp: ssdp_inv_def)
qed

lemma inv_read: "ssdp_inv h x \<Longrightarrow> lssdp_socket_read now d x = Some (r, y, out) \<Longrightarrow> ssdp_inv h y"
  using parser_ok(2) inv_add
  by (fastforce simp: lssdp_socket_read_def split: if_splits option.splits prod.splits cres.splits)

lemma inv_tasks: "ssdp_inv h x \<Longrightarrow> ssdp_inv h (fst (ssdp_tasks v x))"
  using inv_check [OF inv_update] by (simp add: ssdp_tasks_def split_beta Let_def)

lemma inv_round: "ssdp_inv h (fst s) \<Longrightarrow> ssdp_round v s = Some (Running (s', out)) \<Longrightarrow> ssdp_inv h (fst s')"
  using inv_read inv_tasks
  by (auto simp: ssdp_round_def split_beta Let_def split: if_splits option.splits)

lemma reach_inv: "ssdp_reach domain port s \<Longrightarrow> ssdp_inv (sx_hdr (ssdp_start domain port)) (fst s)"
proof (induction rule: ssdp_reach.induct)
  case (reach_start scan os r x out t)
  have "ssdp_inv (sx_hdr (ssdp_start domain port)) (ssdp_start domain port)"
    by (simp add: ssdp_inv_def nbrs_ok_def ssdp_start_def)
  from inv_update [OF this, of scan os] reach_start show ?case by simp
next
  case (reach_round s v s' out)
  then show ?case using inv_round by blast
qed

lemma start_header_ok: "length domain < 128 \<Longrightarrow> length port < 128 \<Longrightarrow> header_ok (sx_hdr (ssdp_start domain port))"
  by (simp add: header_ok_def ssdp_start_def)

lemma find_in_set: "find P xs = Some y \<Longrightarrow> y \<in> set xs"
  by (induction xs) (auto split: if_splits)

lemma response_defined:
  assumes "ssdp_inv h x" and "header_ok h"
  shows "lssdp_send_response a x \<noteq> None"
proof (cases "find_interface_in_LAN x a")
  case (Some i)
  then have "i \<in> set (sx_ifs x)" unfolding find_interface_in_LAN_def by (rule find_in_set)
  then have "length (if_ip i) \<le> 15" using assms(1) by (simp add: ssdp_inv_def)
  then have "length (response_text x i) < 2000" using assms texts_short(2) [of x i] by (simp add: ssdp_inv_def)
  then have "\<not> length (response_text x i) > LSSDP_BUFFER_LEN" by (simp add: LSSDP_BUFFER_LEN_def)
  then show ?thesis using Some by (simp add: lssdp_send_response_def Let_def)
qed (simp add: lssdp_send_response_def)

definition endless :: "(u32 \<times> string) option \<Rightarrow> bool" where
  "endless d \<longleftrightarrow> (\<exists>a s. d = Some (a, s) \<and> 2048 \<le> length s \<and> CHR 0x00 \<notin> set (take 2048 s))"

lemma read_undefined_iff:
  assumes "ssdp_inv h x" and "header_ok h"
  shows "lssdp_socket_read now d x = None \<longleftrightarrow> 0 < sx_sock x \<and> endless d"
proof -
  have port: "sx_port x \<noteq> 0" using assms(1) by (simp add: ssdp_inv_def)
  show ?thesis
  proof (cases d)
    case None
    then show ?thesis by (simp add: lssdp_socket_read_def endless_def)
  next
    case (Some as)
    obtain a s where d: "d = Some (a, s)" using Some by (cases as) auto
    have ub: "lssdp_packet_parser now (take 2048 s) = Ub \<longleftrightarrow> endless d"
      using parser_ok(1) [of now "take 2048 s"] by (auto simp: endless_def d LSSDP_BUFFER_LEN_def)
    show ?thesis
    proof (cases "lssdp_packet_parser now (take 2048 s)")
      case (Ret p)
      then show ?thesis using ub port response_defined [OF assms, of a]
        by (auto simp: lssdp_socket_read_def d LSSDP_BUFFER_LEN_def split_beta)
    qed (use ub port in \<open>auto simp: lssdp_socket_read_def d LSSDP_BUFFER_LEN_def\<close>)
  qed
qed

text \<open>C36. In every state the thread can reach, the list of neighbours has no location twice and all texts
  fit their arrays; and a round is undefined exactly when the socket is missing or a datagram fills
  the receive buffer without a null character.\<close>

theorem ssdp_round_undefined_iff:
  assumes "ssdp_reach domain port (x, t0)" and "length domain < 128" and "length port < 128"
  shows "distinct (map nb_location (sx_nbrs x)) \<and> list_all neighbor_ok (sx_nbrs x)
    \<and> (ssdp_round v (x, t0) = None \<longleftrightarrow>
        sx_sock x < 0 \<or> 0 < in_select v \<and> 0 < sx_sock x \<and> endless (in_dgram v))"
proof -
  have inv: "ssdp_inv (sx_hdr (ssdp_start domain port)) x" using reach_inv [OF assms(1)] by simp
  have "ssdp_round v (x, t0) = None \<longleftrightarrow>
      sx_sock x < 0 \<or> 0 < in_select v \<and> 0 < sx_sock x \<and> endless (in_dgram v)"
    using read_undefined_iff [OF inv start_header_ok [OF assms(2,3)], of "in_t_read v" "in_dgram v"]
    by (auto simp: ssdp_round_def split_beta Let_def split: option.splits)
  then show ?thesis using inv by (simp add: ssdp_inv_def nbrs_ok_def list_all_iff)
qed

definition demo_entry :: if_entry where
  "demo_entry = \<lparr>en_inet = True, en_name = ''eth0'', en_ip = Some ''10.0.6.1'', en_addr = 0x0A000601, en_mask = Some 0xFFFFFF00\<rparr>"

definition demo_os :: ssdp_os where
  "demo_os = \<lparr>os_fd = 5, os_setup = True, os_close = True, os_close_new = True\<rparr>"

lemma replicate_16: "replicate 16 z = z # replicate 15 z"
  by (simp add: numeral_eq_Suc)

lemma demo_update:
  "lssdp_network_interface_update (Some [demo_entry]) demo_os (ssdp_start ''10.0.6.1'' '':443'') = (0, demo_ssdp, [])"
  by (simp add: lssdp_network_interface_update_def demo_entry_def demo_os_def ssdp_start_def interface_array_def
      LSSDP_INTERFACE_LIST_SIZE_def lssdp_neighbor_remove_all_def lssdp_socket_create_def lssdp_socket_close_def
      demo_ssdp_def demo_if_def Let_def replicate_16)

theorem ssdp_round_undefined_iff_witness:
  "ssdp_reach ''10.0.6.1'' '':443'' (demo_ssdp, 0)
   \<and> ssdp_round \<lparr>in_select = 1, in_dgram = Some (1, replicate 2048 (CHR ''x'')), in_t_read = 1, in_now = 1, in_t_check = 1,
       in_scan = Some [demo_entry], in_os = demo_os\<rparr> (demo_ssdp, 0) = None"
proof -
  have r: "ssdp_reach ''10.0.6.1'' '':443'' (demo_ssdp, 0)"
    by (rule reach_start [OF demo_update]) simp
  have e: "endless (Some (1, replicate 2048 (CHR ''x'')))" by (simp add: endless_def)
  show ?thesis
    using r ssdp_round_undefined_iff [OF r, of "\<lparr>in_select = 1, in_dgram = Some (1, replicate 2048 (CHR ''x'')), in_t_read = 1,
        in_now = 1, in_t_check = 1, in_scan = Some [demo_entry], in_os = demo_os\<rparr>"] e demo_facts(5) by simp
qed

text \<open>When the interfaces change and the socket cannot be opened again, the thread goes on with the
  descriptor -1, and its next round is undefined whatever happens.\<close>

theorem rebind_failure_undefined:
  assumes "interface_array (sx_ifs x) \<noteq> interface_array (case scan of None \<Rightarrow> [] | Some es \<Rightarrow> collect_interfaces es [])"
    and "sx_port x \<noteq> 0" and "os_fd os < 0 \<or> \<not> os_setup os \<and> os_close_new os"
  shows "\<exists>r y out. lssdp_network_interface_update scan os x = (r, y, out) \<and> sx_nbrs y = [] \<and> ssdp_round v (y, t0) = None"
proof -
  let ?z = "fst (lssdp_neighbor_remove_all (x\<lparr>sx_ifs := (case scan of None \<Rightarrow> [] | Some es \<Rightarrow> collect_interfaces es [])\<rparr>))"
  let ?y = "fst (snd (lssdp_socket_create os ?z))"
  have z: "sx_port ?z \<noteq> 0" "sx_nbrs ?z = []"
    using assms(2) by (simp_all add: lssdp_neighbor_remove_all_def)
  have "fst (snd (lssdp_network_interface_update scan os x)) = ?y"
    using assms(1) by (simp add: lssdp_network_interface_update_def Let_def split_beta)
  moreover have "sx_sock ?y < 0 \<and> sx_nbrs ?y = []"
    using assms(3) z
    by (auto simp: lssdp_socket_create_def lssdp_socket_close_def lssdp_neighbor_remove_all_def Let_def split_beta)
  ultimately show ?thesis
    by (cases "lssdp_network_interface_update scan os x") (auto simp: ssdp_round_def)
qed

theorem rebind_failure_undefined_witness:
  "\<exists>r y out. lssdp_network_interface_update (Some []) \<lparr>os_fd = - 1, os_setup = True, os_close = True, os_close_new = True\<rparr> demo_ssdp
     = (r, y, out) \<and> sx_nbrs y = [] \<and> ssdp_round \<lparr>in_select = 0, in_dgram = None, in_t_read = 1, in_now = 1, in_t_check = 1,
       in_scan = Some [demo_entry], in_os = demo_os\<rparr> (y, 0) = None"
  by (rule rebind_failure_undefined)
    (simp_all add: demo_ssdp_def ssdp_start_def demo_if_def interface_array_def LSSDP_INTERFACE_LIST_SIZE_def replicate_16)

end
