(* ===== verification/Redfish_Load.thy ===== *)
theory Redfish_Load
  imports Redfish_Numbers "HOL-Library.AList"
begin

text \<open>
  How a resource of the redfish service is read back from its file: \<open>Resource::load_json\<close> and the
  \<open>load_json\<close> of the account, role, session, session service, task and event destination classes
  (libs/redfish/resource.cpp). The body of a \<open>load_json\<close> is a list of assignments inside a \<open>try\<close>: it
  is run until one of them throws, and what was assigned before stays assigned. The locales at the
  end state what a class promises about its file, for the classes of the other theories too.
\<close>

section \<open>Assignments that may throw\<close>

text \<open>A step gives the changed object, or nothing for a \<open>json_exception\<close>; the result of the list is
  the \<open>true\<close> or \<open>false\<close> that \<open>load_json\<close> returns, with the object.\<close>

type_synonym 'a load_step = "'a \<Rightarrow> 'a option"

fun run_load :: "'a load_step list \<Rightarrow> 'a \<Rightarrow> bool \<times> 'a" where
  "run_load [] x = (True, x)"
| "run_load (f # fs) x = (case f x of None \<Rightarrow> (False, x) | Some y \<Rightarrow> run_load fs y)"

text \<open>\<open>v = j.at(k)\<close> for a local variable, and the value it then has.\<close>

definition need_field :: "json \<Rightarrow> string \<Rightarrow> 'a load_step" where
  "need_field j k = (\<lambda>x. if json_field j k = None then None else Some x)"

definition at_field :: "json \<Rightarrow> string \<Rightarrow> json" where
  "at_field j k = (case json_field j k of Some v \<Rightarrow> v | None \<Rightarrow> JNull)"

text \<open>\<open>this->m = j.at(k).as_string()\<close> and the like.\<close>

definition load_field :: "(json \<Rightarrow> 'v option) \<Rightarrow> json \<Rightarrow> string \<Rightarrow> ('v \<Rightarrow> 'a \<Rightarrow> 'a) \<Rightarrow> 'a load_step" where
  "load_field kind j k upd x =
     (case json_field j k of None \<Rightarrow> None | Some v \<Rightarrow> map_option (\<lambda>y. upd y x) (kind v))"

text \<open>\<open>for (auto item : j.at(k).as_array())\<close>: the body for one element is a step.\<close>

definition load_each :: "json \<Rightarrow> string \<Rightarrow> (json \<Rightarrow> 'a load_step) \<Rightarrow> 'a load_step list" where
  "load_each j k body = (case json_field j k of Some (JArr xs) \<Rightarrow> map body xs | _ \<Rightarrow> [\<lambda>_. None])"

text \<open>The element appended by \<open>push_back(item.as_string())\<close>.\<close>

definition push_string :: "(string \<Rightarrow> 'a \<Rightarrow> 'a) \<Rightarrow> json \<Rightarrow> 'a load_step" where
  "push_string upd item x = map_option (\<lambda>s. upd s x) (as_string item)"

text \<open>An \<open>int\<close> or \<open>unsigned int\<close> member read with \<open>as_integer\<close>, and how each is written.\<close>

definition as_word :: "json \<Rightarrow> u32 option" where
  "as_word j = map_option word_of_int (as_integer j)"

definition json_int :: "u32 \<Rightarrow> json" where "json_int w = JNum (sint w)"

definition json_uint :: "u32 \<Rightarrow> json" where "json_uint w = JNum (uint w)"

definition json_strings :: "string list \<Rightarrow> json" where "json_strings ss = JArr (map JStr ss)"

text \<open>The three assignments of a status.\<close>

definition load_status :: "json \<Rightarrow> (string \<Rightarrow> 'a \<Rightarrow> 'a) \<Rightarrow> (string \<Rightarrow> 'a \<Rightarrow> 'a) \<Rightarrow> 'a load_step list" where
  "load_status j state health =
     [need_field j ''Status'', load_field as_string (at_field j ''Status'') ''State'' state,
      load_field as_string (at_field j ''Status'') ''Health'' health]"

lemmas load_simps = need_field_def at_field_def load_field_def load_status_def push_string_def

lemma run_load_append:
  "run_load (fs @ gs) x = (case run_load fs x of (False, y) \<Rightarrow> (False, y) | (True, y) \<Rightarrow> run_load gs y)"
  by (induction fs arbitrary: x) (auto split: option.splits)

text \<open>Loops that append the elements of an array one by one.\<close>

lemma run_load_pushes:
  assumes "\<And>v x. push v x = Some (app v x)"
  shows "run_load (map push vs) x = (True, fold app vs x)"
  using assms by (induction vs arbitrary: x) auto

lemma word_of_int32 [simp]: "(word_of_int (int32 n) :: u32) = word_of_int n"
  by (simp add: int32_def)

lemma as_word_json [simp]:
  "as_word (json_int w) = Some w" "as_word (json_uint w) = Some w" "as_word (JNum n) = Some (word_of_int n)"
  "as_word JNull = None" "as_word (JStr s) = None"
  by (simp_all add: as_word_def json_int_def json_uint_def)

section \<open>The members of every resource\<close>

record resource =
  rb_odata :: string
  rb_name :: string
  rb_type :: u8
  rb_otype :: string

definition resource_json :: "'a resource_scheme \<Rightarrow> (string \<times> json) list" where
  "resource_json x = resource_fields (rb_otype x) (rb_name x) (rb_odata x) (unat (rb_type x))"

text \<open>\<open>Resource::load_json\<close> catches the exception itself, and its callers do not look at what it
  returns. The setters are those of the class that is loaded.\<close>

definition load_resource ::
    "(string \<Rightarrow> 'a \<Rightarrow> 'a) \<Rightarrow> (u8 \<Rightarrow> 'a \<Rightarrow> 'a) \<Rightarrow> (string \<Rightarrow> 'a \<Rightarrow> 'a) \<Rightarrow> (string \<Rightarrow> 'a \<Rightarrow> 'a) \<Rightarrow>
     json \<Rightarrow> 'a load_step" where
  "load_resource name ty odata otype j x = Some (snd (run_load
     [load_field as_string j ''Name'' name,
      load_field as_string j ''type'' (\<lambda>s. ty (word_of_int (atoi (bytes_of s)))),
      load_field as_string j ''@odata.id'' odata,
      load_field as_string j ''@odata.type'' otype] x))"

definition load_base :: "json \<Rightarrow> ('a resource_scheme) load_step" where
  "load_base = load_resource (\<lambda>v x. x\<lparr>rb_name := v\<rparr>) (\<lambda>v x. x\<lparr>rb_type := v\<rparr>) (\<lambda>v x. x\<lparr>rb_odata := v\<rparr>)
     (\<lambda>v x. x\<lparr>rb_otype := v\<rparr>)"

text \<open>The type number is written with \<open>to_string\<close> and read with \<open>atoi\<close>.\<close>

lemma byte_of_digit: "c \<in> set digit_chars \<Longrightarrow>
    (48 :: u8) \<le> of_char c \<and> (of_char c :: u8) \<le> 57 \<and> uint (of_char c :: u8) - 48 = int (digit_value c)"
  by (auto simp: digit_chars_def digit_value_def)

lemma atoi_digits_bytes:
  "list_all (\<lambda>c. c \<in> set digit_chars) s \<Longrightarrow>
   atoi_digits (int n) (bytes_of s) = int (foldl (\<lambda>n c. 10 * n + digit_value c) n s)"
proof (induction s arbitrary: n)
  case Nil
  then show ?case by (simp add: bytes_of_def)
next
  case (Cons c s)
  have "10 * int n + (uint (of_char c :: u8) - 48) = int (10 * n + digit_value c)"
    using Cons.prems byte_of_digit [of c] by simp
  then show ?case using Cons.IH [of "10 * n + digit_value c"] Cons.prems byte_of_digit [of c] by (simp add: bytes_of_def)
qed

lemma atoi_to_string [simp]: "atoi (bytes_of (to_string n)) = int n"
proof -
  have d: "list_all (\<lambda>c. c \<in> set digit_chars) (to_string n)" using to_string_digits [of n] by (auto simp: list_all_iff)
  have "atoi_digits 0 (bytes_of (to_string n)) = int n"
    using atoi_digits_bytes [OF d, of 0] digits_value_to_string [of n] by (simp add: digits_value_def)
  moreover obtain c s where c: "to_string n = c # s" using to_string_digits [of n] by (cases "to_string n") auto
  then have "c \<in> set digit_chars" using d by simp
  then have "\<not> is_blank (of_char c)" "(of_char c :: u8) \<noteq> 45" "(of_char c :: u8) \<noteq> 43"
    using byte_of_digit [of c] by (auto simp: is_blank_def digit_chars_def)
  ultimately show ?thesis by (simp add: atoi_def c bytes_of_def)
qed

lemma load_resource_fields:
  "load_resource name ty odata otype (JObj (resource_fields o' n i t @ kvs)) x =
     Some (otype o' (odata i (ty (of_nat t) (name n x))))"
  by (simp add: load_resource_def load_simps resource_fields_def)

lemma load_base_json [simp]:
  "load_base (JObj (resource_json y @ kvs)) x =
     Some (x\<lparr>rb_name := rb_name y, rb_type := rb_type y, rb_odata := rb_odata y, rb_otype := rb_otype y\<rparr>)"
  by (simp add: load_base_def resource_json_def load_resource_fields)

text \<open>Reading a key of an object that \<open>get_json\<close> built: the keys of the resource are passed over, and
  the list of the class's own keys is searched.\<close>

definition base_keys :: "string set" where
  "base_keys = {''@odata.type'', ''Name'', ''@odata.id'', ''type''}"

lemma json_field_base:
  "k \<notin> base_keys \<Longrightarrow> json_field (JObj (resource_fields o' n i t @ kvs)) k = json_field (JObj kvs) k"
  by (auto simp: resource_fields_def base_keys_def)

lemma load_field_base:
  "k \<notin> base_keys \<Longrightarrow>
   load_field kind (JObj (resource_fields o' n i t @ kvs)) k upd x = load_field kind (JObj kvs) k upd x"
  by (simp add: load_field_def json_field_base del: json_field.simps)

lemma load_field_in:
  "load_field kind (JObj ((a, b) # kvs)) k upd x =
     (if k = a then map_option (\<lambda>y. upd y x) (kind b) else load_field kind (JObj kvs) k upd x)"
  by (simp add: load_field_def)

lemma need_field_base:
  "k \<notin> base_keys \<Longrightarrow> need_field (JObj (resource_fields o' n i t @ kvs)) k x = need_field (JObj kvs) k x"
  by (simp add: need_field_def json_field_base del: json_field.simps)

lemma need_field_in:
  "need_field (JObj ((a, b) # kvs)) k x = (if k = a then Some x else need_field (JObj kvs) k x)"
  by (simp add: need_field_def)

lemma at_field_base:
  "k \<notin> base_keys \<Longrightarrow> at_field (JObj (resource_fields o' n i t @ kvs)) k = at_field (JObj kvs) k"
  by (simp add: at_field_def json_field_base del: json_field.simps)

lemma at_field_in: "at_field (JObj ((a, b) # kvs)) k = (if k = a then b else at_field (JObj kvs) k)"
  by (simp add: at_field_def)

lemma load_each_base:
  "k \<notin> base_keys \<Longrightarrow> load_each (JObj (resource_fields o' n i t @ kvs)) k body = load_each (JObj kvs) k body"
  by (simp add: load_each_def json_field_base del: json_field.simps)

lemma load_each_in:
  "load_each (JObj ((a, JArr vs) # kvs)) k body = (if k = a then map body vs else load_each (JObj kvs) k body)"
  "k \<noteq> a \<Longrightarrow> load_each (JObj ((a, b) # kvs)) k body = load_each (JObj kvs) k body"
  "load_each (JObj []) k body = [\<lambda>_. None]"
  by (simp_all add: load_each_def)

lemmas file_simps = load_field_base load_field_in need_field_base need_field_in at_field_base at_field_in
  load_each_base load_each_in load_status_def status_json_def base_keys_def resource_json_def load_base_def
  load_resource_fields

section \<open>Accounts, roles, sessions, tasks and subscriptions\<close>

text \<open>These records leave out the type and the odata type, which their constructors fix.\<close>

definition account_load :: "json \<Rightarrow> rf_account \<Rightarrow> bool \<times> rf_account" where
  "account_load j = run_load
     [load_resource (\<lambda>v x. x\<lparr>ra_name := v\<rparr>) (\<lambda>_ x. x) (\<lambda>v x. x\<lparr>ra_odata := v\<rparr>) (\<lambda>_ x. x) j,
      load_field as_string j ''Id'' (\<lambda>v x. x\<lparr>ra_id := v\<rparr>),
      load_field as_bool j ''Enabled'' (\<lambda>v x. x\<lparr>ra_enabled := v\<rparr>),
      load_field as_string j ''Password'' (\<lambda>v x. x\<lparr>ra_user := (ra_user x)\<lparr>a_password := bytes_of v\<rparr>\<rparr>),
      load_field as_string j ''UserName'' (\<lambda>v x. x\<lparr>ra_user := (ra_user x)\<lparr>a_user_name := bytes_of v\<rparr>\<rparr>),
      load_field as_bool j ''Locked'' (\<lambda>v x. x\<lparr>ra_locked := v\<rparr>),
      load_field as_string j ''RoleOdataId'' (\<lambda>v x. x\<lparr>ra_role_id := v\<rparr>),
      load_field as_integer j ''IPMIMSG'' (\<lambda>v x. x\<lparr>ra_user := (ra_user x)\<lparr>a_ipmi := v\<rparr>\<rparr>),
      load_field as_integer j ''PRIVILEGE'' (\<lambda>v x. x\<lparr>ra_user := (ra_user x)\<lparr>a_priv := v\<rparr>\<rparr>),
      load_field as_integer j ''LINKAUTH'' (\<lambda>v x. x\<lparr>ra_user := (ra_user x)\<lparr>a_link_auth := v\<rparr>\<rparr>),
      load_field as_integer j ''CALLIN'' (\<lambda>v x. x\<lparr>ra_user := (ra_user x)\<lparr>a_callin := v\<rparr>\<rparr>)]"

definition role_load :: "json \<Rightarrow> rf_role \<Rightarrow> bool \<times> rf_role" where
  "role_load j = run_load
     ([load_resource (\<lambda>v x. x\<lparr>rr_name := v\<rparr>) (\<lambda>_ x. x) (\<lambda>v x. x\<lparr>rr_odata := v\<rparr>) (\<lambda>_ x. x) j,
       load_field as_string j ''Id'' (\<lambda>v x. x\<lparr>rr_id := v\<rparr>),
       load_field as_bool j ''IsPredefined'' (\<lambda>v x. x\<lparr>rr_predefined := v\<rparr>)]
      @ load_each j ''AssignedPrivileges'' (push_string (\<lambda>v x. x\<lparr>rr_privileges := rr_privileges x @ [v]\<rparr>)))"

definition session_load :: "json \<Rightarrow> rf_session \<Rightarrow> bool \<times> rf_session" where
  "session_load j = run_load
     [load_resource (\<lambda>v x. x\<lparr>rs_name := v\<rparr>) (\<lambda>_ x. x) (\<lambda>v x. x\<lparr>rs_odata := v\<rparr>) (\<lambda>_ x. x) j,
      load_field as_string j ''Id'' (\<lambda>v x. x\<lparr>rs_id := v\<rparr>),
      load_field as_string j ''AccountId'' (\<lambda>v x. x\<lparr>rs_account_id := v\<rparr>),
      load_field as_string j ''AuthToken'' (\<lambda>v x. x\<lparr>rs_token := v\<rparr>)]"

definition dest_load :: "json \<Rightarrow> rf_dest \<Rightarrow> bool \<times> rf_dest" where
  "dest_load j = run_load
     ([load_resource (\<lambda>v x. x\<lparr>rd_name := v\<rparr>) (\<lambda>_ x. x) (\<lambda>v x. x\<lparr>rd_odata := v\<rparr>) (\<lambda>_ x. x) j,
       load_field as_string j ''Id'' (\<lambda>v x. x\<lparr>rd_id := v\<rparr>),
       load_field as_string j ''Destination'' (\<lambda>v x. x\<lparr>rd_destination := v\<rparr>),
       load_field as_string j ''SubscriptionType'' (\<lambda>v x. x\<lparr>rd_subscription_type := v\<rparr>),
       load_field as_string j ''DeliveryRetryPolicy'' (\<lambda>v x. x\<lparr>rd_policy := v\<rparr>),
       load_field as_string j ''Context'' (\<lambda>v x. x\<lparr>rd_context := v\<rparr>),
       load_field as_string j ''Protocol'' (\<lambda>v x. x\<lparr>rd_protocol := v\<rparr>)]
      @ load_status j (\<lambda>v x. x\<lparr>rd_state := v\<rparr>) (\<lambda>v x. x\<lparr>rd_health := v\<rparr>))"

text \<open>The headers are a \<open>std::map\<close>: an entry with the same key is replaced.\<close>

definition set_header :: "string \<times> json \<Rightarrow> rf_task load_step" where
  "set_header e x = map_option (\<lambda>v. x\<lparr>rt_headers := AList.update (fst e) v (rt_headers x)\<rparr>) (as_string (snd e))"

definition load_headers :: "json \<Rightarrow> rf_task load_step list" where
  "load_headers j = (case j of JNull \<Rightarrow> [] | JObj kvs \<Rightarrow> map set_header kvs | _ \<Rightarrow> [\<lambda>_. None])"

text \<open>The exception is caught and \<open>true\<close> returned.\<close>

definition task_load :: "json \<Rightarrow> rf_task \<Rightarrow> bool \<times> rf_task" where
  "task_load j x = (let p = at_field j ''Payload'' in (True, snd (run_load
     ([load_resource (\<lambda>v x. x\<lparr>rt_name := v\<rparr>) (\<lambda>_ x. x) (\<lambda>v x. x\<lparr>rt_odata := v\<rparr>) (\<lambda>_ x. x) j,
       load_field as_string j ''Id'' (\<lambda>v x. x\<lparr>rt_id := v\<rparr>),
       load_field as_string j ''StartTime'' (\<lambda>v x. x\<lparr>rt_start := v\<rparr>),
       load_field as_string j ''EndTime'' (\<lambda>v x. x\<lparr>rt_end := v\<rparr>),
       load_field as_string j ''TaskState'' (\<lambda>v x. x\<lparr>rt_state := v\<rparr>),
       load_field as_string j ''TaskStatus'' (\<lambda>v x. x\<lparr>rt_status := v\<rparr>),
       need_field j ''Payload'',
       load_field as_string p ''HttpOperation'' (\<lambda>v x. x\<lparr>rt_operation := v\<rparr>),
       load_field Some p ''JsonBody'' (\<lambda>v x. x\<lparr>rt_body := v\<rparr>),
       load_field as_string p ''TargetUri'' (\<lambda>v x. x\<lparr>rt_target := v\<rparr>),
       need_field p ''HttpHeaders'']
      @ load_headers (at_field p ''HttpHeaders'')) x)))"

section \<open>What a class promises about its file\<close>

text \<open>\<open>kept x y\<close> is what an object \<open>x\<close> becomes when its file is read into \<open>y\<close>, a new object of its
  class. The law that a second restart loses no more than the first makes it a projection.\<close>

locale saved_class =
  fixes to_json :: "'x \<Rightarrow> json" and load :: "json \<Rightarrow> 'x \<Rightarrow> bool \<times> 'x"
    and fresh :: "'x \<Rightarrow> bool" and valid :: "'x \<Rightarrow> bool" and kept :: "'x \<Rightarrow> 'x \<Rightarrow> 'x"
  assumes load_saved: "valid x \<Longrightarrow> fresh y \<Longrightarrow> snd (load (to_json x) y) = kept x y"
    and kept_valid: "valid x \<Longrightarrow> fresh y \<Longrightarrow> valid (kept x y)"
    and kept_twice: "valid x \<Longrightarrow> fresh y \<Longrightarrow> fresh z \<Longrightarrow> kept (kept x y) z = kept x z"

text \<open>Saved and read into each of a list of new objects, one restart after the other.\<close>

fun restarts :: "('x \<Rightarrow> json) \<Rightarrow> (json \<Rightarrow> 'x \<Rightarrow> bool \<times> 'x) \<Rightarrow> 'x list \<Rightarrow> 'x \<Rightarrow> 'x" where
  "restarts to_json load [] x = x"
| "restarts to_json load (y # ys) x = restarts to_json load ys (snd (load (to_json x) y))"

context saved_class begin

lemma restarts_kept:
  "valid x \<Longrightarrow> list_all fresh ys \<Longrightarrow> ys \<noteq> [] \<Longrightarrow> restarts to_json load ys x = kept x (last ys)"
proof (induction ys arbitrary: x)
  case Nil
  then show ?case by simp
next
  case (Cons y ys)
  then have y: "snd (load (to_json x) y) = kept x y" "valid (kept x y)" "fresh y" "list_all fresh ys"
    by (simp_all add: load_saved kept_valid)
  show ?case
  proof (cases "ys = []")
    case True
    then show ?thesis using y by simp
  next
    case False
    then have "fresh (last ys)" using y(4) by (simp add: list_all_iff)
    then show ?thesis using Cons.IH [OF y(2,4) False] y Cons.prems(1) False by (simp add: kept_twice)
  qed
qed

end

text \<open>A class whose file holds everything.\<close>

locale lossless_class =
  fixes to_json :: "'x \<Rightarrow> json" and load :: "json \<Rightarrow> 'x \<Rightarrow> bool \<times> 'x"
    and fresh :: "'x \<Rightarrow> bool" and valid :: "'x \<Rightarrow> bool"
  assumes load_all: "valid x \<Longrightarrow> fresh y \<Longrightarrow> snd (load (to_json x) y) = x"

sublocale lossless_class \<subseteq> saved_class to_json load fresh valid "\<lambda>x y. x"
  by unfold_locales (simp_all add: load_all)

context lossless_class begin

lemma restarts_id: "valid x \<Longrightarrow> list_all fresh ys \<Longrightarrow> restarts to_json load ys x = x"
  using restarts_kept [of x ys] by (cases "ys = []") auto

end

section \<open>The classes above\<close>

lemma bytes_of_string_of [simp]: "bytes_of (string_of bs) = bs"
proof -
  have "(of_char (char_of (unat b) :: char) :: u8) = b" for b
  proof -
    have "(of_char (char_of (unat b) :: char) :: nat) = unat b" using unsigned_less [where w = b and 'a = nat] by simp
    then show ?thesis unfolding of_nat_of_char [symmetric, where 'a = u8] by simp
  qed
  then show ?thesis by (simp add: bytes_of_def string_of_def comp_def)
qed

definition fits_int :: "int \<Rightarrow> bool" where
  "fits_int n \<longleftrightarrow> - 2147483648 \<le> n \<and> n < 2147483648"

lemma int32_fits [simp]: "fits_int n \<Longrightarrow> int32 n = n"
  by (simp add: int32_def fits_int_def sint_sbintrunc' signed_take_bit_int_eq_self)

definition account_fits :: "rf_account \<Rightarrow> bool" where
  "account_fits x \<longleftrightarrow> fits_int (a_callin (ra_user x)) \<and> fits_int (a_ipmi (ra_user x))
     \<and> fits_int (a_link_auth (ra_user x)) \<and> fits_int (a_priv (ra_user x))"

text \<open>The pointers of an account to its role and certificates, and of a session to its account, are not
  in the file; \<open>dependency_injection\<close> sets them from \<open>RoleOdataId\<close> and \<open>AccountId\<close>.\<close>

lemma account_load_saved:
  "account_fits x \<Longrightarrow>
   account_load (account_json x r) y = (True, x\<lparr>ra_role := ra_role y, ra_certificates := ra_certificates y\<rparr>)"
  by (cases x; cases "ra_user x"; cases y)
    (simp add: account_load_def account_json_def file_simps account_fits_def split: option.split)

interpretation account_file: saved_class "\<lambda>x. account_json x r" account_load "\<lambda>_. True" account_fits
    "\<lambda>x y. x\<lparr>ra_role := ra_role y, ra_certificates := ra_certificates y\<rparr>" for r
  by unfold_locales (simp_all add: account_load_saved, simp_all add: account_fits_def)

lemma session_load_saved:
  "session_load (session_json x a) y = (True, x\<lparr>rs_account := rs_account y, rs_remain := rs_remain y\<rparr>)"
  by (cases x; cases y) (simp add: session_load_def session_json_def file_simps)

interpretation session_file: saved_class "\<lambda>x. session_json x a" session_load "\<lambda>_. True" "\<lambda>_. True"
    "\<lambda>x y. x\<lparr>rs_account := rs_account y, rs_remain := rs_remain y\<rparr>" for a
  by unfold_locales (simp_all add: session_load_saved)

text \<open>A member that is a vector, with the laws of a member: what is written is read, and the last write
  counts. The elements of an array are appended to it.\<close>

locale vector_member =
  fixes vec :: "'x \<Rightarrow> 'v list" and with_vec :: "'v list \<Rightarrow> 'x \<Rightarrow> 'x"
  assumes vec_with: "vec (with_vec vs x) = vs"
    and with_vec: "with_vec (vec x) x = x"
    and with_with: "with_vec us (with_vec vs x) = with_vec us x"
begin

lemma load_pushes:
  assumes "\<And>v x. push v x = Some (with_vec (vec x @ [elem v]) x)"
  shows "run_load (map push vs @ fs) x = run_load fs (with_vec (vec x @ map elem vs) x)"
proof (induction vs arbitrary: x)
  case Nil
  then show ?case by (simp add: with_vec)
next
  case (Cons v vs)
  then show ?case using Cons.IH [of "with_vec (vec x @ [elem v]) x"] by (simp add: assms vec_with with_with)
qed

lemma load_strings:
  assumes "\<And>v x. upd v x = with_vec (vec x @ [elem v]) x"
  shows "run_load (map (push_string upd) (map JStr vs) @ fs) x = run_load fs (with_vec (vec x @ map elem vs) x)"
  using load_pushes [of "\<lambda>v. push_string upd (JStr v)" elem vs fs x] by (simp add: push_string_def assms comp_def)

end

interpretation privileges: vector_member rr_privileges "\<lambda>vs x. x\<lparr>rr_privileges := vs\<rparr>"
  by unfold_locales auto

lemmas load_privileges = privileges.load_strings [where elem = "\<lambda>v. v" and fs = "[]", simplified]

text \<open>A role without privileges has no array in its file: \<open>load_json\<close> reports a failure then, after the
  other members.\<close>

lemma role_load_saved:
  "rr_privileges y = [] \<Longrightarrow> role_load (role_json x) y = (rr_privileges x \<noteq> [], x)"
  by (cases x; cases y) (auto simp: role_load_def role_json_def file_simps load_privileges)

interpretation role_file: lossless_class role_json role_load "\<lambda>y. rr_privileges y = []" "\<lambda>_. True"
  by unfold_locales (simp add: role_load_saved)

lemma dest_load_saved: "dest_load (dest_json x) y = (True, x)"
  by (cases x; cases y) (simp add: dest_load_def dest_json_def file_simps)

interpretation dest_file: lossless_class dest_json dest_load "\<lambda>_. True" "\<lambda>_. True"
  by unfold_locales (simp add: dest_load_saved)

lemma update_new_key: "k \<notin> fst ` set kvs \<Longrightarrow> AList.update k v kvs = kvs @ [(k, v)]"
  by (induction kvs) auto

lemma load_headers_distinct:
  "distinct (map fst (rt_headers x @ hs)) \<Longrightarrow>
   run_load (map set_header (map (\<lambda>(k, v). (k, JStr v)) hs)) x = (True, x\<lparr>rt_headers := rt_headers x @ hs\<rparr>)"
proof (induction hs arbitrary: x)
  case Nil
  then show ?case by simp
next
  case (Cons h hs)
  obtain k v where h: "h = (k, v)" by (cases h)
  have "set_header (k, JStr v) x = Some (x\<lparr>rt_headers := rt_headers x @ [(k, v)]\<rparr>)"
    using Cons.prems by (simp add: set_header_def h update_new_key)
  then show ?case using Cons.IH [of "x\<lparr>rt_headers := rt_headers x @ [(k, v)]\<rparr>"] Cons.prems by (simp add: h)
qed

lemma task_load_saved:
  assumes "distinct (map fst (rt_headers x))" "rt_headers y = []"
  shows "task_load (task_json x) y = (True, x)"
proof (cases "rt_headers x = []")
  case True
  then show ?thesis using assms
    by (cases x; cases y) (simp add: task_load_def task_json_def file_simps load_headers_def)
next
  case False
  then show ?thesis using assms
    by (cases x; cases y) (simp add: task_load_def task_json_def file_simps load_headers_def load_headers_distinct
      del: map_map)
qed

interpretation task_file: lossless_class task_json task_load "\<lambda>y. rt_headers y = []" "\<lambda>x. distinct (map fst (rt_headers x))"
  by unfold_locales (simp add: task_load_saved)

end
