(* ===== verification/Redfish_Platform.thy ===== *)
theory Redfish_Platform
  imports Redfish_Load
begin

text \<open>
  The manager, its network protocols, Ethernet interfaces and RADIUS settings, the computer system,
  the chassis and a fan: their classes (include/redfish/resource.hpp), \<open>get_json\<close> and
  \<open>load_json\<close> (libs/redfish/resource.cpp). A class extends the record \<open>resource\<close> as in the source;
  where it declares a \<open>name\<close> of its own, that hides the one of \<open>Resource\<close>, and both are fields. A
  pointer to another resource is the URI of that resource, all that \<open>get_json\<close> shows of it. The
  constructors take the former contents of the memory, because they leave numbers and flags unset.
\<close>

section \<open>Parts of the classes\<close>

record rf_action =
  ac_name :: string
  ac_target :: string
  ac_params :: "(string \<times> string list) list"

definition action_object :: "rf_action \<Rightarrow> json" where
  "action_object a = JObj ((''target'', JStr (ac_target a)) #
     map (\<lambda>(n, vs). (n @ ''@Redfish.AllowableValues'', json_strings vs)) (filter (\<lambda>p. snd p \<noteq> []) (ac_params a)))"

definition get_action_info :: "rf_action list \<Rightarrow> json" where
  "get_action_info as = (if as = [] then JNull else JObj (map (\<lambda>a. (ac_name a, action_object a)) as))"

definition LED_OFF :: u8 where "LED_OFF = 0"
definition LED_BLINKING :: u8 where "LED_BLINKING = 1"
definition LED_LIT :: u8 where "LED_LIT = 2"

lemmas led_defs = LED_OFF_def LED_BLINKING_def LED_LIT_def

text \<open>No text for another value of the lamp, and another text leaves the lamp as it is.\<close>

definition led_json :: "u8 \<Rightarrow> (string \<times> json) list" where
  "led_json led =
     (if led = LED_OFF then [(''IndicatorLED'', JStr ''Off'')]
      else if led = LED_BLINKING then [(''IndicatorLED'', JStr ''Blinking'')]
      else if led = LED_LIT then [(''IndicatorLED'', JStr ''Lit'')] else [])"

definition led_of :: "string \<Rightarrow> u8 \<Rightarrow> u8" where
  "led_of s led = (if s = ''Off'' then LED_OFF else if s = ''Lit'' then LED_LIT
     else if s = ''Blinking'' then LED_BLINKING else led)"

definition led_valid :: "u8 \<Rightarrow> bool" where
  "led_valid led \<longleftrightarrow> led = LED_OFF \<or> led = LED_BLINKING \<or> led = LED_LIT"

lemma led_valid_cases:
  "led_valid led \<Longrightarrow> (\<And>s. led_json led = [(''IndicatorLED'', JStr s)] \<Longrightarrow> \<forall>l. led_of s l = led \<Longrightarrow> P) \<Longrightarrow> P"
  by (auto simp: led_valid_def led_json_def led_of_def led_defs)

text \<open>An assignment that cannot throw.\<close>

definition load_value :: "'v \<Rightarrow> ('v \<Rightarrow> 'a \<Rightarrow> 'a) \<Rightarrow> 'a load_step" where
  "load_value v upd x = Some (upd v x)"

definition get_word_value :: "json \<Rightarrow> string \<Rightarrow> bool \<times> u32" where
  "get_word_value j k = (case get_int_value j k of (b, n) \<Rightarrow> (b, word_of_int n))"

lemma get_value_in:
  "get_bool_value (JObj ((a, b) # kvs)) k =
     (if k = a then (case as_bool b of Some v \<Rightarrow> (True, v) | None \<Rightarrow> (False, False)) else get_bool_value (JObj kvs) k)"
  "get_string_value (JObj ((a, b) # kvs)) k =
     (if k = a then (case as_string b of Some v \<Rightarrow> (True, v) | None \<Rightarrow> (False, [])) else get_string_value (JObj kvs) k)"
  "get_json_value (JObj ((a, b) # kvs)) k = (if k = a then (True, b) else get_json_value (JObj kvs) k)"
  "get_word_value (JObj ((a, b) # kvs)) k =
     (if k = a then (case as_word b of Some v \<Rightarrow> (True, v) | None \<Rightarrow> (False, 0)) else get_word_value (JObj kvs) k)"
  by (simp_all add: get_bool_value_def get_string_value_def get_json_value_def get_word_value_def get_int_value_def
      get_value_def as_word_def split: option.splits)

lemma get_value_base:
  assumes "k \<notin> base_keys"
  shows "get_bool_value (JObj (resource_fields o' n i t @ kvs)) k = get_bool_value (JObj kvs) k"
    "get_string_value (JObj (resource_fields o' n i t @ kvs)) k = get_string_value (JObj kvs) k"
    "get_json_value (JObj (resource_fields o' n i t @ kvs)) k = get_json_value (JObj kvs) k"
    "get_word_value (JObj (resource_fields o' n i t @ kvs)) k = get_word_value (JObj kvs) k"
  using json_field_base [OF assms, of o' n i t kvs]
  by (simp_all add: get_bool_value_def get_string_value_def get_json_value_def get_word_value_def get_int_value_def
      get_value_def del: json_field.simps)

lemmas value_simps = get_value_in get_value_base load_value_def

section \<open>The manager\<close>

record manager = resource +
  mg_id :: string
  mg_name :: string
  mg_manager_type :: string
  mg_description :: string
  mg_uuid :: string
  mg_model :: string
  mg_firmware_version :: string
  mg_datetime :: string
  mg_datetime_offset :: string
  mg_power_state :: string
  mg_state :: string
  mg_health :: string
  mg_network :: "string option"
  mg_ethernet :: "string option"
  mg_log_service :: "string option"
  mg_virtual_media :: "string option"
  mg_radius :: "string option"
  mg_actions :: "rf_action list"

definition new_manager :: "string \<Rightarrow> manager" where
  "new_manager odata =
     \<lparr>rb_odata = odata, rb_name = [], rb_type = 23, rb_otype = ''#Manager.v1_0_0.Manager'',
      mg_id = [], mg_name = [], mg_manager_type = [], mg_description = [], mg_uuid = [], mg_model = [],
      mg_firmware_version = [], mg_datetime = [], mg_datetime_offset = [], mg_power_state = [],
      mg_state = [], mg_health = [], mg_network = None, mg_ethernet = None, mg_log_service = None,
      mg_virtual_media = None, mg_radius = None,
      mg_actions = [\<lparr>ac_name = ''#Manager.Reset'', ac_target = odata @ ''/Actions/Manager.Reset'',
        ac_params = [(''ResetType'', [''GracefulRestart'', ''ForceRestart''])]\<rparr>]\<rparr>"

text \<open>\<open>KETI_define::global_enabler\<close> is a global of the program, written into the manager's file.\<close>

definition manager_json :: "manager \<times> u32 \<Rightarrow> json" where
  "manager_json s = (let x = fst s in JObj (resource_json x
     @ [(''Id'', JStr (mg_id x)), (''ManagerType'', JStr (mg_manager_type x)),
        (''Description'', JStr (mg_description x)), (''FirmwareVersion'', JStr (mg_firmware_version x)),
        (''DateTime'', JStr (mg_datetime x)), (''DateTimeLocalOffset'', JStr (mg_datetime_offset x)),
        (''Model'', JStr (mg_model x)), (''UUID'', JStr (mg_uuid x)), (''PowerState'', JStr (mg_power_state x)),
        (''NetworkProtocol'', odata_id_json (mg_network x)), (''EthernetInterfaces'', odata_id_json (mg_ethernet x)),
        (''LogServices'', odata_id_json (mg_log_service x)), (''VirtualMedia'', odata_id_json (mg_virtual_media x)),
        (''Radius'', odata_id_json (mg_radius x)), (''Status'', status_json (mg_state x) (mg_health x)),
        (''GlobaleEnable'', json_int (snd s)), (''Actions'', get_action_info (mg_actions x))]))"

definition on_object :: "'a load_step \<Rightarrow> ('a \<times> 'g) load_step" where
  "on_object f s = map_option (\<lambda>x. (x, snd s)) (f (fst s))"

text \<open>The global is read from the local \<open>status\<close> before that is assigned, a null value.\<close>

definition manager_load :: "json \<Rightarrow> manager \<times> u32 \<Rightarrow> bool \<times> (manager \<times> u32)" where
  "manager_load j = run_load
     (map on_object
       [load_base j,
        load_field as_string j ''Id'' (\<lambda>v x. x\<lparr>mg_id := v\<rparr>),
        load_field as_string j ''ManagerType'' (\<lambda>v x. x\<lparr>mg_manager_type := v\<rparr>),
        load_field as_string j ''Description'' (\<lambda>v x. x\<lparr>mg_description := v\<rparr>),
        load_field as_string j ''UUID'' (\<lambda>v x. x\<lparr>mg_uuid := v\<rparr>),
        load_field as_string j ''Model'' (\<lambda>v x. x\<lparr>mg_model := v\<rparr>),
        load_field as_string j ''FirmwareVersion'' (\<lambda>v x. x\<lparr>mg_firmware_version := v\<rparr>),
        load_field as_string j ''DateTime'' (\<lambda>v x. x\<lparr>mg_datetime := v\<rparr>),
        load_field as_string j ''DateTimeLocalOffset'' (\<lambda>v x. x\<lparr>mg_datetime_offset := v\<rparr>),
        load_field as_string j ''PowerState'' (\<lambda>v x. x\<lparr>mg_power_state := v\<rparr>)]
      @ [load_field as_word JNull ''GlobaleEnable'' (\<lambda>v s. (fst s, v))]
      @ map on_object (load_status j (\<lambda>v x. x\<lparr>mg_state := v\<rparr>) (\<lambda>v x. x\<lparr>mg_health := v\<rparr>)))"

text \<open>What is left of a manager: the status, the pointers and the global are those of the new object and
  process.\<close>

definition manager_kept :: "manager \<times> u32 \<Rightarrow> manager \<times> u32 \<Rightarrow> manager \<times> u32" where
  "manager_kept s t = (let x = fst s; y = fst t in
     (x\<lparr>mg_name := mg_name y, mg_state := mg_state y, mg_health := mg_health y, mg_network := mg_network y,
        mg_ethernet := mg_ethernet y, mg_log_service := mg_log_service y, mg_virtual_media := mg_virtual_media y,
        mg_radius := mg_radius y, mg_actions := mg_actions y\<rparr>, snd t))"

lemma manager_load_fails: "fst (manager_load j s) = False"
  by (auto simp: manager_load_def run_load_append load_field_def split: option.splits prod.splits bool.splits)

lemma manager_load_saved: "manager_load (manager_json s) t = (False, manager_kept s t)"
  by (cases "fst s"; cases "fst t")
    (simp add: manager_load_def manager_json_def manager_kept_def on_object_def file_simps load_field_def [of as_word JNull])

interpretation manager_file: saved_class manager_json manager_load "\<lambda>_. True" "\<lambda>_. True" manager_kept
  by unfold_locales (simp_all add: manager_load_saved manager_kept_def Let_def)

section \<open>Network protocols and RADIUS\<close>

record network_protocol = resource +
  np_id :: string
  np_hostname :: string
  np_description :: string
  np_fqdn :: string
  np_name :: string
  np_snmp_enabled :: bool
  np_ipmi_enabled :: bool
  np_ntp_enabled :: bool
  np_kvmip_enabled :: bool
  np_https_enabled :: bool
  np_http_enabled :: bool
  np_virtual_media_enabled :: bool
  np_ssh_enabled :: bool
  np_snmp_port :: u32
  np_ipmi_port :: u32
  np_ntp_port :: u32
  np_kvmip_port :: u32
  np_https_port :: u32
  np_http_port :: u32
  np_virtual_media_port :: u32
  np_ssh_port :: u32
  np_servers :: "string list"
  np_state :: string
  np_health :: string
  np_certificates :: "string option"

text \<open>The flags and ports of \<open>m\<close> are what the memory of the new object held.\<close>

definition new_network_protocol :: "string \<Rightarrow> network_protocol \<Rightarrow> network_protocol" where
  "new_network_protocol odata m = m
     \<lparr>rb_odata := odata, rb_name := [], rb_type := 24, rb_otype := ''#NetworkProtocol.v1_0_0.NetworkProtocol'',
      np_id := [], np_hostname := [], np_description := [], np_fqdn := [], np_name := [], np_servers := [],
      np_state := [], np_health := [], np_certificates := None\<rparr>"

definition protocol_json :: "bool \<Rightarrow> u32 \<Rightarrow> json" where
  "protocol_json enabled port = JObj [(''ProtocolEnabled'', JBool enabled), (''Port'', json_int port)]"

definition network_protocol_json :: "network_protocol \<Rightarrow> json" where
  "network_protocol_json x = JObj (resource_json x
     @ [(''FQDN'', JStr (np_fqdn x)), (''Id'', JStr (np_id x)), (''HostName'', JStr (np_hostname x)),
        (''Description'', JStr (np_description x)), (''Status'', status_json (np_state x) (np_health x)),
        (''SNMP'', protocol_json (np_snmp_enabled x) (np_snmp_port x)),
        (''IPMI'', protocol_json (np_ipmi_enabled x) (np_ipmi_port x)),
        (''VirtualMedia'', protocol_json (np_virtual_media_enabled x) (np_virtual_media_port x)),
        (''SSH'', protocol_json (np_ssh_enabled x) (np_ssh_port x)),
        (''KVMIP'', protocol_json (np_kvmip_enabled x) (np_kvmip_port x)),
        (''HTTP'', protocol_json (np_http_enabled x) (np_http_port x)),
        (''HTTPS'', protocol_json (np_https_enabled x) (np_https_port x)),
        (''NTP'', JObj [(''ProtocolEnabled'', JBool (np_ntp_enabled x)), (''NTPServers'', json_strings (np_servers x))]),
        (''Certificates'', odata_id_json (np_certificates x))])"

text \<open>\<open>obj = j.at(k)\<close> and the flag and port of a protocol.\<close>

definition load_protocol :: "json \<Rightarrow> string \<Rightarrow> (bool \<Rightarrow> 'a \<Rightarrow> 'a) \<Rightarrow> (u32 \<Rightarrow> 'a \<Rightarrow> 'a) \<Rightarrow> 'a load_step list" where
  "load_protocol j k enabled port = (let obj = at_field j k in
     [need_field j k, load_value (snd (get_bool_value obj ''ProtocolEnabled'')) enabled,
      load_value (snd (get_word_value obj ''Port'')) port])"

definition load_servers :: "json \<Rightarrow> network_protocol load_step list" where
  "load_servers v = (case v of JNull \<Rightarrow> []
     | JArr xs \<Rightarrow> map (push_string (\<lambda>v x. x\<lparr>np_servers := np_servers x @ [v]\<rparr>)) xs
     | _ \<Rightarrow> [\<lambda>_. None])"

definition network_protocol_load :: "json \<Rightarrow> network_protocol \<Rightarrow> bool \<times> network_protocol" where
  "network_protocol_load j = (let ntp = at_field j ''NTP'' in run_load
     ([load_base j,
       load_field as_string j ''Id'' (\<lambda>v x. x\<lparr>np_id := v\<rparr>),
       load_field as_string j ''FQDN'' (\<lambda>v x. x\<lparr>np_fqdn := v\<rparr>),
       load_field as_string j ''HostName'' (\<lambda>v x. x\<lparr>np_hostname := v\<rparr>),
       load_field as_string j ''Description'' (\<lambda>v x. x\<lparr>np_description := v\<rparr>)]
      @ load_status j (\<lambda>v x. x\<lparr>np_state := v\<rparr>) (\<lambda>v x. x\<lparr>np_health := v\<rparr>)
      @ load_protocol j ''SNMP'' (\<lambda>v x. x\<lparr>np_snmp_enabled := v\<rparr>) (\<lambda>v x. x\<lparr>np_snmp_port := v\<rparr>)
      @ load_protocol j ''IPMI'' (\<lambda>v x. x\<lparr>np_ipmi_enabled := v\<rparr>) (\<lambda>v x. x\<lparr>np_ipmi_port := v\<rparr>)
      @ load_protocol j ''KVMIP'' (\<lambda>v x. x\<lparr>np_kvmip_enabled := v\<rparr>) (\<lambda>v x. x\<lparr>np_kvmip_port := v\<rparr>)
      @ load_protocol j ''HTTP'' (\<lambda>v x. x\<lparr>np_http_enabled := v\<rparr>) (\<lambda>v x. x\<lparr>np_http_port := v\<rparr>)
      @ load_protocol j ''HTTPS'' (\<lambda>v x. x\<lparr>np_https_enabled := v\<rparr>) (\<lambda>v x. x\<lparr>np_https_port := v\<rparr>)
      @ [need_field j ''NTP'', load_value (snd (get_bool_value ntp ''ProtocolEnabled'')) (\<lambda>v x. x\<lparr>np_ntp_enabled := v\<rparr>)]
      @ load_servers (snd (get_json_value ntp ''NTPServers''))))"

text \<open>The protocols \<open>SSH\<close> and \<open>VirtualMedia\<close> are not read, and the port of NTP is not even written.\<close>

definition network_protocol_kept :: "network_protocol \<Rightarrow> network_protocol \<Rightarrow> network_protocol" where
  "network_protocol_kept x y = x
     \<lparr>np_name := np_name y, np_virtual_media_enabled := np_virtual_media_enabled y,
      np_virtual_media_port := np_virtual_media_port y, np_ssh_enabled := np_ssh_enabled y,
      np_ssh_port := np_ssh_port y, np_ntp_port := np_ntp_port y, np_certificates := np_certificates y\<rparr>"

interpretation servers: vector_member np_servers "\<lambda>vs x. x\<lparr>np_servers := vs\<rparr>"
  by unfold_locales auto

lemmas load_server_list = servers.load_strings [where elem = "\<lambda>v. v" and fs = "[]", simplified]

lemma network_protocol_load_saved:
  "np_servers y = [] \<Longrightarrow> network_protocol_load (network_protocol_json x) y = (True, network_protocol_kept x y)"
  by (cases x; cases y) (simp add: network_protocol_load_def network_protocol_json_def network_protocol_kept_def
      file_simps value_simps load_protocol_def protocol_json_def load_servers_def json_strings_def load_server_list Let_def)

interpretation network_file: saved_class network_protocol_json network_protocol_load "\<lambda>y. np_servers y = []" "\<lambda>_. True"
    network_protocol_kept
  by unfold_locales (simp_all add: network_protocol_load_saved network_protocol_kept_def)

record radius = resource +
  rx_id :: string
  rx_server :: string
  rx_secret :: string
  rx_port :: u32
  rx_enabled :: bool

definition new_radius :: "string \<Rightarrow> radius \<Rightarrow> radius" where
  "new_radius odata m = m
     \<lparr>rb_odata := odata, rb_name := [], rb_type := 48, rb_otype := ''#Radius.v1_0_0.Radius'', rx_id := ''Radius'',
      rx_server := [], rx_secret := []\<rparr>"

definition radius_json :: "radius \<Rightarrow> json" where
  "radius_json x = JObj (resource_json x
     @ [(''Id'', JStr (rx_id x)), (''RadiusEnabled'', JBool (rx_enabled x)), (''RadiusServer'', JStr (rx_server x)),
        (''RadiusPortNumber'', json_int (rx_port x)), (''RadiusSecret'', JStr (rx_secret x))])"

definition radius_load :: "json \<Rightarrow> radius \<Rightarrow> bool \<times> radius" where
  "radius_load j = run_load
     [load_base j,
      load_value (snd (get_string_value j ''Id'')) (\<lambda>v x. x\<lparr>rx_id := v\<rparr>),
      load_value (snd (get_bool_value j ''RadiusEnabled'')) (\<lambda>v x. x\<lparr>rx_enabled := v\<rparr>),
      load_value (snd (get_string_value j ''RadiusServer'')) (\<lambda>v x. x\<lparr>rx_server := v\<rparr>),
      load_value (snd (get_word_value j ''RadiusPortNumber'')) (\<lambda>v x. x\<lparr>rx_port := v\<rparr>),
      load_value (snd (get_string_value j ''RadiusSecret'')) (\<lambda>v x. x\<lparr>rx_secret := v\<rparr>)]"

lemma radius_load_saved: "radius_load (radius_json x) y = (True, x)"
  by (cases x; cases y) (simp add: radius_load_def radius_json_def file_simps value_simps)

interpretation radius_file: lossless_class radius_json radius_load "\<lambda>_. True" "\<lambda>_. True"
  by unfold_locales (simp add: radius_load_saved)

section \<open>Ethernet interfaces\<close>

record dhcp_v4 =
  d4_enabled :: bool
  d4_dns :: bool
  d4_gateway :: bool
  d4_ntp :: bool
  d4_routes :: bool
  d4_domain :: bool

record dhcp_v6 =
  d6_mode :: string
  d6_dns :: bool
  d6_ntp :: bool
  d6_domain :: bool
  d6_rapid :: bool

record ipv4_address =
  i4_address :: string
  i4_origin :: string
  i4_mask :: string
  i4_gateway :: string

record ipv6_address =
  i6_address :: string
  i6_origin :: string
  i6_state :: string
  i6_prefix :: u32

record ethernet_interface = resource +
  ei_id :: string
  ei_name :: string
  ei_description :: string
  ei_link_status :: string
  ei_permanent_mac :: string
  ei_mac :: string
  ei_speed :: u32
  ei_autoneg :: bool
  ei_full_duplex :: bool
  ei_mtu :: u32
  ei_hostname :: string
  ei_fqdn :: string
  ei_gateway6 :: string
  ei_enabled :: bool
  ei_name_servers :: "string list"
  ei_dhcp4 :: dhcp_v4
  ei_dhcp6 :: dhcp_v6
  ei_ipv4 :: "ipv4_address list"
  ei_ipv6 :: "ipv6_address list"
  ei_vlan_enable :: bool
  ei_vlan_id :: u32
  ei_state :: string
  ei_health :: string

definition new_ethernet_interface :: "string \<Rightarrow> ethernet_interface \<Rightarrow> ethernet_interface" where
  "new_ethernet_interface odata m = m
     \<lparr>rb_odata := odata, rb_name := [], rb_type := 25, rb_otype := ''#EthernetInterface.v1_0_0.EthernetInterface'',
      ei_id := [], ei_name := [], ei_description := [], ei_link_status := [], ei_permanent_mac := [], ei_mac := [],
      ei_hostname := [], ei_fqdn := [], ei_gateway6 := [], ei_name_servers := [],
      ei_dhcp6 := (ei_dhcp6 m)\<lparr>d6_mode := []\<rparr>, ei_ipv4 := [], ei_ipv6 := [], ei_state := [], ei_health := []\<rparr>"

definition dhcp_v4_json :: "dhcp_v4 \<Rightarrow> json" where
  "dhcp_v4_json d = JObj
     [(''DHCPEnabled'', JBool (d4_enabled d)), (''UseDNSServers'', JBool (d4_dns d)),
      (''UseGateway'', JBool (d4_gateway d)), (''UseNTPServers'', JBool (d4_ntp d)),
      (''UseStaticRoutes'', JBool (d4_routes d)), (''UseDomainName'', JBool (d4_domain d))]"

definition dhcp_v6_json :: "dhcp_v6 \<Rightarrow> json" where
  "dhcp_v6_json d = JObj
     [(''OperatingMode'', JStr (d6_mode d)), (''UseDNSServers'', JBool (d6_dns d)),
      (''UseDomainName'', JBool (d6_domain d)), (''UseNTPServers'', JBool (d6_ntp d)),
      (''UseRapidCommit'', JBool (d6_rapid d))]"

definition ipv4_json :: "ipv4_address \<Rightarrow> json" where
  "ipv4_json a = JObj
     [(''Address'', JStr (i4_address a)), (''SubnetMask'', JStr (i4_mask a)),
      (''AddressOrigin'', JStr (i4_origin a)), (''Gateway'', JStr (i4_gateway a))]"

definition ipv6_json :: "ipv6_address \<Rightarrow> json" where
  "ipv6_json a = JObj
     [(''Address'', JStr (i6_address a)), (''AddressState'', JStr (i6_state a)),
      (''AddressOrigin'', JStr (i6_origin a)), (''PrefixLength'', json_int (i6_prefix a))]"

definition ethernet_json :: "ethernet_interface \<Rightarrow> json" where
  "ethernet_json x = JObj (resource_json x
     @ [(''Id'', JStr (ei_id x)), (''Description'', JStr (ei_description x)), (''LinkStatus'', JStr (ei_link_status x)),
        (''PermanentMACAddress'', JStr (ei_permanent_mac x)), (''MACAddress'', JStr (ei_mac x)),
        (''SpeedMbps'', json_uint (ei_speed x)), (''AutoNeg'', JBool (ei_autoneg x)),
        (''FullDuplex'', JBool (ei_full_duplex x)), (''MTUSize'', json_uint (ei_mtu x)),
        (''HostName'', JStr (ei_hostname x)), (''FQDN'', JStr (ei_fqdn x)),
        (''IPv6DefaultGateway'', JStr (ei_gateway6 x)), (''InterfaceEnabled'', JBool (ei_enabled x)),
        (''Status'', status_json (ei_state x) (ei_health x)), (''NameServers'', json_strings (ei_name_servers x)),
        (''DHCPv4'', dhcp_v4_json (ei_dhcp4 x)), (''DHCPv6'', dhcp_v6_json (ei_dhcp6 x)),
        (''IPv4Addresses'', JArr (map ipv4_json (ei_ipv4 x))), (''IPv6Addresses'', JArr (map ipv6_json (ei_ipv6 x))),
        (''VLAN'', JObj [(''VLANEnable'', JBool (ei_vlan_enable x)), (''VLANId'', json_int (ei_vlan_id x))])])"

text \<open>An address is filled member by member and appended when all are there.\<close>

definition empty_ipv4 :: ipv4_address where
  "empty_ipv4 = \<lparr>i4_address = [], i4_origin = [], i4_mask = [], i4_gateway = []\<rparr>"

definition push_ipv4 :: "json \<Rightarrow> ethernet_interface load_step" where
  "push_ipv4 item x = (case run_load
       [load_field as_string item ''Address'' (\<lambda>v a. a\<lparr>i4_address := v\<rparr>),
        load_field as_string item ''AddressOrigin'' (\<lambda>v a. a\<lparr>i4_origin := v\<rparr>),
        load_field as_string item ''SubnetMask'' (\<lambda>v a. a\<lparr>i4_mask := v\<rparr>),
        load_field as_string item ''Gateway'' (\<lambda>v a. a\<lparr>i4_gateway := v\<rparr>)] empty_ipv4 of
      (True, a) \<Rightarrow> Some (x\<lparr>ei_ipv4 := ei_ipv4 x @ [a]\<rparr>) | (False, _) \<Rightarrow> None)"

definition empty_ipv6 :: ipv6_address where
  "empty_ipv6 = \<lparr>i6_address = [], i6_origin = [], i6_state = [], i6_prefix = 0\<rparr>"

definition push_ipv6 :: "json \<Rightarrow> ethernet_interface load_step" where
  "push_ipv6 item x = (case run_load
       [load_field as_string item ''Address'' (\<lambda>v a. a\<lparr>i6_address := v\<rparr>),
        load_field as_string item ''AddressOrigin'' (\<lambda>v a. a\<lparr>i6_origin := v\<rparr>),
        load_field as_string item ''AddressState'' (\<lambda>v a. a\<lparr>i6_state := v\<rparr>),
        load_field as_word item ''PrefixLength'' (\<lambda>v a. a\<lparr>i6_prefix := v\<rparr>)] empty_ipv6 of
      (True, a) \<Rightarrow> Some (x\<lparr>ei_ipv6 := ei_ipv6 x @ [a]\<rparr>) | (False, _) \<Rightarrow> None)"

definition load_dhcp4 :: "json \<Rightarrow> ethernet_interface load_step list" where
  "load_dhcp4 d =
     [load_field as_bool d ''DHCPEnabled'' (\<lambda>v x. x\<lparr>ei_dhcp4 := (ei_dhcp4 x)\<lparr>d4_enabled := v\<rparr>\<rparr>),
      load_field as_bool d ''UseDNSServers'' (\<lambda>v x. x\<lparr>ei_dhcp4 := (ei_dhcp4 x)\<lparr>d4_dns := v\<rparr>\<rparr>),
      load_field as_bool d ''UseDomainName'' (\<lambda>v x. x\<lparr>ei_dhcp4 := (ei_dhcp4 x)\<lparr>d4_domain := v\<rparr>\<rparr>),
      load_field as_bool d ''UseGateway'' (\<lambda>v x. x\<lparr>ei_dhcp4 := (ei_dhcp4 x)\<lparr>d4_gateway := v\<rparr>\<rparr>),
      load_field as_bool d ''UseNTPServers'' (\<lambda>v x. x\<lparr>ei_dhcp4 := (ei_dhcp4 x)\<lparr>d4_ntp := v\<rparr>\<rparr>),
      load_field as_bool d ''UseStaticRoutes'' (\<lambda>v x. x\<lparr>ei_dhcp4 := (ei_dhcp4 x)\<lparr>d4_routes := v\<rparr>\<rparr>)]"

definition load_dhcp6 :: "json \<Rightarrow> ethernet_interface load_step list" where
  "load_dhcp6 d =
     [load_field as_string d ''OperatingMode'' (\<lambda>v x. x\<lparr>ei_dhcp6 := (ei_dhcp6 x)\<lparr>d6_mode := v\<rparr>\<rparr>),
      load_field as_bool d ''UseDNSServers'' (\<lambda>v x. x\<lparr>ei_dhcp6 := (ei_dhcp6 x)\<lparr>d6_dns := v\<rparr>\<rparr>),
      load_field as_bool d ''UseDomainName'' (\<lambda>v x. x\<lparr>ei_dhcp6 := (ei_dhcp6 x)\<lparr>d6_domain := v\<rparr>\<rparr>),
      load_field as_bool d ''UseNTPServers'' (\<lambda>v x. x\<lparr>ei_dhcp6 := (ei_dhcp6 x)\<lparr>d6_ntp := v\<rparr>\<rparr>),
      load_field as_bool d ''UseRapidCommit'' (\<lambda>v x. x\<lparr>ei_dhcp6 := (ei_dhcp6 x)\<lparr>d6_rapid := v\<rparr>\<rparr>)]"

text \<open>The exception is caught with a log line and \<open>true\<close> returned.\<close>

definition ethernet_load :: "json \<Rightarrow> ethernet_interface \<Rightarrow> bool \<times> ethernet_interface" where
  "ethernet_load j x = (True, snd (run_load
     ([load_base j,
       load_field as_string j ''Id'' (\<lambda>v x. x\<lparr>ei_id := v\<rparr>),
       load_field as_string j ''Description'' (\<lambda>v x. x\<lparr>ei_description := v\<rparr>),
       load_field as_string j ''LinkStatus'' (\<lambda>v x. x\<lparr>ei_link_status := v\<rparr>),
       load_field as_string j ''PermanentMACAddress'' (\<lambda>v x. x\<lparr>ei_permanent_mac := v\<rparr>),
       load_field as_string j ''MACAddress'' (\<lambda>v x. x\<lparr>ei_mac := v\<rparr>),
       load_field as_word j ''SpeedMbps'' (\<lambda>v x. x\<lparr>ei_speed := v\<rparr>),
       load_field as_bool j ''AutoNeg'' (\<lambda>v x. x\<lparr>ei_autoneg := v\<rparr>),
       load_field as_bool j ''FullDuplex'' (\<lambda>v x. x\<lparr>ei_full_duplex := v\<rparr>),
       load_field as_word j ''MTUSize'' (\<lambda>v x. x\<lparr>ei_mtu := v\<rparr>),
       load_field as_string j ''HostName'' (\<lambda>v x. x\<lparr>ei_hostname := v\<rparr>),
       load_field as_string j ''FQDN'' (\<lambda>v x. x\<lparr>ei_fqdn := v\<rparr>),
       load_field as_bool j ''InterfaceEnabled'' (\<lambda>v x. x\<lparr>ei_enabled := v\<rparr>)]
      @ load_status j (\<lambda>v x. x\<lparr>ei_state := v\<rparr>) (\<lambda>v x. x\<lparr>ei_health := v\<rparr>)
      @ load_each j ''NameServers'' (push_string (\<lambda>v x. x\<lparr>ei_name_servers := ei_name_servers x @ [v]\<rparr>))
      @ [need_field j ''DHCPv4''] @ load_dhcp4 (at_field j ''DHCPv4'')
      @ [need_field j ''DHCPv6''] @ load_dhcp6 (at_field j ''DHCPv6'')
      @ load_each j ''IPv4Addresses'' push_ipv4
      @ load_each j ''IPv6Addresses'' push_ipv6
      @ [load_field as_string j ''IPv6DefaultGateway'' (\<lambda>v x. x\<lparr>ei_gateway6 := v\<rparr>),
         need_field j ''VLAN'',
         load_field as_bool (at_field j ''VLAN'') ''VLANEnable'' (\<lambda>v x. x\<lparr>ei_vlan_enable := v\<rparr>),
         load_field as_word (at_field j ''VLAN'') ''VLANId'' (\<lambda>v x. x\<lparr>ei_vlan_id := v\<rparr>)]) x))"

interpretation name_servers: vector_member ei_name_servers "\<lambda>vs x. x\<lparr>ei_name_servers := vs\<rparr>"
  by unfold_locales auto

interpretation ipv4s: vector_member ei_ipv4 "\<lambda>vs x. x\<lparr>ei_ipv4 := vs\<rparr>"
  by unfold_locales auto

interpretation ipv6s: vector_member ei_ipv6 "\<lambda>vs x. x\<lparr>ei_ipv6 := vs\<rparr>"
  by unfold_locales auto

lemma push_ipv4_json: "push_ipv4 (ipv4_json a) x = Some (x\<lparr>ei_ipv4 := ei_ipv4 x @ [a]\<rparr>)"
  by (cases a) (simp add: push_ipv4_def ipv4_json_def load_field_in empty_ipv4_def)

lemma push_ipv6_json: "push_ipv6 (ipv6_json a) x = Some (x\<lparr>ei_ipv6 := ei_ipv6 x @ [a]\<rparr>)"
  by (cases a) (simp add: push_ipv6_def ipv6_json_def load_field_in empty_ipv6_def)

lemma load_name_servers:
  "run_load (map (push_string (\<lambda>v x. x\<lparr>ei_name_servers := ei_name_servers x @ [v]\<rparr>)) (map JStr vs) @ fs) x
   = run_load fs (x\<lparr>ei_name_servers := ei_name_servers x @ vs\<rparr>)"
  using name_servers.load_strings [of _ "\<lambda>v. v" vs fs x] by simp

lemma load_ipv4s:
  "run_load (map push_ipv4 (map ipv4_json vs) @ fs) x = run_load fs (x\<lparr>ei_ipv4 := ei_ipv4 x @ vs\<rparr>)"
  using ipv4s.load_pushes [of "\<lambda>a. push_ipv4 (ipv4_json a)" "\<lambda>v. v" vs fs x] by (simp add: push_ipv4_json comp_def)

lemma load_ipv6s:
  "run_load (map push_ipv6 (map ipv6_json vs) @ fs) x = run_load fs (x\<lparr>ei_ipv6 := ei_ipv6 x @ vs\<rparr>)"
  using ipv6s.load_pushes [of "\<lambda>a. push_ipv6 (ipv6_json a)" "\<lambda>v. v" vs fs x] by (simp add: push_ipv6_json comp_def)

definition ethernet_fresh :: "ethernet_interface \<Rightarrow> bool" where
  "ethernet_fresh y \<longleftrightarrow> ei_name_servers y = [] \<and> ei_ipv4 y = [] \<and> ei_ipv6 y = []"

lemma load_dhcp4_json:
  "run_load (load_dhcp4 (dhcp_v4_json d) @ fs) x = run_load fs (x\<lparr>ei_dhcp4 := d\<rparr>)"
  by (cases d; cases "ei_dhcp4 x") (simp add: load_dhcp4_def dhcp_v4_json_def load_field_in)

lemma load_dhcp6_json:
  "run_load (load_dhcp6 (dhcp_v6_json d) @ fs) x = run_load fs (x\<lparr>ei_dhcp6 := d\<rparr>)"
  by (cases d; cases "ei_dhcp6 x") (simp add: load_dhcp6_def dhcp_v6_json_def load_field_in)

lemma ethernet_load_saved:
  "ethernet_fresh y \<Longrightarrow> ethernet_load (ethernet_json x) y = (True, x\<lparr>ei_name := ei_name y\<rparr>)"
  by (cases x; cases y) (simp add: ethernet_load_def ethernet_json_def ethernet_fresh_def file_simps json_strings_def
      load_name_servers load_ipv4s load_ipv6s load_dhcp4_json load_dhcp6_json del: map_map)

interpretation ethernet_file: saved_class ethernet_json ethernet_load ethernet_fresh "\<lambda>_. True" "\<lambda>x y. x\<lparr>ei_name := ei_name y\<rparr>"
  by unfold_locales (simp_all add: ethernet_load_saved)

section \<open>The computer system\<close>

record boot =
  bo_enabled :: string
  bo_target :: string
  bo_mode :: string
  bo_uefi_target :: string

record computer_system = resource +
  sy_id :: string
  sy_name :: string
  sy_system_type :: string
  sy_manufacturer :: string
  sy_model :: string
  sy_serial_number :: string
  sy_part_number :: string
  sy_description :: string
  sy_hostname :: string
  sy_asset_tag :: string
  sy_power_state :: string
  sy_led :: u8
  sy_bios_version :: string
  sy_uuid :: string
  sy_state :: string
  sy_health :: string
  sy_boot :: boot
  sy_bios :: "string option"
  sy_storage :: "string option"
  sy_processor :: "string option"
  sy_memory :: "string option"
  sy_ethernet :: "string option"
  sy_simple_storage :: "string option"
  sy_log_service :: "string option"
  sy_actions :: "rf_action list"

definition new_system :: "string \<Rightarrow> u8 \<Rightarrow> computer_system" where
  "new_system odata led =
     \<lparr>rb_odata = odata, rb_name = [], rb_type = 5, rb_otype = ''#ComputerSystem.v1_0_0.ComputerSystem'',
      sy_id = [], sy_name = [], sy_system_type = [], sy_manufacturer = [], sy_model = [], sy_serial_number = [],
      sy_part_number = [], sy_description = [], sy_hostname = [], sy_asset_tag = [], sy_power_state = [],
      sy_led = led, sy_bios_version = [], sy_uuid = [], sy_state = [], sy_health = [],
      sy_boot = \<lparr>bo_enabled = [], bo_target = [], bo_mode = [], bo_uefi_target = []\<rparr>,
      sy_bios = None, sy_storage = None, sy_processor = None, sy_memory = None, sy_ethernet = None,
      sy_simple_storage = None, sy_log_service = None,
      sy_actions = [\<lparr>ac_name = ''#ComputerSystem.Reset'', ac_target = odata @ ''/Actions/ComputerSystem.Reset'',
        ac_params = [(''ResetType'', [''On'', ''ForceOff'', ''GracefulShutdown'', ''GracefulRestart''])]\<rparr>]\<rparr>"

definition boot_json :: "boot \<Rightarrow> json" where
  "boot_json b = JObj
     [(''BootSourceOverrideEnabled'', JStr (bo_enabled b)), (''BootSourceOverrideTarget'', JStr (bo_target b)),
      (''BootSourceOverrideMode'', JStr (bo_mode b)), (''UefiTargetBootSourceOverride'', JStr (bo_uefi_target b))]"

definition system_json :: "computer_system \<Rightarrow> json" where
  "system_json x = JObj (resource_json x
     @ [(''Id'', JStr (sy_id x)), (''SystemType'', JStr (sy_system_type x)), (''AssetTag'', JStr (sy_asset_tag x)),
        (''Manufacturer'', JStr (sy_manufacturer x)), (''Model'', JStr (sy_model x)),
        (''SerialNumber'', JStr (sy_serial_number x)), (''PartNumber'', JStr (sy_part_number x)),
        (''Description'', JStr (sy_description x)), (''UUID'', JStr (sy_uuid x)), (''HostName'', JStr (sy_hostname x)),
        (''Status'', status_json (sy_state x) (sy_health x))]
     @ led_json (sy_led x)
     @ [(''PowerState'', JStr (sy_power_state x)), (''BiosVersion'', JStr (sy_bios_version x)),
        (''Boot'', boot_json (sy_boot x)), (''Bios'', odata_id_json (sy_bios x)),
        (''Storage'', odata_id_json (sy_storage x)), (''Processors'', odata_id_json (sy_processor x)),
        (''Memory'', odata_id_json (sy_memory x)), (''EthernetInterfaces'', odata_id_json (sy_ethernet x)),
        (''SimpleStorage'', odata_id_json (sy_simple_storage x)), (''LogServices'', odata_id_json (sy_log_service x)),
        (''Actions'', get_action_info (sy_actions x))])"

definition load_boot :: "json \<Rightarrow> computer_system load_step list" where
  "load_boot b =
     [load_field as_string b ''BootSourceOverrideEnabled'' (\<lambda>v x. x\<lparr>sy_boot := (sy_boot x)\<lparr>bo_enabled := v\<rparr>\<rparr>),
      load_field as_string b ''BootSourceOverrideMode'' (\<lambda>v x. x\<lparr>sy_boot := (sy_boot x)\<lparr>bo_mode := v\<rparr>\<rparr>),
      load_field as_string b ''BootSourceOverrideTarget'' (\<lambda>v x. x\<lparr>sy_boot := (sy_boot x)\<lparr>bo_target := v\<rparr>\<rparr>),
      load_field as_string b ''UefiTargetBootSourceOverride'' (\<lambda>v x. x\<lparr>sy_boot := (sy_boot x)\<lparr>bo_uefi_target := v\<rparr>\<rparr>)]"

definition system_load :: "json \<Rightarrow> computer_system \<Rightarrow> bool \<times> computer_system" where
  "system_load j = run_load
     ([load_base j,
       load_field as_string j ''Id'' (\<lambda>v x. x\<lparr>sy_id := v\<rparr>),
       load_field as_string j ''SystemType'' (\<lambda>v x. x\<lparr>sy_system_type := v\<rparr>),
       load_field as_string j ''Manufacturer'' (\<lambda>v x. x\<lparr>sy_manufacturer := v\<rparr>),
       load_field as_string j ''Model'' (\<lambda>v x. x\<lparr>sy_model := v\<rparr>),
       load_field as_string j ''SerialNumber'' (\<lambda>v x. x\<lparr>sy_serial_number := v\<rparr>),
       load_field as_string j ''PartNumber'' (\<lambda>v x. x\<lparr>sy_part_number := v\<rparr>),
       load_field as_string j ''Description'' (\<lambda>v x. x\<lparr>sy_description := v\<rparr>),
       load_field as_string j ''HostName'' (\<lambda>v x. x\<lparr>sy_hostname := v\<rparr>),
       load_field as_string j ''AssetTag'' (\<lambda>v x. x\<lparr>sy_asset_tag := v\<rparr>),
       load_field as_string j ''PowerState'' (\<lambda>v x. x\<lparr>sy_power_state := v\<rparr>),
       load_field as_string j ''UUID'' (\<lambda>v x. x\<lparr>sy_uuid := v\<rparr>)]
      @ load_status j (\<lambda>v x. x\<lparr>sy_state := v\<rparr>) (\<lambda>v x. x\<lparr>sy_health := v\<rparr>)
      @ [load_field as_string j ''IndicatorLED'' (\<lambda>v x. x\<lparr>sy_led := led_of v (sy_led x)\<rparr>),
         need_field j ''Boot'']
      @ load_boot (at_field j ''Boot''))"

definition system_kept :: "computer_system \<Rightarrow> computer_system \<Rightarrow> computer_system" where
  "system_kept x y = x
     \<lparr>sy_name := sy_name y, sy_bios_version := sy_bios_version y, sy_bios := sy_bios y, sy_storage := sy_storage y,
      sy_processor := sy_processor y, sy_memory := sy_memory y, sy_ethernet := sy_ethernet y,
      sy_simple_storage := sy_simple_storage y, sy_log_service := sy_log_service y, sy_actions := sy_actions y\<rparr>"

lemma load_boot_json: "run_load (load_boot (boot_json b)) x = (True, x\<lparr>sy_boot := b\<rparr>)"
  by (cases b; cases "sy_boot x") (simp add: load_boot_def boot_json_def load_field_in)

lemma system_load_saved:
  assumes "led_valid (sy_led x)"
  shows "system_load (system_json x) y = (True, system_kept x y)"
proof -
  obtain s where s: "led_json (sy_led x) = [(''IndicatorLED'', JStr s)]" "\<forall>l. led_of s l = sy_led x"
    using assms by (rule led_valid_cases)
  then show ?thesis
    by (cases x; cases y) (simp add: system_load_def system_json_def system_kept_def file_simps load_boot_json)
qed

interpretation system_file: saved_class system_json system_load "\<lambda>_. True" "\<lambda>x. led_valid (sy_led x)" system_kept
  by unfold_locales (simp_all add: system_load_saved, simp_all add: system_kept_def)

section \<open>The chassis\<close>

record postal_address =
  pa_country :: string
  pa_territory :: string
  pa_city :: string
  pa_street :: string
  pa_house_number :: string
  pa_name :: string
  pa_postal_code :: string

record placement =
  pl_row :: string
  pl_rack :: string
  pl_units :: string
  pl_offset :: u32

record chassis_resource = resource +
  ch_id :: string
  ch_chassis_type :: string
  ch_manufacturer :: string
  ch_model :: string
  ch_serial_number :: string
  ch_part_number :: string
  ch_asset_tag :: string
  ch_power_state :: string
  ch_led :: u8
  ch_state :: string
  ch_health :: string
  ch_address :: postal_address
  ch_placement :: placement
  ch_thermal :: "string option"
  ch_power :: "string option"
  ch_storage :: "string option"
  ch_sensors :: "string option"
  ch_log_service :: "string option"

definition new_chassis :: "string \<Rightarrow> u8 \<Rightarrow> u32 \<Rightarrow> chassis_resource" where
  "new_chassis odata led off =
     \<lparr>rb_odata = odata, rb_name = [], rb_type = 14, rb_otype = ''#Chassis.v1_0_0.Chassis'', ch_id = [],
      ch_chassis_type = [], ch_manufacturer = [], ch_model = [], ch_serial_number = [], ch_part_number = [],
      ch_asset_tag = [], ch_power_state = [], ch_led = led, ch_state = [], ch_health = [],
      ch_address = \<lparr>pa_country = [], pa_territory = [], pa_city = [], pa_street = [], pa_house_number = [],
        pa_name = [], pa_postal_code = []\<rparr>,
      ch_placement = \<lparr>pl_row = [], pl_rack = [], pl_units = [], pl_offset = off\<rparr>,
      ch_thermal = None, ch_power = None, ch_storage = None, ch_sensors = None, ch_log_service = None\<rparr>"

definition address_json :: "postal_address \<Rightarrow> json" where
  "address_json a = JObj
     [(''Country'', JStr (pa_country a)), (''Territory'', JStr (pa_territory a)), (''City'', JStr (pa_city a)),
      (''Street'', JStr (pa_street a)), (''HouseNumber'', JStr (pa_house_number a)), (''Name'', JStr (pa_name a)),
      (''PostalCode'', JStr (pa_postal_code a))]"

definition placement_json :: "placement \<Rightarrow> json" where
  "placement_json p = JObj
     [(''Row'', JStr (pl_row p)), (''Rack'', JStr (pl_rack p)), (''RackOffsetUnits'', JStr (pl_units p)),
      (''RackOffset'', json_uint (pl_offset p))]"

definition chassis_json :: "chassis_resource \<Rightarrow> json" where
  "chassis_json x = JObj (resource_json x
     @ [(''Id'', JStr (ch_id x)), (''ChassisType'', JStr (ch_chassis_type x)), (''Manufacturer'', JStr (ch_manufacturer x)),
        (''Model'', JStr (ch_model x)), (''SerialNumber'', JStr (ch_serial_number x)),
        (''PartNumber'', JStr (ch_part_number x)), (''AssetTag'', JStr (ch_asset_tag x)),
        (''PowerState'', JStr (ch_power_state x))]
     @ led_json (ch_led x)
     @ [(''Status'', status_json (ch_state x) (ch_health x)),
        (''Location'', JObj [(''PostalAddress'', address_json (ch_address x)),
                             (''Placement'', placement_json (ch_placement x))]),
        (''Thermal'', odata_id_json (ch_thermal x)), (''Power'', odata_id_json (ch_power x)),
        (''Storage'', odata_id_json (ch_storage x)), (''Sensors'', odata_id_json (ch_sensors x)),
        (''LogServices'', odata_id_json (ch_log_service x))])"

definition load_address :: "json \<Rightarrow> chassis_resource load_step list" where
  "load_address a =
     [load_field as_string a ''Country'' (\<lambda>v x. x\<lparr>ch_address := (ch_address x)\<lparr>pa_country := v\<rparr>\<rparr>),
      load_field as_string a ''Territory'' (\<lambda>v x. x\<lparr>ch_address := (ch_address x)\<lparr>pa_territory := v\<rparr>\<rparr>),
      load_field as_string a ''City'' (\<lambda>v x. x\<lparr>ch_address := (ch_address x)\<lparr>pa_city := v\<rparr>\<rparr>),
      load_field as_string a ''Street'' (\<lambda>v x. x\<lparr>ch_address := (ch_address x)\<lparr>pa_street := v\<rparr>\<rparr>),
      load_field as_string a ''HouseNumber'' (\<lambda>v x. x\<lparr>ch_address := (ch_address x)\<lparr>pa_house_number := v\<rparr>\<rparr>),
      load_field as_string a ''Name'' (\<lambda>v x. x\<lparr>ch_address := (ch_address x)\<lparr>pa_name := v\<rparr>\<rparr>),
      load_field as_string a ''PostalCode'' (\<lambda>v x. x\<lparr>ch_address := (ch_address x)\<lparr>pa_postal_code := v\<rparr>\<rparr>)]"

definition load_placement :: "json \<Rightarrow> chassis_resource load_step list" where
  "load_placement p =
     [load_field as_string p ''Row'' (\<lambda>v x. x\<lparr>ch_placement := (ch_placement x)\<lparr>pl_row := v\<rparr>\<rparr>),
      load_field as_string p ''Rack'' (\<lambda>v x. x\<lparr>ch_placement := (ch_placement x)\<lparr>pl_rack := v\<rparr>\<rparr>),
      load_field as_string p ''RackOffsetUnits'' (\<lambda>v x. x\<lparr>ch_placement := (ch_placement x)\<lparr>pl_units := v\<rparr>\<rparr>),
      load_field as_word p ''RackOffset'' (\<lambda>v x. x\<lparr>ch_placement := (ch_placement x)\<lparr>pl_offset := v\<rparr>\<rparr>)]"

definition chassis_load :: "json \<Rightarrow> chassis_resource \<Rightarrow> bool \<times> chassis_resource" where
  "chassis_load j = (let loc = at_field j ''Location'' in run_load
     ([load_base j,
       load_field as_string j ''Id'' (\<lambda>v x. x\<lparr>ch_id := v\<rparr>),
       load_field as_string j ''ChassisType'' (\<lambda>v x. x\<lparr>ch_chassis_type := v\<rparr>),
       load_field as_string j ''Manufacturer'' (\<lambda>v x. x\<lparr>ch_manufacturer := v\<rparr>),
       load_field as_string j ''Model'' (\<lambda>v x. x\<lparr>ch_model := v\<rparr>),
       load_field as_string j ''SerialNumber'' (\<lambda>v x. x\<lparr>ch_serial_number := v\<rparr>),
       load_field as_string j ''PartNumber'' (\<lambda>v x. x\<lparr>ch_part_number := v\<rparr>),
       load_field as_string j ''AssetTag'' (\<lambda>v x. x\<lparr>ch_asset_tag := v\<rparr>),
       load_field as_string j ''PowerState'' (\<lambda>v x. x\<lparr>ch_power_state := v\<rparr>),
       load_field as_string j ''IndicatorLED'' (\<lambda>v x. x\<lparr>ch_led := led_of v (ch_led x)\<rparr>)]
      @ load_status j (\<lambda>v x. x\<lparr>ch_state := v\<rparr>) (\<lambda>v x. x\<lparr>ch_health := v\<rparr>)
      @ [need_field j ''Location'', need_field loc ''PostalAddress'']
      @ load_address (at_field loc ''PostalAddress'')
      @ [need_field loc ''Placement'']
      @ load_placement (at_field loc ''Placement'')))"

definition chassis_kept :: "chassis_resource \<Rightarrow> chassis_resource \<Rightarrow> chassis_resource" where
  "chassis_kept x y = x
     \<lparr>ch_thermal := ch_thermal y, ch_power := ch_power y, ch_storage := ch_storage y, ch_sensors := ch_sensors y,
      ch_log_service := ch_log_service y\<rparr>"

lemma load_address_json: "run_load (load_address (address_json a) @ fs) x = run_load fs (x\<lparr>ch_address := a\<rparr>)"
  by (cases a; cases "ch_address x") (simp add: load_address_def address_json_def load_field_in)

lemma load_placement_json: "run_load (load_placement (placement_json p)) x = (True, x\<lparr>ch_placement := p\<rparr>)"
  by (cases p; cases "ch_placement x") (simp add: load_placement_def placement_json_def load_field_in)

lemma chassis_load_saved:
  assumes "led_valid (ch_led x)"
  shows "chassis_load (chassis_json x) y = (True, chassis_kept x y)"
proof -
  obtain s where s: "led_json (ch_led x) = [(''IndicatorLED'', JStr s)]" "\<forall>l. led_of s l = ch_led x"
    using assms by (rule led_valid_cases)
  then show ?thesis
    by (cases x; cases y) (simp add: chassis_load_def chassis_json_def chassis_kept_def file_simps load_address_json
        load_placement_json Let_def)
qed

interpretation chassis_file: saved_class chassis_json chassis_load "\<lambda>_. True" "\<lambda>x. led_valid (ch_led x)" chassis_kept
  by unfold_locales (simp_all add: chassis_load_saved, simp_all add: chassis_kept_def)

end
