(* ===== verification/Redfish_Parts.thy ===== *)
theory Redfish_Parts
  imports Redfish_Platform
begin

text \<open>
  The parts of a machine: fans, processors and memory modules, with \<open>get_json\<close> and
  \<open>load_json\<close> (libs/redfish/resource.cpp). Classes with members of type \<open>double\<close>
  (temperatures, sensors, power, storage controllers) are left out.
\<close>

section \<open>Fans\<close>

record fan = resource +
  fn_member_id :: string
  fn_state :: string
  fn_health :: string
  fn_sensor_num :: u32
  fn_reading :: u32
  fn_units :: string
  fn_upper_non_critical :: u32
  fn_upper_critical :: u32
  fn_upper_fatal :: u32
  fn_lower_non_critical :: u32
  fn_lower_critical :: u32
  fn_lower_fatal :: u32
  fn_min_range :: u32
  fn_max_range :: u32
  fn_context :: string

definition new_fan :: "string \<Rightarrow> fan \<Rightarrow> fan" where
  "new_fan odata m = m\<lparr>rb_odata := odata, rb_name := [], rb_type := 17, rb_otype := [], fn_member_id := [],
     fn_state := [], fn_health := [], fn_units := [], fn_context := []\<rparr>"

definition fan_json :: "fan \<Rightarrow> json" where
  "fan_json x = JObj (resource_json x
     @ [(''MemberId'', JStr (fn_member_id x)), (''Status'', status_json (fn_state x) (fn_health x)),
        (''SensorNumber'', json_int (fn_sensor_num x)), (''Reading'', json_int (fn_reading x)),
        (''ReadingUnits'', JStr (fn_units x)),
        (''UpperThresholdNonCritical'', json_int (fn_upper_non_critical x)),
        (''UpperThresholdCritical'', json_int (fn_upper_critical x)),
        (''UpperThresholdFatal'', json_int (fn_upper_fatal x)),
        (''LowerThresholdNonCritical'', json_int (fn_lower_non_critical x)),
        (''LowerThresholdCritical'', json_int (fn_lower_critical x)),
        (''LowerThresholdFatal'', json_int (fn_lower_fatal x)),
        (''MinReadingRange'', json_int (fn_min_range x)), (''MaxReadingRange'', json_int (fn_max_range x)),
        (''PhysicalContext'', JStr (fn_context x))])"

definition fan_load :: "json \<Rightarrow> fan \<Rightarrow> bool \<times> fan" where
  "fan_load j = run_load
     ([load_base j, load_field as_string j ''MemberId'' (\<lambda>v x. x\<lparr>fn_member_id := v\<rparr>)]
      @ load_status j (\<lambda>v x. x\<lparr>fn_state := v\<rparr>) (\<lambda>v x. x\<lparr>fn_health := v\<rparr>)
      @ [load_field as_word j ''SensorNumber'' (\<lambda>v x. x\<lparr>fn_sensor_num := v\<rparr>),
         load_field as_word j ''Reading'' (\<lambda>v x. x\<lparr>fn_reading := v\<rparr>),
         load_field as_string j ''ReadingUnits'' (\<lambda>v x. x\<lparr>fn_units := v\<rparr>),
         load_field as_word j ''UpperThresholdNonCritical'' (\<lambda>v x. x\<lparr>fn_upper_non_critical := v\<rparr>),
         load_field as_word j ''UpperThresholdCritical'' (\<lambda>v x. x\<lparr>fn_upper_critical := v\<rparr>),
         load_field as_word j ''UpperThresholdFatal'' (\<lambda>v x. x\<lparr>fn_upper_fatal := v\<rparr>),
         load_field as_word j ''LowerThresholdNonCritical'' (\<lambda>v x. x\<lparr>fn_lower_non_critical := v\<rparr>),
         load_field as_word j ''LowerThresholdCritical'' (\<lambda>v x. x\<lparr>fn_lower_critical := v\<rparr>),
         load_field as_word j ''LowerThresholdFatal'' (\<lambda>v x. x\<lparr>fn_lower_fatal := v\<rparr>),
         load_field as_word j ''MinReadingRange'' (\<lambda>v x. x\<lparr>fn_min_range := v\<rparr>),
         load_field as_word j ''MaxReadingRange'' (\<lambda>v x. x\<lparr>fn_max_range := v\<rparr>),
         load_field as_string j ''PhysicalContext'' (\<lambda>v x. x\<lparr>fn_context := v\<rparr>)])"

lemma fan_load_saved: "fan_load (fan_json x) y = (True, x)"
  by (cases x; cases y) (simp add: fan_load_def fan_json_def file_simps)

interpretation fan_file: lossless_class fan_json fan_load "\<lambda>_. True" "\<lambda>_. True"
  by unfold_locales (simp add: fan_load_saved)

section \<open>Processors and memory\<close>

record processor_id =
  pi_vendor :: string
  pi_registers :: string
  pi_family :: string
  pi_model :: string
  pi_step :: string
  pi_microcode :: string

record processor = resource +
  pr_id :: string
  pr_socket :: string
  pr_type :: string
  pr_architecture :: string
  pr_instruction_set :: string
  pr_manufacturer :: string
  pr_model :: string
  pr_max_speed :: u32
  pr_cores :: u32
  pr_threads :: u32
  pr_state :: string
  pr_health :: string
  pr_pid :: processor_id

definition processor_id_json :: "processor_id \<Rightarrow> json" where
  "processor_id_json p = JObj
     [(''VendorId'', JStr (pi_vendor p)), (''IdentificationRegisters'', JStr (pi_registers p)),
      (''EffectiveFamily'', JStr (pi_family p)), (''EffectiveModel'', JStr (pi_model p)),
      (''Step'', JStr (pi_step p)), (''MicrocodeInfo'', JStr (pi_microcode p))]"

definition processor_json :: "processor \<Rightarrow> json" where
  "processor_json x = JObj (resource_json x
     @ [(''Id'', JStr (pr_id x)), (''Socket'', JStr (pr_socket x)), (''ProcessorType'', JStr (pr_type x)),
        (''ProcessorArchitecture'', JStr (pr_architecture x)), (''InstructionSet'', JStr (pr_instruction_set x)),
        (''Manufacturer'', JStr (pr_manufacturer x)), (''Model'', JStr (pr_model x)),
        (''MaxSpeedMHz'', json_int (pr_max_speed x)), (''TotalCores'', json_int (pr_cores x)),
        (''TotalThreads'', json_int (pr_threads x)), (''Status'', status_json (pr_state x) (pr_health x)),
        (''ProcessorId'', processor_id_json (pr_pid x))])"

definition load_processor_id :: "json \<Rightarrow> processor load_step list" where
  "load_processor_id p =
     [load_field as_string p ''VendorId'' (\<lambda>v x. x\<lparr>pr_pid := (pr_pid x)\<lparr>pi_vendor := v\<rparr>\<rparr>),
      load_field as_string p ''IdentificationRegisters'' (\<lambda>v x. x\<lparr>pr_pid := (pr_pid x)\<lparr>pi_registers := v\<rparr>\<rparr>),
      load_field as_string p ''EffectiveFamily'' (\<lambda>v x. x\<lparr>pr_pid := (pr_pid x)\<lparr>pi_family := v\<rparr>\<rparr>),
      load_field as_string p ''EffectiveModel'' (\<lambda>v x. x\<lparr>pr_pid := (pr_pid x)\<lparr>pi_model := v\<rparr>\<rparr>),
      load_field as_string p ''Step'' (\<lambda>v x. x\<lparr>pr_pid := (pr_pid x)\<lparr>pi_step := v\<rparr>\<rparr>),
      load_field as_string p ''MicrocodeInfo'' (\<lambda>v x. x\<lparr>pr_pid := (pr_pid x)\<lparr>pi_microcode := v\<rparr>\<rparr>)]"

definition processor_load :: "json \<Rightarrow> processor \<Rightarrow> bool \<times> processor" where
  "processor_load j = run_load
     ([load_base j,
       load_field as_string j ''Id'' (\<lambda>v x. x\<lparr>pr_id := v\<rparr>),
       load_field as_string j ''Socket'' (\<lambda>v x. x\<lparr>pr_socket := v\<rparr>),
       load_field as_string j ''ProcessorType'' (\<lambda>v x. x\<lparr>pr_type := v\<rparr>),
       load_field as_string j ''ProcessorArchitecture'' (\<lambda>v x. x\<lparr>pr_architecture := v\<rparr>),
       load_field as_string j ''InstructionSet'' (\<lambda>v x. x\<lparr>pr_instruction_set := v\<rparr>),
       load_field as_string j ''Manufacturer'' (\<lambda>v x. x\<lparr>pr_manufacturer := v\<rparr>),
       load_field as_string j ''Model'' (\<lambda>v x. x\<lparr>pr_model := v\<rparr>),
       load_field as_word j ''MaxSpeedMHz'' (\<lambda>v x. x\<lparr>pr_max_speed := v\<rparr>),
       load_field as_word j ''TotalCores'' (\<lambda>v x. x\<lparr>pr_cores := v\<rparr>),
       load_field as_word j ''TotalThreads'' (\<lambda>v x. x\<lparr>pr_threads := v\<rparr>)]
      @ load_status j (\<lambda>v x. x\<lparr>pr_state := v\<rparr>) (\<lambda>v x. x\<lparr>pr_health := v\<rparr>)
      @ [need_field j ''ProcessorId''] @ load_processor_id (at_field j ''ProcessorId''))"

lemma load_processor_id_json: "run_load (load_processor_id (processor_id_json p)) x = (True, x\<lparr>pr_pid := p\<rparr>)"
  by (cases p; cases "pr_pid x") (simp add: load_processor_id_def processor_id_json_def load_field_in)

lemma processor_load_saved: "processor_load (processor_json x) y = (True, x)"
  by (cases x; cases y) (simp add: processor_load_def processor_json_def file_simps load_processor_id_json)

interpretation processor_file: lossless_class processor_json processor_load "\<lambda>_. True" "\<lambda>_. True"
  by unfold_locales (simp add: processor_load_saved)

record memory_location =
  ml_channel :: u32
  ml_controller :: u32
  ml_slot :: u32
  ml_socket :: u32

record memory_module = resource +
  mm_id :: string
  mm_rank_count :: u32
  mm_capacity :: u32
  mm_data_width :: u32
  mm_bus_width :: u32
  mm_error_correction :: string
  mm_location :: memory_location
  mm_type :: string
  mm_device_type :: string
  mm_base_module :: string
  mm_media :: "string list"
  mm_max_tdp :: "u32 list"
  mm_state :: string
  mm_health :: string

definition memory_location_json :: "memory_location \<Rightarrow> json" where
  "memory_location_json l = JObj
     [(''Socket'', json_uint (ml_socket l)), (''MemoryController'', json_uint (ml_controller l)),
      (''Channel'', json_uint (ml_channel l)), (''Slot'', json_uint (ml_slot l))]"

definition memory_json :: "memory_module \<Rightarrow> json" where
  "memory_json x = JObj (resource_json x
     @ [(''Id'', JStr (mm_id x)), (''RankCount'', json_uint (mm_rank_count x)),
        (''CapacityKiB'', json_uint (mm_capacity x)), (''DataWidthBits'', json_uint (mm_data_width x)),
        (''BusWidthBits'', json_uint (mm_bus_width x)), (''ErrorCorrection'', JStr (mm_error_correction x)),
        (''MemoryType'', JStr (mm_type x)), (''MemoryDeviceType'', JStr (mm_device_type x)),
        (''BaseModuleType'', JStr (mm_base_module x)), (''Status'', status_json (mm_state x) (mm_health x)),
        (''MaxTDPMilliWatts'', JArr (map json_uint (mm_max_tdp x))),
        (''MemoryLocation'', memory_location_json (mm_location x)), (''MemoryMedia'', json_strings (mm_media x))])"

definition load_memory_location :: "json \<Rightarrow> memory_module load_step list" where
  "load_memory_location l =
     [load_field as_word l ''Socket'' (\<lambda>v x. x\<lparr>mm_location := (mm_location x)\<lparr>ml_socket := v\<rparr>\<rparr>),
      load_field as_word l ''MemoryController'' (\<lambda>v x. x\<lparr>mm_location := (mm_location x)\<lparr>ml_controller := v\<rparr>\<rparr>),
      load_field as_word l ''Channel'' (\<lambda>v x. x\<lparr>mm_location := (mm_location x)\<lparr>ml_channel := v\<rparr>\<rparr>),
      load_field as_word l ''Slot'' (\<lambda>v x. x\<lparr>mm_location := (mm_location x)\<lparr>ml_slot := v\<rparr>\<rparr>)]"

definition push_tdp :: "json \<Rightarrow> memory_module load_step" where
  "push_tdp item x = map_option (\<lambda>v. x\<lparr>mm_max_tdp := mm_max_tdp x @ [v]\<rparr>) (as_word item)"

definition memory_load :: "json \<Rightarrow> memory_module \<Rightarrow> bool \<times> memory_module" where
  "memory_load j = run_load
     ([load_base j,
       load_field as_string j ''Id'' (\<lambda>v x. x\<lparr>mm_id := v\<rparr>),
       load_field as_word j ''RankCount'' (\<lambda>v x. x\<lparr>mm_rank_count := v\<rparr>),
       load_field as_word j ''CapacityKiB'' (\<lambda>v x. x\<lparr>mm_capacity := v\<rparr>),
       load_field as_word j ''DataWidthBits'' (\<lambda>v x. x\<lparr>mm_data_width := v\<rparr>),
       load_field as_word j ''BusWidthBits'' (\<lambda>v x. x\<lparr>mm_bus_width := v\<rparr>),
       load_field as_string j ''ErrorCorrection'' (\<lambda>v x. x\<lparr>mm_error_correction := v\<rparr>),
       load_field as_string j ''MemoryType'' (\<lambda>v x. x\<lparr>mm_type := v\<rparr>),
       load_field as_string j ''MemoryDeviceType'' (\<lambda>v x. x\<lparr>mm_device_type := v\<rparr>),
       load_field as_string j ''BaseModuleType'' (\<lambda>v x. x\<lparr>mm_base_module := v\<rparr>)]
      @ load_status j (\<lambda>v x. x\<lparr>mm_state := v\<rparr>) (\<lambda>v x. x\<lparr>mm_health := v\<rparr>)
      @ [need_field j ''MemoryLocation''] @ load_memory_location (at_field j ''MemoryLocation'')
      @ load_each j ''MaxTDPMilliWatts'' push_tdp
      @ load_each j ''MemoryMedia'' (push_string (\<lambda>v x. x\<lparr>mm_media := mm_media x @ [v]\<rparr>)))"

interpretation media: vector_member mm_media "\<lambda>vs x. x\<lparr>mm_media := vs\<rparr>" by unfold_locales auto

interpretation tdps: vector_member mm_max_tdp "\<lambda>vs x. x\<lparr>mm_max_tdp := vs\<rparr>" by unfold_locales auto

lemma load_tdps: "run_load (map push_tdp (map json_uint vs) @ fs) x = run_load fs (x\<lparr>mm_max_tdp := mm_max_tdp x @ vs\<rparr>)"
  using tdps.load_pushes [of "\<lambda>a. push_tdp (json_uint a)" "\<lambda>v. v" vs fs x] by (simp add: push_tdp_def comp_def)

lemma load_media:
  "run_load (map (push_string (\<lambda>v x. x\<lparr>mm_media := mm_media x @ [v]\<rparr>)) (map JStr vs)) x
   = (True, x\<lparr>mm_media := mm_media x @ vs\<rparr>)"
  using media.load_strings [of _ "\<lambda>v. v" vs "[]" x] by simp

lemma load_memory_location_json:
  "run_load (load_memory_location (memory_location_json l) @ fs) x = run_load fs (x\<lparr>mm_location := l\<rparr>)"
  by (cases l; cases "mm_location x") (simp add: load_memory_location_def memory_location_json_def load_field_in)

lemma memory_load_saved:
  "mm_media y = [] \<Longrightarrow> mm_max_tdp y = [] \<Longrightarrow> memory_load (memory_json x) y = (True, x)"
  by (cases x; cases y) (simp add: memory_load_def memory_json_def file_simps json_strings_def load_tdps load_media
      load_memory_location_json del: map_map)

interpretation memory_file: lossless_class memory_json memory_load "\<lambda>y. mm_media y = [] \<and> mm_max_tdp y = []" "\<lambda>_. True"
  by unfold_locales (simp add: memory_load_saved)

end
