(* ===== verification/Redfish_Patch.thy ===== *)
theory Redfish_Patch
  imports Complex_Main Redfish_Parts Redfish_Http
begin

text \<open>
  PATCH of the manager, its network protocols, fan mode and Ethernet interfaces, of the system and of
  the chassis (KETI-Edge/handler.cpp), with the firewall rules that follow a change of the network
  protocols (libs/redfish/resource.cpp). The commands given to \<open>system()\<close> are a list of the state.
  What the handlers print is left out.
\<close>

section \<open>Assignments of a request body\<close>

text \<open>\<open>if (get_value_from_json_key(j, k, v)) { x->m = v; result = true; }\<close>\<close>

type_synonym 'a patch_step = "bool \<times> 'a \<Rightarrow> bool \<times> 'a"

definition patch_field :: "(json \<Rightarrow> string \<Rightarrow> bool \<times> 'v) \<Rightarrow> json \<Rightarrow> string \<Rightarrow> ('v \<Rightarrow> 'a \<Rightarrow> 'a) \<Rightarrow> 'a patch_step" where
  "patch_field getter j k upd s = (case getter j k of (True, v) \<Rightarrow> (True, upd v (snd s)) | (False, _) \<Rightarrow> s)"

definition run_patch :: "'a patch_step list \<Rightarrow> bool \<times> 'a \<Rightarrow> bool \<times> 'a" where
  "run_patch ps s = fold (\<lambda>p. p) ps s"

text \<open>An object of the body, if it is there, and the assignments from it.\<close>

definition patch_object :: "json \<Rightarrow> string \<Rightarrow> (json \<Rightarrow> 'a patch_step list) \<Rightarrow> 'a patch_step" where
  "patch_object j k ps s = (case get_json_value j k of (True, obj) \<Rightarrow> run_patch (ps obj) s | (False, _) \<Rightarrow> s)"

section \<open>Manager, system and chassis\<close>

definition patch_manager :: "json \<Rightarrow> manager \<Rightarrow> bool \<times> manager" where
  "patch_manager jv x = run_patch
     [patch_field get_string_value jv ''Description'' (\<lambda>v x. x\<lparr>mg_description := v\<rparr>),
      patch_field get_string_value jv ''DateTime'' (\<lambda>v x. x\<lparr>mg_datetime := v\<rparr>),
      patch_field get_string_value jv ''DateTimeLocalOffset'' (\<lambda>v x. x\<lparr>mg_datetime_offset := v\<rparr>)] (False, x)"

text \<open>The lamp comes first: another text ends the function with \<open>false\<close>.\<close>

definition patch_led :: "json \<Rightarrow> (u8 \<Rightarrow> 'a \<Rightarrow> 'a) \<Rightarrow> 'a \<Rightarrow> (bool \<times> 'a) option" where
  "patch_led jv upd x = (case get_string_value jv ''IndicatorLED'' of
     (True, s) \<Rightarrow> if s = ''Off'' then Some (True, upd LED_OFF x) else if s = ''Blinking'' then Some (True, upd LED_BLINKING x)
        else if s = ''Lit'' then Some (True, upd LED_LIT x) else None
   | (False, _) \<Rightarrow> Some (False, x))"

definition patch_system :: "json \<Rightarrow> computer_system \<Rightarrow> bool \<times> computer_system" where
  "patch_system jv x = (case patch_led jv (\<lambda>v x. x\<lparr>sy_led := v\<rparr>) x of None \<Rightarrow> (False, x)
   | Some s \<Rightarrow> run_patch
     [patch_field get_string_value jv ''Description'' (\<lambda>v x. x\<lparr>sy_description := v\<rparr>),
      patch_field get_string_value jv ''HostName'' (\<lambda>v x. x\<lparr>sy_hostname := v\<rparr>),
      patch_field get_string_value jv ''AssetTag'' (\<lambda>v x. x\<lparr>sy_asset_tag := v\<rparr>),
      patch_object jv ''Boot'' (\<lambda>b.
        [patch_field get_string_value b ''BootSourceOverrideEnabled'' (\<lambda>v x. x\<lparr>sy_boot := (sy_boot x)\<lparr>bo_enabled := v\<rparr>\<rparr>),
         patch_field get_string_value b ''BootSourceOverrideTarget'' (\<lambda>v x. x\<lparr>sy_boot := (sy_boot x)\<lparr>bo_target := v\<rparr>\<rparr>),
         patch_field get_string_value b ''BootSourceOverrideMode'' (\<lambda>v x. x\<lparr>sy_boot := (sy_boot x)\<lparr>bo_mode := v\<rparr>\<rparr>),
         patch_field get_string_value b ''UefiTargetBootSourceOverride''
           (\<lambda>v x. x\<lparr>sy_boot := (sy_boot x)\<lparr>bo_uefi_target := v\<rparr>\<rparr>)])] s)"

definition patch_address :: "json \<Rightarrow> chassis_resource patch_step list" where
  "patch_address a =
     [patch_field get_string_value a ''Country'' (\<lambda>v x. x\<lparr>ch_address := (ch_address x)\<lparr>pa_country := v\<rparr>\<rparr>),
      patch_field get_string_value a ''Territory'' (\<lambda>v x. x\<lparr>ch_address := (ch_address x)\<lparr>pa_territory := v\<rparr>\<rparr>),
      patch_field get_string_value a ''City'' (\<lambda>v x. x\<lparr>ch_address := (ch_address x)\<lparr>pa_city := v\<rparr>\<rparr>),
      patch_field get_string_value a ''Street'' (\<lambda>v x. x\<lparr>ch_address := (ch_address x)\<lparr>pa_street := v\<rparr>\<rparr>),
      patch_field get_string_value a ''HouseNumber'' (\<lambda>v x. x\<lparr>ch_address := (ch_address x)\<lparr>pa_house_number := v\<rparr>\<rparr>),
      patch_field get_string_value a ''Name'' (\<lambda>v x. x\<lparr>ch_address := (ch_address x)\<lparr>pa_name := v\<rparr>\<rparr>),
      patch_field get_string_value a ''PostalCode'' (\<lambda>v x. x\<lparr>ch_address := (ch_address x)\<lparr>pa_postal_code := v\<rparr>\<rparr>)]"

definition patch_placement :: "json \<Rightarrow> chassis_resource patch_step list" where
  "patch_placement p =
     [patch_field get_string_value p ''Row'' (\<lambda>v x. x\<lparr>ch_placement := (ch_placement x)\<lparr>pl_row := v\<rparr>\<rparr>),
      patch_field get_string_value p ''Rack'' (\<lambda>v x. x\<lparr>ch_placement := (ch_placement x)\<lparr>pl_rack := v\<rparr>\<rparr>),
      patch_field get_string_value p ''RackOffsetUnits'' (\<lambda>v x. x\<lparr>ch_placement := (ch_placement x)\<lparr>pl_units := v\<rparr>\<rparr>),
      patch_field get_word_value p ''RackOffset'' (\<lambda>v x. x\<lparr>ch_placement := (ch_placement x)\<lparr>pl_offset := v\<rparr>\<rparr>)]"

definition patch_chassis :: "json \<Rightarrow> chassis_resource \<Rightarrow> bool \<times> chassis_resource" where
  "patch_chassis jv x = (case patch_led jv (\<lambda>v x. x\<lparr>ch_led := v\<rparr>) x of None \<Rightarrow> (False, x)
   | Some s \<Rightarrow> run_patch
     [patch_field get_string_value jv ''AssetTag'' (\<lambda>v x. x\<lparr>ch_asset_tag := v\<rparr>),
      patch_object jv ''Location'' (\<lambda>loc.
        [patch_object loc ''PostalAddress'' patch_address, patch_object loc ''Placement'' patch_placement])] s)"

section \<open>Network protocols and the firewall\<close>

definition patch_protocol ::
    "(bool \<Rightarrow> 'a \<Rightarrow> 'a) \<Rightarrow> (u32 \<Rightarrow> 'a \<Rightarrow> 'a) \<Rightarrow> json \<Rightarrow> 'a patch_step list" where
  "patch_protocol enabled port obj =
     [patch_field get_bool_value obj ''ProtocolEnabled'' enabled, patch_field get_word_value obj ''Port'' port]"

text \<open>\<open>ntp_servers[i].as_string()\<close>: an element that is not a string throws, and so does an index into
  an object; other values have size 0.\<close>

definition server_elements :: "json \<Rightarrow> string option list" where
  "server_elements v = (case v of JArr xs \<Rightarrow> map as_string xs | JObj kvs \<Rightarrow> map (\<lambda>_. None) kvs | _ \<Rightarrow> [])"

fun add_servers :: "string option list \<Rightarrow> bool \<times> network_protocol \<Rightarrow> bool option \<times> network_protocol" where
  "add_servers [] (r, x) = (Some r, x)"
| "add_servers (None # es) (r, x) = (None, x)"
| "add_servers (Some v # es) (r, x) =
     add_servers es (True, if v \<in> set (np_servers x) then x else x\<lparr>np_servers := np_servers x @ [v]\<rparr>)"

definition patch_protocols :: "json \<Rightarrow> network_protocol \<Rightarrow> bool \<times> network_protocol" where
  "patch_protocols jv x = run_patch
     [patch_field get_string_value jv ''Description'' (\<lambda>v x. x\<lparr>np_description := v\<rparr>),
      patch_object jv ''SNMP'' (patch_protocol (\<lambda>v x. x\<lparr>np_snmp_enabled := v\<rparr>) (\<lambda>v x. x\<lparr>np_snmp_port := v\<rparr>)),
      patch_object jv ''IPMI'' (patch_protocol (\<lambda>v x. x\<lparr>np_ipmi_enabled := v\<rparr>) (\<lambda>v x. x\<lparr>np_ipmi_port := v\<rparr>)),
      patch_object jv ''KVMIP'' (patch_protocol (\<lambda>v x. x\<lparr>np_kvmip_enabled := v\<rparr>) (\<lambda>v x. x\<lparr>np_kvmip_port := v\<rparr>)),
      patch_object jv ''HTTP'' (patch_protocol (\<lambda>v x. x\<lparr>np_http_enabled := v\<rparr>) (\<lambda>v x. x\<lparr>np_http_port := v\<rparr>)),
      patch_object jv ''HTTPS'' (patch_protocol (\<lambda>v x. x\<lparr>np_https_enabled := v\<rparr>) (\<lambda>v x. x\<lparr>np_https_port := v\<rparr>)),
      patch_object jv ''SSH'' (patch_protocol (\<lambda>v x. x\<lparr>np_ssh_enabled := v\<rparr>) (\<lambda>v x. x\<lparr>np_ssh_port := v\<rparr>)),
      patch_object jv ''NTP'' (patch_protocol (\<lambda>v x. x\<lparr>np_ntp_enabled := v\<rparr>) (\<lambda>v x. x\<lparr>np_ntp_port := v\<rparr>))] (False, x)"

text \<open>Nothing in place of the result: an exception leaves the function, with the changes made so far.\<close>

definition patch_network_protocol :: "json \<Rightarrow> network_protocol \<Rightarrow> bool option \<times> network_protocol" where
  "patch_network_protocol jv x =
     add_servers (server_elements (snd (get_json_value (snd (get_json_value jv ''NTP'')) ''NTPServers'')))
       (patch_protocols jv x)"

datatype iptable_index =
  HTTP_INDEX | HTTPS_INDEX | SNMP_INDEX | IPMI_INDEX | KVMIP_INDEX | SSH_INDEX | VM_INDEX | NTP_INDEX

fun index_number :: "iptable_index \<Rightarrow> nat" where
  "index_number HTTP_INDEX = 1"
| "index_number HTTPS_INDEX = 2"
| "index_number SNMP_INDEX = 3"
| "index_number IPMI_INDEX = 4"
| "index_number KVMIP_INDEX = 5"
| "index_number SSH_INDEX = 6"
| "index_number VM_INDEX = 7"
| "index_number NTP_INDEX = 8"

text \<open>\<open>std::to_string\<close> of an \<open>int\<close>.\<close>

definition int_to_string :: "u32 \<Rightarrow> string" where
  "int_to_string w = (if sint w < 0 then ''-'' @ to_string (nat (- sint w)) else to_string (nat (sint w)))"

definition make_iptable_cmd :: "string \<Rightarrow> string \<Rightarrow> nat \<Rightarrow> u32 \<Rightarrow> nat \<Rightarrow> string" where
  "make_iptable_cmd op pos index port able =
     (let target = (if able = 0 then ''ACCEPT'' else ''REJECT'') in
      if able \<noteq> 0 \<and> able \<noteq> 1 then []
      else if pos = ''INPUT'' then ''iptables -'' @ op @ '' INPUT '' @ to_string index @ '' -p tcp --dport ''
             @ int_to_string port @ '' -j '' @ target
      else if pos = ''OUTPUT'' then ''iptables -'' @ op @ '' OUTPUT '' @ to_string index @ '' -p tcp --sport ''
             @ int_to_string port @ '' -j '' @ target
      else [])"

fun protocol_of :: "iptable_index \<Rightarrow> network_protocol \<Rightarrow> bool \<times> u32" where
  "protocol_of HTTP_INDEX x = (np_http_enabled x, np_http_port x)"
| "protocol_of HTTPS_INDEX x = (np_https_enabled x, np_https_port x)"
| "protocol_of SNMP_INDEX x = (np_snmp_enabled x, np_snmp_port x)"
| "protocol_of IPMI_INDEX x = (np_ipmi_enabled x, np_ipmi_port x)"
| "protocol_of KVMIP_INDEX x = (np_kvmip_enabled x, np_kvmip_port x)"
| "protocol_of SSH_INDEX x = (np_ssh_enabled x, np_ssh_port x)"
| "protocol_of VM_INDEX x = (np_virtual_media_enabled x, np_virtual_media_port x)"
| "protocol_of NTP_INDEX x = (np_ntp_enabled x, np_ntp_port x)"

text \<open>The two commands, in the order they are run.\<close>

definition execute_iptables :: "network_protocol \<Rightarrow> iptable_index \<Rightarrow> string \<Rightarrow> string list" where
  "execute_iptables x i op = (case protocol_of i x of (enabled, port) \<Rightarrow>
     [make_iptable_cmd op ''INPUT'' (index_number i) port (if enabled then 0 else 1),
      make_iptable_cmd op ''OUTPUT'' (index_number i) port (if enabled then 0 else 1)])"

definition iptable_indices :: "iptable_index list" where
  "iptable_indices =
     [HTTP_INDEX, HTTPS_INDEX, SNMP_INDEX, IPMI_INDEX, KVMIP_INDEX, SSH_INDEX, VM_INDEX, NTP_INDEX]"

definition init_iptable :: "network_protocol \<Rightarrow> string list" where
  "init_iptable x = concat (map (\<lambda>i. execute_iptables x i ''I'') iptable_indices)
     @ [''iptables-save > /etc/iptables.rules'']"

definition patch_iptable :: "network_protocol \<Rightarrow> string list" where
  "patch_iptable x = concat (map (\<lambda>i. execute_iptables x i ''R'') iptable_indices)
     @ [''iptables-save > /etc/iptables.rules'']"

section \<open>Fans\<close>

text \<open>The temperatures: sensor number and reading, in the order of their list; a reading that is not a
  number is not modelled. The division of \<open>int\<close> rounds towards zero.\<close>

definition half_range :: "fan \<Rightarrow> u32" where
  "half_range x = word_of_int (if sint (fn_max_range x) < 0 then - (- sint (fn_max_range x) div 2)
     else sint (fn_max_range x) div 2)"

fun auto_reading :: "(u32 \<times> rat) list \<Rightarrow> fan \<Rightarrow> fan" where
  "auto_reading [] x = x"
| "auto_reading ((n, t) # ts) x =
     (if fn_sensor_num x = n then x\<lparr>fn_reading := if t < 40 then half_range x else fn_max_range x\<rparr>
      else auto_reading ts x)"

definition set_fan_mode :: "string \<Rightarrow> (u32 \<times> rat) list \<Rightarrow> fan \<Rightarrow> fan" where
  "set_fan_mode mode ts x =
     (if mode = ''Standard'' then x\<lparr>fn_reading := half_range x\<rparr>
      else if mode = ''FullSpeed'' then x\<lparr>fn_reading := fn_max_range x\<rparr>
      else if mode = ''Auto'' then auto_reading ts x else x)"

section \<open>Ethernet interfaces\<close>

text \<open>The interface and the commands run so far; \<open>flag\<close> is set for the manager's interface, where the
  change is carried out. The commands that are commented out in the source are left out.\<close>

definition ethernet_field ::
    "(json \<Rightarrow> string \<Rightarrow> bool \<times> 'v) \<Rightarrow> json \<Rightarrow> string \<Rightarrow> ('v \<Rightarrow> ethernet_interface \<Rightarrow> string list) \<Rightarrow>
     ('v \<Rightarrow> ethernet_interface \<Rightarrow> ethernet_interface) \<Rightarrow> (ethernet_interface \<times> string list) patch_step" where
  "ethernet_field getter j k cmds upd = patch_field getter j k (\<lambda>v (x, cs). (upd v x, cs @ cmds v x))"

definition on_first :: "(ipv4_address \<Rightarrow> ipv4_address) \<Rightarrow> ethernet_interface \<Rightarrow> ethernet_interface" where
  "on_first f x = x\<lparr>ei_ipv4 := (ei_ipv4 x)[0 := f (ei_ipv4 x ! 0)]\<rparr>"

definition patch_ethernet_members :: "json \<Rightarrow> bool \<Rightarrow> (ethernet_interface \<times> string list) patch_step list" where
  "patch_ethernet_members jv flag =
     [ethernet_field get_string_value jv ''Description'' (\<lambda>_ _. []) (\<lambda>v x. x\<lparr>ei_description := v\<rparr>),
      ethernet_field get_string_value jv ''HostName'' (\<lambda>v _. if flag then [''hostname '' @ v] else [])
        (\<lambda>v x. x\<lparr>ei_hostname := v\<rparr>),
      ethernet_field get_string_value jv ''MACAddress'' (\<lambda>_ _. []) (\<lambda>v x. x\<lparr>ei_mac := v\<rparr>),
      ethernet_field get_word_value jv ''MTUSize''
        (\<lambda>v x. if flag then [''ip link set eth'' @ ei_id x @ '' mtu '' @ int_to_string v] else []) (\<lambda>v x. x\<lparr>ei_mtu := v\<rparr>)]"

definition patch_ipv4 :: "json \<Rightarrow> (ethernet_interface \<times> string list) patch_step list" where
  "patch_ipv4 obj =
     [ethernet_field get_string_value obj ''Address'' (\<lambda>_ _. []) (\<lambda>v. on_first (\<lambda>a. a\<lparr>i4_address := v\<rparr>)),
      ethernet_field get_string_value obj ''SubnetMask'' (\<lambda>_ _. []) (\<lambda>v. on_first (\<lambda>a. a\<lparr>i4_mask := v\<rparr>)),
      ethernet_field get_string_value obj ''Gateway'' (\<lambda>_ _. []) (\<lambda>v. on_first (\<lambda>a. a\<lparr>i4_gateway := v\<rparr>))]"

definition patch_ipv6 :: "json \<Rightarrow> bool \<Rightarrow> (ethernet_interface \<times> string list) patch_step list" where
  "patch_ipv6 obj flag =
     [ethernet_field get_string_value obj ''Address''
        (\<lambda>v x. if flag then [''ifconfig eth'' @ ei_id x @ '' inet6 add '' @ v @ ''/'' @ int_to_string (i6_prefix (ei_ipv6 x ! 0))]
               else [])
        (\<lambda>v x. x\<lparr>ei_ipv6 := ei_ipv6 x @ [(ei_ipv6 x ! 0)\<lparr>i6_address := v\<rparr>]\<rparr>)]"

text \<open>Addresses in the body for an interface that has none end the function with \<open>false\<close>, after the
  members before them.\<close>

definition patch_ethernet_interface ::
    "json \<Rightarrow> bool \<Rightarrow> ethernet_interface \<times> string list \<Rightarrow> bool \<times> (ethernet_interface \<times> string list)" where
  "patch_ethernet_interface jv flag s =
     (let s1 = run_patch (patch_ethernet_members jv flag) (False, s) in
      if fst (get_json_value jv ''IPv4Addresses'') \<and> ei_ipv4 (fst (snd s1)) = [] then (False, snd s1)
      else let s2 = patch_object jv ''IPv4Addresses'' patch_ipv4 s1 in
        if fst (get_json_value jv ''IPv6Addresses'') \<and> ei_ipv6 (fst (snd s2)) = [] then (False, snd s2)
        else patch_object jv ''IPv6Addresses'' (\<lambda>obj. patch_ipv6 obj flag) s2)"

section \<open>The handler\<close>

text \<open>The machine: the resource record of the account, session and event services, the resources above
  (the Ethernet interfaces of the manager and of the system by URI), and the commands run.\<close>

record machine =
  mc_rf :: rf
  mc_manager :: manager
  mc_enables :: u32
  mc_network :: "network_protocol option"
  mc_ethernet :: "string \<Rightarrow> ethernet_interface option"
  mc_system :: computer_system
  mc_chassis :: chassis_resource
  mc_fans :: "fan list"
  mc_temps :: "(u32 \<times> rat) list"
  mc_ran :: "string list"

definition MANAGER_ID :: string where "MANAGER_ID = ''/redfish/v1/Managers''"
definition SYSTEM_ID :: string where "SYSTEM_ID = ''/redfish/v1/Systems''"
definition CHASSIS_ID :: string where "CHASSIS_ID = ''/redfish/v1/Chassis''"

text \<open>An Ethernet interface of the manager and the one of the system with the same name.\<close>

definition nic_uri :: "string \<Rightarrow> string" where
  "nic_uri nic = MANAGER_ID @ ''/EthernetInterfaces/'' @ nic"

definition system_nic_uri :: "string \<Rightarrow> string" where
  "system_nic_uri nic = SYSTEM_ID @ ''/EthernetInterfaces/'' @ nic"

text \<open>\<open>resource_save_json\<close>, and the reply with the resource's JSON. The second component of a result is
  the reply, or nothing for a \<open>json_exception\<close>.\<close>

definition save_file :: "string \<Rightarrow> json \<Rightarrow> machine \<Rightarrow> machine" where
  "save_file uri j m = m\<lparr>mc_rf := (mc_rf m)\<lparr>rf_disk := (rf_disk (mc_rf m))(uri := Some j)\<rparr>\<rparr>"

definition answer_machine :: "json \<Rightarrow> nat \<Rightarrow> machine \<Rightarrow> (machine \<times> response option) rres" where
  "answer_machine j status m = Done (m, Some (json_reply j status))"

definition refuse_machine :: "string \<Rightarrow> machine \<Rightarrow> (machine \<times> response option) rres" where
  "refuse_machine t m = Done (m, Some (error_reply t 400))"

definition saved_answer :: "string \<Rightarrow> json \<Rightarrow> machine \<Rightarrow> (machine \<times> response option) rres" where
  "saved_answer uri j m = answer_machine j 200 (save_file uri j m)"

definition treat_network_patch :: "request \<Rightarrow> machine \<Rightarrow> (machine \<times> response option) rres" where
  "treat_network_patch q m = (case mc_network m of
     None \<Rightarrow> refuse_machine ''No NetworkProtocol'' m
   | Some x \<Rightarrow> (case patch_network_protocol (q_body q) x of
       (None, x') \<Rightarrow> Done (m\<lparr>mc_network := Some x'\<rparr>, None)
     | (Some False, x') \<Rightarrow> refuse_machine ''Error Occur in NetworkProtocol PATCH'' (m\<lparr>mc_network := Some x'\<rparr>)
     | (Some True, x') \<Rightarrow>
         saved_answer (q_uri q) (network_protocol_json x')
           (m\<lparr>mc_network := Some x', mc_ran := mc_ran m @ patch_iptable x'\<rparr>)))"

definition treat_fan_mode :: "request \<Rightarrow> machine \<Rightarrow> (machine \<times> response option) rres" where
  "treat_fan_mode q m =
     (if q_body q = JNull then refuse_machine ''Json Body is Null'' m
      else case get_string_value (q_body q) ''Mode'' of
        (False, _) \<Rightarrow> refuse_machine ''No Mode in Json Body'' m
      | (True, mode) \<Rightarrow>
          if mode \<notin> {''Standard'', ''FullSpeed'', ''Auto''} then refuse_machine ''Incorrect Mode'' m
          else let fans = map (set_fan_mode mode (mc_temps m)) (mc_fans m) in
            answer_machine JNull 200
              (fold (\<lambda>f. save_file (rb_odata f) (fan_json f)) fans (m\<lparr>mc_fans := fans\<rparr>)))"

text \<open>The interface of the manager, then the one of the system with the same name; \<open>&&\<close> leaves out the
  second when the first gives \<open>false\<close>.\<close>

definition treat_ethernet_patch :: "request \<Rightarrow> machine \<Rightarrow> (machine \<times> response option) rres" where
  "treat_ethernet_patch q m =
     (let uri = q_uri q; jv = q_body q;
          sys_uri = system_nic_uri (get_current_object_name uri CHR ''/'') in
      case (mc_ethernet m uri, mc_ethernet m sys_uri) of
        (Some x, Some y) \<Rightarrow>
          (case patch_ethernet_interface jv True (x, mc_ran m) of (r, x', cs) \<Rightarrow>
           let m1 = m\<lparr>mc_ethernet := (mc_ethernet m)(uri := Some x'), mc_ran := cs\<rparr> in
           if \<not> r then refuse_machine ''Error Occur in EthernetInterface PATCH'' m1
           else case patch_ethernet_interface jv False (y, cs) of (r2, y', cs2) \<Rightarrow>
             let m2 = m1\<lparr>mc_ethernet := (mc_ethernet m1)(sys_uri := Some y'), mc_ran := cs2\<rparr> in
             if \<not> r2 then refuse_machine ''Error Occur in EthernetInterface PATCH'' m2
             else saved_answer uri (ethernet_json x') (save_file sys_uri (ethernet_json y') m2))
      | _ \<Rightarrow> refuse_machine ''No EthernetInterface'' m)"

definition treat_manager_patch :: "request \<Rightarrow> machine \<Rightarrow> (machine \<times> response option) rres" where
  "treat_manager_patch q m =
     (let uri = q_uri q; minus_one = get_parent_object_uri uri CHR ''/'' in
      if uri = MANAGER_ID then
        (case patch_manager (q_body q) (mc_manager m) of (r, x) \<Rightarrow>
         if r then saved_answer uri (manager_json (x, mc_enables m)) (m\<lparr>mc_manager := x\<rparr>)
         else refuse_machine ''Error Occur in Manager PATCH'' (m\<lparr>mc_manager := x\<rparr>))
      else if uri = MANAGER_ID @ ''/NetworkProtocol'' then treat_network_patch q m
      else if uri = MANAGER_ID @ ''/FanMode'' then treat_fan_mode q m
      else if minus_one = MANAGER_ID @ ''/EthernetInterfaces'' then treat_ethernet_patch q m
      else refuse_machine ''URI Input Error in Below part'' m)"

text \<open>The power control, with members of type \<open>double\<close>, is not modelled.\<close>

definition treat_machine_patch :: "request \<Rightarrow> machine \<Rightarrow> (machine \<times> response option) rres" where
  "treat_machine_patch q m =
     (let uri = q_uri q; part = uri_part uri; minus_one = get_parent_object_uri uri CHR ''/'' in
      if part = MANAGER_ID then treat_manager_patch q m
      else if part = SYSTEM_ID then
        if uri = SYSTEM_ID then
          (case patch_system (q_body q) (mc_system m) of (r, x) \<Rightarrow>
           if r then saved_answer uri (system_json x) (m\<lparr>mc_system := x\<rparr>)
           else refuse_machine ''Error Occur in System PATCH'' (m\<lparr>mc_system := x\<rparr>))
        else refuse_machine ''URI Input Error in Below part'' m
      else if part = CHASSIS_ID then
        if uri = CHASSIS_ID then
          (case patch_chassis (q_body q) (mc_chassis m) of (r, x) \<Rightarrow>
           if r then saved_answer uri (chassis_json x) (m\<lparr>mc_chassis := x\<rparr>)
           else refuse_machine ''Error Occur in Chassis PATCH'' (m\<lparr>mc_chassis := x\<rparr>))
        else if minus_one = CHASSIS_ID @ ''/Power/PowerControl'' then Elsewhere
        else refuse_machine ''URI Input Error in Below part'' m
      else rbind (treat_patch q (mc_rf m)) (\<lambda>(f, p). Done (m\<lparr>mc_rf := f\<rparr>, Some p)))"

text \<open>\<open>handle_patch\<close>: the task is completed unless an exception leaves the handler, which answers 400 for
  the library's and 500 for another.\<close>

definition handle_machine_patch :: "request \<Rightarrow> machine \<Rightarrow> (machine \<times> response) rres" where
  "handle_machine_patch q m =
     rbind (generate_task_resource ''PATCH'' q (mc_rf m)) (\<lambda>(n, f1).
     let m1 = m\<lparr>mc_rf := f1\<rparr> in
     case treat_machine_patch q m1 of
       Throws Json_exception \<Rightarrow> Done (m1, bare_reply 400)
     | Throws Std_exception \<Rightarrow> Done (m1, bare_reply 500)
     | r \<Rightarrow> rbind r (\<lambda>(m2, p). case p of
         None \<Rightarrow> Done (m2, bare_reply 400)
       | Some p' \<Rightarrow> rbind (complete_task_resource n (mc_rf m2)) (\<lambda>f3. Done (m2\<lparr>mc_rf := f3\<rparr>, p'))))"

section \<open>A restart\<close>

text \<open>\<open>record_load_json\<close> for the manager and its network protocols: new objects, read from their files,
  and the manager's pointer that \<open>dependency_injection\<close> sets. \<open>mem\<close> is what the memory of the new
  network protocols held before and \<open>g0\<close> the global enables of the new process. Without the
  manager's file the start-up creates new resources instead, which is not modelled.\<close>

definition load_manager_files :: "network_protocol \<Rightarrow> u32 \<Rightarrow> machine \<Rightarrow> machine option" where
  "load_manager_files mem g0 m =
     (let disk = rf_disk (mc_rf m); net = MANAGER_ID @ ''/NetworkProtocol'' in
      case disk MANAGER_ID of None \<Rightarrow> None
      | Some j \<Rightarrow> (case manager_load j (new_manager MANAGER_ID, g0) of (_, x, g) \<Rightarrow>
          Some (case disk net of
              None \<Rightarrow> m\<lparr>mc_manager := x, mc_enables := g, mc_network := None\<rparr>
            | Some j2 \<Rightarrow> m\<lparr>mc_manager := x\<lparr>mg_network := Some net\<rparr>, mc_enables := g,
                mc_network := Some (snd (network_protocol_load j2 (new_network_protocol net mem)))\<rparr>)))"

end
