(* ===== verification/Redfish_Patch_Facts.thy ===== *)
theory Redfish_Patch_Facts
  imports Redfish_Patch
begin

text \<open>
  Facts about the PATCH handlers of the manager: the URIs they serve, that assignments of a request
  body never take a result back, the commands of an Ethernet interface, the list of NTP servers, and
  the files of the manager and its network protocols.
\<close>

section \<open>URIs\<close>

definition network_uri :: string where
  "network_uri = MANAGER_ID @ ''/NetworkProtocol''"

lemma uri_part_manager: "uri_part (MANAGER_ID @ ''/'' @ r) = MANAGER_ID"
  using split_literals(1) [of "''redfish/v1/Managers/'' @ r"] split_literals(2) [of "''v1/Managers/'' @ r"]
    split_literals(3) [of "''Managers/'' @ r"] split_token [of "CHR ''/''" "''Managers''" r]
  by (simp add: uri_part_def MANAGER_ID_def)

lemma nic_uri_parts:
  assumes "CHR ''/'' \<notin> set nic"
  shows "uri_part (nic_uri nic) = MANAGER_ID"
    "get_parent_object_uri (nic_uri nic) CHR ''/'' = MANAGER_ID @ ''/EthernetInterfaces''"
    "get_current_object_name (nic_uri nic) CHR ''/'' = nic"
    "nic_uri nic \<noteq> MANAGER_ID" "nic_uri nic \<noteq> MANAGER_ID @ ''/NetworkProtocol''" "nic_uri nic \<noteq> MANAGER_ID @ ''/FanMode''"
    "nic_uri nic \<noteq> system_nic_uri nic"
  using assms uri_part_manager [of "''EthernetInterfaces/'' @ nic"]
    parent_object_uri [of "CHR ''/''" nic "MANAGER_ID @ ''/EthernetInterfaces''"]
    current_object_name [of "CHR ''/''" nic "MANAGER_ID @ ''/EthernetInterfaces''"]
  by (simp_all add: nic_uri_def system_nic_uri_def MANAGER_ID_def SYSTEM_ID_def)

lemma network_uri_parts:
  "uri_part network_uri = MANAGER_ID" "network_uri \<noteq> MANAGER_ID"
  using uri_part_manager [of "''NetworkProtocol''"] by (simp_all add: network_uri_def MANAGER_ID_def)

lemma treat_nic:
  assumes "q_uri q = nic_uri nic" "CHR ''/'' \<notin> set nic"
  shows "treat_machine_patch q m = treat_ethernet_patch q m"
  using assms nic_uri_parts [OF assms(2)] by (simp add: treat_machine_patch_def treat_manager_patch_def Let_def)

lemma treat_network:
  assumes "q_uri q = network_uri"
  shows "treat_machine_patch q m = treat_network_patch q m"
  using assms network_uri_parts by (simp add: treat_machine_patch_def treat_manager_patch_def network_uri_def)

section \<open>Assignments\<close>

lemma run_patch_simps [simp]:
  "run_patch [] s = s" "run_patch (p # ps) s = run_patch ps (p s)"
  by (simp_all add: run_patch_def)

lemma patch_field_simps:
  "getter j k = (True, v) \<Longrightarrow> patch_field getter j k upd s = (True, upd v (snd s))"
  "getter j k = (False, v) \<Longrightarrow> patch_field getter j k upd s = s"
  by (simp_all add: patch_field_def)

lemma patch_object_absent: "fst (get_json_value j k) = False \<Longrightarrow> patch_object j k ps s = s"
  by (auto simp: patch_object_def split: prod.split bool.split)

lemma get_value_empty [simp]:
  "get_json_value (JObj []) k = (False, JNull)" "get_json_value JNull k = (False, JNull)"
  "get_string_value (JObj []) k = (False, [])" "get_bool_value (JObj []) k = (False, False)"
  "get_word_value (JObj []) k = (False, 0)"
  by (simp_all add: get_bool_value_def get_string_value_def get_json_value_def get_word_value_def get_int_value_def
      get_value_def)

section \<open>Commands of an Ethernet interface\<close>

text \<open>Commands are only added.\<close>

definition grows :: "string list \<Rightarrow> (ethernet_interface \<times> string list) patch_step \<Rightarrow> bool" where
  "grows cs p \<longleftrightarrow> (\<forall>s. (\<exists>ds. snd (snd s) = cs @ ds) \<longrightarrow> (\<exists>ds. snd (snd (p s)) = cs @ ds))"

lemma ethernet_field_grows: "grows cs (ethernet_field getter j k cmds upd)"
  by (auto simp: grows_def ethernet_field_def patch_field_def split: prod.split bool.split)

lemma run_patch_grows:
  "list_all (grows cs) ps \<Longrightarrow> \<exists>ds. snd (snd s) = cs @ ds \<Longrightarrow> \<exists>ds. snd (snd (run_patch ps s)) = cs @ ds"
proof (induction ps arbitrary: s)
  case Nil
  then show ?case by simp
next
  case (Cons p ps)
  have "grows cs p" using Cons.prems(1) by simp
  then have "\<exists>ds. snd (snd (p s)) = cs @ ds" using Cons.prems(2) unfolding grows_def by blast
  then show ?case using Cons.IH [of "p s"] Cons.prems(1) by simp
qed

lemma patch_object_grows:
  "(\<And>obj. list_all (grows cs) (ps obj)) \<Longrightarrow> grows cs (patch_object j k ps)"
  using run_patch_grows by (fastforce simp: grows_def patch_object_def split: prod.split bool.split)

lemma patch_ipv4_grows: "grows cs (patch_object j k patch_ipv4)"
  by (rule patch_object_grows) (simp add: patch_ipv4_def ethernet_field_grows)

lemma patch_ipv6_grows: "grows cs (patch_object j k (\<lambda>obj. patch_ipv6 obj flag))"
  by (rule patch_object_grows) (simp add: patch_ipv6_def ethernet_field_grows)

lemma patch_ethernet_grows:
  assumes "snd (snd (run_patch (patch_ethernet_members jv flag) (False, s))) = cs @ ds"
  shows "\<exists>ds. snd (snd (patch_ethernet_interface jv flag s)) = cs @ ds"
proof -
  let ?s1 = "run_patch (patch_ethernet_members jv flag) (False, s)"
  have 1: "\<exists>ds. snd (snd ?s1) = cs @ ds" using assms by blast
  have 2: "\<exists>ds. snd (snd (patch_object jv ''IPv4Addresses'' patch_ipv4 ?s1)) = cs @ ds"
    using patch_ipv4_grows 1 unfolding grows_def by blast
  have 3: "\<exists>ds. snd (snd (patch_object jv ''IPv6Addresses'' (\<lambda>obj. patch_ipv6 obj flag)
      (patch_object jv ''IPv4Addresses'' patch_ipv4 ?s1))) = cs @ ds"
    using patch_ipv6_grows 2 unfolding grows_def by blast
  show ?thesis unfolding patch_ethernet_interface_def Let_def using 1 2 3 by simp
qed

lemma members_grow:
  "\<exists>ds. snd (snd (run_patch (patch_ethernet_members jv flag) (False, (x, cs)))) = cs @ ds"
  by (rule run_patch_grows) (simp_all add: patch_ethernet_members_def ethernet_field_grows)

lemma members_hostname:
  assumes "get_string_value jv ''HostName'' = (True, cmd)"
  shows "\<exists>ds. snd (snd (run_patch (patch_ethernet_members jv True) (False, (x, cs)))) = (cs @ [''hostname '' @ cmd]) @ ds"
proof -
  let ?s = "ethernet_field get_string_value jv ''Description'' (\<lambda>_ _. []) (\<lambda>v x. x\<lparr>ei_description := v\<rparr>) (False, (x, cs))"
  have s: "snd (snd ?s) = cs" by (auto simp: ethernet_field_def patch_field_def split: prod.split bool.split)
  let ?t = "ethernet_field get_string_value jv ''HostName'' (\<lambda>v _. [''hostname '' @ v]) (\<lambda>v x. x\<lparr>ei_hostname := v\<rparr>) ?s"
  have t: "snd (snd ?t) = cs @ [''hostname '' @ cmd]"
    using s assms by (cases "snd ?s") (simp add: ethernet_field_def patch_field_def)
  have "run_patch (patch_ethernet_members jv True) (False, (x, cs)) = run_patch (drop 2 (patch_ethernet_members jv True)) ?t"
    by (simp add: patch_ethernet_members_def)
  moreover have "list_all (grows (cs @ [''hostname '' @ cmd])) (drop 2 (patch_ethernet_members jv True))"
    by (simp add: patch_ethernet_members_def ethernet_field_grows)
  then have "\<exists>ds. snd (snd (run_patch (drop 2 (patch_ethernet_members jv True)) ?t)) = (cs @ [''hostname '' @ cmd]) @ ds"
    by (rule run_patch_grows) (use t in \<open>simp\<close>)
  ultimately show ?thesis by metis
qed

section \<open>Members that stay\<close>

text \<open>\<open>g\<close> reads a part of the interface that the assignment does not touch.\<close>

lemma ethernet_field_keeps:
  "(\<And>v x. g (upd v x) = g x) \<Longrightarrow> g (fst (snd (ethernet_field getter j k cmds upd s))) = g (fst (snd s))"
  by (auto simp: ethernet_field_def patch_field_def split: prod.split bool.split)

lemma patch_ipv4_keeps:
  assumes "\<And>f x. g (on_first f x) = g x"
  shows "g (fst (snd (patch_object j k patch_ipv4 s))) = g (fst (snd s))"
  by (auto simp: patch_object_def patch_ipv4_def ethernet_field_keeps [of g] assms split: prod.split bool.split)

lemma on_first_other [simp]:
  "ei_ipv6 (on_first f x) = ei_ipv6 x" "ei_description (on_first f x) = ei_description x"
  by (simp_all add: on_first_def)

lemma members_ipv6: "ei_ipv6 (fst (snd (run_patch (patch_ethernet_members jv flag) s))) = ei_ipv6 (fst (snd s))"
  by (simp add: patch_ethernet_members_def ethernet_field_keeps [of ei_ipv6])

lemma members_description:
  assumes "get_string_value jv ''Description'' = (True, d)"
  shows "ei_description (fst (snd (run_patch (patch_ethernet_members jv flag) s))) = d"
proof -
  have "ei_description (fst (snd (ethernet_field get_string_value jv ''Description'' (\<lambda>_ _. [])
      (\<lambda>v x. x\<lparr>ei_description := v\<rparr>) s))) = d"
    using assms by (cases "snd s") (simp add: ethernet_field_def patch_field_def)
  then show ?thesis by (simp add: patch_ethernet_members_def ethernet_field_keeps [of ei_description])
qed

text \<open>An interface without IPv6 addresses is refused a body with one, and has the description of that body.\<close>

lemma patch_ethernet_refused:
  assumes "get_string_value jv ''Description'' = (True, d)" "fst (get_json_value jv ''IPv6Addresses'')" "ei_ipv6 x = []"
  shows "\<exists>x' cs'. patch_ethernet_interface jv flag (x, cs) = (False, x', cs') \<and> ei_description x' = d"
proof -
  let ?s1 = "run_patch (patch_ethernet_members jv flag) (False, (x, cs))"
  let ?s2 = "patch_object jv ''IPv4Addresses'' patch_ipv4 ?s1"
  have "ei_ipv6 (fst (snd ?s2)) = []" "ei_description (fst (snd ?s1)) = d" "ei_description (fst (snd ?s2)) = d"
    using assms(3) members_description [OF assms(1)]
    by (simp_all add: patch_ipv4_keeps [of ei_ipv6] patch_ipv4_keeps [of ei_description] members_ipv6)
  then show ?thesis unfolding patch_ethernet_interface_def Let_def using assms(2)
    by (cases "snd ?s1"; cases "snd ?s2") auto
qed

section \<open>Network protocols\<close>

lemma add_servers_keeps:
  assumes "\<And>vs x. g (x\<lparr>np_servers := vs\<rparr>) = g x"
  shows "g (snd (add_servers es s)) = g (snd s)"
  using assms by (induction es s rule: add_servers.induct) simp_all

text \<open>\<open>g\<close> reads a part of the object that the assignments do not touch.\<close>

lemma patch_field_same:
  "(\<And>v x. g (upd v x) = g x) \<Longrightarrow> g (snd (patch_field getter j k upd s)) = g (snd s)"
  by (auto simp: patch_field_def split: prod.split bool.split)

lemma patch_protocol_same:
  "(\<And>v x. g (enabled v x) = g x) \<Longrightarrow> (\<And>v x. g (port v x) = g x) \<Longrightarrow>
   g (snd (patch_object j k (patch_protocol enabled port) s)) = g (snd s)"
  by (auto simp: patch_object_def patch_protocol_def patch_field_same [of g] split: prod.split bool.split)

text \<open>The settings of SSH change only through the key \<open>SSH\<close>.\<close>

lemma patch_protocols_ssh:
  assumes "fst (get_json_value jv ''SSH'') = False"
  shows "np_ssh_enabled (snd (patch_protocols jv x)) = np_ssh_enabled x" "np_ssh_port (snd (patch_protocols jv x)) = np_ssh_port x"
  using assms by (simp_all add: patch_protocols_def patch_object_absent patch_protocol_same [of np_ssh_enabled]
      patch_protocol_same [of np_ssh_port] patch_field_same [of np_ssh_enabled] patch_field_same [of np_ssh_port])

lemma patch_network_ssh:
  assumes "fst (get_json_value jv ''SSH'') = False" "patch_network_protocol jv x = (r, x')"
  shows "np_ssh_enabled x' = np_ssh_enabled x" "np_ssh_port x' = np_ssh_port x"
  using patch_protocols_ssh [OF assms(1), of x] assms(2)
    add_servers_keeps [of np_ssh_enabled "server_elements (snd (get_json_value (snd (get_json_value jv ''NTP'')) ''NTPServers''))"
      "patch_protocols jv x"]
    add_servers_keeps [of np_ssh_port "server_elements (snd (get_json_value (snd (get_json_value jv ''NTP'')) ''NTPServers''))"
      "patch_protocols jv x"]
  by (simp_all add: patch_network_protocol_def)

lemma patch_network_ssh_off:
  assumes "get_json_value jv ''SSH'' = (True, obj)" "get_bool_value obj ''ProtocolEnabled'' = (True, b)"
    "patch_network_protocol jv x = (r, x')"
  shows "np_ssh_enabled x' = b"
proof -
  have ssh: "np_ssh_enabled (snd (patch_object jv ''SSH'' (patch_protocol (\<lambda>v x. x\<lparr>np_ssh_enabled := v\<rparr>) (\<lambda>v x. x\<lparr>np_ssh_port := v\<rparr>)) s)) = b" for s
    using assms(1,2) by (auto simp: patch_object_def patch_protocol_def patch_field_def split: prod.split bool.split)
  have "np_ssh_enabled (snd (patch_protocols jv x)) = b"
    by (simp add: patch_protocols_def patch_protocol_same [of np_ssh_enabled, simplified] ssh)
  then show ?thesis using assms(3)
    add_servers_keeps [of np_ssh_enabled "server_elements (snd (get_json_value (snd (get_json_value jv ''NTP'')) ''NTPServers''))"
      "patch_protocols jv x"]
    by (simp add: patch_network_protocol_def)
qed

lemma network_patch_answered:
  assumes "treat_network_patch q m = Done (m', Some p)" "p_status p = 200"
  obtains x x' where "mc_network m = Some x" "patch_network_protocol (q_body q) x = (Some True, x')"
    "mc_network m' = Some x'" "mc_ran m' = mc_ran m @ patch_iptable x'"
    "rf_disk (mc_rf m') (q_uri q) = Some (network_protocol_json x')"
  using assms by (auto simp: treat_network_patch_def refuse_machine_def saved_answer_def answer_machine_def save_file_def
      error_reply_def json_reply_def split: option.splits prod.splits bool.splits)

lemma ssh_rule_run:
  "''iptables -R INPUT 6 -p tcp --dport '' @ int_to_string (np_ssh_port x) @ '' -j ''
     @ (if np_ssh_enabled x then ''ACCEPT'' else ''REJECT'') \<in> set (patch_iptable x)"
proof -
  have "hd (execute_iptables x SSH_INDEX ''R'') \<in> set (patch_iptable x)"
    by (simp add: patch_iptable_def iptable_indices_def execute_iptables_def)
  moreover have "hd (execute_iptables x SSH_INDEX ''R'') = ''iptables -R INPUT 6 -p tcp --dport '' @ int_to_string (np_ssh_port x)
      @ '' -j '' @ (if np_ssh_enabled x then ''ACCEPT'' else ''REJECT'')"
    by (simp add: execute_iptables_def make_iptable_cmd_def to_string.simps [of 6] digit_chars_def)
  ultimately show ?thesis by simp
qed

text \<open>The NTP servers.\<close>

lemma add_servers_only:
  "\<exists>new. np_servers (snd (add_servers es s)) = np_servers (snd s) @ new \<and> distinct new
     \<and> set new \<inter> set (np_servers (snd s)) = {} \<and> (fst (add_servers es s) = None \<longleftrightarrow> None \<in> set es)"
proof (induction es s rule: add_servers.induct)
  case (3 v es r x)
  show ?case
  proof (cases "v \<in> set (np_servers x)")
    case True
    then show ?thesis using 3 by simp
  next
    case False
    then obtain new where new: "np_servers (snd (add_servers es (True, x\<lparr>np_servers := np_servers x @ [v]\<rparr>)))
        = np_servers x @ [v] @ new" "distinct new" "set new \<inter> (set (np_servers x) \<union> {v}) = {}"
        "fst (add_servers es (True, x\<lparr>np_servers := np_servers x @ [v]\<rparr>)) = None \<longleftrightarrow> None \<in> set es"
      using 3 by auto
    show ?thesis using new False by (intro exI [of _ "v # new"]) auto
  qed
qed simp_all

lemma patch_protocols_servers: "np_servers (snd (patch_protocols jv x)) = np_servers x"
  by (simp add: patch_protocols_def patch_protocol_same [of np_servers] patch_field_same [of np_servers])

end
