(* ===== verification/Redfish_Stores.thy ===== *)
theory Redfish_Stores
  imports Redfish_Parts
begin

text \<open>
  Drives, volumes, simple storage, the BIOS, the software inventory, and the update and task services
  of the redfish service, with \<open>get_json\<close> and \<open>load_json\<close> (libs/redfish/resource.cpp).
\<close>

section \<open>Storage\<close>

record device_info =
  dv_capacity :: u32
  dv_file_system :: string
  dv_manufacturer :: string
  dv_model :: string
  dv_name :: string
  dv_state :: string
  dv_health :: string

record simple_storage = resource +
  so_id :: string
  so_description :: string
  so_uefi_path :: string
  so_state :: string
  so_health :: string
  so_devices :: "device_info list"

definition device_json :: "device_info \<Rightarrow> json" where
  "device_json d = JObj
     [(''Name'', JStr (dv_name d)), (''Manufacturer'', JStr (dv_manufacturer d)), (''Model'', JStr (dv_model d)),
      (''CapacityKBytes'', json_uint (dv_capacity d)), (''FileSystem'', JStr (dv_file_system d)),
      (''Status'', status_json (dv_state d) (dv_health d))]"

definition simple_storage_json :: "simple_storage \<Rightarrow> json" where
  "simple_storage_json x = JObj (resource_json x
     @ [(''Id'', JStr (so_id x)), (''Description'', JStr (so_description x)),
        (''UefiDevicePath'', JStr (so_uefi_path x)), (''Status'', status_json (so_state x) (so_health x)),
        (''Devices'', JArr (map device_json (so_devices x)))])"

definition empty_device :: device_info where
  "empty_device = \<lparr>dv_capacity = 0, dv_file_system = [], dv_manufacturer = [], dv_model = [], dv_name = [],
     dv_state = [], dv_health = []\<rparr>"

definition push_device :: "json \<Rightarrow> simple_storage load_step" where
  "push_device item x = (case run_load
       ([load_field as_string item ''Name'' (\<lambda>v d. d\<lparr>dv_name := v\<rparr>),
         load_field as_string item ''Manufacturer'' (\<lambda>v d. d\<lparr>dv_manufacturer := v\<rparr>),
         load_field as_string item ''Model'' (\<lambda>v d. d\<lparr>dv_model := v\<rparr>),
         load_field as_word item ''CapacityKBytes'' (\<lambda>v d. d\<lparr>dv_capacity := v\<rparr>)]
        @ load_status item (\<lambda>v d. d\<lparr>dv_state := v\<rparr>) (\<lambda>v d. d\<lparr>dv_health := v\<rparr>)) empty_device of
      (True, d) \<Rightarrow> Some (x\<lparr>so_devices := so_devices x @ [d]\<rparr>) | (False, _) \<Rightarrow> None)"

definition simple_storage_load :: "json \<Rightarrow> simple_storage \<Rightarrow> bool \<times> simple_storage" where
  "simple_storage_load j = run_load
     ([load_base j,
       load_field as_string j ''Id'' (\<lambda>v x. x\<lparr>so_id := v\<rparr>),
       load_field as_string j ''Description'' (\<lambda>v x. x\<lparr>so_description := v\<rparr>),
       load_field as_string j ''UefiDevicePath'' (\<lambda>v x. x\<lparr>so_uefi_path := v\<rparr>)]
      @ load_status j (\<lambda>v x. x\<lparr>so_state := v\<rparr>) (\<lambda>v x. x\<lparr>so_health := v\<rparr>)
      @ load_each j ''Devices'' push_device)"

interpretation devices: vector_member so_devices "\<lambda>vs x. x\<lparr>so_devices := vs\<rparr>" by unfold_locales auto

text \<open>The file system of a device is written but not read.\<close>

definition device_kept :: "device_info \<Rightarrow> device_info" where
  "device_kept d = d\<lparr>dv_file_system := []\<rparr>"

lemma push_device_json: "push_device (device_json d) x = Some (x\<lparr>so_devices := so_devices x @ [device_kept d]\<rparr>)"
  by (cases d) (simp add: push_device_def device_json_def file_simps empty_device_def device_kept_def)

lemma load_devices:
  "run_load (map push_device (map device_json vs)) x = (True, x\<lparr>so_devices := so_devices x @ map device_kept vs\<rparr>)"
  using devices.load_pushes [of "\<lambda>d. push_device (device_json d)" device_kept vs "[]" x]
  by (simp add: push_device_json comp_def)

definition simple_storage_kept :: "simple_storage \<Rightarrow> simple_storage" where
  "simple_storage_kept x = x\<lparr>so_devices := map device_kept (so_devices x)\<rparr>"

lemma simple_storage_load_saved:
  "so_devices y = [] \<Longrightarrow> simple_storage_load (simple_storage_json x) y = (True, simple_storage_kept x)"
  by (cases x; cases y) (simp add: simple_storage_load_def simple_storage_json_def simple_storage_kept_def file_simps
      load_devices del: map_map)

interpretation simple_storage_file: saved_class simple_storage_json simple_storage_load "\<lambda>y. so_devices y = []" "\<lambda>_. True"
    "\<lambda>x y. simple_storage_kept x"
  by unfold_locales (simp_all add: simple_storage_load_saved, simp add: simple_storage_kept_def device_kept_def)

record drive = resource +
  dr_id :: string
  dr_asset_tag :: string
  dr_description :: string
  dr_encryption_ability :: string
  dr_encryption_status :: string
  dr_hotspare_type :: string
  dr_manufacturer :: string
  dr_media_type :: string
  dr_model :: string
  dr_name :: string
  dr_sku :: string
  dr_status_indicator :: string
  dr_part_number :: string
  dr_protocol :: string
  dr_revision :: string
  dr_serial_number :: string
  dr_block_size :: u32
  dr_capable_speed :: u32
  dr_negotiated_speed :: u32
  dr_life_left :: u32
  dr_rotation_speed :: u32
  dr_failure_predicted :: bool
  dr_identifiers :: "(string \<times> string) list"
  dr_ordinal :: u32
  dr_location_type :: string
  dr_service_label :: string
  dr_info :: string
  dr_info_format :: string
  dr_state :: string
  dr_health :: string

text \<open>The members of an identifier are set in the drive's own object, where the last one stays, and the
  objects of the array are empty. The drive's own name takes the place of the resource's.\<close>

definition identifier_fields :: "(string \<times> string) list \<Rightarrow> (string \<times> json) list" where
  "identifier_fields ids = (if ids = [] then []
     else [(''DurableName'', JStr (fst (last ids))), (''DurableNameFormat'', JStr (snd (last ids)))])"

definition drive_json :: "drive \<Rightarrow> json" where
  "drive_json x = JObj (resource_json (x\<lparr>rb_name := dr_name x\<rparr>)
     @ [(''Id'', JStr (dr_id x)), (''AssetTag'', JStr (dr_asset_tag x)), (''Description'', JStr (dr_description x)),
        (''EncryptionAbility'', JStr (dr_encryption_ability x)), (''EncryptionStatus'', JStr (dr_encryption_status x)),
        (''HotspareType'', JStr (dr_hotspare_type x)), (''Manufacturer'', JStr (dr_manufacturer x)),
        (''MediaType'', JStr (dr_media_type x)), (''Model'', JStr (dr_model x)), (''SKU'', JStr (dr_sku x)),
        (''StatusIndicator'', JStr (dr_status_indicator x)), (''PartNumber'', JStr (dr_part_number x)),
        (''Protocol'', JStr (dr_protocol x)), (''Revision'', JStr (dr_revision x)),
        (''SerialNumber'', JStr (dr_serial_number x)), (''BlockSizeBytes'', json_int (dr_block_size x)),
        (''CapableSpeedGbs'', json_int (dr_capable_speed x)), (''NegotiatedSpeedGbs'', json_int (dr_negotiated_speed x)),
        (''PredictedMediaLifeLeftPercent'', json_int (dr_life_left x)),
        (''RotationSpeedRPM'', json_int (dr_rotation_speed x)), (''FailurePredicted'', JBool (dr_failure_predicted x))]
     @ identifier_fields (dr_identifiers x)
     @ [(''Identifiers'', JArr (map (\<lambda>_. JObj []) (dr_identifiers x))),
        (''PhysicalLocation'', JObj
           [(''PartLocation'', JObj [(''LocationType'', JStr (dr_location_type x)),
               (''ServiceLabel'', JStr (dr_service_label x)), (''LocationOrdinalValue'', json_int (dr_ordinal x))]),
            (''InfoFormat'', JStr (dr_info_format x)), (''Info'', JStr (dr_info x))]),
        (''Status'', status_json (dr_state x) (dr_health x))])"

definition take_string :: "json \<Rightarrow> string \<Rightarrow> (string \<Rightarrow> 'a \<Rightarrow> 'a) \<Rightarrow> 'a load_step" where
  "take_string j k = load_value (snd (get_string_value j k))"

definition take_word :: "json \<Rightarrow> string \<Rightarrow> (u32 \<Rightarrow> 'a \<Rightarrow> 'a) \<Rightarrow> 'a load_step" where
  "take_word j k = load_value (snd (get_word_value j k))"

definition drive_load :: "json \<Rightarrow> drive \<Rightarrow> bool \<times> drive" where
  "drive_load j = (let loc = snd (get_json_value j ''PhysicalLocation''); part = snd (get_json_value loc ''PartLocation'')
   in run_load
     ([load_base j,
       take_string j ''Id'' (\<lambda>v x. x\<lparr>dr_id := v\<rparr>),
       take_string j ''AssetTag'' (\<lambda>v x. x\<lparr>dr_asset_tag := v\<rparr>),
       take_string j ''Description'' (\<lambda>v x. x\<lparr>dr_description := v\<rparr>),
       take_string j ''EncryptionAbility'' (\<lambda>v x. x\<lparr>dr_encryption_ability := v\<rparr>),
       take_string j ''EncryptionStatus'' (\<lambda>v x. x\<lparr>dr_encryption_status := v\<rparr>),
       take_string j ''HotspareType'' (\<lambda>v x. x\<lparr>dr_hotspare_type := v\<rparr>),
       take_string j ''Manufacturer'' (\<lambda>v x. x\<lparr>dr_manufacturer := v\<rparr>),
       take_string j ''Model'' (\<lambda>v x. x\<lparr>dr_model := v\<rparr>),
       take_string j ''Name'' (\<lambda>v x. x\<lparr>dr_name := v\<rparr>),
       take_string j ''SKU'' (\<lambda>v x. x\<lparr>dr_sku := v\<rparr>),
       take_string j ''StatusIndicator'' (\<lambda>v x. x\<lparr>dr_status_indicator := v\<rparr>),
       take_string j ''PartNumber'' (\<lambda>v x. x\<lparr>dr_part_number := v\<rparr>),
       take_string j ''Protocol'' (\<lambda>v x. x\<lparr>dr_protocol := v\<rparr>),
       take_string j ''Revision'' (\<lambda>v x. x\<lparr>dr_revision := v\<rparr>),
       take_string j ''SerialNumber'' (\<lambda>v x. x\<lparr>dr_serial_number := v\<rparr>),
       take_word j ''BlockSizeBytes'' (\<lambda>v x. x\<lparr>dr_block_size := v\<rparr>),
       take_word j ''CapableSpeedGbs'' (\<lambda>v x. x\<lparr>dr_capable_speed := v\<rparr>),
       take_word j ''NegotiatedSpeedGbs'' (\<lambda>v x. x\<lparr>dr_negotiated_speed := v\<rparr>),
       take_word j ''PredictedMediaLifeLeftPercent'' (\<lambda>v x. x\<lparr>dr_life_left := v\<rparr>),
       take_word j ''RotationSpeedRPM'' (\<lambda>v x. x\<lparr>dr_rotation_speed := v\<rparr>),
       load_value (snd (get_bool_value j ''FailurePredicted'')) (\<lambda>v x. x\<lparr>dr_failure_predicted := v\<rparr>),
       take_string loc ''Info'' (\<lambda>v x. x\<lparr>dr_info := v\<rparr>),
       take_string loc ''InfoFormat'' (\<lambda>v x. x\<lparr>dr_info_format := v\<rparr>),
       take_word part ''LocationOrdinalValue'' (\<lambda>v x. x\<lparr>dr_ordinal := v\<rparr>),
       take_string part ''ServiceLabel'' (\<lambda>v x. x\<lparr>dr_service_label := v\<rparr>),
       take_string part ''LocationType'' (\<lambda>v x. x\<lparr>dr_location_type := v\<rparr>)]
      @ load_status j (\<lambda>v x. x\<lparr>dr_state := v\<rparr>) (\<lambda>v x. x\<lparr>dr_health := v\<rparr>)))"

text \<open>The media type and the identifiers are not read.\<close>

definition drive_kept :: "drive \<Rightarrow> drive \<Rightarrow> drive" where
  "drive_kept x y = x\<lparr>rb_name := dr_name x, dr_media_type := dr_media_type y, dr_identifiers := dr_identifiers y\<rparr>"

lemma get_name:
  "get_string_value (JObj (resource_fields o' n i t @ kvs)) ''Name'' = (True, n)"
  by (simp add: resource_fields_def get_value_in)

lemmas take_simps = take_string_def take_word_def value_simps get_name

lemma drive_load_saved: "drive_load (drive_json x) y = (True, drive_kept x y)"
  by (cases x; cases y; cases "dr_identifiers x = []")
    (simp_all add: drive_load_def drive_json_def drive_kept_def identifier_fields_def take_simps file_simps Let_def)

interpretation drive_file: saved_class drive_json drive_load "\<lambda>_. True" "\<lambda>_. True" drive_kept
  by unfold_locales (simp_all add: drive_load_saved drive_kept_def)

record volume = resource +
  vo_id :: string
  vo_description :: string
  vo_raid_type :: string
  vo_name :: string
  vo_read_policy :: string
  vo_write_policy :: string
  vo_strip_size :: string
  vo_display_name :: string
  vo_block_size :: u32
  vo_capacity :: u32
  vo_access :: "string list"
  vo_state :: string
  vo_health :: string

definition volume_json :: "volume \<Rightarrow> json" where
  "volume_json x = JObj (resource_json (x\<lparr>rb_name := vo_name x\<rparr>)
     @ [(''Id'', JStr (vo_id x)), (''Description'', JStr (vo_description x)), (''RAIDType'', JStr (vo_raid_type x)),
        (''ReadCachePolicy'', JStr (vo_read_policy x)), (''WriteCachePolicy'', JStr (vo_write_policy x)),
        (''StripSizeBytes'', JStr (vo_strip_size x)), (''DisplayName'', JStr (vo_display_name x)),
        (''BlockSizeBytes'', json_int (vo_block_size x)), (''CapacityBytes'', json_int (vo_capacity x)),
        (''AccessCapabilities'', json_strings (vo_access x)), (''Status'', status_json (vo_state x) (vo_health x))])"

definition load_access :: "json \<Rightarrow> volume load_step list" where
  "load_access v = (case v of JNull \<Rightarrow> []
     | JArr xs \<Rightarrow> map (push_string (\<lambda>v x. x\<lparr>vo_access := vo_access x @ [v]\<rparr>)) xs
     | _ \<Rightarrow> [\<lambda>_. None])"

definition volume_load :: "json \<Rightarrow> volume \<Rightarrow> bool \<times> volume" where
  "volume_load j = run_load
     ([load_base j,
       take_string j ''Id'' (\<lambda>v x. x\<lparr>vo_id := v\<rparr>),
       take_string j ''Description'' (\<lambda>v x. x\<lparr>vo_description := v\<rparr>),
       take_string j ''RAIDType'' (\<lambda>v x. x\<lparr>vo_raid_type := v\<rparr>),
       take_string j ''Name'' (\<lambda>v x. x\<lparr>vo_name := v\<rparr>),
       take_string j ''ReadCachePolicy'' (\<lambda>v x. x\<lparr>vo_read_policy := v\<rparr>),
       take_string j ''WriteCachePolicy'' (\<lambda>v x. x\<lparr>vo_write_policy := v\<rparr>),
       take_string j ''StripSizeBytes'' (\<lambda>v x. x\<lparr>vo_strip_size := v\<rparr>),
       take_string j ''DisplayName'' (\<lambda>v x. x\<lparr>vo_display_name := v\<rparr>),
       take_word j ''BlockSizeBytes'' (\<lambda>v x. x\<lparr>vo_block_size := v\<rparr>),
       take_word j ''CapacityBytes'' (\<lambda>v x. x\<lparr>vo_capacity := v\<rparr>)]
      @ load_access (snd (get_json_value j ''AccessCapabilities''))
      @ load_status j (\<lambda>v x. x\<lparr>vo_state := v\<rparr>) (\<lambda>v x. x\<lparr>vo_health := v\<rparr>))"

interpretation access: vector_member vo_access "\<lambda>vs x. x\<lparr>vo_access := vs\<rparr>" by unfold_locales auto

lemma load_access_strings:
  "run_load (map (push_string (\<lambda>v x. x\<lparr>vo_access := vo_access x @ [v]\<rparr>)) (map JStr vs) @ fs) x
   = run_load fs (x\<lparr>vo_access := vo_access x @ vs\<rparr>)"
  using access.load_strings [of _ "\<lambda>v. v" vs fs x] by simp

lemma volume_load_saved: "vo_access y = [] \<Longrightarrow> volume_load (volume_json x) y = (True, x\<lparr>rb_name := vo_name x\<rparr>)"
  by (cases x; cases y) (simp add: volume_load_def volume_json_def take_simps file_simps json_strings_def load_access_def
      load_access_strings del: map_map)

interpretation volume_file: saved_class volume_json volume_load "\<lambda>y. vo_access y = []" "\<lambda>_. True"
    "\<lambda>x y. x\<lparr>rb_name := vo_name x\<rparr>"
  by unfold_locales (simp_all add: volume_load_saved)

section \<open>The BIOS and the software inventory\<close>

record bios_attributes =
  ba_boot_mode :: string
  ba_sata :: string
  ba_nic1 :: string
  ba_nic2 :: string
  ba_power_profile :: string
  ba_core_disable :: u32
  ba_hyperthreading :: string
  ba_turbo :: string
  ba_usb :: string

record bios = resource +
  bi_id :: string
  bi_registry :: string
  bi_attributes :: bios_attributes
  bi_actions :: "rf_action list"

definition new_bios :: "string \<Rightarrow> bios" where
  "new_bios odata = \<lparr>rb_odata = odata, rb_name = [], rb_type = 9, rb_otype = ''#Bios.v1_0_0.Bios'', bi_id = [],
     bi_registry = [], bi_attributes = \<lparr>ba_boot_mode = [], ba_sata = [], ba_nic1 = [], ba_nic2 = [],
       ba_power_profile = [], ba_core_disable = 0, ba_hyperthreading = [], ba_turbo = [], ba_usb = []\<rparr>,
     bi_actions = [\<lparr>ac_name = ''#Bios.ResetBios'', ac_target = odata @ ''/Actions/Bios.ResetBios'', ac_params = []\<rparr>,
       \<lparr>ac_name = ''#Bios.ChangePassword'', ac_target = odata @ ''/Actions/Bios.ChangePassword'',
        ac_params = [(''PasswordName'', [''UefiAdminPassword'', ''UefiPowerOnPassword''])]\<rparr>]\<rparr>"

definition attributes_json :: "bios_attributes \<Rightarrow> json" where
  "attributes_json a = JObj
     [(''BootMode'', JStr (ba_boot_mode a)), (''EmbeddedSata'', JStr (ba_sata a)), (''NicBoot1'', JStr (ba_nic1 a)),
      (''NicBoot2'', JStr (ba_nic2 a)), (''PowerProfile'', JStr (ba_power_profile a)),
      (''ProcCoreDisable'', json_int (ba_core_disable a)), (''ProcHyperthreading'', JStr (ba_hyperthreading a)),
      (''ProcTurboMode'', JStr (ba_turbo a)), (''UsbControl'', JStr (ba_usb a))]"

definition bios_json :: "bios \<Rightarrow> json" where
  "bios_json x = JObj (resource_json x
     @ [(''Id'', JStr (bi_id x)), (''AttributeRegistry'', JStr (bi_registry x)),
        (''Attributes'', attributes_json (bi_attributes x)), (''Actions'', get_action_info (bi_actions x))])"

definition load_attributes :: "json \<Rightarrow> bios load_step list" where
  "load_attributes a =
     [load_field as_string a ''BootMode'' (\<lambda>v x. x\<lparr>bi_attributes := (bi_attributes x)\<lparr>ba_boot_mode := v\<rparr>\<rparr>),
      load_field as_string a ''EmbeddedSata'' (\<lambda>v x. x\<lparr>bi_attributes := (bi_attributes x)\<lparr>ba_sata := v\<rparr>\<rparr>),
      load_field as_string a ''NicBoot1'' (\<lambda>v x. x\<lparr>bi_attributes := (bi_attributes x)\<lparr>ba_nic1 := v\<rparr>\<rparr>),
      load_field as_string a ''NicBoot2'' (\<lambda>v x. x\<lparr>bi_attributes := (bi_attributes x)\<lparr>ba_nic2 := v\<rparr>\<rparr>),
      load_field as_string a ''PowerProfile'' (\<lambda>v x. x\<lparr>bi_attributes := (bi_attributes x)\<lparr>ba_power_profile := v\<rparr>\<rparr>),
      load_field as_word a ''ProcCoreDisable'' (\<lambda>v x. x\<lparr>bi_attributes := (bi_attributes x)\<lparr>ba_core_disable := v\<rparr>\<rparr>),
      load_field as_string a ''ProcHyperthreading'' (\<lambda>v x. x\<lparr>bi_attributes := (bi_attributes x)\<lparr>ba_hyperthreading := v\<rparr>\<rparr>),
      load_field as_string a ''ProcTurboMode'' (\<lambda>v x. x\<lparr>bi_attributes := (bi_attributes x)\<lparr>ba_turbo := v\<rparr>\<rparr>),
      load_field as_string a ''UsbControl'' (\<lambda>v x. x\<lparr>bi_attributes := (bi_attributes x)\<lparr>ba_usb := v\<rparr>\<rparr>)]"

definition bios_load :: "json \<Rightarrow> bios \<Rightarrow> bool \<times> bios" where
  "bios_load j = run_load
     ([load_base j,
       load_field as_string j ''Id'' (\<lambda>v x. x\<lparr>bi_id := v\<rparr>),
       load_field as_string j ''AttributeRegistry'' (\<lambda>v x. x\<lparr>bi_registry := v\<rparr>),
       need_field j ''Attributes'']
      @ load_attributes (at_field j ''Attributes''))"

lemma load_attributes_json: "run_load (load_attributes (attributes_json a)) x = (True, x\<lparr>bi_attributes := a\<rparr>)"
  by (cases a; cases "bi_attributes x") (simp add: load_attributes_def attributes_json_def load_field_in)

lemma bios_load_saved: "bios_load (bios_json x) y = (True, x\<lparr>bi_actions := bi_actions y\<rparr>)"
  by (cases x; cases y) (simp add: bios_load_def bios_json_def file_simps load_attributes_json)

interpretation bios_file: saved_class bios_json bios_load "\<lambda>_. True" "\<lambda>_. True" "\<lambda>x y. x\<lparr>bi_actions := bi_actions y\<rparr>"
  by unfold_locales (simp_all add: bios_load_saved)

record software_inventory = resource +
  si_id :: string
  si_updatable :: bool
  si_manufacturer :: string
  si_release_date :: string
  si_version :: string
  si_software_id :: string
  si_lowest_version :: string
  si_uefi_paths :: "string list"
  si_state :: string
  si_health :: string

definition software_json :: "software_inventory \<Rightarrow> json" where
  "software_json x = JObj (resource_json x
     @ [(''Id'', JStr (si_id x)), (''Updatable'', JBool (si_updatable x)), (''Manufacturer'', JStr (si_manufacturer x)),
        (''ReleaseDate'', JStr (si_release_date x)), (''Version'', JStr (si_version x)),
        (''SoftwareId'', JStr (si_software_id x)), (''LowestSupportedVersion'', JStr (si_lowest_version x)),
        (''Status'', status_json (si_state x) (si_health x)), (''UefiDevicePaths'', json_strings (si_uefi_paths x))])"

definition software_load :: "json \<Rightarrow> software_inventory \<Rightarrow> bool \<times> software_inventory" where
  "software_load j = run_load
     ([load_base j,
       load_field as_string j ''Id'' (\<lambda>v x. x\<lparr>si_id := v\<rparr>),
       load_field as_bool j ''Updatable'' (\<lambda>v x. x\<lparr>si_updatable := v\<rparr>),
       load_field as_string j ''Manufacturer'' (\<lambda>v x. x\<lparr>si_manufacturer := v\<rparr>),
       load_field as_string j ''ReleaseDate'' (\<lambda>v x. x\<lparr>si_release_date := v\<rparr>),
       load_field as_string j ''Version'' (\<lambda>v x. x\<lparr>si_version := v\<rparr>),
       load_field as_string j ''SoftwareId'' (\<lambda>v x. x\<lparr>si_software_id := v\<rparr>),
       load_field as_string j ''LowestSupportedVersion'' (\<lambda>v x. x\<lparr>si_lowest_version := v\<rparr>)]
      @ load_each j ''UefiDevicePaths'' (push_string (\<lambda>v x. x\<lparr>si_uefi_paths := si_uefi_paths x @ [v]\<rparr>))
      @ load_status j (\<lambda>v x. x\<lparr>si_state := v\<rparr>) (\<lambda>v x. x\<lparr>si_health := v\<rparr>))"

interpretation uefi_paths: vector_member si_uefi_paths "\<lambda>vs x. x\<lparr>si_uefi_paths := vs\<rparr>" by unfold_locales auto

lemma load_uefi_paths:
  "run_load (map (push_string (\<lambda>v x. x\<lparr>si_uefi_paths := si_uefi_paths x @ [v]\<rparr>)) (map JStr vs) @ fs) x
   = run_load fs (x\<lparr>si_uefi_paths := si_uefi_paths x @ vs\<rparr>)"
  using uefi_paths.load_strings [of _ "\<lambda>v. v" vs fs x] by simp

lemma software_load_saved: "si_uefi_paths y = [] \<Longrightarrow> software_load (software_json x) y = (True, x)"
  by (cases x; cases y) (simp add: software_load_def software_json_def file_simps json_strings_def load_uefi_paths
      del: map_map)

interpretation software_file: lossless_class software_json software_load "\<lambda>y. si_uefi_paths y = []" "\<lambda>_. True"
  by unfold_locales (simp add: software_load_saved)

section \<open>The update and task services\<close>

record update_service = resource +
  up_id :: string
  up_enabled :: bool
  up_push_uri :: string
  up_state :: string
  up_health :: string
  up_firmware :: "string option"
  up_software :: "string option"

definition update_service_json :: "update_service \<Rightarrow> json" where
  "update_service_json x = JObj (resource_json x
     @ [(''Id'', JStr (up_id x)), (''ServiceEnabled'', JBool (up_enabled x)), (''HttpPushUri'', JStr (up_push_uri x)),
        (''Status'', status_json (up_state x) (up_health x)), (''FirmwareInventory'', odata_id_json (up_firmware x)),
        (''SoftwareInventory'', odata_id_json (up_software x))])"

definition update_service_load :: "json \<Rightarrow> update_service \<Rightarrow> bool \<times> update_service" where
  "update_service_load j = run_load
     ([load_base j,
       load_field as_string j ''Id'' (\<lambda>v x. x\<lparr>up_id := v\<rparr>),
       load_field as_bool j ''ServiceEnabled'' (\<lambda>v x. x\<lparr>up_enabled := v\<rparr>),
       load_field as_string j ''HttpPushUri'' (\<lambda>v x. x\<lparr>up_push_uri := v\<rparr>)]
      @ load_status j (\<lambda>v x. x\<lparr>up_state := v\<rparr>) (\<lambda>v x. x\<lparr>up_health := v\<rparr>))"

lemma update_service_load_saved:
  "update_service_load (update_service_json x) y = (True, x\<lparr>up_firmware := up_firmware y, up_software := up_software y\<rparr>)"
  by (cases x; cases y) (simp add: update_service_load_def update_service_json_def file_simps)

interpretation update_file: saved_class update_service_json update_service_load "\<lambda>_. True" "\<lambda>_. True"
    "\<lambda>x y. x\<lparr>up_firmware := up_firmware y, up_software := up_software y\<rparr>"
  by unfold_locales (simp_all add: update_service_load_saved)

record task_service = resource +
  tv_id :: string
  tv_datetime :: string
  tv_enabled :: bool
  tv_state :: string
  tv_health :: string
  tv_tasks :: "string option"

definition task_service_json :: "task_service \<Rightarrow> json" where
  "task_service_json x = JObj (resource_json x
     @ [(''Id'', JStr (tv_id x)), (''Status'', status_json (tv_state x) (tv_health x)),
        (''ServiceEnabled'', JBool (tv_enabled x)), (''DateTime'', JStr (tv_datetime x)),
        (''Tasks'', odata_id_json (tv_tasks x))])"

definition task_service_load :: "json \<Rightarrow> task_service \<Rightarrow> bool \<times> task_service" where
  "task_service_load j = run_load
     ([load_base j,
       load_field as_string j ''Id'' (\<lambda>v x. x\<lparr>tv_id := v\<rparr>),
       load_field as_string j ''DateTime'' (\<lambda>v x. x\<lparr>tv_datetime := v\<rparr>),
       load_field as_bool j ''ServiceEnabled'' (\<lambda>v x. x\<lparr>tv_enabled := v\<rparr>)]
      @ load_status j (\<lambda>v x. x\<lparr>tv_state := v\<rparr>) (\<lambda>v x. x\<lparr>tv_health := v\<rparr>))"

lemma task_service_load_saved: "task_service_load (task_service_json x) y = (True, x\<lparr>tv_tasks := tv_tasks y\<rparr>)"
  by (cases x; cases y) (simp add: task_service_load_def task_service_json_def file_simps)

interpretation task_service_file: saved_class task_service_json task_service_load "\<lambda>_. True" "\<lambda>_. True"
    "\<lambda>x y. x\<lparr>tv_tasks := tv_tasks y\<rparr>"
  by unfold_locales (simp_all add: task_service_load_saved)

end
