(* ===== verification/Redfish_Logs.thy ===== *)
theory Redfish_Logs
  imports Redfish_Parts
begin

text \<open>
  The log services of the redfish service and their entries (libs/redfish/resource.cpp, with
  \<open>init_log_service\<close> of KETI-Edge/init.cpp): \<open>get_json\<close>, \<open>load_json\<close>, \<open>new_log_entry\<close> and
  \<open>ClearLog\<close>.
\<close>

section \<open>Classes\<close>

record log_entry = resource +
  le_id :: string
  le_entry_type :: string
  le_severity :: string
  le_created :: string
  le_sensor :: u32
  le_message :: string
  le_message_id :: string
  le_args :: "string list"

definition log_entry_json :: "log_entry \<Rightarrow> json" where
  "log_entry_json x = JObj (resource_json x
     @ [(''Id'', JStr (le_id x)), (''EntryType'', JStr (le_entry_type x)), (''Severity'', JStr (le_severity x)),
        (''Created'', JStr (le_created x)), (''SensorNumber'', json_uint (le_sensor x)),
        (''Message'', JStr (le_message x)), (''MessageId'', JStr (le_message_id x)),
        (''MessageArgs'', json_strings (le_args x))])"

definition log_entry_load :: "json \<Rightarrow> log_entry \<Rightarrow> bool \<times> log_entry" where
  "log_entry_load j = run_load
     ([load_base j,
       load_field as_string j ''Id'' (\<lambda>v x. x\<lparr>le_id := v\<rparr>),
       load_field as_string j ''EntryType'' (\<lambda>v x. x\<lparr>le_entry_type := v\<rparr>),
       load_field as_string j ''Severity'' (\<lambda>v x. x\<lparr>le_severity := v\<rparr>),
       load_field as_string j ''Created'' (\<lambda>v x. x\<lparr>le_created := v\<rparr>),
       load_field as_word j ''SensorNumber'' (\<lambda>v x. x\<lparr>le_sensor := v\<rparr>),
       load_field as_string j ''Message'' (\<lambda>v x. x\<lparr>le_message := v\<rparr>),
       load_field as_string j ''MessageId'' (\<lambda>v x. x\<lparr>le_message_id := v\<rparr>)]
      @ load_each j ''MessageArgs'' (push_string (\<lambda>v x. x\<lparr>le_args := le_args x @ [v]\<rparr>)))"

interpretation message_args: vector_member le_args "\<lambda>vs x. x\<lparr>le_args := vs\<rparr>" by unfold_locales auto

lemma load_args:
  "run_load (map (push_string (\<lambda>v x. x\<lparr>le_args := le_args x @ [v]\<rparr>)) (map JStr vs)) x = (True, x\<lparr>le_args := le_args x @ vs\<rparr>)"
  using message_args.load_strings [of _ "\<lambda>v. v" vs "[]" x] by simp

lemma log_entry_load_saved: "le_args y = [] \<Longrightarrow> log_entry_load (log_entry_json x) y = (True, x)"
  by (cases x; cases y) (simp add: log_entry_load_def log_entry_json_def file_simps json_strings_def load_args del: map_map)

interpretation log_entry_file: lossless_class log_entry_json log_entry_load "\<lambda>y. le_args y = []" "\<lambda>_. True"
  by unfold_locales (simp add: log_entry_load_saved)

record log_service = resource +
  lv_id :: string
  lv_description :: string
  lv_datetime :: string
  lv_offset :: string
  lv_max_records :: u32
  lv_entry_type :: string
  lv_policy :: string
  lv_enabled :: bool
  lv_state :: string
  lv_health :: string
  lv_entry_count :: u32
  lv_entry :: "string option"
  lv_actions :: "rf_action list"

text \<open>The maximum, the flag and the count of entries of \<open>m\<close> are what the memory held.\<close>

definition new_log_service :: "string \<Rightarrow> string \<Rightarrow> log_service \<Rightarrow> log_service" where
  "new_log_service odata i m = m
     \<lparr>rb_odata := odata, rb_name := [], rb_type := 26, rb_otype := ''#LogService.v1_0_0.LogService'',
      lv_id := i, lv_description := [], lv_datetime := [], lv_offset := [], lv_entry_type := [], lv_policy := [],
      lv_state := [], lv_health := [], lv_entry := None,
      lv_actions := [\<lparr>ac_name = ''#LogService.ClearLog'', ac_target = odata @ ''/Actions/LogService.ClearLog'',
        ac_params = []\<rparr>]\<rparr>"

definition log_service_json :: "log_service \<Rightarrow> json" where
  "log_service_json x = JObj (resource_json x
     @ [(''Id'', JStr (lv_id x)), (''Description'', JStr (lv_description x)),
        (''MaxNumberOfRecords'', json_uint (lv_max_records x)), (''OverWritePolicy'', JStr (lv_policy x)),
        (''DateTime'', JStr (lv_datetime x)), (''DateTimeLocalOffset'', JStr (lv_offset x)),
        (''ServiceEnabled'', JBool (lv_enabled x)), (''LogEntryType'', JStr (lv_entry_type x)),
        (''Status'', status_json (lv_state x) (lv_health x)), (''Entries'', odata_id_json (lv_entry x)),
        (''Actions'', get_action_info (lv_actions x))])"

definition log_service_load :: "json \<Rightarrow> log_service \<Rightarrow> bool \<times> log_service" where
  "log_service_load j = run_load
     ([load_base j,
       load_field as_string j ''Id'' (\<lambda>v x. x\<lparr>lv_id := v\<rparr>),
       load_field as_string j ''Description'' (\<lambda>v x. x\<lparr>lv_description := v\<rparr>),
       load_field as_string j ''DateTime'' (\<lambda>v x. x\<lparr>lv_datetime := v\<rparr>),
       load_field as_string j ''DateTimeLocalOffset'' (\<lambda>v x. x\<lparr>lv_offset := v\<rparr>),
       load_field as_word j ''MaxNumberOfRecords'' (\<lambda>v x. x\<lparr>lv_max_records := v\<rparr>),
       load_field as_string j ''LogEntryType'' (\<lambda>v x. x\<lparr>lv_entry_type := v\<rparr>),
       load_field as_string j ''OverWritePolicy'' (\<lambda>v x. x\<lparr>lv_policy := v\<rparr>),
       load_field as_bool j ''ServiceEnabled'' (\<lambda>v x. x\<lparr>lv_enabled := v\<rparr>)]
      @ load_status j (\<lambda>v x. x\<lparr>lv_state := v\<rparr>) (\<lambda>v x. x\<lparr>lv_health := v\<rparr>))"

text \<open>The count of entries is not saved.\<close>

definition log_service_kept :: "log_service \<Rightarrow> log_service \<Rightarrow> log_service" where
  "log_service_kept x y = x\<lparr>lv_entry_count := lv_entry_count y, lv_entry := lv_entry y, lv_actions := lv_actions y\<rparr>"

lemma log_service_load_saved: "log_service_load (log_service_json x) y = (True, log_service_kept x y)"
  by (cases x; cases y) (simp add: log_service_load_def log_service_json_def log_service_kept_def file_simps)

interpretation log_service_file: saved_class log_service_json log_service_load "\<lambda>_. True" "\<lambda>_. True" log_service_kept
  by unfold_locales (simp_all add: log_service_load_saved log_service_kept_def)

section \<open>Logging and clearing\<close>

text \<open>A log service, the members of its collection of entries, the part of \<open>g_record\<close> that holds
  entries, and what the sensor number of a new entry holds before it is set.\<close>

record log_state =
  lg_service :: log_service
  lg_members :: "log_entry list"
  lg_record :: "string \<Rightarrow> log_entry option"
  lg_junk :: u32

record log_event =
  ev_time :: string
  ev_message :: string
  ev_args :: "string list"
  ev_sensor :: string
  ev_severity :: string

datatype log_outcome = Logged | Log_full | Log_throws

definition entry_type_of :: "string \<Rightarrow> string \<Rightarrow> string" where
  "entry_type_of service_type old =
     (if service_type = ''SEL'' then ''SEL'' else if service_type = ''Event'' then ''Event'' else old)"

definition make_log_entry :: "string \<Rightarrow> string \<Rightarrow> nat \<Rightarrow> u32 \<Rightarrow> log_event \<Rightarrow> log_entry" where
  "make_log_entry entries ty n sensor e =
     \<lparr>rb_odata = entries @ ''/'' @ to_string n, rb_name = [], rb_type = 27, rb_otype = ''#LogEntry.v1_0_0.LogEntry'',
      le_id = to_string n, le_entry_type = entry_type_of ty [], le_severity = ev_severity e, le_created = ev_time e,
      le_sensor = sensor, le_message = ev_message e, le_message_id = [], le_args = ev_args e\<rparr>"

definition sensor_of :: "string \<Rightarrow> int cres" where
  "sensor_of s = (if s = [] then Ret 0 else improved_stoi s)"

text \<open>The collection is created when there is none. An exception from the sensor number leaves the entry
  in the record; it carries only what was assigned before.\<close>

definition new_log_entry :: "log_event \<Rightarrow> log_state \<Rightarrow> log_state \<times> log_outcome" where
  "new_log_entry e s =
     (let s1 = (if lv_entry (lg_service s) = None
                then s\<lparr>lg_service := (lg_service s)\<lparr>lv_entry := Some (rb_odata (lg_service s) @ ''/Entries'')\<rparr>, lg_members := []\<rparr>
                else s);
          v = lg_service s1; num = lv_entry_count v; entries = the (lv_entry v) in
      if lv_max_records v < num then (s1, Log_full)
      else case sensor_of (ev_sensor e) of
        Ret n \<Rightarrow> (let x = make_log_entry entries (lv_entry_type v) (unat num) (word_of_int n) e in
          (s1\<lparr>lg_members := lg_members s1 @ [x], lg_record := (lg_record s1)(rb_odata x := Some x),
              lg_service := v\<lparr>lv_entry_count := num + 1\<rparr>\<rparr>, Logged))
      | _ \<Rightarrow> (let x = (make_log_entry entries [] (unat num) (lg_junk s1) e)\<lparr>le_severity := []\<rparr> in
          (s1\<lparr>lg_record := (lg_record s1)(rb_odata x := Some x)\<rparr>, Log_throws)))"

text \<open>\<open>there\<close>: the directory of the service exists; without it the iterator throws, after the entries
  are gone.\<close>

definition clear_log :: "bool \<Rightarrow> log_state \<Rightarrow> bool \<times> log_state" where
  "clear_log there s =
     (if lv_entry (lg_service s) = None then (False, s)
      else (there, s\<lparr>lg_service := (lg_service s)\<lparr>lv_entry := None\<rparr>, lg_members := [],
         lg_record := (\<lambda>uri. if uri \<in> rb_odata ` set (lg_members s) then None else lg_record s uri)\<rparr>))"

text \<open>\<open>init_log_service\<close> with its first entry, number 0, which is not counted.\<close>

definition init_log_service :: "string \<Rightarrow> string \<Rightarrow> string \<Rightarrow> u32 \<Rightarrow> log_service \<Rightarrow> log_state" where
  "init_log_service odata i clock junk m =
     (let v = (new_log_service odata i m)\<lparr>lv_max_records := 1000, lv_policy := ''WrapsWhenFull'',
            lv_offset := ''+09:00'', lv_enabled := True, lv_state := ''Enabled'', lv_health := ''OK'',
            lv_entry := Some (odata @ ''/Entries'')\<rparr>;
          x = \<lparr>rb_odata = odata @ ''/Entries/0'', rb_name = [], rb_type = 27, rb_otype = ''#LogEntry.v1_0_0.LogEntry'',
            le_id = ''0'', le_entry_type = [], le_severity = [], le_created = clock, le_sensor = junk,
            le_message = [], le_message_id = [], le_args = []\<rparr>
      in \<lparr>lg_service = v, lg_members = [x], lg_record = [rb_odata x \<mapsto> x], lg_junk = junk\<rparr>)"

definition log_all :: "log_event list \<Rightarrow> log_state \<Rightarrow> log_state" where
  "log_all es s = fold (\<lambda>e s. fst (new_log_entry e s)) es s"

end
