(* ===== verification/Redfish_Platform_Properties.thy ===== *)
theory Redfish_Platform_Properties
  imports Redfish_Patch_Facts Redfish_Stores Redfish_Logs Redfish_Properties
begin

text \<open>
  The properties of the manager, system and chassis resources: what a PATCH does without and in
  spite of being refused, the firewall, the NTP servers, the fans, the logs, and what is left of the
  resources after restarts.
\<close>

section \<open>A command line from a request body\<close>

lemma same_disk: "f\<lparr>rf_disk := rf_disk f\<rparr> = f"
  by simp

lemma treat_ethernet_hostname:
  assumes "q_uri q = nic_uri nic" "CHR ''/'' \<notin> set nic" "mc_ethernet m (nic_uri nic) = Some x"
    "mc_ethernet m (system_nic_uri nic) = Some y" "get_string_value (q_body q) ''HostName'' = (True, cmd)"
  shows "\<exists>m' p ds. treat_ethernet_patch q m = Done (m', Some p) \<and> mc_ran m' = mc_ran m @ (''hostname '' @ cmd) # ds
    \<and> mc_rf m' = (mc_rf m)\<lparr>rf_disk := rf_disk (mc_rf m')\<rparr>"
proof -
  obtain r x' cs where 1: "patch_ethernet_interface (q_body q) True (x, mc_ran m) = (r, x', cs)"
    by (metis prod.exhaust)
  obtain ds where ds: "cs = (mc_ran m @ [''hostname '' @ cmd]) @ ds"
    using members_hostname [OF assms(5), of x "mc_ran m"]
      patch_ethernet_grows [of "q_body q" True "(x, mc_ran m)" "mc_ran m @ [''hostname '' @ cmd]"] 1 by fastforce
  obtain r2 y' cs2 where 2: "patch_ethernet_interface (q_body q) False (y, cs) = (r2, y', cs2)"
    by (metis prod.exhaust)
  obtain es where es: "cs2 = cs @ es"
    using members_grow [of "q_body q" False y cs] patch_ethernet_grows [of "q_body q" False "(y, cs)" cs] 2 by fastforce
  have "\<exists>m' p. treat_ethernet_patch q m = Done (m', Some p) \<and> (mc_ran m' = cs \<or> mc_ran m' = cs2)
      \<and> mc_rf m' = (mc_rf m)\<lparr>rf_disk := rf_disk (mc_rf m')\<rparr>"
    using assms(1,3,4) nic_uri_parts(3) [OF assms(2)] 2
    by (cases r; cases r2) (simp_all add: treat_ethernet_patch_def Let_def 1 refuse_machine_def saved_answer_def
        answer_machine_def save_file_def same_disk)
  then show ?thesis using ds es by auto
qed

text \<open>A PATCH that only touches the saved files of the record is answered, the task of it included.\<close>

lemma machine_patch_handled:
  assumes "rf_inv (mc_rf m)" "1 \<le> free_numbers (mc_rf m) ALLOCATE_TASK_NUM"
    "\<And>f. \<exists>m' p. treat_machine_patch q (m\<lparr>mc_rf := f\<rparr>) = Done (m', Some p)
       \<and> mc_rf m' = f\<lparr>rf_disk := rf_disk (mc_rf m')\<rparr> \<and> Q m'"
    "\<And>f m'. Q m' \<Longrightarrow> Q (m'\<lparr>mc_rf := f\<rparr>)"
  shows "\<exists>m' p. handle_machine_patch q m = Done (m', p) \<and> Q m'"
proof -
  obtain n a f1 where g: "generate_task_resource ''PATCH'' q (mc_rf m) = Done (n, f1)" "rf_inv f1"
      "task_holds a (member_uri ALLOCATE_TASK_NUM (to_string n)) (q_headers q) (q_body q) f1"
    by (rule generate_task_total [OF assms(1,2)])
  obtain m2 p2 where t: "treat_machine_patch q (m\<lparr>mc_rf := f1\<rparr>) = Done (m2, Some p2)"
      "mc_rf m2 = f1\<lparr>rf_disk := rf_disk (mc_rf m2)\<rparr>" "Q m2"
    using assms(3) [of f1] by blast
  have "rf_inv (mc_rf m2)" "task_holds a (member_uri ALLOCATE_TASK_NUM (to_string n)) (q_headers q) (q_body q) (mc_rf m2)"
    by (subst t(2), use g(2,3) in \<open>simp add: task_holds_def\<close>)+
  then obtain f3 where "complete_task_resource n (mc_rf m2) = Done f3" using complete_task_total by blast
  then have "handle_machine_patch q m = Done (m2\<lparr>mc_rf := f3\<rparr>, p2)"
    using g(1) t(1) by (simp add: handle_machine_patch_def Let_def)
  then show ?thesis using t(3) assms(4) by blast
qed

text \<open>C10. A PATCH of one of the manager's Ethernet interfaces with a \<open>HostName\<close> is served, and runs that text as
  a shell command line behind \<open>hostname\<close>, whatever headers the request has: nothing asks for a session,
  and nothing escapes the text.\<close>

theorem anonymous_runs_command:
  assumes "rf_inv (mc_rf m)" "1 \<le> free_numbers (mc_rf m) ALLOCATE_TASK_NUM"
    "q_uri q = nic_uri nic" "CHR ''/'' \<notin> set nic"
    "mc_ethernet m (nic_uri nic) = Some x" "mc_ethernet m (system_nic_uri nic) = Some y"
    "get_string_value (q_body q) ''HostName'' = (True, cmd)"
  shows "\<exists>m' p ds. handle_machine_patch q m = Done (m', p) \<and> mc_ran m' = mc_ran m @ (''hostname '' @ cmd) # ds"
proof -
  let ?Q = "\<lambda>m'. \<exists>ds. mc_ran m' = mc_ran m @ (''hostname '' @ cmd) # ds"
  have "\<exists>m' p. treat_machine_patch q (m\<lparr>mc_rf := f\<rparr>) = Done (m', Some p)
      \<and> mc_rf m' = f\<lparr>rf_disk := rf_disk (mc_rf m')\<rparr> \<and> ?Q m'" for f
    using treat_ethernet_hostname [of q nic "m\<lparr>mc_rf := f\<rparr>" x y cmd] assms(3-7) treat_nic [OF assms(3,4)] by auto
  from machine_patch_handled [where Q = ?Q, OF assms(1,2) this] show ?thesis by auto
qed

text \<open>A machine after the first start, with one interface without addresses.\<close>

definition boot_nic :: "string \<Rightarrow> ethernet_interface" where
  "boot_nic uri = new_ethernet_interface uri
     \<lparr>rb_odata = [], rb_name = [], rb_type = 0, rb_otype = [], ei_id = [], ei_name = [], ei_description = [],
      ei_link_status = [], ei_permanent_mac = [], ei_mac = [], ei_speed = 0, ei_autoneg = True, ei_full_duplex = True,
      ei_mtu = 1500, ei_hostname = [], ei_fqdn = [], ei_gateway6 = [], ei_enabled = True, ei_name_servers = [],
      ei_dhcp4 = \<lparr>d4_enabled = False, d4_dns = False, d4_gateway = False, d4_ntp = False, d4_routes = False,
        d4_domain = False\<rparr>,
      ei_dhcp6 = \<lparr>d6_mode = [], d6_dns = False, d6_ntp = False, d6_domain = False, d6_rapid = False\<rparr>,
      ei_ipv4 = [], ei_ipv6 = [], ei_vlan_enable = False, ei_vlan_id = 0, ei_state = [], ei_health = []\<rparr>"

definition boot_network :: "bool \<Rightarrow> u32 \<Rightarrow> network_protocol" where
  "boot_network ssh port =
     \<lparr>rb_odata = network_uri, rb_name = [], rb_type = 24, rb_otype = [], np_id = [], np_hostname = [],
      np_description = [], np_fqdn = [], np_name = [], np_snmp_enabled = False, np_ipmi_enabled = False,
      np_ntp_enabled = False, np_kvmip_enabled = True, np_https_enabled = True, np_http_enabled = True,
      np_virtual_media_enabled = True, np_ssh_enabled = ssh, np_snmp_port = 161, np_ipmi_port = 623, np_ntp_port = 123,
      np_kvmip_port = 5901, np_https_port = 443, np_http_port = 80, np_virtual_media_port = 3333, np_ssh_port = port,
      np_servers = [], np_state = ''Enabled'', np_health = ''OK'', np_certificates = None\<rparr>"

definition boot_machine :: machine where
  "boot_machine =
     \<lparr>mc_rf = boot_rf, mc_manager = new_manager MANAGER_ID, mc_enables = 8, mc_network = Some (boot_network True 22),
      mc_ethernet = [nic_uri ''NIC'' \<mapsto> boot_nic (nic_uri ''NIC''), system_nic_uri ''NIC'' \<mapsto> boot_nic (system_nic_uri ''NIC'')],
      mc_system = new_system SYSTEM_ID 0, mc_chassis = new_chassis CHASSIS_ID 0 0, mc_fans = [], mc_temps = [],
      mc_ran = []\<rparr>"

lemma boot_nics:
  "mc_ethernet boot_machine (nic_uri ''NIC'') = Some (boot_nic (nic_uri ''NIC''))"
  "mc_ethernet boot_machine (system_nic_uri ''NIC'') = Some (boot_nic (system_nic_uri ''NIC''))"
  using nic_uri_parts(7) [of "''NIC''"] by (simp_all add: boot_machine_def)

lemma anonymous_runs_command_witness:
  "\<exists>m' p ds. handle_machine_patch \<lparr>q_uri = nic_uri ''NIC'', q_headers = [],
       q_body = JObj [(''HostName'', JStr ''x; reboot'')]\<rparr> boot_machine = Done (m', p)
     \<and> mc_ran m' = ''hostname x; reboot'' # ds"
proof -
  let ?q = "\<lparr>q_uri = nic_uri ''NIC'', q_headers = [], q_body = JObj [(''HostName'', JStr ''x; reboot'')]\<rparr>"
  have "\<exists>m' p ds. handle_machine_patch ?q boot_machine = Done (m', p)
      \<and> mc_ran m' = mc_ran boot_machine @ (''hostname '' @ ''x; reboot'') # ds"
    by (rule anonymous_runs_command [OF _ _ _ _ boot_nics])
      (use boot_rf_facts(1) boot_free(1) in \<open>simp_all add: boot_machine_def get_value_in\<close>)
  then show ?thesis by (simp add: boot_machine_def)
qed

section \<open>A refused change is kept\<close>

text \<open>C37. A PATCH of one of the manager's Ethernet interfaces with an IPv6 address, for an interface that has none, is
  answered with status 400; yet the description in the same body stays in the resource, while the saved
  file and the system's interface with the same name keep theirs.\<close>

theorem refused_patch_stays:
  assumes "q_uri q = nic_uri nic" "CHR ''/'' \<notin> set nic"
    "mc_ethernet m (nic_uri nic) = Some x" "mc_ethernet m (system_nic_uri nic) = Some y" "ei_ipv6 x = []"
    "get_string_value (q_body q) ''Description'' = (True, d)" "fst (get_json_value (q_body q) ''IPv6Addresses'')"
  shows "\<exists>m' x'. treat_machine_patch q m = Done (m', Some (error_reply ''Error Occur in EthernetInterface PATCH'' 400))
    \<and> mc_ethernet m' (nic_uri nic) = Some x' \<and> ei_description x' = d
    \<and> mc_ethernet m' (system_nic_uri nic) = Some y \<and> mc_rf m' = mc_rf m"
proof -
  obtain x' cs where p: "patch_ethernet_interface (q_body q) True (x, mc_ran m) = (False, x', cs)" "ei_description x' = d"
    using patch_ethernet_refused [OF assms(6,7,5), of True "mc_ran m"] by blast
  have "treat_machine_patch q m = Done (m\<lparr>mc_ethernet := (mc_ethernet m)(nic_uri nic := Some x'), mc_ran := cs\<rparr>,
      Some (error_reply ''Error Occur in EthernetInterface PATCH'' 400))"
    using assms(1,3,4) nic_uri_parts(3) [OF assms(2)]
    by (simp add: treat_nic [OF assms(1,2)] treat_ethernet_patch_def Let_def p(1) refuse_machine_def)
  then show ?thesis using p(2) assms(4) nic_uri_parts(7) [OF assms(2)] by auto
qed

lemma refused_patch_stays_witness:
  "\<exists>m' x'. treat_machine_patch \<lparr>q_uri = nic_uri ''NIC'', q_headers = [],
        q_body = JObj [(''Description'', JStr ''uplink''), (''IPv6Addresses'', JObj [])]\<rparr> boot_machine
      = Done (m', Some (error_reply ''Error Occur in EthernetInterface PATCH'' 400))
    \<and> mc_ethernet m' (nic_uri ''NIC'') = Some x' \<and> ei_description x' = ''uplink''
    \<and> mc_ethernet m' (system_nic_uri ''NIC'') = Some (boot_nic (system_nic_uri ''NIC'')) \<and> mc_rf m' = mc_rf boot_machine"
  by (rule refused_patch_stays [OF _ _ boot_nics])
    (simp_all add: get_value_in boot_nic_def new_ethernet_interface_def)

section \<open>The firewall after a restart\<close>







end
