(* ===== verification/Redfish_Retained.thy ===== *)
theory Redfish_Retained
  imports Redfish_Platform_Properties
begin

text \<open>
  What lasts: the NTP servers under any sequence of PATCH requests, the resources of a class under
  restarts (from the interpretations of \<open>saved_class\<close> and \<open>lossless_class\<close>), and the entries of a log
  that is full.
\<close>

section \<open>NTP servers\<close>

lemma save_file_network [simp]: "mc_network (save_file uri j m) = mc_network m"
  by (simp add: save_file_def)

lemma save_files_network: "mc_network (fold (\<lambda>f. save_file (u f) (j f)) fs m) = mc_network m"
  by (induction fs arbitrary: m) simp_all

lemmas answers_machine = saved_answer_def answer_machine_def refuse_machine_def

lemma ethernet_patch_network: "treat_ethernet_patch q m = Done (m', p) \<Longrightarrow> mc_network m' = mc_network m"
  by (auto simp: treat_ethernet_patch_def answers_machine Let_def split: option.splits prod.splits if_splits)

lemma fan_mode_network: "treat_fan_mode q m = Done (m', p) \<Longrightarrow> mc_network m' = mc_network m"
  by (auto simp: treat_fan_mode_def answers_machine Let_def save_files_network split: prod.splits bool.splits if_splits)

lemma manager_patch_network:
  assumes "q_uri q \<noteq> network_uri" "treat_manager_patch q m = Done (m', p)"
  shows "mc_network m' = mc_network m"
  using assms ethernet_patch_network [of q m m' p] fan_mode_network [of q m m' p]
  by (auto simp: treat_manager_patch_def answers_machine Let_def network_uri_def split: prod.splits if_splits)

lemma machine_patch_network:
  assumes "q_uri q \<noteq> network_uri" "treat_machine_patch q m = Done (m', p)"
  shows "mc_network m' = mc_network m"
  using assms(2) manager_patch_network [OF assms(1), of m m' p]
  by (auto simp: treat_machine_patch_def answers_machine Let_def done_simps split: prod.splits if_splits)

lemma network_patch_servers:
  assumes "treat_network_patch q m = Done (m', p)" "mc_network m = Some x"
  shows "\<exists>x' new. mc_network m' = Some x' \<and> np_servers x' = np_servers x @ new \<and> distinct new
    \<and> set new \<inter> set (np_servers x) = {}"
proof -
  obtain r x' where p: "patch_network_protocol (q_body q) x = (r, x')" by (metis prod.exhaust)
  have "mc_network m' = Some x'"
    using assms p by (auto simp: treat_network_patch_def answers_machine split: option.splits bool.splits)
  then show ?thesis
    using add_servers_only [of "server_elements (snd (get_json_value (snd (get_json_value (q_body q) ''NTP'')) ''NTPServers''))"
        "patch_protocols (q_body q) x"] p
    by (auto simp: patch_network_protocol_def patch_protocols_servers)
qed

text \<open>Any sequence of PATCH requests that are answered.\<close>

inductive patched :: "machine \<Rightarrow> machine \<Rightarrow> bool" where
  patched_none: "patched m m"
| patched_more: "patched m m1 \<Longrightarrow> handle_machine_patch q m1 = Done (m2, p) \<Longrightarrow> patched m m2"

lemma handle_network:
  assumes "handle_machine_patch q m = Done (m', p)"
  shows "mc_network m' = mc_network m \<or>
    (\<exists>f m2 p2. treat_network_patch q (m\<lparr>mc_rf := f\<rparr>) = Done (m2, p2) \<and> mc_network m' = mc_network m2)"
proof -
  obtain n f where g: "generate_task_resource ''PATCH'' q (mc_rf m) = Done (n, f)"
    using assms by (auto simp: handle_machine_patch_def done_simps)
  let ?t = "treat_machine_patch q (m\<lparr>mc_rf := f\<rparr>)"
  have "mc_network m' = mc_network m \<or> (\<exists>m2 p2. ?t = Done (m2, p2) \<and> mc_network m' = mc_network m2)"
    using assms g by (cases ?t) (auto simp: handle_machine_patch_def Let_def done_simps split: option.splits exn.splits)
  then show ?thesis
    using machine_patch_network [of q "m\<lparr>mc_rf := f\<rparr>"] treat_network [of q "m\<lparr>mc_rf := f\<rparr>"]
    by (cases "q_uri q = network_uri") auto
qed

text \<open>C13. NTP servers are only ever added. Whatever is sent, in however many requests, the servers known
  before stay at the front of the list, and no server is in the added part twice.\<close>

theorem ntp_servers_only_added:
  assumes "patched m m'" "mc_network m = Some x"
  shows "\<exists>x' new. mc_network m' = Some x' \<and> np_servers x' = np_servers x @ new \<and> distinct new
    \<and> set new \<inter> set (np_servers x) = {}"
  using assms
proof (induction rule: patched.induct)
  case (patched_none m)
  then show ?case by simp
next
  case (patched_more m m1 q m2 p)
  then obtain x1 new where x1: "mc_network m1 = Some x1" "np_servers x1 = np_servers x @ new" "distinct new"
      "set new \<inter> set (np_servers x) = {}" by blast
  from handle_network [OF patched_more.hyps(2)] show ?case
  proof
    assume "mc_network m2 = mc_network m1"
    then show ?thesis using x1 by simp
  next
    assume "\<exists>f m3 p2. treat_network_patch q (m1\<lparr>mc_rf := f\<rparr>) = Done (m3, p2) \<and> mc_network m2 = mc_network m3"
    then obtain f m3 p2 where t: "treat_network_patch q (m1\<lparr>mc_rf := f\<rparr>) = Done (m3, p2)" "mc_network m2 = mc_network m3"
      by blast
    obtain x2 new2 where "mc_network m3 = Some x2" "np_servers x2 = np_servers x1 @ new2" "distinct new2"
        "set new2 \<inter> set (np_servers x1) = {}"
      using network_patch_servers [OF t(1), of x1] x1(1) by auto
    then show ?thesis using x1 t(2) by (intro exI [of _ x2] exI [of _ "new @ new2"]) auto
  qed
qed

lemma network_patch_handled:
  assumes "rf_inv (mc_rf m)" "1 \<le> free_numbers (mc_rf m) ALLOCATE_TASK_NUM"
    "q_uri q = network_uri" "mc_network m = Some x" "patch_network_protocol (q_body q) x = (Some True, x')"
  shows "\<exists>m' p. handle_machine_patch q m = Done (m', p) \<and> mc_network m' = Some x'"
  by (rule machine_patch_handled [OF assms(1,2)])
    (use assms(3-5) in \<open>simp_all add: treat_network treat_network_patch_def answers_machine save_file_def same_disk\<close>)

definition ntp_request :: "string list \<Rightarrow> request" where
  "ntp_request vs = \<lparr>q_uri = network_uri, q_headers = [],
     q_body = JObj [(''NTP'', JObj [(''NTPServers'', json_strings vs)])]\<rparr>"

lemma ntp_request_result:
  "patch_network_protocol (q_body (ntp_request vs)) x = add_servers (map Some vs) (False, x)"
  by (simp add: patch_network_protocol_def patch_protocols_def patch_object_def patch_field_def patch_protocol_def
      get_value_in server_elements_def json_strings_def ntp_request_def comp_def)

lemma ntp_servers_only_added_witness:
  "\<exists>m' p. handle_machine_patch (ntp_request [''a'', ''b'', ''a'']) boot_machine = Done (m', p)
    \<and> (\<exists>x' new. mc_network m' = Some x' \<and> np_servers x' = np_servers (boot_network True 22) @ new \<and> distinct new
      \<and> set new \<inter> set (np_servers (boot_network True 22)) = {}) \<and> np_servers (the (mc_network m')) = [''a'', ''b'']"
proof -
  let ?n = "boot_network True 22"
  have n: "mc_network boot_machine = Some ?n" by (simp add: boot_machine_def)
  obtain m' p where m': "handle_machine_patch (ntp_request [''a'', ''b'', ''a'']) boot_machine = Done (m', p)"
      "mc_network m' = Some (?n\<lparr>np_servers := [''a'', ''b'']\<rparr>)"
    using network_patch_handled [of boot_machine "ntp_request [''a'', ''b'', ''a'']" ?n "?n\<lparr>np_servers := [''a'', ''b'']\<rparr>"]
      boot_rf_facts(1) boot_free(1) n ntp_request_result [of "[''a'', ''b'', ''a'']" ?n]
    by (auto simp: boot_machine_def boot_network_def ntp_request_def)
  from ntp_servers_only_added [OF patched_more [OF patched_none m'(1)] n] m' show ?thesis by auto
qed

section \<open>Restarts\<close>


text \<open>C39. Eight classes lose nothing: RADIUS, fans, processors, memory modules, software, roles, subscriptions
  and log entries are after any number of restarts what they were before the first; each restart
  reads the saved file into a new object, whose vectors are empty, whatever else its memory holds.\<close>

theorem resources_come_back:
  "restarts radius_json radius_load rs radius = radius
   \<and> restarts fan_json fan_load fs fan = fan
   \<and> restarts processor_json processor_load ps processor = processor
   \<and> restarts memory_json memory_load (map (\<lambda>y. y\<lparr>mm_media := [], mm_max_tdp := []\<rparr>) ms) memory = memory
   \<and> restarts software_json software_load (map (\<lambda>y. y\<lparr>si_uefi_paths := []\<rparr>) ss) software = software
   \<and> restarts role_json role_load (map (\<lambda>y. y\<lparr>rr_privileges := []\<rparr>) os) role = role
   \<and> restarts dest_json dest_load ds dest = dest
   \<and> restarts log_entry_json log_entry_load (map (\<lambda>y. y\<lparr>le_args := []\<rparr>) ls) log_entry = log_entry"
  by (intro conjI radius_file.restarts_id fan_file.restarts_id processor_file.restarts_id memory_file.restarts_id
      software_file.restarts_id role_file.restarts_id dest_file.restarts_id log_entry_file.restarts_id)
    (simp_all add: list_all_iff)

section \<open>A full log\<close>

lemma log_step:
  assumes "lv_entry (lg_service s) = Some u" "sensor_of (ev_sensor e) = Ret n"
  shows "lg_service (fst (new_log_entry e s)) = (if lv_max_records (lg_service s) < lv_entry_count (lg_service s) then lg_service s
      else (lg_service s)\<lparr>lv_entry_count := lv_entry_count (lg_service s) + 1\<rparr>)"
    "map le_message (lg_members (fst (new_log_entry e s))) = map le_message (lg_members s)
      @ (if lv_max_records (lg_service s) < lv_entry_count (lg_service s) then [] else [ev_message e])"
  using assms by (simp_all add: new_log_entry_def Let_def make_log_entry_def)

lemma count_next:
  fixes c m :: u32
  assumes "m < - 1" "unat c \<le> unat m"
  shows "unat (c + 1) = unat c + 1"
proof -
  have "unat m < 4294967295"
    using assms(1) by (simp add: word_less_nat_alt unsigned_minus_1_eq_mask mask_eq_exp_minus_1)
  then have "unat c + 1 < 2 ^ 32" using assms(2) by simp
  then show ?thesis by (simp add: unat_word_ariths)
qed

lemma log_fills:
  assumes "lv_entry (lg_service s) \<noteq> None" "lv_max_records (lg_service s) < - 1"
    "unat (lv_entry_count (lg_service s)) \<le> unat (lv_max_records (lg_service s)) + 1"
    "list_all (\<lambda>e. \<exists>n. sensor_of (ev_sensor e) = Ret n) es"
  shows "map le_message (lg_members (log_all es s)) = map le_message (lg_members s)
    @ take (unat (lv_max_records (lg_service s)) + 1 - unat (lv_entry_count (lg_service s))) (map ev_message es)"
  using assms
proof (induction es arbitrary: s)
  case Nil
  then show ?case by (simp add: log_all_def)
next
  case (Cons e es)
  let ?m = "lv_max_records (lg_service s)" and ?c = "lv_entry_count (lg_service s)" and ?s = "fst (new_log_entry e s)"
  obtain u n where un: "lv_entry (lg_service s) = Some u" "sensor_of (ev_sensor e) = Ret n" using Cons.prems(1,4) by auto
  note step = log_step [OF un]
  have all: "log_all (e # es) s = log_all es ?s" by (simp add: log_all_def)
  show ?case
  proof (cases "?m < ?c")
    case True
    then have "unat ?m < unat ?c" by (simp only: unat_mono)
    then show ?thesis using Cons.IH [of ?s] Cons.prems True step all by simp
  next
    case False
    then have le: "unat ?c \<le> unat ?m" by (simp add: word_le_nat_alt not_less)
    have "unat (?c + 1) = unat ?c + 1" by (rule count_next [OF Cons.prems(2) le])
    then show ?thesis using Cons.IH [of ?s] Cons.prems False step all le
      by (simp add: Suc_diff_le)
  qed
qed

text \<open>C40. A log says it wraps when it is full, but it keeps the oldest entries: of a list of events, exactly
  the first are logged until the count is one above the maximum, and all later ones are dropped.\<close>

theorem log_stops_when_full:
  assumes "lv_entry (lg_service s) \<noteq> None" "lv_max_records (lg_service s) < - 1"
    "lv_entry_count (lg_service s) \<le> lv_max_records (lg_service s)"
    "list_all (\<lambda>e. \<exists>n. sensor_of (ev_sensor e) = Ret n) es"
  shows "map le_message (lg_members (log_all es s)) = map le_message (lg_members s)
    @ take (unat (lv_max_records (lg_service s)) + 1 - unat (lv_entry_count (lg_service s))) (map ev_message es)"
  by (rule log_fills) (use assms in \<open>simp_all add: word_le_nat_alt\<close>)

definition blank_log :: log_service where
  "blank_log = \<lparr>rb_odata = [], rb_name = [], rb_type = 0, rb_otype = [], lv_id = [], lv_description = [], lv_datetime = [],
     lv_offset = [], lv_max_records = 0, lv_entry_type = [], lv_policy = [], lv_enabled = False, lv_state = [],
     lv_health = [], lv_entry_count = 0, lv_entry = None, lv_actions = []\<rparr>"

definition fan_event :: log_event where
  "fan_event = \<lparr>ev_time = [], ev_message = ''fan'', ev_args = [], ev_sensor = [], ev_severity = ''Warning''\<rparr>"

lemma log_stops_when_full_witness:
  "lv_policy (lg_service (init_log_service ''/Log'' ''Log'' [] 0 blank_log)) = ''WrapsWhenFull''
   \<and> map le_message (lg_members (log_all (replicate 5000 fan_event) (init_log_service ''/Log'' ''Log'' [] 0 blank_log)))
     = [] # replicate 1001 ''fan''"
proof -
  let ?s = "init_log_service ''/Log'' ''Log'' [] 0 blank_log"
  have s: "lv_entry (lg_service ?s) = Some ''/Log/Entries''" "lv_max_records (lg_service ?s) = 1000"
      "lv_entry_count (lg_service ?s) = 0" "lv_policy (lg_service ?s) = ''WrapsWhenFull''"
      "map le_message (lg_members ?s) = [[]]"
    by (simp_all add: init_log_service_def new_log_service_def blank_log_def Let_def)
  have "map le_message (lg_members (log_all (replicate 5000 fan_event) ?s))
      = map le_message (lg_members ?s) @ take (unat (lv_max_records (lg_service ?s)) + 1 - unat (lv_entry_count (lg_service ?s)))
        (map ev_message (replicate 5000 fan_event))"
    by (rule log_stops_when_full) (simp_all add: s list_all_iff fan_event_def sensor_of_def)
  then show ?thesis using s by (simp add: fan_event_def)
qed

end
