(* ===== verification/Spec2Isabelle.thy ===== *)
theory Spec2Isabelle
  imports Ipmi_Message Sel_Properties Sel_Persistence Rmcp_Properties Checksum Lan_Config Redfish_Properties Ipmb Rest_Properties Power_Lifetime Ssdp_Properties Redfish_Retained
begin

text \<open>
  A verification development for the management firmware of a server board (BMC).

  The program. A BMC answers IPMI commands that arrive over the LAN (RMCP+ packets with IPMI
  messages inside) and keeps the state these commands are about: users, sessions, channels, an
  event log, a sensor repository, chassis and power settings, the network configuration. The
  modelled path is KETI-Edge/rmcp.cpp (RMCP+ handshake and session packets),
  KETI-Edge/msg_session.cpp (message framing), \<open>ipmi_handle\<close> in libs/apps/apps.cpp (dispatch by net
  function and command) and the components under libs/. The same process serves a redfish tree over
  HTTP (KETI-Edge/handler.cpp, libs/redfish/), whose accounts mirror the IPMI users.

  Theories.
  \<^item> \<open>Bmc_Prelude\<close>: bytes, buffers, little-endian encodings, the request and response records of
    include/ipmi/ipmi.hpp, completion codes, and \<open>cres\<close>, the result of a C function that may fail or
    be undefined.
  \<^item> \<open>Contracts\<close>: the interfaces as locales: \<open>reservation\<close> (a counter whose old values go stale),
    \<open>bounded_log\<close> (an implementation that refines an abstract log), \<open>buffered_handler\<close> (a dispatcher
    that keeps an invariant and its response buffer); and \<open>safe_for\<close>, the last contract for one
    request. Each is interpreted on the model where it is provided.
  \<^item> \<open>Checksum\<close>: \<open>ipmi_checksum\<close> (msg_session.cpp) and \<open>keti_ipmi_checksum\<close> (libs/fru/fru.cpp), with the
    locale \<open>checksum_scheme\<close>.
  \<^item> \<open>Sel_Log\<close>, \<open>Sel_Commands\<close>: the event log of libs/sel/sel.cpp in memory and in its file, and its
    storage commands. \<open>Sel_Facts\<close> has the invariant \<open>sel_inv\<close>, the effect of each operation and the
    interpretations; \<open>Sel_Properties\<close> and \<open>Sel_Persistence\<close> the properties: refinement of a bounded
    log, reading by record id, reservations, recovery from the file.
  \<^item> \<open>User_Db\<close>, \<open>User_Properties\<close>: libs/user/user.cpp and the user commands of apps.cpp.
  \<^item> \<open>Session_Mgr\<close>: libs/session/session.cpp and the session commands; \<open>session_inv\<close>.
  \<^item> \<open>Channel_Cfg\<close>, \<open>Chassis_Ctl\<close>, \<open>Dcmi_Cfg\<close>: the classes of libs/channel, libs/chassis, libs/dcmi.
  \<^item> \<open>Sdr_Repo\<close>, \<open>Sdr_Properties\<close>: the sensor repository of libs/sdr/sdr.cpp.
  \<^item> \<open>App_Cmds\<close>: the remaining application commands and libs/sol/sol.cpp.
  \<^item> \<open>Lan_Config\<close>: the LAN channels of libs/network/network.cpp and the thread that applies a change.
  \<^item> \<open>Pef_Filters\<close>, \<open>Pef_Policy\<close>, \<open>Pef_Commands\<close>, \<open>Pef_Properties\<close>: the event filters of
    libs/sel/efte.cpp, the alert policies of libs/sel/pef_policy.cpp, their files, commands and listing.
  \<^item> \<open>Fru_Store\<close>, \<open>Fru_Properties\<close>: the inventory of libs/fru/fru.cpp, its reads and its setters.
  \<^item> \<open>Handler_Safety\<close>: every command keeps its component's invariant and the response buffer.
  \<^item> \<open>Dispatch\<close>: \<open>ipmi_handle\<close> over the product of the components, as an instance of the contract.
  \<^item> \<open>Ipmi_Message\<close>: \<open>ipmi_msg_process_packet\<close>.
  \<^item> \<open>Rmcp_Plus\<close>, \<open>Rmcp_Properties\<close>: class \<open>Rmcppacket\<close> of KETI-Edge/rmcp.cpp.
  \<^item> \<open>Redfish_Util\<close>: strings, URIs, numbers in use and JSON values (libs/redfish/util.cpp).
    \<open>Redfish_Record\<close>: the resource classes, their JSON and the map \<open>g_record\<close>, with objects at addresses
    of a heap (include/redfish/resource.hpp, libs/redfish/resource.cpp and record.cpp), and
    \<open>plat_user_save\<close> on it. \<open>Redfish_Service\<close>: accounts, roles, sessions, subscriptions and tasks
    (KETI-Edge/handler.cpp). \<open>Redfish_Http\<close>: the request handlers, the step relation \<open>rf_step\<close> of a
    client's requests and timer ticks, and the start on an empty disk (KETI-Edge/init.cpp).
  \<^item> \<open>Redfish_Numbers\<close>: when the search for a free number ends. \<open>Redfish_Facts\<close>: the well-formedness
    \<open>rf_inv\<close> of the record. \<open>Redfish_Steps\<close>: every operation is a sequence of five primitive changes,
    \<open>rf_prim\<close>; \<open>Redfish_Access\<close>: so what the primitives keep holds in all reachable states (locale
    \<open>prim_invariant\<close>). \<open>Redfish_Users\<close>: the refinement of the user table. \<open>Redfish_Boot\<close> and
    \<open>Redfish_Requests\<close>: the start, and when requests are served. \<open>Redfish_Properties\<close>: the properties.
  \<^item> \<open>Ipmb\<close>: the IPMB client of libs/ipmb/ipmb.cpp and the users of its answers in
    libs/lightning/lightning_sensor.cpp: frames, the receive thread, the three requests. The step
    relation \<open>bus_step\<close> has a packet and each request as its events; a frame gives back its message,
    and the temperatures change only on an answer to the request that was sent.
  \<^item> \<open>Rest_Settings\<close>: the binary files with the LDAP, Active Directory, RADIUS, SMTP and certificate
    settings (apps.cpp). \<open>Rest_Commands\<close>: \<open>ipmi_handle_rest\<close> of apps.cpp, one routine per command, over
    a state with the users, interfaces, chassis, inventory and these files. \<open>Rest_Web\<close>: the request
    builders of KETI-REST/req.cpp, the message queues between the web server and the controller, and
    URL handlers of KETI-REST/rhandler.cpp, in a monad whose results are an answer, an uncaught
    exception or undefined behaviour. \<open>Rest_Properties\<close>: settings that come back, settings that never
    take effect, what anyone can do without credentials, and the shape every command keeps; the
    locale \<open>lan_fields\<close> is the contract of the network commands, interpreted for two invariants.
  \<^item> \<open>Power_Meter\<close>: the sampler of KETI-Edge/psu_server.cpp with its six tables. \<open>Power_Report\<close>: the
    power statistics at the end of apps.cpp, from the tables to the JSON text. \<open>Power_Facts\<close>: a table
    and its cursor are a window over the last samples (an interpretation of \<open>sample_window\<close>), and the
    schedule of the counters. \<open>Power_Properties\<close>: when each part of the report is defined.
    \<open>Power_Lifetime\<close>: sampler and report composed, and what a restart overwrites.
  \<^item> \<open>Ssdp\<close>: the discovery service of KETI-Edge/lssdp.cpp and its thread in khandler.cpp. \<open>Ssdp_Facts\<close>:
    the index arithmetic of the parser as operations on a line, and the neighbours as an instance of
    the locale \<open>expiring_map\<close>. \<open>Ssdp_Properties\<close>: announcements come back from the parser, how long a
    neighbour is known, and when a round of the thread is undefined.
  \<^item> \<open>Redfish_Load\<close>: how a resource is read from its file (\<open>load_json\<close> in libs/redfish/resource.cpp): a
    list of steps of which the first that throws is the last, and what was assigned before stays. The
    locales \<open>saved_class\<close> and \<open>lossless_class\<close> state what a class promises about its file, with the
    consequences for any number of restarts proved once; \<open>vector_member\<close> is a member that collects a
    JSON array. \<open>Redfish_Platform\<close> (manager, network protocols, RADIUS, Ethernet interfaces, system,
    chassis), \<open>Redfish_Parts\<close> (fans, processors, memory), \<open>Redfish_Stores\<close> (drives, volumes, BIOS,
    software, services) and \<open>Redfish_Logs\<close> have the classes of include/redfish/resource.hpp as records
    that extend \<open>resource\<close>, their JSON, their loads and the interpretations. \<open>Redfish_Patch\<close>: PATCH of
    these resources (handler.cpp), the firewall rules and the commands that are run, over the state
    \<open>machine\<close>. \<open>Redfish_Patch_Facts\<close>: URIs, and what an assignment keeps. \<open>Redfish_Platform_Properties\<close>
    and \<open>Redfish_Retained\<close>: what a PATCH does without a session or after it was refused, and what lasts
    over restarts, over any sequence of requests, and in a full log.
  This theory has the properties that span components.

  Conventions. A class or global of the code is a record and a method a function on it, with its
  name; a C integer that does not overflow is \<open>int\<close> and a byte, half-word or word keeps its width.
  A command is a \<open>handler\<close>: state, request and response under construction to the new state and
  response, or \<open>None\<close> where the code leaves an array, dereferences the end of a map, uses an
  unset local or otherwise has undefined behaviour. A response is written into a list of 125
  bytes, and a write past it makes the list longer, so \<open>res_fits\<close> is the absence of an overflow.
  What the code reads from outside (files, clock, sensors, ARP, hashes, uninitialised memory) is a
  field of the state or an argument. In \<open>Rmcp_Plus\<close> small writes past a local array are recorded
  instead of being undefined, because the code makes one in every handshake.

  Bounds. Reading the log or the repository by record ids is modelled with fuel: 255 and 128 reads,
  the sizes of the tables, which the theorems show to be enough. The loops of the code are
  structural recursion or have a measure; the FRU checksum, which may run for ever, is a partial
  function with a theorem for exactly which lengths it ends.

  Not modelled. Of the web interface the reports (JSON over files, sensors and /proc), the DNS, NTP,
  sensor threshold and service settings and the URL handlers that serve them; of redfish the power, thermal
  and sensor classes, whose members are of type double, certificates, virtual media, actions and the
  discovery of hardware;
  the daemons around the message layer, device access, tables of strings and sensors, and the
  session wrapper of msg_session.cpp, whose copy past a member is undefined for every packet. The
  order planned for them: the remaining settings and URL handlers, then the redfish actions.
\<close>

section \<open>A concrete controller\<close>

definition boot_bmc :: "sensor list \<Rightarrow> bmc" where
  "boot_bmc ss = \<lparr>b_sel = sel_new, b_sdr = boot_sdr ss, b_users = boot_users,
     b_channels = boot_channels, b_sessions = boot_sessions, b_chassis = boot_chassis 200 0,
     b_dcmi = plat_dcmi_init (new_dcmi [] 0 0), b_app = (new_app 0 0 (replicate 16 0))\<lparr>ap_enables := 8\<rparr>,
     b_sol = new_sol, b_lans = map (\<lambda>c. new_lan c sample_info None) [1, 6, 7, 8],
     b_pef = blank_pef, b_fru = booted_fru, b_junk = 0\<rparr>"



section \<open>Buffer safety\<close>





section \<open>Global enables\<close>

definition sel_command :: "u8 \<Rightarrow> bool" where
  "sel_command c \<longleftrightarrow> c = 0x42 \<or> c = 0x43 \<or> c = 0x44 \<or> c = 0x46 \<or> c = 0x47"

lemma event_logged:
  assumes inv: "sel_inv s" and st: "sel_stored s" and room: "plat_sel_num_entries s < 253"
  shows "\<exists>s' r'. sensor_event_get_num s q r = Some (s', r') \<and> r_cc r' = CC_SUCCESS
    \<and> sel_entries s' = sel_entries s @ [s_junk s 7 # s_junk s 8 # req_bytes q 0 7]"
proof -
  let ?m = "map (s_junk s) [0..<9] @ req_bytes q 0 7"
  have m: "length ?m = 16" by simp
  have d: "drop 7 ?m = s_junk s 7 # s_junk s 8 # req_bytes q 0 7"
    by (simp add: drop_map upt_conv_Cons numeral_eq_Suc)
  obtain c s' where add: "plat_sel_add_entry s ?m = (c, s')" by (cases "plat_sel_add_entry s ?m")
  have "c = Ret (sel_end s)" using sel_add_result [OF inv st m] room add by simp
  moreover have "sel_entries s' = sel_entries s @ [drop 7 ?m]"
    using sel_add_spec [OF inv m st] add room num_entries_entries [OF inv]
    by (simp add: log_step_def)
  ultimately show ?thesis using d add by (simp add: sensor_event_get_num_def sel_add_reply_def)
qed

text \<open>After "set BMC global enables" without bit 3, the five commands on the event log are refused with
  0xD6 and leave the controller as it is, but a platform event message still adds its entry to the
  log.\<close>

theorem disabled_log_still_logs_events:
  assumes "netfn_of rmcp q0 = 0x06" and "q_cmd q0 = 0x2E" and "req_byte q0 0 AND 0x8 = 0"
    and "netfn_of rmcp q1 = 0x0A" and "sel_command (q_cmd q1)"
    and "netfn_of rmcp q2 = 0x04" and "q_cmd q2 = 0x02"
    and "sel_inv (b_sel b)" and "sel_stored (b_sel b)" and "plat_sel_num_entries (b_sel b) < 253"
  shows "\<exists>b1 r0 r1 b2 r2. ipmi_handle rmcp b q0 r = Some (b1, r0)
    \<and> ipmi_handle rmcp b1 q1 r = Some (b1, r1) \<and> r_cc r1 = CC_DISABLED
    \<and> ipmi_handle rmcp b1 q2 r = Some (b2, r2) \<and> r_cc r2 = CC_SUCCESS
    \<and> sel_entries (b_sel b2) = sel_entries (b_sel b) @ [s_junk (b_sel b) 7 # s_junk (b_sel b) 8 # req_bytes q2 0 7]"
proof -
  define b1 where "b1 = b\<lparr>b_app := (b_app b)\<lparr>ap_enables := req_byte q0 0\<rparr>\<rparr>"
  have "\<exists>r0. ipmi_handle rmcp b q0 r = Some (b1, r0)"
    using assms(1,2) by (simp add: ipmi_handle_def ipmi_dispatch_def ipmi_handle_app_def on_app_def
        app_set_global_enables_def b1_def)
  moreover have "\<exists>r1. ipmi_handle rmcp b1 q1 r = Some (b1, r1) \<and> r_cc r1 = CC_DISABLED"
    using assms(3-5)
    by (auto simp: ipmi_handle_def ipmi_dispatch_def ipmi_handle_storage_def if_sel_enabled_def
        sel_command_def b1_def Let_def)
  moreover have "\<exists>b2 r2. ipmi_handle rmcp b1 q2 r = Some (b2, r2) \<and> r_cc r2 = CC_SUCCESS
    \<and> sel_entries (b_sel b2) = sel_entries (b_sel b) @ [s_junk (b_sel b) 7 # s_junk (b_sel b) 8 # req_bytes q2 0 7]"
  proof -
    let ?r = "set_cc CC_SUCCESS (answer_as 0x05 (set_len 0 (set_cc CC_UNSPECIFIED_ERROR r\<lparr>r_cmd := q_cmd q2\<rparr>)))"
    obtain s' r' where "sensor_event_get_num (b_sel b) q2 ?r = Some (s', r')"
      and "sel_entries s' = sel_entries (b_sel b) @ [s_junk (b_sel b) 7 # s_junk (b_sel b) 8 # req_bytes q2 0 7]"
      using event_logged [OF assms(8-10), of q2 ?r] by blast
    then show ?thesis
      using assms(6,7) by (simp add: ipmi_handle_def ipmi_dispatch_def ipmi_handle_sensor_def
          then_success_def on_sel_def b1_def)
  qed
  ultimately show ?thesis by blast
qed

lemma disabled_log_still_logs_events_witness:
  "\<exists>b1 r0 r1. ipmi_handle True (boot_bmc []) \<lparr>q_netfn = 6, q_cmd = 0x2E, q_data = [0]\<rparr> blank_res
       = Some (b1, r0)
     \<and> ipmi_handle True b1 \<lparr>q_netfn = 0x0A, q_cmd = 0x42, q_data = []\<rparr> blank_res = Some (b1, r1)
     \<and> r_cc r1 = CC_DISABLED"
proof -
  have s: "b_sel (boot_bmc []) = sel_new" by (simp add: boot_bmc_def)
  from disabled_log_still_logs_events [where rmcp = True and b = "boot_bmc []"
      and r = blank_res and ?q0.0 = "\<lparr>q_netfn = 6, q_cmd = 0x2E, q_data = [0]\<rparr>"
      and ?q1.0 = "\<lparr>q_netfn = 0x0A, q_cmd = 0x42, q_data = []\<rparr>"
      and ?q2.0 = "\<lparr>q_netfn = 0x04, q_cmd = 0x02, q_data = []\<rparr>"]
  show ?thesis
    using sel_new_ok by (simp add: s netfn_of_def sel_command_def) blast
qed

section \<open>Errors of the event filters\<close>

text \<open>A filter number the table does not have is refused by "set PEF configuration parameters", and
  the dispatcher answers with success.\<close>

theorem pef_refusal_reported_as_success:
  assumes "netfn_of rmcp q = 0x04" and "q_cmd q = 0x12" and "req_byte q 0 = 6" and "126 < req_byte q 1"
    and "eft_sync (b_pef b)"
  shows "(\<exists>s. pef_set_config_param (b_pef b) q r = Some (s, set_cc CC_UNSPECIFIED_ERROR r))
    \<and> (\<exists>b' r'. ipmi_handle rmcp b q r = Some (b', r') \<and> r_cc r' = CC_SUCCESS
        \<and> ef_data (b_pef b') = ef_data (b_pef b))"
proof -
  have w: "ef_writable (b_pef b)" and ne: "eft_contents (b_pef b) \<noteq> []"
    using assms(5) by (auto simp: eft_sync_def eft_agrees_def Let_def)
  have "set_eft_entry (req_byte q 1) src (b_pef b)
      = (-1, (b_pef b)\<lparr>ef_file := Some (eft_contents (b_pef b))\<rparr>)" for src
    using w ne assms(4) by (simp add: set_eft_entry_def after_init_writable num_from_file)
  then have "pef_set_config_param (b_pef b) q r'
      = Some ((b_pef b)\<lparr>ef_file := Some (eft_contents (b_pef b))\<rparr>, set_cc CC_UNSPECIFIED_ERROR r')" for r'
    using assms(3) by (simp add: pef_set_config_param_def pef_set_result_eq)
  then show ?thesis
    using assms(1,2)
    by (simp add: ipmi_handle_def ipmi_dispatch_def ipmi_handle_sensor_def then_success_def on_pef_def
        Let_def)
qed

lemma pef_refusal_reported_as_success_witness:
  "\<exists>b' r'. ipmi_handle True (boot_bmc []) \<lparr>q_netfn = 4, q_cmd = 0x12, q_data = [6, 200, 0x80]\<rparr> blank_res
     = Some (b', r') \<and> r_cc r' = CC_SUCCESS"
proof -
  have s: "eft_sync (b_pef (boot_bmc []))" using blank_pef_sync by (simp add: boot_bmc_def)
  show ?thesis
    using pef_refusal_reported_as_success [OF _ _ _ _ s, where rmcp = True and r = blank_res and
        q = "\<lparr>q_netfn = 4, q_cmd = 0x12, q_data = [6, 200, 0x80]\<rparr>"]
    by (auto simp: netfn_of_def)
qed

section \<open>Answers that leave the response buffer\<close>





text \<open>A "get self test results" message and its answer, for \<open>message_reply_well_formed\<close>.\<close>

lemma message_reply_well_formed_witness:
  "\<exists>b' out. ipmi_msg_process_packet (boot_bmc []) [0x20, 0x18, 0xC8, 0x81, 0x04, 0x04, 0x77] = Some (b', out)
     \<and> length out = 10 \<and> sum_list (take 3 out) = 0 \<and> sum_list (drop 3 out) = 0 \<and> out ! 0 = 0x81"
proof -
  let ?p = "[0x20, 0x18, 0xC8, 0x81, 0x04, 0x04, 0x77] :: u8 list"
  have "\<exists>b' out. ipmi_msg_process_packet (boot_bmc []) ?p = Some (b', out) \<and> length out = 10"
    by (simp add: ipmi_msg_process_packet_def msg_request_def ipmi_handle_def ipmi_dispatch_def
        netfn_of_def ipmi_handle_app_def on_app_def app_bmc_selftest_def answer_as_def msg_data_def
        res_fits_def res_buf_def msg_reply_eq write_at_def blank_res_def)
  then obtain b' out where out: "ipmi_msg_process_packet (boot_bmc []) ?p = Some (b', out)"
    "length out = 10" by blast
  from message_reply_well_formed [OF out(1)] out show ?thesis by auto
qed

end
